(* ===== verification/Prelude.thy ===== *)
theory Prelude
  imports Main "HOL-Library.Product_Lexorder"
begin

text \<open>
  The shared vocabulary of the development: Python exceptions as values, programs over an
  explicit state that end in a value or an exception, their weakest preconditions, tables of
  rows with a primary key, and small facts on lists used by several components.
\<close>

named_theorems wp_simps "weakest preconditions of the program combinators"
named_theorems wp_intros "weakest preconditions as introduction rules, one goal per path"
named_theorems row_simps "reading tables after a write"

section \<open>Exceptions\<close>

text \<open>
  One constructor per exception class the modelled code raises, with its public code or
  message. \<open>InvalidJobTransition\<close>, \<open>JobConflict\<close> and \<open>UploadRejected\<close> are subclasses of
  Python's \<open>ValueError\<close>; the handlers below list the classes they catch.
\<close>

datatype exn =
    UploadRejected string
  | StorageUnavailable string
  | ValidationError string
  | ValueError string
  | TypeError string
  | OverflowError string
  | PermissionDenied string
  | WorkflowNotFound string
  | JobConflict string
  | InvalidJobTransition string
  | DoesNotExist string
  | MultipleObjectsReturned string
  | IntegrityError string
  | ImproperlyConfigured string
  | EccDecodeError string
  | KeyError string
  | AttributeError string
  | StructError string
  | RuntimeError string
  | ZeroDivisionError string
  | DemoIssuanceError string int
  | DemoVerificationError string int

section \<open>Results in sequence\<close>

definition sum_then :: "exn + 'a \<Rightarrow> ('a \<Rightarrow> exn + 'b) \<Rightarrow> exn + 'b" where
  "sum_then r f = (case r of Inl e \<Rightarrow> Inl e | Inr x \<Rightarrow> f x)"

definition sum_require :: "bool \<Rightarrow> exn \<Rightarrow> exn + unit" where
  "sum_require b e = (if b then Inr () else Inl e)"

lemma sum_then_simps [simp]: "sum_then (Inl e) f = Inl e" "sum_then (Inr x) f = f x"
  by (simp_all add: sum_then_def)

lemma sum_then_Inr: "sum_then r f = Inr y \<longleftrightarrow> (\<exists>x. r = Inr x \<and> f x = Inr y)"
  by (cases r) simp_all

lemma sum_require_Inr [simp]: "sum_require b e = Inr u \<longleftrightarrow> b"
  by (simp add: sum_require_def)

fun sum_map :: "('a \<Rightarrow> exn + 'b) \<Rightarrow> 'a list \<Rightarrow> exn + 'b list" where
  "sum_map f [] = Inr []"
| "sum_map f (x # xs) = sum_then (f x) (\<lambda>y. sum_then (sum_map f xs) (\<lambda>ys. Inr (y # ys)))"

lemma sum_map_length: "sum_map f xs = Inr ys \<Longrightarrow> length ys = length xs"
  by (induction xs arbitrary: ys) (auto simp: sum_then_Inr)

lemma sum_map_Inr: "sum_map f xs = Inr ys \<Longrightarrow> list_all2 (\<lambda>x y. f x = Inr y) xs ys"
  by (induction xs arbitrary: ys) (auto simp: sum_then_Inr)

definition sum_error :: "(exn \<Rightarrow> exn) \<Rightarrow> exn + 'a \<Rightarrow> exn + 'a" where
  "sum_error f r = (case r of Inl e \<Rightarrow> Inl (f e) | Inr x \<Rightarrow> Inr x)"

lemma sum_error_Inr [simp]: "sum_error f r = Inr x \<longleftrightarrow> r = Inr x"
  by (cases r) (simp_all add: sum_error_def)

section \<open>Programs\<close>

type_synonym ('s, 'a) prog = "'s \<Rightarrow> (exn + 'a) \<times> 's"

definition ret :: "'a \<Rightarrow> ('s, 'a) prog" where
  "ret x = (\<lambda>s. (Inr x, s))"

definition raise :: "exn \<Rightarrow> ('s, 'a) prog" where
  "raise e = (\<lambda>s. (Inl e, s))"

definition chain :: "('s, 'a) prog \<Rightarrow> ('a \<Rightarrow> ('s, 'b) prog) \<Rightarrow> ('s, 'b) prog" where
  "chain m k = (\<lambda>s. case m s of (Inl e, t) \<Rightarrow> (Inl e, t) | (Inr x, t) \<Rightarrow> k x t)"

text \<open>\<open>try: m except ...: h\<close>; the handler re-raises what it does not catch.\<close>

definition attempt :: "('s, 'a) prog \<Rightarrow> (exn \<Rightarrow> ('s, 'a) prog) \<Rightarrow> ('s, 'a) prog" where
  "attempt m h = (\<lambda>s. case m s of (Inl e, t) \<Rightarrow> h e t | (Inr x, t) \<Rightarrow> (Inr x, t))"

definition gets :: "('s \<Rightarrow> 'a) \<Rightarrow> ('s, 'a) prog" where
  "gets f = (\<lambda>s. (Inr (f s), s))"

definition modify :: "('s \<Rightarrow> 's) \<Rightarrow> ('s, unit) prog" where
  "modify f = (\<lambda>s. (Inr (), f s))"

definition require :: "bool \<Rightarrow> exn \<Rightarrow> ('s, unit) prog" where
  "require b e = (if b then ret () else raise e)"

definition lift_sum :: "exn + 'a \<Rightarrow> ('s, 'a) prog" where
  "lift_sum r = (\<lambda>s. (r, s))"

text \<open>\<open>try: m except Exception: pass\<close>.\<close>

definition swallow :: "('s, 'a) prog \<Rightarrow> ('s, unit) prog" where
  "swallow m = attempt (chain m (\<lambda>_. ret ())) (\<lambda>_. ret ())"

fun for_each :: "'a list \<Rightarrow> ('a \<Rightarrow> ('s, unit) prog) \<Rightarrow> ('s, unit) prog" where
  "for_each [] f = ret ()"
| "for_each (x # xs) f = chain (f x) (\<lambda>_. for_each xs f)"

section \<open>Weakest preconditions\<close>

text \<open>
  \<open>wp m Q E s\<close>: running \<open>m\<close> from \<open>s\<close> ends in a value and state satisfying \<open>Q\<close>, or in an
  exception and state satisfying \<open>E\<close>. Every program is total, so this is total correctness.
\<close>

definition wp :: "('s, 'a) prog \<Rightarrow> ('a \<Rightarrow> 's \<Rightarrow> bool) \<Rightarrow> (exn \<Rightarrow> 's \<Rightarrow> bool) \<Rightarrow> 's \<Rightarrow> bool" where
  "wp m Q E s = (case m s of (Inr x, t) \<Rightarrow> Q x t | (Inl e, t) \<Rightarrow> E e t)"

text \<open>
  Stated without the state argument, so that they also rewrite inside postconditions.
\<close>

lemma wp_ret [wp_simps]: "wp (ret x) Q E = Q x"
  by (rule ext) (simp add: wp_def ret_def)

lemma wp_raise [wp_simps]: "wp (raise e) Q E = E e"
  by (rule ext) (simp add: wp_def raise_def)

lemma wp_chain [wp_simps]: "wp (chain m k) Q E = wp m (\<lambda>x. wp (k x) Q E) E"
  by (rule ext) (simp add: wp_def chain_def split: prod.splits sum.splits)

lemma wp_attempt [wp_simps]: "wp (attempt m h) Q E = wp m Q (\<lambda>e. wp (h e) Q E)"
  by (rule ext) (simp add: wp_def attempt_def split: prod.splits sum.splits)

lemma wp_gets [wp_simps]: "wp (gets f) Q E = (\<lambda>s. Q (f s) s)"
  by (rule ext) (simp add: wp_def gets_def)

lemma wp_modify [wp_simps]: "wp (modify f) Q E = (\<lambda>s. Q () (f s))"
  by (rule ext) (simp add: wp_def modify_def)

lemma wp_require [wp_simps]: "wp (require b e) Q E = (\<lambda>s. if b then Q () s else E e s)"
  by (rule ext) (simp add: wp_def require_def ret_def raise_def)

lemma wp_lift_sum [wp_simps]:
  "wp (lift_sum r) Q E = (\<lambda>s. case r of Inl e \<Rightarrow> E e s | Inr x \<Rightarrow> Q x s)"
  by (rule ext) (simp add: wp_def lift_sum_def split: sum.splits)

lemma wp_swallow [wp_simps]: "wp (swallow m) Q E = wp m (\<lambda>_. Q ()) (\<lambda>_. Q ())"
  by (simp add: swallow_def wp_simps)

lemma wp_if [wp_simps]:
  "wp (if b then m else n) Q E = (\<lambda>s. if b then wp m Q E s else wp n Q E s)"
  by (rule ext) simp

lemma wp_option [wp_simps]:
  "wp (case x of None \<Rightarrow> m | Some y \<Rightarrow> f y) Q E =
     (\<lambda>s. case x of None \<Rightarrow> wp m Q E s | Some y \<Rightarrow> wp (f y) Q E s)"
  by (rule ext) (simp split: option.splits)

lemma wp_sum [wp_simps]:
  "wp (case x of Inl e \<Rightarrow> f e | Inr y \<Rightarrow> g y) Q E =
     (\<lambda>s. case x of Inl e \<Rightarrow> wp (f e) Q E s | Inr y \<Rightarrow> wp (g y) Q E s)"
  by (rule ext) (simp split: sum.splits)

lemma wp_list [wp_simps]:
  "wp (case xs of [] \<Rightarrow> m | y # ys \<Rightarrow> f y ys) Q E =
     (\<lambda>s. case xs of [] \<Rightarrow> wp m Q E s | y # ys \<Rightarrow> wp (f y ys) Q E s)"
  by (rule ext) (simp split: list.splits)

lemma wp_prod [wp_simps]:
  "wp (case p of (a, b) \<Rightarrow> f a b) Q E = (\<lambda>s. case p of (a, b) \<Rightarrow> wp (f a b) Q E s)"
  by (rule ext) (simp split: prod.splits)

lemma wp_mono:
  assumes "wp m Q E s" "\<And>x t. Q x t \<Longrightarrow> Q' x t" "\<And>e t. E e t \<Longrightarrow> E' e t"
  shows "wp m Q' E' s"
  using assms by (auto simp: wp_def split: prod.splits sum.splits)

lemma wp_conj:
  "wp m Q E s \<Longrightarrow> wp m Q' E' s \<Longrightarrow> wp m (\<lambda>x t. Q x t \<and> Q' x t) (\<lambda>e t. E e t \<and> E' e t) s"
  by (auto simp: wp_def split: prod.splits sum.splits)

lemma wp_InrD: "m s = (Inr x, t) \<Longrightarrow> wp m Q E s \<Longrightarrow> Q x t"
  by (simp add: wp_def)

lemma wp_InlD: "m s = (Inl e, t) \<Longrightarrow> wp m Q E s \<Longrightarrow> E e t"
  by (simp add: wp_def)

text \<open>An operation that is not modelled, by what it returned.\<close>

lemma wp_raw:
  "(\<And>x t. m s = (Inr x, t) \<Longrightarrow> Q x t) \<Longrightarrow> (\<And>e t. m s = (Inl e, t) \<Longrightarrow> E e t) \<Longrightarrow> wp m Q E s"
  by (auto simp: wp_def split: prod.splits sum.splits)

lemma wp_final: "wp m (\<lambda>_. P) (\<lambda>_. P) s = P (snd (m s))"
  by (auto simp: wp_def split: prod.splits sum.splits)

lemma wp_trivial [simp]: "wp m (\<lambda>_ _. True) (\<lambda>_ _. True) s"
  by (simp add: wp_def split: prod.splits sum.splits)

text \<open>
  The same facts as introduction rules: \<open>intro wp_intros\<close> leaves one goal for each way through a
  program, with the tests on the way as premises.
\<close>

lemma wpi_basic [wp_intros]:
  "Q x s \<Longrightarrow> wp (ret x) Q E s"
  "E e s \<Longrightarrow> wp (raise e) Q E s"
  "wp l (\<lambda>x. wp (k x) Q E) E s \<Longrightarrow> wp (chain l k) Q E s"
  "wp m Q (\<lambda>e. wp (h e) Q E) s \<Longrightarrow> wp (attempt m h) Q E s"
  "Q (f s) s \<Longrightarrow> wp (gets f) Q E s"
  "M () (g s) \<Longrightarrow> wp (modify g) M E s"
  "wp n (\<lambda>_. R ()) (\<lambda>_. R ()) s \<Longrightarrow> wp (swallow n) R E s"
  by (simp_all add: wp_simps)

lemma wpi_require [wp_intros]:
  "(b \<Longrightarrow> Q () s) \<Longrightarrow> (\<not> b \<Longrightarrow> E e s) \<Longrightarrow> wp (require b e) Q E s"
  by (simp add: wp_simps)

lemma wpi_lift_sum [wp_intros]:
  "(\<And>x. r = Inr x \<Longrightarrow> Q x s) \<Longrightarrow> (\<And>e. r = Inl e \<Longrightarrow> E e s) \<Longrightarrow> wp (lift_sum r) Q E s"
  by (cases r) (simp_all add: wp_simps)

lemma wpi_if [wp_intros]:
  "(b \<Longrightarrow> wp m Q E s) \<Longrightarrow> (\<not> b \<Longrightarrow> wp n Q E s) \<Longrightarrow> wp (if b then m else n) Q E s"
  by simp

lemma wpi_option [wp_intros]:
  "(x = None \<Longrightarrow> wp m Q E s) \<Longrightarrow> (\<And>y. x = Some y \<Longrightarrow> wp (f y) Q E s) \<Longrightarrow>
     wp (case x of None \<Rightarrow> m | Some y \<Rightarrow> f y) Q E s"
  by (cases x) auto

lemma wpi_sum [wp_intros]:
  "(\<And>e. x = Inl e \<Longrightarrow> wp (f e) Q E s) \<Longrightarrow> (\<And>y. x = Inr y \<Longrightarrow> wp (g y) Q E s) \<Longrightarrow>
     wp (case x of Inl e \<Rightarrow> f e | Inr y \<Rightarrow> g y) Q E s"
  by (cases x) auto

lemma wpi_list [wp_intros]:
  "(xs = [] \<Longrightarrow> wp m Q E s) \<Longrightarrow> (\<And>y ys. xs = y # ys \<Longrightarrow> wp (f y ys) Q E s) \<Longrightarrow>
     wp (case xs of [] \<Rightarrow> m | y # ys \<Rightarrow> f y ys) Q E s"
  by (cases xs) auto

lemma wpi_prod [wp_intros]:
  "(\<And>a b. p = (a, b) \<Longrightarrow> wp (f a b) Q E s) \<Longrightarrow> wp (case p of (a, b) \<Rightarrow> f a b) Q E s"
  by (cases p) auto

lemma wpi_let [wp_intros]: "wp (f x) Q E s \<Longrightarrow> wp (Let x f) Q E s"
  by simp

section \<open>Guarantees\<close>

text \<open>
  \<open>guarantees R m\<close>: whatever \<open>m\<close> returns or raises, its initial and final states are related
  by \<open>R\<close>. For a preorder \<open>R\<close> the combinators keep it.
\<close>

definition guarantees :: "('s \<Rightarrow> 's \<Rightarrow> bool) \<Rightarrow> ('s, 'a) prog \<Rightarrow> bool" where
  "guarantees R m \<longleftrightarrow> (\<forall>s. R s (snd (m s)))"

lemma guaranteesI: "(\<And>s. wp m (\<lambda>_. R s) (\<lambda>_. R s) s) \<Longrightarrow> guarantees R m"
  by (simp add: guarantees_def wp_final)

lemma guarantees_wp: "guarantees R m \<Longrightarrow> wp m (\<lambda>_. R s) (\<lambda>_. R s) s"
  by (simp add: guarantees_def wp_final)

lemma guaranteesD: "guarantees R m \<Longrightarrow> m s = (r, t) \<Longrightarrow> R s t"
  by (metis guarantees_def snd_conv)

locale state_preorder =
  fixes R :: "'s \<Rightarrow> 's \<Rightarrow> bool"
  assumes refl: "R s s" and trans: "R s t \<Longrightarrow> R t u \<Longrightarrow> R s u"
begin

lemma g_ret: "guarantees R (ret x)"
  by (simp add: guarantees_def ret_def refl)

lemma g_raise: "guarantees R (raise e)"
  by (simp add: guarantees_def raise_def refl)

lemma g_gets: "guarantees R (gets f)"
  by (simp add: guarantees_def gets_def refl)

lemma g_require: "guarantees R (require b e)"
  by (simp add: require_def g_ret g_raise)

lemma g_lift_sum: "guarantees R (lift_sum r)"
  by (simp add: guarantees_def lift_sum_def refl)

lemma g_chain:
  assumes m: "guarantees R m" and k: "\<And>x. guarantees R (k x)"
  shows "guarantees R (chain m k)"
proof (rule guaranteesI)
  fix s
  have "wp m (\<lambda>x. wp (k x) (\<lambda>_. R s) (\<lambda>_. R s)) (\<lambda>_. R s) s"
  proof (rule wp_mono [OF guarantees_wp [OF m]])
    fix x t assume "R s t"
    with k show "wp (k x) (\<lambda>_. R s) (\<lambda>_. R s) t"
      by (auto simp: wp_final guarantees_def intro: trans)
  qed
  then show "wp (chain m k) (\<lambda>_. R s) (\<lambda>_. R s) s" by (simp add: wp_simps)
qed

lemma g_attempt:
  assumes m: "guarantees R m" and h: "\<And>e. guarantees R (h e)"
  shows "guarantees R (attempt m h)"
proof (rule guaranteesI)
  fix s
  have "wp m (\<lambda>_. R s) (\<lambda>e. wp (h e) (\<lambda>_. R s) (\<lambda>_. R s)) s"
  proof (rule wp_mono [OF guarantees_wp [OF m]])
    fix e t assume "R s t"
    with h show "wp (h e) (\<lambda>_. R s) (\<lambda>_. R s) t"
      by (auto simp: wp_final guarantees_def intro: trans)
  qed
  then show "wp (attempt m h) (\<lambda>_. R s) (\<lambda>_. R s) s" by (simp add: wp_simps)
qed

lemma g_swallow: "guarantees R m \<Longrightarrow> guarantees R (swallow m)"
  unfolding swallow_def by (intro g_attempt g_chain g_ret)

lemma g_for_each: "(\<And>x. guarantees R (f x)) \<Longrightarrow> guarantees R (for_each xs f)"
  by (induction xs) (auto intro: g_ret g_chain)

lemma g_option:
  "guarantees R m \<Longrightarrow> (\<And>y. guarantees R (f y)) \<Longrightarrow>
     guarantees R (case x of None \<Rightarrow> m | Some y \<Rightarrow> f y)"
  by (cases x) auto

lemma g_if: "guarantees R m \<Longrightarrow> guarantees R n \<Longrightarrow> guarantees R (if b then m else n)"
  by simp

lemmas g_intros = g_ret g_raise g_gets g_require g_lift_sum g_chain g_attempt g_swallow
  g_for_each g_option g_if

end

section \<open>Tables\<close>

text \<open>
  A table is the list of its rows in insertion order; \<open>lookup_by\<close> is a \<open>SELECT\<close> by primary
  key, \<open>replace_by\<close> an \<open>UPDATE\<close> of the row with that key.
\<close>

definition lookup_by :: "('r \<Rightarrow> 'k) \<Rightarrow> 'k \<Rightarrow> 'r list \<Rightarrow> 'r option" where
  "lookup_by key k rows = find (\<lambda>r. key r = k) rows"

definition replace_by :: "('r \<Rightarrow> 'k) \<Rightarrow> 'r \<Rightarrow> 'r list \<Rightarrow> 'r list" where
  "replace_by key row rows = map (\<lambda>r. if key r = key row then row else r) rows"

text \<open>\<open>ORDER BY key LIMIT 1\<close>.\<close>

definition first_by :: "('r \<Rightarrow> 'o::linorder) \<Rightarrow> 'r list \<Rightarrow> 'r option" where
  "first_by ord rows = (case sort_key ord rows of [] \<Rightarrow> None | r # _ \<Rightarrow> Some r)"

lemma lookup_by_SomeD: "lookup_by key k rows = Some r \<Longrightarrow> r \<in> set rows \<and> key r = k"
  by (auto simp: lookup_by_def find_Some_iff)

lemma lookup_by_None: "lookup_by key k rows = None \<longleftrightarrow> (\<forall>r\<in>set rows. key r \<noteq> k)"
  by (auto simp: lookup_by_def find_None_iff)

lemma lookup_by_key: "lookup_by key k rows = Some r \<Longrightarrow> key r = k"
  by (blast dest: lookup_by_SomeD)

lemma lookup_by_append [row_simps]:
  "lookup_by key k (xs @ ys) =
     (case lookup_by key k xs of None \<Rightarrow> lookup_by key k ys | Some r \<Rightarrow> Some r)"
  by (induction xs) (auto simp: lookup_by_def)

lemma lookup_by_single [row_simps]:
  "lookup_by key k [x] = (if key x = k then Some x else None)"
  by (simp add: lookup_by_def)

lemma lookup_by_Nil [row_simps]: "lookup_by key k [] = None"
  by (simp add: lookup_by_def)

lemma lookup_by_replace [row_simps]:
  "lookup_by key k (replace_by key row rows) =
     (if k = key row then map_option (\<lambda>_. row) (lookup_by key k rows) else lookup_by key k rows)"
  by (induction rows) (auto simp: lookup_by_def replace_by_def)

lemma map_key_replace [simp]: "map key (replace_by key row rows) = map key rows"
  by (simp add: replace_by_def)

lemma length_replace [simp]: "length (replace_by key row rows) = length rows"
  by (simp add: replace_by_def)

lemma set_replace: "x \<in> set (replace_by key row rows) \<Longrightarrow> x \<in> set rows \<or> x = row"
  by (auto simp: replace_by_def)

lemma lookup_by_in:
  "distinct (map key rows) \<Longrightarrow> r \<in> set rows \<Longrightarrow> lookup_by key (key r) rows = Some r"
  by (induction rows) (auto simp: lookup_by_def)

lemma first_by_None [simp]: "first_by ord rows = None \<longleftrightarrow> rows = []"
  using length_sort [of ord rows] by (cases "sort_key ord rows") (auto simp: first_by_def)

lemma first_by_SomeD:
  assumes "first_by ord rows = Some r"
  shows "r \<in> set rows" and "\<And>x. x \<in> set rows \<Longrightarrow> ord r \<le> ord x"
proof -
  from assms obtain rest where s: "sort_key ord rows = r # rest"
    by (auto simp: first_by_def split: list.splits)
  then show "r \<in> set rows" by (metis list.set_intros(1) set_sort)
  fix x assume "x \<in> set rows"
  then have x: "x \<in> set (r # rest)" by (metis s set_sort)
  have "sorted (map ord (r # rest))" by (metis s sorted_sort_key)
  with x show "ord r \<le> ord x" by auto
qed

text \<open>Rows are never lost and each evolves along \<open>R\<close>.\<close>

definition rows_evolve :: "('r \<Rightarrow> 'k) \<Rightarrow> ('r \<Rightarrow> 'r \<Rightarrow> bool) \<Rightarrow> 'r list \<Rightarrow> 'r list \<Rightarrow> bool" where
  "rows_evolve key R xs ys \<longleftrightarrow>
     (\<forall>k r. lookup_by key k xs = Some r \<longrightarrow> (\<exists>r'. lookup_by key k ys = Some r' \<and> R r r'))"

lemma rows_evolve_refl: "(\<And>r. R r r) \<Longrightarrow> rows_evolve key R xs xs"
  by (simp add: rows_evolve_def)

lemma rows_evolve_trans:
  assumes "\<And>a b c. R a b \<Longrightarrow> R b c \<Longrightarrow> R a c"
  shows "rows_evolve key R xs ys \<Longrightarrow> rows_evolve key R ys zs \<Longrightarrow> rows_evolve key R xs zs"
  unfolding rows_evolve_def using assms by meson

lemma rows_evolve_replace:
  assumes "\<And>r. R r r" and "\<And>r. lookup_by key (key row) xs = Some r \<Longrightarrow> R r row"
  shows "rows_evolve key R xs (replace_by key row xs)"
  using assms by (auto simp: rows_evolve_def row_simps)

lemma rows_evolve_append: "(\<And>r. R r r) \<Longrightarrow> rows_evolve key R xs (xs @ ys)"
  by (auto simp: rows_evolve_def row_simps)

lemma rows_evolveD:
  "rows_evolve key R xs ys \<Longrightarrow> lookup_by key k xs = Some r \<Longrightarrow>
     \<exists>r'. lookup_by key k ys = Some r' \<and> R r r'"
  by (simp add: rows_evolve_def)

text \<open>\<open>UPDATE ... SET ... WHERE pk = k\<close>: \<open>f\<close> writes the updated columns.\<close>

definition update_by :: "('r \<Rightarrow> 'k) \<Rightarrow> 'k \<Rightarrow> ('r \<Rightarrow> 'r) \<Rightarrow> 'r list \<Rightarrow> 'r list" where
  "update_by key k f rows = map (\<lambda>r. if key r = k then f r else r) rows"

lemma lookup_by_update [row_simps]:
  "(\<And>r. key (f r) = key r) \<Longrightarrow> lookup_by key k' (update_by key k f rows) =
     (if k' = k then map_option f (lookup_by key k' rows) else lookup_by key k' rows)"
  by (induction rows) (auto simp: lookup_by_def update_by_def)

lemma map_key_update: "(\<And>r. key (f r) = key r) \<Longrightarrow> map key (update_by key k f rows) = map key rows"
  by (simp add: update_by_def)

lemma rows_evolve_update:
  assumes "\<And>r. R r r" and "\<And>r. key (f r) = key r"
    and "\<And>r. lookup_by key k xs = Some r \<Longrightarrow> R r (f r)"
  shows "rows_evolve key R xs (update_by key k f xs)"
  using assms by (auto simp: rows_evolve_def lookup_by_update)

text \<open>Deletion and completion times are written once.\<close>

definition set_once :: "'a option \<Rightarrow> 'a option \<Rightarrow> bool" where
  "set_once old new \<longleftrightarrow> old = None \<or> new = old"

lemma set_once_refl [simp]: "set_once x x"
  by (simp add: set_once_def)

lemma set_once_None [simp]: "set_once None x"
  by (simp add: set_once_def)

lemma set_once_Some [simp]: "set_once (Some x) y \<longleftrightarrow> y = Some x"
  by (simp add: set_once_def)

lemma set_once_trans: "set_once a b \<Longrightarrow> set_once b c \<Longrightarrow> set_once a c"
  by (auto simp: set_once_def)

end
