(* ===== verification/PyLib.thy ===== *)
theory PyLib
  imports Prelude "HOL-Library.Word" "HOL-Library.Sublist"
begin

text \<open>
  The parts of Python and its standard library the modelled code uses: UUIDs and their two
  texts, byte strings and big-endian integers, the anchored regular expressions of the storage
  keys as little consumers, \<open>strip\<close>, \<open>rsplit\<close> and \<open>rpartition\<close>, and dynamically typed values
  where the source inspects types. Text is modelled by Isabelle's \<open>string\<close>, so by the code
  points below 256.
\<close>

section \<open>Bytes and integers\<close>

type_synonym byte = "8 word"
type_synonym bytes = "byte list"

text \<open>\<open>int.to_bytes(n, "big")\<close> for a value that fits, and \<open>int.from_bytes(_, "big")\<close>.\<close>

fun be_bytes :: "nat \<Rightarrow> nat \<Rightarrow> bytes" where
  "be_bytes 0 v = []"
| "be_bytes (Suc n) v = be_bytes n (v div 256) @ [word_of_nat v]"

definition be_nat :: "bytes \<Rightarrow> nat" where
  "be_nat bs = foldl (\<lambda>a b. a * 256 + unat b) 0 bs"

lemma length_be_bytes [simp]: "length (be_bytes n v) = n"
  by (induction n arbitrary: v) auto

lemma be_nat_Nil [simp]: "be_nat [] = 0"
  by (simp add: be_nat_def)

lemma be_nat_snoc [simp]: "be_nat (bs @ [b]) = be_nat bs * 256 + unat b"
  by (simp add: be_nat_def)

lemma unat_byte_less: "unat (b :: byte) < 256"
  using unsigned_less [of b, where ?'a = nat] by simp

lemma unat_byte_of_nat: "unat (word_of_nat v :: byte) = v mod 256"
  by (simp add: unat_of_nat take_bit_eq_mod)

lemma be_nat_bytes: "v < 256 ^ n \<Longrightarrow> be_nat (be_bytes n v) = v"
  by (induction n arbitrary: v)
     (auto simp: unat_byte_of_nat less_mult_imp_div_less mult.commute)

lemma be_bytes_nat: "be_bytes (length bs) (be_nat bs) = bs"
proof (induction bs rule: rev_induct)
  case Nil
  then show ?case by simp
next
  case (snoc b bs)
  have "(be_nat bs * 256 + unat b) div 256 = be_nat bs"
    using unat_byte_less [of b] by simp
  moreover have "unat (word_of_nat (be_nat bs * 256 + unat b) :: byte) = unat b"
    using unat_byte_less [of b] by (simp only: unat_byte_of_nat) simp
  then have "(word_of_nat (be_nat bs * 256 + unat b) :: byte) = b"
    by (simp only: word_unat_eq_iff)
  ultimately show ?case using snoc by simp
qed

lemma be_nat_less: "be_nat bs < 256 ^ length bs"
proof (induction bs rule: rev_induct)
  case Nil
  then show ?case by simp
next
  case (snoc b bs)
  have "be_nat bs * 256 + unat b < (be_nat bs + 1) * 256"
    using unat_byte_less [of b] by simp
  also have "\<dots> \<le> 256 ^ length bs * 256"
    using snoc by simp
  finally show ?case by simp
qed

text \<open>\<open>bytes([..])\<close> of an ASCII literal.\<close>

definition ascii :: "string \<Rightarrow> bytes" where
  "ascii s = map (\<lambda>c. word_of_nat (of_char c)) s"

lemma length_ascii [simp]: "length (ascii s) = length s"
  by (simp add: ascii_def)

section \<open>UUIDs\<close>

type_synonym uuid = "128 word"

definition hex_digit :: "nat \<Rightarrow> char" where
  "hex_digit n = (if n < 10 then char_of (48 + n) else char_of (87 + n))"

definition hex_char :: "char \<Rightarrow> bool" where
  "hex_char c \<longleftrightarrow> (48 \<le> (of_char c :: nat) \<and> (of_char c :: nat) \<le> 57)
     \<or> (97 \<le> (of_char c :: nat) \<and> (of_char c :: nat) \<le> 102)"

definition hex_value :: "char \<Rightarrow> nat" where
  "hex_value c = (let n = of_char c in if n \<le> 57 then n - 48 else n - 87)"

lemma hex_char_digit: "n < 16 \<Longrightarrow> hex_char (hex_digit n)"
  by (auto simp: hex_char_def hex_digit_def)

lemma hex_value_digit: "n < 16 \<Longrightarrow> hex_value (hex_digit n) = n"
  by (auto simp: hex_value_def hex_digit_def Let_def)

lemma hex_digit_inj: "m < 16 \<Longrightarrow> n < 16 \<Longrightarrow> hex_digit m = hex_digit n \<Longrightarrow> m = n"
  by (metis hex_value_digit)

text \<open>\<open>hex_text k v\<close>: the last \<open>k\<close> hexadecimal digits of \<open>v\<close>, lower case.\<close>

fun hex_text :: "nat \<Rightarrow> nat \<Rightarrow> string" where
  "hex_text 0 v = []"
| "hex_text (Suc k) v = hex_text k (v div 16) @ [hex_digit (v mod 16)]"

lemma length_hex_text [simp]: "length (hex_text k v) = k"
  by (induction k arbitrary: v) auto

lemma hex_text_chars: "\<forall>c\<in>set (hex_text k v). hex_char c"
  by (induction k arbitrary: v) (auto simp: hex_char_digit)

lemma hex_text_inj:
  "v < 16 ^ k \<Longrightarrow> w < 16 ^ k \<Longrightarrow> hex_text k v = hex_text k w \<Longrightarrow> v = w"
proof (induction k arbitrary: v w)
  case 0
  then show ?case by simp
next
  case (Suc k)
  from Suc.prems(3) have "hex_text k (v div 16) = hex_text k (w div 16)"
    and d: "hex_digit (v mod 16) = hex_digit (w mod 16)" by auto
  moreover have "v div 16 < 16 ^ k" "w div 16 < 16 ^ k"
    using Suc.prems(1,2) by (auto simp: less_mult_imp_div_less mult.commute)
  ultimately have "v div 16 = w div 16" using Suc.IH by blast
  moreover have "v mod 16 = w mod 16" by (rule hex_digit_inj) (use d in auto)
  ultimately show ?case by (metis div_mult_mod_eq)
qed

text \<open>\<open>UUID.hex\<close> and \<open>str(UUID)\<close>.\<close>

definition uuid_hex :: "uuid \<Rightarrow> string" where
  "uuid_hex u = hex_text 32 (unat u)"

definition uuid_str :: "uuid \<Rightarrow> string" where
  "uuid_str u = (let h = uuid_hex u in
     take 8 h @ ''-'' @ take 4 (drop 8 h) @ ''-'' @ take 4 (drop 12 h) @ ''-''
       @ take 4 (drop 16 h) @ ''-'' @ drop 20 h)"

lemma length_uuid_hex [simp]: "length (uuid_hex u) = 32"
  by (simp add: uuid_hex_def)

lemma length_uuid_str [simp]: "length (uuid_str u) = 36"
  by (simp add: uuid_str_def Let_def)

lemma uuid_hex_inj: "uuid_hex u = uuid_hex v \<longleftrightarrow> u = v"
proof -
  have b: "unat (w :: uuid) < 16 ^ 32" for w using unsigned_less [of w, where ?'a = nat] by simp
  show ?thesis
    using hex_text_inj [OF b b, of u v] by (auto simp: uuid_hex_def word_unat_eq_iff [of u v])
qed

lemma uuid_str_undash:
  "take 8 (uuid_str u) @ take 4 (drop 9 (uuid_str u)) @ take 4 (drop 14 (uuid_str u))
     @ take 4 (drop 19 (uuid_str u)) @ drop 24 (uuid_str u) = uuid_hex u"
proof -
  define h where "h = uuid_hex u"
  have l: "length h = 32" by (simp add: h_def)
  have cut: "take n (drop m h) @ drop (n + m) h = drop m h" for n m
    by (metis append_take_drop_id drop_drop)
  have "take 8 h @ take 4 (drop 8 h) @ take 4 (drop 12 h) @ take 4 (drop 16 h) @ drop 20 h = h"
    using cut [of 4 16] cut [of 4 12] cut [of 4 8] cut [of 8 0] by simp
  then show ?thesis
    using l by (simp add: uuid_str_def Let_def h_def [symmetric])
qed

lemma uuid_str_inj: "uuid_str u = uuid_str v \<longleftrightarrow> u = v"
  by (metis uuid_str_undash uuid_hex_inj)

text \<open>\<open>UUID.bytes\<close> and \<open>UUID(bytes=...)\<close>.\<close>

definition uuid_bytes :: "uuid \<Rightarrow> bytes" where
  "uuid_bytes u = be_bytes 16 (unat u)"

definition uuid_of_bytes :: "bytes \<Rightarrow> uuid" where
  "uuid_of_bytes bs = word_of_nat (be_nat bs)"

lemma length_uuid_bytes [simp]: "length (uuid_bytes u) = 16"
  by (simp add: uuid_bytes_def)

lemma uuid_of_bytes_bytes [simp]: "uuid_of_bytes (uuid_bytes u) = u"
proof -
  have "unat u < 256 ^ 16" using unsigned_less [of u, where ?'a = nat] by simp
  then show ?thesis by (simp add: uuid_of_bytes_def uuid_bytes_def be_nat_bytes)
qed

lemma uuid_bytes_of_bytes: "length bs = 16 \<Longrightarrow> uuid_bytes (uuid_of_bytes bs) = bs"
proof -
  assume l: "length bs = 16"
  have "be_nat bs < 2 ^ 128" using be_nat_less [of bs] l by simp
  then have "unat (uuid_of_bytes bs) = be_nat bs"
    by (simp add: uuid_of_bytes_def unat_of_nat take_bit_eq_mod)
  then show ?thesis using be_bytes_nat [of bs] l by (simp add: uuid_bytes_def)
qed

section \<open>Consuming text: the anchored regular expressions\<close>

text \<open>
  Each consumer returns what it matched and the rest. \<open>fullmatch\<close> is a sequence of consumers
  after which nothing is left.
\<close>

definition eat_lit :: "string \<Rightarrow> string \<Rightarrow> string option" where
  "eat_lit lit s = (if prefix lit s then Some (drop (length lit) s) else None)"

definition eat_class :: "(char \<Rightarrow> bool) \<Rightarrow> nat \<Rightarrow> string \<Rightarrow> (string \<times> string) option" where
  "eat_class p n s =
     (if n \<le> length s \<and> list_all p (take n s) then Some (take n s, drop n s) else None)"

definition eat_one_of :: "string list \<Rightarrow> string \<Rightarrow> (string \<times> string) option" where
  "eat_one_of alts s =
     map_option (\<lambda>a. (a, drop (length a) s)) (find (\<lambda>a. prefix a s) alts)"

text \<open>\<open>[0-9a-f]{8}-[0-9a-f]{4}-[0-9a-f]{4}-[0-9a-f]{4}-[0-9a-f]{12}\<close>\<close>

definition uuid_pattern :: "(char \<Rightarrow> bool) list" where
  "uuid_pattern =
     replicate 8 hex_char @ [(=) (CHR ''-'')] @ replicate 4 hex_char @ [(=) (CHR ''-'')]
       @ replicate 4 hex_char @ [(=) (CHR ''-'')] @ replicate 4 hex_char @ [(=) (CHR ''-'')]
       @ replicate 12 hex_char"

definition uuid_text :: "string \<Rightarrow> bool" where
  "uuid_text s \<longleftrightarrow> list_all2 (\<lambda>p c. p c) uuid_pattern s"

definition eat_uuid :: "string \<Rightarrow> (string \<times> string) option" where
  "eat_uuid s = (if uuid_text (take 36 s) then Some (take 36 s, drop 36 s) else None)"

lemma eat_lit_append [simp]: "eat_lit lit (lit @ rest) = Some rest"
  by (simp add: eat_lit_def)

lemma eat_lit_Some: "eat_lit lit s = Some rest \<longleftrightarrow> s = lit @ rest"
  by (auto simp: eat_lit_def prefix_def)

lemma eat_class_Some:
  "eat_class p n s = Some (m, rest) \<longleftrightarrow> s = m @ rest \<and> length m = n \<and> list_all p m"
  by (auto simp: eat_class_def)

lemma eat_one_of_SomeD: "eat_one_of alts s = Some (m, rest) \<Longrightarrow> s = m @ rest \<and> m \<in> set alts"
  by (auto simp: eat_one_of_def find_Some_iff prefix_def)

lemma eat_uuid_Some: "eat_uuid s = Some (m, rest) \<longleftrightarrow> s = m @ rest \<and> uuid_text m"
proof -
  have l: "uuid_text m \<Longrightarrow> length m = 36" for m
    by (auto simp: uuid_text_def uuid_pattern_def dest: list_all2_lengthD)
  show ?thesis
  proof
    assume "eat_uuid s = Some (m, rest)"
    then show "s = m @ rest \<and> uuid_text m" by (auto simp: eat_uuid_def split: if_splits)
  next
    assume a: "s = m @ rest \<and> uuid_text m"
    then have "take 36 s = m" "drop 36 s = rest" using l [of m] by auto
    with a show "eat_uuid s = Some (m, rest)" by (simp add: eat_uuid_def)
  qed
qed

lemma list_all2_replicate_class:
  "list_all2 (\<lambda>p c. p c) (replicate n p) s \<longleftrightarrow> length s = n \<and> list_all p s"
  by (auto simp: list_all2_conv_all_nth list_all_length)

lemma uuid_text_str [simp]: "uuid_text (uuid_str u)"
proof -
  define h where "h = uuid_hex u"
  have l: "length h = 32" by (simp add: h_def)
  have "\<forall>c\<in>set h. hex_char c" by (simp add: h_def uuid_hex_def hex_text_chars)
  then have s: "list_all hex_char (take n (drop m h))" for n m
    by (auto simp: list_all_iff dest: in_set_takeD in_set_dropD)
  show ?thesis
    using l s [of 8 0] s [of 4 8] s [of 4 12] s [of 4 16] s [of 12 20]
    unfolding uuid_text_def uuid_pattern_def uuid_str_def Let_def h_def [symmetric]
    by (intro list_all2_appendI) (auto simp: list_all2_replicate_class)
qed

lemma eat_uuid_str [simp]: "eat_uuid (uuid_str u @ rest) = Some (uuid_str u, rest)"
  by (simp add: eat_uuid_Some)

text \<open>\<open>^[0-9a-f]{64}$\<close>, the pattern of \<open>splitbind.validators\<close>.\<close>

definition sha256_text :: "string \<Rightarrow> bool" where
  "sha256_text s \<longleftrightarrow> length s = 64 \<and> list_all hex_char s"

section \<open>Text\<close>

text \<open>\<open>str.isspace\<close> on code points below 256, and \<open>str.strip()\<close>.\<close>

definition py_space :: "char \<Rightarrow> bool" where
  "py_space c \<longleftrightarrow> (let n = of_char c :: nat in
     (9 \<le> n \<and> n \<le> 13) \<or> (28 \<le> n \<and> n \<le> 32) \<or> n = 133 \<or> n = 160)"

definition py_strip :: "string \<Rightarrow> string" where
  "py_strip s = rev (dropWhile py_space (rev (dropWhile py_space s)))"

text \<open>\<open>s.rsplit(c, 1)[-1]\<close> and \<open>s.rpartition(c)\<close> for a one-character separator.\<close>

definition rsplit_last :: "char \<Rightarrow> string \<Rightarrow> string" where
  "rsplit_last c s = rev (takeWhile (\<lambda>x. x \<noteq> c) (rev s))"

definition rpartition :: "char \<Rightarrow> string \<Rightarrow> string \<times> bool \<times> string" where
  "rpartition c s =
     (if c \<in> set s then (rev (tl (dropWhile (\<lambda>x. x \<noteq> c) (rev s))), True, rsplit_last c s)
      else ([], False, s))"

definition py_replace_char :: "char \<Rightarrow> char \<Rightarrow> string \<Rightarrow> string" where
  "py_replace_char a b s = map (\<lambda>x. if x = a then b else x) s"

lemma py_strip_fixed: "s = [] \<or> (\<not> py_space (hd s) \<and> \<not> py_space (last s)) \<Longrightarrow> py_strip s = s"
proof (cases s)
  case (Cons a r)
  assume "s = [] \<or> (\<not> py_space (hd s) \<and> \<not> py_space (last s))"
  then have "\<not> py_space (hd s) \<and> \<not> py_space (last s)" using Cons by blast
  then have h: "\<not> py_space (hd s)" and l: "\<not> py_space (hd (rev s))"
    by (simp_all add: hd_rev del: rev.simps)
  have "dropWhile py_space s = s" using h Cons by simp
  moreover have "dropWhile py_space (rev s) = rev s"
    using l Cons by (cases "rev s") auto
  ultimately show ?thesis by (simp add: py_strip_def)
qed (simp add: py_strip_def)

lemma py_strip_ends:
  assumes "py_strip s \<noteq> []"
  shows "\<not> py_space (hd (py_strip s))" and "\<not> py_space (last (py_strip s))"
proof -
  define t where "t = dropWhile py_space s"
  define u where "u = dropWhile py_space (rev t)"
  have st: "py_strip s = rev u" by (simp add: py_strip_def t_def u_def)
  with assms have u: "u \<noteq> []" by simp
  then have lu: "\<not> py_space (hd u)" unfolding u_def by (rule hd_dropWhile)
  then show "\<not> py_space (last (py_strip s))" by (simp add: st last_rev)
  from u have t: "t \<noteq> []" by (auto simp: u_def)
  then have "\<not> py_space (hd t)" unfolding t_def by (rule hd_dropWhile)
  moreover have "last u = hd t"
    using u t by (metis u_def last_appendR takeWhile_dropWhile_id last_rev)
  ultimately show "\<not> py_space (hd (py_strip s))" by (simp add: st hd_rev)
qed

lemma py_strip_idem [simp]: "py_strip (py_strip s) = py_strip s"
  by (rule py_strip_fixed) (use py_strip_ends in blast)

lemma set_py_strip: "set (py_strip s) \<subseteq> set s"
proof
  fix x assume "x \<in> set (py_strip s)"
  then have "x \<in> set (dropWhile py_space (rev (dropWhile py_space s)))"
    by (simp add: py_strip_def)
  then have "x \<in> set (dropWhile py_space s)" by (auto dest: set_dropWhileD)
  then show "x \<in> set s" by (auto dest: set_dropWhileD)
qed

lemma rsplit_last_id: "c \<notin> set s \<Longrightarrow> rsplit_last c s = s"
  unfolding rsplit_last_def by (subst takeWhile_eq_all_conv [THEN iffD2]) auto

lemma rpartition_found:
  assumes "c \<in> set s" "rpartition c s = (stem, sep, ext)"
  shows "sep" and "s = stem @ c # ext" and "c \<notin> set ext"
proof -
  from assms have e: "ext = rsplit_last c s" and sp: sep
    and st: "stem = rev (tl (dropWhile (\<lambda>x. x \<noteq> c) (rev s)))"
    by (auto simp: rpartition_def)
  show sep by (fact sp)
  show "c \<notin> set ext" by (auto simp: e rsplit_last_def dest: set_takeWhileD)
  have ne: "dropWhile (\<lambda>x. x \<noteq> c) (rev s) \<noteq> []" using assms(1) by auto
  then have "dropWhile (\<lambda>x. x \<noteq> c) (rev s) = c # rev stem"
    using hd_dropWhile [OF ne] by (metis (no_types, lifting) st list.collapse rev_rev_ident)
  then have "rev s = rev ext @ c # rev stem"
    by (metis e rsplit_last_def rev_rev_ident takeWhile_dropWhile_id)
  then have "rev (rev s) = rev (rev ext @ c # rev stem)" by (rule arg_cong)
  then show "s = stem @ c # ext" by simp
qed

lemma rpartition_append:
  "c \<notin> set ext \<Longrightarrow> rpartition c (stem @ c # ext) = (stem, True, ext)"
proof -
  assume n: "c \<notin> set ext"
  then have dw: "dropWhile (\<lambda>x. x \<noteq> c) (rev ext) = []" by auto
  from n have tw: "takeWhile (\<lambda>x. x \<noteq> c) (rev ext) = rev ext"
    by (subst takeWhile_eq_all_conv) auto
  from n dw show ?thesis
    by (simp add: rpartition_def rsplit_last_def takeWhile_tail dropWhile_append tw)
qed

text \<open>\<open>str(n)\<close>.\<close>

fun decimal :: "nat \<Rightarrow> string" where
  "decimal n = (if n < 10 then [char_of (48 + n)] else decimal (n div 10) @ [char_of (48 + n mod 10)])"

declare decimal.simps [simp del]

definition int_text :: "int \<Rightarrow> string" where
  "int_text n = (if n < 0 then ''-'' @ decimal (nat (- n)) else decimal (nat n))"

end
