(* ===== verification/StorageBase.thy ===== *)
theory StorageBase
  imports PyLib "HOL-Library.Monad_Syntax"
begin

text \<open>
  \<open>services/api/splitbind/integrations/storage/base.py\<close>: the shapes of the object keys the
  application controls, the checks every storage operation makes first, and the interface of an
  object store. The keys are Python regular expressions with named groups; here each is a
  consumer that returns the groups.
\<close>

section \<open>Data\<close>

record object_metadata =
  om_key :: string
  om_size_bytes :: int
  om_content_type :: "string option"
  om_client_sha256_metadata :: "string option"

record object_bytes =
  ob_key :: string
  ob_data :: bytes
  ob_content_type :: "string option"
  ob_actual_sha256 :: string

record presigned_put =
  pp_url :: string
  pp_headers :: "(string \<times> string) list"

text \<open>The groups of the three key patterns.\<close>

record orphan_groups =
  og_kind :: string
  og_organization :: string
  og_object :: string

record promoted_groups =
  pg_kind :: string
  pg_organization :: string
  pg_upload :: string

record output_groups =
  tg_organization :: string
  tg_issuance :: string

section \<open>Controlled keys\<close>

definition match_orphan_key :: "string \<Rightarrow> orphan_groups option" where
  "match_orphan_key key = do {
     s1 \<leftarrow> eat_lit ''uploads/orphan/'' key;
     (kind, s2) \<leftarrow> eat_one_of [''issuance_input'', ''verification_input''] s1;
     s3 \<leftarrow> eat_lit ''/'' s2;
     (org, s4) \<leftarrow> eat_uuid s3;
     s5 \<leftarrow> eat_lit ''/'' s4;
     (obj, s6) \<leftarrow> eat_class hex_char 32 s5;
     s7 \<leftarrow> eat_lit ''.bin'' s6;
     if s7 = [] then Some \<lparr>og_kind = kind, og_organization = org, og_object = obj\<rparr> else None
   }"

definition match_promoted_key :: "string \<Rightarrow> promoted_groups option" where
  "match_promoted_key key = do {
     s1 \<leftarrow> eat_lit ''inputs/'' key;
     (kind, s2) \<leftarrow> eat_one_of [''issuance'', ''verification''] s1;
     s3 \<leftarrow> eat_lit ''/'' s2;
     (org, s4) \<leftarrow> eat_uuid s3;
     s5 \<leftarrow> eat_lit ''/'' s4;
     (up, s6) \<leftarrow> eat_uuid s5;
     s7 \<leftarrow> eat_lit ''.bin'' s6;
     if s7 = [] then Some \<lparr>pg_kind = kind, pg_organization = org, pg_upload = up\<rparr> else None
   }"

definition match_issuance_output_key :: "string \<Rightarrow> output_groups option" where
  "match_issuance_output_key key = do {
     s1 \<leftarrow> eat_lit ''outputs/issuance/'' key;
     (org, s2) \<leftarrow> eat_uuid s1;
     s3 \<leftarrow> eat_lit ''/'' s2;
     (iss, s4) \<leftarrow> eat_uuid s3;
     s5 \<leftarrow> eat_lit ''.'' s4;
     (_, s6) \<leftarrow> eat_one_of [''pdf'', ''png''] s5;
     if s6 = [] then Some \<lparr>tg_organization = org, tg_issuance = iss\<rparr> else None
   }"

definition validate_orphan_key :: "string \<Rightarrow> exn + orphan_groups" where
  "validate_orphan_key key = (case match_orphan_key key of
     None \<Rightarrow> Inl (ValueError ''storage source key must use the controlled orphan-upload shape'')
   | Some m \<Rightarrow> Inr m)"

definition validate_promoted_key :: "string \<Rightarrow> exn + promoted_groups" where
  "validate_promoted_key key = (case match_promoted_key key of
     None \<Rightarrow>
       Inl (ValueError ''storage destination key must use the controlled promoted-input shape'')
   | Some m \<Rightarrow> Inr m)"

definition validate_issuance_output_key :: "string \<Rightarrow> exn + output_groups" where
  "validate_issuance_output_key key = (case match_issuance_output_key key of
     None \<Rightarrow> Inl (ValueError ''issuance output key must use the controlled output shape'')
   | Some m \<Rightarrow> Inr m)"

definition bad_key_char :: "char \<Rightarrow> bool" where
  "bad_key_char c \<longleftrightarrow> (of_char c :: nat) \<in> {92, 0, 13, 10}"

definition validate_controlled_key :: "string \<Rightarrow> exn + unit" where
  "validate_controlled_key key =
     (if match_orphan_key key = None \<and> match_promoted_key key = None
         \<and> match_issuance_output_key key = None
      then Inl (ValueError ''storage key must use a controlled application shape'')
      else if list_ex bad_key_char key \<or> sublist ''..'' key
      then Inl (ValueError ''storage key must use a controlled application shape'')
      else Inr ())"

text \<open>\<open>s.removesuffix("_input")\<close>.\<close>

definition removesuffix :: "string \<Rightarrow> string \<Rightarrow> string" where
  "removesuffix suf s = (if suffix suf s then take (length s - length suf) s else s)"

definition validate_copy_boundary :: "string \<Rightarrow> string \<Rightarrow> exn + unit" where
  "validate_copy_boundary source destination =
     (case validate_orphan_key source of Inl e \<Rightarrow> Inl e | Inr sm \<Rightarrow>
      (case validate_promoted_key destination of Inl e \<Rightarrow> Inl e | Inr dm \<Rightarrow>
       (let source_kind = removesuffix ''_input'' (og_kind sm) in
        if source_kind \<noteq> pg_kind dm \<or> og_organization sm \<noteq> pg_organization dm
        then Inl (ValueError ''storage copy must preserve the same organization and kind'')
        else Inr ())))"

section \<open>Checksums, bounded bytes, expiry\<close>

definition validate_checksum :: "string \<Rightarrow> exn + unit" where
  "validate_checksum sha256 =
     (if sha256_text sha256 then Inr ()
      else Inl (ValueError ''storage checksum must be a canonical SHA-256''))"

fun collect_chunks :: "int \<Rightarrow> bytes \<Rightarrow> bytes list \<Rightarrow> exn + bytes" where
  "collect_chunks max_bytes collected [] = Inr collected"
| "collect_chunks max_bytes collected (chunk # chunks) =
     (if int (length chunk) > max_bytes - int (length collected)
      then Inl (UploadRejected ''STORAGE_BYTE_LIMIT'')
      else collect_chunks max_bytes (collected @ chunk) chunks)"

definition collect_bounded_bytes :: "int \<Rightarrow> bytes list \<Rightarrow> int \<Rightarrow> exn + bytes" where
  "collect_bounded_bytes runtime_max chunks max_bytes =
     (if \<not> (1 \<le> max_bytes \<and> max_bytes \<le> runtime_max)
      then Inl (ValueError ''storage byte limit must be between one byte and ten MiB'')
      else collect_chunks max_bytes [] chunks)"

text \<open>\<open>digest\<close> is \<open>hashlib.sha256(_).hexdigest()\<close>.\<close>

definition verified_object_bytes ::
  "(bytes \<Rightarrow> string) \<Rightarrow> string \<Rightarrow> bytes \<Rightarrow> string option \<Rightarrow> string option \<Rightarrow> exn + object_bytes"
where
  "verified_object_bytes digest key data content_type expected_sha256 =
     (let actual_sha256 = digest data;
          result = \<lparr>ob_key = key, ob_data = data, ob_content_type = content_type,
                    ob_actual_sha256 = actual_sha256\<rparr>
      in case expected_sha256 of
           None \<Rightarrow> Inr result
         | Some expected \<Rightarrow>
             (case validate_checksum expected of Inl e \<Rightarrow> Inl e | Inr _ \<Rightarrow>
              if actual_sha256 \<noteq> expected
              then Inl (UploadRejected ''STORAGE_CHECKSUM_MISMATCH'') else Inr result))"

text \<open>Durations are microseconds.\<close>

definition seconds :: "int \<Rightarrow> int" where
  "seconds n = n * 1000000"

definition validate_expiry :: "int \<Rightarrow> exn + unit" where
  "validate_expiry expires =
     (if seconds 1 \<le> expires \<and> expires \<le> seconds (15 * 60) then Inr ()
      else Inl (ValueError ''storage expiry must be between one second and fifteen minutes''))"

definition allowed_content_types :: "string list" where
  "allowed_content_types = [''application/pdf'', ''image/png'', ''image/jpeg'']"

text \<open>
  The dictionary \<open>_CONTENT_TYPES\<close> has the same three types under both kinds; the kind is the
  third component of the key, which the key pattern already restricts to these two.
\<close>

definition content_types_of_kind :: "string \<Rightarrow> string list option" where
  "content_types_of_kind kind =
     (if kind = ''issuance_input'' \<or> kind = ''verification_input''
      then Some allowed_content_types else None)"

definition validate_put_constraints ::
  "int \<Rightarrow> string \<Rightarrow> string \<Rightarrow> int \<Rightarrow> string \<Rightarrow> int \<Rightarrow> exn + unit" where
  "validate_put_constraints runtime_max key content_type size_bytes sha256 expires =
     (case validate_orphan_key key of Inl e \<Rightarrow> Inl e | Inr m \<Rightarrow>
      if content_type \<notin> set (case content_types_of_kind (og_kind m) of None \<Rightarrow> [] | Some ts \<Rightarrow> ts)
      then Inl (ValueError ''storage content type is not allowed for this upload kind'')
      else if \<not> (1 \<le> size_bytes \<and> size_bytes \<le> runtime_max)
      then Inl (ValueError ''storage object size must be between one byte and ten MiB'')
      else (case validate_checksum sha256 of Inl e \<Rightarrow> Inl e | Inr _ \<Rightarrow> validate_expiry expires))"

section \<open>Download names\<close>

definition filename_extension_text :: "string \<Rightarrow> bool" where
  "filename_extension_text s \<longleftrightarrow> 1 \<le> length s \<and> length s \<le> 8 \<and>
     list_all (\<lambda>c. let n = of_char c :: nat in
       (48 \<le> n \<and> n \<le> 57) \<or> (65 \<le> n \<and> n \<le> 90) \<or> (97 \<le> n \<and> n \<le> 122)) s"

text \<open>A control character, or one of \<open>" \ / : * ? < > |\<close>.\<close>

definition forbidden_filename_char :: "char \<Rightarrow> bool" where
  "forbidden_filename_char c \<longleftrightarrow> (let n = of_char c :: nat in
     n < 32 \<or> n = 127 \<or> n \<in> {34, 92, 47, 58, 42, 63, 60, 62, 124})"

definition validate_download_filename :: "string \<Rightarrow> exn + string" where
  "validate_download_filename filename =
     (if \<not> (1 \<le> length filename \<and> length filename \<le> 180)
      then Inl (ValueError ''download filename must be a short non-empty string'')
      else if list_ex forbidden_filename_char filename
      then Inl (ValueError ''download filename must not contain control or path characters'')
      else if prefix ''.'' filename \<or> filename \<noteq> py_strip filename
      then Inl (ValueError ''download filename must not be dot-led or padded'')
      else (case rpartition (CHR ''.'') filename of (stem, separator, extension) \<Rightarrow>
        if \<not> separator \<or> stem = [] \<or> \<not> filename_extension_text extension
        then Inl (ValueError ''download filename must end in a short alphanumeric extension'')
        else Inr filename))"

definition ascii_lower :: "string \<Rightarrow> string" where
  "ascii_lower s = map (\<lambda>c. let n = of_char c :: nat in
     if 65 \<le> n \<and> n \<le> 90 then char_of (n + 32) else c) s"

definition download_content_type :: "string \<Rightarrow> string" where
  "download_content_type filename =
     (let ext = ascii_lower (rsplit_last (CHR ''.'') filename) in
      if ext = ''pdf'' then ''application/pdf''
      else if ext = ''png'' then ''image/png''
      else if ext = ''jpg'' then ''image/jpeg''
      else if ext = ''jpeg'' then ''image/jpeg''
      else if ext = ''json'' then ''application/json''
      else ''application/octet-stream'')"

section \<open>What the key patterns accept\<close>

definition promoted_key_text :: "promoted_groups \<Rightarrow> string" where
  "promoted_key_text g =
     ''inputs/'' @ pg_kind g @ ''/'' @ pg_organization g @ ''/'' @ pg_upload g @ ''.bin''"

definition orphan_key_text :: "orphan_groups \<Rightarrow> string" where
  "orphan_key_text g =
     ''uploads/orphan/'' @ og_kind g @ ''/'' @ og_organization g @ ''/'' @ og_object g @ ''.bin''"

definition output_key_text :: "output_groups \<Rightarrow> string \<Rightarrow> string" where
  "output_key_text g ext =
     ''outputs/issuance/'' @ tg_organization g @ ''/'' @ tg_issuance g @ ''.'' @ ext"

lemmas bind_Some = Option.bind_eq_Some_conv

lemma eat_kind [simp]:
  "eat_one_of [''issuance'', ''verification''] (''issuance'' @ r) = Some (''issuance'', r)"
  "eat_one_of [''issuance'', ''verification''] (''verification'' @ r) = Some (''verification'', r)"
  "eat_one_of [''issuance_input'', ''verification_input''] (''issuance_input'' @ r)
     = Some (''issuance_input'', r)"
  "eat_one_of [''issuance_input'', ''verification_input''] (''verification_input'' @ r)
     = Some (''verification_input'', r)"
  "eat_one_of [''pdf'', ''png''] ''pdf'' = Some (''pdf'', [])"
  "eat_one_of [''pdf'', ''png''] ''png'' = Some (''png'', [])"
  by (simp_all add: eat_one_of_def)

lemma match_promoted_key_iff:
  "match_promoted_key key = Some g \<longleftrightarrow>
     key = promoted_key_text g \<and> pg_kind g \<in> {''issuance'', ''verification''}
       \<and> uuid_text (pg_organization g) \<and> uuid_text (pg_upload g)" (is "?l = ?r")
proof
  assume ?l
  then show ?r
    unfolding match_promoted_key_def promoted_key_text_def
    by (auto simp: bind_Some eat_lit_Some eat_uuid_Some split: if_splits
        dest!: eat_one_of_SomeD)
next
  assume r: ?r
  then have u: "eat_uuid (pg_organization g @ x) = Some (pg_organization g, x)"
    "eat_uuid (pg_upload g @ x) = Some (pg_upload g, x)" for x
    by (simp_all add: eat_uuid_Some)
  have k: "eat_one_of [''issuance'', ''verification''] (pg_kind g @ x) = Some (pg_kind g, x)" for x
    using r by (elim conjE insertE) (simp_all del: append_Cons)
  show ?l
    unfolding match_promoted_key_def r [THEN conjunct1] promoted_key_text_def
    by (simp only: eat_lit_append k u Option.bind.simps bind.bind_lunit prod.case)
       (simp add: u eat_lit_def)
qed

lemma match_orphan_key_iff:
  "match_orphan_key key = Some g \<longleftrightarrow>
     key = orphan_key_text g \<and> og_kind g \<in> {''issuance_input'', ''verification_input''}
       \<and> uuid_text (og_organization g) \<and> length (og_object g) = 32
       \<and> list_all hex_char (og_object g)" (is "?l = ?r")
proof
  assume ?l
  then show ?r
    unfolding match_orphan_key_def orphan_key_text_def
    by (auto simp: bind_Some eat_lit_Some eat_uuid_Some eat_class_Some split: if_splits
        dest!: eat_one_of_SomeD)
next
  assume r: ?r
  then have u: "eat_uuid (og_organization g @ x) = Some (og_organization g, x)"
    "eat_class hex_char 32 (og_object g @ x) = Some (og_object g, x)" for x
    by (simp_all add: eat_uuid_Some eat_class_Some)
  have k: "eat_one_of [''issuance_input'', ''verification_input''] (og_kind g @ x)
      = Some (og_kind g, x)" for x
    using r by (elim conjE insertE) (simp_all del: append_Cons)
  show ?l
    unfolding match_orphan_key_def r [THEN conjunct1] orphan_key_text_def
    by (simp only: eat_lit_append k u Option.bind.simps bind.bind_lunit prod.case)
       (simp add: u eat_lit_def)
qed

lemma match_issuance_output_key_iff:
  "match_issuance_output_key key = Some g \<longleftrightarrow>
     (\<exists>ext\<in>{''pdf'', ''png''}. key = output_key_text g ext)
       \<and> uuid_text (tg_organization g) \<and> uuid_text (tg_issuance g)" (is "?l = ?r")
proof
  assume ?l
  then show ?r
    unfolding match_issuance_output_key_def output_key_text_def
    by (auto simp: bind_Some eat_lit_Some eat_uuid_Some split: if_splits
        dest!: eat_one_of_SomeD)
next
  assume r: ?r
  then have u: "eat_uuid (tg_organization g @ x) = Some (tg_organization g, x)"
    "eat_uuid (tg_issuance g @ x) = Some (tg_issuance g, x)" for x
    by (simp_all add: eat_uuid_Some)
  from r obtain ext where e: "ext \<in> {''pdf'', ''png''}" and k: "key = output_key_text g ext"
    by blast
  have x: "eat_one_of [''pdf'', ''png''] ext = Some (ext, [])" using e by auto
  show ?l
    unfolding match_issuance_output_key_def k output_key_text_def
    by (simp only: eat_lit_append x u Option.bind.simps bind.bind_lunit prod.case) simp
qed

text \<open>No controlled key has a path separator other than the fixed ones, or two dots.\<close>

lemma uuid_text_chars: "uuid_text s \<Longrightarrow> c \<in> set s \<Longrightarrow> hex_char c \<or> c = CHR ''-''"
proof -
  assume u: "uuid_text s" and c: "c \<in> set s"
  then obtain i where i: "i < length s" "c = s ! i" by (auto simp: in_set_conv_nth)
  with u have "(uuid_pattern ! i) c" "uuid_pattern ! i \<in> set uuid_pattern"
    by (auto simp: uuid_text_def list_all2_conv_all_nth)
  then show ?thesis by (auto simp: uuid_pattern_def split: if_splits)
qed

definition plain :: "string \<Rightarrow> bool" where
  "plain s \<longleftrightarrow> list_all (\<lambda>c. \<not> bad_key_char c \<and> c \<noteq> CHR ''.'') s"

lemma plain_append [simp]: "plain (a @ b) \<longleftrightarrow> plain a \<and> plain b"
  by (simp add: plain_def)

lemma plain_Nil [simp]: "plain []"
  by (simp add: plain_def)

lemma plain_Cons [simp]: "plain (c # s) \<longleftrightarrow> \<not> bad_key_char c \<and> c \<noteq> CHR ''.'' \<and> plain s"
  by (simp add: plain_def)

lemma hex_char_plain: "hex_char c \<Longrightarrow> \<not> bad_key_char c \<and> c \<noteq> CHR ''.''"
  by (auto simp: hex_char_def bad_key_char_def)

lemma plain_hex: "list_all hex_char s \<Longrightarrow> plain s"
  by (auto simp: plain_def list_all_iff dest: hex_char_plain)

lemma dash_plain: "\<not> bad_key_char (CHR ''-'')"
  by (simp add: bad_key_char_def)

lemma plain_uuid_text: "uuid_text s \<Longrightarrow> plain s"
  unfolding plain_def list_all_iff
proof
  fix c assume "uuid_text s" "c \<in> set s"
  then have "hex_char c \<or> c = CHR ''-''" by (rule uuid_text_chars)
  then show "\<not> bad_key_char c \<and> c \<noteq> CHR ''.''"
    using hex_char_plain dash_plain by auto
qed

lemma plain_words:
  "plain ''uploads/orphan/''" "plain ''inputs/''" "plain ''outputs/issuance/''" "plain ''/''"
  "plain ''issuance_input''" "plain ''verification_input''" "plain ''issuance''"
  "plain ''verification''" "plain ''bin''" "plain ''pdf''" "plain ''png''"
  by (simp_all add: bad_key_char_def)

lemma plain_count: "plain s \<Longrightarrow> count_list s (CHR ''.'') = 0"
  by (auto simp: count_list_0_iff plain_def list_all_iff)

lemma two_dots: "sublist ''..'' s \<Longrightarrow> 2 \<le> count_list s (CHR ''.'')"
  by (auto simp: sublist_def)

lemma one_dot_ok:
  assumes "plain s" "plain e"
  shows "\<not> (list_ex bad_key_char (s @ CHR ''.'' # e) \<or> sublist ''..'' (s @ CHR ''.'' # e))"
proof -
  have "count_list (s @ CHR ''.'' # e) (CHR ''.'') = 1"
    using assms by (simp add: plain_count)
  then have "\<not> sublist ''..'' (s @ CHR ''.'' # e)"
    using two_dots [of "s @ CHR ''.'' # e"] by linarith
  moreover have "\<not> list_ex bad_key_char (s @ CHR ''.'' # e)"
    using assms by (auto simp: plain_def list_all_iff list_ex_iff bad_key_char_def)
  ultimately show ?thesis by blast
qed

lemma controlled_keys_plain:
  "match_orphan_key key = Some g \<Longrightarrow> \<not> (list_ex bad_key_char key \<or> sublist ''..'' key)"
  "match_promoted_key key = Some h \<Longrightarrow> \<not> (list_ex bad_key_char key \<or> sublist ''..'' key)"
  "match_issuance_output_key key = Some k \<Longrightarrow> \<not> (list_ex bad_key_char key \<or> sublist ''..'' key)"
proof -
  assume a: "match_orphan_key key = Some g"
  let ?s = "''uploads/orphan/'' @ og_kind g @ ''/'' @ og_organization g @ ''/'' @ og_object g"
  have "plain ?s"
    using a plain_words by (auto simp only: match_orphan_key_iff plain_append plain_uuid_text
        plain_hex insert_iff empty_iff)
  from one_dot_ok [OF this plain_words(9)]
  show "\<not> (list_ex bad_key_char key \<or> sublist ''..'' key)"
    using a by (simp add: match_orphan_key_iff orphan_key_text_def)
next
  assume a: "match_promoted_key key = Some h"
  let ?s = "''inputs/'' @ pg_kind h @ ''/'' @ pg_organization h @ ''/'' @ pg_upload h"
  have "plain ?s"
    using a plain_words by (auto simp only: match_promoted_key_iff plain_append plain_uuid_text
        insert_iff empty_iff)
  from one_dot_ok [OF this plain_words(9)]
  show "\<not> (list_ex bad_key_char key \<or> sublist ''..'' key)"
    using a by (simp add: match_promoted_key_iff promoted_key_text_def)
next
  assume a: "match_issuance_output_key key = Some k"
  let ?s = "''outputs/issuance/'' @ tg_organization k @ ''/'' @ tg_issuance k"
  have p: "plain ?s"
    using a plain_words by (auto simp only: match_issuance_output_key_iff plain_append
        plain_uuid_text)
  from a obtain ext where e: "ext \<in> {''pdf'', ''png''}" and k: "key = output_key_text k ext"
    by (auto simp only: match_issuance_output_key_iff)
  from e have "plain ext" using plain_words by (auto simp only: insert_iff empty_iff)
  from one_dot_ok [OF p this]
  show "\<not> (list_ex bad_key_char key \<or> sublist ''..'' key)"
    by (simp add: k output_key_text_def)
qed

section \<open>Properties\<close>

text \<open>
  C39. A key is accepted by one of the three key patterns exactly when it is the text of groups of
  the right shape, and then the groups read back are those of the text.
\<close>

theorem storage_keys_exact:
  "(match_promoted_key key = Some p \<longleftrightarrow> key = promoted_key_text p
      \<and> pg_kind p \<in> {''issuance'', ''verification''} \<and> uuid_text (pg_organization p) \<and> uuid_text (pg_upload p))
   \<and> (match_orphan_key key = Some g \<longleftrightarrow> key = orphan_key_text g
      \<and> og_kind g \<in> {''issuance_input'', ''verification_input''} \<and> uuid_text (og_organization g)
      \<and> length (og_object g) = 32 \<and> list_all hex_char (og_object g))
   \<and> (match_issuance_output_key key = Some h \<longleftrightarrow>
      (key = output_key_text h ''pdf'' \<or> key = output_key_text h ''png'')
      \<and> uuid_text (tg_organization h) \<and> uuid_text (tg_issuance h))"
  by (simp only: match_promoted_key_iff match_orphan_key_iff match_issuance_output_key_iff) simp

lemma validate_keys_Inr:
  "validate_orphan_key key = Inr g \<longleftrightarrow> match_orphan_key key = Some g"
  "validate_promoted_key key = Inr p \<longleftrightarrow> match_promoted_key key = Some p"
  by (simp_all add: validate_orphan_key_def validate_promoted_key_def split: option.splits)

lemma removesuffix_kinds:
  "removesuffix ''_input'' ''issuance_input'' = ''issuance''"
  "removesuffix ''_input'' ''verification_input'' = ''verification''"
  by (simp_all add: removesuffix_def suffix_to_prefix)

lemma copy_kinds:
  "kind \<in> {''issuance_input'', ''verification_input''} \<Longrightarrow> kind' \<in> {''issuance'', ''verification''} \<Longrightarrow>
     removesuffix ''_input'' kind = kind' \<longleftrightarrow> kind = kind' @ ''_input''"
  by (elim insertE emptyE) (simp_all add: removesuffix_kinds)

lemma validate_copy_boundary_groups:
  "validate_copy_boundary source destination = Inr () \<longleftrightarrow>
     (\<exists>g p. match_orphan_key source = Some g \<and> match_promoted_key destination = Some p
        \<and> removesuffix ''_input'' (og_kind g) = pg_kind p \<and> og_organization g = pg_organization p)"
  unfolding validate_copy_boundary_def Let_def
  by (auto simp: validate_orphan_key_def validate_promoted_key_def split: option.splits if_splits)

text \<open>
  A copy is allowed exactly from an orphan upload of some kind and organization to a promoted
  input of the same kind and the same organization.
\<close>

theorem copy_boundary_exact:
  "validate_copy_boundary source destination = Inr () \<longleftrightarrow>
     (\<exists>g p. source = orphan_key_text g \<and> destination = promoted_key_text p
        \<and> pg_kind p \<in> {''issuance'', ''verification''} \<and> og_kind g = pg_kind p @ ''_input''
        \<and> og_organization g = pg_organization p \<and> uuid_text (pg_organization p) \<and> uuid_text (pg_upload p)
        \<and> length (og_object g) = 32 \<and> list_all hex_char (og_object g))"
  unfolding validate_copy_boundary_groups match_orphan_key_iff match_promoted_key_iff
  by (intro iff_exI) (auto simp: copy_kinds)

lemma collect_chunks_sum:
  "collect_chunks n acc cs = (if int (length acc) \<le> n \<longrightarrow> int (length (acc @ concat cs)) \<le> n
     then Inr (acc @ concat cs) else Inl (UploadRejected ''STORAGE_BYTE_LIMIT''))"
  if "int (length acc) \<le> n"
  using that by (induction n acc cs rule: collect_chunks.induct) auto

text \<open>
  Reading a stream of chunks under a byte limit is reading all of it and comparing its length
  with the limit: neither the cut into chunks nor the early stop changes the result.
\<close>

theorem bounded_collection_exact:
  "collect_bounded_bytes runtime_max chunks max_bytes =
     (if max_bytes < 1 \<or> runtime_max < max_bytes
      then Inl (ValueError ''storage byte limit must be between one byte and ten MiB'')
      else if int (length (concat chunks)) \<le> max_bytes then Inr (concat chunks)
      else Inl (UploadRejected ''STORAGE_BYTE_LIMIT''))"
  by (auto simp: collect_bounded_bytes_def collect_chunks_sum)

end
