(* ===== verification/ObjectStore.thy ===== *)
theory ObjectStore
  imports StorageBase
begin

text \<open>
  The object store as the callers see it: the operations of the \<open>ObjectStorage\<close> protocol of
  \<open>integrations/storage/base.py\<close> as a record of programs over the store's own state, their
  contract as the locale \<open>object_storage\<close>, and \<open>integrations/storage/fake.py\<close>, the network-free
  store of the repository, for which the contract is proved. The S3 client of
  \<open>integrations/storage/s3.py\<close>, which checks its arguments and forwards to boto3, is not modelled.
\<close>

record 'st storage_ops =
  so_presign_put :: "string \<Rightarrow> string \<Rightarrow> int \<Rightarrow> string \<Rightarrow> int \<Rightarrow> ('st, presigned_put) prog"
  so_head :: "string \<Rightarrow> ('st, object_metadata option) prog"
  so_download_bytes :: "string \<Rightarrow> int \<Rightarrow> string \<Rightarrow> ('st, object_bytes) prog"
  so_upload_bytes :: "string \<Rightarrow> string \<Rightarrow> bytes list \<Rightarrow> int \<Rightarrow> ('st, object_bytes) prog"
  so_copy_verified :: "string \<Rightarrow> string \<Rightarrow> string \<Rightarrow> ('st, object_metadata) prog"
  so_delete :: "string \<Rightarrow> ('st, unit) prog"

section \<open>The contract\<close>

text \<open>
  \<open>stored s key\<close> is the metadata of the object under \<open>key\<close>, \<open>content s key\<close> its bytes where the store has
  them. A head that returns reports what is stored, a deletion that returns has removed exactly its key, a copy
  that returns has copied the bytes and stored the metadata it reports. An operation that raises may have had its
  effect or not, as a timeout of the provider leaves it open, but it never touches another key.
\<close>

locale object_storage =
  fixes ops :: "'st storage_ops"
    and stored :: "'st \<Rightarrow> string \<Rightarrow> object_metadata option"
    and content :: "'st \<Rightarrow> string \<Rightarrow> bytes option"
  assumes delete_ok: "so_delete ops k s = (Inr u, t) \<Longrightarrow> stored t k = None \<and> content t k = None"
    and delete_frame: "so_delete ops k s = (r, t) \<Longrightarrow> k' \<noteq> k \<Longrightarrow>
      stored t k' = stored s k' \<and> content t k' = content s k'"
    and head_ok: "so_head ops k s = (Inr mo, t) \<Longrightarrow> mo = stored s k"
    and head_keeps: "so_head ops k s = (r0, t) \<Longrightarrow> stored t = stored s \<and> content t = content s"
    and copy_ok: "so_copy_verified ops src dst sha s = (Inr m, t) \<Longrightarrow>
      stored t dst = Some m \<and> om_key m = dst \<and> om_client_sha256_metadata m = Some sha
      \<and> content t dst = content s src"
    and copy_frame: "so_copy_verified ops src dst sha s = (r4, t) \<Longrightarrow> k \<noteq> dst \<Longrightarrow>
      stored t k = stored s k \<and> content t k = content s k"
    and presign_keeps: "so_presign_put ops k ct n sha ex s = (r1, t) \<Longrightarrow>
      stored t = stored s \<and> content t = content s"
    and download_keeps: "so_download_bytes ops k n sha s = (r2, t) \<Longrightarrow>
      stored t = stored s \<and> content t = content s"
    and upload_frame: "so_upload_bytes ops k ct cs n s = (r3, t) \<Longrightarrow> k' \<noteq> k \<Longrightarrow>
      stored t k' = stored s k' \<and> content t k' = content s k'"
begin

lemma delete_exact:
  "so_delete ops k s = (Inr u, t) \<Longrightarrow> stored t = (stored s)(k := None) \<and> content t = (content s)(k := None)"
  by (auto intro!: ext dest: delete_ok delete_frame)

lemma delete_idempotent:
  "so_delete ops k s = (Inr u, t) \<Longrightarrow> so_delete ops k t = (Inr v, t') \<Longrightarrow>
     stored t' = stored t \<and> content t' = content t"
  by (auto dest!: delete_exact)

lemma head_after_delete:
  "so_delete ops k s = (r, t) \<Longrightarrow> r = Inr u \<Longrightarrow> so_head ops k t = (Inr m, t') \<Longrightarrow> m = None"
  by (auto dest!: delete_ok head_ok)

lemma copy_exact:
  "so_copy_verified ops src dst sha s = (Inr m, t) \<Longrightarrow>
     stored t = (stored s)(dst \<mapsto> m) \<and> content t = (content s)(dst := content s src)"
  by (auto intro!: ext dest: copy_ok copy_frame)

lemma head_after_copy:
  "so_copy_verified ops src dst sha s = (Inr m, t) \<Longrightarrow> so_head ops dst t = (Inr m', t') \<Longrightarrow>
     m' = Some m"
  by (auto dest!: copy_ok head_ok)

end

text \<open>The effect of an operation on the objects of a store: one removed, or at most one touched.\<close>

definition removed_only ::
  "('st \<Rightarrow> string \<Rightarrow> object_metadata option) \<Rightarrow> ('st \<Rightarrow> string \<Rightarrow> bytes option) \<Rightarrow> string \<Rightarrow> 'st \<Rightarrow> 'st \<Rightarrow> bool" where
  "removed_only stored content key s t \<longleftrightarrow> stored t = (stored s)(key := None) \<and> content t = (content s)(key := None)"

definition touches_only ::
  "('st \<Rightarrow> string \<Rightarrow> object_metadata option) \<Rightarrow> ('st \<Rightarrow> string \<Rightarrow> bytes option) \<Rightarrow> string \<Rightarrow> 'st \<Rightarrow> 'st \<Rightarrow> bool" where
  "touches_only stored content key s t \<longleftrightarrow> (\<forall>k. k = key \<or> (stored t k = stored s k \<and> content t k = content s k))"

lemma removed_touches: "removed_only stored content key s t \<Longrightarrow> touches_only stored content key s t"
  by (auto simp: removed_only_def touches_only_def)

text \<open>
  What a store that checks its bytes adds: a download gives the bytes of the object, with the requested digest and
  within the limit, and an upload stores the bytes it was given under their digest.
\<close>

definition uploaded_metadata :: "(bytes \<Rightarrow> string) \<Rightarrow> string \<Rightarrow> string \<Rightarrow> bytes \<Rightarrow> object_metadata" where
  "uploaded_metadata digest key content_type data = \<lparr>om_key = key, om_size_bytes = int (length data),
     om_content_type = Some content_type, om_client_sha256_metadata = Some (digest data)\<rparr>"

locale verified_object_storage = object_storage ops stored content
  for ops :: "'st storage_ops" and stored :: "'st \<Rightarrow> string \<Rightarrow> object_metadata option"
    and content :: "'st \<Rightarrow> string \<Rightarrow> bytes option" +
  fixes digest :: "bytes \<Rightarrow> string"
  assumes download_ok: "so_download_bytes ops k n sha s = (Inr x, t) \<Longrightarrow>
      content s k = Some (ob_data x) \<and> ob_actual_sha256 x = sha \<and> digest (ob_data x) = sha
      \<and> int (length (ob_data x)) \<le> n"
    and upload_ok: "so_upload_bytes ops k ct cs n s = (Inr y, t) \<Longrightarrow>
      ob_data y = concat cs \<and> ob_actual_sha256 y = digest (concat cs)
      \<and> stored t k = Some (uploaded_metadata digest k ct (concat cs)) \<and> content t k = Some (concat cs)"
begin

lemma download_after_upload:
  "so_upload_bytes ops k ct cs n s = (Inr y, t) \<Longrightarrow> so_download_bytes ops k n' sha t = (Inr x, t') \<Longrightarrow>
     ob_data x = concat cs \<and> sha = digest (concat cs)"
  by (auto dest!: upload_ok download_ok)

lemma head_after_upload:
  "so_upload_bytes ops k ct cs n s = (Inr y, t) \<Longrightarrow> so_head ops k t = (Inr m, t') \<Longrightarrow>
     \<exists>x. m = Some x \<and> om_client_sha256_metadata x = Some (ob_actual_sha256 y)"
  by (auto dest!: upload_ok head_ok simp: uploaded_metadata_def)

end

section \<open>FakeObjectStorage\<close>

record expected_put =
  ep_content_type :: string
  ep_size_bytes :: int
  ep_sha256 :: string
  ep_expires :: int

record fake_storage =
  fs_objects :: "string \<Rightarrow> object_metadata option"
  fs_object_bytes :: "string \<Rightarrow> bytes option"
  fs_expected_puts :: "string \<Rightarrow> expected_put option"
  fs_failures :: "string \<Rightarrow> string option"

definition empty_fake_storage :: fake_storage where
  "empty_fake_storage = \<lparr>fs_objects = (\<lambda>_. None), fs_object_bytes = (\<lambda>_. None),
     fs_expected_puts = (\<lambda>_. None), fs_failures = (\<lambda>_. None)\<rparr>"

definition fail_next :: "string \<Rightarrow> string \<Rightarrow> (fake_storage, unit) prog" where
  "fail_next operation detail =
     modify (\<lambda>s. s\<lparr>fs_failures := (fs_failures s)(operation \<mapsto> detail)\<rparr>)"

definition maybe_fail :: "string \<Rightarrow> (fake_storage, unit) prog" where
  "maybe_fail operation =
     chain (gets (\<lambda>s. fs_failures s operation)) (\<lambda>popped.
     chain (modify (\<lambda>s. s\<lparr>fs_failures := (fs_failures s)(operation := None)\<rparr>)) (\<lambda>_.
     case popped of None \<Rightarrow> ret ()
     | Some detail \<Rightarrow> require (detail = []) (StorageUnavailable detail)))"

text \<open>\<open>urllib.parse.quote\<close> with its default \<open>safe="/"\<close>, UTF-8 percent-encoded.\<close>

definition quote_safe :: "char \<Rightarrow> bool" where
  "quote_safe c \<longleftrightarrow> (let n = of_char c :: nat in
     (48 \<le> n \<and> n \<le> 57) \<or> (65 \<le> n \<and> n \<le> 90) \<or> (97 \<le> n \<and> n \<le> 122) \<or> n \<in> {95, 46, 45, 126, 47})"

definition upper_hex :: "nat \<Rightarrow> char" where
  "upper_hex n = (if n < 10 then char_of (48 + n) else char_of (55 + n))"

definition percent_byte :: "nat \<Rightarrow> string" where
  "percent_byte n = [CHR ''%'', upper_hex (n div 16), upper_hex (n mod 16)]"

definition quote :: "string \<Rightarrow> string" where
  "quote s = concat (map (\<lambda>c. let n = of_char c :: nat in
     if quote_safe c then [c]
     else if n < 128 then percent_byte n
     else percent_byte (192 + n div 64) @ percent_byte (128 + n mod 64)) s)"

definition fake_presign_put ::
  "int \<Rightarrow> string \<Rightarrow> string \<Rightarrow> int \<Rightarrow> string \<Rightarrow> int \<Rightarrow> (fake_storage, presigned_put) prog" where
  "fake_presign_put runtime_max key content_type size_bytes sha256 expires =
     chain (lift_sum (validate_put_constraints runtime_max key content_type size_bytes sha256 expires)) (\<lambda>_.
     chain (maybe_fail ''presign_put'') (\<lambda>_.
     chain (modify (\<lambda>s. s\<lparr>fs_expected_puts := (fs_expected_puts s)(key \<mapsto>
         \<lparr>ep_content_type = content_type, ep_size_bytes = size_bytes,
          ep_sha256 = sha256, ep_expires = expires\<rparr>)\<rparr>)) (\<lambda>_.
     ret \<lparr>pp_url = ''https://fake-storage.invalid/'' @ quote key @ ''?signed=opaque'',
          pp_headers = [(''Content-Length'', decimal (nat size_bytes)),
                        (''Content-Type'', content_type),
                        (''x-amz-meta-sha256'', sha256)]\<rparr>)))"

definition fake_store_object ::
  "string \<Rightarrow> string option \<Rightarrow> int \<Rightarrow> string \<Rightarrow> (fake_storage, unit) prog" where
  "fake_store_object key content_type size_bytes sha256 =
     (let candidate = \<lparr>om_key = key, om_size_bytes = size_bytes, om_content_type = content_type,
                       om_client_sha256_metadata = Some sha256\<rparr> in
      chain (gets (\<lambda>s. fs_objects s key)) (\<lambda>current.
      chain (require (current = None \<or> current = Some candidate)
              (UploadRejected ''STORAGE_METADATA_IMMUTABLE'')) (\<lambda>_.
      modify (\<lambda>s. s\<lparr>fs_objects := (fs_objects s)(key \<mapsto> candidate),
                    fs_object_bytes := (fs_object_bytes s)(key := None)\<rparr>))))"

definition fake_put_object ::
  "string \<Rightarrow> string \<Rightarrow> int \<Rightarrow> string \<Rightarrow> (fake_storage, unit) prog" where
  "fake_put_object key content_type size_bytes sha256 =
     chain (lift_sum (validate_controlled_key key)) (\<lambda>_.
     chain (lift_sum (validate_checksum sha256)) (\<lambda>_.
     chain (maybe_fail ''put_object'') (\<lambda>_.
     chain (gets (\<lambda>s. fs_expected_puts s key)) (\<lambda>expected.
     chain (require (case expected of None \<Rightarrow> True
              | Some e \<Rightarrow> content_type = ep_content_type e \<and> size_bytes = ep_size_bytes e
                  \<and> sha256 = ep_sha256 e)
            (UploadRejected ''STORAGE_UPLOAD_CONSTRAINT'')) (\<lambda>_.
     fake_store_object key (Some content_type) size_bytes sha256)))))"

definition fake_inject_object ::
  "string \<Rightarrow> string \<Rightarrow> int \<Rightarrow> string \<Rightarrow> (fake_storage, unit) prog" where
  "fake_inject_object key content_type size_bytes sha256 =
     chain (lift_sum (validate_controlled_key key)) (\<lambda>_.
     chain (lift_sum (validate_checksum sha256)) (\<lambda>_.
     fake_store_object key (Some content_type) size_bytes sha256))"

definition fake_inject_object_bytes ::
  "string \<Rightarrow> string \<Rightarrow> bytes \<Rightarrow> string \<Rightarrow> (fake_storage, unit) prog" where
  "fake_inject_object_bytes key content_type data client_sha256_metadata =
     chain (lift_sum (validate_controlled_key key)) (\<lambda>_.
     chain (lift_sum (validate_checksum client_sha256_metadata)) (\<lambda>_.
     chain (fake_store_object key (Some content_type) (int (length data)) client_sha256_metadata) (\<lambda>_.
     modify (\<lambda>s. s\<lparr>fs_object_bytes := (fs_object_bytes s)(key \<mapsto> data)\<rparr>))))"

definition fake_head :: "string \<Rightarrow> (fake_storage, object_metadata option) prog" where
  "fake_head key =
     chain (lift_sum (validate_controlled_key key)) (\<lambda>_.
     chain (maybe_fail ''head'') (\<lambda>_.
     gets (\<lambda>s. fs_objects s key)))"

definition fake_presign_get ::
  "string \<Rightarrow> int \<Rightarrow> string option \<Rightarrow> (fake_storage, string) prog" where
  "fake_presign_get key expires filename =
     chain (lift_sum (validate_controlled_key key)) (\<lambda>_.
     chain (lift_sum (validate_expiry expires)) (\<lambda>_.
     chain (case filename of None \<Rightarrow> ret []
            | Some f \<Rightarrow> lift_sum (validate_download_filename f)) (\<lambda>_.
     chain (maybe_fail ''presign_get'') (\<lambda>_.
     (let suffix = (case filename of None \<Rightarrow> [] | Some f \<Rightarrow> if f = [] then [] else ''&filename='' @ quote f)
      in ret (''https://fake-storage.invalid/'' @ quote key @ ''?signed=opaque'' @ suffix))))))"

definition fake_download_bytes ::
  "(bytes \<Rightarrow> string) \<Rightarrow> int \<Rightarrow> string \<Rightarrow> int \<Rightarrow> string \<Rightarrow> (fake_storage, object_bytes) prog" where
  "fake_download_bytes digest runtime_max key max_bytes expected_sha256 =
     chain (lift_sum (validate_controlled_key key)) (\<lambda>_.
     chain (maybe_fail ''download_bytes'') (\<lambda>_.
     chain (gets (\<lambda>s. (fs_object_bytes s key, fs_objects s key))) (\<lambda>(content, metadata).
     case content of
       None \<Rightarrow> raise (StorageUnavailable ''storage object bytes unavailable'')
     | Some stored_bytes \<Rightarrow>
         chain (lift_sum (collect_bounded_bytes runtime_max [stored_bytes] max_bytes)) (\<lambda>data.
         lift_sum (verified_object_bytes digest key data
           (case metadata of None \<Rightarrow> None | Some m \<Rightarrow> om_content_type m)
           (Some expected_sha256))))))"

definition fake_upload_bytes ::
  "(bytes \<Rightarrow> string) \<Rightarrow> int \<Rightarrow> string \<Rightarrow> string \<Rightarrow> bytes list \<Rightarrow> int
     \<Rightarrow> (fake_storage, object_bytes) prog" where
  "fake_upload_bytes digest runtime_max key content_type chunks max_bytes =
     chain (lift_sum (validate_controlled_key key)) (\<lambda>_.
     chain (maybe_fail ''upload_bytes'') (\<lambda>_.
     chain (lift_sum (collect_bounded_bytes runtime_max chunks max_bytes)) (\<lambda>data.
     chain (lift_sum (verified_object_bytes digest key data (Some content_type) None)) (\<lambda>uploaded.
     chain (fake_store_object key (Some content_type) (int (length data))
              (ob_actual_sha256 uploaded)) (\<lambda>_.
     chain (modify (\<lambda>s. s\<lparr>fs_object_bytes := (fs_object_bytes s)(key \<mapsto> data)\<rparr>)) (\<lambda>_.
     ret uploaded))))))"

definition fake_copy_verified ::
  "string \<Rightarrow> string \<Rightarrow> string \<Rightarrow> (fake_storage, object_metadata) prog" where
  "fake_copy_verified source destination sha256 =
     chain (lift_sum (validate_copy_boundary source destination)) (\<lambda>_.
     chain (lift_sum (validate_checksum sha256)) (\<lambda>_.
     chain (maybe_fail ''copy_verified'') (\<lambda>_.
     chain (gets (\<lambda>s. fs_objects s source)) (\<lambda>original.
     case original of
       None \<Rightarrow> raise (UploadRejected ''STORAGE_COPY_MISMATCH'')
     | Some found \<Rightarrow>
         (let copied = \<lparr>om_key = destination, om_size_bytes = om_size_bytes found,
                        om_content_type = om_content_type found,
                        om_client_sha256_metadata = om_client_sha256_metadata found\<rparr> in
          chain (modify (\<lambda>s. s\<lparr>fs_objects := (fs_objects s)(destination \<mapsto> copied),
                 fs_object_bytes := (fs_object_bytes s)(destination := fs_object_bytes s source)\<rparr>)) (\<lambda>_.
          chain (require (om_client_sha256_metadata copied = Some sha256)
                  (UploadRejected ''STORAGE_COPY_MISMATCH'')) (\<lambda>_.
          ret copied)))))))"

definition fake_delete :: "string \<Rightarrow> (fake_storage, unit) prog" where
  "fake_delete key =
     chain (lift_sum (validate_controlled_key key)) (\<lambda>_.
     chain (maybe_fail ''delete'') (\<lambda>_.
     modify (\<lambda>s. s\<lparr>fs_objects := (fs_objects s)(key := None),
                   fs_object_bytes := (fs_object_bytes s)(key := None)\<rparr>)))"

definition fake_ops :: "(bytes \<Rightarrow> string) \<Rightarrow> int \<Rightarrow> fake_storage storage_ops" where
  "fake_ops digest runtime_max =
     \<lparr>so_presign_put = fake_presign_put runtime_max,
      so_head = fake_head,
      so_download_bytes = fake_download_bytes digest runtime_max,
      so_upload_bytes = fake_upload_bytes digest runtime_max,
      so_copy_verified = fake_copy_verified,
      so_delete = fake_delete\<rparr>"

section \<open>FakeObjectStorage keeps the contract\<close>

lemma wp_maybe_fail [wp_simps]:
  "wp (maybe_fail op) Q E = (\<lambda>s. let t = s\<lparr>fs_failures := (fs_failures s)(op := None)\<rparr> in
     case fs_failures s op of None \<Rightarrow> Q () t
     | Some d \<Rightarrow> if d = [] then Q () t else E (StorageUnavailable d) t)"
  by (rule ext) (simp add: maybe_fail_def wp_simps Let_def split: option.splits)

lemmas fake_defs = fake_delete_def fake_head_def fake_copy_verified_def fake_presign_put_def
  fake_download_bytes_def fake_upload_bytes_def fake_store_object_def

lemma result_wpI:
  assumes "wp m Q E s" "m s = (r, t)"
  shows "case r of Inr x \<Rightarrow> Q x t | Inl e \<Rightarrow> E e t"
  using assms by (cases r) (auto simp: wp_def)

text \<open>What an operation leaves as it was: everything, or everything but one key.\<close>

definition fake_same :: "fake_storage \<Rightarrow> fake_storage \<Rightarrow> bool" where
  "fake_same s t \<longleftrightarrow> fs_objects t = fs_objects s \<and> fs_object_bytes t = fs_object_bytes s"

definition fake_frame :: "string \<Rightarrow> fake_storage \<Rightarrow> fake_storage \<Rightarrow> bool" where
  "fake_frame k s t \<longleftrightarrow> (\<forall>k'. k' \<noteq> k \<longrightarrow> fs_objects t k' = fs_objects s k' \<and> fs_object_bytes t k' = fs_object_bytes s k')"

lemma fake_delete_spec:
  "wp (fake_delete k) (\<lambda>_ t. fs_objects t k = None \<and> fs_object_bytes t k = None \<and> fake_frame k s t)
     (\<lambda>_ t. fake_frame k s t) s"
  by (auto simp: fake_defs wp_simps Let_def fake_frame_def split: sum.splits option.splits)

lemma fake_head_spec:
  "wp (fake_head k) (\<lambda>m t. m = fs_objects s k \<and> fake_same s t) (\<lambda>_ t. fake_same s t) s"
  by (auto simp: fake_defs wp_simps Let_def fake_same_def split: sum.splits option.splits)

lemma fake_copy_spec:
  "wp (fake_copy_verified src dst sha)
     (\<lambda>m t. fs_objects t dst = Some m \<and> om_key m = dst \<and> om_client_sha256_metadata m = Some sha
        \<and> fs_object_bytes t dst = fs_object_bytes s src \<and> fake_frame dst s t)
     (\<lambda>_ t. fake_frame dst s t) s"
  by (auto simp: fake_defs wp_simps Let_def fake_frame_def split: sum.splits option.splits)

lemma fake_presign_spec:
  "wp (fake_presign_put n k ct sz sha ex) (\<lambda>_ t. fake_same s t) (\<lambda>_ t. fake_same s t) s"
  by (auto simp: fake_defs wp_simps Let_def fake_same_def split: sum.splits option.splits)

lemma fake_download_spec:
  "wp (fake_download_bytes digest n k mx sha) (\<lambda>_ t. fake_same s t) (\<lambda>_ t. fake_same s t) s"
  by (auto simp: fake_defs wp_simps Let_def fake_same_def split: sum.splits option.splits)

lemma fake_upload_spec:
  "wp (fake_upload_bytes digest n k ct cs mx) (\<lambda>_ t. fake_frame k s t) (\<lambda>_ t. fake_frame k s t) s"
  by (auto simp: fake_defs wp_simps Let_def fake_frame_def split: sum.splits option.splits)

lemmas fake_effects = result_wpI [OF fake_delete_spec] result_wpI [OF fake_head_spec] result_wpI [OF fake_copy_spec]
  result_wpI [OF fake_presign_spec] result_wpI [OF fake_download_spec] result_wpI [OF fake_upload_spec]

interpretation fake: object_storage "fake_ops digest runtime_max" fs_objects fs_object_bytes
  by unfold_locales
    (auto simp: fake_ops_def fake_same_def fake_frame_def dest!: fake_effects split: sum.splits)

lemma collect_chunks_Inr:
  "collect_chunks n acc cs = Inr data \<Longrightarrow> int (length acc) \<le> n \<Longrightarrow>
     data = acc @ concat cs \<and> int (length data) \<le> n"
  by (induction n acc cs rule: collect_chunks.induct) (auto split: if_splits)

lemma collect_bounded_Inr:
  "collect_bounded_bytes m cs n = Inr data \<Longrightarrow> data = concat cs \<and> int (length data) \<le> n"
  by (auto simp: collect_bounded_bytes_def split: if_splits dest!: collect_chunks_Inr)

lemma verified_object_bytes_Inr:
  "verified_object_bytes digest k data ct expected = Inr x \<Longrightarrow>
     ob_data x = data \<and> ob_actual_sha256 x = digest data
     \<and> (case expected of None \<Rightarrow> True | Some e \<Rightarrow> digest data = e)"
  by (auto simp: verified_object_bytes_def Let_def split: option.splits sum.splits if_splits)

lemma fake_download_ok:
  "wp (fake_download_bytes digest r k n sha)
     (\<lambda>x _. fs_object_bytes s k = Some (ob_data x) \<and> ob_actual_sha256 x = sha \<and> digest (ob_data x) = sha
        \<and> int (length (ob_data x)) \<le> n)
     (\<lambda>_ _. True) s"
  unfolding fake_download_bytes_def
  by (intro wp_intros) (auto simp: wp_simps Let_def split: option.splits sum.splits if_splits
      dest!: collect_bounded_Inr verified_object_bytes_Inr)

lemma fake_upload_ok:
  "wp (fake_upload_bytes digest r k ct cs n)
     (\<lambda>y t. ob_data y = concat cs \<and> ob_actual_sha256 y = digest (concat cs)
        \<and> fs_objects t k = Some (uploaded_metadata digest k ct (concat cs)) \<and> fs_object_bytes t k = Some (concat cs))
     (\<lambda>_ _. True) s"
  unfolding fake_upload_bytes_def fake_store_object_def Let_def
  by (intro wp_intros) (auto simp: wp_simps Let_def uploaded_metadata_def split: option.splits sum.splits if_splits
      dest!: collect_bounded_Inr verified_object_bytes_Inr)

interpretation fake_verified:
  verified_object_storage "fake_ops digest runtime_max" fs_objects fs_object_bytes digest
  by unfold_locales
    (auto simp: fake_ops_def dest!: result_wpI [OF fake_download_ok] result_wpI [OF fake_upload_ok])

section \<open>Properties\<close>

text \<open>
  C40. The in-memory store keeps the whole contract of the interface, for metadata and for bytes: deletions, heads and
  copies are exact and leave other keys alone, a download gives the stored bytes with the requested digest and size,
  an upload stores the bytes it was given, with their length and digest as metadata.
\<close>

theorem fake_store_contract:
  "verified_object_storage (fake_ops digest runtime_max) fs_objects fs_object_bytes digest"
  by (rule fake_verified.verified_object_storage_axioms)

end
