(* ===== verification/Schema.thy ===== *)
theory Schema
  imports Complex_Main ObjectStore
begin

text \<open>
  The data model: the Django models of \<open>access\<close>, \<open>uploads\<close>, \<open>documents\<close>, \<open>jobs\<close>, \<open>outbox\<close>,
  \<open>audit\<close> and \<open>demo\<close> as records of their columns, the \<open>TextChoices\<close> as datatypes with their
  stored texts, the database as one list of rows per table, and the state a handler runs on:
  database, object store, clock, source of fresh UUIDs and settings. Foreign keys are the
  stored primary keys, aware datetimes are microseconds since the epoch.
\<close>

type_synonym time = int

text \<open>Values of \<open>JSONField\<close>s; a finite float is the rational it denotes.\<close>

datatype json =
    JNull
  | JBool bool
  | JInt int
  | JFloat rat
  | JStr string
  | JList "json list"
  | JObj "(string \<times> json) list"

definition jget :: "string \<Rightarrow> (string \<times> json) list \<Rightarrow> json" where
  "jget k kvs = (case map_of kvs k of None \<Rightarrow> JNull | Some v \<Rightarrow> v)"

fun json_truthy :: "json \<Rightarrow> bool" where
  "json_truthy JNull = False"
| "json_truthy (JBool b) = b"
| "json_truthy (JInt n) = (n \<noteq> 0)"
| "json_truthy (JFloat q) = (q \<noteq> 0)"
| "json_truthy (JStr s) = (s \<noteq> [])"
| "json_truthy (JList xs) = (xs \<noteq> [])"
| "json_truthy (JObj kvs) = (kvs \<noteq> [])"

section \<open>Enumerations\<close>

datatype role = Administrator | Issuer | Verifier | Auditor
datatype signing_key_status = KeyActive | KeyVerifyOnly | KeyRevoked
datatype upload_purpose = PurposeIssuance | PurposeVerification
datatype promotion_status = PromotionNone | Copying | Attached | PromotionFailed
datatype cleanup_lane = LaneOrdinary | LaneReconciliation
datatype job_kind = KindIssuance | KindVerification
datatype job_status = Created | Queued | Processing | RetryableFailed
  | Succeeded | Failed | DeadLettered | Cancelled
datatype audit_outcome = OutcomeSucceeded | OutcomeDenied | OutcomeFailed
datatype verification_status = VerifiedIntact | SourceIdentifiedModified | PartialEvidence
  | NoWatermark | InvalidManifest | ProcessingFailed
datatype output_state = OutReserved | OutUploading | OutCommitted | OutCleanupRequired | OutCleaned
datatype demo_verification_state = VerReserved | VerCommitted | VerFailed | VerCancelled

fun role_value :: "role \<Rightarrow> string" where
  "role_value Administrator = ''administrator''"
| "role_value Issuer = ''issuer''"
| "role_value Verifier = ''verifier''"
| "role_value Auditor = ''auditor''"

fun key_status_value :: "signing_key_status \<Rightarrow> string" where
  "key_status_value KeyActive = ''active''"
| "key_status_value KeyVerifyOnly = ''verify_only''"
| "key_status_value KeyRevoked = ''revoked''"

fun purpose_value :: "upload_purpose \<Rightarrow> string" where
  "purpose_value PurposeIssuance = ''issuance''"
| "purpose_value PurposeVerification = ''verification''"

fun promotion_value :: "promotion_status \<Rightarrow> string" where
  "promotion_value PromotionNone = ''none''"
| "promotion_value Copying = ''copying''"
| "promotion_value Attached = ''attached''"
| "promotion_value PromotionFailed = ''failed''"

fun kind_value :: "job_kind \<Rightarrow> string" where
  "kind_value KindIssuance = ''issuance''"
| "kind_value KindVerification = ''verification''"

fun status_value :: "job_status \<Rightarrow> string" where
  "status_value Created = ''created''"
| "status_value Queued = ''queued''"
| "status_value Processing = ''processing''"
| "status_value RetryableFailed = ''retryable_failed''"
| "status_value Succeeded = ''succeeded''"
| "status_value Failed = ''failed''"
| "status_value DeadLettered = ''dead_lettered''"
| "status_value Cancelled = ''cancelled''"

fun outcome_value :: "audit_outcome \<Rightarrow> string" where
  "outcome_value OutcomeSucceeded = ''succeeded''"
| "outcome_value OutcomeDenied = ''denied''"
| "outcome_value OutcomeFailed = ''failed''"

fun verification_status_value :: "verification_status \<Rightarrow> string" where
  "verification_status_value VerifiedIntact = ''VERIFIED_INTACT''"
| "verification_status_value SourceIdentifiedModified = ''SOURCE_IDENTIFIED_MODIFIED''"
| "verification_status_value PartialEvidence = ''PARTIAL_EVIDENCE''"
| "verification_status_value NoWatermark = ''NO_WATERMARK''"
| "verification_status_value InvalidManifest = ''INVALID_MANIFEST''"
| "verification_status_value ProcessingFailed = ''PROCESSING_FAILED''"

definition all_statuses :: "job_status list" where
  "all_statuses = [Created, Queued, Processing, RetryableFailed, Succeeded, Failed, DeadLettered,
     Cancelled]"

text \<open>\<open>JobStatus(value)\<close>: the member with that stored text.\<close>

definition status_of_value :: "string \<Rightarrow> job_status option" where
  "status_of_value v = find (\<lambda>s. status_value s = v) all_statuses"

lemma status_of_value_value [simp]: "status_of_value (status_value s) = Some s"
  by (cases s) (simp_all add: status_of_value_def all_statuses_def)

lemma status_of_value_Some: "status_of_value v = Some s \<longleftrightarrow> v = status_value s"
  by (auto simp: status_of_value_def find_Some_iff dest: sym)
     (metis find_Some_iff status_of_value_def status_of_value_value)

lemma status_value_inj: "status_value s = status_value t \<longleftrightarrow> s = t"
  by (metis option.inject status_of_value_value)

lemma kind_value_inj: "kind_value s = kind_value t \<longleftrightarrow> s = t"
  by (cases s; cases t) simp_all

section \<open>Rows\<close>

record organization =
  org_id :: uuid
  org_name :: string
  org_slug :: string

record user =
  usr_id :: uuid
  usr_organization_id :: uuid
  usr_role :: role

record recipient =
  rcp_id :: uuid
  rcp_organization_id :: uuid
  rcp_external_reference :: string
  rcp_display_name :: string

record signing_key =
  key_pk :: uuid
  key_organization_id :: uuid
  key_id :: string
  key_algorithm :: string
  key_public_key :: string
  key_status :: signing_key_status
  key_valid_from :: time
  key_valid_until :: "time option"
  key_revoked_at :: "time option"
  key_metadata :: json
  key_created_at :: time

record upload_request =
  upl_id :: uuid
  upl_organization_id :: uuid
  upl_requested_by_id :: uuid
  upl_purpose :: upload_purpose
  upl_object_key :: string
  upl_source_filename :: string
  upl_source_content_type :: string
  upl_expected_sha256 :: "string option"
  upl_size_bytes :: "int option"
  upl_expires_at :: time
  upl_finalized_at :: "time option"
  upl_orphan_deleted_at :: "time option"
  upl_promotion_target_key :: "string option"
  upl_promotion_status :: promotion_status
  upl_promotion_status_changed_at :: time
  upl_safe_error_code :: "string option"
  upl_promotion_target_deleted_at :: "time option"
  upl_promotion_target_reconciled_at :: "time option"
  upl_created_at :: time

record cleanup_schedule =
  sch_id :: nat
  sch_next_lane :: cleanup_lane
  sch_cursor_at :: "time option"
  sch_cursor_id :: "uuid option"
  sch_claim_upload_id :: "uuid option"
  sch_claim_token :: "uuid option"
  sch_claim_expires_at :: "time option"
  sch_has_run :: bool

record document =
  doc_id :: uuid
  doc_organization_id :: uuid
  doc_created_by_id :: uuid
  doc_upload_request_id :: uuid
  doc_source_object_key :: string
  doc_expected_source_sha256 :: string
  doc_page_count :: "int option"
  doc_created_at :: time

record issuance =
  iss_id :: uuid
  iss_organization_id :: uuid
  iss_document_id :: uuid
  iss_recipient_id :: uuid
  iss_created_by_id :: uuid
  iss_output_object_key :: "string option"
  iss_output_sha256 :: "string option"
  iss_output_deleted_at :: "time option"
  iss_issued_at :: time

record manifest =
  man_id :: nat
  man_organization_id :: uuid
  man_issuance_id :: uuid
  man_signing_key_id :: uuid
  man_internal_payload :: string
  man_internal_signature_envelope :: json
  man_public_payload :: string
  man_public_signature_envelope :: json
  man_created_at :: time

record verification =
  ver_id :: uuid
  ver_organization_id :: uuid
  ver_upload_request_id :: uuid
  ver_requested_by_id :: uuid
  ver_recovered_issuance_id :: "uuid option"
  ver_status :: "verification_status option"
  ver_evidence :: json
  ver_metrics :: json
  ver_created_at :: time
  ver_completed_at :: "time option"

record job =
  job_id :: uuid
  job_organization_id :: uuid
  job_kind :: job_kind
  job_status :: job_status
  job_attempt :: int
  job_issuance_id :: "uuid option"
  job_verification_id :: "uuid option"
  job_deadline_at :: time
  job_correlation_id :: uuid
  job_cancel_requested_at :: "time option"
  job_safe_error_code :: "string option"
  job_created_at :: time
  job_updated_at :: time

record job_result_receipt =
  rec_message_id :: uuid
  rec_organization_id :: uuid
  rec_job_id :: uuid
  rec_received_at :: time

record outbox_event =
  obx_id :: nat
  obx_organization_id :: uuid
  obx_message_id :: uuid
  obx_job_id :: uuid
  obx_attempt :: int
  obx_topic :: string
  obx_payload :: json
  obx_created_at :: time
  obx_published_at :: "time option"

record audit_event =
  aud_id :: uuid
  aud_organization_id :: uuid
  aud_actor_id :: "uuid option"
  aud_action :: string
  aud_target_type :: string
  aud_target_id :: string
  aud_correlation_id :: uuid
  aud_outcome :: audit_outcome
  aud_metadata :: "(string \<times> string) list"
  aud_created_at :: time

record demo_issuance_result =
  dir_job_id :: uuid
  dir_organization_id :: uuid
  dir_issuance_id :: uuid
  dir_attempt :: int
  dir_owner_token :: uuid
  dir_output_object_key :: string
  dir_output_state :: output_state
  dir_algorithm_label :: "string option"
  dir_candidate_identifier :: "string option"
  dir_canvas_height :: "int option"
  dir_canvas_width :: "int option"
  dir_input_sha256 :: "string option"
  dir_output_sha256 :: "string option"
  dir_page_count :: "int option"
  dir_processing_ms :: "int option"
  dir_limitations :: "string list"
  dir_cleanup_failures :: int
  dir_safe_error_code :: "string option"
  dir_created_at :: time
  dir_updated_at :: time

record demo_verification_result =
  dvr_job_id :: uuid
  dvr_organization_id :: uuid
  dvr_verification_id :: uuid
  dvr_attempt :: int
  dvr_owner_token :: uuid
  dvr_result_state :: demo_verification_state
  dvr_input_sha256 :: "string option"
  dvr_result_status :: "verification_status option"
  dvr_recovered_issuance_id :: "uuid option"
  dvr_evidence :: json
  dvr_metrics :: json
  dvr_safe_error_code :: "string option"
  dvr_completed_at :: "time option"
  dvr_created_at :: time
  dvr_updated_at :: time

section \<open>Database and world\<close>

record db =
  db_organizations :: "organization list"
  db_users :: "user list"
  db_recipients :: "recipient list"
  db_signing_keys :: "signing_key list"
  db_uploads :: "upload_request list"
  db_schedule :: "cleanup_schedule list"
  db_documents :: "document list"
  db_issuances :: "issuance list"
  db_manifests :: "manifest list"
  db_verifications :: "verification list"
  db_jobs :: "job list"
  db_receipts :: "job_result_receipt list"
  db_outbox :: "outbox_event list"
  db_audit :: "audit_event list"
  db_issuance_results :: "demo_issuance_result list"
  db_verification_results :: "demo_verification_result list"

text \<open>
  The settings the modelled code reads: the runtime limits of \<open>config/limits.py\<close>.
\<close>

record limits =
  lim_max_pdf_bytes :: int
  lim_max_pdf_pages :: int
  lim_max_image_pixels :: int
  lim_max_document_raster_pixels :: int
  lim_job_timeout_seconds :: int
  lim_worker_concurrency :: int
  lim_reconciliation_lease_seconds :: int

text \<open>
  The clock and the source of UUIDs are sequences of readings with a position; nothing is
  assumed of the readings. \<open>w_locked\<close> says which rows another transaction holds, which matters
  to \<open>skip_locked\<close> queries only.
\<close>

record 'st world =
  w_db :: db
  w_store :: 'st
  w_clock :: "nat \<Rightarrow> time"
  w_tick :: nat
  w_uuids :: "nat \<Rightarrow> uuid"
  w_uuid_tick :: nat
  w_limits :: limits
  w_locked :: "uuid \<Rightarrow> bool"

definition now :: "('st world, time) prog" where
  "now = chain (gets (\<lambda>w. w_clock w (w_tick w))) (\<lambda>t.
     chain (modify (\<lambda>w. w\<lparr>w_tick := Suc (w_tick w)\<rparr>)) (\<lambda>_. ret t))"

definition uuid4 :: "('st world, uuid) prog" where
  "uuid4 = chain (gets (\<lambda>w. w_uuids w (w_uuid_tick w))) (\<lambda>u.
     chain (modify (\<lambda>w. w\<lparr>w_uuid_tick := Suc (w_uuid_tick w)\<rparr>)) (\<lambda>_. ret u))"

definition on_store :: "('st, 'a) prog \<Rightarrow> ('st world, 'a) prog" where
  "on_store m = (\<lambda>w. case m (w_store w) of (r, st) \<Rightarrow> (r, w\<lparr>w_store := st\<rparr>))"

text \<open>\<open>with transaction.atomic()\<close>: an exception restores the database, not the store.\<close>

definition atomic :: "('st world, 'a) prog \<Rightarrow> ('st world, 'a) prog" where
  "atomic m = (\<lambda>w. case m w of (Inl e, t) \<Rightarrow> (Inl e, t\<lparr>w_db := w_db w\<rparr>) | (Inr x, t) \<Rightarrow> (Inr x, t))"

lemma wp_now [wp_simps]:
  "wp now Q E = (\<lambda>w. Q (w_clock w (w_tick w)) (w\<lparr>w_tick := Suc (w_tick w)\<rparr>))"
  by (rule ext) (simp add: now_def wp_simps)

lemma wp_uuid4 [wp_simps]:
  "wp uuid4 Q E = (\<lambda>w. Q (w_uuids w (w_uuid_tick w)) (w\<lparr>w_uuid_tick := Suc (w_uuid_tick w)\<rparr>))"
  by (rule ext) (simp add: uuid4_def wp_simps)

lemma wp_atomic [wp_simps]:
  "wp (atomic m) Q E = (\<lambda>w. wp m Q (\<lambda>e t. E e (t\<lparr>w_db := w_db w\<rparr>)) w)"
  by (rule ext) (simp add: wp_def atomic_def split: prod.splits sum.splits)

lemma wp_on_store [wp_simps]:
  "wp (on_store m) Q E = (\<lambda>w. wp m (\<lambda>x st. Q x (w\<lparr>w_store := st\<rparr>)) (\<lambda>e st. E e (w\<lparr>w_store := st\<rparr>)) (w_store w))"
  by (rule ext) (simp add: wp_def on_store_def split: prod.splits sum.splits)

section \<open>Tables\<close>

record ('r, 'k) table =
  tb_name :: string
  tb_rows :: "db \<Rightarrow> 'r list"
  tb_put :: "'r list \<Rightarrow> db \<Rightarrow> db"
  tb_key :: "'r \<Rightarrow> 'k"

definition get_row :: "('r, 'k) table \<Rightarrow> 'k \<Rightarrow> ('st world, 'r) prog" where
  "get_row t k = chain (gets (\<lambda>w. lookup_by (tb_key t) k (tb_rows t (w_db w)))) (\<lambda>found.
     case found of None \<Rightarrow> raise (DoesNotExist (tb_name t)) | Some r \<Rightarrow> ret r)"

definition rows_where :: "('r, 'k) table \<Rightarrow> ('r \<Rightarrow> bool) \<Rightarrow> ('st world, 'r list) prog" where
  "rows_where t P = gets (\<lambda>w. filter P (tb_rows t (w_db w)))"

definition exists_where :: "('r, 'k) table \<Rightarrow> ('r \<Rightarrow> bool) \<Rightarrow> ('st world, bool) prog" where
  "exists_where t P = gets (\<lambda>w. list_ex P (tb_rows t (w_db w)))"

text \<open>
  \<open>queryset.filter(...).get()\<close> of a filter that may match several rows.
\<close>

definition get_where :: "('r, 'k) table \<Rightarrow> ('r \<Rightarrow> bool) \<Rightarrow> ('st world, 'r) prog" where
  "get_where t P = chain (rows_where t P) (\<lambda>rows. case rows of
       [] \<Rightarrow> raise (DoesNotExist (tb_name t))
     | r # rest \<Rightarrow> chain (require (rest = []) (MultipleObjectsReturned (tb_name t))) (\<lambda>_. ret r))"

text \<open>
  \<open>INSERT\<close> with a primary key, refused when a uniqueness or check constraint fails;
  \<open>ok d r\<close> holds when row \<open>r\<close> may join \<open>d\<close>.
\<close>

definition insert_row :: "('r, 'k) table \<Rightarrow> (db \<Rightarrow> 'r \<Rightarrow> bool) \<Rightarrow> 'r \<Rightarrow> ('st world, unit) prog" where
  "insert_row t ok r = chain (gets w_db) (\<lambda>d.
     chain (require (tb_key t r \<notin> tb_key t ` set (tb_rows t d) \<and> ok d r)
              (IntegrityError (tb_name t))) (\<lambda>_.
     modify (\<lambda>w. w\<lparr>w_db := tb_put t (tb_rows t (w_db w) @ [r]) (w_db w)\<rparr>)))"

text \<open>
  \<open>UPDATE\<close> of the columns that \<open>f\<close> writes in the row with key \<open>k\<close>; the row that results must
  pass the table's constraints.
\<close>

definition update_row ::
  "('r, 'k) table \<Rightarrow> (db \<Rightarrow> 'r \<Rightarrow> bool) \<Rightarrow> 'k \<Rightarrow> ('r \<Rightarrow> 'r) \<Rightarrow> ('st world, unit) prog" where
  "update_row t ok k f = chain (gets w_db) (\<lambda>d.
     chain (require (case lookup_by (tb_key t) k (tb_rows t d) of None \<Rightarrow> True | Some r \<Rightarrow> ok d (f r))
              (IntegrityError (tb_name t))) (\<lambda>_.
     modify (\<lambda>w. w\<lparr>w_db := tb_put t (update_by (tb_key t) k f (tb_rows t (w_db w))) (w_db w)\<rparr>)))"

lemma wp_get_row [wp_simps]:
  "wp (get_row t k) Q E = (\<lambda>w. case lookup_by (tb_key t) k (tb_rows t (w_db w)) of
     None \<Rightarrow> E (DoesNotExist (tb_name t)) w | Some r \<Rightarrow> Q r w)"
  by (rule ext) (simp add: get_row_def wp_simps split: option.splits)

lemma wp_rows_where [wp_simps]:
  "wp (rows_where t P) Q E = (\<lambda>w. Q (filter P (tb_rows t (w_db w))) w)"
  by (simp add: rows_where_def wp_simps)

lemma wp_exists_where [wp_simps]:
  "wp (exists_where t P) Q E = (\<lambda>w. Q (list_ex P (tb_rows t (w_db w))) w)"
  by (simp add: exists_where_def wp_simps)

lemma wp_get_where [wp_simps]:
  "wp (get_where t P) Q E = (\<lambda>w. case filter P (tb_rows t (w_db w)) of
     [] \<Rightarrow> E (DoesNotExist (tb_name t)) w
   | r # rest \<Rightarrow> if rest = [] then Q r w else E (MultipleObjectsReturned (tb_name t)) w)"
  by (rule ext) (simp add: get_where_def wp_simps split: list.splits)

lemma wp_insert_row [wp_simps]:
  "wp (insert_row t ok r) Q E = (\<lambda>w.
     if tb_key t r \<notin> tb_key t ` set (tb_rows t (w_db w)) \<and> ok (w_db w) r
     then Q () (w\<lparr>w_db := tb_put t (tb_rows t (w_db w) @ [r]) (w_db w)\<rparr>)
     else E (IntegrityError (tb_name t)) w)"
  by (rule ext) (simp add: insert_row_def wp_simps)

lemma wp_update_row [wp_simps]:
  "wp (update_row t ok k f) Q E = (\<lambda>w.
     if (case lookup_by (tb_key t) k (tb_rows t (w_db w)) of None \<Rightarrow> True | Some r \<Rightarrow> ok (w_db w) (f r))
     then Q () (w\<lparr>w_db := tb_put t (update_by (tb_key t) k f (tb_rows t (w_db w))) (w_db w)\<rparr>)
     else E (IntegrityError (tb_name t)) w)"
  by (rule ext) (simp add: update_row_def wp_simps)

lemma wpi_world [wp_intros]:
  "Q (w_clock w (w_tick w)) (w\<lparr>w_tick := Suc (w_tick w)\<rparr>) \<Longrightarrow> wp now Q E w"
  "R (w_uuids w (w_uuid_tick w)) (w\<lparr>w_uuid_tick := Suc (w_uuid_tick w)\<rparr>) \<Longrightarrow> wp uuid4 R E w"
  "wp m S (\<lambda>e t. E e (t\<lparr>w_db := w_db w\<rparr>)) w \<Longrightarrow> wp (atomic m) S E w"
  "wp n (\<lambda>x st. U x (w\<lparr>w_store := st\<rparr>)) (\<lambda>e st. E e (w\<lparr>w_store := st\<rparr>)) (w_store w) \<Longrightarrow>
     wp (on_store n) U E w"
  by (simp_all add: wp_simps)

lemma wpi_get_row [wp_intros]:
  "(\<And>r. lookup_by (tb_key t) k (tb_rows t (w_db w)) = Some r \<Longrightarrow> Q r w) \<Longrightarrow>
   (lookup_by (tb_key t) k (tb_rows t (w_db w)) = None \<Longrightarrow> E (DoesNotExist (tb_name t)) w) \<Longrightarrow>
     wp (get_row t k) Q E w"
  by (simp add: wp_simps split: option.splits)

lemma wpi_rows [wp_intros]:
  "Q (filter P (tb_rows t (w_db w))) w \<Longrightarrow> wp (rows_where t P) Q E w"
  "R (list_ex P (tb_rows t (w_db w))) w \<Longrightarrow> wp (exists_where t P) R E w"
  by (simp_all add: wp_simps)

lemma wpi_get_where [wp_intros]:
  "(\<And>r. filter P (tb_rows t (w_db w)) = [r] \<Longrightarrow> Q r w) \<Longrightarrow>
   (\<And>c. \<forall>r. filter P (tb_rows t (w_db w)) \<noteq> [r] \<Longrightarrow>
      c = DoesNotExist (tb_name t) \<or> c = MultipleObjectsReturned (tb_name t) \<Longrightarrow> E c w) \<Longrightarrow>
     wp (get_where t P) Q E w"
  by (auto simp: wp_simps split: list.splits)

lemma wpi_insert_row [wp_intros]:
  "(tb_key t r \<notin> tb_key t ` set (tb_rows t (w_db w)) \<Longrightarrow> ok (w_db w) r \<Longrightarrow>
      Q () (w\<lparr>w_db := tb_put t (tb_rows t (w_db w) @ [r]) (w_db w)\<rparr>)) \<Longrightarrow>
   E (IntegrityError (tb_name t)) w \<Longrightarrow> wp (insert_row t ok r) Q E w"
  by (simp add: wp_simps)

lemma wpi_update_row [wp_intros]:
  "(\<And>p. lookup_by (tb_key t) k (tb_rows t (w_db w)) = Some p \<Longrightarrow> ok (w_db w) (f p) \<Longrightarrow>
      Q () (w\<lparr>w_db := tb_put t (update_by (tb_key t) k f (tb_rows t (w_db w))) (w_db w)\<rparr>)) \<Longrightarrow>
   (lookup_by (tb_key t) k (tb_rows t (w_db w)) = None \<Longrightarrow>
      Q () (w\<lparr>w_db := tb_put t (update_by (tb_key t) k f (tb_rows t (w_db w))) (w_db w)\<rparr>)) \<Longrightarrow>
   E (IntegrityError (tb_name t)) w \<Longrightarrow> wp (update_row t ok k f) Q E w"
  by (simp add: wp_simps split: option.splits)

end
