(* ===== verification/Tables.thy ===== *)
theory Tables
  imports Schema
begin

text \<open>
  The tables of the database, the contract every table keeps (\<open>keyed_table\<close>), and the two
  persistence paths of \<open>ValidatedOrganizationOwnedModel.save\<close> in \<open>access/models.py\<close>: inserting a
  new instance and updating columns of a stored one.
\<close>

section \<open>The tables\<close>

definition organizations_t :: "(organization, uuid) table" where
  "organizations_t = \<lparr>tb_name = ''Organization'', tb_rows = db_organizations,
     tb_put = (\<lambda>rs d. d\<lparr>db_organizations := rs\<rparr>), tb_key = org_id\<rparr>"

definition users_t :: "(user, uuid) table" where
  "users_t = \<lparr>tb_name = ''User'', tb_rows = db_users,
     tb_put = (\<lambda>rs d. d\<lparr>db_users := rs\<rparr>), tb_key = usr_id\<rparr>"

definition recipients_t :: "(recipient, uuid) table" where
  "recipients_t = \<lparr>tb_name = ''Recipient'', tb_rows = db_recipients,
     tb_put = (\<lambda>rs d. d\<lparr>db_recipients := rs\<rparr>), tb_key = rcp_id\<rparr>"

definition keys_t :: "(signing_key, uuid) table" where
  "keys_t = \<lparr>tb_name = ''SigningKey'', tb_rows = db_signing_keys,
     tb_put = (\<lambda>rs d. d\<lparr>db_signing_keys := rs\<rparr>), tb_key = key_pk\<rparr>"

definition uploads_t :: "(upload_request, uuid) table" where
  "uploads_t = \<lparr>tb_name = ''UploadRequest'', tb_rows = db_uploads,
     tb_put = (\<lambda>rs d. d\<lparr>db_uploads := rs\<rparr>), tb_key = upl_id\<rparr>"

definition schedule_t :: "(cleanup_schedule, nat) table" where
  "schedule_t = \<lparr>tb_name = ''CleanupScheduleState'', tb_rows = db_schedule,
     tb_put = (\<lambda>rs d. d\<lparr>db_schedule := rs\<rparr>), tb_key = sch_id\<rparr>"

definition documents_t :: "(document, uuid) table" where
  "documents_t = \<lparr>tb_name = ''Document'', tb_rows = db_documents,
     tb_put = (\<lambda>rs d. d\<lparr>db_documents := rs\<rparr>), tb_key = doc_id\<rparr>"

definition issuances_t :: "(issuance, uuid) table" where
  "issuances_t = \<lparr>tb_name = ''Issuance'', tb_rows = db_issuances,
     tb_put = (\<lambda>rs d. d\<lparr>db_issuances := rs\<rparr>), tb_key = iss_id\<rparr>"

definition manifests_t :: "(manifest, nat) table" where
  "manifests_t = \<lparr>tb_name = ''Manifest'', tb_rows = db_manifests,
     tb_put = (\<lambda>rs d. d\<lparr>db_manifests := rs\<rparr>), tb_key = man_id\<rparr>"

definition verifications_t :: "(verification, uuid) table" where
  "verifications_t = \<lparr>tb_name = ''Verification'', tb_rows = db_verifications,
     tb_put = (\<lambda>rs d. d\<lparr>db_verifications := rs\<rparr>), tb_key = ver_id\<rparr>"

definition jobs_t :: "(job, uuid) table" where
  "jobs_t = \<lparr>tb_name = ''Job'', tb_rows = db_jobs,
     tb_put = (\<lambda>rs d. d\<lparr>db_jobs := rs\<rparr>), tb_key = job_id\<rparr>"

definition receipts_t :: "(job_result_receipt, uuid) table" where
  "receipts_t = \<lparr>tb_name = ''JobResultReceipt'', tb_rows = db_receipts,
     tb_put = (\<lambda>rs d. d\<lparr>db_receipts := rs\<rparr>), tb_key = rec_message_id\<rparr>"

definition outbox_t :: "(outbox_event, nat) table" where
  "outbox_t = \<lparr>tb_name = ''OutboxEvent'', tb_rows = db_outbox,
     tb_put = (\<lambda>rs d. d\<lparr>db_outbox := rs\<rparr>), tb_key = obx_id\<rparr>"

definition audit_t :: "(audit_event, uuid) table" where
  "audit_t = \<lparr>tb_name = ''AuditEvent'', tb_rows = db_audit,
     tb_put = (\<lambda>rs d. d\<lparr>db_audit := rs\<rparr>), tb_key = aud_id\<rparr>"

definition issuance_results_t :: "(demo_issuance_result, uuid) table" where
  "issuance_results_t = \<lparr>tb_name = ''DemoIssuanceResult'', tb_rows = db_issuance_results,
     tb_put = (\<lambda>rs d. d\<lparr>db_issuance_results := rs\<rparr>), tb_key = dir_job_id\<rparr>"

definition verification_results_t :: "(demo_verification_result, uuid) table" where
  "verification_results_t = \<lparr>tb_name = ''DemoVerificationResult'',
     tb_rows = db_verification_results,
     tb_put = (\<lambda>rs d. d\<lparr>db_verification_results := rs\<rparr>), tb_key = dvr_job_id\<rparr>"

lemmas table_defs = organizations_t_def users_t_def recipients_t_def keys_t_def uploads_t_def
  schedule_t_def documents_t_def issuances_t_def manifests_t_def verifications_t_def jobs_t_def
  receipts_t_def outbox_t_def audit_t_def issuance_results_t_def verification_results_t_def

lemma table_sels [simp]:
  "tb_name organizations_t = ''Organization''" "tb_rows organizations_t = db_organizations"
  "tb_put organizations_t = (\<lambda>rs d. d\<lparr>db_organizations := rs\<rparr>)" "tb_key organizations_t = org_id"
  "tb_name users_t = ''User''" "tb_rows users_t = db_users"
  "tb_put users_t = (\<lambda>rs d. d\<lparr>db_users := rs\<rparr>)" "tb_key users_t = usr_id"
  "tb_name recipients_t = ''Recipient''" "tb_rows recipients_t = db_recipients"
  "tb_put recipients_t = (\<lambda>rs d. d\<lparr>db_recipients := rs\<rparr>)" "tb_key recipients_t = rcp_id"
  "tb_name keys_t = ''SigningKey''" "tb_rows keys_t = db_signing_keys"
  "tb_put keys_t = (\<lambda>rs d. d\<lparr>db_signing_keys := rs\<rparr>)" "tb_key keys_t = key_pk"
  "tb_name uploads_t = ''UploadRequest''" "tb_rows uploads_t = db_uploads"
  "tb_put uploads_t = (\<lambda>rs d. d\<lparr>db_uploads := rs\<rparr>)" "tb_key uploads_t = upl_id"
  "tb_name schedule_t = ''CleanupScheduleState''" "tb_rows schedule_t = db_schedule"
  "tb_put schedule_t = (\<lambda>rs d. d\<lparr>db_schedule := rs\<rparr>)" "tb_key schedule_t = sch_id"
  "tb_name documents_t = ''Document''" "tb_rows documents_t = db_documents"
  "tb_put documents_t = (\<lambda>rs d. d\<lparr>db_documents := rs\<rparr>)" "tb_key documents_t = doc_id"
  "tb_name issuances_t = ''Issuance''" "tb_rows issuances_t = db_issuances"
  "tb_put issuances_t = (\<lambda>rs d. d\<lparr>db_issuances := rs\<rparr>)" "tb_key issuances_t = iss_id"
  "tb_name manifests_t = ''Manifest''" "tb_rows manifests_t = db_manifests"
  "tb_put manifests_t = (\<lambda>rs d. d\<lparr>db_manifests := rs\<rparr>)" "tb_key manifests_t = man_id"
  "tb_name verifications_t = ''Verification''" "tb_rows verifications_t = db_verifications"
  "tb_put verifications_t = (\<lambda>rs d. d\<lparr>db_verifications := rs\<rparr>)" "tb_key verifications_t = ver_id"
  "tb_name jobs_t = ''Job''" "tb_rows jobs_t = db_jobs"
  "tb_put jobs_t = (\<lambda>rs d. d\<lparr>db_jobs := rs\<rparr>)" "tb_key jobs_t = job_id"
  "tb_name receipts_t = ''JobResultReceipt''" "tb_rows receipts_t = db_receipts"
  "tb_put receipts_t = (\<lambda>rs d. d\<lparr>db_receipts := rs\<rparr>)" "tb_key receipts_t = rec_message_id"
  "tb_name outbox_t = ''OutboxEvent''" "tb_rows outbox_t = db_outbox"
  "tb_put outbox_t = (\<lambda>rs d. d\<lparr>db_outbox := rs\<rparr>)" "tb_key outbox_t = obx_id"
  "tb_name audit_t = ''AuditEvent''" "tb_rows audit_t = db_audit"
  "tb_put audit_t = (\<lambda>rs d. d\<lparr>db_audit := rs\<rparr>)" "tb_key audit_t = aud_id"
  "tb_name issuance_results_t = ''DemoIssuanceResult''" "tb_rows issuance_results_t = db_issuance_results"
  "tb_put issuance_results_t = (\<lambda>rs d. d\<lparr>db_issuance_results := rs\<rparr>)" "tb_key issuance_results_t = dir_job_id"
  "tb_name verification_results_t = ''DemoVerificationResult''" "tb_rows verification_results_t = db_verification_results"
  "tb_put verification_results_t = (\<lambda>rs d. d\<lparr>db_verification_results := rs\<rparr>)" "tb_key verification_results_t = dvr_job_id"
  by (simp_all add: table_defs)

section \<open>What every table does\<close>

locale keyed_table =
  fixes t :: "('r, 'k) table"
  assumes rows_put: "tb_rows t (tb_put t rs d) = rs"
    and put_put: "tb_put t rs (tb_put t rs' d) = tb_put t rs d"
    and put_rows: "tb_put t (tb_rows t d) d = d"
begin

lemma read_after_insert:
  "wp (insert_row t ok r)
     (\<lambda>_ w'. lookup_by (tb_key t) (tb_key t r) (tb_rows t (w_db w')) = Some r)
     (\<lambda>e w'. w' = w \<and> e = IntegrityError (tb_name t)) w"
  by (auto simp: wp_simps rows_put row_simps image_iff split: option.splits
      dest!: lookup_by_SomeD)

lemma insert_adds_one:
  "wp (insert_row t ok r) (\<lambda>_ w'. tb_rows t (w_db w') = tb_rows t (w_db w) @ [r])
     (\<lambda>_ w'. w' = w) w"
  by (simp add: wp_simps rows_put)

lemma insert_checked:
  "wp (insert_row t ok r) (\<lambda>_ w'. ok (w_db w) r) (\<lambda>_ _. True) w"
  by (simp add: wp_simps)

lemma read_after_update:
  assumes "\<And>r. tb_key t (f r) = tb_key t r"
  shows "wp (update_row t ok k f)
     (\<lambda>_ w'. lookup_by (tb_key t) k (tb_rows t (w_db w')) =
        map_option f (lookup_by (tb_key t) k (tb_rows t (w_db w))))
     (\<lambda>e w'. w' = w \<and> e = IntegrityError (tb_name t)) w"
  using assms by (simp add: wp_simps rows_put lookup_by_update)

lemma update_frame:
  assumes "\<And>r. tb_key t (f r) = tb_key t r" and "k' \<noteq> k"
  shows "wp (update_row t ok k f)
     (\<lambda>_ w'. lookup_by (tb_key t) k' (tb_rows t (w_db w')) =
        lookup_by (tb_key t) k' (tb_rows t (w_db w))) (\<lambda>_ w'. w' = w) w"
  using assms by (simp add: wp_simps rows_put lookup_by_update)

lemma insert_distinct:
  "distinct (map (tb_key t) (tb_rows t (w_db w))) \<Longrightarrow>
     wp (insert_row t ok r) (\<lambda>_ w'. distinct (map (tb_key t) (tb_rows t (w_db w'))))
       (\<lambda>_ w'. distinct (map (tb_key t) (tb_rows t (w_db w')))) w"
  by (auto simp: wp_simps rows_put)

lemma update_distinct:
  assumes "\<And>r. tb_key t (f r) = tb_key t r"
    and "distinct (map (tb_key t) (tb_rows t (w_db w)))"
  shows "wp (update_row t ok k f) (\<lambda>_ w'. distinct (map (tb_key t) (tb_rows t (w_db w'))))
       (\<lambda>_ w'. distinct (map (tb_key t) (tb_rows t (w_db w')))) w"
  using assms by (simp add: wp_simps rows_put map_key_update)

end

interpretation organizations_tb: keyed_table organizations_t
  by unfold_locales (simp_all add: table_defs)
interpretation users_tb: keyed_table users_t
  by unfold_locales (simp_all add: table_defs)
interpretation recipients_tb: keyed_table recipients_t
  by unfold_locales (simp_all add: table_defs)
interpretation keys_tb: keyed_table keys_t
  by unfold_locales (simp_all add: table_defs)
interpretation uploads_tb: keyed_table uploads_t
  by unfold_locales (simp_all add: table_defs)
interpretation schedule_tb: keyed_table schedule_t
  by unfold_locales (simp_all add: table_defs)
interpretation documents_tb: keyed_table documents_t
  by unfold_locales (simp_all add: table_defs)
interpretation issuances_tb: keyed_table issuances_t
  by unfold_locales (simp_all add: table_defs)
interpretation manifests_tb: keyed_table manifests_t
  by unfold_locales (simp_all add: table_defs)
interpretation verifications_tb: keyed_table verifications_t
  by unfold_locales (simp_all add: table_defs)
interpretation jobs_tb: keyed_table jobs_t
  by unfold_locales (simp_all add: table_defs)
interpretation receipts_tb: keyed_table receipts_t
  by unfold_locales (simp_all add: table_defs)
interpretation outbox_tb: keyed_table outbox_t
  by unfold_locales (simp_all add: table_defs)
interpretation audit_tb: keyed_table audit_t
  by unfold_locales (simp_all add: table_defs)
interpretation issuance_results_tb: keyed_table issuance_results_t
  by unfold_locales (simp_all add: table_defs)
interpretation verification_results_tb: keyed_table verification_results_t
  by unfold_locales (simp_all add: table_defs)

section \<open>Organization-owned models\<close>

text \<open>
  \<open>validate_organization_relations\<close>: the related records, each given by its organization, or
  \<open>None\<close> for a null relation.
\<close>

definition validate_organization_relations :: "uuid \<Rightarrow> uuid option list \<Rightarrow> ('st world, unit) prog" where
  "validate_organization_relations org records =
     require (list_all (\<lambda>r. case r of None \<Rightarrow> True | Some other \<Rightarrow> other = org) records)
       (ValidationError ''Related records must belong to the same organization.'')"

text \<open>Dereferencing a nullable foreign key reads the related row.\<close>

definition related :: "('r, 'k) table \<Rightarrow> 'k option \<Rightarrow> ('st world, 'r option) prog" where
  "related t k = (case k of None \<Rightarrow> ret None
     | Some pk \<Rightarrow> chain (get_row t pk) (\<lambda>r. ret (Some r)))"

text \<open>
  \<open>ValidatedOrganizationOwnedModel.save\<close> of an instance being added: \<open>clean()\<close>, then the
  insertion.
\<close>

definition save_new ::
  "('r, 'k) table \<Rightarrow> (db \<Rightarrow> 'r \<Rightarrow> bool) \<Rightarrow> ('r \<Rightarrow> ('st world, unit) prog) \<Rightarrow> 'r
     \<Rightarrow> ('st world, unit) prog" where
  "save_new t ok clean r = chain (clean r) (\<lambda>_. insert_row t ok r)"

text \<open>
  \<open>validate_organization_persistence\<close> and \<open>save\<close> of a stored instance; \<open>org\<close> reads a row's
  organization, \<open>f\<close> writes the columns of \<open>update_fields\<close> from the instance.
\<close>

definition validate_organization_persistence ::
  "('r, 'k) table \<Rightarrow> ('r \<Rightarrow> uuid) \<Rightarrow> 'r \<Rightarrow> ('st world, unit) prog" where
  "validate_organization_persistence t org r =
     chain (attempt (get_row t (tb_key t r)) (\<lambda>e. case e of
         DoesNotExist _ \<Rightarrow> raise (ValidationError ''persisted organization record no longer exists'')
       | _ \<Rightarrow> raise e)) (\<lambda>persisted.
     require (org r = org persisted)
       (ValidationError ''organization cannot be changed after creation''))"

definition save_stored ::
  "('r, 'k) table \<Rightarrow> (db \<Rightarrow> 'r \<Rightarrow> bool) \<Rightarrow> ('r \<Rightarrow> uuid) \<Rightarrow> ('r \<Rightarrow> ('st world, unit) prog) \<Rightarrow> 'r
     \<Rightarrow> ('r \<Rightarrow> 'r) \<Rightarrow> ('st world, unit) prog" where
  "save_stored t ok org clean r f =
     chain (validate_organization_persistence t org r) (\<lambda>_.
     chain (clean r) (\<lambda>_.
     update_row t ok (tb_key t r) f))"

lemma wp_validate_organization_relations [wp_simps]:
  "wp (validate_organization_relations org records) Q E = (\<lambda>w.
     if list_all (\<lambda>r. case r of None \<Rightarrow> True | Some other \<Rightarrow> other = org) records then Q () w
     else E (ValidationError ''Related records must belong to the same organization.'') w)"
  by (simp add: validate_organization_relations_def wp_simps)

lemma wp_related [wp_simps]:
  "wp (related t k) Q E = (\<lambda>w. case k of None \<Rightarrow> Q None w
     | Some pk \<Rightarrow> (case lookup_by (tb_key t) pk (tb_rows t (w_db w)) of
         None \<Rightarrow> E (DoesNotExist (tb_name t)) w | Some r \<Rightarrow> Q (Some r) w))"
  by (rule ext) (simp add: related_def wp_simps split: option.splits)

lemma wp_validate_organization_persistence [wp_simps]:
  "wp (validate_organization_persistence t org r) Q E = (\<lambda>w.
     case lookup_by (tb_key t) (tb_key t r) (tb_rows t (w_db w)) of
       None \<Rightarrow> E (ValidationError ''persisted organization record no longer exists'') w
     | Some p \<Rightarrow> if org r = org p then Q () w
         else E (ValidationError ''organization cannot be changed after creation'') w)"
  by (rule ext) (simp add: validate_organization_persistence_def wp_simps split: option.splits)

text \<open>What a successful save of a stored instance did, and that a refused one wrote nothing.\<close>

lemma save_stored_wp:
  "wp (save_stored t ok org clean r f) Q E = (\<lambda>w.
     case lookup_by (tb_key t) (tb_key t r) (tb_rows t (w_db w)) of
       None \<Rightarrow> E (ValidationError ''persisted organization record no longer exists'') w
     | Some p \<Rightarrow> if org r = org p
         then wp (clean r) (\<lambda>_. wp (update_row t ok (tb_key t r) f) Q E) E w
         else E (ValidationError ''organization cannot be changed after creation'') w)"
  by (rule ext) (simp add: save_stored_def wp_simps split: option.splits)

lemma wpi_save_stored:
  assumes "\<And>p. lookup_by (tb_key t) (tb_key t r) (tb_rows t (w_db w)) = Some p \<Longrightarrow> org r = org p \<Longrightarrow>
      wp (clean r) (\<lambda>_. wp (update_row t ok (tb_key t r) f) Q E) E w"
    and "\<And>m. E (ValidationError m) w"
  shows "wp (save_stored t ok org clean r f) Q E w"
  using assms by (simp add: save_stored_wp split: option.splits)

lemma wpi_relations [wp_intros]:
  "(list_all (\<lambda>r. case r of None \<Rightarrow> True | Some other \<Rightarrow> other = org) records \<Longrightarrow> Q () w) \<Longrightarrow>
   E (ValidationError ''Related records must belong to the same organization.'') w \<Longrightarrow>
     wp (validate_organization_relations org records) Q E w"
  by (simp add: wp_simps)

lemma wpi_related [wp_intros]:
  "(k = None \<Longrightarrow> Q None w) \<Longrightarrow>
   (\<And>pk r. k = Some pk \<Longrightarrow> lookup_by (tb_key t) pk (tb_rows t (w_db w)) = Some r \<Longrightarrow> Q (Some r) w) \<Longrightarrow>
   E (DoesNotExist (tb_name t)) w \<Longrightarrow> wp (related t k) Q E w"
  by (simp add: wp_simps split: option.splits)

end
