(* ===== verification/JobState.thy ===== *)
theory JobState
  imports Tables
begin

text \<open>
  \<open>jobs/state.py\<close> and \<open>jobs/models.py\<close>: the job state machine, and how a job row is created and
  updated. Every change of a job's status in the program is a \<open>transition_job\<close> followed by a save,
  or one of the compare-and-set updates of the worker.
\<close>

section \<open>The state machine\<close>

fun transitions :: "job_status \<Rightarrow> job_status list" where
  "transitions Created = [Queued, Cancelled, Failed]"
| "transitions Queued = [Processing, Cancelled, Failed, DeadLettered]"
| "transitions Processing = [Succeeded, Failed, RetryableFailed, Cancelled]"
| "transitions RetryableFailed = [Queued, Failed, DeadLettered, Cancelled]"
| "transitions Succeeded = []"
| "transitions Failed = []"
| "transitions DeadLettered = []"
| "transitions Cancelled = []"

text \<open>\<open>transition_job\<close> takes the target as text.\<close>

definition transition_job :: "job \<Rightarrow> string \<Rightarrow> exn + job" where
  "transition_job j target =
     (if \<not> (0 \<le> job_attempt j \<and> job_attempt j \<le> 2) then Inl (InvalidJobTransition ''JOB_ATTEMPT'')
      else (case status_of_value target of
        None \<Rightarrow> Inl (InvalidJobTransition ''JOB_TRANSITION'')
      | Some t \<Rightarrow>
          if t \<notin> set (transitions (job_status j)) then Inl (InvalidJobTransition ''JOB_TRANSITION'')
          else if job_status j = RetryableFailed \<and> t = Queued \<and> job_attempt j \<ge> 2
          then Inl (InvalidJobTransition ''JOB_ATTEMPT'')
          else Inr (j\<lparr>job_status := t\<rparr>)))"

definition job_terminal :: "job_status \<Rightarrow> bool" where
  "job_terminal s \<longleftrightarrow> s \<in> {Succeeded, Failed, DeadLettered, Cancelled}"

lemma transitions_terminal: "transitions s = [] \<longleftrightarrow> job_terminal s"
  by (cases s) (auto simp: job_terminal_def)

text \<open>
  How far a job has come: every transition except the retry \<open>retryable_failed \<rightarrow> queued\<close> moves
  up, and a retry needs an attempt to spare, so a job changes its status finitely often.
\<close>

fun status_rank :: "job_status \<Rightarrow> nat" where
  "status_rank Created = 0"
| "status_rank Queued = 1"
| "status_rank Processing = 2"
| "status_rank RetryableFailed = 3"
| "status_rank _ = 4"

lemma transitions_rank:
  "t \<in> set (transitions s) \<Longrightarrow> status_rank s < status_rank t \<or> (s = RetryableFailed \<and> t = Queued)"
  by (cases s) auto

lemma transition_job_Inr:
  "transition_job j target = Inr j' \<longleftrightarrow>
     (\<exists>t. target = status_value t \<and> t \<in> set (transitions (job_status j))
        \<and> 0 \<le> job_attempt j \<and> job_attempt j \<le> 2
        \<and> \<not> (job_status j = RetryableFailed \<and> t = Queued \<and> job_attempt j = 2)
        \<and> j' = j\<lparr>job_status := t\<rparr>)"
  by (auto simp: transition_job_def status_of_value_Some status_value_inj split: option.splits)

lemma transition_job_from_terminal:
  "job_terminal (job_status j) \<Longrightarrow> \<exists>c. transition_job j target = Inl (InvalidJobTransition c)"
  using transitions_terminal [of "job_status j"]
  by (auto simp: transition_job_def split: option.splits)

text \<open>The call as it is written everywhere: \<open>transition_job(job, JobStatus.X)\<close>.\<close>

definition advance_job :: "job \<Rightarrow> job_status \<Rightarrow> exn + job" where
  "advance_job j t = transition_job j (status_value t)"

lemma advance_job_Inr:
  "advance_job j t = Inr j' \<longleftrightarrow> t \<in> set (transitions (job_status j))
     \<and> 0 \<le> job_attempt j \<and> job_attempt j \<le> 2
     \<and> \<not> (job_status j = RetryableFailed \<and> t = Queued \<and> job_attempt j = 2)
     \<and> j' = j\<lparr>job_status := t\<rparr>"
  by (auto simp: advance_job_def transition_job_Inr status_value_inj)

lemma transition_job_exn: "transition_job j target = Inl e \<Longrightarrow> \<exists>c. e = InvalidJobTransition c"
  by (auto simp: transition_job_def split: option.splits if_splits)

section \<open>Saving jobs\<close>

definition related_org :: "('r, 'k) table \<Rightarrow> ('r \<Rightarrow> uuid) \<Rightarrow> 'k option \<Rightarrow> ('st world, uuid option) prog" where
  "related_org t org k = chain (related t k) (\<lambda>r. ret (map_option org r))"

lemma wp_related_org [wp_simps]:
  "wp (related_org t org k) Q E = (\<lambda>w. case k of None \<Rightarrow> Q None w
     | Some pk \<Rightarrow> (case lookup_by (tb_key t) pk (tb_rows t (w_db w)) of
         None \<Rightarrow> E (DoesNotExist (tb_name t)) w | Some r \<Rightarrow> Q (Some (org r)) w))"
  by (rule ext) (simp add: related_org_def wp_simps split: option.splits)

definition job_clean :: "job \<Rightarrow> ('st world, unit) prog" where
  "job_clean j =
     chain (related_org issuances_t iss_organization_id (job_issuance_id j)) (\<lambda>a.
     chain (related_org verifications_t ver_organization_id (job_verification_id j)) (\<lambda>b.
     validate_organization_relations (job_organization_id j) [a, b]))"

text \<open>The check constraints \<open>job_attempt_0_2\<close> and \<open>job_kind_target_match\<close>.\<close>

definition job_ok :: "db \<Rightarrow> job \<Rightarrow> bool" where
  "job_ok d j \<longleftrightarrow> 0 \<le> job_attempt j \<and> job_attempt j \<le> 2 \<and>
     (case job_kind j of
        KindIssuance \<Rightarrow> job_issuance_id j \<noteq> None \<and> job_verification_id j = None
      | KindVerification \<Rightarrow> job_issuance_id j = None \<and> job_verification_id j \<noteq> None)"

datatype job_field = FStatus | FAttempt | FCancelRequestedAt | FSafeErrorCode | FUpdatedAt

definition merge_job :: "job_field list \<Rightarrow> job \<Rightarrow> job \<Rightarrow> job" where
  "merge_job fs new old = old\<lparr>
     job_status := if FStatus \<in> set fs then job_status new else job_status old,
     job_attempt := if FAttempt \<in> set fs then job_attempt new else job_attempt old,
     job_cancel_requested_at := if FCancelRequestedAt \<in> set fs then job_cancel_requested_at new
       else job_cancel_requested_at old,
     job_safe_error_code := if FSafeErrorCode \<in> set fs then job_safe_error_code new
       else job_safe_error_code old,
     job_updated_at := if FUpdatedAt \<in> set fs then job_updated_at new else job_updated_at old\<rparr>"

text \<open>
  \<open>job.save(update_fields=fs)\<close>; \<open>auto_now\<close> stamps \<open>updated_at\<close> when it is among the fields. The
  instance comes back with its stamp.
\<close>

definition save_job :: "job_field list \<Rightarrow> job \<Rightarrow> ('st world, job) prog" where
  "save_job fs j =
     chain (if FUpdatedAt \<in> set fs then chain now (\<lambda>t. ret (j\<lparr>job_updated_at := t\<rparr>)) else ret j) (\<lambda>j'.
     chain (save_stored jobs_t job_ok job_organization_id job_clean j' (merge_job fs j')) (\<lambda>_.
     ret j'))"

definition create_job ::
  "uuid \<Rightarrow> job_kind \<Rightarrow> uuid option \<Rightarrow> uuid option \<Rightarrow> time \<Rightarrow> uuid \<Rightarrow> ('st world, job) prog" where
  "create_job org kind issuance_id verification_id deadline correlation_id =
     chain uuid4 (\<lambda>pk. chain now (\<lambda>created. chain now (\<lambda>updated.
     let j = \<lparr>job_id = pk, job_organization_id = org, job_kind = kind, job_status = Created,
              job_attempt = 0, job_issuance_id = issuance_id, job_verification_id = verification_id,
              job_deadline_at = deadline, job_correlation_id = correlation_id,
              job_cancel_requested_at = None, job_safe_error_code = None,
              job_created_at = created, job_updated_at = updated\<rparr>
     in chain (save_new jobs_t job_ok job_clean j) (\<lambda>_. ret j))))"

text \<open>
  How a job row may change: its identity never, its status along \<open>TRANSITIONS\<close> only, and so not
  at all once it is terminal.
\<close>

definition status_step :: "job_status \<Rightarrow> job_status \<Rightarrow> bool" where
  "status_step s t \<longleftrightarrow> t \<in> set (transitions s)"

definition status_reaches :: "job_status \<Rightarrow> job_status \<Rightarrow> bool" where
  "status_reaches = status_step\<^sup>*\<^sup>*"

lemma status_reaches_refl [simp]: "status_reaches s s"
  by (simp add: status_reaches_def)

lemma status_reaches_trans: "status_reaches a b \<Longrightarrow> status_reaches b c \<Longrightarrow> status_reaches a c"
  by (simp add: status_reaches_def)

lemma status_reaches_step: "t \<in> set (transitions s) \<Longrightarrow> status_reaches s t"
  by (simp add: status_reaches_def status_step_def r_into_rtranclp)

lemma status_reaches_terminal: "status_reaches s t \<Longrightarrow> job_terminal s \<Longrightarrow> t = s"
  unfolding status_reaches_def
  by (induction rule: rtranclp_induct) (auto simp: status_step_def transitions_terminal [symmetric])

lemma status_never_created: "status_reaches s Created \<Longrightarrow> s = Created"
  unfolding status_reaches_def
proof (induction s rule: converse_rtranclp_induct)
  case (step y z)
  then show ?case by (cases y) (auto simp: status_step_def)
qed simp

definition job_evolves :: "job \<Rightarrow> job \<Rightarrow> bool" where
  "job_evolves a b \<longleftrightarrow> job_id b = job_id a \<and> job_organization_id b = job_organization_id a
     \<and> job_kind b = job_kind a \<and> job_issuance_id b = job_issuance_id a
     \<and> job_verification_id b = job_verification_id a
     \<and> job_deadline_at b = job_deadline_at a
     \<and> job_correlation_id b = job_correlation_id a
     \<and> job_created_at b = job_created_at a
     \<and> job_attempt a \<le> job_attempt b
     \<and> set_once (job_cancel_requested_at a) (job_cancel_requested_at b)
     \<and> status_reaches (job_status a) (job_status b)"

lemma job_evolves_refl [simp]: "job_evolves j j"
  by (simp add: job_evolves_def)

lemma job_evolves_trans: "job_evolves a b \<Longrightarrow> job_evolves b c \<Longrightarrow> job_evolves a c"
  unfolding job_evolves_def by (auto intro: set_once_trans status_reaches_trans)

lemma job_evolves_terminal:
  "job_evolves a b \<Longrightarrow> job_terminal (job_status a) \<Longrightarrow> job_status b = job_status a"
  by (auto simp: job_evolves_def dest: status_reaches_terminal)

lemma job_key_merge [simp]: "job_id (merge_job fs j p) = job_id p"
  by (simp add: merge_job_def)

lemma wp_save_job:
  "wp (save_job fs j) Q E w =
     (let w1 = (if FUpdatedAt \<in> set fs then w\<lparr>w_tick := Suc (w_tick w)\<rparr> else w);
          j' = (if FUpdatedAt \<in> set fs then j\<lparr>job_updated_at := w_clock w (w_tick w)\<rparr> else j)
      in wp (save_stored jobs_t job_ok job_organization_id job_clean j' (merge_job fs j'))
           (\<lambda>_. Q j') E w1)"
  by (simp add: save_job_def wp_simps Let_def)

lemma wp_job_clean_weaken:
  "(\<And>e. E e w) \<Longrightarrow> Q () w \<Longrightarrow> wp (job_clean j) Q E w"
  by (auto simp: job_clean_def wp_simps table_defs split: option.splits)

text \<open>
  What a save did: the columns of the row, which passed the constraints; a refused save wrote
  nothing.
\<close>

lemma save_job_wp:
  "wp (save_job fs j)
     (\<lambda>j' w'. (\<exists>t. j' = j\<lparr>job_updated_at := t\<rparr>) \<and> (FUpdatedAt \<notin> set fs \<longrightarrow> j' = j)
        \<and> w_db w' = (w_db w)\<lparr>db_jobs :=
            update_by job_id (job_id j) (merge_job fs j') (db_jobs (w_db w))\<rparr>
        \<and> w_store w' = w_store w
        \<and> (\<exists>p. lookup_by job_id (job_id j) (db_jobs (w_db w)) = Some p
             \<and> job_ok (w_db w) (merge_job fs j' p)))
     (\<lambda>_ w'. w_db w' = w_db w \<and> w_store w' = w_store w) w"
proof -
  have "\<exists>t. j = j\<lparr>job_updated_at := t\<rparr>" by (rule exI [of _ "job_updated_at j"]) simp
  then show ?thesis
    unfolding wp_save_job Let_def save_stored_wp
    by (auto simp: wp_simps split: option.splits intro!: wp_job_clean_weaken)
qed

text \<open>The rows evolve when the instance was read from its row and changed along the machine.\<close>

lemma save_job_rows:
  assumes "\<And>p. lookup_by job_id (job_id j) rows = Some p \<Longrightarrow> job_evolves p (merge_job fs j' p)"
    and "job_id j' = job_id j"
  shows "rows_evolve job_id job_evolves rows (update_by job_id (job_id j) (merge_job fs j') rows)"
  by (rule rows_evolve_update) (use assms in auto)

section \<open>Properties\<close>

text \<open>
  A transition succeeds exactly along an edge of the graph, with the attempt in range and
  the third retry refused, and then changes the status alone; every refusal is an invalid
  transition.
\<close>

theorem job_transition_exact:
  "case transition_job j target of
     Inr j' \<Rightarrow> (\<exists>t. target = status_value t \<and> t \<in> set (transitions (job_status j))
        \<and> 0 \<le> job_attempt j \<and> job_attempt j \<le> 2
        \<and> \<not> (job_status j = RetryableFailed \<and> t = Queued \<and> job_attempt j = 2)
        \<and> j' = j\<lparr>job_status := t\<rparr>)
   | Inl e \<Rightarrow> (\<exists>c. e = InvalidJobTransition c)
        \<and> (\<nexists>t. target = status_value t \<and> t \<in> set (transitions (job_status j))
             \<and> 0 \<le> job_attempt j \<and> job_attempt j \<le> 2
             \<and> \<not> (job_status j = RetryableFailed \<and> t = Queued \<and> job_attempt j = 2))"
proof (cases "transition_job j target")
  case (Inl e)
  moreover have "\<nexists>j'. transition_job j target = Inr j'" using Inl by simp
  ultimately show ?thesis using transition_job_exn [OF Inl] unfolding transition_job_Inr by auto
next
  case (Inr j')
  then show ?thesis using transition_job_Inr [of j target j'] by auto
qed

end
