(* ===== verification/Access.thy ===== *)
theory Access
  imports Tables
begin

text \<open>
  \<open>services/api/splitbind/access\<close>: roles and permissions (\<open>permissions.py\<close>), what an actor may
  see (\<open>selectors.py\<close>), users and recipients, and the signing-key registry with its lifecycle
  (\<open>models.py\<close>, \<open>services.py\<close>).
\<close>

section \<open>Aware and naive datetimes\<close>

text \<open>An aware datetime is its instant and its offset from UTC.\<close>

datatype py_datetime = Naive time | Aware time int

fun instant :: "py_datetime \<Rightarrow> time" where
  "instant (Naive t) = t"
| "instant (Aware t off) = t"

fun is_naive :: "py_datetime \<Rightarrow> bool" where
  "is_naive (Naive t) = True"
| "is_naive (Aware t off) = False"

section \<open>Permissions\<close>

text \<open>A request's user: \<open>None\<close> when nobody is authenticated.\<close>

definition has_role :: "role \<Rightarrow> user option \<Rightarrow> bool" where
  "has_role r u = (case u of None \<Rightarrow> False | Some x \<Rightarrow> usr_role x = r)"

definition is_administrator_or_auditor :: "user option \<Rightarrow> bool" where
  "is_administrator_or_auditor u =
     (case u of None \<Rightarrow> False | Some x \<Rightarrow> usr_role x \<in> {Administrator, Auditor})"

definition is_auditor_read_only :: "string \<Rightarrow> user option \<Rightarrow> bool" where
  "is_auditor_read_only verb u \<longleftrightarrow>
     verb \<in> {''GET'', ''HEAD'', ''OPTIONS''} \<and> has_role Auditor u"

section \<open>Selectors\<close>

definition scope_issuances :: "user \<Rightarrow> issuance \<Rightarrow> bool" where
  "scope_issuances actor i \<longleftrightarrow> iss_organization_id i = usr_organization_id actor \<and>
     (if usr_role actor \<in> {Administrator, Auditor} then True
      else if usr_role actor = Issuer then iss_created_by_id i = usr_id actor
      else False)"

definition scope_verifications :: "user \<Rightarrow> verification \<Rightarrow> bool" where
  "scope_verifications actor v \<longleftrightarrow> ver_organization_id v = usr_organization_id actor \<and>
     (if usr_role actor \<in> {Administrator, Auditor} then True
      else if usr_role actor = Verifier then ver_requested_by_id v = usr_id actor
      else False)"

text \<open>The joins \<open>issuance__created_by_id\<close> and \<open>verification__requested_by_id\<close> read the database.\<close>

definition issuance_created_by :: "db \<Rightarrow> uuid option \<Rightarrow> uuid option" where
  "issuance_created_by d k = (case k of None \<Rightarrow> None
     | Some pk \<Rightarrow> map_option iss_created_by_id (lookup_by iss_id pk (db_issuances d)))"

definition verification_requested_by :: "db \<Rightarrow> uuid option \<Rightarrow> uuid option" where
  "verification_requested_by d k = (case k of None \<Rightarrow> None
     | Some pk \<Rightarrow> map_option ver_requested_by_id (lookup_by ver_id pk (db_verifications d)))"

definition scope_jobs :: "db \<Rightarrow> user \<Rightarrow> job \<Rightarrow> bool" where
  "scope_jobs d actor j \<longleftrightarrow> job_organization_id j = usr_organization_id actor \<and>
     (if usr_role actor \<in> {Administrator, Auditor} then True
      else if usr_role actor = Issuer then
        job_kind j = KindIssuance \<and> issuance_created_by d (job_issuance_id j) = Some (usr_id actor)
      else if usr_role actor = Verifier then
        job_kind j = KindVerification
          \<and> verification_requested_by d (job_verification_id j) = Some (usr_id actor)
      else False)"

section \<open>Users\<close>

record user_fields =
  uf_is_staff :: bool
  uf_is_superuser :: bool
  uf_role :: role

definition role_of_value :: "string \<Rightarrow> role option" where
  "role_of_value v = find (\<lambda>r. role_value r = v) [Administrator, Issuer, Verifier, Auditor]"

text \<open>
  The keyword arguments as passed: a missing argument is \<open>None\<close>. \<open>_organization\<close> returns the
  organization named by its primary key.
\<close>

definition user_organization :: "uuid option \<Rightarrow> ('st world, organization) prog" where
  "user_organization org = (case org of
     None \<Rightarrow> raise (ValueError ''organization is required'')
   | Some pk \<Rightarrow> attempt (get_row organizations_t pk) (\<lambda>e. case e of
       DoesNotExist _ \<Rightarrow> raise (ValueError ''organization must identify an existing organization'')
     | _ \<Rightarrow> raise e))"

definition create_user_fields ::
  "uuid option \<Rightarrow> string option \<Rightarrow> bool option \<Rightarrow> ('st world, organization \<times> user_fields) prog" where
  "create_user_fields org role_arg is_superuser =
     chain (user_organization org) (\<lambda>o_row.
     case Option.bind role_arg role_of_value of
       None \<Rightarrow> raise (ValueError ''role must be a stable non-superuser role'')
     | Some r \<Rightarrow>
         chain (require (is_superuser \<noteq> Some True)
                  (ValueError ''create_user cannot set is_superuser'')) (\<lambda>_.
         ret (o_row, \<lparr>uf_is_staff = (r = Administrator), uf_is_superuser = False, uf_role = r\<rparr>)))"

definition create_superuser_fields ::
  "uuid option \<Rightarrow> string option \<Rightarrow> bool option \<Rightarrow> bool option
     \<Rightarrow> ('st world, organization \<times> user_fields) prog" where
  "create_superuser_fields org role_arg is_staff is_superuser =
     chain (user_organization org) (\<lambda>o_row.
     chain (require ((case role_arg of None \<Rightarrow> role_value Administrator | Some r \<Rightarrow> r)
                      = role_value Administrator)
              (ValueError ''superusers must have the administrator role'')) (\<lambda>_.
     chain (require (is_staff \<noteq> Some False) (ValueError ''superuser must have is_staff=True'')) (\<lambda>_.
     chain (require (is_superuser \<noteq> Some False)
              (ValueError ''superuser must have is_superuser=True'')) (\<lambda>_.
     ret (o_row, \<lparr>uf_is_staff = True, uf_is_superuser = True, uf_role = Administrator\<rparr>)))))"

section \<open>Recipients\<close>

text \<open>\<open>str.lower\<close> on the code points below 256.\<close>

definition py_lower :: "string \<Rightarrow> string" where
  "py_lower s = map (\<lambda>c. let n = of_char c :: nat in
     if (65 \<le> n \<and> n \<le> 90) \<or> (192 \<le> n \<and> n \<le> 222 \<and> n \<noteq> 215) then char_of (n + 32) else c) s"

definition recipient_clean :: "recipient \<Rightarrow> ('st world, unit) prog" where
  "recipient_clean r = ret ()"

definition recipient_ok :: "db \<Rightarrow> recipient \<Rightarrow> bool" where
  "recipient_ok d r \<longleftrightarrow> (\<forall>x\<in>set (db_recipients d). rcp_id x = rcp_id r \<or>
     \<not> (rcp_organization_id x = rcp_organization_id r
        \<and> rcp_external_reference x = rcp_external_reference r))"

definition save_display_name :: "recipient \<Rightarrow> ('st world, unit) prog" where
  "save_display_name r = save_stored recipients_t recipient_ok rcp_organization_id recipient_clean r
     (\<lambda>row. row\<lparr>rcp_display_name := rcp_display_name r\<rparr>)"

text \<open>Fill in the name of a recipient that has none.\<close>

definition complete_recipient :: "recipient \<Rightarrow> string \<Rightarrow> ('st world, recipient) prog" where
  "complete_recipient r name =
     (if name \<noteq> [] \<and> py_strip (rcp_display_name r) = [] then
        (let r' = r\<lparr>rcp_display_name := name\<rparr> in chain (save_display_name r') (\<lambda>_. ret r'))
      else ret r)"

text \<open>
  \<open>email_ok\<close> is Django's \<open>validate_email\<close>, \<open>iexact\<close> the database's case-insensitive comparison.
\<close>

definition resolve_recipient_for_issue ::
  "(string \<Rightarrow> bool) \<Rightarrow> (string \<Rightarrow> string \<Rightarrow> bool) \<Rightarrow> uuid \<Rightarrow> string \<Rightarrow> string option
     \<Rightarrow> ('st world, recipient) prog" where
  "resolve_recipient_for_issue email_ok iexact organization recipient_email recipient_name =
     (let email = py_lower (py_strip recipient_email);
          name = py_strip (case recipient_name of None \<Rightarrow> [] | Some n \<Rightarrow> n);
          mine = (\<lambda>r. rcp_organization_id r = organization \<and> iexact (rcp_external_reference r) email)
      in chain (require (email_ok email) (ValidationError ''Enter a valid email address.'')) (\<lambda>_.
         chain (rows_where recipients_t mine) (\<lambda>found.
         case first_by rcp_id found of
           Some r \<Rightarrow> complete_recipient r name
         | None \<Rightarrow>
             attempt
               (atomic (chain uuid4 (\<lambda>pk.
                  let r = \<lparr>rcp_id = pk, rcp_organization_id = organization,
                           rcp_external_reference = email, rcp_display_name = name\<rparr>
                  in chain (save_new recipients_t recipient_ok recipient_clean r) (\<lambda>_. ret r))))
               (\<lambda>e. case e of
                  IntegrityError _ \<Rightarrow> chain (get_where recipients_t mine) (\<lambda>r. complete_recipient r name)
                | _ \<Rightarrow> raise e))))"

section \<open>Signing keys\<close>

text \<open>
  What the code uses of \<open>cryptography\<close>: loading a PEM, asking whether the key is Ed25519,
  writing it back as SPKI PEM. \<open>lk_load\<close> is \<open>None\<close> when loading raises.
\<close>

record pem_key =
  pk_is_ed25519 :: bool
  pk_canonical :: string
  pk_raw :: bytes

type_synonym pem_loader = "string \<Rightarrow> pem_key option"

definition validate_ed25519_public_pem :: "pem_loader \<Rightarrow> string \<Rightarrow> exn + pem_key" where
  "validate_ed25519_public_pem load value =
     (if \<not> (1 \<le> length value \<and> length value \<le> 1024)
      then Inl (ValidationError ''public key must be bounded PEM text'')
      else if list_ex (\<lambda>c. (of_char c :: nat) \<ge> 128) value
      then Inl (ValidationError ''public key must be standard Ed25519 SPKI PEM'')
      else (case load value of
        None \<Rightarrow> Inl (ValidationError ''public key must be standard Ed25519 SPKI PEM'')
      | Some key \<Rightarrow>
          if \<not> pk_is_ed25519 key then Inl (ValidationError ''public key must be Ed25519'')
          else if value \<noteq> pk_canonical key
          then Inl (ValidationError ''public key must use canonical SPKI PEM encoding'')
          else Inr key))"

definition key_id_head :: "char \<Rightarrow> bool" where
  "key_id_head c \<longleftrightarrow> (let n = of_char c :: nat in
     (48 \<le> n \<and> n \<le> 57) \<or> (65 \<le> n \<and> n \<le> 90) \<or> (97 \<le> n \<and> n \<le> 122))"

definition key_id_tail :: "char \<Rightarrow> bool" where
  "key_id_tail c \<longleftrightarrow> key_id_head c \<or> (of_char c :: nat) \<in> {46, 95, 58, 45}"

text \<open>\<open>[A-Za-z0-9][A-Za-z0-9._:-]{0,119}\<close>.\<close>

fun key_id_text :: "string \<Rightarrow> bool" where
  "key_id_text [] = False"
| "key_id_text (c # cs) = (key_id_head c \<and> length cs \<le> 119 \<and> list_all key_id_tail cs)"

definition key_metadata_ok :: "(string \<times> json) list \<Rightarrow> bool" where
  "key_metadata_ok kvs \<longleftrightarrow> list_all (\<lambda>(k, v). k \<in> {''label'', ''purpose''} \<and>
     (case v of JStr s \<Rightarrow> 1 \<le> length s \<and> length s \<le> 120 | _ \<Rightarrow> False)) kvs"

definition signing_key_check :: "pem_loader \<Rightarrow> signing_key \<Rightarrow> exn + unit" where
  "signing_key_check load k =
     (if key_algorithm k \<noteq> ''Ed25519''
      then Inl (ValidationError ''signing key algorithm must be Ed25519'')
      else if \<not> key_id_text (key_id k) then Inl (ValidationError ''signing key identifier is invalid'')
      else (case validate_ed25519_public_pem load (key_public_key k) of Inl e \<Rightarrow> Inl e | Inr _ \<Rightarrow>
        if (case key_valid_until k of None \<Rightarrow> False | Some u \<Rightarrow> u \<le> key_valid_from k)
        then Inl (ValidationError ''signing key validity window is invalid'')
        else if key_status k = KeyRevoked
          \<and> (case key_revoked_at k of None \<Rightarrow> True | Some r \<Rightarrow> r < key_valid_from k)
        then Inl (ValidationError ''revoked signing key requires a valid revocation time'')
        else if key_status k \<noteq> KeyRevoked \<and> key_revoked_at k \<noteq> None
        then Inl (ValidationError ''only revoked signing keys may have a revocation time'')
        else (case key_metadata k of
          JObj kvs \<Rightarrow> if key_metadata_ok kvs then Inr ()
            else Inl (ValidationError ''signing key metadata is unsafe'')
        | _ \<Rightarrow> Inl (ValidationError ''signing key metadata must be an object''))))"

definition signing_key_clean :: "pem_loader \<Rightarrow> signing_key \<Rightarrow> ('st world, unit) prog" where
  "signing_key_clean load k = lift_sum (signing_key_check load k)"

text \<open>The unique \<open>key_id\<close> and the three check constraints.\<close>

definition signing_key_ok :: "db \<Rightarrow> signing_key \<Rightarrow> bool" where
  "signing_key_ok d k \<longleftrightarrow>
     (\<forall>x\<in>set (db_signing_keys d). key_pk x = key_pk k \<or> key_id x \<noteq> key_id k)
     \<and> (case key_valid_until k of None \<Rightarrow> True | Some u \<Rightarrow> key_valid_from k < u)
     \<and> (key_status k = KeyRevoked \<longleftrightarrow> key_revoked_at k \<noteq> None)"

definition register_signing_key :: "pem_loader \<Rightarrow> signing_key \<Rightarrow> ('st world, signing_key) prog" where
  "register_signing_key load k =
     atomic (chain (save_new keys_t signing_key_ok (signing_key_clean load) k) (\<lambda>_. ret k))"

text \<open>
  \<open>SigningKey.save\<close> of a stored key: every evidence column but the two lifecycle columns is
  immutable, and those change only inside the lifecycle service, whose context variable is
  \<open>lifecycle\<close>. \<open>save(update_fields=["status", "revoked_at"])\<close> writes those two.
\<close>

definition key_evidence_changed :: "signing_key \<Rightarrow> signing_key \<Rightarrow> bool" where
  "key_evidence_changed k p \<longleftrightarrow>
     key_id k \<noteq> key_id p \<or> key_algorithm k \<noteq> key_algorithm p \<or> key_public_key k \<noteq> key_public_key p
     \<or> key_valid_from k \<noteq> key_valid_from p \<or> key_valid_until k \<noteq> key_valid_until p
     \<or> key_metadata k \<noteq> key_metadata p \<or> key_created_at k \<noteq> key_created_at p"

definition key_lifecycle_changed :: "signing_key \<Rightarrow> signing_key \<Rightarrow> bool" where
  "key_lifecycle_changed k p \<longleftrightarrow> key_status k \<noteq> key_status p \<or> key_revoked_at k \<noteq> key_revoked_at p"

definition save_signing_key :: "pem_loader \<Rightarrow> bool \<Rightarrow> signing_key \<Rightarrow> ('st world, unit) prog" where
  "save_signing_key load lifecycle k =
     chain (get_row keys_t (key_pk k)) (\<lambda>p.
     chain (require (\<not> (key_evidence_changed k p \<or> key_lifecycle_changed k p)
                     \<or> (lifecycle \<and> \<not> key_evidence_changed k p))
              (ValidationError ''signing-key historical evidence is immutable'')) (\<lambda>_.
     save_stored keys_t signing_key_ok key_organization_id (signing_key_clean load) k
       (\<lambda>row. row\<lparr>key_status := key_status k, key_revoked_at := key_revoked_at k\<rparr>)))"

fun key_transitions :: "signing_key_status \<Rightarrow> signing_key_status list" where
  "key_transitions KeyActive = [KeyVerifyOnly, KeyRevoked]"
| "key_transitions KeyVerifyOnly = [KeyRevoked]"
| "key_transitions KeyRevoked = []"

definition key_status_of_value :: "string \<Rightarrow> signing_key_status option" where
  "key_status_of_value v = find (\<lambda>s. key_status_value s = v) [KeyActive, KeyVerifyOnly, KeyRevoked]"

definition transition_signing_key ::
  "pem_loader \<Rightarrow> uuid \<Rightarrow> string \<Rightarrow> py_datetime \<Rightarrow> ('st world, signing_key) prog" where
  "transition_signing_key load pk target_status at_time = atomic (
     case key_status_of_value target_status of
       None \<Rightarrow> raise (ValidationError ''signing-key lifecycle target is invalid'')
     | Some target \<Rightarrow>
         chain (get_row keys_t pk) (\<lambda>key.
         if target = key_status key then ret key
         else if key_status key = KeyRevoked
         then raise (ValidationError ''revoked signing-key lifecycle is terminal'')
         else if target \<notin> set (key_transitions (key_status key))
         then raise (ValidationError ''signing-key lifecycle transition is invalid'')
         else if is_naive at_time \<or> instant at_time < key_valid_from key
         then raise (ValidationError ''signing-key lifecycle time is invalid'')
         else (let key' = key\<lparr>key_status := target,
                    key_revoked_at := if target = KeyRevoked then Some (instant at_time) else None\<rparr>
               in chain (save_signing_key load True key') (\<lambda>_. ret key'))))"

section \<open>The lifecycle only moves forward\<close>

text \<open>
  How a registered key may change: its evidence never, its status along
  \<open>active \<rightarrow> verify_only \<rightarrow> revoked\<close>, its revocation time with the revocation only.
\<close>

fun key_rank :: "signing_key_status \<Rightarrow> nat" where
  "key_rank KeyActive = 0"
| "key_rank KeyVerifyOnly = 1"
| "key_rank KeyRevoked = 2"

definition key_evolves :: "signing_key \<Rightarrow> signing_key \<Rightarrow> bool" where
  "key_evolves p k \<longleftrightarrow> key_pk k = key_pk p \<and> key_organization_id k = key_organization_id p
     \<and> \<not> key_evidence_changed k p
     \<and> (key_status k = key_status p \<and> key_revoked_at k = key_revoked_at p
        \<or> key_rank (key_status p) < key_rank (key_status k))"

lemma key_evolves_refl [simp]: "key_evolves k k"
  by (simp add: key_evolves_def key_evidence_changed_def)

lemma key_evolves_trans: "key_evolves a b \<Longrightarrow> key_evolves b c \<Longrightarrow> key_evolves a c"
  unfolding key_evolves_def key_evidence_changed_def by auto

lemma key_transitions_rank: "t \<in> set (key_transitions s) \<Longrightarrow> key_rank s < key_rank t"
  by (cases s) auto

text \<open>
  A save by the lifecycle service: the rows evolve when the instance differs from its row by a
  permitted status change, and whatever it differs by otherwise, nothing is written.
\<close>

lemma save_signing_key_wp:
  assumes row: "lookup_by key_pk (key_pk k) (db_signing_keys (w_db w)) = Some p"
    and status: "key_rank (key_status p) < key_rank (key_status k)"
  shows "wp (save_signing_key load True k)
     (\<lambda>_ w'. rows_evolve key_pk key_evolves (db_signing_keys (w_db w)) (db_signing_keys (w_db w')))
     (\<lambda>_ w'. w_db w' = w_db w) w"
proof -
  have "rows_evolve key_pk key_evolves (db_signing_keys (w_db w))
      (update_by key_pk (key_pk k)
        (\<lambda>row. row\<lparr>key_status := key_status k, key_revoked_at := key_revoked_at k\<rparr>)
        (db_signing_keys (w_db w)))"
    by (rule rows_evolve_update)
       (use row status in \<open>auto simp: key_evolves_def key_evidence_changed_def\<close>)
  then show ?thesis
    using row by (simp add: save_signing_key_def wp_simps save_stored_wp signing_key_clean_def
        table_defs split: sum.splits)
qed

lemma transition_evolves:
  "wp (transition_signing_key load pk target t)
     (\<lambda>_ w'. rows_evolve key_pk key_evolves (db_signing_keys (w_db w)) (db_signing_keys (w_db w')))
     (\<lambda>_ w'. w_db w' = w_db w) w"
proof (cases "lookup_by key_pk pk (db_signing_keys (w_db w))")
  case None
  then show ?thesis
    by (simp add: transition_signing_key_def wp_simps table_defs split: option.splits)
next
  case (Some p)
  then have pk: "key_pk p = pk" by (rule lookup_by_key)
  have refl: "rows_evolve key_pk key_evolves (db_signing_keys (w_db w)) (db_signing_keys (w_db w))"
    by (rule rows_evolve_refl) simp
  have save: "wp (save_signing_key load True (p\<lparr>key_status := s, key_revoked_at := r\<rparr>))
      (\<lambda>_ w'. rows_evolve key_pk key_evolves (db_signing_keys (w_db w)) (db_signing_keys (w_db w')))
      (\<lambda>_ w'. w_db w' = w_db w) w" if "s \<in> set (key_transitions (key_status p))" for s r
    by (rule save_signing_key_wp [where p = p]) (use Some pk key_transitions_rank [OF that] in auto)
  show ?thesis
    using Some refl
    by (auto simp: transition_signing_key_def wp_simps table_defs Let_def
        intro!: wp_mono [OF save] split: option.splits)
qed

section \<open>Properties\<close>

text \<open>
  A lifecycle transition only ever moves a key forward (active, verify-only, revoked), writes no
  other column of it, keeps every other key, and changes nothing when it is refused.
\<close>

theorem signing_key_lifecycle:
  "wp (transition_signing_key load pk target t)
     (\<lambda>_ w'. rows_evolve key_pk key_evolves (db_signing_keys (w_db w)) (db_signing_keys (w_db w')))
     (\<lambda>_ w'. w_db w' = w_db w) w"
  by (rule transition_evolves)

end
