(* ===== verification/AuditLog.thy ===== *)
theory AuditLog
  imports Access
begin

text \<open>
  \<open>services/api/splitbind/audit\<close>: the redaction of audit metadata (\<open>redaction.py\<close>), the two
  services that write audit events (\<open>services.py\<close>) and the append-only table (\<open>models.py\<close>).
\<close>

section \<open>Redaction\<close>

definition safe_audit_keys :: "string list" where
  "safe_audit_keys = [''kind'', ''role'', ''status'', ''safe_error_code'', ''object_size'', ''attempt'']"

definition max_audit_metadata_value_length :: nat where
  "max_audit_metadata_value_length = 256"

text \<open>
  \<open>urllib.parse.urlparse\<close>, as far as the scheme and the network location: leading control
  characters and blanks go, tabs and line breaks go everywhere, a scheme is a letter followed by
  letters, digits, \<open>+ - .\<close> up to a colon, the location follows \<open>//\<close> up to one of \<open>/ ? #\<close>.
  \<open>netloc_ok\<close> stands for the checks of bracketed and non-ASCII locations, which raise.
\<close>

definition url_letter :: "char \<Rightarrow> bool" where
  "url_letter c \<longleftrightarrow> (let n = of_char c :: nat in (65 \<le> n \<and> n \<le> 90) \<or> (97 \<le> n \<and> n \<le> 122))"

definition url_scheme_char :: "char \<Rightarrow> bool" where
  "url_scheme_char c \<longleftrightarrow> url_letter c \<or> (let n = of_char c :: nat in (48 \<le> n \<and> n \<le> 57)
     \<or> n \<in> {43, 45, 46})"

definition url_clean :: "string \<Rightarrow> string" where
  "url_clean s = filter (\<lambda>c. (of_char c :: nat) \<notin> {9, 10, 13})
     (dropWhile (\<lambda>c. (of_char c :: nat) \<le> 32) s)"

definition url_split_scheme :: "string \<Rightarrow> string \<times> string" where
  "url_split_scheme s =
     (let scheme = takeWhile (\<lambda>c. c \<noteq> CHR '':'') s in
      if length scheme < length s \<and> scheme \<noteq> [] \<and> url_letter (hd scheme)
         \<and> list_all url_scheme_char scheme
      then (scheme, drop (Suc (length scheme)) s) else ([], s))"

definition url_netloc :: "string \<Rightarrow> string" where
  "url_netloc s = (if prefix ''//'' s
     then takeWhile (\<lambda>c. (of_char c :: nat) \<notin> {47, 63, 35}) (drop 2 s) else [])"

definition is_full_url :: "(string \<Rightarrow> bool) \<Rightarrow> string \<Rightarrow> exn + bool" where
  "is_full_url netloc_ok value =
     (case url_split_scheme (url_clean value) of (scheme, rest) \<Rightarrow>
       (let netloc = url_netloc rest in
        if \<not> netloc_ok netloc then Inl (ValueError ''Invalid IPv6 URL'')
        else Inr (netloc \<noteq> [] \<and> (scheme \<noteq> [] \<or> prefix ''//'' value))))"

text \<open>\<open>str(value)\<close> of the scalar values; \<open>None\<close> for what is not a string, number or boolean.\<close>

definition int_text :: "int \<Rightarrow> string" where
  "int_text n = (if n < 0 then ''-'' @ decimal (nat (- n)) else decimal (nat n))"

record text_libs =
  tl_netloc_ok :: "string \<Rightarrow> bool"
  tl_float_text :: "rat \<Rightarrow> string"

fun scalar_text :: "text_libs \<Rightarrow> json \<Rightarrow> string option" where
  "scalar_text T (JStr s) = Some s"
| "scalar_text T (JInt n) = Some (int_text n)"
| "scalar_text T (JFloat q) = Some (tl_float_text T q)"
| "scalar_text T (JBool b) = Some (if b then ''True'' else ''False'')"
| "scalar_text T JNull = None"
| "scalar_text T (JList xs) = None"
| "scalar_text T (JObj kvs) = None"

fun redact_items :: "text_libs \<Rightarrow> (string \<times> json) list \<Rightarrow> exn + (string \<times> string) list" where
  "redact_items T [] = Inr []"
| "redact_items T ((key, value) # items) =
     (case (if key \<in> set safe_audit_keys then scalar_text T value else None) of
        None \<Rightarrow> redact_items T items
      | Some normalized \<Rightarrow>
          (case is_full_url (tl_netloc_ok T) normalized of
             Inl e \<Rightarrow> Inl e
           | Inr full \<Rightarrow>
               if full then redact_items T items
               else (case redact_items T items of
                       Inl e \<Rightarrow> Inl e
                     | Inr safe \<Rightarrow> Inr ((key, take max_audit_metadata_value_length normalized) # safe))))"

fun redact_metadata :: "text_libs \<Rightarrow> json \<Rightarrow> exn + (string \<times> string) list" where
  "redact_metadata T (JObj items) = redact_items T items"
| "redact_metadata T _ = Inr []"

definition metadata_safe :: "(string \<times> string) list \<Rightarrow> bool" where
  "metadata_safe kvs \<longleftrightarrow> list_all (\<lambda>(k, v). k \<in> set safe_audit_keys
     \<and> length v \<le> max_audit_metadata_value_length) kvs"

lemma metadata_safe_Nil [simp]: "metadata_safe []"
  by (simp add: metadata_safe_def)

lemma redact_items_safe: "redact_items T items = Inr safe \<Longrightarrow> metadata_safe safe"
  by (induction items arbitrary: safe)
     (auto simp: metadata_safe_def split: option.splits sum.splits if_splits)

text \<open>
  What is kept is exactly the allow-listed scalars that are not complete URLs, each cut to its
  first 256 characters, in order.
\<close>

definition redaction_keeps :: "text_libs \<Rightarrow> string \<times> json \<Rightarrow> bool" where
  "redaction_keeps T kv \<longleftrightarrow> fst kv \<in> set safe_audit_keys \<and>
     (case scalar_text T (snd kv) of None \<Rightarrow> False
      | Some s \<Rightarrow> is_full_url (tl_netloc_ok T) s = Inr False)"

lemma redact_items_exact:
  "redact_items T items = Inr safe \<Longrightarrow>
     safe = map (\<lambda>kv. (fst kv, take max_audit_metadata_value_length (the (scalar_text T (snd kv)))))
              (filter (redaction_keeps T) items)"
  by (induction items arbitrary: safe)
     (auto simp: redaction_keeps_def split: option.splits sum.splits if_splits)

section \<open>Writing events\<close>

record audit_target =
  at_label :: string
  at_pk :: string
  at_organization_id :: uuid

definition user_target :: "user \<Rightarrow> audit_target" where
  "user_target u = \<lparr>at_label = ''access.user'', at_pk = uuid_str (usr_id u),
     at_organization_id = usr_organization_id u\<rparr>"

definition upload_target :: "upload_request \<Rightarrow> audit_target" where
  "upload_target u = \<lparr>at_label = ''uploads.uploadrequest'', at_pk = uuid_str (upl_id u),
     at_organization_id = upl_organization_id u\<rparr>"

definition issuance_target :: "issuance \<Rightarrow> audit_target" where
  "issuance_target i = \<lparr>at_label = ''documents.issuance'', at_pk = uuid_str (iss_id i),
     at_organization_id = iss_organization_id i\<rparr>"

definition verification_target :: "verification \<Rightarrow> audit_target" where
  "verification_target v = \<lparr>at_label = ''documents.verification'', at_pk = uuid_str (ver_id v),
     at_organization_id = ver_organization_id v\<rparr>"

definition job_target :: "job \<Rightarrow> audit_target" where
  "job_target j = \<lparr>at_label = ''jobs.job'', at_pk = uuid_str (job_id j),
     at_organization_id = job_organization_id j\<rparr>"

text \<open>\<open>AuditEvent.clean\<close> and the creation \<open>_create_from_record_event\<close>.\<close>

definition audit_clean :: "audit_event \<Rightarrow> ('st world, unit) prog" where
  "audit_clean e = chain (related users_t (aud_actor_id e)) (\<lambda>actor.
     validate_organization_relations (aud_organization_id e) [map_option usr_organization_id actor])"

definition audit_ok :: "db \<Rightarrow> audit_event \<Rightarrow> bool" where
  "audit_ok d e = True"

definition create_audit_event ::
  "uuid \<Rightarrow> uuid option \<Rightarrow> string \<Rightarrow> audit_target \<Rightarrow> audit_outcome \<Rightarrow> uuid \<Rightarrow> (string \<times> string) list
     \<Rightarrow> ('st world, audit_event) prog" where
  "create_audit_event org actor_id action target outcome correlation_id metadata =
     chain uuid4 (\<lambda>pk. chain now (\<lambda>created.
     let e = \<lparr>aud_id = pk, aud_organization_id = org, aud_actor_id = actor_id, aud_action = action,
              aud_target_type = at_label target, aud_target_id = at_pk target,
              aud_correlation_id = correlation_id, aud_outcome = outcome, aud_metadata = metadata,
              aud_created_at = created\<rparr>
     in chain (save_new audit_t audit_ok audit_clean e) (\<lambda>_. ret e)))"

definition audit_text_ok :: "string \<Rightarrow> audit_target \<Rightarrow> exn + unit" where
  "audit_text_ok action target =
     (if action = [] \<or> length action > 120
      then Inl (ValidationError ''audit action must be a non-empty bounded string'')
      else if length (at_label target) > 80 \<or> length (at_pk target) > 120
      then Inl (ValidationError ''audit target identifier is too long'')
      else Inr ())"

text \<open>
  Actors and targets of the model are stored rows, so the tests for \<open>None\<close>, for a missing
  organization and for unsaved instances have no counterpart.
\<close>

definition record_event ::
  "text_libs \<Rightarrow> user \<Rightarrow> string \<Rightarrow> audit_target \<Rightarrow> audit_outcome \<Rightarrow> uuid \<Rightarrow> json
     \<Rightarrow> ('st world, audit_event) prog" where
  "record_event T actor action target outcome correlation_id metadata =
     chain (require (at_organization_id target = usr_organization_id actor)
       (ValidationError ''audit actor and target must belong to the same organization'')) (\<lambda>_.
     chain (lift_sum (audit_text_ok action target)) (\<lambda>_.
     chain (lift_sum (redact_metadata T metadata)) (\<lambda>safe.
     create_audit_event (usr_organization_id actor) (Some (usr_id actor)) action target outcome
       correlation_id safe)))"

definition record_system_event ::
  "text_libs \<Rightarrow> uuid \<Rightarrow> string \<Rightarrow> audit_target \<Rightarrow> audit_outcome \<Rightarrow> uuid \<Rightarrow> json
     \<Rightarrow> ('st world, audit_event) prog" where
  "record_system_event T organization action target outcome correlation_id metadata =
     chain (get_row organizations_t organization) (\<lambda>o_row.
     chain (require (at_organization_id target = org_id o_row)
       (ValidationError ''system audit target must belong to the organization'')) (\<lambda>_.
     chain (lift_sum (audit_text_ok action target)) (\<lambda>_.
     chain (lift_sum (redact_metadata T metadata)) (\<lambda>safe.
     create_audit_event (org_id o_row) None action target outcome correlation_id safe))))"

text \<open>
  The other persistence paths of the model and its manager: everything but the creation above
  raises.
\<close>

datatype audit_write = AuditCreate | AuditGetOrCreate | AuditUpdateOrCreate | AuditBulkCreate
  | AuditUpdate | AuditBulkUpdate | AuditQuerysetDelete | AuditInstanceSave | AuditInstanceDelete

definition audit_other_write :: "audit_write \<Rightarrow> ('st world, unit) prog" where
  "audit_other_write op = (case op of
       AuditCreate \<Rightarrow> raise (ValidationError ''Audit events can only be created through record_event.'')
     | AuditGetOrCreate \<Rightarrow>
         raise (ValidationError ''Audit events can only be created through record_event.'')
     | AuditUpdateOrCreate \<Rightarrow>
         raise (ValidationError ''Audit events can only be created through record_event.'')
     | AuditBulkCreate \<Rightarrow>
         raise (ValidationError ''Audit events can only be created through record_event.'')
     | _ \<Rightarrow> raise (ValidationError ''Audit events are append-only.''))"

section \<open>What an audit write does\<close>

text \<open>
  A program only appends to the audit table, each event of one tenant and with safe metadata,
  and touches nothing else of the database.
\<close>

definition audit_event_safe :: "db \<Rightarrow> audit_event \<Rightarrow> bool" where
  "audit_event_safe d e \<longleftrightarrow> metadata_safe (aud_metadata e) \<and> aud_action e \<noteq> []
     \<and> length (aud_action e) \<le> 120 \<and>
     (case aud_actor_id e of None \<Rightarrow> True
      | Some a \<Rightarrow> \<exists>u. lookup_by usr_id a (db_users d) = Some u
          \<and> usr_organization_id u = aud_organization_id e)"

text \<open>The exceptions an audit write can raise.\<close>

definition audit_exn :: "exn \<Rightarrow> bool" where
  "audit_exn e = (case e of ValidationError _ \<Rightarrow> True | ValueError _ \<Rightarrow> True
     | DoesNotExist _ \<Rightarrow> True | IntegrityError _ \<Rightarrow> True | _ \<Rightarrow> False)"

lemma audit_exn_simps [simp]:
  "audit_exn (ValidationError a)" "audit_exn (ValueError a)" "audit_exn (DoesNotExist a)"
  "audit_exn (IntegrityError a)" "\<not> audit_exn (UploadRejected a)" "\<not> audit_exn (StorageUnavailable a)"
  by (simp_all add: audit_exn_def)

lemma create_audit_event_wp:
  assumes "metadata_safe metadata" "action \<noteq> []" "length action \<le> 120"
  shows "wp (create_audit_event org actor action target outcome cid metadata)
     (\<lambda>e w'. w_db w' = (w_db w)\<lparr>db_audit := db_audit (w_db w) @ [e]\<rparr> \<and> audit_event_safe (w_db w) e
        \<and> aud_organization_id e = org \<and> aud_actor_id e = actor \<and> aud_action e = action
        \<and> aud_target_type e = at_label target \<and> aud_target_id e = at_pk target
        \<and> aud_outcome e = outcome \<and> aud_correlation_id e = cid \<and> aud_metadata e = metadata
        \<and> w_store w' = w_store w)
     (\<lambda>e w'. w_db w' = w_db w \<and> w_store w' = w_store w \<and> audit_exn e) w"
  using assms
  by (auto simp: create_audit_event_def save_new_def audit_clean_def audit_ok_def wp_simps Let_def
      table_defs audit_event_safe_def split: option.splits)

lemma audit_text_exn: "audit_text_ok action target = Inl e \<Longrightarrow> audit_exn e"
  by (auto simp: audit_text_ok_def split: if_splits)

lemma redact_items_exn: "redact_items T items = Inl e \<Longrightarrow> audit_exn e"
  by (induction items) (auto simp: is_full_url_def Let_def split: option.splits sum.splits if_splits prod.splits)

lemma redact_metadata_exn: "redact_metadata T m = Inl e \<Longrightarrow> audit_exn e"
  by (cases m) (auto intro: redact_items_exn)

lemma audit_text_okD: "audit_text_ok action target = Inr u \<Longrightarrow> action \<noteq> [] \<and> length action \<le> 120"
  by (auto simp: audit_text_ok_def split: if_splits)

lemma redact_metadata_safe: "redact_metadata T m = Inr safe \<Longrightarrow> metadata_safe safe"
  by (cases m) (auto dest: redact_items_safe)

lemma record_event_wp:
  "wp (record_event T actor action target outcome cid metadata)
     (\<lambda>e w'. w_db w' = (w_db w)\<lparr>db_audit := db_audit (w_db w) @ [e]\<rparr> \<and> audit_event_safe (w_db w) e
        \<and> aud_organization_id e = usr_organization_id actor \<and> aud_actor_id e = Some (usr_id actor)
        \<and> at_organization_id target = usr_organization_id actor
        \<and> aud_action e = action \<and> aud_target_type e = at_label target \<and> aud_target_id e = at_pk target
        \<and> aud_outcome e = outcome \<and> aud_correlation_id e = cid
        \<and> redact_metadata T metadata = Inr (aud_metadata e) \<and> w_store w' = w_store w)
     (\<lambda>e w'. w_db w' = w_db w \<and> w_store w' = w_store w \<and> audit_exn e) w"
  by (auto simp: record_event_def wp_simps split: sum.splits
      intro!: wp_mono [OF create_audit_event_wp] dest: audit_text_okD redact_metadata_safe audit_text_exn redact_metadata_exn)

lemma record_system_event_wp:
  "wp (record_system_event T org action target outcome cid metadata)
     (\<lambda>e w'. w_db w' = (w_db w)\<lparr>db_audit := db_audit (w_db w) @ [e]\<rparr> \<and> audit_event_safe (w_db w) e
        \<and> aud_organization_id e = org \<and> aud_actor_id e = None \<and> at_organization_id target = org
        \<and> aud_action e = action \<and> aud_target_type e = at_label target \<and> aud_target_id e = at_pk target
        \<and> aud_outcome e = outcome \<and> aud_correlation_id e = cid
        \<and> redact_metadata T metadata = Inr (aud_metadata e) \<and> w_store w' = w_store w)
     (\<lambda>e w'. w_db w' = w_db w \<and> w_store w' = w_store w \<and> audit_exn e) w"
  by (auto simp: record_system_event_def wp_simps table_defs split: sum.splits option.splits
      intro!: wp_mono [OF create_audit_event_wp]
      dest: audit_text_okD redact_metadata_safe lookup_by_key audit_text_exn redact_metadata_exn)

declare redact_metadata.simps [simp del]

section \<open>Properties\<close>

text \<open>
  C34. Redaction keeps exactly the allow-listed scalars that are not complete URLs, in their order,
  each cut to 256 characters, so that what is stored is within the allow-list and the bound;
  whatever is not an object is dropped.
\<close>

theorem redaction_exact:
  "case redact_metadata T metadata of
     Inl e \<Rightarrow> audit_exn e
   | Inr safe \<Rightarrow> metadata_safe safe
       \<and> (case metadata of
            JObj items \<Rightarrow> safe = map (\<lambda>kv. (fst kv, take max_audit_metadata_value_length
                 (the (scalar_text T (snd kv))))) (filter (redaction_keeps T) items)
          | _ \<Rightarrow> safe = [])"
  by (cases metadata)
     (auto simp: redact_metadata.simps split: sum.splits
       dest: redact_items_safe redact_items_exact redact_items_exn)

text \<open>
  Recording an event appends exactly one event of the caller's organization, with redacted
  metadata, about a target of the same organization, or changes nothing.
\<close>

theorem record_event_appends:
  "wp (record_event T actor action target outcome cid metadata)
     (\<lambda>e w'. w_db w' = (w_db w)\<lparr>db_audit := db_audit (w_db w) @ [e]\<rparr> \<and> audit_event_safe (w_db w) e
        \<and> aud_organization_id e = usr_organization_id actor \<and> aud_actor_id e = Some (usr_id actor)
        \<and> at_organization_id target = usr_organization_id actor \<and> aud_action e = action
        \<and> aud_target_id e = at_pk target \<and> aud_outcome e = outcome
        \<and> redact_metadata T metadata = Inr (aud_metadata e) \<and> metadata_safe (aud_metadata e))
     (\<lambda>e w'. w_db w' = w_db w \<and> audit_exn e) w"
  by (rule wp_mono [OF record_event_wp]) (auto dest: redact_metadata_safe)

end
