(* ===== verification/Uploads.thy ===== *)
theory Uploads
  imports JobState AuditLog
begin

text \<open>
  \<open>uploads/models.py\<close>: the upload request, the guards of its save paths, the promotion state
  machine \<open>save_promotion\<close>, and the singleton row that schedules the retention lanes.
\<close>

definition max_upload_bytes :: int where
  "max_upload_bytes = 100 * 1024 * 1024"

section \<open>Constraints\<close>

definition promotion_target_state_ok :: "upload_request \<Rightarrow> bool" where
  "promotion_target_state_ok u \<longleftrightarrow>
     (upl_promotion_status u = PromotionNone \<longleftrightarrow> upl_promotion_target_key u = None)"

text \<open>The unique object key and the five check constraints of \<open>Meta\<close>.\<close>

definition upload_ok :: "db \<Rightarrow> upload_request \<Rightarrow> bool" where
  "upload_ok d u \<longleftrightarrow>
     (\<forall>x\<in>set (db_uploads d). upl_id x = upl_id u \<or> upl_object_key x \<noteq> upl_object_key u)
     \<and> (case upl_expected_sha256 u of None \<Rightarrow> True | Some h \<Rightarrow> sha256_text h)
     \<and> (case upl_size_bytes u of None \<Rightarrow> True | Some n \<Rightarrow> 1 \<le> n \<and> n \<le> max_upload_bytes)
     \<and> promotion_target_state_ok u
     \<and> (upl_promotion_status u = PromotionFailed \<longrightarrow> upl_safe_error_code u \<noteq> None)"

definition upload_clean :: "bool \<Rightarrow> upload_request \<Rightarrow> ('st world, unit) prog" where
  "upload_clean adding u =
     chain (related_org users_t usr_organization_id (Some (upl_requested_by_id u))) (\<lambda>requester.
     chain (validate_organization_relations (upl_organization_id u) [requester]) (\<lambda>_.
     if adding then
       chain (require (upl_expected_sha256 u \<noteq> None)
                (ValidationError ''new upload intent requires an expected checksum'')) (\<lambda>_.
       require (case upl_size_bytes u of None \<Rightarrow> False | Some n \<Rightarrow> 1 \<le> n \<and> n \<le> max_upload_bytes)
         (ValidationError ''new upload intent size must be between one byte and the configured ceiling''))
     else ret ()))"

section \<open>Columns\<close>

datatype upload_field = UOrganization | URequestedBy | UPurpose | UObjectKey | USourceFilename
  | USourceContentType | UExpectedSha256 | USizeBytes | UExpiresAt | UFinalizedAt
  | UOrphanDeletedAt | UPromotionTargetKey | UPromotionStatus | UPromotionStatusChangedAt
  | USafeErrorCode | UPromotionTargetDeletedAt | UPromotionTargetReconciledAt

definition deletion_fields :: "upload_field list" where
  "deletion_fields = [UOrphanDeletedAt, UPromotionTargetDeletedAt, UPromotionTargetReconciledAt]"

definition immutable_fields :: "upload_field list" where
  "immutable_fields = [UPurpose, UObjectKey, UExpectedSha256, USizeBytes, UExpiresAt,
     UPromotionTargetKey, UPromotionStatus, UPromotionStatusChangedAt, USafeErrorCode]"

fun upload_field_changed :: "upload_request \<Rightarrow> upload_request \<Rightarrow> upload_field \<Rightarrow> bool" where
  "upload_field_changed a b UOrganization = (upl_organization_id a \<noteq> upl_organization_id b)"
| "upload_field_changed a b URequestedBy = (upl_requested_by_id a \<noteq> upl_requested_by_id b)"
| "upload_field_changed a b UPurpose = (upl_purpose a \<noteq> upl_purpose b)"
| "upload_field_changed a b UObjectKey = (upl_object_key a \<noteq> upl_object_key b)"
| "upload_field_changed a b USourceFilename = (upl_source_filename a \<noteq> upl_source_filename b)"
| "upload_field_changed a b USourceContentType =
     (upl_source_content_type a \<noteq> upl_source_content_type b)"
| "upload_field_changed a b UExpectedSha256 = (upl_expected_sha256 a \<noteq> upl_expected_sha256 b)"
| "upload_field_changed a b USizeBytes = (upl_size_bytes a \<noteq> upl_size_bytes b)"
| "upload_field_changed a b UExpiresAt = (upl_expires_at a \<noteq> upl_expires_at b)"
| "upload_field_changed a b UFinalizedAt = (upl_finalized_at a \<noteq> upl_finalized_at b)"
| "upload_field_changed a b UOrphanDeletedAt = (upl_orphan_deleted_at a \<noteq> upl_orphan_deleted_at b)"
| "upload_field_changed a b UPromotionTargetKey =
     (upl_promotion_target_key a \<noteq> upl_promotion_target_key b)"
| "upload_field_changed a b UPromotionStatus = (upl_promotion_status a \<noteq> upl_promotion_status b)"
| "upload_field_changed a b UPromotionStatusChangedAt =
     (upl_promotion_status_changed_at a \<noteq> upl_promotion_status_changed_at b)"
| "upload_field_changed a b USafeErrorCode = (upl_safe_error_code a \<noteq> upl_safe_error_code b)"
| "upload_field_changed a b UPromotionTargetDeletedAt =
     (upl_promotion_target_deleted_at a \<noteq> upl_promotion_target_deleted_at b)"
| "upload_field_changed a b UPromotionTargetReconciledAt =
     (upl_promotion_target_reconciled_at a \<noteq> upl_promotion_target_reconciled_at b)"

fun copy_upload_field :: "upload_request \<Rightarrow> upload_field \<Rightarrow> upload_request \<Rightarrow> upload_request" where
  "copy_upload_field a UOrganization b = b\<lparr>upl_organization_id := upl_organization_id a\<rparr>"
| "copy_upload_field a URequestedBy b = b\<lparr>upl_requested_by_id := upl_requested_by_id a\<rparr>"
| "copy_upload_field a UPurpose b = b\<lparr>upl_purpose := upl_purpose a\<rparr>"
| "copy_upload_field a UObjectKey b = b\<lparr>upl_object_key := upl_object_key a\<rparr>"
| "copy_upload_field a USourceFilename b = b\<lparr>upl_source_filename := upl_source_filename a\<rparr>"
| "copy_upload_field a USourceContentType b =
     b\<lparr>upl_source_content_type := upl_source_content_type a\<rparr>"
| "copy_upload_field a UExpectedSha256 b = b\<lparr>upl_expected_sha256 := upl_expected_sha256 a\<rparr>"
| "copy_upload_field a USizeBytes b = b\<lparr>upl_size_bytes := upl_size_bytes a\<rparr>"
| "copy_upload_field a UExpiresAt b = b\<lparr>upl_expires_at := upl_expires_at a\<rparr>"
| "copy_upload_field a UFinalizedAt b = b\<lparr>upl_finalized_at := upl_finalized_at a\<rparr>"
| "copy_upload_field a UOrphanDeletedAt b = b\<lparr>upl_orphan_deleted_at := upl_orphan_deleted_at a\<rparr>"
| "copy_upload_field a UPromotionTargetKey b =
     b\<lparr>upl_promotion_target_key := upl_promotion_target_key a\<rparr>"
| "copy_upload_field a UPromotionStatus b = b\<lparr>upl_promotion_status := upl_promotion_status a\<rparr>"
| "copy_upload_field a UPromotionStatusChangedAt b =
     b\<lparr>upl_promotion_status_changed_at := upl_promotion_status_changed_at a\<rparr>"
| "copy_upload_field a USafeErrorCode b = b\<lparr>upl_safe_error_code := upl_safe_error_code a\<rparr>"
| "copy_upload_field a UPromotionTargetDeletedAt b =
     b\<lparr>upl_promotion_target_deleted_at := upl_promotion_target_deleted_at a\<rparr>"
| "copy_upload_field a UPromotionTargetReconciledAt b =
     b\<lparr>upl_promotion_target_reconciled_at := upl_promotion_target_reconciled_at a\<rparr>"

definition merge_upload :: "upload_field list \<Rightarrow> upload_request \<Rightarrow> upload_request \<Rightarrow> upload_request" where
  "merge_upload fs new old = fold (copy_upload_field new) fs old"

section \<open>UploadRequest.save\<close>

definition has_deletion_evidence :: "upload_request \<Rightarrow> bool" where
  "has_deletion_evidence u \<longleftrightarrow> upl_orphan_deleted_at u \<noteq> None
     \<or> upl_promotion_target_deleted_at u \<noteq> None \<or> upl_promotion_target_reconciled_at u \<noteq> None"

text \<open>
  \<open>evidence\<close> is the context variable of \<open>retention/capabilities.py\<close> that the retention service
  sets around its writes.
\<close>

definition insert_upload :: "bool \<Rightarrow> upload_request \<Rightarrow> ('st world, unit) prog" where
  "insert_upload evidence u =
     chain (require (\<not> has_deletion_evidence u \<or> evidence)
              (ValidationError ''deletion evidence requires the retention service'')) (\<lambda>_.
     save_new uploads_t upload_ok (upload_clean True) u)"

fun tombstone_changes :: "time option \<Rightarrow> time option \<Rightarrow> bool" where
  "tombstone_changes old new = (old \<noteq> new \<and> (old \<noteq> None \<or> new = None))"

fun reconciliation_moves_back :: "time option \<Rightarrow> time option \<Rightarrow> bool" where
  "reconciliation_moves_back old new = (old \<noteq> new \<and>
     (case new of None \<Rightarrow> True | Some n \<Rightarrow> (case old of None \<Rightarrow> False | Some p \<Rightarrow> n < p)))"

definition evidence_not_monotonic :: "upload_request \<Rightarrow> upload_request \<Rightarrow> bool" where
  "evidence_not_monotonic p u \<longleftrightarrow>
     tombstone_changes (upl_orphan_deleted_at p) (upl_orphan_deleted_at u)
     \<or> tombstone_changes (upl_promotion_target_deleted_at p) (upl_promotion_target_deleted_at u)
     \<or> reconciliation_moves_back (upl_promotion_target_reconciled_at p)
         (upl_promotion_target_reconciled_at u)"

definition save_upload :: "bool \<Rightarrow> upload_field list \<Rightarrow> upload_request \<Rightarrow> ('st world, unit) prog" where
  "save_upload evidence fs u =
     chain (if set fs \<inter> set deletion_fields \<noteq> {} then
              chain (get_row uploads_t (upl_id u)) (\<lambda>p.
              if list_ex (upload_field_changed u p) deletion_fields then
                chain (require evidence
                         (ValidationError ''deletion evidence requires the retention service'')) (\<lambda>_.
                require (\<not> evidence_not_monotonic p u)
                  (ValidationError ''deletion evidence is monotonic''))
              else ret ())
            else ret ()) (\<lambda>_.
     chain (if set fs \<inter> set immutable_fields \<noteq> {} then
              chain (get_row uploads_t (upl_id u)) (\<lambda>p.
              require (\<not> list_ex (\<lambda>f. f \<in> set fs \<and> upload_field_changed u p f) immutable_fields)
                (ValueError ''upload intent fields are immutable''))
            else ret ()) (\<lambda>_.
     save_stored uploads_t upload_ok upl_organization_id (upload_clean False) u (merge_upload fs u)))"

text \<open>The guards of the default manager's bulk paths.\<close>

definition upload_queryset_update ::
  "upload_field list \<Rightarrow> upload_request \<Rightarrow> (upload_request \<Rightarrow> bool) \<Rightarrow> ('st world, unit) prog" where
  "upload_queryset_update fs vals P =
     chain (require (set fs \<inter> set deletion_fields = {})
              (ValidationError ''deletion evidence requires the retention service'')) (\<lambda>_.
     chain (require (set fs \<inter> set immutable_fields = {})
              (ValueError ''upload intent fields are immutable'')) (\<lambda>_.
     chain (require (set fs \<inter> {UOrganization, URequestedBy} = {})
              (ValidationError ''Unsafe bulk update of tenant or relation fields'')) (\<lambda>_.
     modify (\<lambda>w. w\<lparr>w_db := (w_db w)\<lparr>db_uploads :=
       map (\<lambda>r. if P r then merge_upload fs vals r else r) (db_uploads (w_db w))\<rparr>\<rparr>))))"

definition upload_queryset_delete :: "('st world, unit) prog" where
  "upload_queryset_delete = raise (ValidationError ''upload evidence must be preserved'')"

section \<open>Promotion\<close>

fun promotion_transitions :: "promotion_status \<Rightarrow> promotion_status list" where
  "promotion_transitions PromotionNone = [Copying]"
| "promotion_transitions Copying = [Attached, PromotionFailed]"
| "promotion_transitions PromotionFailed = [Copying]"
| "promotion_transitions Attached = []"

definition promotion_target_owned :: "upload_request \<Rightarrow> string \<Rightarrow> exn + unit" where
  "promotion_target_owned u key =
     (case validate_promoted_key key of Inl e \<Rightarrow> Inl e | Inr m \<Rightarrow>
      if pg_kind m \<noteq> (if upl_purpose u = PurposeIssuance then ''issuance'' else ''verification'')
         \<or> pg_organization m \<noteq> uuid_str (upl_organization_id u)
         \<or> pg_upload m \<noteq> uuid_str (upl_id u)
      then Inl (ValueError ''promotion target must identify this upload, organization, and purpose'')
      else Inr ())"

definition promotion_columns :: "upload_field list" where
  "promotion_columns = [UPromotionStatus, UPromotionStatusChangedAt, UPromotionTargetKey, USafeErrorCode]"

definition save_promotion ::
  "upload_request \<Rightarrow> promotion_status \<Rightarrow> string option \<Rightarrow> string option
     \<Rightarrow> ('st world, upload_request) prog" where
  "save_promotion u status target_key safe_error_code = atomic (
     chain (require ((status = PromotionNone) = (target_key = None))
              (ValueError ''promotion target and state do not match'')) (\<lambda>_.
     chain (require (\<not> (status = PromotionFailed \<and> (safe_error_code = None \<or> safe_error_code = Some [])))
              (ValueError ''failed promotion requires a safe error code'')) (\<lambda>_.
     chain (require (\<not> (status \<noteq> PromotionFailed \<and> safe_error_code \<noteq> None))
              (ValueError ''only failed promotion may retain a safe error code'')) (\<lambda>_.
     chain (get_row uploads_t (upl_id u)) (\<lambda>p.
     chain (require (upl_promotion_target_deleted_at p = None)
              (ValueError ''deleted promotion target is permanently fenced; create a new upload reservation'')) (\<lambda>_.
     if status = upl_promotion_status p \<and> target_key = upl_promotion_target_key p
        \<and> safe_error_code = upl_safe_error_code p
     then ret u
     else
       chain (require (status \<in> set (promotion_transitions (upl_promotion_status p)))
                (ValueError ''promotion transition is invalid'')) (\<lambda>_.
       chain (require (\<not> (upl_promotion_target_key p \<noteq> None \<and> target_key \<noteq> upl_promotion_target_key p))
                (ValueError ''promotion target is immutable after reservation'')) (\<lambda>_.
       chain (case target_key of None \<Rightarrow> ret ()
              | Some key \<Rightarrow> lift_sum (promotion_target_owned u key)) (\<lambda>_.
       chain now (\<lambda>at_time.
       let u' = u\<lparr>upl_promotion_status := status, upl_promotion_status_changed_at := at_time,
                  upl_promotion_target_key := target_key, upl_safe_error_code := safe_error_code\<rparr>
       in chain (save_stored uploads_t upload_ok upl_organization_id (upload_clean False) u'
                   (merge_upload promotion_columns u')) (\<lambda>_.
          ret u')))))))))))"

section \<open>The cleanup schedule\<close>

definition schedule_ok :: "db \<Rightarrow> cleanup_schedule \<Rightarrow> bool" where
  "schedule_ok d s \<longleftrightarrow> sch_id s = 1
     \<and> (sch_cursor_at s = None \<longleftrightarrow> sch_cursor_id s = None)
     \<and> (sch_claim_upload_id s = None \<longleftrightarrow> sch_claim_token s = None)
     \<and> (sch_claim_upload_id s = None \<longleftrightarrow> sch_claim_expires_at s = None)"

definition save_schedule_row :: "bool \<Rightarrow> cleanup_schedule \<Rightarrow> ('st world, unit) prog" where
  "save_schedule_row allowed s =
     chain (require (sch_id s = 1)
              (ValidationError ''cleanup schedule must be the singleton row'')) (\<lambda>_.
     chain (require allowed (ValidationError ''cleanup schedule requires the retention service'')) (\<lambda>_.
     update_row schedule_t schedule_ok (sch_id s) (\<lambda>_. s)))"

section \<open>How an upload row may change\<close>

text \<open>
  The intent never changes, each tombstone is written once, reconciliation times only grow, the
  promotion status follows its graph, and a promotion whose target was deleted is frozen.
\<close>

definition upload_intent_same :: "upload_request \<Rightarrow> upload_request \<Rightarrow> bool" where
  "upload_intent_same a b \<longleftrightarrow> upl_id b = upl_id a
     \<and> upl_organization_id b = upl_organization_id a
     \<and> upl_requested_by_id b = upl_requested_by_id a \<and> upl_purpose b = upl_purpose a
     \<and> upl_object_key b = upl_object_key a \<and> upl_source_filename b = upl_source_filename a
     \<and> upl_source_content_type b = upl_source_content_type a
     \<and> upl_expected_sha256 b = upl_expected_sha256 a \<and> upl_size_bytes b = upl_size_bytes a
     \<and> upl_expires_at b = upl_expires_at a \<and> upl_created_at b = upl_created_at a"

fun time_grows :: "time option \<Rightarrow> time option \<Rightarrow> bool" where
  "time_grows None x = True"
| "time_grows (Some a) None = False"
| "time_grows (Some a) (Some b) = (a \<le> b)"

definition promotion_frozen :: "upload_request \<Rightarrow> upload_request \<Rightarrow> bool" where
  "promotion_frozen a b \<longleftrightarrow> upl_promotion_status b = upl_promotion_status a
     \<and> upl_promotion_status_changed_at b = upl_promotion_status_changed_at a
     \<and> upl_safe_error_code b = upl_safe_error_code a"

definition upload_evolves :: "upload_request \<Rightarrow> upload_request \<Rightarrow> bool" where
  "upload_evolves a b \<longleftrightarrow> upload_intent_same a b
     \<and> set_once (upl_finalized_at a) (upl_finalized_at b)
     \<and> set_once (upl_orphan_deleted_at a) (upl_orphan_deleted_at b)
     \<and> set_once (upl_promotion_target_deleted_at a) (upl_promotion_target_deleted_at b)
     \<and> time_grows (upl_promotion_target_reconciled_at a) (upl_promotion_target_reconciled_at b)
     \<and> set_once (upl_promotion_target_key a) (upl_promotion_target_key b)
     \<and> (upl_promotion_status a = Attached \<longrightarrow> promotion_frozen a b)
     \<and> (upl_promotion_target_deleted_at a \<noteq> None \<longrightarrow> promotion_frozen a b)"

lemma time_grows_refl [simp]: "time_grows t t"
  by (cases t) auto

lemma time_grows_trans: "time_grows a b \<Longrightarrow> time_grows b c \<Longrightarrow> time_grows a c"
  by (cases a; cases b; cases c) auto

lemma upload_evolves_refl [simp]: "upload_evolves u u"
  by (simp add: upload_evolves_def upload_intent_same_def promotion_frozen_def)

lemma upload_intent_same_trans:
  "upload_intent_same a b \<Longrightarrow> upload_intent_same b c \<Longrightarrow> upload_intent_same a c"
  by (simp add: upload_intent_same_def)

lemma promotion_frozen_trans: "promotion_frozen a b \<Longrightarrow> promotion_frozen b c \<Longrightarrow> promotion_frozen a c"
  by (simp add: promotion_frozen_def)

lemma promotion_frozen_status: "promotion_frozen a b \<Longrightarrow> upl_promotion_status b = upl_promotion_status a"
  by (simp add: promotion_frozen_def)

lemma set_once_keeps: "set_once a b \<Longrightarrow> a \<noteq> None \<Longrightarrow> b \<noteq> None"
  by (auto simp: set_once_def)

lemma upload_evolves_trans:
  assumes ab: "upload_evolves a b" and bc: "upload_evolves b c"
  shows "upload_evolves a c"
proof -
  have attached: "promotion_frozen a c" if "upl_promotion_status a = Attached"
    using ab bc that promotion_frozen_trans promotion_frozen_status
    by (metis upload_evolves_def)
  have deleted: "promotion_frozen a c" if "upl_promotion_target_deleted_at a \<noteq> None"
    using ab bc that promotion_frozen_trans set_once_keeps
    by (metis upload_evolves_def)
  show ?thesis
    unfolding upload_evolves_def
    using ab bc attached deleted
    by (blast intro: upload_intent_same_trans set_once_trans time_grows_trans
        dest: upload_evolves_def [THEN iffD1])
qed

lemma copy_upload_field_id [simp]: "upl_id (copy_upload_field a f b) = upl_id b"
  by (cases f) auto

lemma upl_id_merge [simp]: "upl_id (merge_upload fs u p) = upl_id p"
  unfolding merge_upload_def by (induction fs arbitrary: p) auto

text \<open>What a save of some columns leaves in the row.\<close>

lemma merge_upload_snoc: "merge_upload (fs @ [f]) u p = copy_upload_field u f (merge_upload fs u p)"
  by (simp add: merge_upload_def)

lemma merge_upload_sel:
  "upl_organization_id (merge_upload fs u p) =
     (if UOrganization \<in> set fs then upl_organization_id u else upl_organization_id p)"
  "upl_requested_by_id (merge_upload fs u p) =
     (if URequestedBy \<in> set fs then upl_requested_by_id u else upl_requested_by_id p)"
  "upl_purpose (merge_upload fs u p) = (if UPurpose \<in> set fs then upl_purpose u else upl_purpose p)"
  "upl_object_key (merge_upload fs u p) =
     (if UObjectKey \<in> set fs then upl_object_key u else upl_object_key p)"
  "upl_source_filename (merge_upload fs u p) =
     (if USourceFilename \<in> set fs then upl_source_filename u else upl_source_filename p)"
  "upl_source_content_type (merge_upload fs u p) =
     (if USourceContentType \<in> set fs then upl_source_content_type u else upl_source_content_type p)"
  "upl_expected_sha256 (merge_upload fs u p) =
     (if UExpectedSha256 \<in> set fs then upl_expected_sha256 u else upl_expected_sha256 p)"
  "upl_size_bytes (merge_upload fs u p) =
     (if USizeBytes \<in> set fs then upl_size_bytes u else upl_size_bytes p)"
  "upl_expires_at (merge_upload fs u p) =
     (if UExpiresAt \<in> set fs then upl_expires_at u else upl_expires_at p)"
  "upl_finalized_at (merge_upload fs u p) =
     (if UFinalizedAt \<in> set fs then upl_finalized_at u else upl_finalized_at p)"
  "upl_orphan_deleted_at (merge_upload fs u p) =
     (if UOrphanDeletedAt \<in> set fs then upl_orphan_deleted_at u else upl_orphan_deleted_at p)"
  "upl_promotion_target_key (merge_upload fs u p) =
     (if UPromotionTargetKey \<in> set fs then upl_promotion_target_key u else upl_promotion_target_key p)"
  "upl_promotion_status (merge_upload fs u p) =
     (if UPromotionStatus \<in> set fs then upl_promotion_status u else upl_promotion_status p)"
  "upl_promotion_status_changed_at (merge_upload fs u p) =
     (if UPromotionStatusChangedAt \<in> set fs then upl_promotion_status_changed_at u
      else upl_promotion_status_changed_at p)"
  "upl_safe_error_code (merge_upload fs u p) =
     (if USafeErrorCode \<in> set fs then upl_safe_error_code u else upl_safe_error_code p)"
  "upl_promotion_target_deleted_at (merge_upload fs u p) =
     (if UPromotionTargetDeletedAt \<in> set fs then upl_promotion_target_deleted_at u
      else upl_promotion_target_deleted_at p)"
  "upl_promotion_target_reconciled_at (merge_upload fs u p) =
     (if UPromotionTargetReconciledAt \<in> set fs then upl_promotion_target_reconciled_at u
      else upl_promotion_target_reconciled_at p)"
  "upl_created_at (merge_upload fs u p) = upl_created_at p"
  by (induction fs rule: rev_induct; (simp add: merge_upload_def; fail)?;
      rename_tac f fs; case_tac f; simp add: merge_upload_snoc)+

lemma monotonic_evidence_evolves:
  "\<not> tombstone_changes old new \<Longrightarrow> set_once old new"
  "\<not> reconciliation_moves_back old new \<Longrightarrow> time_grows old new"
  by (auto simp: set_once_def) (cases old; cases new; auto)

definition protected_fields :: "upload_field set" where
  "protected_fields = {UOrganization, URequestedBy, USourceFilename, USourceContentType}"

lemma merge_upload_evolves:
  assumes cols: "set fs \<inter> protected_fields = {}"
    and final: "UFinalizedAt \<in> set fs \<Longrightarrow> set_once (upl_finalized_at p) (upl_finalized_at u)"
    and deletions: "set fs \<inter> set deletion_fields \<noteq> {} \<Longrightarrow>
      list_ex (upload_field_changed u p) deletion_fields \<Longrightarrow> \<not> evidence_not_monotonic p u"
    and immutable: "\<not> list_ex (\<lambda>f. f \<in> set fs \<and> upload_field_changed u p f) immutable_fields"
  shows "upload_evolves p (merge_upload fs u p)"
proof -
  have frozen: "promotion_frozen p (merge_upload fs u p)" "upload_intent_same p (merge_upload fs u p)"
    "set_once (upl_promotion_target_key p) (upl_promotion_target_key (merge_upload fs u p))"
    using cols immutable
    by (auto simp: promotion_frozen_def upload_intent_same_def merge_upload_sel immutable_fields_def
        protected_fields_def)
  have marks: "set_once (upl_orphan_deleted_at p) (upl_orphan_deleted_at u)
      \<and> set_once (upl_promotion_target_deleted_at p) (upl_promotion_target_deleted_at u)
      \<and> time_grows (upl_promotion_target_reconciled_at p) (upl_promotion_target_reconciled_at u)"
    if "set fs \<inter> set deletion_fields \<noteq> {}"
  proof (cases "list_ex (upload_field_changed u p) deletion_fields")
    case True
    with deletions that show ?thesis
      by (auto simp: evidence_not_monotonic_def intro: monotonic_evidence_evolves)
  next
    case False
    then show ?thesis by (auto simp: deletion_fields_def)
  qed
  have "set_once (upl_orphan_deleted_at p) (upl_orphan_deleted_at (merge_upload fs u p))"
    "set_once (upl_promotion_target_deleted_at p) (upl_promotion_target_deleted_at (merge_upload fs u p))"
    "time_grows (upl_promotion_target_reconciled_at p)
       (upl_promotion_target_reconciled_at (merge_upload fs u p))"
    using marks by (auto simp: merge_upload_sel deletion_fields_def)
  moreover have "set_once (upl_finalized_at p) (upl_finalized_at (merge_upload fs u p))"
    using final by (auto simp: merge_upload_sel)
  ultimately show ?thesis using frozen by (simp add: upload_evolves_def)
qed

text \<open>Every save only writes the uploads table, and only along \<open>upload_evolves\<close>.\<close>

definition only_uploads_evolve :: "db \<Rightarrow> db \<Rightarrow> bool" where
  "only_uploads_evolve d d' \<longleftrightarrow> (\<exists>rs. d' = d\<lparr>db_uploads := rs\<rparr>
     \<and> rows_evolve upl_id upload_evolves (db_uploads d) rs)"

lemma only_uploads_evolve_refl [simp]: "only_uploads_evolve d d"
  unfolding only_uploads_evolve_def
  by (rule exI [of _ "db_uploads d"]) (simp add: rows_evolve_refl)

lemma wp_upload_clean_weaken: "(\<And>e. E e w) \<Longrightarrow> Q () w \<Longrightarrow> wp (upload_clean b u) Q E w"
  by (auto simp: upload_clean_def wp_simps table_defs split: option.splits)

lemma save_stored_uploads:
  assumes "\<And>p. lookup_by upl_id (upl_id u) (db_uploads (w_db w)) = Some p \<Longrightarrow>
      upload_evolves p (merge_upload fs u p)"
  shows "wp (save_stored uploads_t upload_ok upl_organization_id (upload_clean False) u (merge_upload fs u))
     (\<lambda>_ w'. w' = w\<lparr>w_db := (w_db w)\<lparr>db_uploads :=
          update_by upl_id (upl_id u) (merge_upload fs u) (db_uploads (w_db w))\<rparr>\<rparr>
        \<and> only_uploads_evolve (w_db w) (w_db w')
        \<and> (\<exists>p. lookup_by upl_id (upl_id u) (db_uploads (w_db w)) = Some p
             \<and> upload_ok (w_db w) (merge_upload fs u p)))
     (\<lambda>_ w'. w' = w) w"
proof -
  have "rows_evolve upl_id upload_evolves (db_uploads (w_db w))
      (update_by upl_id (upl_id u) (merge_upload fs u) (db_uploads (w_db w)))"
    by (rule rows_evolve_update) (use assms in auto)
  then show ?thesis
    unfolding save_stored_wp only_uploads_evolve_def
    by (auto simp: table_defs wp_simps split: option.splits intro!: wp_upload_clean_weaken)
qed

lemma save_upload_evolves:
  assumes cols: "set fs \<inter> protected_fields = {}"
    and final: "\<And>p. UFinalizedAt \<in> set fs \<Longrightarrow>
      lookup_by upl_id (upl_id u) (db_uploads (w_db w)) = Some p \<Longrightarrow>
      set_once (upl_finalized_at p) (upl_finalized_at u)"
  shows "wp (save_upload evidence fs u)
     (\<lambda>_ w'. w' = w\<lparr>w_db := (w_db w)\<lparr>db_uploads :=
          update_by upl_id (upl_id u) (merge_upload fs u) (db_uploads (w_db w))\<rparr>\<rparr>
        \<and> only_uploads_evolve (w_db w) (w_db w')
        \<and> (\<exists>p. lookup_by upl_id (upl_id u) (db_uploads (w_db w)) = Some p
             \<and> upload_ok (w_db w) (merge_upload fs u p)))
     (\<lambda>_ w'. w' = w) w"
proof (cases "lookup_by upl_id (upl_id u) (db_uploads (w_db w))")
  case None
  then show ?thesis
    by (auto simp: save_upload_def wp_simps save_stored_wp table_defs)
next
  case (Some p)
  note ev = merge_upload_evolves [where fs = fs and u = u and p = p]
  have saved: "wp (save_stored uploads_t upload_ok upl_organization_id (upload_clean False) u
       (merge_upload fs u))
     (\<lambda>_ w'. w' = w\<lparr>w_db := (w_db w)\<lparr>db_uploads :=
          update_by upl_id (upl_id u) (merge_upload fs u) (db_uploads (w_db w))\<rparr>\<rparr>
        \<and> only_uploads_evolve (w_db w) (w_db w')
        \<and> (\<exists>p. lookup_by upl_id (upl_id u) (db_uploads (w_db w)) = Some p
             \<and> upload_ok (w_db w) (merge_upload fs u p)))
     (\<lambda>_ w'. w' = w) w" if "upload_evolves p (merge_upload fs u p)"
    by (rule save_stored_uploads) (use Some that in auto)
  show ?thesis
  proof (cases "set fs \<inter> set deletion_fields \<noteq> {} \<and> list_ex (upload_field_changed u p) deletion_fields
      \<and> (\<not> evidence \<or> evidence_not_monotonic p u)
      \<or> list_ex (\<lambda>f. f \<in> set fs \<and> upload_field_changed u p f) immutable_fields")
    case True
    then show ?thesis
      using Some unfolding save_upload_def
      by (auto simp: wp_simps table_defs list_ex_iff)
  next
    case False
    then have "upload_evolves p (merge_upload fs u p)" by (intro ev) (use cols final Some in auto)
    from saved [OF this] show ?thesis
      using Some False unfolding save_upload_def
      by (auto simp: wp_simps table_defs)
  qed
qed

section \<open>Promotion follows its graph\<close>

text \<open>
  What \<open>save_promotion\<close> leaves in the row: the requested status, target and code, reached by an
  edge of the graph from an unfenced row whose target, once reserved, is the same.
\<close>

definition promoted_row ::
  "upload_request \<Rightarrow> upload_request \<Rightarrow> promotion_status \<Rightarrow> string option \<Rightarrow> string option \<Rightarrow> bool" where
  "promoted_row p r status target code \<longleftrightarrow>
     upl_promotion_target_deleted_at p = None \<and>
     (r = p \<and> upl_promotion_status p = status \<and> upl_promotion_target_key p = target
        \<and> upl_safe_error_code p = code
      \<or> status \<in> set (promotion_transitions (upl_promotion_status p))
        \<and> set_once (upl_promotion_target_key p) target
        \<and> (\<exists>t. r = p\<lparr>upl_promotion_status := status, upl_promotion_status_changed_at := t,
                       upl_promotion_target_key := target, upl_safe_error_code := code\<rparr>))"

lemma promoted_row_evolves: "promoted_row p r status target code \<Longrightarrow> upload_evolves p r"
  by (auto simp: promoted_row_def upload_evolves_def upload_intent_same_def promotion_frozen_def)

lemma merge_promotion_columns:
  "merge_upload promotion_columns (u\<lparr>upl_promotion_status := status,
       upl_promotion_status_changed_at := t, upl_promotion_target_key := target,
       upl_safe_error_code := code\<rparr>) p =
     p\<lparr>upl_promotion_status := status, upl_promotion_status_changed_at := t,
       upl_promotion_target_key := target, upl_safe_error_code := code\<rparr>"
  by (simp add: merge_upload_def promotion_columns_def)

lemma save_promotion_wp:
  assumes row: "lookup_by upl_id (upl_id u) (db_uploads (w_db w)) = Some p"
  shows "wp (save_promotion u status target code)
     (\<lambda>u' w'. upl_id u' = upl_id u \<and> only_uploads_evolve (w_db w) (w_db w') \<and> w_store w' = w_store w
        \<and> (\<exists>r. lookup_by upl_id (upl_id u) (db_uploads (w_db w')) = Some r
             \<and> promoted_row p r status target code))
     (\<lambda>_ w'. w_db w' = w_db w \<and> w_store w' = w_store w) w"
proof -
  let ?u = "\<lambda>t. u\<lparr>upl_promotion_status := status, upl_promotion_status_changed_at := t,
       upl_promotion_target_key := target, upl_safe_error_code := code\<rparr>"
  have saved: "wp (save_stored uploads_t upload_ok upl_organization_id (upload_clean False) (?u t)
       (merge_upload promotion_columns (?u t)))
     (\<lambda>_ w''. upl_id (?u t) = upl_id u \<and> only_uploads_evolve (w_db w) (w_db w'') \<and> w_store w'' = w_store w
        \<and> (\<exists>r. lookup_by upl_id (upl_id u) (db_uploads (w_db w'')) = Some r
             \<and> promoted_row p r status target code))
     (\<lambda>_ w''. w_db w'' = w_db w \<and> w_store w'' = w_store w) w'"
    if "w_db w' = w_db w" "w_store w' = w_store w"
      "upl_promotion_target_deleted_at p = None"
      "status \<in> set (promotion_transitions (upl_promotion_status p))"
      "set_once (upl_promotion_target_key p) target" for w' t
  proof -
    have pr: "promoted_row p (merge_upload promotion_columns (?u t) p) status target code"
      using that by (auto simp: promoted_row_def merge_promotion_columns)
    show ?thesis
      by (rule wp_mono [OF save_stored_uploads])
         (use that row pr promoted_row_evolves [OF pr] in \<open>auto simp: row_simps\<close>)
  qed
  show ?thesis
    unfolding save_promotion_def
    by (intro wp_intros wp_mono [OF saved])
       (use row in \<open>auto simp: promoted_row_def set_once_def\<close>)
qed

section \<open>Properties\<close>

text \<open>
  Saving a promotion follows the promotion graph on an unfenced row, never changes a reserved
  target, leaves every other upload and every other table as it was, and rolls back otherwise.
\<close>

theorem promotion_protocol:
  "wp (save_promotion u status target code)
     (\<lambda>u' w'. \<exists>p r. lookup_by upl_id (upl_id u) (db_uploads (w_db w)) = Some p
        \<and> lookup_by upl_id (upl_id u) (db_uploads (w_db w')) = Some r
        \<and> promoted_row p r status target code \<and> upload_evolves p r
        \<and> only_uploads_evolve (w_db w) (w_db w'))
     (\<lambda>_ w'. w_db w' = w_db w) w"
proof (cases "lookup_by upl_id (upl_id u) (db_uploads (w_db w))")
  case None
  then show ?thesis unfolding save_promotion_def by (intro wp_intros) auto
next
  case (Some p)
  then show ?thesis
    by (intro wp_mono [OF save_promotion_wp [OF Some]]) (auto dest: promoted_row_evolves)
qed

end
