(* ===== verification/UploadServices.thy ===== *)
theory UploadServices
  imports Uploads
begin

text \<open>
  \<open>uploads/services.py\<close>: creating a signed upload intent and completing an upload against what
  the object store reports. Every refusal is written to the audit log.
\<close>

definition upload_ttl :: int where
  "upload_ttl = 15 * 60 * 1000000"

definition kind_to_purpose :: "string \<Rightarrow> upload_purpose option" where
  "kind_to_purpose kind =
     (if kind = ''issuance_input'' then Some PurposeIssuance
      else if kind = ''verification_input'' then Some PurposeVerification else None)"

definition upload_content_types :: "string list" where
  "upload_content_types = [''application/pdf'', ''image/png'', ''image/jpeg'']"

record upload_intent =
  ui_record :: upload_request
  ui_url :: string
  ui_required_headers :: "(string \<times> string) list"

section \<open>Refusals\<close>

definition record_denial :: "text_libs \<Rightarrow> user \<Rightarrow> string \<Rightarrow> string \<Rightarrow> string \<Rightarrow> ('st world, unit) prog" where
  "record_denial T actor action code kind =
     chain uuid4 (\<lambda>cid.
     chain (record_event T actor action (user_target actor) OutcomeDenied cid
              (JObj ([(''safe_error_code'', JStr code)] @ (if kind \<noteq> [] then [(''kind'', JStr kind)] else []))))
       (\<lambda>_. ret ()))"

definition reject :: "text_libs \<Rightarrow> user \<Rightarrow> string \<Rightarrow> string \<Rightarrow> string \<Rightarrow> ('st world, 'a) prog" where
  "reject T actor code action kind =
     chain (record_denial T actor action code kind) (\<lambda>_. raise (UploadRejected code))"

definition upload_allowed :: "user \<Rightarrow> string \<Rightarrow> bool" where
  "upload_allowed actor kind \<longleftrightarrow> usr_role actor = Administrator
     \<or> (usr_role actor = Issuer \<and> kind = ''issuance_input'')
     \<or> (usr_role actor = Verifier \<and> kind = ''verification_input'')"

definition authorize_upload :: "text_libs \<Rightarrow> user \<Rightarrow> string \<Rightarrow> string \<Rightarrow> ('st world, unit) prog" where
  "authorize_upload T actor kind action =
     (if upload_allowed actor kind then ret ()
      else reject T actor ''UPLOAD_FORBIDDEN'' action kind)"

definition size_in_bounds :: "int \<Rightarrow> json \<Rightarrow> bool" where
  "size_in_bounds max_pdf_bytes v = (case v of JInt n \<Rightarrow> 1 \<le> n \<and> n \<le> max_pdf_bytes | _ \<Rightarrow> False)"

definition json_sha256 :: "json \<Rightarrow> bool" where
  "json_sha256 v = (case v of JStr s \<Rightarrow> sha256_text s | _ \<Rightarrow> False)"

text \<open>\<open>size_bytes\<close> and \<open>sha256\<close> are tested for their type, so they are dynamic values here.\<close>

definition validate_intent ::
  "text_libs \<Rightarrow> user \<Rightarrow> string \<Rightarrow> string \<Rightarrow> json \<Rightarrow> json \<Rightarrow> ('st world, unit) prog" where
  "validate_intent T actor kind content_type size_bytes sha256 =
     chain (authorize_upload T actor kind ''upload.intent.denied'') (\<lambda>_.
     if kind_to_purpose kind = None then reject T actor ''UPLOAD_KIND'' ''upload.intent.denied'' kind
     else if content_type \<notin> set upload_content_types
     then reject T actor ''UPLOAD_CONTENT_TYPE'' ''upload.intent.denied'' kind
     else chain (gets (\<lambda>w. lim_max_pdf_bytes (w_limits w))) (\<lambda>max_pdf_bytes.
       if \<not> size_in_bounds max_pdf_bytes size_bytes
       then reject T actor ''UPLOAD_SIZE'' ''upload.intent.denied'' kind
       else if \<not> json_sha256 sha256
       then reject T actor ''UPLOAD_SHA256'' ''upload.intent.denied'' kind
       else ret ()))"

section \<open>Source file names\<close>

lemma length_py_strip: "length (py_strip s) \<le> length s"
  unfolding py_strip_def
  by (simp add: length_dropWhile_le order.trans [OF length_dropWhile_le])

text \<open>The loop \<open>while cleaned.startswith("."): cleaned = cleaned[1:].strip()\<close>.\<close>

function strip_dots :: "string \<Rightarrow> string" where
  "strip_dots s = (if prefix ''.'' s then strip_dots (py_strip (tl s)) else s)"
  by auto
termination
proof (relation "measure length")
  fix s :: string
  assume "prefix ''.'' s"
  then have "s \<noteq> []" by auto
  then show "(py_strip (tl s), s) \<in> measure length"
    using length_py_strip [of "tl s"] by (cases s) auto
qed simp

declare strip_dots.simps [simp del]

definition bound_name :: "string \<Rightarrow> string" where
  "bound_name cleaned = (if length cleaned > 120 then
       (case rpartition (CHR ''.'') cleaned of (stem, separator, extension) \<Rightarrow>
          if separator then take 120 stem @ ''.'' @ extension else take 120 cleaned)
     else cleaned)"

definition safe_source_filename :: "json \<Rightarrow> string" where
  "safe_source_filename filename = (case filename of
     JStr name \<Rightarrow>
       (let candidate = py_strip (rsplit_last (CHR ''/'') (py_replace_char (CHR 0x5C) (CHR ''/'') name));
            cleaned = strip_dots (py_strip (filter (\<lambda>c. \<not> forbidden_filename_char c) candidate))
        in case validate_download_filename (bound_name cleaned) of Inl _ \<Rightarrow> [] | Inr name \<Rightarrow> name)
   | _ \<Rightarrow> [])"

section \<open>Creating an intent\<close>

text \<open>The object key of an intent: \<open>uploads/orphan/<kind>/<organization>/<hex>.bin\<close>.\<close>

definition orphan_upload_key :: "string \<Rightarrow> uuid \<Rightarrow> uuid \<Rightarrow> string" where
  "orphan_upload_key kind org upload_id =
     ''uploads/orphan/'' @ kind @ ''/'' @ uuid_str org @ ''/'' @ uuid_hex upload_id @ ''.bin''"

text \<open>The part of \<open>create_upload\<close> after \<open>_validate_intent\<close>.\<close>

definition issue_upload_intent ::
  "text_libs \<Rightarrow> 'st storage_ops \<Rightarrow> user \<Rightarrow> string \<Rightarrow> json \<Rightarrow> string \<Rightarrow> upload_purpose \<Rightarrow> int \<Rightarrow> string
     \<Rightarrow> ('st world, upload_intent) prog" where
  "issue_upload_intent T storage actor kind filename content_type purpose n_bytes digest =
         chain now (\<lambda>started.
         chain uuid4 (\<lambda>upload_id.
         let key = orphan_upload_key kind (usr_organization_id actor) upload_id in
         chain (attempt (on_store (so_presign_put storage key content_type n_bytes digest upload_ttl))
                  (\<lambda>e. case e of
                     StorageUnavailable _ \<Rightarrow> reject T actor ''STORAGE_UNAVAILABLE'' ''upload.intent.denied'' kind
                   | _ \<Rightarrow> raise e)) (\<lambda>signed.
         chain (atomic (
           chain now (\<lambda>changed. chain now (\<lambda>created.
           let u = \<lparr>upl_id = upload_id, upl_organization_id = usr_organization_id actor,
                 upl_requested_by_id = usr_id actor, upl_purpose = purpose, upl_object_key = key,
                 upl_source_filename = safe_source_filename filename,
                 upl_source_content_type = content_type, upl_expected_sha256 = Some digest,
                 upl_size_bytes = Some n_bytes, upl_expires_at = started + upload_ttl,
                 upl_finalized_at = None, upl_orphan_deleted_at = None,
                 upl_promotion_target_key = None, upl_promotion_status = PromotionNone,
                 upl_promotion_status_changed_at = changed, upl_safe_error_code = None,
                 upl_promotion_target_deleted_at = None, upl_promotion_target_reconciled_at = None,
                 upl_created_at = created\<rparr> in
           chain (insert_upload False u) (\<lambda>_.
           chain uuid4 (\<lambda>cid.
           chain (record_event T actor ''upload.intent.created'' (upload_target u) OutcomeSucceeded cid
                    (JObj [(''kind'', JStr kind), (''object_size'', JInt n_bytes), (''status'', JStr ''pending'')]))
             (\<lambda>_. ret u))))))) (\<lambda>u.
         ret \<lparr>ui_record = u, ui_url = pp_url signed, ui_required_headers = pp_headers signed\<rparr>))))"

definition create_upload ::
  "text_libs \<Rightarrow> 'st storage_ops \<Rightarrow> user \<Rightarrow> string \<Rightarrow> json \<Rightarrow> string \<Rightarrow> json \<Rightarrow> json
     \<Rightarrow> ('st world, upload_intent) prog" where
  "create_upload T storage actor kind filename content_type size_bytes sha256 =
     chain (validate_intent T actor kind content_type size_bytes sha256) (\<lambda>_.
     case (kind_to_purpose kind, size_bytes, sha256) of
       (Some purpose, JInt n_bytes, JStr digest) \<Rightarrow>
         issue_upload_intent T storage actor kind filename content_type purpose n_bytes digest
     | _ \<Rightarrow> raise (TypeError ''unreachable after validate_intent''))"

section \<open>Completing an upload\<close>

definition kind_for :: "upload_request \<Rightarrow> string" where
  "kind_for u = (if upl_purpose u = PurposeIssuance then ''issuance_input'' else ''verification_input'')"

text \<open>The filter of \<open>_scoped_upload\<close>.\<close>

definition upload_in_scope :: "user \<Rightarrow> upload_request \<Rightarrow> bool" where
  "upload_in_scope actor u \<longleftrightarrow> upl_organization_id u = usr_organization_id actor
     \<and> (usr_role actor \<noteq> Administrator \<longrightarrow> upl_requested_by_id u = usr_id actor)"

definition find_scoped_upload :: "db \<Rightarrow> user \<Rightarrow> uuid \<Rightarrow> upload_request option" where
  "find_scoped_upload d actor upload_id =
     (case lookup_by upl_id upload_id (db_uploads d) of None \<Rightarrow> None
      | Some u \<Rightarrow> if upload_in_scope actor u then Some u else None)"

definition scoped_upload :: "text_libs \<Rightarrow> user \<Rightarrow> uuid \<Rightarrow> ('st world, upload_request) prog" where
  "scoped_upload T actor upload_id =
     chain (gets (\<lambda>w. find_scoped_upload (w_db w) actor upload_id)) (\<lambda>found.
     case found of
       Some u \<Rightarrow> ret u
     | None \<Rightarrow> chain (record_denial T actor ''upload.complete.denied'' ''UPLOAD_NOT_FOUND'' [])
         (\<lambda>_. raise (UploadRejected ''UPLOAD_NOT_FOUND'')))"

text \<open>
  The body of the transaction after the scoped lookup. The local variable \<open>kind\<close>, which the
  handler of \<open>UploadRejected\<close> reads, is empty until the lookup succeeds and \<open>_kind_for(upload)\<close> from
  then on: \<open>complete_upload_kind\<close>.
\<close>

definition finish_upload ::
  "text_libs \<Rightarrow> 'st storage_ops \<Rightarrow> user \<Rightarrow> upload_request \<Rightarrow> string \<Rightarrow> ('st world, upload_request) prog" where
  "finish_upload T storage actor u sha256 =
     (let kind = kind_for u; action = ''upload.complete.denied'' in
      chain (authorize_upload T actor kind action) (\<lambda>_.
      if Some sha256 \<noteq> upl_expected_sha256 u
      then reject T actor ''UPLOAD_METADATA_MISMATCH'' action kind
      else if upl_finalized_at u \<noteq> None then ret u
      else chain now (\<lambda>t1.
        if t1 \<ge> upl_expires_at u then reject T actor ''UPLOAD_EXPIRED'' action kind
        else chain (attempt (on_store (so_head storage (upl_object_key u))) (\<lambda>e. case e of
                 StorageUnavailable _ \<Rightarrow> reject T actor ''STORAGE_UNAVAILABLE'' action kind
               | _ \<Rightarrow> raise e)) (\<lambda>observed.
        chain now (\<lambda>t2.
        if t2 \<ge> upl_expires_at u then reject T actor ''UPLOAD_EXPIRED'' action kind
        else if (case observed of None \<Rightarrow> True
                 | Some m \<Rightarrow> Some (om_size_bytes m) \<noteq> upl_size_bytes u
                     \<or> om_client_sha256_metadata m \<noteq> upl_expected_sha256 u)
        then reject T actor ''UPLOAD_METADATA_MISMATCH'' action kind
        else chain now (\<lambda>t3.
          let u' = u\<lparr>upl_finalized_at := Some t3\<rparr> in
          chain (save_upload False [UFinalizedAt] u') (\<lambda>_.
          chain uuid4 (\<lambda>cid.
          chain (record_event T actor ''upload.completed'' (upload_target u') OutcomeSucceeded cid
                   (JObj [(''kind'', JStr kind),
                          (''object_size'', case upl_size_bytes u of None \<Rightarrow> JNull | Some n \<Rightarrow> JInt n),
                          (''status'', JStr ''ready'')]))
            (\<lambda>_. ret u')))))))))"

definition complete_upload_kind :: "db \<Rightarrow> user \<Rightarrow> uuid \<Rightarrow> string" where
  "complete_upload_kind d actor upload_id =
     (case find_scoped_upload d actor upload_id of None \<Rightarrow> [] | Some u \<Rightarrow> kind_for u)"

definition complete_upload ::
  "text_libs \<Rightarrow> 'st storage_ops \<Rightarrow> user \<Rightarrow> uuid \<Rightarrow> string \<Rightarrow> ('st world, upload_request) prog" where
  "complete_upload T storage actor upload_id sha256 =
     chain (gets (\<lambda>w. complete_upload_kind (w_db w) actor upload_id)) (\<lambda>kind.
     attempt
       (atomic (chain (scoped_upload T actor upload_id) (\<lambda>u. finish_upload T storage actor u sha256)))
       (\<lambda>e. case e of
          UploadRejected code \<Rightarrow>
            chain (record_denial T actor ''upload.complete.denied'' code kind) (\<lambda>_. raise e)
        | _ \<Rightarrow> raise e))"

text \<open>\<open>record_serializer_denial\<close>: \<open>errors\<close> is the dictionary of field errors, in order.\<close>

definition serializer_denial_code :: "string list \<Rightarrow> string" where
  "serializer_denial_code error_fields = (case error_fields of [] \<Rightarrow> ''UPLOAD_REQUEST''
     | f # _ \<Rightarrow> if f = ''kind'' then ''UPLOAD_KIND''
         else if f = ''content_type'' then ''UPLOAD_CONTENT_TYPE''
         else if f = ''size_bytes'' then ''UPLOAD_SIZE''
         else if f = ''sha256'' then ''UPLOAD_SHA256''
         else if f = ''filename'' then ''UPLOAD_FILENAME''
         else ''UPLOAD_REQUEST'')"

definition record_serializer_denial :: "text_libs \<Rightarrow> user \<Rightarrow> string \<Rightarrow> string list \<Rightarrow> ('st world, unit) prog" where
  "record_serializer_denial T actor action error_fields =
     record_denial T actor action (serializer_denial_code error_fields) []"

section \<open>Exactly one audit event per outcome\<close>

definition denied_event :: "user \<Rightarrow> string \<Rightarrow> audit_event \<Rightarrow> bool" where
  "denied_event actor action ev \<longleftrightarrow> aud_outcome ev = OutcomeDenied \<and> aud_action ev = action
     \<and> aud_actor_id ev = Some (usr_id actor) \<and> aud_organization_id ev = usr_organization_id actor
     \<and> metadata_safe (aud_metadata ev)"

text \<open>The database gained one event satisfying \<open>P\<close> and nothing else.\<close>

definition audited :: "(audit_event \<Rightarrow> bool) \<Rightarrow> db \<Rightarrow> db \<Rightarrow> bool" where
  "audited P d d' \<longleftrightarrow> (\<exists>ev. d' = d\<lparr>db_audit := db_audit d @ [ev]\<rparr> \<and> P ev)"

lemma record_denial_wp:
  "wp (record_denial T actor action code kind)
     (\<lambda>_ w'. audited (denied_event actor action) (w_db w) (w_db w') \<and> w_store w' = w_store w)
     (\<lambda>e w'. w_db w' = w_db w \<and> w_store w' = w_store w \<and> audit_exn e) w"
  unfolding record_denial_def
  by (intro wp_intros wp_mono [OF record_event_wp])
     (auto simp: audited_def denied_event_def dest: redact_metadata_safe)

lemma reject_wp:
  "wp (reject T actor code action kind) (\<lambda>_ _. False)
     (\<lambda>e w'. w_store w' = w_store w \<and>
        (e = UploadRejected code \<and> audited (denied_event actor action) (w_db w) (w_db w')
         \<or> audit_exn e \<and> w_db w' = w_db w)) w"
  unfolding reject_def
  by (intro wp_intros wp_mono [OF record_denial_wp]) auto

lemma authorize_upload_wp:
  "wp (authorize_upload T actor kind action) (\<lambda>_ w'. upload_allowed actor kind \<and> w' = w)
     (\<lambda>e w'. \<not> upload_allowed actor kind \<and> w_store w' = w_store w \<and>
        (e = UploadRejected ''UPLOAD_FORBIDDEN'' \<and> audited (denied_event actor action) (w_db w) (w_db w')
         \<or> audit_exn e \<and> w_db w' = w_db w)) w"
  unfolding authorize_upload_def
  by (intro wp_intros wp_mono [OF reject_wp]) auto

text \<open>
  A refusal of \<open>complete_upload\<close> leaves the database as it was plus exactly one denial, although
  the body of the transaction has already written one that the rollback removed.
\<close>

lemma complete_upload_refusal:
  "wp (complete_upload T storage actor upload_id sha256) (\<lambda>_ _. True)
     (\<lambda>e w'. case e of
        UploadRejected code \<Rightarrow> audited (denied_event actor ''upload.complete.denied'') (w_db w) (w_db w')
      | _ \<Rightarrow> w_db w' = w_db w) w"
proof -
  let ?E = "\<lambda>e w'. case e of
        UploadRejected code \<Rightarrow> audited (denied_event actor ''upload.complete.denied'') (w_db w) (w_db w')
      | _ \<Rightarrow> w_db w' = w_db w"
  have handler: "wp (case e of
          UploadRejected code \<Rightarrow>
            chain (record_denial T actor ''upload.complete.denied'' code kind) (\<lambda>_. raise e)
        | _ \<Rightarrow> raise e) (\<lambda>_ _. True) ?E w'" if "w_db w' = w_db w"
    for e kind and w' :: "'a world"
    using that
    by (cases e) (auto simp: wp_simps audit_exn_def intro!: wp_mono [OF record_denial_wp]
        split: exn.splits)
  have trivial: "wp m (\<lambda>_ _. True) (\<lambda>_ _. True) w" for m :: "('a world, upload_request) prog"
    by simp
  show ?thesis
    unfolding complete_upload_def
    by (intro wp_intros wp_mono [OF trivial] handler) simp_all
qed

section \<open>What success means\<close>

text \<open>
  A completed upload either was complete already, and nothing is written, or the store reported
  an object of the declared size and digest before the intent expired; then exactly the
  completion time is written, with one audit event.
\<close>

definition head_matches :: "upload_request \<Rightarrow> object_metadata option \<Rightarrow> bool" where
  "head_matches u observed \<longleftrightarrow> (\<exists>m. observed = Some m \<and> Some (om_size_bytes m) = upl_size_bytes u
     \<and> om_client_sha256_metadata m = upl_expected_sha256 u)"

definition upload_completed :: "user \<Rightarrow> uuid \<Rightarrow> string \<Rightarrow> db \<Rightarrow> upload_request \<Rightarrow> db \<Rightarrow> bool" where
  "upload_completed actor upload_id sha256 d u' d' \<longleftrightarrow>
     (\<exists>u. lookup_by upl_id upload_id (db_uploads d) = Some u \<and> upload_in_scope actor u
        \<and> upload_allowed actor (kind_for u) \<and> upl_expected_sha256 u = Some sha256
        \<and> (if upl_finalized_at u \<noteq> None then u' = u \<and> d' = d
           else \<exists>t ev. u' = u\<lparr>upl_finalized_at := Some t\<rparr>
             \<and> d' = d\<lparr>db_uploads := update_by upl_id upload_id
                   (\<lambda>r. r\<lparr>upl_finalized_at := Some t\<rparr>) (db_uploads d),
                 db_audit := db_audit d @ [ev]\<rparr>
             \<and> aud_outcome ev = OutcomeSucceeded \<and> aud_action ev = ''upload.completed''))"

lemma upload_completedI:
  assumes "lookup_by upl_id upload_id (db_uploads d) = Some u" "upload_in_scope actor u"
    "upload_allowed actor (kind_for u)" "upl_expected_sha256 u = Some sha256"
    and "upl_finalized_at u \<noteq> None \<and> u' = u \<and> d' = d \<or>
      upl_finalized_at u = None \<and> u' = u\<lparr>upl_finalized_at := Some t\<rparr>
        \<and> d' = d\<lparr>db_uploads := update_by upl_id upload_id (\<lambda>r. r\<lparr>upl_finalized_at := Some t\<rparr>) (db_uploads d),
                 db_audit := db_audit d @ [ev]\<rparr>
        \<and> aud_outcome ev = OutcomeSucceeded \<and> aud_action ev = ''upload.completed''"
  shows "upload_completed actor upload_id sha256 d u' d'"
  unfolding upload_completed_def using assms by (intro exI [of _ u]) auto

lemma merge_finalized [simp]:
  "merge_upload [UFinalizedAt] u = (\<lambda>r. r\<lparr>upl_finalized_at := upl_finalized_at u\<rparr>)"
  by (rule ext) (simp add: merge_upload_def)

context object_storage
begin

lemma head_wp:
  "wp (so_head ops k) (\<lambda>m st'. m = stored st k \<and> stored st' = stored st)
     (\<lambda>_ st'. stored st' = stored st) st"
  by (auto simp: wp_def split: prod.splits sum.splits dest: head_ok head_keeps)

lemma finish_upload_wp:
  assumes row: "lookup_by upl_id (upl_id u) (db_uploads (w_db w)) = Some u"
  shows "wp (finish_upload T ops actor u sha256)
     (\<lambda>u' w'. upload_allowed actor (kind_for u) \<and> upl_expected_sha256 u = Some sha256
        \<and> (if upl_finalized_at u \<noteq> None then u' = u \<and> w_db w' = w_db w
           else head_matches u (stored (w_store w) (upl_object_key u)) \<and> stored (w_store w') = stored (w_store w)
             \<and> (\<exists>t ev. u' = u\<lparr>upl_finalized_at := Some t\<rparr>
             \<and> w_db w' = (w_db w)\<lparr>db_uploads := update_by upl_id (upl_id u)
                   (\<lambda>r. r\<lparr>upl_finalized_at := Some t\<rparr>) (db_uploads (w_db w)),
                 db_audit := db_audit (w_db w) @ [ev]\<rparr>
             \<and> aud_outcome ev = OutcomeSucceeded \<and> aud_action ev = ''upload.completed'')))
     (\<lambda>_ _. True) w"
proof -
  have rejected: "wp (reject T actor code action kind) Q (\<lambda>_ _. True) w'" for code action kind Q w'
    by (rule wp_mono [OF reject_wp]) auto
  have unavailable: "wp (case e of
          StorageUnavailable _ \<Rightarrow> reject T actor ''STORAGE_UNAVAILABLE'' action kind
        | _ \<Rightarrow> raise e) Q (\<lambda>_ _. True) w'" for e action kind Q w'
    by (cases e) (simp_all add: wp_simps rejected)
  show ?thesis
    unfolding finish_upload_def
    by (intro wp_intros wp_mono [OF authorize_upload_wp] wp_mono [OF head_wp] rejected unavailable
        wp_mono [OF save_upload_evolves] wp_mono [OF record_event_wp])
       (use row in \<open>auto simp: protected_fields_def head_matches_def split: option.splits\<close>)
qed

lemma find_scoped_uploadD:
  "find_scoped_upload d actor k = Some u \<Longrightarrow>
     lookup_by upl_id (upl_id u) (db_uploads d) = Some u \<and> upl_id u = k \<and> upload_in_scope actor u"
  by (auto simp: find_scoped_upload_def dest: lookup_by_key split: option.splits if_splits)

lemma complete_upload_success:
  "wp (complete_upload T ops actor upload_id sha256)
     (\<lambda>u' w'. upload_completed actor upload_id sha256 (w_db w) u' (w_db w')
        \<and> (w_db w' \<noteq> w_db w \<longrightarrow> head_matches u' (stored (w_store w) (upl_object_key u'))))
     (\<lambda>_ _. True) w"
proof -
  have denied: "wp (record_denial T actor action code kind) (\<lambda>_. wp (raise x) Q E) E w'"
    if "\<And>e t. E e t" for action code kind x and Q :: "'b \<Rightarrow> 'a world \<Rightarrow> bool" and E w'
    by (rule wp_mono [OF record_denial_wp]) (auto intro: wp_intros that)
  have handler: "wp (case e of
          UploadRejected code \<Rightarrow>
            chain (record_denial T actor ''upload.complete.denied'' code kind) (\<lambda>_. raise e)
        | _ \<Rightarrow> raise e) Q (\<lambda>_ _. True) w'" for e kind and Q :: "upload_request \<Rightarrow> 'a world \<Rightarrow> bool" and w'
    by (cases e) (auto simp: wp_simps intro!: denied [simplified wp_simps])
  show ?thesis
    unfolding complete_upload_def scoped_upload_def
    by (intro wp_intros handler denied wp_mono [OF finish_upload_wp])
       (auto simp: head_matches_def split: if_splits intro: upload_completedI
          dest!: find_scoped_uploadD)
qed

end

text \<open>A created intent, and that any refusal wrote at most one denial.\<close>

definition upload_created ::
  "user \<Rightarrow> string \<Rightarrow> string \<Rightarrow> json \<Rightarrow> json \<Rightarrow> int \<Rightarrow> db \<Rightarrow> upload_request \<Rightarrow> db \<Rightarrow> bool" where
  "upload_created actor kind content_type size_bytes sha256 max_pdf_bytes d u d' \<longleftrightarrow>
     upload_allowed actor kind \<and> kind_to_purpose kind = Some (upl_purpose u)
     \<and> content_type \<in> set upload_content_types \<and> upl_source_content_type u = content_type
     \<and> (\<exists>n. size_bytes = JInt n \<and> upl_size_bytes u = Some n \<and> 1 \<le> n \<and> n \<le> max_pdf_bytes)
     \<and> (\<exists>h. sha256 = JStr h \<and> upl_expected_sha256 u = Some h \<and> sha256_text h)
     \<and> upl_organization_id u = usr_organization_id actor \<and> upl_requested_by_id u = usr_id actor
     \<and> match_orphan_key (upl_object_key u) = Some \<lparr>og_kind = kind,
          og_organization = uuid_str (usr_organization_id actor), og_object = uuid_hex (upl_id u)\<rparr>
     \<and> upl_finalized_at u = None \<and> \<not> has_deletion_evidence u
     \<and> upl_promotion_status u = PromotionNone \<and> upload_ok d u
     \<and> (\<exists>ev. d' = d\<lparr>db_uploads := db_uploads d @ [u], db_audit := db_audit d @ [ev]\<rparr>
          \<and> aud_outcome ev = OutcomeSucceeded)"

lemma upload_key_shape:
  assumes "kind_to_purpose kind = Some purpose"
  shows "match_orphan_key (orphan_upload_key kind org u)
    = Some \<lparr>og_kind = kind, og_organization = uuid_str org, og_object = uuid_hex u\<rparr>"
proof -
  have "kind \<in> {''issuance_input'', ''verification_input''}"
    using assms by (auto simp: kind_to_purpose_def split: if_splits)
  moreover have "list_all hex_char (uuid_hex u)"
    using hex_text_chars by (auto simp: list_all_iff uuid_hex_def)
  ultimately show ?thesis by (simp only: match_orphan_key_iff) (simp add: orphan_key_text_def orphan_upload_key_def)
qed

lemma validate_intent_wp:
  "wp (validate_intent T actor kind content_type size_bytes sha256)
     (\<lambda>_ w'. w' = w \<and> upload_allowed actor kind \<and> kind_to_purpose kind \<noteq> None
        \<and> content_type \<in> set upload_content_types
        \<and> size_in_bounds (lim_max_pdf_bytes (w_limits w)) size_bytes \<and> json_sha256 sha256)
     (\<lambda>_ w'. w_store w' = w_store w \<and> (w_db w' = w_db w
        \<or> audited (denied_event actor ''upload.intent.denied'') (w_db w) (w_db w'))) w"
  unfolding validate_intent_def
  by (intro wp_intros wp_mono [OF authorize_upload_wp] wp_mono [OF reject_wp]) auto

lemma insert_upload_wp:
  "wp (insert_upload evidence u)
     (\<lambda>_ w'. w' = w\<lparr>w_db := (w_db w)\<lparr>db_uploads := db_uploads (w_db w) @ [u]\<rparr>\<rparr> \<and> upload_ok (w_db w) u
        \<and> (has_deletion_evidence u \<longrightarrow> evidence))
     (\<lambda>_ w'. w' = w) w"
  unfolding insert_upload_def save_new_def upload_clean_def related_org_def
  by (intro wp_intros) auto

lemma wp_presign:
  assumes "\<And>x t. Q x t" "\<And>e t. E e t"
  shows "wp (so_presign_put storage k ct n h ttl) Q E st"
  using assms by (simp add: wp_def split: prod.splits sum.splits)

lemma create_upload_wp:
  "wp (create_upload T storage actor kind filename content_type size_bytes sha256)
     (\<lambda>i w'. upload_created actor kind content_type size_bytes sha256
        (lim_max_pdf_bytes (w_limits w)) (w_db w) (ui_record i) (w_db w'))
     (\<lambda>_ w'. w_db w' = w_db w
        \<or> audited (denied_event actor ''upload.intent.denied'') (w_db w) (w_db w')) w"
proof -
  let ?E = "\<lambda>(_::exn) (w'::'a world). w_db w' = w_db w
        \<or> audited (denied_event actor ''upload.intent.denied'') (w_db w) (w_db w')"
  have unavailable: "wp (case e of
          StorageUnavailable _ \<Rightarrow> reject T actor ''STORAGE_UNAVAILABLE'' ''upload.intent.denied'' kind
        | _ \<Rightarrow> raise e) Q ?E w'" if "w_db w' = w_db w"
    for e w' and Q :: "presigned_put \<Rightarrow> 'a world \<Rightarrow> bool"
    using that by (cases e) (auto simp: wp_simps intro!: wp_mono [OF reject_wp])
  show ?thesis
  proof (cases "kind_to_purpose kind \<noteq> None \<and> (\<exists>n. size_bytes = JInt n) \<and> (\<exists>h. sha256 = JStr h)")
    case False
    then show ?thesis
      unfolding create_upload_def
      by (intro wp_intros wp_mono [OF validate_intent_wp])
         (auto simp: size_in_bounds_def json_sha256_def split: json.splits)
  next
    case True
    then obtain purpose n h where args: "kind_to_purpose kind = Some purpose"
      "size_bytes = JInt n" "sha256 = JStr h" by blast
    show ?thesis
      unfolding create_upload_def args prod.case option.case json.case issue_upload_intent_def
      by (intro wp_intros wp_mono [OF validate_intent_wp] wp_presign
          unavailable wp_mono [OF insert_upload_wp] wp_mono [OF record_event_wp])
         (use args in \<open>auto simp: upload_created_def size_in_bounds_def json_sha256_def
            upload_key_shape has_deletion_evidence_def\<close>)
  qed
qed

section \<open>Cleaned file names\<close>

lemma strip_dots_fixed: "\<not> prefix ''.'' s \<Longrightarrow> strip_dots s = s"
  by (simp add: strip_dots.simps)

text \<open>A valid download name passes through every step of the cleaning unchanged.\<close>

lemma validate_download_filenameD:
  assumes "validate_download_filename f = Inr r"
  shows "r = f" "\<not> prefix ''.'' f" "py_strip f = f" "\<not> list_ex forbidden_filename_char f"
    "\<exists>stem ext. f = stem @ CHR ''.'' # ext \<and> CHR ''.'' \<notin> set ext \<and> stem \<noteq> []"
proof -
  from assms show "r = f" "\<not> prefix ''.'' f" "py_strip f = f" "\<not> list_ex forbidden_filename_char f"
    by (auto simp: validate_download_filename_def split: if_splits prod.splits)
  obtain stem sep ext where p: "rpartition (CHR ''.'') f = (stem, sep, ext)"
    by (cases "rpartition (CHR ''.'') f") auto
  with assms have sep: "sep" and stem: "stem \<noteq> []"
    by (auto simp: validate_download_filename_def split: if_splits prod.splits)
  then have "CHR ''.'' \<in> set f" using p by (auto simp: rpartition_def split: if_splits)
  from rpartition_found [OF this p] stem
  show "\<exists>stem ext. f = stem @ CHR ''.'' # ext \<and> CHR ''.'' \<notin> set ext \<and> stem \<noteq> []" by blast
qed

lemma forbidden_separators: "forbidden_filename_char (CHR 0x5C)" "forbidden_filename_char (CHR ''/'')"
  by (simp_all add: forbidden_filename_char_def Let_def)

lemma filter_id: "\<not> list_ex P s \<Longrightarrow> filter (\<lambda>c. \<not> P c) s = s"
  by (simp add: list_ex_iff filter_id_conv)

lemma separators_absent:
  assumes "\<not> list_ex forbidden_filename_char f"
  shows "py_replace_char (CHR 0x5C) (CHR ''/'') f = f" "CHR ''/'' \<notin> set f"
proof -
  from assms forbidden_separators have n: "CHR 0x5C \<notin> set f" and m: "CHR ''/'' \<notin> set f"
    by (auto simp: list_ex_iff)
  show "CHR ''/'' \<notin> set f" by (fact m)
  show "py_replace_char (CHR 0x5C) (CHR ''/'') f = f"
    unfolding py_replace_char_def using n by (induction f) auto
qed

text \<open>The length rule leaves alone a name whose stem is at most 120 characters.\<close>

lemma bound_name_short_stem:
  "CHR ''.'' \<notin> set ext \<Longrightarrow> length stem \<le> 120 \<Longrightarrow>
     bound_name (stem @ CHR ''.'' # ext) = stem @ CHR ''.'' # ext"
  by (simp add: bound_name_def rpartition_append)

lemma bound_name_stem:
  assumes "bound_name c = stem @ CHR ''.'' # ext" "CHR ''.'' \<notin> set ext"
  shows "length stem \<le> 120"
proof (cases "length c > 120")
  case False
  with assms have "length c = length stem + Suc (length ext)" by (simp add: bound_name_def)
  with False show ?thesis by simp
next
  case True
  show ?thesis
  proof (cases "CHR ''.'' \<in> set c")
    case dot: True
    obtain st sep ex where p: "rpartition (CHR ''.'') c = (st, sep, ex)"
      by (cases "rpartition (CHR ''.'') c") auto
    from rpartition_found [OF dot p] have sep: sep and ex: "CHR ''.'' \<notin> set ex" by auto
    from True p sep assms(1) have "take 120 st @ CHR ''.'' # ex = stem @ CHR ''.'' # ext"
      by (simp add: bound_name_def)
    then have "rpartition (CHR ''.'') (take 120 st @ CHR ''.'' # ex)
        = rpartition (CHR ''.'') (stem @ CHR ''.'' # ext)" by simp
    then have "take 120 st = stem" using ex assms(2) by (simp add: rpartition_append)
    then show ?thesis by auto
  next
    case False
    with True have "bound_name c = take 120 c"
      by (simp add: bound_name_def rpartition_def)
    with assms(1) False have "CHR ''.'' \<in> set (take 120 c)" by simp
    with False show ?thesis by (meson in_set_takeD)
  qed
qed

lemma safe_source_filename_bound:
  "safe_source_filename (JStr name) =
     (case validate_download_filename (bound_name (strip_dots (py_strip (filter (\<lambda>c. \<not> forbidden_filename_char c)
         (py_strip (rsplit_last (CHR ''/'') (py_replace_char (CHR 0x5C) (CHR ''/'') name))))))) of
        Inl _ \<Rightarrow> [] | Inr n \<Rightarrow> n)"
  by (simp add: safe_source_filename_def bound_name_def Let_def)

lemma safe_source_filename_cases:
  "safe_source_filename v = [] \<or> validate_download_filename (safe_source_filename v) = Inr (safe_source_filename v)"
proof (cases "safe_source_filename v = []")
  case False
  then obtain name where v: "v = JStr name" by (cases v) (auto simp: safe_source_filename_def)
  with False show ?thesis
    by (auto simp: safe_source_filename_bound split: sum.splits dest: validate_download_filenameD(1))
qed simp

lemma safe_source_filename_idem_lemma:
  "safe_source_filename (JStr (safe_source_filename v)) = safe_source_filename v"
proof (cases "safe_source_filename v = []")
  case True
  then show ?thesis
    by (simp add: safe_source_filename_bound py_replace_char_def rsplit_last_def py_strip_def
        strip_dots.simps bound_name_def validate_download_filename_def)
next
  case False
  then obtain name where v: "v = JStr name" by (cases v) (auto simp: safe_source_filename_def)
  define c where "c = strip_dots (py_strip (filter (\<lambda>c. \<not> forbidden_filename_char c)
      (py_strip (rsplit_last (CHR ''/'') (py_replace_char (CHR 0x5C) (CHR ''/'') name)))))"
  define r where "r = safe_source_filename v"
  have valid: "validate_download_filename r = Inr r"
    using safe_source_filename_cases [of v] False by (simp add: r_def)
  have rb: "r = bound_name c"
    using False v validate_download_filenameD(1)
    by (auto simp: r_def safe_source_filename_bound c_def split: sum.splits)
  note facts = validate_download_filenameD [OF valid]
  from facts(5) obtain stem ext where se: "r = stem @ CHR ''.'' # ext" "CHR ''.'' \<notin> set ext" by blast
  then have "length stem \<le> 120" using bound_name_stem rb by metis
  then have b: "bound_name r = r" using se bound_name_short_stem by simp
  have "safe_source_filename (JStr r) = r"
    using facts separators_absent [OF facts(4)] b valid
    by (simp add: safe_source_filename_bound rsplit_last_id filter_id strip_dots_fixed)
  then show ?thesis by (simp add: r_def)
qed

section \<open>Properties\<close>

text \<open>
  An intent is created for an allowed actor and kind only, within the configured size, under
  a fresh controlled key of the actor's organization, with one success event; a refusal writes
  nothing, or one denial.
\<close>

theorem upload_intent_created:
  "wp (create_upload T storage actor kind filename content_type size_bytes sha256)
     (\<lambda>i w'. upload_created actor kind content_type size_bytes sha256
        (lim_max_pdf_bytes (w_limits w)) (w_db w) (ui_record i) (w_db w'))
     (\<lambda>_ w'. w_db w' = w_db w
        \<or> audited (denied_event actor ''upload.intent.denied'') (w_db w) (w_db w')) w"
  by (rule create_upload_wp)

text \<open>
  C33. A completion that is refused leaves the database as it was but for exactly one safe denial
  event: the denial survives the rollback, nothing else does.
\<close>

theorem upload_refusal_audited:
  "wp (complete_upload T storage actor upload_id sha256) (\<lambda>_ _. True)
     (\<lambda>e w'. case e of
        UploadRejected code \<Rightarrow> audited (denied_event actor ''upload.complete.denied'') (w_db w) (w_db w')
      | _ \<Rightarrow> w_db w' = w_db w) w"
  by (rule complete_upload_refusal)

text \<open>
  Cleaning a file name is idempotent, and what it returns is empty or passes the check of a
  download file name: the names that are stored can be served.
\<close>

theorem safe_source_filename_idempotent:
  "safe_source_filename (JStr (safe_source_filename v)) = safe_source_filename v
   \<and> (safe_source_filename v = []
      \<or> validate_download_filename (safe_source_filename v) = Inr (safe_source_filename v))"
  using safe_source_filename_idem_lemma safe_source_filename_cases by blast

end
