(* ===== verification/Outbox.thy ===== *)
theory Outbox
  imports Uploads
begin

text \<open>
  \<open>services/api/splitbind/outbox\<close>: the message that asks a worker for a job (\<open>messages.py\<close>) and the
  transactional outbox row that carries it (\<open>services.py\<close>, \<open>models.py\<close>). The JSON schema validator
  is a parameter.
\<close>

section \<open>Libraries\<close>

text \<open>
  The functions of libraries that the handlers call: text libraries of the audit log, the schema
  validator applied to \<open>job-request-v1\<close>, \<open>uuid5\<close> in the URL namespace, the PEM loader.
\<close>

record libs =
  lb_text :: text_libs
  lb_job_schema :: "json \<Rightarrow> bool"
  lb_uuid5_url :: "string \<Rightarrow> uuid"
  lb_load_pem :: pem_loader

section \<open>Timestamps\<close>

text \<open>The proleptic Gregorian date of a day number counted from 1970-01-01.\<close>

definition civil_from_days :: "int \<Rightarrow> int \<times> int \<times> int" where
  "civil_from_days days =
     (let z = days + 719468;
          era = z div 146097;
          doe = z - era * 146097;
          yoe = (doe - doe div 1460 + doe div 36524 - doe div 146096) div 365;
          doy = doe - (365 * yoe + yoe div 4 - yoe div 100);
          mp = (5 * doy + 2) div 153;
          d = doy - (153 * mp + 2) div 5 + 1;
          m = (if mp < 10 then mp + 3 else mp - 9)
      in (yoe + era * 400 + (if m \<le> 2 then 1 else 0), m, d))"

definition zero_padded :: "nat \<Rightarrow> int \<Rightarrow> string" where
  "zero_padded width n = (let s = decimal (nat n) in replicate (width - length s) (CHR ''0'') @ s)"

text \<open>\<open>value.astimezone(utc).isoformat(timespec="microseconds").replace("+00:00", "Z")\<close>.\<close>

definition rfc3339_z :: "time \<Rightarrow> string" where
  "rfc3339_z t =
     (let us = t mod 86400000000; secs = us div 1000000 in
      case civil_from_days (t div 86400000000) of (y, m, d) \<Rightarrow>
        zero_padded 4 y @ ''-'' @ zero_padded 2 m @ ''-'' @ zero_padded 2 d @ ''T''
        @ zero_padded 2 (secs div 3600) @ '':'' @ zero_padded 2 (secs div 60 mod 60) @ '':''
        @ zero_padded 2 (secs mod 60) @ ''.'' @ zero_padded 6 (us mod 1000000) @ ''Z'')"

section \<open>The request\<close>

definition uuid_json :: "uuid option \<Rightarrow> json" where
  "uuid_json u = (case u of None \<Rightarrow> JNull | Some x \<Rightarrow> JStr (uuid_str x))"

definition job_request_payload :: "job \<Rightarrow> uuid \<Rightarrow> json \<Rightarrow> json \<Rightarrow> json" where
  "job_request_payload j message_id input_object_key input_sha256 = JObj [
     (''schema_version'', JInt 1),
     (''message_type'', JStr (kind_value (job_kind j) @ ''.requested'')),
     (''message_id'', JStr (uuid_str message_id)),
     (''job_id'', JStr (uuid_str (job_id j))),
     (''attempt'', JInt (job_attempt j)),
     (''issuance_id'', uuid_json (job_issuance_id j)),
     (''verification_id'', uuid_json (job_verification_id j)),
     (''input_object_key'', input_object_key),
     (''input_sha256'', input_sha256),
     (''deadline_at'', JStr (rfc3339_z (job_deadline_at j))),
     (''correlation_id'', JStr (uuid_str (job_correlation_id j)))]"

definition opt_json :: "string option \<Rightarrow> json" where
  "opt_json s = (case s of None \<Rightarrow> JNull | Some x \<Rightarrow> JStr x)"

definition build_job_request ::
  "libs \<Rightarrow> job \<Rightarrow> string \<Rightarrow> string option \<Rightarrow> ('st world, uuid \<times> json) prog" where
  "build_job_request L j input_object_key input_sha256 =
     chain uuid4 (\<lambda>message_id.
     let payload = job_request_payload j message_id (JStr input_object_key) (opt_json input_sha256) in
     chain (require (lb_job_schema L payload)
              (ValidationError ''job request does not satisfy the versioned schema'')) (\<lambda>_.
     ret (message_id, payload)))"

section \<open>The outbox\<close>

text \<open>Unique message, one event for each attempt of a job, attempts from 0 to 2.\<close>

definition outbox_ok :: "db \<Rightarrow> outbox_event \<Rightarrow> bool" where
  "outbox_ok d e \<longleftrightarrow> 0 \<le> obx_attempt e \<and> obx_attempt e \<le> 2 \<and>
     (\<forall>x\<in>set (db_outbox d). obx_id x = obx_id e \<or>
        obx_message_id x \<noteq> obx_message_id e
        \<and> \<not> (obx_job_id x = obx_job_id e \<and> obx_attempt x = obx_attempt e))"

definition outbox_clean :: "outbox_event \<Rightarrow> ('st world, unit) prog" where
  "outbox_clean e =
     chain (related_org jobs_t job_organization_id (Some (obx_job_id e))) (\<lambda>owner.
     validate_organization_relations (obx_organization_id e) [owner])"

text \<open>The \<open>BigAutoField\<close>: a number no row has had.\<close>

definition next_outbox_id :: "db \<Rightarrow> nat" where
  "next_outbox_id d = Suc (foldr max (map obx_id (db_outbox d)) 0)"

definition create_job_event ::
  "libs \<Rightarrow> job \<Rightarrow> string \<Rightarrow> string option \<Rightarrow> ('st world, outbox_event) prog" where
  "create_job_event L j input_object_key input_sha256 =
     chain (build_job_request L j input_object_key input_sha256) (\<lambda>(message_id, payload).
     chain now (\<lambda>created.
     chain (gets (\<lambda>w. next_outbox_id (w_db w))) (\<lambda>pk.
     let e = \<lparr>obx_id = pk, obx_organization_id = job_organization_id j,
              obx_message_id = message_id, obx_job_id = job_id j, obx_attempt = job_attempt j,
              obx_topic = kind_value (job_kind j) @ ''.requested'', obx_payload = payload,
              obx_created_at = created, obx_published_at = None\<rparr>
     in chain (save_new outbox_t outbox_ok outbox_clean e) (\<lambda>_. ret e))))"

text \<open>An event that carries exactly the request of its job.\<close>

definition event_carries :: "job \<Rightarrow> string \<Rightarrow> string option \<Rightarrow> outbox_event \<Rightarrow> bool" where
  "event_carries j input_object_key input_sha256 e \<longleftrightarrow>
     obx_organization_id e = job_organization_id j \<and> obx_job_id e = job_id j
     \<and> obx_attempt e = job_attempt j \<and> obx_published_at e = None
     \<and> obx_topic e = kind_value (job_kind j) @ ''.requested''
     \<and> obx_payload e = job_request_payload j (obx_message_id e) (JStr input_object_key)
         (opt_json input_sha256)"

lemma next_outbox_id_fresh: "x \<in> set (db_outbox d) \<Longrightarrow> obx_id x < next_outbox_id d"
proof -
  have "x \<in> set rows \<Longrightarrow> obx_id x \<le> foldr max (map obx_id rows) 0" for rows
    by (induction rows) auto
  then show "x \<in> set (db_outbox d) \<Longrightarrow> obx_id x < next_outbox_id d"
    by (simp add: next_outbox_id_def less_Suc_eq_le)
qed

lemma create_job_event_wp:
  "wp (create_job_event L j key sha)
     (\<lambda>e w'. w_db w' = (w_db w)\<lparr>db_outbox := db_outbox (w_db w) @ [e]\<rparr> \<and> w_store w' = w_store w
        \<and> event_carries j key sha e \<and> lb_job_schema L (obx_payload e) \<and> outbox_ok (w_db w) e)
     (\<lambda>_ w'. w_db w' = w_db w \<and> w_store w' = w_store w) w"
  unfolding create_job_event_def build_job_request_def save_new_def outbox_clean_def related_org_def
  by (intro wp_intros) (auto simp: event_carries_def)

section \<open>Comparing JSON values\<close>

text \<open>
  Python's \<open>==\<close> on decoded JSON: numbers and booleans by value, objects without regard to the
  order of their members.
\<close>

fun json_number :: "json \<Rightarrow> rat option" where
  "json_number (JBool b) = Some (if b then 1 else 0)"
| "json_number (JInt n) = Some (of_int n)"
| "json_number (JFloat q) = Some q"
| "json_number _ = None"

fun scalar_eq :: "json \<Rightarrow> json \<Rightarrow> bool" where
  "scalar_eq JNull JNull = True"
| "scalar_eq (JStr a) (JStr b) = (a = b)"
| "scalar_eq a b = (case (json_number a, json_number b) of (Some p, Some q) \<Rightarrow> p = q | _ \<Rightarrow> False)"

text \<open>Equality with an object of scalar members, which is all the program compares.\<close>

definition object_eq :: "json \<Rightarrow> (string \<times> json) list \<Rightarrow> bool" where
  "object_eq v expected = (case v of
     JObj kvs \<Rightarrow> length kvs = length expected \<and> list_all (\<lambda>(k, e).
       case map_of kvs k of None \<Rightarrow> False | Some x \<Rightarrow> scalar_eq x e) expected
   | _ \<Rightarrow> False)"

lemma scalar_eq_refl:
  "(case v of JList _ \<Rightarrow> False | JObj _ \<Rightarrow> False | _ \<Rightarrow> True) \<Longrightarrow> scalar_eq v v"
  by (cases v) auto

section \<open>Properties\<close>

text \<open>
  A job event that is created carries exactly the request of its job, validates against the
  schema and is appended to the outbox as unpublished; otherwise nothing is written.
\<close>

theorem job_event_carries_request:
  "wp (create_job_event L j key sha)
     (\<lambda>e w'. w_db w' = (w_db w)\<lparr>db_outbox := db_outbox (w_db w) @ [e]\<rparr>
        \<and> event_carries j key sha e \<and> lb_job_schema L (obx_payload e) \<and> outbox_ok (w_db w) e)
     (\<lambda>_ w'. w_db w' = w_db w) w"
  by (rule wp_mono [OF create_job_event_wp]) auto

end
