(* ===== verification/Documents.thy ===== *)
theory Documents
  imports Outbox
begin

text \<open>
  \<open>documents/models.py\<close>: documents, issuances with their write-once output tombstone, immutable
  manifests, verifications; and the scoped reads of \<open>documents/services.py\<close>.
\<close>

section \<open>Documents\<close>

definition document_ok :: "db \<Rightarrow> document \<Rightarrow> bool" where
  "document_ok d x \<longleftrightarrow>
     (\<forall>y\<in>set (db_documents d). doc_id y = doc_id x \<or>
        doc_upload_request_id y \<noteq> doc_upload_request_id x
        \<and> doc_source_object_key y \<noteq> doc_source_object_key x)
     \<and> sha256_text (doc_expected_source_sha256 x)
     \<and> (case doc_page_count x of None \<Rightarrow> True | Some n \<Rightarrow> 1 \<le> n \<and> n \<le> 50)"

definition document_clean :: "document \<Rightarrow> ('st world, unit) prog" where
  "document_clean x =
     chain (related_org users_t usr_organization_id (Some (doc_created_by_id x))) (\<lambda>a.
     chain (related_org uploads_t upl_organization_id (Some (doc_upload_request_id x))) (\<lambda>b.
     validate_organization_relations (doc_organization_id x) [a, b]))"

text \<open>\<open>document.save(update_fields=["page_count"])\<close>.\<close>

definition save_document_page_count :: "document \<Rightarrow> ('st world, unit) prog" where
  "save_document_page_count x = save_stored documents_t document_ok doc_organization_id document_clean x
     (\<lambda>row. row\<lparr>doc_page_count := doc_page_count x\<rparr>)"

section \<open>Issuances\<close>

definition issuance_ok :: "db \<Rightarrow> issuance \<Rightarrow> bool" where
  "issuance_ok d i \<longleftrightarrow>
     (\<forall>x\<in>set (db_issuances d). iss_id x = iss_id i \<or> iss_output_object_key i = None
        \<or> iss_output_object_key x \<noteq> iss_output_object_key i)
     \<and> (case iss_output_sha256 i of None \<Rightarrow> True | Some h \<Rightarrow> sha256_text h)"

definition issuance_clean :: "issuance \<Rightarrow> ('st world, unit) prog" where
  "issuance_clean i =
     chain (related_org documents_t doc_organization_id (Some (iss_document_id i))) (\<lambda>a.
     chain (related_org recipients_t rcp_organization_id (Some (iss_recipient_id i))) (\<lambda>b.
     chain (related_org users_t usr_organization_id (Some (iss_created_by_id i))) (\<lambda>c.
     validate_organization_relations (iss_organization_id i) [a, b, c])))"

datatype issuance_field = IOutputObjectKey | IOutputSha256 | IOutputDeletedAt

definition merge_issuance :: "issuance_field list \<Rightarrow> issuance \<Rightarrow> issuance \<Rightarrow> issuance" where
  "merge_issuance fs new old = old\<lparr>
     iss_output_object_key := if IOutputObjectKey \<in> set fs then iss_output_object_key new
       else iss_output_object_key old,
     iss_output_sha256 := if IOutputSha256 \<in> set fs then iss_output_sha256 new
       else iss_output_sha256 old,
     iss_output_deleted_at := if IOutputDeletedAt \<in> set fs then iss_output_deleted_at new
       else iss_output_deleted_at old\<rparr>"

text \<open>\<open>Issuance.save\<close>, adding and stored.\<close>

definition insert_issuance :: "bool \<Rightarrow> issuance \<Rightarrow> ('st world, unit) prog" where
  "insert_issuance evidence i =
     chain (require (iss_output_deleted_at i = None \<or> evidence)
              (ValidationError ''deletion evidence requires the retention service'')) (\<lambda>_.
     save_new issuances_t issuance_ok issuance_clean i)"

definition save_issuance :: "bool \<Rightarrow> issuance_field list \<Rightarrow> issuance \<Rightarrow> ('st world, unit) prog" where
  "save_issuance evidence fs i =
     chain (if IOutputDeletedAt \<in> set fs then
              chain (get_row issuances_t (iss_id i)) (\<lambda>p.
              if iss_output_deleted_at i \<noteq> iss_output_deleted_at p then
                chain (require evidence
                         (ValidationError ''deletion evidence requires the retention service'')) (\<lambda>_.
                require (\<not> (iss_output_deleted_at p \<noteq> None \<or> iss_output_deleted_at i = None))
                  (ValidationError ''deletion evidence is monotonic''))
              else ret ())
            else ret ()) (\<lambda>_.
     save_stored issuances_t issuance_ok iss_organization_id issuance_clean i (merge_issuance fs i))"

section \<open>Manifests\<close>

definition manifest_ok :: "db \<Rightarrow> manifest \<Rightarrow> bool" where
  "manifest_ok d m \<longleftrightarrow>
     (\<forall>x\<in>set (db_manifests d). man_id x = man_id m \<or> man_issuance_id x \<noteq> man_issuance_id m)"

definition manifest_clean :: "manifest \<Rightarrow> ('st world, unit) prog" where
  "manifest_clean m =
     chain (related_org issuances_t iss_organization_id (Some (man_issuance_id m))) (\<lambda>a.
     chain (related_org keys_t key_organization_id (Some (man_signing_key_id m))) (\<lambda>b.
     validate_organization_relations (man_organization_id m) [a, b]))"

text \<open>\<open>Manifest.save\<close>: only the insertion of a new manifest is possible.\<close>

definition save_manifest :: "bool \<Rightarrow> manifest \<Rightarrow> ('st world, unit) prog" where
  "save_manifest adding m =
     chain (require adding (ValidationError ''manifest evidence is immutable'')) (\<lambda>_.
     save_new manifests_t manifest_ok manifest_clean m)"

section \<open>Verifications\<close>

definition verification_ok :: "db \<Rightarrow> verification \<Rightarrow> bool" where
  "verification_ok d v \<longleftrightarrow>
     (\<forall>x\<in>set (db_verifications d). ver_id x = ver_id v
        \<or> ver_upload_request_id x \<noteq> ver_upload_request_id v)"

definition verification_clean :: "verification \<Rightarrow> ('st world, unit) prog" where
  "verification_clean v =
     chain (related_org uploads_t upl_organization_id (Some (ver_upload_request_id v))) (\<lambda>a.
     chain (related_org users_t usr_organization_id (Some (ver_requested_by_id v))) (\<lambda>b.
     chain (related_org issuances_t iss_organization_id (ver_recovered_issuance_id v)) (\<lambda>c.
     validate_organization_relations (ver_organization_id v) [a, b, c])))"

datatype verification_field = VStatus | VEvidence | VMetrics | VRecoveredIssuance | VCompletedAt

definition merge_verification :: "verification_field list \<Rightarrow> verification \<Rightarrow> verification \<Rightarrow> verification" where
  "merge_verification fs new old = old\<lparr>
     ver_status := if VStatus \<in> set fs then ver_status new else ver_status old,
     ver_evidence := if VEvidence \<in> set fs then ver_evidence new else ver_evidence old,
     ver_metrics := if VMetrics \<in> set fs then ver_metrics new else ver_metrics old,
     ver_recovered_issuance_id := if VRecoveredIssuance \<in> set fs then ver_recovered_issuance_id new
       else ver_recovered_issuance_id old,
     ver_completed_at := if VCompletedAt \<in> set fs then ver_completed_at new else ver_completed_at old\<rparr>"

definition save_verification :: "verification_field list \<Rightarrow> verification \<Rightarrow> ('st world, unit) prog" where
  "save_verification fs v =
     save_stored verifications_t verification_ok ver_organization_id verification_clean v
       (merge_verification fs v)"

section \<open>Scoped reads\<close>

definition get_issuance :: "user \<Rightarrow> uuid \<Rightarrow> ('st world, issuance) prog" where
  "get_issuance actor k =
     attempt (get_where issuances_t (\<lambda>i. scope_issuances actor i \<and> iss_id i = k)) (\<lambda>e. case e of
       DoesNotExist _ \<Rightarrow> raise (WorkflowNotFound ''WORKFLOW_NOT_FOUND'') | _ \<Rightarrow> raise e)"

definition get_verification :: "user \<Rightarrow> uuid \<Rightarrow> ('st world, verification) prog" where
  "get_verification actor k =
     attempt (get_where verifications_t (\<lambda>v. scope_verifications actor v \<and> ver_id v = k)) (\<lambda>e. case e of
       DoesNotExist _ \<Rightarrow> raise (WorkflowNotFound ''WORKFLOW_NOT_FOUND'') | _ \<Rightarrow> raise e)"

section \<open>How an issuance row may change\<close>

definition issuance_evolves :: "issuance \<Rightarrow> issuance \<Rightarrow> bool" where
  "issuance_evolves a b \<longleftrightarrow> iss_id b = iss_id a \<and> iss_organization_id b = iss_organization_id a
     \<and> iss_document_id b = iss_document_id a \<and> iss_recipient_id b = iss_recipient_id a
     \<and> iss_created_by_id b = iss_created_by_id a \<and> iss_issued_at b = iss_issued_at a
     \<and> set_once (iss_output_object_key a) (iss_output_object_key b)
     \<and> set_once (iss_output_sha256 a) (iss_output_sha256 b)
     \<and> set_once (iss_output_deleted_at a) (iss_output_deleted_at b)"

lemma issuance_evolves_refl [simp]: "issuance_evolves i i"
  by (simp add: issuance_evolves_def)

lemma issuance_evolves_trans: "issuance_evolves a b \<Longrightarrow> issuance_evolves b c \<Longrightarrow> issuance_evolves a c"
  unfolding issuance_evolves_def by (auto intro: set_once_trans)

lemma iss_id_merge [simp]: "iss_id (merge_issuance fs i p) = iss_id p"
  by (simp add: merge_issuance_def)

lemma wp_issuance_clean_weaken: "(\<And>e. E e w) \<Longrightarrow> Q () w \<Longrightarrow> wp (issuance_clean i) Q E w"
  unfolding issuance_clean_def related_org_def by (intro wp_intros) auto

lemma wp_document_clean_weaken: "(\<And>e. E e w) \<Longrightarrow> Q () w \<Longrightarrow> wp (document_clean x) Q E w"
  unfolding document_clean_def related_org_def by (intro wp_intros) auto

lemma wp_manifest_clean_weaken: "(\<And>e. E e w) \<Longrightarrow> Q () w \<Longrightarrow> wp (manifest_clean m) Q E w"
  unfolding manifest_clean_def related_org_def by (intro wp_intros) auto

lemma wp_verification_clean_weaken: "(\<And>e. E e w) \<Longrightarrow> Q () w \<Longrightarrow> wp (verification_clean v) Q E w"
  unfolding verification_clean_def related_org_def by (intro wp_intros) auto

definition only_issuances_evolve :: "db \<Rightarrow> db \<Rightarrow> bool" where
  "only_issuances_evolve d d' \<longleftrightarrow> (\<exists>rs. d' = d\<lparr>db_issuances := rs\<rparr>
     \<and> rows_evolve iss_id issuance_evolves (db_issuances d) rs)"

text \<open>
  Saving an issuance evolves its row: the tombstone by the check of \<open>save\<close> itself, the two output
  columns when the caller writes them only where they are null.
\<close>

lemma save_issuance_wp:
  assumes written: "\<And>p. lookup_by iss_id (iss_id i) (db_issuances (w_db w)) = Some p \<Longrightarrow>
      (IOutputObjectKey \<in> set fs \<longrightarrow> set_once (iss_output_object_key p) (iss_output_object_key i))
      \<and> (IOutputSha256 \<in> set fs \<longrightarrow> set_once (iss_output_sha256 p) (iss_output_sha256 i))"
  shows "wp (save_issuance evidence fs i)
     (\<lambda>_ w'. w' = w\<lparr>w_db := (w_db w)\<lparr>db_issuances :=
          update_by iss_id (iss_id i) (merge_issuance fs i) (db_issuances (w_db w))\<rparr>\<rparr>
        \<and> only_issuances_evolve (w_db w) (w_db w')
        \<and> (\<exists>p. lookup_by iss_id (iss_id i) (db_issuances (w_db w)) = Some p
             \<and> issuance_ok (w_db w) (merge_issuance fs i p)))
     (\<lambda>_ w'. w' = w) w"
proof (cases "lookup_by iss_id (iss_id i) (db_issuances (w_db w))")
  case None
  then show ?thesis
    unfolding save_issuance_def save_stored_def
    by (intro wp_intros) (auto simp: wp_simps)
next
  case (Some p)
  have ev: "rows_evolve iss_id issuance_evolves (db_issuances (w_db w))
      (update_by iss_id (iss_id i) (merge_issuance fs i) (db_issuances (w_db w)))"
    if "IOutputDeletedAt \<in> set fs \<longrightarrow> set_once (iss_output_deleted_at p) (iss_output_deleted_at i)"
    by (rule rows_evolve_update)
       (use written that Some in \<open>auto simp: issuance_evolves_def merge_issuance_def\<close>)
  show ?thesis
    unfolding save_issuance_def save_stored_wp wp_chain only_issuances_evolve_def
    by (intro wp_intros)
       (use Some ev in \<open>auto simp: wp_simps save_stored_wp set_once_def
          intro!: wp_issuance_clean_weaken\<close>)
qed

end
