(* ===== verification/DemoModels.thy ===== *)
theory DemoModels
  imports Documents
begin

text \<open>
  \<open>demo/models.py\<close>: the durable evidence of a processed job. \<open>DemoIssuanceResult\<close> owns one output
  object through the states reserved, uploading, committed, cleanup required, cleaned;
  \<open>DemoVerificationResult\<close> goes once from reserved to one of three final states. Both are written
  only by their service, and checked by \<open>clean()\<close>, by \<open>save()\<close> against the stored row, and by the
  constraints of the table.
\<close>

section \<open>Constants\<close>

definition demo_algorithm_label :: string where
  "demo_algorithm_label = ''experimental_unreleased_fingerprint_v2''"

definition demo_canonical_canvas :: "int \<times> int" where
  "demo_canonical_canvas = (2304, 1152)"

definition demo_max_committed_pages :: int where
  "demo_max_committed_pages = 50"

definition demo_frozen_candidate_identifier :: string where
  "demo_frozen_candidate_identifier =
     ''5342463201e7490f80b69ef1a3289afce40ef02989c9a4d89f00b916055cbf1c4''
     @ ''c83a97b88000000024040000000000000400000000000000000000180000000120''
     @ ''000000300000003''"

definition demo_legacy_candidate_identifier :: string where
  "demo_legacy_candidate_identifier =
     ''5342463201e7490f80b69ef1a3289afce40ef02989c9a4d89f00b916055cbf1c4''
     @ ''c83a97b880000000240380000000000003ff8000000000000000001800000001200''
     @ ''00000300000003''"

definition demo_accepted_candidate_identifiers :: "string list" where
  "demo_accepted_candidate_identifiers =
     [demo_frozen_candidate_identifier, demo_legacy_candidate_identifier]"

definition demo_limitations :: "string list" where
  "demo_limitations = [''fingerprint.experimental_unreleased_v2'', ''fingerprint.not_gate_g1_evidence'',
     ''evidence.not_proof_of_leak_edit_or_distribution'']"

definition demo_verification_limitations :: "string list" where
  "demo_verification_limitations = demo_limitations @ [''integrity.not_evaluated'']"

definition demo_stale_recovery_fence_code :: string where
  "demo_stale_recovery_fence_code = ''DEMO_STALE_RECOVERY_FENCED''"

definition evidence_keys :: "string list" where
  "evidence_keys = [''algorithm_label'', ''decode_status'', ''fingerprint_confidence'',
     ''valid_vote_count'', ''analyzed_page_count'', ''manifest_signature_valid'',
     ''exact_file_hash_match'', ''limitations'']"

definition metric_keys :: "string list" where
  "metric_keys = [''processing_ms'', ''pages_processed'', ''cleanup_failures'']"

definition demo_decode_statuses :: "string list" where
  "demo_decode_statuses = [''decoded'', ''partial_payload_evidence'', ''payload_not_detected'',
     ''insufficient_sync_evidence'', ''geometry_rejected'']"

definition demo_allowed_limitations :: "string list" where
  "demo_allowed_limitations = demo_verification_limitations @
     [''evidence.exact_hash_ambiguous'', ''evidence.retained_issuance_invalid'',
      ''fingerprint.decoded_source_not_available'', ''fingerprint.no_watermark_not_exclusion'',
      ''fingerprint.partial_payload_evidence'', ''manifest.signed_evidence_unavailable'']"

section \<open>DemoIssuanceResult\<close>

definition output_key_for :: "uuid \<Rightarrow> uuid \<Rightarrow> string \<Rightarrow> string" where
  "output_key_for org issuance_id extension =
     ''outputs/issuance/'' @ uuid_str org @ ''/'' @ uuid_str issuance_id @ ''.'' @ extension"

definition success_values_missing :: "demo_issuance_result \<Rightarrow> bool" where
  "success_values_missing r \<longleftrightarrow> dir_algorithm_label r = None \<or> dir_candidate_identifier r = None
     \<or> dir_canvas_height r = None \<or> dir_canvas_width r = None \<or> dir_input_sha256 r = None
     \<or> dir_output_sha256 r = None \<or> dir_page_count r = None \<or> dir_processing_ms r = None"

definition success_values_present :: "demo_issuance_result \<Rightarrow> bool" where
  "success_values_present r \<longleftrightarrow> dir_algorithm_label r \<noteq> None \<or> dir_candidate_identifier r \<noteq> None
     \<or> dir_canvas_height r \<noteq> None \<or> dir_canvas_width r \<noteq> None \<or> dir_input_sha256 r \<noteq> None
     \<or> dir_output_sha256 r \<noteq> None \<or> dir_page_count r \<noteq> None \<or> dir_processing_ms r \<noteq> None"

definition committed_values_ok :: "demo_issuance_result \<Rightarrow> bool" where
  "committed_values_ok r \<longleftrightarrow> dir_algorithm_label r = Some demo_algorithm_label
     \<and> (case dir_candidate_identifier r of None \<Rightarrow> False
        | Some c \<Rightarrow> c \<in> set demo_accepted_candidate_identifiers)
     \<and> dir_canvas_height r = Some (fst demo_canonical_canvas)
     \<and> dir_canvas_width r = Some (snd demo_canonical_canvas)
     \<and> dir_limitations r = demo_limitations
     \<and> dir_cleanup_failures r = 0 \<and> dir_safe_error_code r = None"

text \<open>\<open>clean()\<close> after the tenant check, given the related job.\<close>

definition dir_check :: "job \<Rightarrow> demo_issuance_result \<Rightarrow> exn + unit" where
  "dir_check j r =
     (if job_kind j \<noteq> KindIssuance \<or> job_issuance_id j \<noteq> Some (dir_issuance_id r)
         \<or> job_attempt j \<noteq> dir_attempt r
      then Inl (ValidationError ''demo result must bind its issuance job'')
      else if dir_output_object_key r \<notin> {output_key_for (dir_organization_id r) (dir_issuance_id r) ''pdf'',
           output_key_for (dir_organization_id r) (dir_issuance_id r) ''png''}
      then Inl (ValidationError ''demo result output key does not match its owner'')
      else if match_issuance_output_key (dir_output_object_key r) = None
      then Inl (ValidationError ''demo result output key is invalid'')
      else if dir_output_state r = OutCommitted \<and> success_values_missing r
      then Inl (ValidationError ''committed demo result evidence is incomplete'')
      else if dir_output_state r = OutCommitted \<and> \<not> committed_values_ok r
      then Inl (ValidationError ''committed demo result evidence is invalid'')
      else if dir_output_state r \<noteq> OutCommitted \<and> (success_values_present r \<or> dir_limitations r \<noteq> [])
      then Inl (ValidationError ''uncommitted demo result cannot claim success evidence'')
      else if dir_output_state r = OutCleanupRequired
         \<and> (dir_safe_error_code r = None
            \<or> (dir_safe_error_code r \<noteq> Some demo_stale_recovery_fence_code \<and> dir_cleanup_failures r < 1))
      then Inl (ValidationError ''cleanup-required demo result needs durable failure evidence'')
      else Inr ())"

definition dir_clean :: "demo_issuance_result \<Rightarrow> ('st world, unit) prog" where
  "dir_clean r =
     chain (get_row jobs_t (dir_job_id r)) (\<lambda>j.
     chain (related_org issuances_t iss_organization_id (Some (dir_issuance_id r))) (\<lambda>b.
     chain (validate_organization_relations (dir_organization_id r) [Some (job_organization_id j), b]) (\<lambda>_.
     lift_sum (dir_check j r))))"

text \<open>Uniqueness and the check constraints of the table.\<close>

definition dir_committed_complete :: "demo_issuance_result \<Rightarrow> bool" where
  "dir_committed_complete r \<longleftrightarrow> dir_output_state r \<noteq> OutCommitted
     \<or> (committed_values_ok r \<and> dir_input_sha256 r \<noteq> None \<and> dir_output_sha256 r \<noteq> None
        \<and> (case dir_page_count r of None \<Rightarrow> False | Some n \<Rightarrow> 1 \<le> n \<and> n \<le> demo_max_committed_pages)
        \<and> dir_processing_ms r \<noteq> None)"

definition opt_sha_ok :: "string option \<Rightarrow> bool" where
  "opt_sha_ok h = (case h of None \<Rightarrow> True | Some s \<Rightarrow> sha256_text s)"

definition dir_ok :: "db \<Rightarrow> demo_issuance_result \<Rightarrow> bool" where
  "dir_ok d r \<longleftrightarrow>
     (\<forall>x\<in>set (db_issuance_results d). dir_job_id x = dir_job_id r \<or>
        dir_issuance_id x \<noteq> dir_issuance_id r \<and> dir_owner_token x \<noteq> dir_owner_token r
        \<and> dir_output_object_key x \<noteq> dir_output_object_key r)
     \<and> 0 \<le> dir_attempt r \<and> dir_attempt r \<le> 2 \<and> 0 \<le> dir_cleanup_failures r
     \<and> opt_sha_ok (dir_input_sha256 r) \<and> opt_sha_ok (dir_output_sha256 r)
     \<and> dir_committed_complete r"

datatype dir_field = DOwnerToken | DOutputState | DAlgorithmLabel | DCandidateIdentifier
  | DCanvasHeight | DCanvasWidth | DInputSha256 | DOutputSha256 | DPageCount | DProcessingMs
  | DLimitations | DCleanupFailures | DSafeErrorCode | DUpdatedAt

definition merge_dir :: "dir_field list \<Rightarrow> demo_issuance_result \<Rightarrow> demo_issuance_result \<Rightarrow> demo_issuance_result" where
  "merge_dir fs new old = old\<lparr>
     dir_owner_token := if DOwnerToken \<in> set fs then dir_owner_token new else dir_owner_token old,
     dir_output_state := if DOutputState \<in> set fs then dir_output_state new else dir_output_state old,
     dir_algorithm_label := if DAlgorithmLabel \<in> set fs then dir_algorithm_label new else dir_algorithm_label old,
     dir_candidate_identifier := if DCandidateIdentifier \<in> set fs then dir_candidate_identifier new
       else dir_candidate_identifier old,
     dir_canvas_height := if DCanvasHeight \<in> set fs then dir_canvas_height new else dir_canvas_height old,
     dir_canvas_width := if DCanvasWidth \<in> set fs then dir_canvas_width new else dir_canvas_width old,
     dir_input_sha256 := if DInputSha256 \<in> set fs then dir_input_sha256 new else dir_input_sha256 old,
     dir_output_sha256 := if DOutputSha256 \<in> set fs then dir_output_sha256 new else dir_output_sha256 old,
     dir_page_count := if DPageCount \<in> set fs then dir_page_count new else dir_page_count old,
     dir_processing_ms := if DProcessingMs \<in> set fs then dir_processing_ms new else dir_processing_ms old,
     dir_limitations := if DLimitations \<in> set fs then dir_limitations new else dir_limitations old,
     dir_cleanup_failures := if DCleanupFailures \<in> set fs then dir_cleanup_failures new
       else dir_cleanup_failures old,
     dir_safe_error_code := if DSafeErrorCode \<in> set fs then dir_safe_error_code new
       else dir_safe_error_code old,
     dir_updated_at := if DUpdatedAt \<in> set fs then dir_updated_at new else dir_updated_at old\<rparr>"

fun output_transitions :: "output_state \<Rightarrow> output_state list" where
  "output_transitions OutReserved = [OutUploading, OutCleaned]"
| "output_transitions OutUploading = [OutCommitted, OutCleanupRequired, OutCleaned]"
| "output_transitions OutCleanupRequired = [OutCleanupRequired, OutCleaned]"
| "output_transitions OutCleaned = [OutCleaned]"
| "output_transitions OutCommitted = []"

definition dir_identity_same :: "demo_issuance_result \<Rightarrow> demo_issuance_result \<Rightarrow> bool" where
  "dir_identity_same r p \<longleftrightarrow> dir_organization_id r = dir_organization_id p
     \<and> dir_job_id r = dir_job_id p \<and> dir_issuance_id r = dir_issuance_id p
     \<and> dir_attempt r = dir_attempt p \<and> dir_output_object_key r = dir_output_object_key p
     \<and> dir_created_at r = dir_created_at p"

text \<open>
  \<open>save()\<close>. \<open>write\<close> and \<open>transfer\<close> are the context variables \<open>_demo_result_write\<close> and
  \<open>_demo_result_recovery_transfer\<close>; the owner token alone may change, in a recovery transfer.
\<close>

definition dir_identity_ok :: "bool \<Rightarrow> demo_issuance_result \<Rightarrow> demo_issuance_result \<Rightarrow> bool" where
  "dir_identity_ok transfer r p \<longleftrightarrow>
     dir_identity_same r p \<and> (dir_owner_token r = dir_owner_token p
       \<or> transfer \<and> dir_output_state p \<in> {OutUploading, OutCleanupRequired}
          \<and> dir_output_state r = OutCleanupRequired)"

definition dir_save_check :: "bool \<Rightarrow> demo_issuance_result \<Rightarrow> demo_issuance_result \<Rightarrow> exn + unit" where
  "dir_save_check transfer r p =
     (if \<not> dir_identity_ok transfer r p
      then Inl (ValidationError ''demo issuance result ownership is immutable'')
      else if dir_output_state p = OutCommitted
      then Inl (ValidationError ''committed demo issuance result evidence is immutable'')
      else if dir_output_state r \<notin> set (output_transitions (dir_output_state p))
      then Inl (ValidationError ''demo issuance result state transition is invalid'')
      else Inr ())"

definition insert_dir :: "bool \<Rightarrow> demo_issuance_result \<Rightarrow> ('st world, unit) prog" where
  "insert_dir write r =
     chain (require write (ValidationError ''demo issuance result evidence is immutable'')) (\<lambda>_.
     save_new issuance_results_t dir_ok dir_clean r)"

definition save_dir ::
  "bool \<Rightarrow> bool \<Rightarrow> dir_field list \<Rightarrow> demo_issuance_result \<Rightarrow> ('st world, demo_issuance_result) prog" where
  "save_dir write transfer fs r =
     chain (require write (ValidationError ''demo issuance result evidence is immutable'')) (\<lambda>_.
     chain (get_row issuance_results_t (dir_job_id r)) (\<lambda>p.
     chain (lift_sum (dir_save_check transfer r p)) (\<lambda>_.
     chain (if DUpdatedAt \<in> set fs then chain now (\<lambda>t. ret (r\<lparr>dir_updated_at := t\<rparr>)) else ret r) (\<lambda>r'.
     chain (save_stored issuance_results_t dir_ok dir_organization_id dir_clean r' (merge_dir fs r')) (\<lambda>_.
     ret r')))))"

definition new_dir :: "uuid \<Rightarrow> uuid \<Rightarrow> uuid \<Rightarrow> int \<Rightarrow> uuid \<Rightarrow> string \<Rightarrow> time \<Rightarrow> time
     \<Rightarrow> demo_issuance_result" where
  "new_dir org job_pk issuance_pk attempt_no owner_token key t u =
     \<lparr>dir_job_id = job_pk, dir_organization_id = org, dir_issuance_id = issuance_pk,
      dir_attempt = attempt_no, dir_owner_token = owner_token, dir_output_object_key = key,
      dir_output_state = OutReserved, dir_algorithm_label = None, dir_candidate_identifier = None,
      dir_canvas_height = None, dir_canvas_width = None, dir_input_sha256 = None,
      dir_output_sha256 = None, dir_page_count = None, dir_processing_ms = None,
      dir_limitations = [], dir_cleanup_failures = 0, dir_safe_error_code = None,
      dir_created_at = t, dir_updated_at = u\<rparr>"

text \<open>
  \<open>full_clean()\<close>: the field validators (\<open>page_count\<close> between 1 and 5), then \<open>clean()\<close>, uniqueness
  and constraints.
\<close>

definition hex_146 :: "string \<Rightarrow> bool" where
  "hex_146 s \<longleftrightarrow> length s = 146 \<and> list_all hex_char s"

definition dir_fields_ok :: "demo_issuance_result \<Rightarrow> bool" where
  "dir_fields_ok r \<longleftrightarrow> 0 \<le> dir_attempt r \<and> dir_attempt r \<le> 2
     \<and> dir_output_object_key r \<noteq> [] \<and> length (dir_output_object_key r) \<le> 1024
     \<and> (case dir_algorithm_label r of None \<Rightarrow> True | Some s \<Rightarrow> length s \<le> 64)
     \<and> (case dir_candidate_identifier r of None \<Rightarrow> True | Some s \<Rightarrow> hex_146 s)
     \<and> opt_sha_ok (dir_input_sha256 r) \<and> opt_sha_ok (dir_output_sha256 r)
     \<and> (case dir_page_count r of None \<Rightarrow> True | Some n \<Rightarrow> 1 \<le> n \<and> n \<le> 5)
     \<and> 0 \<le> dir_cleanup_failures r
     \<and> (case dir_safe_error_code r of None \<Rightarrow> True | Some s \<Rightarrow> length s \<le> 80)"

definition dir_full_clean :: "demo_issuance_result \<Rightarrow> ('st world, unit) prog" where
  "dir_full_clean r =
     chain (dir_clean r) (\<lambda>_.
     chain (gets w_db) (\<lambda>d.
     require (dir_fields_ok r \<and> dir_ok d r) (ValidationError ''full_clean'')))"

section \<open>DemoVerificationResult\<close>

text \<open>Membership of a dictionary value in a set of strings; an unhashable value raises.\<close>

definition hashable :: "json \<Rightarrow> bool" where
  "hashable v = (case v of JList _ \<Rightarrow> False | JObj _ \<Rightarrow> False | _ \<Rightarrow> True)"

definition in_strings :: "json \<Rightarrow> string list \<Rightarrow> bool" where
  "in_strings v ss = (case v of JStr s \<Rightarrow> s \<in> set ss | _ \<Rightarrow> False)"

definition unit_interval :: "json \<Rightarrow> bool" where
  "unit_interval v = (case v of JInt n \<Rightarrow> 0 \<le> n \<and> n \<le> 1 | JFloat q \<Rightarrow> 0 \<le> q \<and> q \<le> 1 | _ \<Rightarrow> False)"

definition nonneg_int :: "json \<Rightarrow> bool" where
  "nonneg_int v = (case v of JInt n \<Rightarrow> 0 \<le> n | _ \<Rightarrow> False)"

definition page_count_ok :: "json \<Rightarrow> bool" where
  "page_count_ok v = (case v of JInt n \<Rightarrow> 1 \<le> n \<and> n \<le> 5 | _ \<Rightarrow> False)"

definition is_json_bool :: "json \<Rightarrow> bool" where
  "is_json_bool v = (case v of JBool _ \<Rightarrow> True | _ \<Rightarrow> False)"

text \<open>\<open>value in (True, False, None)\<close> compares with \<open>==\<close>, so it also holds of 0 and 1.\<close>

definition bool_or_none :: "json \<Rightarrow> bool" where
  "bool_or_none v \<longleftrightarrow> scalar_eq v (JBool True) \<or> scalar_eq v (JBool False) \<or> v = JNull"

definition limitations_ok :: "json list \<Rightarrow> bool" where
  "limitations_ok xs \<longleftrightarrow>
     take (length demo_verification_limitations) xs = map JStr demo_verification_limitations
     \<and> distinct xs \<and> list_all (\<lambda>v. in_strings v demo_allowed_limitations) xs"

text \<open>The shape of committed evidence, in the order in which the source tests it.\<close>

definition committed_evidence_check :: "(string \<times> json) list \<Rightarrow> (string \<times> json) list \<Rightarrow> exn + unit" where
  "committed_evidence_check ev me =
     (let invalid = ValidationError ''committed demo verification evidence shape is invalid''; g = (\<lambda>k. jget k ev) in
      if set (map fst ev) \<noteq> set evidence_keys \<or> set (map fst me) \<noteq> set metric_keys then Inl invalid
      else if \<not> hashable (g ''decode_status'') then Inl (TypeError ''unhashable type'')
      else if \<not> in_strings (g ''decode_status'') demo_decode_statuses
        \<or> \<not> unit_interval (g ''fingerprint_confidence'') \<or> \<not> nonneg_int (g ''valid_vote_count'')
        \<or> \<not> page_count_ok (g ''analyzed_page_count'') \<or> \<not> is_json_bool (g ''exact_file_hash_match'')
        \<or> \<not> bool_or_none (g ''manifest_signature_valid'') then Inl invalid
      else (case g ''limitations'' of
        JList xs \<Rightarrow>
          if take (length demo_verification_limitations) xs \<noteq> map JStr demo_verification_limitations
          then Inl invalid
          else if \<not> list_all hashable xs then Inl (TypeError ''unhashable type'')
          else if \<not> limitations_ok xs then Inl invalid
          else if \<not> list_all (\<lambda>kv. nonneg_int (snd kv)) me
            \<or> \<not> scalar_eq (jget ''pages_processed'' me) (g ''analyzed_page_count'')
            \<or> \<not> scalar_eq (jget ''cleanup_failures'' me) (JInt 0) then Inl invalid
          else Inr ()
      | _ \<Rightarrow> Inl invalid))"

definition dvr_check :: "job \<Rightarrow> demo_verification_result \<Rightarrow> exn + unit" where
  "dvr_check j r =
     (if job_kind j \<noteq> KindVerification \<or> job_verification_id j \<noteq> Some (dvr_verification_id r)
         \<or> job_attempt j \<noteq> dvr_attempt r
      then Inl (ValidationError ''demo result must bind its verification job'')
      else (case dvr_result_state r of
        VerReserved \<Rightarrow>
          if dvr_input_sha256 r \<noteq> None \<or> dvr_result_status r \<noteq> None \<or> dvr_recovered_issuance_id r \<noteq> None
             \<or> dvr_completed_at r \<noteq> None \<or> json_truthy (dvr_evidence r) \<or> json_truthy (dvr_metrics r)
             \<or> dvr_safe_error_code r \<noteq> None
          then Inl (ValidationError ''reserved demo verification cannot claim result evidence'')
          else Inr ()
      | VerCommitted \<Rightarrow>
          (case (dvr_evidence r, dvr_metrics r) of
             (JObj ev, JObj me) \<Rightarrow>
               if dvr_input_sha256 r = None \<or> dvr_result_status r = None
                  \<or> dvr_result_status r = Some ProcessingFailed \<or> dvr_completed_at r = None
                  \<or> dvr_safe_error_code r \<noteq> None
                  \<or> jget ''algorithm_label'' ev \<noteq> JStr demo_algorithm_label
               then Inl (ValidationError ''committed demo verification evidence is incomplete'')
               else committed_evidence_check ev me
           | _ \<Rightarrow> Inl (ValidationError ''committed demo verification evidence is incomplete''))
      | VerFailed \<Rightarrow>
          if dvr_result_status r \<noteq> Some ProcessingFailed \<or> dvr_recovered_issuance_id r \<noteq> None
             \<or> dvr_completed_at r = None \<or> dvr_safe_error_code r = None
          then Inl (ValidationError ''failed demo verification evidence is incomplete'')
          else Inr ()
      | VerCancelled \<Rightarrow>
          if dvr_result_status r \<noteq> None \<or> dvr_recovered_issuance_id r \<noteq> None
             \<or> dvr_completed_at r = None \<or> dvr_safe_error_code r \<noteq> Some ''DEMO_JOB_CANCELLED''
          then Inl (ValidationError ''cancelled demo verification evidence is incomplete'')
          else Inr ()))"

definition dvr_clean :: "demo_verification_result \<Rightarrow> ('st world, unit) prog" where
  "dvr_clean r =
     chain (get_row jobs_t (dvr_job_id r)) (\<lambda>j.
     chain (related_org verifications_t ver_organization_id (Some (dvr_verification_id r))) (\<lambda>b.
     chain (related_org issuances_t iss_organization_id (dvr_recovered_issuance_id r)) (\<lambda>c.
     chain (validate_organization_relations (dvr_organization_id r) [Some (job_organization_id j), b, c]) (\<lambda>_.
     lift_sum (dvr_check j r)))))"

definition dvr_ok :: "db \<Rightarrow> demo_verification_result \<Rightarrow> bool" where
  "dvr_ok d r \<longleftrightarrow>
     (\<forall>x\<in>set (db_verification_results d). dvr_job_id x = dvr_job_id r \<or>
        dvr_verification_id x \<noteq> dvr_verification_id r \<and> dvr_owner_token x \<noteq> dvr_owner_token r)
     \<and> 0 \<le> dvr_attempt r \<and> dvr_attempt r \<le> 2 \<and> opt_sha_ok (dvr_input_sha256 r)"

datatype dvr_field = RState | RInputSha256 | RStatus | RRecoveredIssuance | REvidence | RMetrics
  | RSafeErrorCode | RCompletedAt | RUpdatedAt

definition merge_dvr ::
  "dvr_field list \<Rightarrow> demo_verification_result \<Rightarrow> demo_verification_result \<Rightarrow> demo_verification_result" where
  "merge_dvr fs new old = old\<lparr>
     dvr_result_state := if RState \<in> set fs then dvr_result_state new else dvr_result_state old,
     dvr_input_sha256 := if RInputSha256 \<in> set fs then dvr_input_sha256 new else dvr_input_sha256 old,
     dvr_result_status := if RStatus \<in> set fs then dvr_result_status new else dvr_result_status old,
     dvr_recovered_issuance_id := if RRecoveredIssuance \<in> set fs then dvr_recovered_issuance_id new
       else dvr_recovered_issuance_id old,
     dvr_evidence := if REvidence \<in> set fs then dvr_evidence new else dvr_evidence old,
     dvr_metrics := if RMetrics \<in> set fs then dvr_metrics new else dvr_metrics old,
     dvr_safe_error_code := if RSafeErrorCode \<in> set fs then dvr_safe_error_code new
       else dvr_safe_error_code old,
     dvr_completed_at := if RCompletedAt \<in> set fs then dvr_completed_at new else dvr_completed_at old,
     dvr_updated_at := if RUpdatedAt \<in> set fs then dvr_updated_at new else dvr_updated_at old\<rparr>"

definition dvr_identity_same :: "demo_verification_result \<Rightarrow> demo_verification_result \<Rightarrow> bool" where
  "dvr_identity_same r p \<longleftrightarrow> dvr_organization_id r = dvr_organization_id p
     \<and> dvr_job_id r = dvr_job_id p \<and> dvr_verification_id r = dvr_verification_id p
     \<and> dvr_attempt r = dvr_attempt p \<and> dvr_owner_token r = dvr_owner_token p
     \<and> dvr_created_at r = dvr_created_at p"

definition dvr_save_check :: "demo_verification_result \<Rightarrow> demo_verification_result \<Rightarrow> exn + unit" where
  "dvr_save_check r p =
     (if \<not> dvr_identity_same r p
      then Inl (ValidationError ''demo verification result ownership is immutable'')
      else if dvr_result_state p \<noteq> VerReserved
      then Inl (ValidationError ''terminal demo verification result evidence is immutable'')
      else if dvr_result_state r = VerReserved
      then Inl (ValidationError ''demo verification result must make terminal progress'')
      else Inr ())"

definition insert_dvr :: "bool \<Rightarrow> demo_verification_result \<Rightarrow> ('st world, unit) prog" where
  "insert_dvr write r =
     chain (require write (ValidationError ''demo verification result evidence is immutable'')) (\<lambda>_.
     save_new verification_results_t dvr_ok dvr_clean r)"

definition save_dvr ::
  "bool \<Rightarrow> dvr_field list \<Rightarrow> demo_verification_result \<Rightarrow> ('st world, demo_verification_result) prog" where
  "save_dvr write fs r =
     chain (require write (ValidationError ''demo verification result evidence is immutable'')) (\<lambda>_.
     chain (get_row verification_results_t (dvr_job_id r)) (\<lambda>p.
     chain (lift_sum (dvr_save_check r p)) (\<lambda>_.
     chain (if RUpdatedAt \<in> set fs then chain now (\<lambda>t. ret (r\<lparr>dvr_updated_at := t\<rparr>)) else ret r) (\<lambda>r'.
     chain (save_stored verification_results_t dvr_ok dvr_organization_id dvr_clean r' (merge_dvr fs r')) (\<lambda>_.
     ret r')))))"

definition new_dvr :: "uuid \<Rightarrow> uuid \<Rightarrow> uuid \<Rightarrow> int \<Rightarrow> uuid \<Rightarrow> time \<Rightarrow> time
     \<Rightarrow> demo_verification_result" where
  "new_dvr org job_pk verification_pk attempt_no owner_token t u =
     \<lparr>dvr_job_id = job_pk, dvr_organization_id = org, dvr_verification_id = verification_pk,
      dvr_attempt = attempt_no, dvr_owner_token = owner_token, dvr_result_state = VerReserved,
      dvr_input_sha256 = None, dvr_result_status = None, dvr_recovered_issuance_id = None,
      dvr_evidence = JObj [], dvr_metrics = JObj [], dvr_safe_error_code = None,
      dvr_completed_at = None, dvr_created_at = t, dvr_updated_at = u\<rparr>"

definition dvr_fields_ok :: "demo_verification_result \<Rightarrow> bool" where
  "dvr_fields_ok r \<longleftrightarrow> 0 \<le> dvr_attempt r \<and> dvr_attempt r \<le> 2 \<and> opt_sha_ok (dvr_input_sha256 r)
     \<and> (case dvr_safe_error_code r of None \<Rightarrow> True | Some s \<Rightarrow> length s \<le> 80)"

definition dvr_full_clean :: "demo_verification_result \<Rightarrow> ('st world, unit) prog" where
  "dvr_full_clean r =
     chain (dvr_clean r) (\<lambda>_.
     chain (gets w_db) (\<lambda>d.
     require (dvr_fields_ok r \<and> dvr_ok d r) (ValidationError ''full_clean'')))"

section \<open>How results may change\<close>

text \<open>
  The state graph of an output and what is fixed: the identity always, everything once it is
  committed.
\<close>

fun output_rank :: "output_state \<Rightarrow> nat" where
  "output_rank OutReserved = 0"
| "output_rank OutUploading = 1"
| "output_rank OutCleanupRequired = 2"
| "output_rank OutCleaned = 3"
| "output_rank OutCommitted = 4"

definition dir_evolves :: "demo_issuance_result \<Rightarrow> demo_issuance_result \<Rightarrow> bool" where
  "dir_evolves a b \<longleftrightarrow> dir_identity_same b a
     \<and> output_rank (dir_output_state a) \<le> output_rank (dir_output_state b)
     \<and> (dir_output_state b = OutCommitted \<longrightarrow> dir_output_state a \<notin> {OutCleanupRequired, OutCleaned})
     \<and> (dir_output_state a = OutCommitted \<longrightarrow> b = a)"

definition dvr_evolves :: "demo_verification_result \<Rightarrow> demo_verification_result \<Rightarrow> bool" where
  "dvr_evolves a b \<longleftrightarrow> dvr_identity_same b a \<and> (dvr_result_state a \<noteq> VerReserved \<longrightarrow> b = a)"

lemma dir_evolves_refl [simp]: "dir_evolves r r"
  by (auto simp: dir_evolves_def dir_identity_same_def)

lemma dvr_evolves_refl [simp]: "dvr_evolves r r"
  by (simp add: dvr_evolves_def dvr_identity_same_def)

lemma dvr_evolves_trans: "dvr_evolves a b \<Longrightarrow> dvr_evolves b c \<Longrightarrow> dvr_evolves a c"
  by (auto simp: dvr_evolves_def dvr_identity_same_def)

lemma output_committed_rank: "output_rank s = 4 \<longleftrightarrow> s = OutCommitted"
  by (cases s) auto

lemma dir_evolves_trans:
  assumes "dir_evolves a b" "dir_evolves b c"
  shows "dir_evolves a c"
proof (cases "dir_output_state b = OutCommitted")
  case True
  then have "c = b" using assms(2) by (simp add: dir_evolves_def)
  then show ?thesis using assms(1) by simp
next
  case False
  have "dir_identity_same c a" using assms by (simp add: dir_evolves_def dir_identity_same_def)
  moreover have "output_rank (dir_output_state a) \<le> output_rank (dir_output_state c)"
    using assms by (auto simp: dir_evolves_def)
  moreover have "dir_output_state a \<noteq> OutCommitted" using False assms(1) by (auto simp: dir_evolves_def)
  moreover have "dir_output_state a \<notin> {OutCleanupRequired, OutCleaned}"
    if "dir_output_state c = OutCommitted"
    using that assms False
    by (cases "dir_output_state a"; cases "dir_output_state b") (auto simp: dir_evolves_def)
  ultimately show ?thesis by (simp add: dir_evolves_def)
qed

lemma dir_job_id_merge [simp]: "dir_job_id (merge_dir fs r p) = dir_job_id p"
  by (simp add: merge_dir_def)

lemma dvr_job_id_merge [simp]: "dvr_job_id (merge_dvr fs r p) = dvr_job_id p"
  by (simp add: merge_dvr_def)

lemma output_transitions_rank:
  "t \<in> set (output_transitions s) \<Longrightarrow> output_rank s \<le> output_rank t
     \<and> (t = OutCommitted \<longrightarrow> s \<notin> {OutCleanupRequired, OutCleaned})"
  by (cases s) auto

lemma dir_save_check_evolves:
  assumes "dir_save_check transfer r p = Inr u"
  shows "dir_evolves p (merge_dir fs (r\<lparr>dir_updated_at := t\<rparr>) p)"
proof -
  define m where "m = merge_dir fs (r\<lparr>dir_updated_at := t\<rparr>) p"
  from assms have nc: "dir_output_state p \<noteq> OutCommitted"
    and tr: "dir_output_state r \<in> set (output_transitions (dir_output_state p))"
    unfolding dir_save_check_def by (metis sum.distinct(1))+
  have "dir_output_state m = dir_output_state r \<or> dir_output_state m = dir_output_state p"
    by (simp add: m_def merge_dir_def)
  moreover have "dir_identity_same m p"
    by (simp add: m_def dir_identity_same_def merge_dir_def)
  ultimately have "dir_evolves p m"
    unfolding dir_evolves_def using nc output_transitions_rank [OF tr] by auto
  then show ?thesis by (simp only: m_def)
qed

lemma dvr_save_check_evolves:
  assumes "dvr_save_check r p = Inr u"
  shows "dvr_evolves p (merge_dvr fs (r\<lparr>dvr_updated_at := t\<rparr>) p)"
proof -
  define m where "m = merge_dvr fs (r\<lparr>dvr_updated_at := t\<rparr>) p"
  from assms have "dvr_result_state p = VerReserved"
    unfolding dvr_save_check_def by (metis sum.distinct(1))
  moreover have "dvr_identity_same m p"
    by (simp add: m_def dvr_identity_same_def merge_dvr_def)
  ultimately have "dvr_evolves p m" by (simp add: dvr_evolves_def)
  then show ?thesis by (simp only: m_def)
qed

lemma wp_dir_clean_weaken: "(\<And>e. E e w) \<Longrightarrow> Q () w \<Longrightarrow> wp (dir_clean r) Q E w"
  unfolding dir_clean_def related_org_def by (intro wp_intros) auto

lemma wp_dvr_clean_weaken: "(\<And>e. E e w) \<Longrightarrow> Q () w \<Longrightarrow> wp (dvr_clean r) Q E w"
  unfolding dvr_clean_def related_org_def by (intro wp_intros) auto

section \<open>What a save did\<close>

lemma dir_stamp: "\<exists>t. r = r\<lparr>dir_updated_at := t\<rparr>"
  by (rule exI [of _ "dir_updated_at r"]) simp

lemma dvr_stamp: "\<exists>t. r = r\<lparr>dvr_updated_at := t\<rparr>"
  by (rule exI [of _ "dvr_updated_at r"]) simp

lemma save_dir_wp:
  "wp (save_dir write transfer fs r)
     (\<lambda>r' w'. write \<and> (\<exists>t. r' = r\<lparr>dir_updated_at := t\<rparr>)
        \<and> w_db w' = (w_db w)\<lparr>db_issuance_results :=
            update_by dir_job_id (dir_job_id r) (merge_dir fs r') (db_issuance_results (w_db w))\<rparr>
        \<and> w_store w' = w_store w
        \<and> (\<exists>p. lookup_by dir_job_id (dir_job_id r) (db_issuance_results (w_db w)) = Some p
             \<and> dir_save_check transfer r p = Inr ()
             \<and> dir_ok (w_db w) (merge_dir fs r' p)))
     (\<lambda>_ w'. w_db w' = w_db w \<and> w_store w' = w_store w) w"
  unfolding save_dir_def
  by (intro wp_intros wpi_save_stored wp_dir_clean_weaken) (auto intro: dir_stamp)

lemma save_dvr_wp:
  "wp (save_dvr write fs r)
     (\<lambda>r' w'. write \<and> (\<exists>t. r' = r\<lparr>dvr_updated_at := t\<rparr>)
        \<and> w_db w' = (w_db w)\<lparr>db_verification_results :=
            update_by dvr_job_id (dvr_job_id r) (merge_dvr fs r') (db_verification_results (w_db w))\<rparr>
        \<and> w_store w' = w_store w
        \<and> (\<exists>p. lookup_by dvr_job_id (dvr_job_id r) (db_verification_results (w_db w)) = Some p
             \<and> dvr_save_check r p = Inr ()
             \<and> dvr_ok (w_db w) (merge_dvr fs r' p)))
     (\<lambda>_ w'. w_db w' = w_db w \<and> w_store w' = w_store w) w"
  unfolding save_dvr_def
  by (intro wp_intros wpi_save_stored wp_dvr_clean_weaken) (auto intro: dvr_stamp)

lemma insert_dir_wp:
  "wp (insert_dir write r)
     (\<lambda>_ w'. write \<and> w' = w\<lparr>w_db := (w_db w)\<lparr>db_issuance_results := db_issuance_results (w_db w) @ [r]\<rparr>\<rparr>
        \<and> dir_ok (w_db w) r \<and> dir_job_id r \<notin> dir_job_id ` set (db_issuance_results (w_db w))
        \<and> (\<exists>j. lookup_by job_id (dir_job_id r) (db_jobs (w_db w)) = Some j \<and> dir_check j r = Inr ()))
     (\<lambda>_ w'. w' = w) w"
  unfolding insert_dir_def save_new_def dir_clean_def related_org_def
  by (intro wp_intros) auto

lemma insert_dvr_wp:
  "wp (insert_dvr write r)
     (\<lambda>_ w'. write \<and> w' = w\<lparr>w_db := (w_db w)\<lparr>db_verification_results := db_verification_results (w_db w) @ [r]\<rparr>\<rparr>
        \<and> dvr_ok (w_db w) r \<and> dvr_job_id r \<notin> dvr_job_id ` set (db_verification_results (w_db w))
        \<and> (\<exists>j. lookup_by job_id (dvr_job_id r) (db_jobs (w_db w)) = Some j \<and> dvr_check j r = Inr ()))
     (\<lambda>_ w'. w' = w) w"
  unfolding insert_dvr_def save_new_def dvr_clean_def related_org_def
  by (intro wp_intros) auto

end
