(* ===== verification/Evolution.thy ===== *)
theory Evolution
  imports DemoModels
begin

text \<open>
  What every handler guarantees of the database it leaves behind: no row is lost, every row moves
  along the relation of its table, and the tables of evidence only grow at their end. The relation
  is a preorder, so it composes over handlers and over sequences of them.
\<close>

section \<open>Rows that hardly change\<close>

definition recipient_evolves :: "recipient \<Rightarrow> recipient \<Rightarrow> bool" where
  "recipient_evolves a b \<longleftrightarrow> rcp_id b = rcp_id a \<and> rcp_organization_id b = rcp_organization_id a
     \<and> rcp_external_reference b = rcp_external_reference a"

definition document_evolves :: "document \<Rightarrow> document \<Rightarrow> bool" where
  "document_evolves a b \<longleftrightarrow> (\<exists>n. b = a\<lparr>doc_page_count := n\<rparr>)"

definition verification_evolves :: "verification \<Rightarrow> verification \<Rightarrow> bool" where
  "verification_evolves a b \<longleftrightarrow> ver_id b = ver_id a \<and> ver_organization_id b = ver_organization_id a
     \<and> ver_upload_request_id b = ver_upload_request_id a
     \<and> ver_requested_by_id b = ver_requested_by_id a \<and> ver_created_at b = ver_created_at a"

lemma recipient_evolves_refl [simp]: "recipient_evolves r r"
  by (simp add: recipient_evolves_def)

lemma document_evolves_refl [simp]: "document_evolves r r"
  unfolding document_evolves_def by (rule exI [of _ "doc_page_count r"]) simp

lemma verification_evolves_refl [simp]: "verification_evolves r r"
  by (simp add: verification_evolves_def)

lemma recipient_evolves_trans: "recipient_evolves a b \<Longrightarrow> recipient_evolves b c \<Longrightarrow> recipient_evolves a c"
  by (simp add: recipient_evolves_def)

lemma document_evolves_trans: "document_evolves a b \<Longrightarrow> document_evolves b c \<Longrightarrow> document_evolves a c"
  by (auto simp: document_evolves_def)

lemma verification_evolves_trans:
  "verification_evolves a b \<Longrightarrow> verification_evolves b c \<Longrightarrow> verification_evolves a c"
  by (simp add: verification_evolves_def)

lemma merge_verification_evolves [simp]: "verification_evolves p (merge_verification fs v p)"
  by (simp add: verification_evolves_def merge_verification_def)

lemma ver_id_merge [simp]: "ver_id (merge_verification fs v p) = ver_id p"
  by (simp add: merge_verification_def)

section \<open>The database\<close>

definition db_evolves :: "db \<Rightarrow> db \<Rightarrow> bool" where
  "db_evolves d e \<longleftrightarrow>
     db_organizations e = db_organizations d \<and> db_users e = db_users d
     \<and> rows_evolve rcp_id recipient_evolves (db_recipients d) (db_recipients e)
     \<and> rows_evolve key_pk key_evolves (db_signing_keys d) (db_signing_keys e)
     \<and> rows_evolve upl_id upload_evolves (db_uploads d) (db_uploads e)
     \<and> rows_evolve doc_id document_evolves (db_documents d) (db_documents e)
     \<and> rows_evolve iss_id issuance_evolves (db_issuances d) (db_issuances e)
     \<and> prefix (db_manifests d) (db_manifests e)
     \<and> rows_evolve ver_id verification_evolves (db_verifications d) (db_verifications e)
     \<and> rows_evolve job_id job_evolves (db_jobs d) (db_jobs e)
     \<and> (distinct (map job_id (db_jobs d)) \<longrightarrow> distinct (map job_id (db_jobs e)))
     \<and> prefix (db_receipts d) (db_receipts e)
     \<and> prefix (db_outbox d) (db_outbox e)
     \<and> prefix (db_audit d) (db_audit e)
     \<and> rows_evolve dir_job_id dir_evolves (db_issuance_results d) (db_issuance_results e)
     \<and> rows_evolve dvr_job_id dvr_evolves (db_verification_results d) (db_verification_results e)"

lemma db_evolves_refl [simp]: "db_evolves d d"
  by (simp add: db_evolves_def rows_evolve_refl)

lemma db_evolves_trans:
  assumes "db_evolves a b" "db_evolves b c"
  shows "db_evolves a c"
proof -
  have "rows_evolve rcp_id recipient_evolves (db_recipients a) (db_recipients c)"
    by (rule rows_evolve_trans [where R = recipient_evolves]) (use assms in \<open>auto simp: db_evolves_def intro: recipient_evolves_trans\<close>)
  moreover have "rows_evolve key_pk key_evolves (db_signing_keys a) (db_signing_keys c)"
    by (rule rows_evolve_trans [where R = key_evolves]) (use assms in \<open>auto simp: db_evolves_def intro: key_evolves_trans\<close>)
  moreover have "rows_evolve upl_id upload_evolves (db_uploads a) (db_uploads c)"
    by (rule rows_evolve_trans [where R = upload_evolves]) (use assms in \<open>auto simp: db_evolves_def intro: upload_evolves_trans\<close>)
  moreover have "rows_evolve doc_id document_evolves (db_documents a) (db_documents c)"
    by (rule rows_evolve_trans [where R = document_evolves]) (use assms in \<open>auto simp: db_evolves_def intro: document_evolves_trans\<close>)
  moreover have "rows_evolve iss_id issuance_evolves (db_issuances a) (db_issuances c)"
    by (rule rows_evolve_trans [where R = issuance_evolves]) (use assms in \<open>auto simp: db_evolves_def intro: issuance_evolves_trans\<close>)
  moreover have "rows_evolve ver_id verification_evolves (db_verifications a) (db_verifications c)"
    by (rule rows_evolve_trans [where R = verification_evolves]) (use assms in \<open>auto simp: db_evolves_def intro: verification_evolves_trans\<close>)
  moreover have "rows_evolve job_id job_evolves (db_jobs a) (db_jobs c)"
    by (rule rows_evolve_trans [where R = job_evolves]) (use assms in \<open>auto simp: db_evolves_def intro: job_evolves_trans\<close>)
  moreover have "rows_evolve dir_job_id dir_evolves (db_issuance_results a) (db_issuance_results c)"
    by (rule rows_evolve_trans [where R = dir_evolves]) (use assms in \<open>auto simp: db_evolves_def intro: dir_evolves_trans\<close>)
  moreover have "rows_evolve dvr_job_id dvr_evolves (db_verification_results a) (db_verification_results c)"
    by (rule rows_evolve_trans [where R = dvr_evolves]) (use assms in \<open>auto simp: db_evolves_def intro: dvr_evolves_trans\<close>)
  ultimately show ?thesis
    using assms unfolding db_evolves_def by (auto intro: prefix_order.trans)
qed

text \<open>One rule for each write, in the order of use: the database is what it was, then one table.\<close>

lemma db_evolves_uploads:
  "only_uploads_evolve d e \<Longrightarrow> db_evolves a d \<Longrightarrow> db_evolves a e"
  by (rule db_evolves_trans [of a d e])
     (assumption, auto simp: only_uploads_evolve_def db_evolves_def rows_evolve_refl)

lemma db_evolves_issuances:
  "only_issuances_evolve d e \<Longrightarrow> db_evolves a d \<Longrightarrow> db_evolves a e"
  by (rule db_evolves_trans [of a d e])
     (assumption, auto simp: only_issuances_evolve_def db_evolves_def rows_evolve_refl)

lemma db_evolves_keys:
  "db_evolves a d \<Longrightarrow> rows_evolve key_pk key_evolves (db_signing_keys d) rs \<Longrightarrow>
     db_evolves a (d\<lparr>db_signing_keys := rs\<rparr>)"
  by (rule db_evolves_trans, assumption) (auto simp: db_evolves_def rows_evolve_refl)

lemma db_evolves_documents:
  "db_evolves a d \<Longrightarrow> rows_evolve doc_id document_evolves (db_documents d) rs \<Longrightarrow>
     db_evolves a (d\<lparr>db_documents := rs\<rparr>)"
  by (rule db_evolves_trans, assumption) (auto simp: db_evolves_def rows_evolve_refl)

lemma db_evolves_verifications:
  "db_evolves a d \<Longrightarrow> rows_evolve ver_id verification_evolves (db_verifications d) rs \<Longrightarrow>
     db_evolves a (d\<lparr>db_verifications := rs\<rparr>)"
  by (rule db_evolves_trans, assumption) (auto simp: db_evolves_def rows_evolve_refl)

lemma db_evolves_jobs:
  "db_evolves a d \<Longrightarrow> rows_evolve job_id job_evolves (db_jobs d) rs \<Longrightarrow> map job_id rs = map job_id (db_jobs d) \<Longrightarrow>
     db_evolves a (d\<lparr>db_jobs := rs\<rparr>)"
  by (rule db_evolves_trans, assumption) (auto simp: db_evolves_def rows_evolve_refl)

lemma db_evolves_new_job:
  "db_evolves a d \<Longrightarrow> js = db_jobs d @ [j] \<Longrightarrow> job_id j \<notin> job_id ` set (db_jobs d) \<Longrightarrow> db_evolves a (d\<lparr>db_jobs := js\<rparr>)"
  by (rule db_evolves_trans, assumption) (auto simp: db_evolves_def rows_evolve_refl rows_evolve_append)

lemma db_evolves_dir:
  "db_evolves a d \<Longrightarrow> rows_evolve dir_job_id dir_evolves (db_issuance_results d) rs \<Longrightarrow>
     db_evolves a (d\<lparr>db_issuance_results := rs\<rparr>)"
  by (rule db_evolves_trans, assumption) (auto simp: db_evolves_def rows_evolve_refl)

lemma db_evolves_dvr:
  "db_evolves a d \<Longrightarrow> rows_evolve dvr_job_id dvr_evolves (db_verification_results d) rs \<Longrightarrow>
     db_evolves a (d\<lparr>db_verification_results := rs\<rparr>)"
  by (rule db_evolves_trans, assumption) (auto simp: db_evolves_def rows_evolve_refl)

lemma db_evolves_schedule: "db_evolves a d \<Longrightarrow> db_evolves a (d\<lparr>db_schedule := rs\<rparr>)"
  by (rule db_evolves_trans, assumption) (auto simp: db_evolves_def rows_evolve_refl)

lemma db_evolves_upload_rows:
  "db_evolves a d \<Longrightarrow> rows_evolve upl_id upload_evolves (db_uploads d) rs \<Longrightarrow> db_evolves a (d\<lparr>db_uploads := rs\<rparr>)"
  by (rule db_evolves_trans, assumption) (auto simp: db_evolves_def rows_evolve_refl)

lemma db_evolves_issuance_rows:
  "db_evolves a d \<Longrightarrow> rows_evolve iss_id issuance_evolves (db_issuances d) rs \<Longrightarrow>
     db_evolves a (d\<lparr>db_issuances := rs\<rparr>)"
  by (rule db_evolves_trans, assumption) (auto simp: db_evolves_def rows_evolve_refl)

lemma db_evolves_recipients:
  "db_evolves a d \<Longrightarrow> rows_evolve rcp_id recipient_evolves (db_recipients d) rs \<Longrightarrow>
     db_evolves a (d\<lparr>db_recipients := rs\<rparr>)"
  by (rule db_evolves_trans, assumption) (auto simp: db_evolves_def rows_evolve_refl)

lemma db_evolves_prefixes:
  "db_evolves a d \<Longrightarrow> prefix (db_audit d) xa \<Longrightarrow> db_evolves a (d\<lparr>db_audit := xa\<rparr>)"
  "db_evolves a d \<Longrightarrow> prefix (db_outbox d) xo \<Longrightarrow> db_evolves a (d\<lparr>db_outbox := xo\<rparr>)"
  "db_evolves a d \<Longrightarrow> prefix (db_receipts d) xr \<Longrightarrow> db_evolves a (d\<lparr>db_receipts := xr\<rparr>)"
  "db_evolves a d \<Longrightarrow> prefix (db_manifests d) xm \<Longrightarrow> db_evolves a (d\<lparr>db_manifests := xm\<rparr>)"
  by (rule db_evolves_trans, assumption, simp add: db_evolves_def rows_evolve_refl)+

text \<open>Insertion into a table of evolving rows.\<close>

lemma rows_evolve_insert:
  "rows_evolve rcp_id recipient_evolves xa (xa @ ya)" "rows_evolve key_pk key_evolves xk (xk @ yk)"
  "rows_evolve upl_id upload_evolves xb (xb @ yb)" "rows_evolve doc_id document_evolves xc (xc @ yc)"
  "rows_evolve iss_id issuance_evolves xd (xd @ yd)"
  "rows_evolve ver_id verification_evolves xe (xe @ ye)" "rows_evolve job_id job_evolves xf (xf @ yf)"
  "rows_evolve dir_job_id dir_evolves xg (xg @ yg)" "rows_evolve dvr_job_id dvr_evolves xh (xh @ yh)"
  by (simp_all add: rows_evolve_append)

lemmas db_evolves_intros = db_evolves_refl db_evolves_prefixes db_evolves_new_job db_evolves_keys
  db_evolves_documents db_evolves_verifications db_evolves_dir db_evolves_dvr db_evolves_schedule
  db_evolves_upload_rows db_evolves_issuance_rows db_evolves_recipients rows_evolve_insert

section \<open>Programs that keep a relation of databases\<close>

text \<open>
  A preorder on databases is one on worlds; whatever only reads the database, moves the clock or
  calls the object store keeps it, and a transaction keeps it when it does so where it returns.
\<close>

locale db_preorder =
  fixes R :: "db \<Rightarrow> db \<Rightarrow> bool"
  assumes db_refl: "R d d" and db_trans: "R a b \<Longrightarrow> R b c \<Longrightarrow> R a c"
begin

lemma world_preorder: "state_preorder (\<lambda>w v. R (w_db w) (w_db v))"
  by unfold_locales (auto intro: db_refl db_trans)

lemmas g_intros = state_preorder.g_intros [OF world_preorder]

lemma g_keepsI: "(\<And>w. wp m (\<lambda>_ v. R (w_db w) (w_db v)) (\<lambda>_ v. R (w_db w) (w_db v)) w) \<Longrightarrow>
    guarantees (\<lambda>w v. R (w_db w) (w_db v)) m"
  by (rule guaranteesI) simp

lemma g_now: "guarantees (\<lambda>w v. R (w_db w) (w_db v)) now"
  by (rule g_keepsI) (simp add: wp_simps db_refl)

lemma g_uuid4: "guarantees (\<lambda>w v. R (w_db w) (w_db v)) uuid4"
  by (rule g_keepsI) (simp add: wp_simps db_refl)

lemma g_on_store: "guarantees (\<lambda>w v. R (w_db w) (w_db v)) (on_store m)"
  by (simp add: guarantees_def on_store_def db_refl split: prod.splits)

lemma g_atomicI:
  assumes "\<And>w. wp m (\<lambda>_ v. R (w_db w) (w_db v)) (\<lambda>_ _. True) w"
  shows "guarantees (\<lambda>w v. R (w_db w) (w_db v)) (atomic m)"
  by (rule g_keepsI, unfold wp_atomic, rule wp_mono [OF assms]) (auto simp: db_refl)

lemma g_atomic:
  assumes "guarantees (\<lambda>w v. R (w_db w) (w_db v)) m"
  shows "guarantees (\<lambda>w v. R (w_db w) (w_db v)) (atomic m)"
  by (rule g_atomicI, rule wp_mono [OF guarantees_wp [OF assms]]) auto

lemma g_get_row: "guarantees (\<lambda>w v. R (w_db w) (w_db v)) (get_row t k)"
  unfolding get_row_def by (intro g_intros)

lemma g_rows: "guarantees (\<lambda>w v. R (w_db w) (w_db v)) (rows_where t P)"
  "guarantees (\<lambda>w v. R (w_db w) (w_db v)) (exists_where t P)"
  unfolding rows_where_def exists_where_def by (rule g_intros)+

lemma g_get_where: "guarantees (\<lambda>w v. R (w_db w) (w_db v)) (get_where t P)"
  unfolding get_where_def by (auto intro!: g_intros g_rows split: list.splits)

lemma g_relations: "guarantees (\<lambda>w v. R (w_db w) (w_db v)) (validate_organization_relations org rs)"
  unfolding validate_organization_relations_def by (rule g_intros)

lemma g_related_org: "guarantees (\<lambda>w v. R (w_db w) (w_db v)) (related_org t f k)"
  unfolding related_org_def related_def by (intro g_intros g_get_row)

lemmas g_reads = g_now g_uuid4 g_on_store g_atomic g_get_row g_rows g_get_where g_relations g_related_org

end

abbreviation evolves :: "'st world \<Rightarrow> 'st world \<Rightarrow> bool" where
  "evolves \<equiv> \<lambda>w v. db_evolves (w_db w) (w_db v)"

interpretation evolution: db_preorder db_evolves
  by unfold_locales (auto intro: db_evolves_trans)

interpretation world_evolution: state_preorder "evolves :: 'st world \<Rightarrow> 'st world \<Rightarrow> bool"
  by (rule evolution.world_preorder)

lemma g_record_event: "guarantees evolves (record_event T actor action target outcome cid md)"
  by (rule guaranteesI, rule wp_mono [OF record_event_wp])
     (auto intro: db_evolves_intros)

lemma g_record_system_event: "guarantees evolves (record_system_event T org action target outcome cid md)"
  by (rule guaranteesI, rule wp_mono [OF record_system_event_wp])
     (auto intro: db_evolves_intros)

lemma g_save_upload:
  "set fs \<inter> protected_fields = {} \<Longrightarrow> UFinalizedAt \<notin> set fs \<Longrightarrow>
     guarantees evolves (save_upload evidence fs u)"
  by (rule guaranteesI, rule wp_mono [OF save_upload_evolves])
     (auto intro: db_evolves_uploads [OF _ db_evolves_refl])

lemma g_save_tombstone: "guarantees evolves (save_issuance evidence [IOutputDeletedAt] i)"
  by (rule guaranteesI, rule wp_mono [OF save_issuance_wp])
     (auto intro: db_evolves_issuances [OF _ db_evolves_refl])

lemma g_save_verification: "guarantees evolves (save_verification fs v)"
  by (rule guaranteesI) (unfold save_verification_def, intro wpi_save_stored wp_verification_clean_weaken wp_intros,
    auto intro!: db_evolves_intros rows_evolve_update)

lemma g_save_page_count: "guarantees evolves (save_document_page_count x)"
  by (rule guaranteesI) (unfold save_document_page_count_def,
    intro wpi_save_stored wp_document_clean_weaken wp_intros,
    auto simp: document_evolves_def intro!: db_evolves_intros rows_evolve_update)

lemma dir_rows:
  assumes "lookup_by dir_job_id (dir_job_id r) rows = Some p" "dir_save_check transfer r p = Inr ()"
  shows "rows_evolve dir_job_id dir_evolves rows
     (update_by dir_job_id (dir_job_id r) (merge_dir fs (r\<lparr>dir_updated_at := t\<rparr>)) rows)"
  by (rule rows_evolve_update) (use assms dir_save_check_evolves in auto)

lemma dvr_rows:
  assumes "lookup_by dvr_job_id (dvr_job_id r) rows = Some p" "dvr_save_check r p = Inr ()"
  shows "rows_evolve dvr_job_id dvr_evolves rows
     (update_by dvr_job_id (dvr_job_id r) (merge_dvr fs (r\<lparr>dvr_updated_at := t\<rparr>)) rows)"
  by (rule rows_evolve_update) (use assms dvr_save_check_evolves in auto)

lemma g_save_dir: "guarantees evolves (save_dir write transfer fs r)"
  by (rule guaranteesI, rule wp_mono [OF save_dir_wp])
     (auto intro: db_evolves_intros dir_rows)

lemma g_save_dvr: "guarantees evolves (save_dvr write fs r)"
  by (rule guaranteesI, rule wp_mono [OF save_dvr_wp])
     (auto intro: db_evolves_intros dvr_rows)

lemma g_insert_results: "guarantees evolves (insert_dir write r)" "guarantees evolves (insert_dvr write v)"
  by (rule guaranteesI, rule wp_mono [OF insert_dir_wp] wp_mono [OF insert_dvr_wp];
      auto intro: db_evolves_intros)+

lemmas g_world = evolution.g_reads g_record_event g_record_system_event g_save_tombstone g_save_verification
  g_save_page_count g_save_dir g_save_dvr g_insert_results

section \<open>Properties\<close>

text \<open>
  Saving an issuance result needs the write capability, keeps the constraints of its row, and
  only lets it evolve: the evidence of a committed or cleaned output never changes, the state
  follows its graph and no row is lost.
\<close>

theorem issuance_result_evolves:
  "wp (save_dir write transfer fs r)
     (\<lambda>r' w'. write \<and> rows_evolve dir_job_id dir_evolves (db_issuance_results (w_db w)) (db_issuance_results (w_db w'))
        \<and> (\<exists>p. lookup_by dir_job_id (dir_job_id r) (db_issuance_results (w_db w)) = Some p
             \<and> lookup_by dir_job_id (dir_job_id r) (db_issuance_results (w_db w')) = Some (merge_dir fs r' p)
             \<and> dir_ok (w_db w) (merge_dir fs r' p)))
     (\<lambda>_ w'. w_db w' = w_db w) w"
  by (rule wp_mono [OF save_dir_wp]) (auto intro: dir_rows simp: lookup_by_update)

end
