(* ===== verification/Retention.thy ===== *)
theory Retention
  imports UploadServices Evolution
begin

text \<open>
  \<open>services/api/splitbind/retention\<close>: retention windows (\<open>policies.py\<close>) and the cleanup that
  deletes expired objects, retains the evidence of the deletion, and keeps re-deleting the
  targets it has fenced (\<open>services.py\<close>). Two lanes alternate: the ordinary one deletes what has
  expired, the reconciliation one claims one fenced target at a time under a lease.
\<close>

section \<open>Policies\<close>

definition days :: "int \<Rightarrow> int" where "days n = n * 86400000000"

definition retention_window :: "string \<Rightarrow> int option" where
  "retention_window kind =
     (if kind = ''orphan_upload'' then Some (days 1)
      else if kind = ''issuance_input'' then Some (days 7)
      else if kind = ''issuance_output'' then Some (days 30)
      else if kind = ''verification_input'' then Some (days 1)
      else None)"

definition retention_deadline :: "string \<Rightarrow> py_datetime \<Rightarrow> exn + time option" where
  "retention_deadline kind completed_at = (case completed_at of
     Naive _ \<Rightarrow> Inl (ValueError ''retention timestamp must be timezone-aware UTC'')
   | Aware t offset \<Rightarrow>
       if offset \<noteq> 0 then Inl (ValueError ''retention timestamp must be timezone-aware UTC'')
       else if kind \<in> {''manifest_metadata'', ''audit_event''} then Inr None
       else (case retention_window kind of
               None \<Rightarrow> Inl (ValueError ''unknown retention kind'')
             | Some d \<Rightarrow> Inr (Some (t + d))))"

text \<open>\<open>_window(kind, now)\<close> for the kinds the service uses; times here are aware UTC.\<close>

definition window_of :: "string \<Rightarrow> time \<Rightarrow> int" where
  "window_of kind t = (case retention_deadline kind (Aware t 0) of
     Inr (Some deadline) \<Rightarrow> deadline - t | _ \<Rightarrow> 0)"

lemma window_of_values:
  "window_of ''orphan_upload'' t = days 1" "window_of ''issuance_input'' t = days 7"
  "window_of ''issuance_output'' t = days 30" "window_of ''verification_input'' t = days 1"
  by (simp_all add: window_of_def retention_deadline_def retention_window_def)

definition stale_copying_age :: int where
  "stale_copying_age = 3600000000"

definition max_batch_size :: int where
  "max_batch_size = 500"

section \<open>Candidates\<close>

datatype cleanup_category = StalePromotion | IssuanceInput | VerificationInput | IssuanceOutput | OrphanUpload

text \<open>The pair of model and timestamp column that a category writes.\<close>

datatype evidence_slot = PromotionTargetSlot | OrphanSlot | OutputSlot

fun slot_of :: "cleanup_category \<Rightarrow> evidence_slot" where
  "slot_of StalePromotion = PromotionTargetSlot"
| "slot_of IssuanceInput = PromotionTargetSlot"
| "slot_of VerificationInput = PromotionTargetSlot"
| "slot_of IssuanceOutput = OutputSlot"
| "slot_of OrphanUpload = OrphanSlot"

fun action_of :: "cleanup_category \<Rightarrow> string" where
  "action_of StalePromotion = ''object.promotion.deleted''"
| "action_of IssuanceInput = ''object.issuance_input.deleted''"
| "action_of VerificationInput = ''object.verification_input.deleted''"
| "action_of IssuanceOutput = ''object.issuance_output.deleted''"
| "action_of OrphanUpload = ''object.orphan.deleted''"

record candidate =
  cd_category :: cleanup_category
  cd_pk :: uuid
  cd_expected_state :: "promotion_status option"

section \<open>Ownership of keys\<close>

definition upload_key_owned :: "upload_request \<Rightarrow> cleanup_category \<Rightarrow> string \<Rightarrow> bool" where
  "upload_key_owned u category key = (case category of
     OrphanUpload \<Rightarrow> (case match_orphan_key key of None \<Rightarrow> False | Some m \<Rightarrow>
       og_kind m = (if upl_purpose u = PurposeIssuance then ''issuance_input'' else ''verification_input'')
       \<and> og_organization m = uuid_str (upl_organization_id u) \<and> og_object m = uuid_hex (upl_id u))
   | IssuanceOutput \<Rightarrow> (case match_issuance_output_key key of None \<Rightarrow> False | Some m \<Rightarrow>
       tg_organization m = uuid_str (upl_organization_id u) \<and> tg_issuance m = uuid_str (upl_id u))
   | _ \<Rightarrow> (case match_promoted_key key of None \<Rightarrow> False | Some m \<Rightarrow>
       pg_organization m = uuid_str (upl_organization_id u) \<and> pg_upload m = uuid_str (upl_id u)
       \<and> pg_kind m = purpose_value (upl_purpose u)))"

definition issuance_key_owned :: "issuance \<Rightarrow> string \<Rightarrow> bool" where
  "issuance_key_owned i key = (case match_issuance_output_key key of None \<Rightarrow> False | Some m \<Rightarrow>
     tg_organization m = uuid_str (iss_organization_id i) \<and> tg_issuance m = uuid_str (iss_id i))"

section \<open>Eligibility\<close>

definition job_input_upload :: "db \<Rightarrow> job \<Rightarrow> uuid option" where
  "job_input_upload d j = (case job_issuance_id j of None \<Rightarrow> None
     | Some i \<Rightarrow> (case lookup_by iss_id i (db_issuances d) of None \<Rightarrow> None
       | Some iss \<Rightarrow> map_option doc_upload_request_id (lookup_by doc_id (iss_document_id iss) (db_documents d))))"

definition job_verified_upload :: "db \<Rightarrow> job \<Rightarrow> uuid option" where
  "job_verified_upload d j = (case job_verification_id j of None \<Rightarrow> None
     | Some v \<Rightarrow> map_option ver_upload_request_id (lookup_by ver_id v (db_verifications d)))"

definition related_jobs :: "db \<Rightarrow> cleanup_category \<Rightarrow> uuid \<Rightarrow> job list" where
  "related_jobs d category pk = (case category of
     IssuanceInput \<Rightarrow> filter (\<lambda>j. job_input_upload d j = Some pk) (db_jobs d)
   | VerificationInput \<Rightarrow> filter (\<lambda>j. job_verified_upload d j = Some pk) (db_jobs d)
   | IssuanceOutput \<Rightarrow> filter (\<lambda>j. job_issuance_id j = Some pk) (db_jobs d)
   | _ \<Rightarrow> [])"

definition all_jobs_terminal_before :: "db \<Rightarrow> cleanup_category \<Rightarrow> uuid \<Rightarrow> time \<Rightarrow> bool" where
  "all_jobs_terminal_before d category pk deadline =
     (let jobs = related_jobs d category pk in
      if jobs = [] \<or> list_ex (\<lambda>j. \<not> job_terminal (job_status j)) jobs then False
      else if category = IssuanceOutput \<and> \<not> list_ex (\<lambda>j. job_status j = Succeeded) jobs then False
      else (case first_by (\<lambda>j. - job_updated_at j) jobs of
              None \<Rightarrow> False | Some latest \<Rightarrow> job_updated_at latest \<le> deadline))"

definition eligible_upload ::
  "db \<Rightarrow> upload_request \<Rightarrow> cleanup_category \<Rightarrow> time \<Rightarrow> promotion_status option \<Rightarrow> bool" where
  "eligible_upload d u category t expected_state = (case category of
     StalePromotion \<Rightarrow> Some (upl_promotion_status u) = expected_state
       \<and> expected_state \<in> {Some PromotionFailed, Some Copying}
       \<and> upl_promotion_status_changed_at u \<le> t - stale_copying_age
   | IssuanceInput \<Rightarrow> upl_promotion_status u = Attached \<and> upl_purpose u = PurposeIssuance
       \<and> all_jobs_terminal_before d IssuanceInput (upl_id u) (t - window_of ''issuance_input'' t)
   | VerificationInput \<Rightarrow> upl_promotion_status u = Attached \<and> upl_purpose u = PurposeVerification
       \<and> all_jobs_terminal_before d VerificationInput (upl_id u) (t - window_of ''verification_input'' t)
   | IssuanceOutput \<Rightarrow> False
   | OrphanUpload \<Rightarrow> upl_created_at u \<le> t - window_of ''orphan_upload'' t)"

definition eligible_issuance :: "db \<Rightarrow> issuance \<Rightarrow> time \<Rightarrow> bool" where
  "eligible_issuance d i t =
     all_jobs_terminal_before d IssuanceOutput (iss_id i) (t - window_of ''issuance_output'' t)"

section \<open>Recording evidence\<close>

definition audit_failure :: "text_libs \<Rightarrow> uuid \<Rightarrow> audit_target \<Rightarrow> string \<Rightarrow> ('st world, unit) prog" where
  "audit_failure T organization target action =
     swallow (chain uuid4 (\<lambda>cid.
       record_system_event T organization action target OutcomeFailed cid
         (JObj [(''safe_error_code'', JStr ''STORAGE_DELETE_RETRY'')])))"

definition deletion_event ::
  "text_libs \<Rightarrow> user option \<Rightarrow> uuid \<Rightarrow> string \<Rightarrow> audit_target \<Rightarrow> uuid \<Rightarrow> ('st world, audit_event) prog" where
  "deletion_event T actor organization action target cid = (case actor of
     None \<Rightarrow> record_system_event T organization action target OutcomeSucceeded cid
       (JObj [(''status'', JStr ''deleted'')])
   | Some a \<Rightarrow> record_event T a action target OutcomeSucceeded cid (JObj [(''status'', JStr ''deleted'')]))"

fun upload_slot_value :: "evidence_slot \<Rightarrow> upload_request \<Rightarrow> time option" where
  "upload_slot_value OrphanSlot u = upl_orphan_deleted_at u"
| "upload_slot_value _ u = upl_promotion_target_deleted_at u"

definition set_upload_slot :: "evidence_slot \<Rightarrow> time \<Rightarrow> upload_request \<Rightarrow> upload_request" where
  "set_upload_slot slot t u = (if slot = OrphanSlot then u\<lparr>upl_orphan_deleted_at := Some t\<rparr>
     else u\<lparr>upl_promotion_target_deleted_at := Some t\<rparr>)"

text \<open>\<open>_record_deletion_evidence\<close> for an upload request and for an issuance.\<close>

definition record_upload_deletion ::
  "text_libs \<Rightarrow> upload_request \<Rightarrow> evidence_slot \<Rightarrow> string \<Rightarrow> time \<Rightarrow> uuid \<Rightarrow> user option \<Rightarrow> ('st world, bool) prog" where
  "record_upload_deletion T u slot action at_time cid actor = atomic (
     if upload_slot_value slot u \<noteq> None then ret False
     else (let u' = set_upload_slot slot at_time u in
       chain (save_upload True
                [if slot = OrphanSlot then UOrphanDeletedAt else UPromotionTargetDeletedAt] u') (\<lambda>_.
       chain (deletion_event T actor (upl_organization_id u) action (upload_target u) cid) (\<lambda>_.
       ret True))))"

definition record_output_deletion ::
  "text_libs \<Rightarrow> issuance \<Rightarrow> string \<Rightarrow> time \<Rightarrow> uuid \<Rightarrow> ('st world, bool) prog" where
  "record_output_deletion T i action at_time cid = atomic (
     if iss_output_deleted_at i \<noteq> None then ret False
     else (let i' = i\<lparr>iss_output_deleted_at := Some at_time\<rparr> in
       chain (save_issuance True [IOutputDeletedAt] i') (\<lambda>_.
       chain (deletion_event T None (iss_organization_id i) action (issuance_target i) cid) (\<lambda>_.
       ret True))))"

definition reconciliation_action :: "audit_outcome \<Rightarrow> string" where
  "reconciliation_action outcome = ''object.promotion.reconciliation.'' @ outcome_value outcome"

definition record_promotion_reconciliation ::
  "text_libs \<Rightarrow> upload_request \<Rightarrow> time \<Rightarrow> bool \<Rightarrow> string \<Rightarrow> ('st world, unit) prog" where
  "record_promotion_reconciliation T u at_time succeeded safe_error_code =
     (let at' = (case upl_promotion_target_reconciled_at u of None \<Rightarrow> at_time
                 | Some previous \<Rightarrow> if at_time < previous then previous else at_time);
          u' = u\<lparr>upl_promotion_target_reconciled_at := Some at'\<rparr>;
          outcome = (if succeeded then OutcomeSucceeded else OutcomeFailed);
          action = reconciliation_action outcome in
      chain (save_upload True [UPromotionTargetReconciledAt] u') (\<lambda>_.
      chain (exists_where audit_t (\<lambda>e. aud_organization_id e = upl_organization_id u
               \<and> aud_action e = action \<and> aud_target_type e = at_label (upload_target u)
               \<and> aud_target_id e = at_pk (upload_target u) \<and> aud_outcome e = outcome)) (\<lambda>already_reported.
      if already_reported then ret ()
      else chain uuid4 (\<lambda>cid.
        chain (record_system_event T (upl_organization_id u) action (upload_target u) outcome cid
                 (if succeeded then JObj [(''status'', JStr ''deleted'')]
                  else JObj [(''safe_error_code'', JStr safe_error_code)])) (\<lambda>_. ret ())))))"

section \<open>Deleting\<close>

definition delete_attached_orphan_source ::
  "text_libs \<Rightarrow> 'st storage_ops \<Rightarrow> user \<Rightarrow> uuid \<Rightarrow> uuid \<Rightarrow> ('st world, bool) prog" where
  "delete_attached_orphan_source T storage actor upload_id cid =
     chain now (\<lambda>at_time. atomic (
     chain (get_where uploads_t (\<lambda>u. upl_id u = upload_id
              \<and> upl_organization_id u = usr_organization_id actor
              \<and> upl_requested_by_id u = usr_id actor)) (\<lambda>u.
     if upl_orphan_deleted_at u \<noteq> None then ret False
     else
       chain (require (upl_promotion_status u = Attached)
                (ValueError ''orphan cleanup ownership state is invalid'')) (\<lambda>_.
       chain (require (upload_key_owned u OrphanUpload (upl_object_key u))
                (ValueError ''orphan cleanup key ownership is invalid'')) (\<lambda>_.
       chain (on_store (so_delete storage (upl_object_key u))) (\<lambda>_.
       record_upload_deletion T u OrphanSlot ''object.orphan.deleted'' at_time cid (Some actor)))))))"

definition delete_fenced_promotion_target :: "'st storage_ops \<Rightarrow> uuid \<Rightarrow> ('st world, bool) prog" where
  "delete_fenced_promotion_target storage upload_id = atomic (
     chain (get_row uploads_t upload_id) (\<lambda>u.
     if upl_promotion_target_deleted_at u = None then ret False
     else (case upl_promotion_target_key u of
       None \<Rightarrow> ret False
     | Some key \<Rightarrow>
         if key = [] \<or> \<not> upload_key_owned u StalePromotion key then ret False
         else chain (on_store (so_delete storage key)) (\<lambda>_. ret True))))"

text \<open>
  \<open>_delete_one\<close>: a row another transaction holds is skipped; the locked row is checked again
  before anything is deleted, and a failed deletion is only audited.
\<close>

fun upload_slot_key :: "cleanup_category \<Rightarrow> upload_request \<Rightarrow> string option" where
  "upload_slot_key OrphanUpload u = Some (upl_object_key u)"
| "upload_slot_key _ u = upl_promotion_target_key u"

definition delete_one_upload ::
  "text_libs \<Rightarrow> 'st storage_ops \<Rightarrow> candidate \<Rightarrow> time \<Rightarrow> ('st world, bool) prog" where
  "delete_one_upload T storage c t = atomic (
     chain (gets (\<lambda>w. if w_locked w (cd_pk c) then None
                     else lookup_by upl_id (cd_pk c) (db_uploads (w_db w)))) (\<lambda>found.
     chain (gets w_db) (\<lambda>d.
     case found of None \<Rightarrow> ret False
     | Some u \<Rightarrow>
         if upload_slot_value (slot_of (cd_category c)) u \<noteq> None
            \<or> \<not> eligible_upload d u (cd_category c) t (cd_expected_state c)
         then ret False
         else (case upload_slot_key (cd_category c) u of None \<Rightarrow> ret False
           | Some key \<Rightarrow>
               if key = [] \<or> \<not> upload_key_owned u (cd_category c) key then ret False
               else chain (attempt (chain (on_store (so_delete storage key)) (\<lambda>_. ret True))
                        (\<lambda>_. chain (audit_failure T (upl_organization_id u) (upload_target u)
                                (action_of (cd_category c) @ ''.failed'')) (\<lambda>_. ret False))) (\<lambda>deleted.
                 if deleted then chain uuid4 (\<lambda>cid.
                   record_upload_deletion T u (slot_of (cd_category c)) (action_of (cd_category c)) t cid None)
                 else ret False)))))"

definition delete_one_output ::
  "text_libs \<Rightarrow> 'st storage_ops \<Rightarrow> candidate \<Rightarrow> time \<Rightarrow> ('st world, bool) prog" where
  "delete_one_output T storage c t = atomic (
     chain (gets (\<lambda>w. if w_locked w (cd_pk c) then None
                     else lookup_by iss_id (cd_pk c) (db_issuances (w_db w)))) (\<lambda>found.
     chain (gets w_db) (\<lambda>d.
     case found of None \<Rightarrow> ret False
     | Some i \<Rightarrow>
         if iss_output_deleted_at i \<noteq> None \<or> \<not> eligible_issuance d i t then ret False
         else (case iss_output_object_key i of None \<Rightarrow> ret False
           | Some key \<Rightarrow>
               if key = [] \<or> \<not> issuance_key_owned i key then ret False
               else chain (attempt (chain (on_store (so_delete storage key)) (\<lambda>_. ret True))
                        (\<lambda>_. chain (audit_failure T (iss_organization_id i) (issuance_target i)
                                (action_of IssuanceOutput @ ''.failed'')) (\<lambda>_. ret False))) (\<lambda>deleted.
                 if deleted then chain uuid4 (\<lambda>cid.
                   record_output_deletion T i (action_of IssuanceOutput) t cid)
                 else ret False)))))"

definition delete_one :: "text_libs \<Rightarrow> 'st storage_ops \<Rightarrow> candidate \<Rightarrow> time \<Rightarrow> ('st world, bool) prog" where
  "delete_one T storage c t =
     (if cd_category c = IssuanceOutput then delete_one_output T storage c t
      else delete_one_upload T storage c t)"

section \<open>The ordinary lane\<close>

text \<open>The three \<open>Exists\<close> annotations of the candidate queries.\<close>

definition has_terminal :: "job list \<Rightarrow> bool" where
  "has_terminal jobs = list_ex (\<lambda>j. job_terminal (job_status j)) jobs"

definition has_nonterminal :: "job list \<Rightarrow> bool" where
  "has_nonterminal jobs = list_ex (\<lambda>j. \<not> job_terminal (job_status j)) jobs"

definition has_recent_terminal :: "job list \<Rightarrow> time \<Rightarrow> bool" where
  "has_recent_terminal jobs deadline =
     list_ex (\<lambda>j. job_terminal (job_status j) \<and> job_updated_at j > deadline) jobs"

definition stale_promotion_query :: "promotion_status \<Rightarrow> time \<Rightarrow> upload_request \<Rightarrow> bool" where
  "stale_promotion_query state t u \<longleftrightarrow> upl_promotion_status u = state
     \<and> upl_promotion_target_deleted_at u = None \<and> upl_promotion_target_key u \<noteq> None
     \<and> upl_promotion_status_changed_at u \<le> t - stale_copying_age"

definition input_query :: "db \<Rightarrow> cleanup_category \<Rightarrow> upload_purpose \<Rightarrow> time \<Rightarrow> upload_request \<Rightarrow> bool" where
  "input_query d category purpose deadline u \<longleftrightarrow> upl_promotion_status u = Attached
     \<and> upl_promotion_target_deleted_at u = None \<and> upl_purpose u = purpose
     \<and> (let jobs = related_jobs d category (upl_id u) in
          has_terminal jobs \<and> \<not> has_nonterminal jobs \<and> \<not> has_recent_terminal jobs deadline)"

definition output_query :: "db \<Rightarrow> time \<Rightarrow> issuance \<Rightarrow> bool" where
  "output_query d deadline i \<longleftrightarrow> iss_output_deleted_at i = None \<and> iss_output_object_key i \<noteq> None
     \<and> (let jobs = related_jobs d IssuanceOutput (iss_id i) in
          list_ex (\<lambda>j. job_status j = Succeeded) jobs \<and> \<not> has_nonterminal jobs
          \<and> \<not> has_recent_terminal jobs deadline)"

definition orphan_query :: "time \<Rightarrow> upload_request \<Rightarrow> bool" where
  "orphan_query t u \<longleftrightarrow> upl_orphan_deleted_at u = None
     \<and> upl_created_at u \<le> t - window_of ''orphan_upload'' t"

type_synonym attempted = "(evidence_slot \<times> uuid) list"

definition upload_candidates ::
  "db \<Rightarrow> attempted \<Rightarrow> cleanup_category \<Rightarrow> promotion_status option \<Rightarrow> (upload_request \<Rightarrow> bool) \<Rightarrow> candidate list" where
  "upload_candidates d excluded category expected P =
     map (\<lambda>u. \<lparr>cd_category = category, cd_pk = upl_id u, cd_expected_state = expected\<rparr>)
       (sort_key (\<lambda>u. (upl_created_at u, upl_id u))
         (filter (\<lambda>u. P u \<and> (slot_of category, upl_id u) \<notin> set excluded) (db_uploads d)))"

definition output_candidates :: "db \<Rightarrow> attempted \<Rightarrow> time \<Rightarrow> candidate list" where
  "output_candidates d excluded deadline =
     map (\<lambda>i. \<lparr>cd_category = IssuanceOutput, cd_pk = iss_id i, cd_expected_state = None\<rparr>)
       (sort_key (\<lambda>i. (iss_issued_at i, iss_id i))
         (filter (\<lambda>i. output_query d deadline i \<and> (OutputSlot, iss_id i) \<notin> set excluded) (db_issuances d)))"

text \<open>\<open>add\<close>: fill up to \<open>limit\<close> candidates.\<close>

definition add_candidates :: "nat \<Rightarrow> candidate list \<Rightarrow> candidate list \<Rightarrow> candidate list" where
  "add_candidates limit found acc = acc @ take (limit - length acc) found"

definition ordinary_candidates :: "db \<Rightarrow> time \<Rightarrow> nat \<Rightarrow> attempted \<Rightarrow> candidate list" where
  "ordinary_candidates d t limit excluded =
     (let c1 = add_candidates limit (upload_candidates d excluded StalePromotion (Some PromotionFailed)
                 (stale_promotion_query PromotionFailed t)) [];
          c2 = add_candidates limit (upload_candidates d excluded StalePromotion (Some Copying)
                 (stale_promotion_query Copying t)) c1;
          c3 = add_candidates limit (upload_candidates d excluded IssuanceInput None
                 (input_query d IssuanceInput PurposeIssuance (t - window_of ''issuance_input'' t))) c2;
          c4 = add_candidates limit (upload_candidates d excluded VerificationInput None
                 (input_query d VerificationInput PurposeVerification
                   (t - window_of ''verification_input'' t))) c3;
          c5 = add_candidates limit (output_candidates d excluded (t - window_of ''issuance_output'' t)) c4
      in add_candidates limit (upload_candidates d excluded OrphanUpload None (orphan_query t)) c5)"

section \<open>The schedule and the reconciliation lane\<close>

definition save_schedule :: "cleanup_schedule \<Rightarrow> ('st world, unit) prog" where
  "save_schedule s = save_schedule_row True s"

definition clear_claim :: "cleanup_schedule \<Rightarrow> cleanup_schedule" where
  "clear_claim s = s\<lparr>sch_claim_upload_id := None, sch_claim_token := None, sch_claim_expires_at := None\<rparr>"

definition get_schedule :: "('st world, cleanup_schedule) prog" where
  "get_schedule = get_row schedule_t 1"

definition reconciliation_pool :: "db \<Rightarrow> uuid list \<Rightarrow> upload_request list" where
  "reconciliation_pool d excluded = filter (\<lambda>u. upl_promotion_target_deleted_at u \<noteq> None
     \<and> upl_promotion_target_key u \<noteq> None \<and> upl_id u \<notin> set excluded) (db_uploads d)"

definition reconciliation_order :: "upload_request \<Rightarrow> time \<times> uuid" where
  "reconciliation_order u = (case upl_promotion_target_deleted_at u of
     None \<Rightarrow> (0, upl_id u) | Some t \<Rightarrow> (t, upl_id u))"

definition after_cursor :: "time \<Rightarrow> uuid \<Rightarrow> upload_request \<Rightarrow> bool" where
  "after_cursor cursor_at cursor_id u = (case upl_promotion_target_deleted_at u of
     None \<Rightarrow> False | Some t \<Rightarrow> t > cursor_at \<or> (t = cursor_at \<and> upl_id u > cursor_id))"

definition next_reconciliation_candidate ::
  "db \<Rightarrow> cleanup_schedule \<Rightarrow> uuid list \<Rightarrow> upload_request option" where
  "next_reconciliation_candidate d s excluded =
     (let pool = reconciliation_pool d excluded;
          wrap = first_by reconciliation_order pool in
      case (sch_cursor_at s, sch_cursor_id s) of
        (Some a, Some i) \<Rightarrow>
          (case first_by reconciliation_order (filter (after_cursor a i) pool) of
             Some u \<Rightarrow> Some u | None \<Rightarrow> wrap)
      | _ \<Rightarrow> wrap)"

record reconciliation_claim =
  rc_upload_id :: uuid
  rc_token :: uuid

record reconciliation_attempt =
  ra_succeeded :: bool
  ra_acknowledge :: bool
  ra_safe_error_code :: "string option"

text \<open>Release a claim whose upload is gone or is not fenced.\<close>

definition drop_claim :: "cleanup_schedule \<Rightarrow> 'a \<Rightarrow> ('st world, 'a) prog" where
  "drop_claim s r = chain (save_schedule (clear_claim s)) (\<lambda>_. ret r)"

text \<open>The claim to look at: a leased one that expired, or the next candidate.\<close>

definition claimable_upload :: "cleanup_schedule \<Rightarrow> time \<Rightarrow> db \<Rightarrow> uuid option" where
  "claimable_upload s lease_now d = (case sch_claim_upload_id s of
     Some upload_id \<Rightarrow>
       (case sch_claim_expires_at s of None \<Rightarrow> Some upload_id
        | Some expires \<Rightarrow> if expires > lease_now then None else Some upload_id)
   | None \<Rightarrow> map_option upl_id (next_reconciliation_candidate d s []))"

definition claim_reconciliation :: "('st world, reconciliation_claim option) prog" where
  "claim_reconciliation = atomic (
     chain get_schedule (\<lambda>s.
     chain now (\<lambda>lease_now.
     chain (gets (\<lambda>w. claimable_upload s lease_now (w_db w))) (\<lambda>chosen.
     case chosen of None \<Rightarrow> ret None
     | Some upload_id \<Rightarrow>
         chain (gets (\<lambda>w. lookup_by upl_id upload_id (db_uploads (w_db w)))) (\<lambda>found.
         case found of None \<Rightarrow> drop_claim s None
         | Some u \<Rightarrow>
             if upl_promotion_target_deleted_at u = None then drop_claim s None
             else chain uuid4 (\<lambda>token.
               chain (gets w_limits) (\<lambda>lim.
               chain (save_schedule (s\<lparr>sch_claim_upload_id := Some (upl_id u),
                        sch_claim_token := Some token,
                        sch_claim_expires_at :=
                          Some (lease_now + seconds (lim_reconciliation_lease_seconds lim)),
                        sch_has_run := True\<rparr>)) (\<lambda>_.
               ret (Some \<lparr>rc_upload_id = upl_id u, rc_token = token\<rparr>)))))))))"

definition attempt_result :: "bool \<Rightarrow> bool \<Rightarrow> string option \<Rightarrow> reconciliation_attempt" where
  "attempt_result succeeded acknowledge code =
     \<lparr>ra_succeeded = succeeded, ra_acknowledge = acknowledge, ra_safe_error_code = code\<rparr>"

definition attempt_reconciliation ::
  "'st storage_ops \<Rightarrow> reconciliation_claim \<Rightarrow> ('st world, reconciliation_attempt) prog" where
  "attempt_reconciliation storage c =
     chain (gets (\<lambda>w. lookup_by upl_id (rc_upload_id c) (db_uploads (w_db w)))) (\<lambda>found.
     case found of None \<Rightarrow> ret (attempt_result False True (Some ''MISSING_CLEANUP_OWNER''))
     | Some u \<Rightarrow>
         if upl_promotion_target_deleted_at u = None
         then ret (attempt_result False True (Some ''INELIGIBLE_CLEANUP_OWNER''))
         else (case upl_promotion_target_key u of
           None \<Rightarrow> ret (attempt_result False True (Some ''INVALID_CONTROLLED_KEY''))
         | Some key \<Rightarrow>
             if key = [] \<or> \<not> upload_key_owned u StalePromotion key
             then ret (attempt_result False True (Some ''INVALID_CONTROLLED_KEY''))
             else attempt (chain (on_store (so_delete storage key))
                      (\<lambda>_. ret (attempt_result True True None)))
                    (\<lambda>_. ret (attempt_result False False (Some ''STORAGE_DELETE_RETRY'')))))"

definition claim_matches :: "cleanup_schedule \<Rightarrow> reconciliation_claim \<Rightarrow> bool" where
  "claim_matches s c \<longleftrightarrow> sch_claim_upload_id s = Some (rc_upload_id c)
     \<and> sch_claim_token s = Some (rc_token c)"

definition observed_time :: "time \<Rightarrow> time \<Rightarrow> upload_request \<Rightarrow> time" where
  "observed_time at_time current u =
     max at_time (max current (case upl_promotion_target_reconciled_at u of None \<Rightarrow> at_time | Some r \<Rightarrow> r))"

text \<open>
  The common part of \<open>_ack_reconciliation\<close> and \<open>_record_claim_retry\<close>: only the holder of the
  current token writes; \<open>after\<close> is what becomes of the schedule.
\<close>

definition with_matching_claim ::
  "text_libs \<Rightarrow> reconciliation_claim \<Rightarrow> time \<Rightarrow> bool \<Rightarrow> string
     \<Rightarrow> (cleanup_schedule \<Rightarrow> upload_request \<Rightarrow> cleanup_schedule) \<Rightarrow> ('st world, bool) prog" where
  "with_matching_claim T c at_time succeeded code after = atomic (
     chain get_schedule (\<lambda>s.
     if \<not> claim_matches s c then ret False
     else chain (gets (\<lambda>w. lookup_by upl_id (rc_upload_id c) (db_uploads (w_db w)))) (\<lambda>found.
       case found of None \<Rightarrow> drop_claim s False
       | Some u \<Rightarrow>
           if upl_promotion_target_deleted_at u = None then drop_claim s False
           else chain now (\<lambda>current.
             chain (record_promotion_reconciliation T u (observed_time at_time current u) succeeded code) (\<lambda>_.
             chain (save_schedule (after s u)) (\<lambda>_.
             ret True))))))"

definition ack_reconciliation ::
  "text_libs \<Rightarrow> reconciliation_claim \<Rightarrow> time \<Rightarrow> bool \<Rightarrow> string option \<Rightarrow> ('st world, bool) prog" where
  "ack_reconciliation T c at_time succeeded code =
     with_matching_claim T c at_time succeeded
       (case code of None \<Rightarrow> ''STORAGE_DELETE_RETRY''
        | Some x \<Rightarrow> if x = [] then ''STORAGE_DELETE_RETRY'' else x)
       (\<lambda>s u. (clear_claim (s\<lparr>sch_cursor_at := upl_promotion_target_deleted_at u,
                 sch_cursor_id := Some (upl_id u)\<rparr>))\<lparr>sch_next_lane := LaneOrdinary, sch_has_run := True\<rparr>)"

definition record_claim_retry ::
  "text_libs \<Rightarrow> reconciliation_claim \<Rightarrow> time \<Rightarrow> string \<Rightarrow> ('st world, bool) prog" where
  "record_claim_retry T c at_time code =
     with_matching_claim T c at_time False code
       (\<lambda>s u. s\<lparr>sch_next_lane := LaneOrdinary, sch_has_run := True\<rparr>)"

definition preferred_lane :: "('st world, cleanup_lane) prog" where
  "preferred_lane = atomic (chain get_schedule (\<lambda>s. ret (sch_next_lane s)))"

definition mark_ordinary_attempt :: "('st world, unit) prog" where
  "mark_ordinary_attempt = atomic (chain get_schedule (\<lambda>s.
     save_schedule (s\<lparr>sch_next_lane := LaneReconciliation, sch_has_run := True\<rparr>)))"

section \<open>The cleanup loop\<close>

text \<open>
  Both lanes return their result; the ordinary lane also the grown set of attempted rows. The
  windows of the candidate queries refuse a time that is not UTC.
\<close>

definition run_ordinary_once ::
  "text_libs \<Rightarrow> 'st storage_ops \<Rightarrow> py_datetime \<Rightarrow> attempted \<Rightarrow> ('st world, (bool \<times> attempted) option) prog" where
  "run_ordinary_once T storage t attempted =
     chain (lift_sum (retention_deadline ''issuance_input'' t)) (\<lambda>_.
     chain (gets (\<lambda>w. ordinary_candidates (w_db w) (instant t) 1 attempted)) (\<lambda>candidates.
     case candidates of [] \<Rightarrow> ret None
     | c # _ \<Rightarrow>
         chain (delete_one T storage c (instant t)) (\<lambda>completed.
         chain mark_ordinary_attempt (\<lambda>_.
         ret (Some (completed, (slot_of (cd_category c), cd_pk c) # attempted))))))"

definition run_reconciliation_once :: "text_libs \<Rightarrow> 'st storage_ops \<Rightarrow> time \<Rightarrow> ('st world, bool) prog" where
  "run_reconciliation_once T storage t =
     chain claim_reconciliation (\<lambda>claim.
     case claim of None \<Rightarrow> ret False
     | Some c \<Rightarrow>
         chain (attempt_reconciliation storage c) (\<lambda>a.
         chain (if ra_acknowledge a
                then ack_reconciliation T c t (ra_succeeded a) (ra_safe_error_code a)
                else record_claim_retry T c t
                  (case ra_safe_error_code a of None \<Rightarrow> ''STORAGE_DELETE_RETRY''
                   | Some x \<Rightarrow> if x = [] then ''STORAGE_DELETE_RETRY'' else x)) (\<lambda>_.
         ret True)))"

text \<open>One turn of the loop: \<open>None\<close> is \<open>break\<close>.\<close>

definition cleanup_turn ::
  "text_libs \<Rightarrow> 'st storage_ops \<Rightarrow> py_datetime \<Rightarrow> attempted \<Rightarrow> ('st world, (nat \<times> attempted) option) prog" where
  "cleanup_turn T storage t attempted =
     (let ordinary = (\<lambda>otherwise. chain (run_ordinary_once T storage t attempted) (\<lambda>r.
            case r of None \<Rightarrow> otherwise
            | Some (completed, attempted') \<Rightarrow> ret (Some (if completed then 1 else 0, attempted'))));
          reconcile = (\<lambda>otherwise. chain (run_reconciliation_once T storage (instant t)) (\<lambda>ran.
            if ran then ret (Some (0, attempted)) else otherwise)) in
      chain preferred_lane (\<lambda>lane.
      if lane = LaneOrdinary then ordinary (reconcile (ret None))
      else reconcile (ordinary (ret None))))"

fun cleanup_loop ::
  "text_libs \<Rightarrow> 'st storage_ops \<Rightarrow> py_datetime \<Rightarrow> nat \<Rightarrow> attempted \<Rightarrow> nat \<Rightarrow> ('st world, nat) prog" where
  "cleanup_loop T storage t 0 attempted deleted = ret deleted"
| "cleanup_loop T storage t (Suc n) attempted deleted =
     chain (cleanup_turn T storage t attempted) (\<lambda>r.
     case r of None \<Rightarrow> ret deleted
     | Some (k, attempted') \<Rightarrow> cleanup_loop T storage t n attempted' (deleted + k))"

definition cleanup_expired ::
  "text_libs \<Rightarrow> 'st storage_ops \<Rightarrow> py_datetime option \<Rightarrow> json \<Rightarrow> ('st world, nat) prog" where
  "cleanup_expired T storage now_arg batch_size =
     chain (case now_arg of None \<Rightarrow> chain now (\<lambda>t. ret (Aware t 0)) | Some t \<Rightarrow> ret t) (\<lambda>t.
     chain (require (\<not> is_naive t) (ValueError ''cleanup time must be timezone-aware'')) (\<lambda>_.
     case batch_size of
       JInt n \<Rightarrow>
         chain (require (1 \<le> n \<and> n \<le> max_batch_size) (ValueError ''cleanup batch size is invalid'')) (\<lambda>_.
         cleanup_loop T storage t (nat n) [] 0)
     | _ \<Rightarrow> raise (ValueError ''cleanup batch size is invalid'')))"

section \<open>Candidates are what the locked check accepts\<close>

lemma all_jobs_terminal_before_iff:
  "all_jobs_terminal_before d category pk deadline \<longleftrightarrow>
     related_jobs d category pk \<noteq> []
     \<and> (\<forall>j\<in>set (related_jobs d category pk). job_terminal (job_status j) \<and> job_updated_at j \<le> deadline)
     \<and> (category = IssuanceOutput \<longrightarrow> (\<exists>j\<in>set (related_jobs d category pk). job_status j = Succeeded))"
proof -
  define jobs where "jobs = related_jobs d category pk"
  have latest: "(\<forall>j\<in>set jobs. job_updated_at j \<le> deadline) \<longleftrightarrow> job_updated_at l \<le> deadline"
    if "first_by (\<lambda>j. - job_updated_at j) jobs = Some l" for l
    using first_by_SomeD [OF that] by force
  show ?thesis
    unfolding all_jobs_terminal_before_def jobs_def [symmetric] Let_def
    using latest by (auto simp: list_ex_iff split: option.splits)
qed

lemma input_query_iff:
  assumes "category \<in> {IssuanceInput, VerificationInput}"
  shows "input_query d category purpose deadline u \<longleftrightarrow>
     upl_promotion_status u = Attached \<and> upl_promotion_target_deleted_at u = None
     \<and> upl_purpose u = purpose \<and> all_jobs_terminal_before d category (upl_id u) deadline"
  using assms
  by (auto simp: input_query_def all_jobs_terminal_before_iff has_terminal_def has_nonterminal_def
      has_recent_terminal_def list_ex_iff Let_def not_less)
     (metis list.set_intros(1) list.exhaust)+

lemma output_query_iff:
  "output_query d deadline i \<longleftrightarrow> iss_output_deleted_at i = None \<and> iss_output_object_key i \<noteq> None
     \<and> all_jobs_terminal_before d IssuanceOutput (iss_id i) deadline"
  by (auto simp: output_query_def all_jobs_terminal_before_iff has_nonterminal_def
      has_recent_terminal_def list_ex_iff Let_def not_less)

text \<open>
  What the queries of \<open>_ordinary_candidates\<close> select is a row whose slot is empty, which the
  re-check under the lock accepts and which was not attempted before.
\<close>

definition candidate_accepted :: "db \<Rightarrow> time \<Rightarrow> attempted \<Rightarrow> candidate \<Rightarrow> bool" where
  "candidate_accepted d t excluded c \<longleftrightarrow> (slot_of (cd_category c), cd_pk c) \<notin> set excluded \<and>
     (if cd_category c = IssuanceOutput
      then \<exists>i\<in>set (db_issuances d). iss_id i = cd_pk c \<and> iss_output_deleted_at i = None
             \<and> eligible_issuance d i t
      else \<exists>u\<in>set (db_uploads d). upl_id u = cd_pk c
             \<and> upload_slot_value (slot_of (cd_category c)) u = None
             \<and> eligible_upload d u (cd_category c) t (cd_expected_state c))"

lemma add_candidates_set: "c \<in> set (add_candidates n found acc) \<Longrightarrow> c \<in> set found \<or> c \<in> set acc"
  by (auto simp: add_candidates_def dest: in_set_takeD)

lemma upload_candidatesD:
  "c \<in> set (upload_candidates d excluded category expected P) \<Longrightarrow>
     cd_category c = category \<and> cd_expected_state c = expected \<and> (slot_of category, cd_pk c) \<notin> set excluded
     \<and> (\<exists>u\<in>set (db_uploads d). P u \<and> upl_id u = cd_pk c)"
  by (auto simp: upload_candidates_def)

lemma output_candidatesD:
  "c \<in> set (output_candidates d excluded deadline) \<Longrightarrow>
     cd_category c = IssuanceOutput \<and> (OutputSlot, cd_pk c) \<notin> set excluded
     \<and> (\<exists>i\<in>set (db_issuances d). output_query d deadline i \<and> iss_id i = cd_pk c)"
  by (auto simp: output_candidates_def)

lemma accepted_upload:
  assumes "c \<in> set (upload_candidates d excluded category expected P)"
    and "\<And>u. P u \<Longrightarrow> upload_slot_value (slot_of category) u = None
        \<and> eligible_upload d u category t expected"
    and "category \<noteq> IssuanceOutput"
  shows "candidate_accepted d t excluded c"
  using upload_candidatesD [OF assms(1)] assms(2,3) by (auto simp: candidate_accepted_def)

lemma accepted_output:
  assumes "c \<in> set (output_candidates d excluded (t - window_of ''issuance_output'' t))"
  shows "candidate_accepted d t excluded c"
  using output_candidatesD [OF assms]
  by (auto simp: candidate_accepted_def output_query_iff eligible_issuance_def)

lemma ordinary_candidates_accepted:
  assumes "c \<in> set (ordinary_candidates d t limit excluded)"
  shows "candidate_accepted d t excluded c"
proof -
  from assms consider
      "c \<in> set (upload_candidates d excluded StalePromotion (Some PromotionFailed)
         (stale_promotion_query PromotionFailed t))"
    | "c \<in> set (upload_candidates d excluded StalePromotion (Some Copying)
         (stale_promotion_query Copying t))"
    | "c \<in> set (upload_candidates d excluded IssuanceInput None
         (input_query d IssuanceInput PurposeIssuance (t - window_of ''issuance_input'' t)))"
    | "c \<in> set (upload_candidates d excluded VerificationInput None
         (input_query d VerificationInput PurposeVerification (t - window_of ''verification_input'' t)))"
    | "c \<in> set (output_candidates d excluded (t - window_of ''issuance_output'' t))"
    | "c \<in> set (upload_candidates d excluded OrphanUpload None (orphan_query t))"
    unfolding ordinary_candidates_def Let_def
    by (elim add_candidates_set [THEN disjE]) simp_all
  then show ?thesis
    by cases ((rule accepted_output, assumption) | (erule accepted_upload,
      auto simp: stale_promotion_query_def input_query_iff orphan_query_def eligible_upload_def))+
qed

lemma add_candidates_bounded: "length acc \<le> n \<Longrightarrow> length (add_candidates n found acc) \<le> n"
  by (simp add: add_candidates_def)

lemma ordinary_candidates_bounded: "length (ordinary_candidates d t limit excluded) \<le> limit"
  unfolding ordinary_candidates_def Let_def by (intro add_candidates_bounded) simp

section \<open>What a deletion did\<close>

lemma deletion_event_wp:
  "wp (deletion_event T actor org action target cid)
     (\<lambda>e w'. w_db w' = (w_db w)\<lparr>db_audit := db_audit (w_db w) @ [e]\<rparr> \<and> w_store w' = w_store w
        \<and> aud_outcome e = OutcomeSucceeded \<and> aud_action e = action
        \<and> aud_target_type e = at_label target \<and> aud_target_id e = at_pk target)
     (\<lambda>_ w'. w_db w' = w_db w \<and> w_store w' = w_store w) w"
  unfolding deletion_event_def
  by (intro wp_intros wp_mono [OF record_event_wp] wp_mono [OF record_system_event_wp]) auto

lemma audit_failure_wp:
  "wp (audit_failure T org target action)
     (\<lambda>_ w'. w_store w' = w_store w \<and> (w_db w' = w_db w
        \<or> audited (\<lambda>e. aud_outcome e = OutcomeFailed \<and> aud_action e = action) (w_db w) (w_db w')))
     (\<lambda>_ _. False) w"
  unfolding audit_failure_def
  by (intro wp_intros wp_mono [OF record_system_event_wp]) (auto simp: audited_def)

definition slot_column :: "evidence_slot \<Rightarrow> upload_field" where
  "slot_column slot = (if slot = OrphanSlot then UOrphanDeletedAt else UPromotionTargetDeletedAt)"

lemma merge_slot: "merge_upload [slot_column slot] (set_upload_slot slot t u) = set_upload_slot slot t"
  by (rule ext) (simp add: merge_upload_def slot_column_def set_upload_slot_def)

lemma set_upload_slot_simps [simp]:
  "upl_id (set_upload_slot slot t u) = upl_id u"
  "upload_slot_value slot (set_upload_slot slot t u) = Some t"
  by (cases slot; simp add: set_upload_slot_def)+

text \<open>The tombstone and its audit event are written together.\<close>

definition upload_tombstoned :: "upload_request \<Rightarrow> evidence_slot \<Rightarrow> string \<Rightarrow> time \<Rightarrow> db \<Rightarrow> db \<Rightarrow> bool" where
  "upload_tombstoned u slot action t d d' \<longleftrightarrow> upload_slot_value slot u = None
     \<and> (\<exists>e. d' = d\<lparr>db_uploads := update_by upl_id (upl_id u) (set_upload_slot slot t) (db_uploads d),
              db_audit := db_audit d @ [e]\<rparr>
          \<and> aud_outcome e = OutcomeSucceeded \<and> aud_action e = action
          \<and> aud_target_id e = uuid_str (upl_id u))"

lemma slot_column_safe: "slot_column slot \<notin> protected_fields" "slot_column slot \<noteq> UFinalizedAt"
  by (simp_all add: slot_column_def protected_fields_def)

lemma save_slot_wp:
  "wp (save_upload True [slot_column slot] (set_upload_slot slot t u))
     (\<lambda>_ w'. w' = w\<lparr>w_db := (w_db w)\<lparr>db_uploads :=
        update_by upl_id (upl_id u) (set_upload_slot slot t) (db_uploads (w_db w))\<rparr>\<rparr>)
     (\<lambda>_ w'. w' = w) w"
proof (rule wp_mono [OF save_upload_evolves])
  show "set [slot_column slot] \<inter> protected_fields = {}" by (simp add: slot_column_safe)
  fix p
  assume "UFinalizedAt \<in> set [slot_column slot]"
  then show "set_once (upl_finalized_at p) (upl_finalized_at (set_upload_slot slot t u))"
    using slot_column_safe(2) [of slot] by simp
qed (simp_all add: merge_slot)

lemma record_upload_deletion_wp:
  "wp (record_upload_deletion T u slot action t cid actor)
     (\<lambda>b w'. w_store w' = w_store w
        \<and> (if b then upload_tombstoned u slot action t (w_db w) (w_db w')
           else upload_slot_value slot u \<noteq> None \<and> w_db w' = w_db w))
     (\<lambda>_ w'. w_db w' = w_db w \<and> w_store w' = w_store w) w"
  unfolding record_upload_deletion_def slot_column_def [symmetric] upload_tombstoned_def
  by (intro wp_intros wp_mono [OF save_slot_wp] wp_mono [OF deletion_event_wp])
     (auto simp: upload_target_def)

definition output_tombstoned :: "issuance \<Rightarrow> time \<Rightarrow> db \<Rightarrow> db \<Rightarrow> bool" where
  "output_tombstoned i t d d' \<longleftrightarrow> iss_output_deleted_at i = None
     \<and> (\<exists>e. d' = d\<lparr>db_issuances := update_by iss_id (iss_id i)
                   (\<lambda>r. r\<lparr>iss_output_deleted_at := Some t\<rparr>) (db_issuances d),
              db_audit := db_audit d @ [e]\<rparr>
          \<and> aud_outcome e = OutcomeSucceeded \<and> aud_action e = action_of IssuanceOutput
          \<and> aud_target_id e = uuid_str (iss_id i))"

lemma merge_tombstone:
  "merge_issuance [IOutputDeletedAt] (i\<lparr>iss_output_deleted_at := x\<rparr>) = (\<lambda>r. r\<lparr>iss_output_deleted_at := x\<rparr>)"
  by (rule ext) (simp add: merge_issuance_def)

lemma record_output_deletion_wp:
  "wp (record_output_deletion T i (action_of IssuanceOutput) t cid)
     (\<lambda>b w'. w_store w' = w_store w
        \<and> (if b then output_tombstoned i t (w_db w) (w_db w')
           else iss_output_deleted_at i \<noteq> None \<and> w_db w' = w_db w))
     (\<lambda>_ w'. w_db w' = w_db w \<and> w_store w' = w_store w) w"
  unfolding record_output_deletion_def output_tombstoned_def
  by (intro wp_intros wp_mono [OF save_issuance_wp] wp_mono [OF deletion_event_wp])
     (auto simp: merge_tombstone issuance_target_def)

text \<open>
  The object that an ordinary deletion may remove: that of the locked row, when the row is eligible, its slot is empty
  and the key is its own.
\<close>

definition deletable_upload :: "candidate \<Rightarrow> time \<Rightarrow> db \<Rightarrow> upload_request \<Rightarrow> string \<Rightarrow> bool" where
  "deletable_upload c t d u key \<longleftrightarrow> lookup_by upl_id (cd_pk c) (db_uploads d) = Some u
     \<and> upload_slot_value (slot_of (cd_category c)) u = None
     \<and> eligible_upload d u (cd_category c) t (cd_expected_state c)
     \<and> upload_slot_key (cd_category c) u = Some key \<and> upload_key_owned u (cd_category c) key"

definition deletable_output :: "candidate \<Rightarrow> time \<Rightarrow> db \<Rightarrow> issuance \<Rightarrow> string \<Rightarrow> bool" where
  "deletable_output c t d i key \<longleftrightarrow> lookup_by iss_id (cd_pk c) (db_issuances d) = Some i
     \<and> iss_output_deleted_at i = None \<and> eligible_issuance d i t
     \<and> iss_output_object_key i = Some key \<and> issuance_key_owned i key"

definition deletable_object :: "candidate \<Rightarrow> time \<Rightarrow> db \<Rightarrow> string \<Rightarrow> bool" where
  "deletable_object c t d key \<longleftrightarrow> (if cd_category c = IssuanceOutput
     then \<exists>i. deletable_output c t d i key else \<exists>u. deletable_upload c t d u key)"

text \<open>
  \<open>True\<close>: the object is gone and the tombstone is written. \<open>False\<close>: nothing was tried, or the store
  raised, which the audit log tells when it can; the object may then be there or not. An exception: the same, with
  the database rolled back.
\<close>

definition object_deleted ::
  "('st \<Rightarrow> string \<Rightarrow> object_metadata option) \<Rightarrow> ('st \<Rightarrow> string \<Rightarrow> bytes option) \<Rightarrow> candidate \<Rightarrow> time
     \<Rightarrow> 'st world \<Rightarrow> 'st world \<Rightarrow> bool" where
  "object_deleted stored content c t w w' \<longleftrightarrow> (\<exists>key. removed_only stored content key (w_store w) (w_store w') \<and>
     (if cd_category c = IssuanceOutput
      then \<exists>i. deletable_output c t (w_db w) i key \<and> output_tombstoned i t (w_db w) (w_db w')
      else \<exists>u. deletable_upload c t (w_db w) u key
         \<and> upload_tombstoned u (slot_of (cd_category c)) (action_of (cd_category c)) t (w_db w) (w_db w')))"

definition deletion_attempted ::
  "('st \<Rightarrow> string \<Rightarrow> object_metadata option) \<Rightarrow> ('st \<Rightarrow> string \<Rightarrow> bytes option) \<Rightarrow> candidate \<Rightarrow> time
     \<Rightarrow> 'st world \<Rightarrow> 'st world \<Rightarrow> bool" where
  "deletion_attempted stored content c t w w' \<longleftrightarrow>
     (\<exists>key. deletable_object c t (w_db w) key \<and> touches_only stored content key (w_store w) (w_store w'))"

definition nothing_recorded :: "candidate \<Rightarrow> db \<Rightarrow> db \<Rightarrow> bool" where
  "nothing_recorded c d d' \<longleftrightarrow> d' = d
     \<or> audited (\<lambda>e. aud_outcome e = OutcomeFailed \<and> aud_action e = action_of (cd_category c) @ ''.failed'') d d'"

context object_storage
begin

lemma delete_wp:
  "wp (so_delete ops k) (\<lambda>_ st'. removed_only stored content k st st') (\<lambda>_ st'. touches_only stored content k st st') st"
  by (auto simp: wp_def removed_only_def touches_only_def split: prod.splits sum.splits
      dest: delete_exact delete_frame)

lemma delete_one_wp:
  "wp (delete_one T ops c t)
     (\<lambda>b w'. if b then object_deleted stored content c t w w'
        else (w_db w' = w_db w \<and> w_store w' = w_store w)
          \<or> (deletion_attempted stored content c t w w' \<and> nothing_recorded c (w_db w) (w_db w')))
     (\<lambda>_ w'. w_db w' = w_db w \<and> deletion_attempted stored content c t w w') w"
proof (cases "cd_category c = IssuanceOutput")
  case True
  then show ?thesis
    unfolding delete_one_def delete_one_output_def
    by (simp, intro wp_intros wp_mono [OF delete_wp] wp_mono [OF audit_failure_wp] wp_mono [OF record_output_deletion_wp])
       (auto simp: object_deleted_def deletion_attempted_def nothing_recorded_def deletable_object_def
          deletable_output_def dest: removed_touches split: if_splits)
next
  case False
  then show ?thesis
    unfolding delete_one_def delete_one_upload_def
    by (simp, intro wp_intros wp_mono [OF delete_wp] wp_mono [OF audit_failure_wp] wp_mono [OF record_upload_deletion_wp])
       (auto simp: object_deleted_def deletion_attempted_def nothing_recorded_def deletable_object_def
          deletable_upload_def dest: removed_touches split: if_splits)
qed

end

section \<open>The lease\<close>

lemma save_schedule_wp:
  "wp (save_schedule s)
     (\<lambda>_ w'. w' = w\<lparr>w_db := (w_db w)\<lparr>db_schedule :=
          update_by sch_id (sch_id s) (\<lambda>_. s) (db_schedule (w_db w))\<rparr>\<rparr> \<and> sch_id s = 1
        \<and> (lookup_by sch_id (sch_id s) (db_schedule (w_db w)) \<noteq> None \<longrightarrow> schedule_ok (w_db w) s))
     (\<lambda>_ w'. w' = w) w"
  unfolding save_schedule_def save_schedule_row_def by (intro wp_intros) auto

definition lease_live :: "cleanup_schedule \<Rightarrow> time \<Rightarrow> bool" where
  "lease_live s t \<longleftrightarrow> sch_claim_upload_id s \<noteq> None
     \<and> (case sch_claim_expires_at s of None \<Rightarrow> False | Some e \<Rightarrow> t < e)"

lemma lookup_update_const:
  "sch_id s' = k \<Longrightarrow> lookup_by sch_id k (update_by sch_id k (\<lambda>_. s') rows) =
     map_option (\<lambda>_. s') (lookup_by sch_id k rows)"
  by (induction rows) (auto simp: lookup_by_def update_by_def)

lemma lookup_self: "lookup_by key k rows = Some r \<Longrightarrow> lookup_by key (key r) rows = Some r"
  by (auto dest: lookup_by_key)

text \<open>
  A claim is only handed out when no other is live, for a fenced upload, with a fresh token, and
  is live for the configured time; while a lease is live nothing is claimed or written.
\<close>

definition claim_granted :: "reconciliation_claim \<Rightarrow> 'st world \<Rightarrow> 'st world \<Rightarrow> bool" where
  "claim_granted c w w' \<longleftrightarrow> (\<exists>s u s'. lookup_by sch_id 1 (db_schedule (w_db w)) = Some s
     \<and> \<not> lease_live s (w_clock w (w_tick w))
     \<and> lookup_by upl_id (rc_upload_id c) (db_uploads (w_db w)) = Some u
     \<and> upl_promotion_target_deleted_at u \<noteq> None
     \<and> rc_token c = w_uuids w (w_uuid_tick w)
     \<and> lookup_by sch_id 1 (db_schedule (w_db w')) = Some s' \<and> claim_matches s' c
     \<and> sch_claim_expires_at s' = Some (w_clock w (w_tick w)
          + seconds (lim_reconciliation_lease_seconds (w_limits w)))
     \<and> sch_cursor_at s' = sch_cursor_at s \<and> sch_cursor_id s' = sch_cursor_id s
     \<and> (\<exists>rs. w_db w' = (w_db w)\<lparr>db_schedule := rs\<rparr>))"

lemma claim_reconciliation_wp:
  "wp claim_reconciliation
     (\<lambda>r w'. w_store w' = w_store w \<and> (case r of
        Some c \<Rightarrow> claim_granted c w w'
      | None \<Rightarrow> (\<exists>s. lookup_by sch_id 1 (db_schedule (w_db w)) = Some s
           \<and> (lease_live s (w_clock w (w_tick w)) \<longrightarrow> w_db w' = w_db w))))
     (\<lambda>_ w'. w_db w' = w_db w \<and> w_store w' = w_store w) w"
  unfolding claim_reconciliation_def get_schedule_def drop_claim_def claimable_upload_def
  by (intro wp_intros wp_mono [OF save_schedule_wp])
     (auto simp: claim_granted_def lease_live_def claim_matches_def lookup_update_const
       split: option.splits if_splits intro: lookup_self)

text \<open>
  Only the holder of the current token can acknowledge: with any other claim nothing is written.
  An acknowledgement moves the cursor to the row it was for, frees the lease and gives the next
  turn to the other lane; a retry keeps the lease and the cursor.
\<close>

lemma record_promotion_reconciliation_wp:
  "wp (record_promotion_reconciliation T u t succeeded code)
     (\<lambda>_ w'. w_store w' = w_store w \<and> db_schedule (w_db w') = db_schedule (w_db w)
        \<and> db_evolves (w_db w) (w_db w'))
     (\<lambda>_ w'. db_evolves (w_db w) (w_db w')) w"
  unfolding record_promotion_reconciliation_def Let_def
  by (intro wp_intros wp_mono [OF save_upload_evolves] wp_mono [OF record_system_event_wp])
     (auto simp: protected_fields_def intro: db_evolves_uploads [OF _ db_evolves_refl]
       db_evolves_prefixes)

definition token_write ::
  "reconciliation_claim \<Rightarrow> (cleanup_schedule \<Rightarrow> upload_request \<Rightarrow> cleanup_schedule) \<Rightarrow> db \<Rightarrow> bool \<Rightarrow> db \<Rightarrow> bool" where
  "token_write c after d done d' \<longleftrightarrow> (\<exists>s. lookup_by sch_id 1 (db_schedule d) = Some s \<and>
     (if \<not> claim_matches s c then \<not> done \<and> d' = d
      else if done then (\<exists>u. lookup_by upl_id (rc_upload_id c) (db_uploads d) = Some u
          \<and> upl_promotion_target_deleted_at u \<noteq> None
          \<and> lookup_by sch_id 1 (db_schedule d') = Some (after s u))
      else lookup_by sch_id 1 (db_schedule d') = Some (clear_claim s)))"

lemma with_matching_claim_wp:
  assumes "\<And>s u. sch_id (after s u) = sch_id s"
  shows "wp (with_matching_claim T c t succeeded code after)
     (\<lambda>b w'. w_store w' = w_store w \<and> token_write c after (w_db w) b (w_db w'))
     (\<lambda>_ w'. w_db w' = w_db w) w"
  unfolding with_matching_claim_def get_schedule_def drop_claim_def
  by (intro wp_intros wp_mono [OF save_schedule_wp] wp_mono [OF record_promotion_reconciliation_wp])
     (use assms in \<open>auto simp: token_write_def lookup_update_const clear_claim_def\<close>)

section \<open>Retention in the evolution of the database\<close>

lemma g_save_schedule: "guarantees evolves (save_schedule s)"
  by (rule guaranteesI, rule wp_mono [OF save_schedule_wp]) (auto intro: db_evolves_intros)

lemma g_audit_failure: "guarantees evolves (audit_failure T org target action)"
  unfolding audit_failure_def by (intro evolution.g_intros g_world)

lemma g_deletion_event: "guarantees evolves (deletion_event T actor org action target cid)"
  unfolding deletion_event_def by (intro evolution.g_intros g_world)

lemma g_save_slot: "guarantees evolves (save_upload True [if slot = OrphanSlot then UOrphanDeletedAt
    else UPromotionTargetDeletedAt] u)"
  by (rule g_save_upload) (auto simp: protected_fields_def)

lemma g_record_upload_deletion: "guarantees evolves (record_upload_deletion T u slot action t cid actor)"
  unfolding record_upload_deletion_def Let_def
  by (intro evolution.g_intros g_world g_save_slot g_deletion_event)

lemma g_record_output_deletion: "guarantees evolves (record_output_deletion T i action t cid)"
  unfolding record_output_deletion_def Let_def
  by (intro evolution.g_intros g_world g_deletion_event)

lemma g_delete_one: "guarantees evolves (delete_one T storage c t)"
  unfolding delete_one_def delete_one_upload_def delete_one_output_def
  by (intro evolution.g_intros g_world g_audit_failure g_record_upload_deletion g_record_output_deletion)

lemma g_delete_orphan: "guarantees evolves (delete_attached_orphan_source T storage actor upload_id cid)"
  unfolding delete_attached_orphan_source_def
  by (intro evolution.g_intros g_world g_record_upload_deletion)

lemma g_delete_fenced: "guarantees evolves (delete_fenced_promotion_target storage upload_id)"
  unfolding delete_fenced_promotion_target_def by (intro evolution.g_intros g_world)

lemma g_record_promotion_reconciliation:
  "guarantees evolves (record_promotion_reconciliation T u t succeeded code)"
  by (rule guaranteesI, rule wp_mono [OF record_promotion_reconciliation_wp]) auto

lemma g_claim_reconciliation: "guarantees evolves claim_reconciliation"
  unfolding claim_reconciliation_def get_schedule_def drop_claim_def
  by (intro evolution.g_intros g_world g_save_schedule)

lemma g_attempt_reconciliation: "guarantees evolves (attempt_reconciliation storage c)"
  unfolding attempt_reconciliation_def by (intro evolution.g_intros g_world)

lemma g_with_matching_claim: "guarantees evolves (with_matching_claim T c t b code after)"
  unfolding with_matching_claim_def get_schedule_def drop_claim_def
  by (intro evolution.g_intros g_world g_save_schedule g_record_promotion_reconciliation)

lemma g_ordinary_once: "guarantees evolves (run_ordinary_once T storage t attempted)"
  unfolding run_ordinary_once_def mark_ordinary_attempt_def get_schedule_def
  by (intro evolution.g_intros g_world g_save_schedule g_delete_one)
     (auto split: list.splits intro!: evolution.g_intros g_world g_save_schedule g_delete_one)

lemma g_reconciliation_once: "guarantees evolves (run_reconciliation_once T storage t)"
  unfolding run_reconciliation_once_def ack_reconciliation_def record_claim_retry_def
  by (intro evolution.g_intros g_claim_reconciliation g_attempt_reconciliation g_with_matching_claim)

lemma g_cleanup_turn: "guarantees evolves (cleanup_turn T storage t attempted)"
  unfolding cleanup_turn_def preferred_lane_def get_schedule_def Let_def
  by (intro evolution.g_intros g_world g_ordinary_once g_reconciliation_once)
     (auto intro!: evolution.g_intros g_world g_ordinary_once g_reconciliation_once)

lemma g_cleanup_loop: "guarantees evolves (cleanup_loop T storage t n attempted deleted)"
  by (induction n arbitrary: attempted deleted)
     (auto intro!: evolution.g_intros g_cleanup_turn split: option.splits)

lemma g_cleanup_expired: "guarantees evolves (cleanup_expired T storage now_arg batch_size)"
  unfolding cleanup_expired_def
  by (intro evolution.g_intros g_world g_cleanup_loop)
     (auto intro!: evolution.g_intros g_cleanup_loop split: json.splits)

section \<open>Bounded work\<close>

lemma cleanup_turn_bound:
  "wp (cleanup_turn T storage t attempted)
     (\<lambda>r _. case r of None \<Rightarrow> True | Some (k, _) \<Rightarrow> k \<le> 1) (\<lambda>_ _. True) w"
proof -
  have any: "wp m (\<lambda>x v. wp (k x) Q (\<lambda>_ _. True) v) (\<lambda>_ _. True) v"
    if "\<And>x u. wp (k x) Q (\<lambda>_ _. True) u" for m :: "('a world, 'b) prog" and k :: "'b \<Rightarrow> ('a world, 'c) prog" and Q v
    using that by (simp add: wp_def split: prod.splits sum.splits)
  show ?thesis
    unfolding cleanup_turn_def Let_def wp_chain
    by (intro any wp_intros; simp add: wp_simps any split: option.splits prod.splits)
qed

lemma cleanup_loop_bound:
  "wp (cleanup_loop T storage t n attempted deleted)
     (\<lambda>k _. deleted \<le> k \<and> k \<le> deleted + n) (\<lambda>_ _. True) w"
proof (induction n arbitrary: attempted deleted w)
  case 0
  then show ?case by (simp add: wp_simps)
next
  case (Suc n)
  show ?case
    unfolding cleanup_loop.simps
    by (intro wp_intros wp_mono [OF cleanup_turn_bound] wp_mono [OF Suc.IH])
       (auto split: option.splits)
qed

section \<open>Every fenced target gets its turn\<close>

text \<open>
  The turns of a round over sorted keys: the next one is the first after the cursor, or the first of all.
\<close>

definition next_turn :: "'a::linorder list \<Rightarrow> 'a option \<Rightarrow> 'a option" where
  "next_turn ks c = (case (case c of None \<Rightarrow> [] | Some k \<Rightarrow> filter (\<lambda>x. k < x) ks) of
     x # _ \<Rightarrow> Some x | [] \<Rightarrow> (case ks of [] \<Rightarrow> None | x # _ \<Rightarrow> Some x))"

fun turns :: "'a::linorder list \<Rightarrow> 'a option \<Rightarrow> nat \<Rightarrow> 'a list" where
  "turns ks c 0 = []"
| "turns ks c (Suc n) = (case next_turn ks c of None \<Rightarrow> [] | Some x \<Rightarrow> x # turns ks (Some x) n)"

lemma turns_ahead:
  assumes "sorted_wrt (<) (ys @ zs)" "\<forall>y\<in>set ys. y \<le> k" "\<forall>z\<in>set zs. k < z" "n \<le> length zs"
  shows "turns (ys @ zs) (Some k) n = take n zs"
  using assms
proof (induction n arbitrary: ys zs k)
  case (Suc n)
  then obtain z zs' where z: "zs = z # zs'" by (cases zs) auto
  have "filter (\<lambda>x. k < x) (ys @ zs) = zs"
    using Suc.prems by (auto simp: filter_empty_conv not_less filter_id_conv)
  then have nx: "next_turn (ys @ zs) (Some k) = Some z" using z by (simp add: next_turn_def)
  have "\<forall>y\<in>set (ys @ [z]). y \<le> z" "\<forall>x\<in>set zs'. z < x"
    using Suc.prems(1) z by (auto simp: sorted_wrt_append intro: less_imp_le)
  from Suc.IH [of "ys @ [z]" zs', OF _ this] Suc.prems(1,4) z nx show ?case by simp
qed simp

lemma turns_from_start:
  assumes "sorted_wrt (<) ks" "n \<le> length ks" "c = None \<or> (\<exists>k. c = Some k \<and> (\<forall>x\<in>set ks. x \<le> k))"
  shows "turns ks c n = take n ks"
proof (cases n)
  case (Suc m)
  then obtain x xs where ks: "ks = x # xs" using assms(2) by (cases ks) auto
  have "filter (\<lambda>x. k < x) ks = []" if "\<forall>x\<in>set ks. x \<le> k" for k
    using that by (auto simp: filter_empty_conv not_less)
  then have "next_turn ks c = Some x"
    using assms(3) ks by (auto simp: next_turn_def)
  moreover have "turns ks (Some x) m = take m xs"
    using turns_ahead [of "[x]" xs x m] assms(1,2) ks Suc by auto
  ultimately show ?thesis using ks Suc by simp
qed simp

lemma turns_append:
  assumes "turns ks c m = xs @ [x]" "length (xs @ [x]) = m"
  shows "turns ks c (m + n) = turns ks c m @ turns ks (Some x) n"
  using assms
proof (induction m arbitrary: c xs)
  case (Suc m)
  then obtain y where y: "next_turn ks c = Some y" by (cases "next_turn ks c") auto
  show ?case
  proof (cases xs)
    case Nil
    with Suc.prems y show ?thesis by simp
  next
    case (Cons z zs)
    with Suc.prems y Suc.IH [of "Some y" zs] show ?thesis by auto
  qed
qed simp

lemma sorted_split:
  "sorted_wrt (<) xs \<Longrightarrow> xs = filter (\<lambda>u. u \<le> k) xs @ filter (\<lambda>u. k < u) xs" for k :: "'a::linorder"
proof (induction xs)
  case (Cons x xs)
  show ?case
  proof (cases "x \<le> k")
    case False
    then have "\<forall>y\<in>set (x # xs). k < y" using Cons.prems by (auto intro: less_trans)
    then have "filter (\<lambda>u. u \<le> k) (x # xs) = []" "filter (\<lambda>u. k < u) (x # xs) = x # xs"
      by (auto simp: filter_empty_conv filter_id_conv not_le)
    then show ?thesis by simp
  qed (use Cons in auto)
qed simp

lemma turns_rotation:
  assumes sorted: "sorted_wrt (<) ks"
  shows "\<exists>ys zs. ks = ys @ zs \<and> turns ks c (length ks) = zs @ ys"
proof (cases c)
  case None
  then have "turns ks c (length ks) = ks" using turns_from_start [OF sorted, of "length ks" c] by simp
  then show ?thesis by (intro exI [of _ "[]"] exI [of _ ks]) simp
next
  case (Some k)
  define ys where "ys = filter (\<lambda>u. u \<le> k) ks"
  define zs where "zs = filter (\<lambda>u. k < u) ks"
  have split: "ks = ys @ zs" unfolding ys_def zs_def by (rule sorted_split [OF sorted])
  have bounds: "\<forall>y\<in>set ys. y \<le> k" "\<forall>z\<in>set zs. k < z" by (simp_all add: ys_def zs_def)
  have ahead: "turns ks (Some k) (length zs) = zs"
    using turns_ahead [of ys zs k "length zs"] sorted bounds by (simp add: split)
  have behind: "turns ks (Some x) (length ys) = ys" if "\<forall>y\<in>set ks. y \<le> x" for x
    using turns_from_start [OF sorted, of "length ys" "Some x"] that split by simp
  have "turns ks c (length ks) = zs @ ys"
  proof (cases zs rule: rev_cases)
    case Nil
    then have "\<forall>y\<in>set ks. y \<le> k" using bounds by (simp add: split)
    from behind [OF this] Nil Some show ?thesis by (simp add: split)
  next
    case (snoc xs x)
    have "\<forall>y\<in>set ks. y \<le> x"
      using sorted split snoc by (auto simp: sorted_wrt_append intro: less_imp_le)
    from behind [OF this] turns_append [of ks "Some k" "length zs" xs x "length ys"] ahead snoc split Some
    show ?thesis by (simp add: add.commute)
  qed
  with split show ?thesis by blast
qed

text \<open>The keys of the fenced targets, by deletion time and id, and the cursor of a schedule.\<close>

definition fenced_keys :: "db \<Rightarrow> (time \<times> uuid) list" where
  "fenced_keys d = sort (map reconciliation_order (reconciliation_pool d []))"

definition cursor_of :: "cleanup_schedule \<Rightarrow> (time \<times> uuid) option" where
  "cursor_of s = (case (sch_cursor_at s, sch_cursor_id s) of (Some a, Some i) \<Rightarrow> Some (a, i) | _ \<Rightarrow> None)"

lemma cursor_of_claim [simp]:
  "cursor_of (s\<lparr>sch_claim_upload_id := x\<rparr>) = cursor_of s" "cursor_of (s\<lparr>sch_claim_token := y\<rparr>) = cursor_of s"
  "cursor_of (s\<lparr>sch_claim_expires_at := z\<rparr>) = cursor_of s" "cursor_of (s\<lparr>sch_has_run := b\<rparr>) = cursor_of s"
  "cursor_of (s\<lparr>sch_next_lane := l\<rparr>) = cursor_of s"
  by (simp_all add: cursor_of_def)

lemma map_insort_key: "map f (insort_key f x xs) = insort (f x) (map f xs)"
  by (induction xs) simp_all

lemma sort_map_key: "map f (sort_key f xs) = sort (map f xs)"
  by (induction xs) (simp_all add: map_insort_key)

lemma filter_map_key: "filter P (map f xs) = map f (filter (P \<circ> f) xs)"
  by (simp add: filter_map)

lemma first_by_sort: "map_option f (first_by f xs) = (case sort (map f xs) of [] \<Rightarrow> None | x # _ \<Rightarrow> Some x)"
  unfolding first_by_def sort_map_key [symmetric] by (simp split: list.split)

lemma after_cursor_order:
  "u \<in> set (reconciliation_pool d []) \<Longrightarrow> after_cursor a i u \<longleftrightarrow> (a, i) < reconciliation_order u"
  by (auto simp: reconciliation_pool_def after_cursor_def reconciliation_order_def split: option.splits)

lemma next_candidate_turn:
  "map_option reconciliation_order (next_reconciliation_candidate d s []) = next_turn (fenced_keys d) (cursor_of s)"
proof -
  let ?pool = "reconciliation_pool d []"
  have "map reconciliation_order (filter (after_cursor a i) ?pool) =
      filter (\<lambda>x. (a, i) < x) (map reconciliation_order ?pool)" for a i
    unfolding filter_map_key by (rule arg_cong [where f = "map _"], rule filter_cong) (auto simp: after_cursor_order)
  then have after: "map_option reconciliation_order (first_by reconciliation_order (filter (after_cursor a i) ?pool)) =
      (case filter (\<lambda>x. (a, i) < x) (fenced_keys d) of [] \<Rightarrow> None | x # _ \<Rightarrow> Some x)" for a i
    by (simp add: first_by_sort fenced_keys_def filter_sort)
  have wrap: "map_option reconciliation_order (first_by reconciliation_order ?pool) =
      (case fenced_keys d of [] \<Rightarrow> None | x # _ \<Rightarrow> Some x)"
    by (simp add: first_by_sort fenced_keys_def)
  show ?thesis
  proof (cases "cursor_of s")
    case None
    then show ?thesis
      using wrap by (auto simp: next_reconciliation_candidate_def Let_def next_turn_def cursor_of_def split: option.splits)
  next
    case (Some k)
    then obtain a i where k: "sch_cursor_at s = Some a" "sch_cursor_id s = Some i" "k = (a, i)"
      by (auto simp: cursor_of_def split: option.splits)
    show ?thesis
    proof (cases "first_by reconciliation_order (filter (after_cursor a i) ?pool)")
      case None
      with after [of a i] have "filter (\<lambda>x. (a, i) < x) (fenced_keys d) = []" by (simp split: list.splits)
      with wrap k Some None show ?thesis
        by (auto simp: next_reconciliation_candidate_def Let_def next_turn_def split: option.splits dest: first_by_SomeD(1))
    next
      case (Some u)
      with after [of a i] obtain xs where "filter (\<lambda>x. (a, i) < x) (fenced_keys d) = reconciliation_order u # xs"
        by (auto split: list.splits)
      with k \<open>cursor_of s = Some k\<close> Some show ?thesis
        by (simp add: next_reconciliation_candidate_def Let_def next_turn_def)
    qed
  qed
qed

lemma distinct_map_order:
  "distinct (map upl_id us) \<Longrightarrow> distinct (map reconciliation_order us)"
  by (induction us) (force simp: reconciliation_order_def split: option.splits)+

lemma fenced_keys_sorted:
  assumes "distinct (map upl_id (db_uploads d))"
  shows "sorted_wrt (<) (fenced_keys d)"
proof -
  have "distinct (map upl_id (reconciliation_pool d []))"
    using assms by (simp add: reconciliation_pool_def distinct_map_filter)
  then have "distinct (fenced_keys d)" by (simp add: fenced_keys_def distinct_map_order)
  then show ?thesis by (simp add: strict_sorted_iff fenced_keys_def)
qed

section \<open>Runs of the reconciliation lane\<close>

text \<open>The row of the schedule, and that nothing the round depends on has changed.\<close>

definition schedule_row :: "db \<Rightarrow> cleanup_schedule option" where
  "schedule_row d = lookup_by sch_id 1 (db_schedule d)"

definition same_targets :: "db \<Rightarrow> db \<Rightarrow> bool" where
  "same_targets d d' \<longleftrightarrow> fenced_keys d' = fenced_keys d \<and> map upl_id (db_uploads d') = map upl_id (db_uploads d)"

lemma same_targets_schedule [simp]: "same_targets d (d\<lparr>db_schedule := rs\<rparr>)"
  by (simp add: same_targets_def fenced_keys_def reconciliation_pool_def)

lemma same_targets_audit [simp]: "same_targets d (d'\<lparr>db_audit := xs\<rparr>) = same_targets d d'"
  by (simp add: same_targets_def fenced_keys_def reconciliation_pool_def)

lemma same_targets_trans: "same_targets a b \<Longrightarrow> same_targets b c \<Longrightarrow> same_targets a c"
  by (simp add: same_targets_def)

lemma same_targets_observed:
  assumes "\<And>u. upl_id (f u) = upl_id u" "\<And>u. upl_promotion_target_deleted_at (f u) = upl_promotion_target_deleted_at u"
    "\<And>u. upl_promotion_target_key (f u) = upl_promotion_target_key u"
  shows "same_targets d (d\<lparr>db_uploads := update_by upl_id k f (db_uploads d)\<rparr>)"
proof -
  have "map reconciliation_order (filter (\<lambda>u. upl_promotion_target_deleted_at u \<noteq> None \<and> upl_promotion_target_key u \<noteq> None)
      (update_by upl_id k f us)) = map reconciliation_order (filter (\<lambda>u. upl_promotion_target_deleted_at u \<noteq> None
      \<and> upl_promotion_target_key u \<noteq> None) us)" for us
    by (induction us) (simp_all add: update_by_def assms reconciliation_order_def split: option.split)
  then show ?thesis
    by (simp add: same_targets_def fenced_keys_def reconciliation_pool_def map_key_update assms)
qed

lemma same_targets_reconciled:
  "same_targets d (d\<lparr>db_uploads := update_by upl_id k (merge_upload [UPromotionTargetReconciledAt] u) (db_uploads d)\<rparr>)"
  by (rule same_targets_observed) (simp_all add: merge_upload_def)

lemma observed_targets_wp:
  "wp (record_promotion_reconciliation T u t succeeded code)
     (\<lambda>_ w'. schedule_row (w_db w') = schedule_row (w_db w) \<and> same_targets (w_db w) (w_db w')) (\<lambda>_ _. True) w"
  unfolding record_promotion_reconciliation_def Let_def
  by (intro wp_intros wp_mono [OF save_upload_evolves] wp_mono [OF record_system_event_wp])
     (auto simp: protected_fields_def schedule_row_def same_targets_reconciled)

lemma matched_claim_wp:
  assumes "schedule_row (w_db w) = Some s" "claim_matches s c" "sch_id (after s u) = 1"
    and "lookup_by upl_id (rc_upload_id c) (db_uploads (w_db w)) = Some u" "upl_promotion_target_deleted_at u \<noteq> None"
  shows "wp (with_matching_claim T c t succeeded code after)
     (\<lambda>_ w'. schedule_row (w_db w') = Some (after s u) \<and> same_targets (w_db w) (w_db w')) (\<lambda>_ _. True) w"
  unfolding with_matching_claim_def get_schedule_def wp_atomic
  by (intro wp_intros wp_mono [OF save_schedule_wp] wp_mono [OF observed_targets_wp])
     (use assms in \<open>auto simp: schedule_row_def lookup_update_const intro: same_targets_trans\<close>)

text \<open>An unclaimed schedule gives the claim to the target whose turn it is.\<close>

lemma turn_claimed_wp:
  assumes row: "schedule_row (w_db w) = Some s" and free: "sch_claim_upload_id s = None"
    and distinct: "distinct (map upl_id (db_uploads (w_db w)))"
  shows "wp claim_reconciliation
     (\<lambda>r w'. case r of None \<Rightarrow> fenced_keys (w_db w) = []
       | Some c \<Rightarrow> \<exists>u s'. next_turn (fenced_keys (w_db w)) (cursor_of s) = Some (reconciliation_order u)
           \<and> rc_upload_id c = upl_id u \<and> lookup_by upl_id (upl_id u) (db_uploads (w_db w')) = Some u
           \<and> upl_promotion_target_deleted_at u \<noteq> None
           \<and> schedule_row (w_db w') = Some s' \<and> claim_matches s' c \<and> cursor_of s' = cursor_of s \<and> sch_id s' = 1
           \<and> w_store w' = w_store w \<and> db_uploads (w_db w') = db_uploads (w_db w)
           \<and> same_targets (w_db w) (w_db w')) (\<lambda>_ _. True) w"
proof -
  have found: "lookup_by upl_id (upl_id u) (db_uploads (w_db w)) = Some u \<and> upl_promotion_target_deleted_at u \<noteq> None
      \<and> next_turn (fenced_keys (w_db w)) (cursor_of s) = Some (reconciliation_order u)"
    if u: "next_reconciliation_candidate (w_db w) s [] = Some u" for u
  proof -
    have "u \<in> set (reconciliation_pool (w_db w) [])"
      using u by (auto simp: next_reconciliation_candidate_def Let_def dest!: first_by_SomeD(1) split: option.splits)
    then show ?thesis
      using lookup_by_in [OF distinct] next_candidate_turn [of "w_db w" s] u by (auto simp: reconciliation_pool_def)
  qed
  have none: "fenced_keys (w_db w) = []" if "next_reconciliation_candidate (w_db w) s [] = None"
    using next_candidate_turn [of "w_db w" s] that by (auto simp: next_turn_def split: list.splits option.splits)
  have id: "sch_id s = 1" using row by (auto simp: schedule_row_def dest: lookup_by_key)
  show ?thesis
    unfolding claim_reconciliation_def get_schedule_def drop_claim_def claimable_upload_def wp_atomic
    by (intro wp_intros wp_mono [OF save_schedule_wp])
       (use row free found none id in \<open>auto simp: schedule_row_def claim_matches_def lookup_update_const\<close>)
qed

text \<open>Whether the store refuses to delete the object of a target, as the world is now.\<close>

definition refuses_target :: "'st storage_ops \<Rightarrow> 'st world \<Rightarrow> uuid \<Rightarrow> bool" where
  "refuses_target ops w k \<longleftrightarrow> (case lookup_by upl_id k (db_uploads (w_db w)) of None \<Rightarrow> False | Some u \<Rightarrow>
     (case upl_promotion_target_key u of None \<Rightarrow> False | Some key \<Rightarrow>
        key \<noteq> [] \<and> upload_key_owned u StalePromotion key \<and> isl (fst (so_delete ops key (w_store w)))))"

lemma attempt_outcome_wp:
  assumes "lookup_by upl_id (rc_upload_id c) (db_uploads (w_db w)) = Some u" "upl_promotion_target_deleted_at u \<noteq> None"
  shows "wp (attempt_reconciliation ops c)
     (\<lambda>a w'. w_db w' = w_db w \<and> ra_acknowledge a = (\<not> refuses_target ops w (rc_upload_id c))) (\<lambda>_ _. True) w"
  unfolding attempt_reconciliation_def
  by (intro wp_intros wp_raw [where m = "so_delete ops key" for key])
     (use assms in \<open>auto simp: refuses_target_def attempt_result_def wp_ret\<close>)

text \<open>
  One run: the target of the turn is acknowledged and the cursor stands at it, unless the store refused to delete its
  object: then its claim stays, and the cursor too.
\<close>

definition turn_taken ::
  "(time \<times> uuid) list \<Rightarrow> (time \<times> uuid) option \<Rightarrow> (uuid \<Rightarrow> bool) \<Rightarrow> cleanup_schedule \<Rightarrow> bool" where
  "turn_taken ks c refuses s \<longleftrightarrow> (\<exists>k. next_turn ks c = Some k \<and> sch_id s = 1 \<and>
     (if refuses (snd k) then cursor_of s = c \<and> sch_claim_upload_id s = Some (snd k)
      else cursor_of s = Some k \<and> sch_claim_upload_id s = None))"

lemma run_reconciliation_wp:
  assumes "schedule_row (w_db w) = Some s" "sch_claim_upload_id s = None" "distinct (map upl_id (db_uploads (w_db w)))"
  shows "wp (run_reconciliation_once T ops t)
     (\<lambda>ran w'. if ran then (\<exists>s'. schedule_row (w_db w') = Some s'
            \<and> turn_taken (fenced_keys (w_db w)) (cursor_of s) (refuses_target ops w) s') \<and> same_targets (w_db w) (w_db w')
        else fenced_keys (w_db w) = []) (\<lambda>_ _. True) w"
  unfolding run_reconciliation_once_def ack_reconciliation_def record_claim_retry_def
proof (rule wpi_basic(3), rule wp_mono [OF turn_claimed_wp [OF assms]], rule wpi_option, goal_cases)
  case (2 r w1 c)
  then obtain u s' where u: "next_turn (fenced_keys (w_db w)) (cursor_of s) = Some (reconciliation_order u)"
    "rc_upload_id c = upl_id u" "lookup_by upl_id (upl_id u) (db_uploads (w_db w1)) = Some u"
    "upl_promotion_target_deleted_at u \<noteq> None" "schedule_row (w_db w1) = Some s'" "claim_matches s' c"
    "cursor_of s' = cursor_of s" "sch_id s' = 1" "same_targets (w_db w) (w_db w1)"
    and same: "w_store w1 = w_store w" "db_uploads (w_db w1) = db_uploads (w_db w)" by auto
  have refuses: "refuses_target ops w1 = refuses_target ops w" unfolding refuses_target_def same ..
  have k: "snd (reconciliation_order u) = upl_id u" by (simp add: reconciliation_order_def split: option.split)
  show ?case
    by (intro wp_intros wp_mono [OF attempt_outcome_wp [where u = u]] wp_mono [OF matched_claim_wp [where s = s' and u = u]])
       (use u k refuses in \<open>auto simp: turn_taken_def clear_claim_def cursor_of_def reconciliation_order_def claim_matches_def
          intro: same_targets_trans split: option.splits\<close>)
qed (auto simp: wp_simps)

text \<open>The lane run several times, with what the store would refuse before each run and the schedule after it.\<close>

record reconciliation_run =
  rr_refuses :: "uuid \<Rightarrow> bool"
  rr_schedule :: "cleanup_schedule option"

fun reconciliation_runs ::
  "text_libs \<Rightarrow> 'st storage_ops \<Rightarrow> time \<Rightarrow> nat \<Rightarrow> ('st world, reconciliation_run list) prog" where
  "reconciliation_runs T ops t 0 = ret []"
| "reconciliation_runs T ops t (Suc n) =
     chain (gets (refuses_target ops)) (\<lambda>refuses.
     chain (run_reconciliation_once T ops t) (\<lambda>_.
     chain (gets (\<lambda>w. schedule_row (w_db w))) (\<lambda>s.
     chain (reconciliation_runs T ops t n) (\<lambda>rest.
     ret (\<lparr>rr_refuses = refuses, rr_schedule = s\<rparr> # rest)))))"

lemma runs_length_wp: "wp (reconciliation_runs T ops t n) (\<lambda>rs _. length rs = n) (\<lambda>_ _. True) w"
  by (induction n arbitrary: w) (auto simp: wp_simps intro!: wp_mono [OF wp_trivial] elim!: wp_mono)

text \<open>Runs follow the turns as long as the store deletes; the first one that it refuses leaves the cursor and keeps its claim.\<close>

fun follow_turns :: "(time \<times> uuid) list \<Rightarrow> (time \<times> uuid) option \<Rightarrow> reconciliation_run list \<Rightarrow> bool" where
  "follow_turns ks c [] = True"
| "follow_turns ks c (r # rs) \<longleftrightarrow> (\<exists>s k. rr_schedule r = Some s \<and> next_turn ks c = Some k \<and>
     (if rr_refuses r (snd k) then cursor_of s = c \<and> sch_claim_upload_id s = Some (snd k)
      else cursor_of s = Some k \<and> sch_claim_upload_id s = None \<and> follow_turns ks (Some k) rs))"

text \<open>How many runs in a row the store did not refuse, for the targets in their order.\<close>

fun unrefused :: "(time \<times> uuid) list \<Rightarrow> reconciliation_run list \<Rightarrow> nat" where
  "unrefused (k # ks) (r # rs) = (if rr_refuses r (snd k) then 0 else Suc (unrefused ks rs))"
| "unrefused ks rs = 0"

definition visited :: "(time \<times> uuid) \<Rightarrow> reconciliation_run \<Rightarrow> bool" where
  "visited k r \<longleftrightarrow> (case rr_schedule r of None \<Rightarrow> False
     | Some s \<Rightarrow> cursor_of s = Some k \<and> sch_claim_upload_id s = None)"

definition held_up :: "(time \<times> uuid) option \<Rightarrow> (time \<times> uuid) \<Rightarrow> reconciliation_run \<Rightarrow> bool" where
  "held_up c k r \<longleftrightarrow> (case rr_schedule r of None \<Rightarrow> False
     | Some s \<Rightarrow> cursor_of s = c \<and> sch_claim_upload_id s = Some (snd k))"

lemma follow_turns_rotation:
  assumes "follow_turns ks c rs" "turns ks c (length rs) = os"
  shows "let n = unrefused os rs in list_all2 visited (take n os) (take n rs)
     \<and> (if n = length rs then True else held_up (if n = 0 then c else Some (os ! (n - 1))) (os ! n) (rs ! n))"
  using assms
proof (induction rs arbitrary: c os)
  case (Cons r rs)
  from Cons.prems(1) obtain s k where k: "rr_schedule r = Some s" "next_turn ks c = Some k"
    "if rr_refuses r (snd k) then cursor_of s = c \<and> sch_claim_upload_id s = Some (snd k)
     else cursor_of s = Some k \<and> sch_claim_upload_id s = None \<and> follow_turns ks (Some k) rs" by auto
  then have os: "os = k # turns ks (Some k) (length rs)" using Cons.prems(2) by simp
  show ?case
  proof (cases "rr_refuses r (snd k)")
    case True
    with k os show ?thesis by (simp add: held_up_def)
  next
    case False
    with k Cons.IH [of "Some k", OF _ refl] os show ?thesis
      by (auto simp: Let_def visited_def nth_Cons' split: if_splits)
  qed
qed simp

lemma reconciliation_runs_wp:
  assumes "schedule_row (w_db w) = Some s" "sch_claim_upload_id s = None" "distinct (map upl_id (db_uploads (w_db w)))"
    and "fenced_keys (w_db w) \<noteq> []"
  shows "wp (reconciliation_runs T ops t n)
     (\<lambda>rs _. length rs = n \<and> follow_turns (fenced_keys (w_db w)) (cursor_of s) rs) (\<lambda>_ _. True) w"
  using assms
proof (induction n arbitrary: w s)
  case (Suc n)
  show ?case
    unfolding reconciliation_runs.simps
  proof (rule wpi_basic(3), rule wpi_basic(5), rule wpi_basic(3),
      rule wp_mono [OF run_reconciliation_wp [OF Suc.prems(1-3)]], goal_cases)
    case (1 ran w1)
    then obtain s1 where s1: "schedule_row (w_db w1) = Some s1"
      "turn_taken (fenced_keys (w_db w)) (cursor_of s) (refuses_target ops w) s1"
      "same_targets (w_db w) (w_db w1)" using Suc.prems(4) by (auto split: if_splits)
    have turn: "follow_turns (fenced_keys (w_db w)) (cursor_of s)
        (\<lparr>rr_refuses = refuses_target ops w, rr_schedule = Some s1\<rparr> # rest)"
      if "sch_claim_upload_id s1 = None \<Longrightarrow> follow_turns (fenced_keys (w_db w)) (cursor_of s1) rest" for rest
    proof -
      from s1(2) obtain k where "next_turn (fenced_keys (w_db w)) (cursor_of s) = Some k"
        "if refuses_target ops w (snd k) then cursor_of s1 = cursor_of s \<and> sch_claim_upload_id s1 = Some (snd k)
         else cursor_of s1 = Some k \<and> sch_claim_upload_id s1 = None" by (auto simp: turn_taken_def)
      with that show ?thesis
        unfolding follow_turns.simps by (intro exI [of _ s1] exI [of _ k]) (auto split: if_splits)
    qed
    show ?case
    proof (cases "sch_claim_upload_id s1")
      case None
      have more: "wp (reconciliation_runs T ops t n)
          (\<lambda>rs _. length rs = n \<and> follow_turns (fenced_keys (w_db w1)) (cursor_of s1) rs) (\<lambda>_ _. True) w1"
        using Suc.IH [OF s1(1) None] Suc.prems(3,4) s1(3) by (simp add: same_targets_def)
      show ?thesis
        using s1(1,3) None turn
        by (auto simp: wp_simps same_targets_def simp del: follow_turns.simps intro!: wp_mono [OF more])
    next
      case (Some k)
      show ?thesis
        using s1(1) Some turn
        by (auto simp: wp_simps simp del: follow_turns.simps intro!: wp_mono [OF runs_length_wp])
    qed
  qed simp
qed (simp add: wp_simps)

section \<open>Properties\<close>


text \<open>
  What the candidate queries select is at most the batch, and every candidate is a row with an
  empty slot, not attempted before, that the check under the lock accepts: retention windows,
  terminal jobs and promotion states are the same in the queries and in the check.
\<close>

theorem candidates_are_eligible:
  "list_all (candidate_accepted d t excluded) (ordinary_candidates d t limit excluded)
   \<and> length (ordinary_candidates d t limit excluded) \<le> limit"
  using ordinary_candidates_accepted ordinary_candidates_bounded by (simp add: list_all_iff)

text \<open>
  A reconciliation claim is granted only while no lease is live, for a fenced upload, with a
  fresh token and the configured expiry; while a lease is live nothing is claimed and nothing
  is written.
\<close>

theorem reconciliation_lease_exclusive:
  "wp claim_reconciliation
     (\<lambda>r w'. case r of
        Some c \<Rightarrow> claim_granted c w w'
      | None \<Rightarrow> (\<exists>s. lookup_by sch_id 1 (db_schedule (w_db w)) = Some s
           \<and> (if lease_live s (w_clock w (w_tick w)) then w_db w' = w_db w else True)))
     (\<lambda>_ w'. w_db w' = w_db w) w"
  by (rule wp_mono [OF claim_reconciliation_wp]) (auto split: option.splits)

text \<open>
  Only the holder of the current token acknowledges: with any other claim nothing is written,
  and with it the cursor moves to the reconciled row, the lease is released and the ordinary lane
  is next.
\<close>

theorem acknowledgement_needs_token:
  "wp (ack_reconciliation T c t succeeded code)
     (\<lambda>b w'. \<exists>s. lookup_by sch_id 1 (db_schedule (w_db w)) = Some s \<and>
        (if \<not> claim_matches s c then \<not> b \<and> w_db w' = w_db w
         else if b then \<exists>u s'. lookup_by upl_id (rc_upload_id c) (db_uploads (w_db w)) = Some u
           \<and> upl_promotion_target_deleted_at u \<noteq> None
           \<and> lookup_by sch_id 1 (db_schedule (w_db w')) = Some s'
           \<and> sch_cursor_at s' = upl_promotion_target_deleted_at u \<and> sch_cursor_id s' = Some (upl_id u)
           \<and> sch_claim_upload_id s' = None \<and> sch_next_lane s' = LaneOrdinary
         else lookup_by sch_id 1 (db_schedule (w_db w')) = Some (clear_claim s)))
     (\<lambda>_ w'. w_db w' = w_db w) w"
  unfolding ack_reconciliation_def
proof (rule wp_mono [OF with_matching_claim_wp], goal_cases)
  case (2 b v)
  then obtain s where "lookup_by sch_id 1 (db_schedule (w_db w)) = Some s"
    and "if \<not> claim_matches s c then \<not> b \<and> w_db v = w_db w
      else if b then (\<exists>u. lookup_by upl_id (rc_upload_id c) (db_uploads (w_db w)) = Some u
          \<and> upl_promotion_target_deleted_at u \<noteq> None
          \<and> lookup_by sch_id 1 (db_schedule (w_db v)) = Some ((clear_claim (s\<lparr>sch_cursor_at :=
              upl_promotion_target_deleted_at u, sch_cursor_id := Some (upl_id u)\<rparr>))
                \<lparr>sch_next_lane := LaneOrdinary, sch_has_run := True\<rparr>))
      else lookup_by sch_id 1 (db_schedule (w_db v)) = Some (clear_claim s)"
    unfolding token_write_def by blast
  then show ?case
    by (intro exI [of _ s]) (auto simp: clear_claim_def simp del: One_nat_def split: if_splits)
qed (simp_all add: clear_claim_def)

text \<open>
  A cleanup run is bounded: it refuses naive times and batch sizes outside the bound before it
  does anything, and otherwise deletes at most the batch.
\<close>

theorem cleanup_run_bounded:
  "wp (cleanup_expired T storage now_arg batch_size)
     (\<lambda>k _. \<exists>n. batch_size = JInt n \<and> 1 \<le> n \<and> n \<le> max_batch_size \<and> int k \<le> n
        \<and> (case now_arg of None \<Rightarrow> True | Some t \<Rightarrow> \<not> is_naive t))
     (\<lambda>_ _. True) w"
proof -
  have loop: "wp (cleanup_loop T storage t (nat n) [] 0) (\<lambda>k _. int k \<le> n) (\<lambda>_ _. True) v"
    if "1 \<le> n" for t n and v :: "'a world"
    by (rule wp_mono [OF cleanup_loop_bound]) (use that in auto)
  show ?thesis
    unfolding cleanup_expired_def
    by (cases batch_size; cases now_arg; intro wp_intros; simp add: wp_simps loop)
qed


end
