(* ===== verification/Rows.thy ===== *)
theory Rows
  imports Evolution
begin

text \<open>
  Saving an instance that was read from its row and changed: what the row is afterwards, that every
  other row is what it was, and that the table evolves. The handlers of the later theories are
  proved over these facts.
\<close>

definition row_written :: "('r \<Rightarrow> 'k) \<Rightarrow> 'k \<Rightarrow> 'r \<Rightarrow> 'r list \<Rightarrow> 'r list \<Rightarrow> bool" where
  "row_written key k r rows rows' \<longleftrightarrow> lookup_by key k rows' = Some r
     \<and> (\<forall>k'. k' \<noteq> k \<longrightarrow> lookup_by key k' rows' = lookup_by key k' rows)
     \<and> (\<forall>x\<in>set rows'. key x = k \<or> x \<in> set rows)"

lemma row_written_update:
  assumes "\<And>r. key (f r) = key r" "lookup_by key k rows = Some p" "f p = r"
  shows "row_written key k r rows (update_by key k f rows)"
proof -
  have "\<forall>x\<in>set (update_by key k f rows). key x = k \<or> x \<in> set rows"
    using assms(1) by (auto simp: update_by_def)
  with assms show ?thesis by (simp add: row_written_def lookup_by_update)
qed

lemma row_written_lookup: "row_written key k r rows rows' \<Longrightarrow> lookup_by key k rows' = Some r"
  by (simp add: row_written_def)

lemma row_written_other: "row_written key k r rows rows' \<Longrightarrow> k' \<noteq> k \<Longrightarrow>
    lookup_by key k' rows' = lookup_by key k' rows"
  by (simp add: row_written_def)

section \<open>Jobs\<close>

text \<open>The database with one job row written.\<close>

definition job_written :: "job \<Rightarrow> db \<Rightarrow> db \<Rightarrow> bool" where
  "job_written j d d' \<longleftrightarrow> (\<exists>rs. d' = d\<lparr>db_jobs := rs\<rparr> \<and> row_written job_id (job_id j) j (db_jobs d) rs
     \<and> rows_evolve job_id job_evolves (db_jobs d) rs \<and> map job_id rs = map job_id (db_jobs d))"

lemma save_job_row_wp:
  assumes row: "lookup_by job_id (job_id j) (db_jobs (w_db w)) = Some p"
    and covered: "\<And>t. merge_job fs (j\<lparr>job_updated_at := t\<rparr>) p = j\<lparr>job_updated_at := t\<rparr>"
    and ev: "\<And>t. job_evolves p (j\<lparr>job_updated_at := t\<rparr>)"
  shows "wp (save_job fs j)
     (\<lambda>j' w'. (\<exists>t. j' = j\<lparr>job_updated_at := t\<rparr>) \<and> job_written j' (w_db w) (w_db w') \<and> w_store w' = w_store w)
     (\<lambda>_ w'. w_db w' = w_db w \<and> w_store w' = w_store w) w"
proof (rule wp_mono [OF save_job_wp], goal_cases)
  case (1 j' w')
  then obtain t where j': "j' = j\<lparr>job_updated_at := t\<rparr>" by blast
  let ?rs = "update_by job_id (job_id j) (merge_job fs j') (db_jobs (w_db w))"
  have "row_written job_id (job_id j') j' (db_jobs (w_db w)) ?rs"
    using row_written_update [where key = job_id and f = "merge_job fs j'" and k = "job_id j" and r = j',
        OF job_key_merge row] covered [of t] j' by simp
  moreover have "rows_evolve job_id job_evolves (db_jobs (w_db w)) ?rs"
    by (rule save_job_rows) (use row covered [of t] ev [of t] j' in auto)
  moreover have "map job_id ?rs = map job_id (db_jobs (w_db w))" by (rule map_key_update) simp
  ultimately have "job_written j' (w_db w) (w_db w')" using 1 by (auto simp: job_written_def row_written_def)
  then show ?case using 1 j' by blast
qed simp

lemma job_written_evolves: "job_written j d d' \<Longrightarrow> db_evolves a d \<Longrightarrow> db_evolves a d'"
  by (auto simp: job_written_def intro: db_evolves_jobs)

lemma job_written_lookup: "job_written j d d' \<Longrightarrow> lookup_by job_id (job_id j) (db_jobs d') = Some j"
  by (auto simp: job_written_def row_written_def)

lemma job_written_other:
  "job_written j d d' \<Longrightarrow> k \<noteq> job_id j \<Longrightarrow> lookup_by job_id k (db_jobs d') = lookup_by job_id k (db_jobs d)"
  by (auto simp: job_written_def row_written_def)

lemma job_written_frame:
  assumes "job_written j d d'"
  shows "db_organizations d' = db_organizations d" "db_users d' = db_users d"
    "db_recipients d' = db_recipients d" "db_signing_keys d' = db_signing_keys d"
    "db_uploads d' = db_uploads d" "db_schedule d' = db_schedule d" "db_documents d' = db_documents d"
    "db_issuances d' = db_issuances d" "db_manifests d' = db_manifests d"
    "db_verifications d' = db_verifications d" "db_receipts d' = db_receipts d"
    "db_outbox d' = db_outbox d" "db_audit d' = db_audit d"
    "db_issuance_results d' = db_issuance_results d"
    "db_verification_results d' = db_verification_results d"
  using assms by (auto simp: job_written_def row_written_def)

text \<open>The column lists that the handlers save.\<close>

lemma merge_status: "merge_job [FStatus, FUpdatedAt] j p =
    p\<lparr>job_status := job_status j, job_updated_at := job_updated_at j\<rparr>"
  by (simp add: merge_job_def)

lemma merge_terminal: "merge_job [FStatus, FSafeErrorCode, FUpdatedAt] j p =
    p\<lparr>job_status := job_status j, job_safe_error_code := job_safe_error_code j,
      job_updated_at := job_updated_at j\<rparr>"
  by (simp add: merge_job_def)

lemma merge_code: "merge_job [FSafeErrorCode, FUpdatedAt] j p =
    p\<lparr>job_safe_error_code := job_safe_error_code j, job_updated_at := job_updated_at j\<rparr>"
  by (simp add: merge_job_def)

lemma merge_cancel: "merge_job [FCancelRequestedAt, FStatus, FUpdatedAt] j p =
    p\<lparr>job_status := job_status j, job_cancel_requested_at := job_cancel_requested_at j,
      job_updated_at := job_updated_at j\<rparr>"
  by (simp add: merge_job_def)

lemma job_evolves_edit:
  "status_reaches (job_status p) s \<Longrightarrow> set_once (job_cancel_requested_at p) c \<Longrightarrow>
     job_evolves p (p\<lparr>job_status := s, job_cancel_requested_at := c, job_safe_error_code := e, job_updated_at := t\<rparr>)"
  by (simp add: job_evolves_def)

end
