(* ===== verification/JobServices.thy ===== *)
theory JobServices
  imports Retention Rows
begin

text \<open>
  \<open>jobs/services.py\<close>: turning a finished upload into an issuance or verification job. The target
  is reserved in one transaction, the object is copied outside any, and document, domain row, job,
  outbox event, audit event and the attachment of the target are written in a second one.
  Cancelling a job is at the end.
\<close>

section \<open>Scoped lookups\<close>

text \<open>\<open>filter(pk=k, ...).get()\<close>: the row with that primary key, if it satisfies the other conditions.\<close>

definition get_scoped :: "('r, 'k) table \<Rightarrow> 'k \<Rightarrow> ('r \<Rightarrow> bool) \<Rightarrow> ('st world, 'r) prog" where
  "get_scoped t k P = chain (get_row t k) (\<lambda>r. if P r then ret r else raise (DoesNotExist (tb_name t)))"

lemma wpi_get_scoped [wp_intros]:
  "(\<And>r. lookup_by (tb_key t) k (tb_rows t (w_db w)) = Some r \<Longrightarrow> P r \<Longrightarrow> Q r w) \<Longrightarrow>
   E (DoesNotExist (tb_name t)) w \<Longrightarrow> wp (get_scoped t k P) Q E w"
  unfolding get_scoped_def by (intro wp_intros) auto

section \<open>Reserving the target\<close>

definition job_deadline :: "time \<Rightarrow> ('st world, time) prog" where
  "job_deadline t = gets (\<lambda>w. t + seconds (lim_job_timeout_seconds (w_limits w)))"

definition job_kind_values :: "string list" where
  "job_kind_values = [kind_value KindIssuance, kind_value KindVerification]"

definition promoted_input_key :: "string \<Rightarrow> uuid \<Rightarrow> uuid \<Rightarrow> exn + string" where
  "promoted_input_key kind organization_id upload_id =
     (if kind \<notin> set job_kind_values then Inl (ValueError ''job kind is invalid'')
      else Inr (''inputs/'' @ kind @ ''/'' @ uuid_str organization_id @ ''/'' @ uuid_str upload_id @ ''.bin''))"

definition create_allowed :: "user \<Rightarrow> job_kind \<Rightarrow> bool" where
  "create_allowed actor kind \<longleftrightarrow> usr_role actor = Administrator
     \<or> (kind = KindIssuance \<and> usr_role actor = Issuer)
     \<or> (kind = KindVerification \<and> usr_role actor = Verifier)"

definition authorize_create :: "user \<Rightarrow> job_kind \<Rightarrow> ('st world, unit) prog" where
  "authorize_create actor kind = require (create_allowed actor kind) (PermissionDenied ''WORKFLOW_FORBIDDEN'')"

definition purpose_of :: "job_kind \<Rightarrow> upload_purpose" where
  "purpose_of kind = (if kind = KindIssuance then PurposeIssuance else PurposeVerification)"

text \<open>\<open>except (DoesNotExist, ValidationError, ValueError)\<close> around a lookup.\<close>

definition lookup_failure :: "exn \<Rightarrow> ('st world, 'a) prog" where
  "lookup_failure e = (case e of
     DoesNotExist _ \<Rightarrow> raise (WorkflowNotFound ''WORKFLOW_NOT_FOUND'')
   | ValidationError _ \<Rightarrow> raise (WorkflowNotFound ''WORKFLOW_NOT_FOUND'')
   | ValueError _ \<Rightarrow> raise (WorkflowNotFound ''WORKFLOW_NOT_FOUND'')
   | _ \<Rightarrow> raise e)"

definition reserve_promotion :: "user \<Rightarrow> uuid \<Rightarrow> job_kind \<Rightarrow> ('st world, upload_request) prog" where
  "reserve_promotion actor upload_id kind = atomic (
     chain (authorize_create actor kind) (\<lambda>_.
     chain (attempt (get_scoped uploads_t upload_id (\<lambda>u.
              upl_organization_id u = usr_organization_id actor
              \<and> upl_requested_by_id u = usr_id actor)) lookup_failure) (\<lambda>u.
     chain (require (upl_purpose u = purpose_of kind) (UploadRejected ''UPLOAD_WRONG_PURPOSE'')) (\<lambda>_.
     chain (require (upl_finalized_at u \<noteq> None) (UploadRejected ''UPLOAD_NOT_FINALIZED'')) (\<lambda>_.
     chain now (\<lambda>t.
     chain (require (t < upl_expires_at u) (UploadRejected ''UPLOAD_EXPIRED'')) (\<lambda>_.
     chain (require (upl_expected_sha256 u \<noteq> None \<and> upl_size_bytes u \<noteq> None)
              (UploadRejected ''UPLOAD_LEGACY_METADATA'')) (\<lambda>_.
     chain (require (upl_promotion_status u = PromotionNone \<and> upl_promotion_target_key u = None)
              (JobConflict ''PROMOTION_ALREADY_RESERVED'')) (\<lambda>_.
     chain (lift_sum (promoted_input_key (kind_value kind) (usr_organization_id actor) (upl_id u))) (\<lambda>target.
     save_promotion u Copying (Some target) None))))))))))"

definition mark_failed :: "uuid \<Rightarrow> string \<Rightarrow> string \<Rightarrow> ('st world, unit) prog" where
  "mark_failed upload_id target_key safe_code = atomic (
     chain (get_row uploads_t upload_id) (\<lambda>locked.
     if upl_promotion_status locked = Copying \<and> upl_promotion_target_key locked = Some target_key
     then chain (save_promotion locked PromotionFailed (Some target_key) (Some safe_code)) (\<lambda>_. ret ())
     else ret ()))"

section \<open>Copy, then finalize\<close>

definition verify_copy_observation :: "object_metadata \<Rightarrow> upload_request \<Rightarrow> exn + unit" where
  "verify_copy_observation copied u =
     (if Some (om_key copied) \<noteq> upl_promotion_target_key u
         \<or> Some (om_size_bytes copied) \<noteq> upl_size_bytes u
         \<or> om_client_sha256_metadata copied \<noteq> upl_expected_sha256 u
      then Inl (UploadRejected ''STORAGE_COPY_MISMATCH'') else Inr ())"

definition reservation_unchanged :: "upload_request \<Rightarrow> upload_request \<Rightarrow> user \<Rightarrow> job_kind \<Rightarrow> bool" where
  "reservation_unchanged locked u actor kind \<longleftrightarrow>
     upl_promotion_status locked = Copying
     \<and> upl_promotion_target_key locked = upl_promotion_target_key u
     \<and> upl_organization_id locked = usr_organization_id actor
     \<and> upl_requested_by_id locked = usr_id actor
     \<and> upl_purpose locked = purpose_of kind
     \<and> upl_expected_sha256 locked = upl_expected_sha256 u
     \<and> upl_size_bytes locked = upl_size_bytes u
     \<and> upl_finalized_at locked = upl_finalized_at u
     \<and> upl_promotion_target_deleted_at locked = None"

definition lock_unchanged_reservation ::
  "upload_request \<Rightarrow> user \<Rightarrow> job_kind \<Rightarrow> ('st world, upload_request) prog" where
  "lock_unchanged_reservation u actor kind =
     chain (get_row uploads_t (upl_id u)) (\<lambda>locked.
     chain (require (reservation_unchanged locked u actor kind) (JobConflict ''PROMOTION_STATE'')) (\<lambda>_.
     ret locked))"

text \<open>What a job is about, and how it is created from the locked upload.\<close>

datatype job_domain = DomIssuance issuance | DomVerification verification

fun domain_target :: "job_domain \<Rightarrow> audit_target" where
  "domain_target (DomIssuance i) = issuance_target i"
| "domain_target (DomVerification v) = verification_target v"

fun domain_id :: "job_domain \<Rightarrow> uuid" where
  "domain_id (DomIssuance i) = iss_id i"
| "domain_id (DomVerification v) = ver_id v"

definition create_document :: "user \<Rightarrow> upload_request \<Rightarrow> ('st world, document) prog" where
  "create_document actor locked =
     (case (upl_promotion_target_key locked, upl_expected_sha256 locked) of
        (Some key, Some digest) \<Rightarrow>
          chain uuid4 (\<lambda>pk. chain now (\<lambda>created.
          let x = \<lparr>doc_id = pk, doc_organization_id = usr_organization_id actor,
                   doc_created_by_id = usr_id actor, doc_upload_request_id = upl_id locked,
                   doc_source_object_key = key, doc_expected_source_sha256 = digest,
                   doc_page_count = None, doc_created_at = created\<rparr>
          in chain (save_new documents_t document_ok document_clean x) (\<lambda>_. ret x)))
      | _ \<Rightarrow> raise (IntegrityError ''NOT NULL''))"

definition create_issuance_domain :: "user \<Rightarrow> recipient \<Rightarrow> upload_request \<Rightarrow> ('st world, job_domain) prog" where
  "create_issuance_domain actor recipient locked =
     chain (create_document actor locked) (\<lambda>x.
     chain uuid4 (\<lambda>pk. chain now (\<lambda>issued.
     let i = \<lparr>iss_id = pk, iss_organization_id = usr_organization_id actor,
              iss_document_id = doc_id x, iss_recipient_id = rcp_id recipient,
              iss_created_by_id = usr_id actor, iss_output_object_key = None,
              iss_output_sha256 = None, iss_output_deleted_at = None, iss_issued_at = issued\<rparr>
     in chain (insert_issuance False i) (\<lambda>_. ret (DomIssuance i)))))"

definition create_verification_domain :: "user \<Rightarrow> upload_request \<Rightarrow> ('st world, job_domain) prog" where
  "create_verification_domain actor locked =
     chain uuid4 (\<lambda>pk. chain now (\<lambda>created.
     let v = \<lparr>ver_id = pk, ver_organization_id = usr_organization_id actor,
              ver_upload_request_id = upl_id locked, ver_requested_by_id = usr_id actor,
              ver_recovered_issuance_id = None, ver_status = None, ver_evidence = JObj [],
              ver_metrics = JObj [], ver_created_at = created, ver_completed_at = None\<rparr>
     in chain (save_new verifications_t verification_ok verification_clean v) (\<lambda>_.
        ret (DomVerification v))))"

text \<open>The second transaction.\<close>

definition finalize_promotion ::
  "libs \<Rightarrow> user \<Rightarrow> upload_request \<Rightarrow> job_kind \<Rightarrow> uuid \<Rightarrow> string
     \<Rightarrow> (upload_request \<Rightarrow> ('st world, job_domain) prog) \<Rightarrow> ('st world, job_domain \<times> job) prog" where
  "finalize_promotion L actor u kind cid target create_domain = atomic (
     chain (lock_unchanged_reservation u actor kind) (\<lambda>locked.
     chain (create_domain locked) (\<lambda>domain.
     chain now (\<lambda>t. chain (job_deadline t) (\<lambda>deadline.
     chain (create_job (usr_organization_id actor) kind
              (if kind = KindIssuance then Some (domain_id domain) else None)
              (if kind = KindVerification then Some (domain_id domain) else None)
              deadline cid) (\<lambda>j.
     chain (create_job_event L j target (upl_expected_sha256 locked)) (\<lambda>_.
     chain (record_event (lb_text L) actor (kind_value kind @ ''.created'') (domain_target domain)
              OutcomeSucceeded cid
              (JObj [(''status'', JStr (status_value (job_status j))), (''attempt'', JInt (job_attempt j))])) (\<lambda>_.
     chain (save_promotion locked Attached (Some target) None) (\<lambda>_.
     ret (domain, j))))))))))"

text \<open>
  The handlers of both halves: fence, mark failed, re-raise; neither step may hide the error.
\<close>

definition abandon_promotion ::
  "'st storage_ops \<Rightarrow> uuid \<Rightarrow> string \<Rightarrow> string \<Rightarrow> exn \<Rightarrow> ('st world, 'a) prog" where
  "abandon_promotion storage upload_id target safe_code e =
     chain (swallow (delete_fenced_promotion_target storage upload_id)) (\<lambda>_.
     chain (swallow (mark_failed upload_id target safe_code)) (\<lambda>_.
     raise e))"

definition copy_then_finalize ::
  "libs \<Rightarrow> 'st storage_ops \<Rightarrow> user \<Rightarrow> upload_request \<Rightarrow> job_kind \<Rightarrow> uuid
     \<Rightarrow> (upload_request \<Rightarrow> ('st world, job_domain) prog) \<Rightarrow> ('st world, job_domain \<times> job) prog" where
  "copy_then_finalize L storage actor u kind cid create_domain =
     (case (upl_promotion_target_key u, upl_expected_sha256 u) of
        (Some target, Some digest) \<Rightarrow>
          chain (attempt
            (chain (on_store (so_copy_verified storage (upl_object_key u) target digest)) (\<lambda>copied.
             lift_sum (verify_copy_observation copied u)))
            (abandon_promotion storage (upl_id u) target ''PROMOTION_COPY_FAILED'')) (\<lambda>_.
          chain (attempt (finalize_promotion L actor u kind cid target create_domain)
            (abandon_promotion storage (upl_id u) target ''PROMOTION_FINALIZE_FAILED'')) (\<lambda>(domain, j).
          chain (attempt
            (chain (delete_attached_orphan_source (lb_text L) storage actor (upl_id u) cid) (\<lambda>_. ret ()))
            (\<lambda>_. chain (record_event (lb_text L) actor ''object.cleanup_deferred_to_lifecycle''
                     (domain_target domain) OutcomeFailed cid
                     (JObj [(''safe_error_code'', JStr ''ORPHAN_CLEANUP_DEFERRED''),
                            (''status'', JStr (status_value (job_status j)))])) (\<lambda>_. ret ()))) (\<lambda>_.
          ret (domain, j))))
      | _ \<Rightarrow> raise (TypeError ''unreachable after reserve_promotion''))"

section \<open>The services\<close>

text \<open>\<open>str(error)\<close> of the four classes that are recorded as denials.\<close>

definition exn_text :: "exn \<Rightarrow> string" where
  "exn_text e = (case e of WorkflowNotFound c \<Rightarrow> c | JobConflict c \<Rightarrow> c | UploadRejected c \<Rightarrow> c
     | PermissionDenied c \<Rightarrow> c | _ \<Rightarrow> [])"

definition record_job_denial :: "text_libs \<Rightarrow> user \<Rightarrow> string \<Rightarrow> uuid \<Rightarrow> exn \<Rightarrow> ('st world, unit) prog" where
  "record_job_denial T actor action cid e =
     chain (record_event T actor action (user_target actor) OutcomeDenied cid
              (JObj [(''safe_error_code'', JStr (exn_text e))])) (\<lambda>_. ret ())"

definition denies_create :: "exn \<Rightarrow> bool" where
  "denies_create e = (case e of WorkflowNotFound _ \<Rightarrow> True | JobConflict _ \<Rightarrow> True
     | UploadRejected _ \<Rightarrow> True | PermissionDenied _ \<Rightarrow> True | _ \<Rightarrow> False)"

definition denies_cancel :: "exn \<Rightarrow> bool" where
  "denies_cancel e = (case e of WorkflowNotFound _ \<Rightarrow> True | JobConflict _ \<Rightarrow> True
     | PermissionDenied _ \<Rightarrow> True | _ \<Rightarrow> False)"

definition with_denial ::
  "text_libs \<Rightarrow> user \<Rightarrow> string \<Rightarrow> uuid \<Rightarrow> (exn \<Rightarrow> bool) \<Rightarrow> ('st world, 'a) prog \<Rightarrow> ('st world, 'a) prog" where
  "with_denial T actor action cid denies m =
     attempt m (\<lambda>e. if denies e then chain (record_job_denial T actor action cid e) (\<lambda>_. raise e)
                    else raise e)"

definition create_issuance_body ::
  "libs \<Rightarrow> 'st storage_ops \<Rightarrow> user \<Rightarrow> uuid \<Rightarrow> uuid \<Rightarrow> uuid \<Rightarrow> ('st world, job_domain \<times> job) prog" where
  "create_issuance_body L storage actor recipient_id upload_id cid =
     chain (authorize_create actor KindIssuance) (\<lambda>_.
     chain (attempt (get_scoped recipients_t recipient_id (\<lambda>r.
              rcp_organization_id r = usr_organization_id actor)) lookup_failure) (\<lambda>recipient.
     chain (reserve_promotion actor upload_id KindIssuance) (\<lambda>u.
     copy_then_finalize L storage actor u KindIssuance cid (create_issuance_domain actor recipient))))"

definition create_issuance ::
  "libs \<Rightarrow> 'st storage_ops \<Rightarrow> user \<Rightarrow> uuid \<Rightarrow> uuid \<Rightarrow> uuid \<Rightarrow> ('st world, job_domain \<times> job) prog" where
  "create_issuance L storage actor recipient_id upload_id cid =
     with_denial (lb_text L) actor ''issuance.create_denied'' cid denies_create
       (create_issuance_body L storage actor recipient_id upload_id cid)"

definition create_verification_body ::
  "libs \<Rightarrow> 'st storage_ops \<Rightarrow> user \<Rightarrow> uuid \<Rightarrow> uuid \<Rightarrow> ('st world, job_domain \<times> job) prog" where
  "create_verification_body L storage actor upload_id cid =
     chain (authorize_create actor KindVerification) (\<lambda>_.
     chain (reserve_promotion actor upload_id KindVerification) (\<lambda>u.
     copy_then_finalize L storage actor u KindVerification cid (create_verification_domain actor)))"

definition create_verification ::
  "libs \<Rightarrow> 'st storage_ops \<Rightarrow> user \<Rightarrow> uuid \<Rightarrow> uuid \<Rightarrow> ('st world, job_domain \<times> job) prog" where
  "create_verification L storage actor upload_id cid =
     with_denial (lb_text L) actor ''verification.create_denied'' cid denies_create
       (create_verification_body L storage actor upload_id cid)"

section \<open>Cancelling\<close>

definition is_exact_cancel_replay :: "job \<Rightarrow> user \<Rightarrow> uuid \<Rightarrow> audit_event \<Rightarrow> bool" where
  "is_exact_cancel_replay j actor cid e \<longleftrightarrow> aud_organization_id e = usr_organization_id actor
     \<and> aud_actor_id e = Some (usr_id actor) \<and> aud_action e = ''job.cancel_requested''
     \<and> aud_target_type e = at_label (job_target j) \<and> aud_target_id e = uuid_str (job_id j)
     \<and> aud_correlation_id e = cid \<and> aud_outcome e = OutcomeSucceeded"

definition request_cancel_body :: "text_libs \<Rightarrow> user \<Rightarrow> uuid \<Rightarrow> uuid \<Rightarrow> ('st world, job) prog" where
  "request_cancel_body T actor k cid = atomic (
     chain (require (usr_role actor \<noteq> Auditor) (PermissionDenied ''WORKFLOW_FORBIDDEN'')) (\<lambda>_.
     chain (gets w_db) (\<lambda>d.
     chain (attempt (get_scoped jobs_t k (scope_jobs d actor)) lookup_failure) (\<lambda>j.
     if job_cancel_requested_at j \<noteq> None \<or> job_status j = Cancelled then
       chain (exists_where audit_t (is_exact_cancel_replay j actor cid)) (\<lambda>replay.
       if replay then ret j else raise (JobConflict ''JOB_CANCEL_ALREADY_REQUESTED''))
     else
       chain (require (job_status j \<notin> {Succeeded, Failed, DeadLettered}) (JobConflict ''JOB_TERMINAL'')) (\<lambda>_.
       chain now (\<lambda>t.
       let j1 = j\<lparr>job_cancel_requested_at := Some t\<rparr> in
       chain (if job_status j1 \<in> {Created, Queued, RetryableFailed}
              then lift_sum (advance_job j1 Cancelled) else ret j1) (\<lambda>j2.
       chain (save_job [FCancelRequestedAt, FStatus, FUpdatedAt] j2) (\<lambda>j3.
       chain (record_event T actor ''job.cancel_requested'' (job_target j3) OutcomeSucceeded cid
                (JObj [(''status'', JStr (status_value (job_status j3))),
                       (''attempt'', JInt (job_attempt j3))])) (\<lambda>_.
       ret j3)))))))))"

definition request_cancel :: "text_libs \<Rightarrow> user \<Rightarrow> uuid \<Rightarrow> uuid \<Rightarrow> ('st world, job) prog" where
  "request_cancel T actor k cid =
     with_denial T actor ''job.cancel_denied'' cid denies_cancel (request_cancel_body T actor k cid)"

section \<open>Creating rows\<close>

lemma wpi_save_new:
  assumes "wp (clean r) (\<lambda>_. wp (insert_row t ok r) Q E) E w"
  shows "wp (save_new t ok clean r) Q E w"
  using assms by (simp add: save_new_def wp_simps)

lemma create_job_wp:
  "wp (create_job org kind iss ver deadline cid)
     (\<lambda>j w'. w_db w' = (w_db w)\<lparr>db_jobs := db_jobs (w_db w) @ [j]\<rparr> \<and> w_store w' = w_store w
        \<and> job_status j = Created \<and> job_attempt j = 0 \<and> job_kind j = kind \<and> job_organization_id j = org
        \<and> job_issuance_id j = iss \<and> job_verification_id j = ver \<and> job_deadline_at j = deadline
        \<and> job_correlation_id j = cid \<and> job_cancel_requested_at j = None \<and> job_ok (w_db w) j
        \<and> job_id j \<notin> job_id ` set (db_jobs (w_db w)))
     (\<lambda>_ _. True) w"
  unfolding create_job_def Let_def
  by (intro wp_intros wpi_save_new wp_job_clean_weaken) auto

lemma create_document_wp:
  "wp (create_document actor locked)
     (\<lambda>x w'. w_db w' = (w_db w)\<lparr>db_documents := db_documents (w_db w) @ [x]\<rparr> \<and> w_store w' = w_store w
        \<and> doc_organization_id x = usr_organization_id actor \<and> doc_created_by_id x = usr_id actor
        \<and> doc_upload_request_id x = upl_id locked
        \<and> Some (doc_source_object_key x) = upl_promotion_target_key locked
        \<and> Some (doc_expected_source_sha256 x) = upl_expected_sha256 locked
        \<and> doc_page_count x = None \<and> document_ok (w_db w) x)
     (\<lambda>_ _. True) w"
proof (cases "upl_promotion_target_key locked"; cases "upl_expected_sha256 locked")
  fix key digest
  assume "upl_promotion_target_key locked = Some key" "upl_expected_sha256 locked = Some digest"
  then show ?thesis
    unfolding create_document_def Let_def
    by (simp only: prod.case option.case) (intro wp_intros wpi_save_new wp_document_clean_weaken; simp)
qed (simp_all add: create_document_def wp_simps)

section \<open>The evolution of the database\<close>

lemma g_get_scoped: "guarantees evolves (get_scoped t k P)"
  unfolding get_scoped_def by (intro evolution.g_intros g_world)

lemma g_save_promotion: "guarantees evolves (save_promotion u status target code)"
proof (rule guaranteesI)
  fix w :: "'a world"
  show "wp (save_promotion u status target code) (\<lambda>_. evolves w) (\<lambda>_. evolves w) w"
  proof (cases "lookup_by upl_id (upl_id u) (db_uploads (w_db w))")
    case None
    then show ?thesis
      unfolding save_promotion_def by (intro wp_intros) auto
  next
    case (Some p)
    show ?thesis
      by (rule wp_mono [OF save_promotion_wp [OF Some]])
         (auto intro: db_evolves_uploads [OF _ db_evolves_refl])
  qed
qed

lemma g_create_job: "guarantees evolves (create_job org kind iss ver deadline cid)"
  unfolding create_job_def Let_def
  by (intro evolution.g_intros g_world guaranteesI wpi_save_new wp_job_clean_weaken wp_intros)
     (auto intro: db_evolves_intros)

lemma g_create_job_event: "guarantees evolves (create_job_event L j key sha)"
  by (rule guaranteesI, rule wp_mono [OF create_job_event_wp])
     (auto intro: db_evolves_intros)

lemma g_mark_failed: "guarantees evolves (mark_failed upload_id target code)"
  unfolding mark_failed_def by (intro evolution.g_intros g_world g_save_promotion)

lemma g_lookup_failure: "guarantees evolves (lookup_failure e)"
  unfolding lookup_failure_def by (cases e) (simp_all add: evolution.g_intros)

lemma g_reserve_promotion: "guarantees evolves (reserve_promotion actor upload_id kind)"
  unfolding reserve_promotion_def authorize_create_def
  by (intro evolution.g_intros g_world g_get_scoped g_lookup_failure g_save_promotion)

lemma g_abandon: "guarantees evolves (abandon_promotion storage upload_id target code e)"
  unfolding abandon_promotion_def by (intro evolution.g_intros g_delete_fenced g_mark_failed)

lemma g_with_denial: "guarantees evolves m \<Longrightarrow> guarantees evolves (with_denial T actor action cid P m)"
  unfolding with_denial_def record_job_denial_def by (intro evolution.g_intros g_world)

section \<open>All or nothing\<close>

text \<open>
  What finalizing needs of the domain row it creates: it only adds to the three domain tables.
  \<open>made u x d d'\<close> says what \<open>make u\<close> did.
\<close>

locale workflow_domain =
  fixes make :: "upload_request \<Rightarrow> ('st world, job_domain) prog"
    and made :: "upload_request \<Rightarrow> job_domain \<Rightarrow> db \<Rightarrow> db \<Rightarrow> bool"
  assumes make_spec: "wp (make u) (\<lambda>x w'. w_store w' = w_store w \<and> made u x (w_db w) (w_db w')) (\<lambda>_ _. True) w"
    and made_frame: "made u x d d' \<Longrightarrow> \<exists>docs isss vers. d' = d\<lparr>db_documents := db_documents d @ docs,
        db_issuances := db_issuances d @ isss, db_verifications := db_verifications d @ vers\<rparr>"

text \<open>The rows of a workflow; other tables may have changed too.\<close>

definition workflow_rows_same :: "db \<Rightarrow> db \<Rightarrow> bool" where
  "workflow_rows_same d d' \<longleftrightarrow> db_documents d' = db_documents d \<and> db_issuances d' = db_issuances d
     \<and> db_verifications d' = db_verifications d \<and> db_jobs d' = db_jobs d \<and> db_outbox d' = db_outbox d"

definition upload_attached :: "uuid \<Rightarrow> string \<Rightarrow> db \<Rightarrow> bool" where
  "upload_attached k target d \<longleftrightarrow> (\<exists>r. lookup_by upl_id k (db_uploads d) = Some r
     \<and> upl_promotion_status r = Attached \<and> upl_promotion_target_key r = Some target)"

text \<open>
  One job in its first state with the request that names the attached target, and its domain row,
  made from the unchanged and unfenced reservation.
\<close>

definition workflow_added ::
  "(upload_request \<Rightarrow> job_domain \<Rightarrow> db \<Rightarrow> db \<Rightarrow> bool) \<Rightarrow> user \<Rightarrow> upload_request \<Rightarrow> job_kind \<Rightarrow> uuid \<Rightarrow> string
     \<Rightarrow> db \<Rightarrow> job_domain \<Rightarrow> job \<Rightarrow> db \<Rightarrow> bool" where
  "workflow_added made actor u kind cid target d x j d' \<longleftrightarrow> (\<exists>locked e.
     lookup_by upl_id (upl_id u) (db_uploads d) = Some locked
     \<and> reservation_unchanged locked u actor kind
     \<and> made locked x d (d\<lparr>db_documents := db_documents d', db_issuances := db_issuances d',
          db_verifications := db_verifications d'\<rparr>)
     \<and> db_jobs d' = db_jobs d @ [j] \<and> job_status j = Created \<and> job_attempt j = 0 \<and> job_kind j = kind
     \<and> job_organization_id j = usr_organization_id actor \<and> job_correlation_id j = cid
     \<and> job_issuance_id j = (if kind = KindIssuance then Some (domain_id x) else None)
     \<and> job_verification_id j = (if kind = KindVerification then Some (domain_id x) else None)
     \<and> db_outbox d' = db_outbox d @ [e] \<and> event_carries j target (upl_expected_sha256 locked) e
     \<and> upload_attached (upl_id u) target d')"

lemma upload_attached_evolves:
  assumes "upload_attached k target d" "rows_evolve upl_id upload_evolves (db_uploads d) (db_uploads d')"
  shows "upload_attached k target d'"
proof -
  obtain r where r: "lookup_by upl_id k (db_uploads d) = Some r" "upl_promotion_status r = Attached"
    "upl_promotion_target_key r = Some target" using assms(1) by (auto simp: upload_attached_def)
  obtain r' where "lookup_by upl_id k (db_uploads d') = Some r'" "upload_evolves r r'"
    using rows_evolveD [OF assms(2) r(1)] by blast
  with r show ?thesis
    by (auto simp: upload_attached_def upload_evolves_def promotion_frozen_def)
qed

lemma workflow_added_later:
  assumes "workflow_added made actor u kind cid target d x j d1" "workflow_rows_same d1 d2"
    and "rows_evolve upl_id upload_evolves (db_uploads d1) (db_uploads d2)"
  shows "workflow_added made actor u kind cid target d x j d2"
  using assms upload_attached_evolves [OF _ assms(3)]
  unfolding workflow_added_def workflow_rows_same_def by metis

lemma promoted_attached:
  "promoted_row p r Attached (Some target) code \<Longrightarrow>
     upl_promotion_status r = Attached \<and> upl_promotion_target_key r = Some target"
  by (auto simp: promoted_row_def)

lemma lock_unchanged_wp:
  "wp (lock_unchanged_reservation u actor kind)
     (\<lambda>locked w'. w' = w \<and> upl_id locked = upl_id u
        \<and> lookup_by upl_id (upl_id u) (db_uploads (w_db w)) = Some locked
        \<and> reservation_unchanged locked u actor kind) (\<lambda>_ w'. w' = w) w"
  unfolding lock_unchanged_reservation_def by (intro wp_intros) (auto dest: lookup_by_key)

context workflow_domain
begin

lemma make_wp:
  "wp (make u) (\<lambda>x w'. w_store w' = w_store w \<and> made u x (w_db w) (w_db w')
      \<and> (\<exists>docs isss vers. w_db w' = (w_db w)\<lparr>db_documents := db_documents (w_db w) @ docs,
        db_issuances := db_issuances (w_db w) @ isss,
        db_verifications := db_verifications (w_db w) @ vers\<rparr>)) (\<lambda>_ _. True) w"
  by (rule wp_mono [OF make_spec]) (blast dest: made_frame)+

lemma finalize_wp:
  "wp (finalize_promotion L actor u kind cid target make)
     (\<lambda>(x, j) w'. w_store w' = w_store w
        \<and> workflow_added made actor u kind cid target (w_db w) x j (w_db w'))
     (\<lambda>_ w'. w_db w' = w_db w) w"
  unfolding finalize_promotion_def job_deadline_def
  by (intro wp_intros wp_mono [OF lock_unchanged_wp] wp_mono [OF make_wp] wp_mono [OF create_job_wp]
      wp_mono [OF create_job_event_wp] wp_mono [OF record_event_wp] wp_mono [OF save_promotion_wp])
     (auto simp: workflow_added_def only_uploads_evolve_def upload_attached_def
        dest!: promoted_attached intro: lookup_self)

lemma finalize_evolves: "guarantees evolves (finalize_promotion L actor u kind cid target make)"
proof (rule guaranteesI)
  fix w :: "'st world"
  show "wp (finalize_promotion L actor u kind cid target make) (\<lambda>_. evolves w) (\<lambda>_. evolves w) w"
    unfolding finalize_promotion_def job_deadline_def
    by (intro wp_intros wp_mono [OF lock_unchanged_wp] wp_mono [OF make_wp] wp_mono [OF create_job_wp]
        wp_mono [OF create_job_event_wp] wp_mono [OF record_event_wp] wp_mono [OF save_promotion_wp])
       (auto simp: only_uploads_evolve_def intro!: db_evolves_intros)
qed

end

section \<open>The frame of the compensation steps\<close>

text \<open>A program leaves the workflow rows alone, whether it returns or raises.\<close>

abbreviation keeps_rows :: "('st world, 'a) prog \<Rightarrow> bool" where
  "keeps_rows m \<equiv> guarantees (\<lambda>w v. workflow_rows_same (w_db w) (w_db v)) m"

interpretation rows_kept: db_preorder workflow_rows_same
  by unfold_locales (auto simp: workflow_rows_same_def)

lemma uploads_keep_rows: "only_uploads_evolve d d' \<Longrightarrow> workflow_rows_same d d'"
  by (auto simp: only_uploads_evolve_def workflow_rows_same_def)

lemma k_save_promotion: "keeps_rows (save_promotion u status target code)"
proof (rule rows_kept.g_keepsI)
  fix w :: "'a world"
  show "wp (save_promotion u status target code) (\<lambda>_ w'. workflow_rows_same (w_db w) (w_db w'))
     (\<lambda>_ w'. workflow_rows_same (w_db w) (w_db w')) w"
  proof (cases "lookup_by upl_id (upl_id u) (db_uploads (w_db w))")
    case None
    then show ?thesis
      unfolding save_promotion_def by (intro wp_intros) (auto simp: rows_kept.db_refl)
  next
    case (Some p)
    show ?thesis
      by (rule wp_mono [OF save_promotion_wp [OF Some]])
         (auto intro: uploads_keep_rows simp: rows_kept.db_refl)
  qed
qed

lemma k_mark_failed: "keeps_rows (mark_failed upload_id target code)"
  unfolding mark_failed_def by (intro rows_kept.g_intros rows_kept.g_reads k_save_promotion)

lemma k_delete_fenced: "keeps_rows (delete_fenced_promotion_target storage upload_id)"
  unfolding delete_fenced_promotion_target_def by (intro rows_kept.g_intros rows_kept.g_reads)

lemma k_lookup_failure: "keeps_rows (lookup_failure e)"
  unfolding lookup_failure_def by (cases e) (simp_all add: rows_kept.g_intros)

lemma k_get_scoped: "keeps_rows (get_scoped t k P)"
  unfolding get_scoped_def by (intro rows_kept.g_intros rows_kept.g_reads)

lemma k_reserve: "keeps_rows (reserve_promotion actor upload_id kind)"
  unfolding reserve_promotion_def authorize_create_def
  by (intro rows_kept.g_intros rows_kept.g_reads k_get_scoped k_lookup_failure k_save_promotion)

lemma k_record_event: "keeps_rows (record_event T actor action target outcome cid md)"
  by (rule rows_kept.g_keepsI, rule wp_mono [OF record_event_wp]) (auto simp: workflow_rows_same_def)

lemma k_record_upload_deletion: "keeps_rows (record_upload_deletion T u slot action t cid actor)"
  by (rule rows_kept.g_keepsI, rule wp_mono [OF record_upload_deletion_wp])
     (auto simp: workflow_rows_same_def upload_tombstoned_def split: if_splits)

lemma k_delete_orphan: "keeps_rows (delete_attached_orphan_source T storage actor upload_id cid)"
  unfolding delete_attached_orphan_source_def
  by (intro rows_kept.g_intros rows_kept.g_reads k_record_upload_deletion)

lemma abandon_wp:
  "wp (abandon_promotion storage upload_id target code e) Q
     (\<lambda>e' w'. e' = e \<and> workflow_rows_same (w_db w) (w_db w')) w"
  unfolding abandon_promotion_def
  by (intro wp_intros wp_mono [OF guarantees_wp [OF k_delete_fenced]]
      wp_mono [OF guarantees_wp [OF k_mark_failed]]) (auto intro: rows_kept.db_trans)

section \<open>Creating a workflow\<close>

text \<open>
  The promoted object: it carries the declared size and the digest that the client announced, and holds the bytes
  that the uploaded object had. No digest of these bytes is taken here; the worker does that when it reads them.
\<close>

definition promoted_object ::
  "('st \<Rightarrow> string \<Rightarrow> object_metadata option) \<Rightarrow> ('st \<Rightarrow> string \<Rightarrow> bytes option) \<Rightarrow> string \<Rightarrow> upload_request \<Rightarrow> 'st \<Rightarrow> 'st \<Rightarrow> bool" where
  "promoted_object stored content target u st st' \<longleftrightarrow> (\<exists>m. stored st' target = Some m \<and> om_key m = target
     \<and> Some (om_size_bytes m) = upl_size_bytes u \<and> om_client_sha256_metadata m = upl_expected_sha256 u)
     \<and> content st' target = content st (upl_object_key u)"

text \<open>Deleting orphan sources leaves every other object as it is.\<close>

definition inputs_kept ::
  "('st \<Rightarrow> string \<Rightarrow> object_metadata option) \<Rightarrow> ('st \<Rightarrow> string \<Rightarrow> bytes option) \<Rightarrow> 'st \<Rightarrow> 'st \<Rightarrow> bool" where
  "inputs_kept stored content st st' \<longleftrightarrow>
     (\<forall>key. match_orphan_key key = None \<longrightarrow> stored st' key = stored st key \<and> content st' key = content st key)"

lemma inputs_kept_refl: "inputs_kept stored content st st"
  by (simp add: inputs_kept_def)

lemma orphan_touch_keeps:
  "touches_only stored content k st st' \<Longrightarrow> match_orphan_key k = Some n \<Longrightarrow> inputs_kept stored content st st'"
  unfolding touches_only_def inputs_kept_def by (metis option.distinct(1))

lemma inputs_kept_promoted:
  "promoted_object stored content target u st st1 \<Longrightarrow> inputs_kept stored content st1 st2 \<Longrightarrow>
     match_orphan_key target = None \<Longrightarrow> promoted_object stored content target u st st2"
  by (auto simp: promoted_object_def inputs_kept_def)

text \<open>
  The client of both contracts: a workflow domain and an object store. The copy is observed before
  the second transaction, and the orphan source that is deleted afterwards is never the target.
\<close>

locale copying_workflow = workflow_domain make made + object_storage ops stored content
  for make :: "upload_request \<Rightarrow> ('st world, job_domain) prog"
    and made :: "upload_request \<Rightarrow> job_domain \<Rightarrow> db \<Rightarrow> db \<Rightarrow> bool"
    and ops :: "'st storage_ops" and stored :: "'st \<Rightarrow> string \<Rightarrow> object_metadata option"
    and content :: "'st \<Rightarrow> string \<Rightarrow> bytes option"
begin

lemma copy_wp:
  "wp (so_copy_verified ops src dst sha)
     (\<lambda>m st'. stored st' dst = Some m \<and> om_key m = dst \<and> om_client_sha256_metadata m = Some sha
        \<and> content st' dst = content st src) (\<lambda>_ _. True) st"
  by (auto simp: wp_def split: prod.splits sum.splits dest: copy_ok)

lemma delete_orphan_wp:
  "wp (delete_attached_orphan_source T ops actor k cid)
     (\<lambda>_ w'. workflow_rows_same (w_db w) (w_db w') \<and> db_evolves (w_db w) (w_db w') \<and> inputs_kept stored content (w_store w) (w_store w'))
     (\<lambda>_ w'. workflow_rows_same (w_db w) (w_db w') \<and> db_evolves (w_db w) (w_db w') \<and> inputs_kept stored content (w_store w) (w_store w')) w"
proof -
  have "wp (delete_attached_orphan_source T ops actor k cid)
     (\<lambda>_ w'. inputs_kept stored content (w_store w) (w_store w')) (\<lambda>_ w'. inputs_kept stored content (w_store w) (w_store w')) w"
    unfolding delete_attached_orphan_source_def
    by (intro wp_intros wp_mono [OF delete_wp] wp_mono [OF record_upload_deletion_wp])
       (auto simp: upload_key_owned_def inputs_kept_refl intro: orphan_touch_keeps removed_touches split: option.splits)
  from wp_conj [OF guarantees_wp [OF k_delete_orphan] wp_conj [OF guarantees_wp [OF g_delete_orphan] this]]
  show ?thesis by (rule wp_mono) auto
qed

lemma verify_copy_Inr:
  "verify_copy_observation m u = Inr () \<longleftrightarrow> Some (om_key m) = upl_promotion_target_key u
     \<and> Some (om_size_bytes m) = upl_size_bytes u \<and> om_client_sha256_metadata m = upl_expected_sha256 u"
  by (auto simp: verify_copy_observation_def)

text \<open>The workflow is there completely, with its object, or its rows are not there at all.\<close>

lemma copy_then_finalize_wp:
  assumes target: "upl_promotion_target_key u = Some target" and shape: "match_orphan_key target = None"
  shows "wp (copy_then_finalize L ops actor u kind cid make)
     (\<lambda>(x, j) w'. workflow_added made actor u kind cid target (w_db w) x j (w_db w')
        \<and> promoted_object stored content target u (w_store w) (w_store w'))
     (\<lambda>_ w'. workflow_rows_same (w_db w) (w_db w')
        \<or> (\<exists>x j. workflow_added made actor u kind cid target (w_db w) x j (w_db w')
             \<and> promoted_object stored content target u (w_store w) (w_store w'))) w"
proof (cases "upl_expected_sha256 u")
  case None
  then show ?thesis using target by (simp add: copy_then_finalize_def wp_simps rows_kept.db_refl)
next
  case (Some digest)
  have later: "workflow_added made actor u kind cid k d x j d2"
    if "workflow_added made actor u kind cid k d x j d1" "workflow_rows_same d1 d2" "db_evolves d1 d2"
    for d d1 d2 x j k
    by (rule workflow_added_later [OF that(1,2)]) (use that(3) in \<open>simp add: db_evolves_def\<close>)
  have deferred: "wp (record_event T actor action tgt outcome cid md)
      (\<lambda>_ w'. workflow_rows_same (w_db v) (w_db w') \<and> db_evolves (w_db v) (w_db w') \<and> w_store w' = w_store v)
      (\<lambda>_ w'. workflow_rows_same (w_db v) (w_db w') \<and> db_evolves (w_db v) (w_db w') \<and> w_store w' = w_store v) v"
    for T action tgt outcome md v
    by (rule wp_mono [OF record_event_wp]) (auto simp: workflow_rows_same_def intro: db_evolves_intros)
  have copied: "promoted_object stored content k u st st2"
    if "stored st1 k = Some m" "om_key m = k" "content st1 k = content st (upl_object_key u)"
      "verify_copy_observation m u = Inr ()" "inputs_kept stored content st1 st2" "match_orphan_key k = None"
    for st st1 st2 m k
    by (rule inputs_kept_promoted [OF _ that(5,6)])
       (use that in \<open>auto simp: promoted_object_def verify_copy_Inr\<close>)
  show ?thesis
    unfolding copy_then_finalize_def target Some prod.case option.case
    using shape
    by (intro wp_intros wp_mono [OF copy_wp] wp_mono [OF abandon_wp] wp_mono [OF finalize_wp]
        wp_mono [OF delete_orphan_wp] wp_mono [OF deferred])
       (auto intro: later copied inputs_kept_refl simp: rows_kept.db_refl, (meson later copied inputs_kept_refl)+)
qed

end

section \<open>The two workflows\<close>

definition issuance_made :: "user \<Rightarrow> recipient \<Rightarrow> upload_request \<Rightarrow> job_domain \<Rightarrow> db \<Rightarrow> db \<Rightarrow> bool" where
  "issuance_made actor recipient u x d d' \<longleftrightarrow> (\<exists>doc i. x = DomIssuance i
     \<and> d' = d\<lparr>db_documents := db_documents d @ [doc], db_issuances := db_issuances d @ [i]\<rparr>
     \<and> doc_organization_id doc = usr_organization_id actor \<and> doc_upload_request_id doc = upl_id u
     \<and> Some (doc_source_object_key doc) = upl_promotion_target_key u
     \<and> Some (doc_expected_source_sha256 doc) = upl_expected_sha256 u \<and> doc_page_count doc = None
     \<and> iss_document_id i = doc_id doc \<and> iss_recipient_id i = rcp_id recipient
     \<and> iss_organization_id i = usr_organization_id actor \<and> iss_created_by_id i = usr_id actor
     \<and> iss_output_object_key i = None \<and> iss_output_sha256 i = None \<and> iss_output_deleted_at i = None)"

definition verification_made :: "user \<Rightarrow> upload_request \<Rightarrow> job_domain \<Rightarrow> db \<Rightarrow> db \<Rightarrow> bool" where
  "verification_made actor u x d d' \<longleftrightarrow> (\<exists>v. x = DomVerification v
     \<and> d' = d\<lparr>db_verifications := db_verifications d @ [v]\<rparr>
     \<and> ver_organization_id v = usr_organization_id actor \<and> ver_upload_request_id v = upl_id u
     \<and> ver_requested_by_id v = usr_id actor \<and> ver_status v = None \<and> ver_completed_at v = None
     \<and> ver_recovered_issuance_id v = None)"

interpretation issuance_workflow: workflow_domain "create_issuance_domain actor recipient"
    "issuance_made actor recipient"
proof unfold_locales
  fix u and w :: "'a world"
  show "wp (create_issuance_domain actor recipient u)
     (\<lambda>x w'. w_store w' = w_store w \<and> issuance_made actor recipient u x (w_db w) (w_db w')) (\<lambda>_ _. True) w"
    unfolding create_issuance_domain_def insert_issuance_def Let_def
    by (intro wp_intros wp_mono [OF create_document_wp] wpi_save_new wp_issuance_clean_weaken)
       (auto simp: issuance_made_def)
next
  fix u x d d'
  assume "issuance_made actor recipient u x d d'"
  then obtain doc i where "d' = d\<lparr>db_documents := db_documents d @ [doc], db_issuances := db_issuances d @ [i],
      db_verifications := db_verifications d @ []\<rparr>" by (auto simp: issuance_made_def)
  then show "\<exists>docs isss vers. d' = d\<lparr>db_documents := db_documents d @ docs,
        db_issuances := db_issuances d @ isss, db_verifications := db_verifications d @ vers\<rparr>" by blast
qed

interpretation verification_workflow: workflow_domain "create_verification_domain actor"
    "verification_made actor"
proof unfold_locales
  fix u and w :: "'a world"
  show "wp (create_verification_domain actor u)
     (\<lambda>x w'. w_store w' = w_store w \<and> verification_made actor u x (w_db w) (w_db w')) (\<lambda>_ _. True) w"
    unfolding create_verification_domain_def Let_def
    by (intro wp_intros wpi_save_new wp_verification_clean_weaken) (auto simp: verification_made_def)
next
  fix u x d d'
  assume "verification_made actor u x d d'"
  then obtain v where "d' = d\<lparr>db_documents := db_documents d @ [], db_issuances := db_issuances d @ [],
      db_verifications := db_verifications d @ [v]\<rparr>" by (auto simp: verification_made_def)
  then show "\<exists>docs isss vers. d' = d\<lparr>db_documents := db_documents d @ docs,
        db_issuances := db_issuances d @ isss, db_verifications := db_verifications d @ vers\<rparr>" by blast
qed

text \<open>The two locales have a common client, here for the store of the repository.\<close>

interpretation fake_issuance: copying_workflow "create_issuance_domain actor recipient"
    "issuance_made actor recipient" "fake_ops digest runtime_max" fs_objects fs_object_bytes
  by unfold_locales

interpretation fake_verification: copying_workflow "create_verification_domain actor"
    "verification_made actor" "fake_ops digest runtime_max" fs_objects fs_object_bytes
  by unfold_locales

section \<open>Reservations\<close>

definition reservation_made ::
  "user \<Rightarrow> job_kind \<Rightarrow> uuid \<Rightarrow> db \<Rightarrow> upload_request \<Rightarrow> string \<Rightarrow> db \<Rightarrow> bool" where
  "reservation_made actor kind k d u target d' \<longleftrightarrow> only_uploads_evolve d d' \<and> create_allowed actor kind
     \<and> promoted_input_key (kind_value kind) (usr_organization_id actor) k = Inr target
     \<and> upl_promotion_target_key u = Some target \<and> upl_id u = k
     \<and> (\<exists>p. lookup_by upl_id k (db_uploads d) = Some p
          \<and> upl_organization_id p = usr_organization_id actor \<and> upl_requested_by_id p = usr_id actor
          \<and> upl_purpose p = purpose_of kind \<and> upl_finalized_at p \<noteq> None
          \<and> upl_promotion_status p = PromotionNone \<and> upl_promotion_target_deleted_at p = None
          \<and> upl_expected_sha256 u = upl_expected_sha256 p \<and> upl_size_bytes u = upl_size_bytes p
          \<and> upl_object_key u = upl_object_key p)"

lemma reserve_save_wp:
  assumes row: "lookup_by upl_id (upl_id p) (db_uploads (w_db w)) = Some p"
    and none: "upl_promotion_status p = PromotionNone" "upl_promotion_target_key p = None"
  shows "wp (save_promotion p Copying (Some target) None)
     (\<lambda>u w'. only_uploads_evolve (w_db w) (w_db w') \<and> w_store w' = w_store w \<and> upl_id u = upl_id p
        \<and> upl_promotion_target_key u = Some target \<and> upl_promotion_target_deleted_at p = None
        \<and> upl_expected_sha256 u = upl_expected_sha256 p \<and> upl_size_bytes u = upl_size_bytes p
        \<and> upl_object_key u = upl_object_key p)
     (\<lambda>_ w'. w_db w' = w_db w \<and> w_store w' = w_store w) w"
proof -
  have fields: "wp (save_promotion p Copying (Some target) None)
     (\<lambda>u w'. upl_promotion_target_key u = Some target \<and> upl_promotion_target_deleted_at p = None
        \<and> upl_expected_sha256 u = upl_expected_sha256 p \<and> upl_size_bytes u = upl_size_bytes p
        \<and> upl_object_key u = upl_object_key p)
     (\<lambda>_ _. True) w"
    unfolding save_promotion_def Let_def
    by (intro wp_intros wpi_save_stored wp_upload_clean_weaken) (use row none in auto)
  show ?thesis by (rule wp_mono [OF wp_conj [OF save_promotion_wp [OF row] fields]]) auto
qed

lemma lookup_failure_wp: "(\<And>e. E e w) \<Longrightarrow> wp (lookup_failure e) Q E w"
  unfolding lookup_failure_def by (cases e) (simp_all add: wp_simps)

lemma reserve_promotion_wp:
  "wp (reserve_promotion actor k kind)
     (\<lambda>u w'. w_store w' = w_store w
        \<and> (\<exists>target. reservation_made actor kind k (w_db w) u target (w_db w')))
     (\<lambda>_ w'. w_db w' = w_db w) w"
  unfolding reserve_promotion_def authorize_create_def
  by (intro wp_intros lookup_failure_wp wp_mono [OF reserve_save_wp])
     (auto simp: reservation_made_def intro: lookup_self dest: lookup_by_key)

lemma promoted_key_not_orphan:
  "promoted_input_key kind org k = Inr target \<Longrightarrow> match_orphan_key target = None"
  by (auto simp: promoted_input_key_def match_orphan_key_def eat_lit_def bind.bind_lzero split: if_splits)

section \<open>The services as a whole\<close>

lemma with_denial_wp:
  assumes m: "wp m Q (\<lambda>_. E) w"
    and audit: "\<And>t t'. E t \<Longrightarrow> w_store t' = w_store t \<Longrightarrow>
      w_db t' = w_db t \<or> (\<exists>ev. w_db t' = (w_db t)\<lparr>db_audit := db_audit (w_db t) @ [ev]\<rparr>) \<Longrightarrow> E t'"
  shows "wp (with_denial T actor action cid P m) Q (\<lambda>_. E) w"
  unfolding with_denial_def record_job_denial_def
  by (intro wp_intros wp_mono [OF m] wp_mono [OF record_event_wp]) (auto intro: audit)

definition workflow_started ::
  "(upload_request \<Rightarrow> job_domain \<Rightarrow> db \<Rightarrow> db \<Rightarrow> bool) \<Rightarrow> user \<Rightarrow> job_kind \<Rightarrow> uuid \<Rightarrow> uuid
     \<Rightarrow> db \<Rightarrow> upload_request \<Rightarrow> string \<Rightarrow> job_domain \<Rightarrow> job \<Rightarrow> db \<Rightarrow> bool" where
  "workflow_started made actor kind k cid d u target x j d' \<longleftrightarrow> (\<exists>d1.
     reservation_made actor kind k d u target d1 \<and> workflow_added made actor u kind cid target d1 x j d')"

lemma reservation_keeps_rows: "reservation_made actor kind k d u target d1 \<Longrightarrow> workflow_rows_same d d1"
  by (auto simp: reservation_made_def intro: uploads_keep_rows)

lemma workflow_added_audit:
  "workflow_added made actor u kind cid target d x j d1 \<Longrightarrow>
     workflow_added made actor u kind cid target d x j (d1\<lparr>db_audit := xs\<rparr>)"
  by (rule workflow_added_later) (auto simp: workflow_rows_same_def rows_evolve_refl)

text \<open>The workflow with its object, and that it is there or none of its rows.\<close>

definition workflow_complete ::
  "('st \<Rightarrow> string \<Rightarrow> object_metadata option) \<Rightarrow> ('st \<Rightarrow> string \<Rightarrow> bytes option)
     \<Rightarrow> (upload_request \<Rightarrow> job_domain \<Rightarrow> db \<Rightarrow> db \<Rightarrow> bool) \<Rightarrow> user \<Rightarrow> job_kind \<Rightarrow> uuid \<Rightarrow> uuid
     \<Rightarrow> 'st world \<Rightarrow> job_domain \<Rightarrow> job \<Rightarrow> 'st world \<Rightarrow> bool" where
  "workflow_complete stored content made actor kind k cid w x j w' \<longleftrightarrow> (\<exists>u target.
     workflow_started made actor kind k cid (w_db w) u target x j (w_db w')
     \<and> promoted_object stored content target u (w_store w) (w_store w'))"

definition all_or_nothing ::
  "('st \<Rightarrow> string \<Rightarrow> object_metadata option) \<Rightarrow> ('st \<Rightarrow> string \<Rightarrow> bytes option)
     \<Rightarrow> (upload_request \<Rightarrow> job_domain \<Rightarrow> db \<Rightarrow> db \<Rightarrow> bool) \<Rightarrow> user \<Rightarrow> job_kind \<Rightarrow> uuid \<Rightarrow> uuid
     \<Rightarrow> 'st world \<Rightarrow> 'st world \<Rightarrow> bool" where
  "all_or_nothing stored content made actor kind k cid w w' \<longleftrightarrow> workflow_rows_same (w_db w) (w_db w')
     \<or> (\<exists>x j. workflow_complete stored content made actor kind k cid w x j w')"

lemma rows_same_audit: "workflow_rows_same d (d'\<lparr>db_audit := xs\<rparr>) = workflow_rows_same d d'"
  by (simp add: workflow_rows_same_def)

lemma workflow_complete_audit:
  assumes "workflow_complete stored content made actor kind k cid w x j t" "w_store t' = w_store t"
    and "w_db t' = w_db t \<or> (\<exists>ev. w_db t' = (w_db t)\<lparr>db_audit := db_audit (w_db t) @ [ev]\<rparr>)"
  shows "workflow_complete stored content made actor kind k cid w x j t'"
proof -
  have "workflow_started made actor kind k cid (w_db w) u target x j (w_db t')"
    if "workflow_started made actor kind k cid (w_db w) u target x j (w_db t)" for u target
    using that assms(3) workflow_added_audit [of made actor u kind cid target _ x j "w_db t"]
    by (auto simp: workflow_started_def)
  with assms(1,2) show ?thesis by (auto simp: workflow_complete_def)
qed

lemma all_or_nothing_audit:
  assumes "all_or_nothing stored content made actor kind k cid w t" "w_store t' = w_store t"
    and "w_db t' = w_db t \<or> (\<exists>ev. w_db t' = (w_db t)\<lparr>db_audit := db_audit (w_db t) @ [ev]\<rparr>)"
  shows "all_or_nothing stored content made actor kind k cid w t'"
  using assms workflow_complete_audit [of stored content made actor kind k cid w _ _ t t']
  by (auto simp: all_or_nothing_def rows_same_audit)

lemma all_or_nothing_same: "w_db w' = w_db w \<Longrightarrow> all_or_nothing stored content made actor kind k cid w w'"
  by (simp add: all_or_nothing_def rows_kept.db_refl)

context copying_workflow
begin

lemma reserve_then_copy_wp:
  "wp (chain (reserve_promotion actor k kind) (\<lambda>u. copy_then_finalize L ops actor u kind cid make))
     (\<lambda>(x, j) w'. workflow_complete stored content made actor kind k cid w x j w')
     (\<lambda>_ w'. all_or_nothing stored content made actor kind k cid w w') w"
proof (rule wpi_basic(3), rule wp_mono [OF reserve_promotion_wp], goal_cases)
  case (1 u w1)
  then obtain target where r: "reservation_made actor kind k (w_db w) u target (w_db w1)"
    and st: "w_store w1 = w_store w" by blast
  then have target: "upl_promotion_target_key u = Some target" and shape: "match_orphan_key target = None"
    by (auto simp: reservation_made_def intro: promoted_key_not_orphan)
  have complete: "workflow_complete stored content made actor kind k cid w x j t"
    if "workflow_added made actor u kind cid target (w_db w1) x j (w_db t)"
      "promoted_object stored content target u (w_store w1) (w_store t)" for x j t
    using that r by (auto simp: workflow_complete_def workflow_started_def st)
  show ?case
    using rows_kept.db_trans [OF reservation_keeps_rows [OF r]]
    by (intro wp_mono [OF copy_then_finalize_wp [OF target shape]])
       (auto simp: all_or_nothing_def intro: complete split: prod.splits)
qed (simp add: all_or_nothing_same)

end

lemma create_verification_wp:
  assumes "object_storage ops stored content"
  shows "wp (create_verification L ops actor k cid)
     (\<lambda>(x, j) w'. workflow_complete stored content (verification_made actor) actor KindVerification k cid w x j w')
     (\<lambda>_ w'. all_or_nothing stored content (verification_made actor) actor KindVerification k cid w w') w"
proof -
  have c: "copying_workflow (create_verification_domain actor) (verification_made actor) ops stored content"
    using assms verification_workflow.workflow_domain_axioms by (simp add: copying_workflow_def)
  show ?thesis
    unfolding create_verification_def create_verification_body_def authorize_create_def
    by (rule with_denial_wp, rule wpi_basic(3), rule wpi_require)
       (auto intro: copying_workflow.reserve_then_copy_wp [OF c] all_or_nothing_same elim: all_or_nothing_audit)
qed

lemma create_issuance_wp:
  assumes "object_storage ops stored content"
  shows "wp (create_issuance L ops actor recipient_id k cid)
     (\<lambda>(x, j) w'. \<exists>r. lookup_by rcp_id recipient_id (db_recipients (w_db w)) = Some r
        \<and> rcp_organization_id r = usr_organization_id actor
        \<and> workflow_complete stored content (issuance_made actor r) actor KindIssuance k cid w x j w')
     (\<lambda>_ w'. \<exists>r. all_or_nothing stored content (issuance_made actor r) actor KindIssuance k cid w w') w"
proof -
  have c: "copying_workflow (create_issuance_domain actor r) (issuance_made actor r) ops stored content" for r
    using assms issuance_workflow.workflow_domain_axioms by (simp add: copying_workflow_def)
  show ?thesis
    unfolding create_issuance_def create_issuance_body_def authorize_create_def
  proof (rule with_denial_wp, goal_cases)
    case 1
    show ?case
      by (intro wp_intros lookup_failure_wp
            wp_mono [OF copying_workflow.reserve_then_copy_wp [OF c], unfolded wp_chain])
         (auto intro: all_or_nothing_same)
  next
    case (2 t t')
    from 2(1) obtain r where "all_or_nothing stored content (issuance_made actor r) actor KindIssuance k cid w t" ..
    from all_or_nothing_audit [OF this 2(2,3)] show ?case by (rule exI)
  qed
qed

lemma g_create_services:
  "guarantees evolves (create_issuance L storage actor recipient_id k cid)"
  "guarantees evolves (create_verification L storage actor k cid)"
proof -
  have f: "guarantees evolves (copy_then_finalize L storage actor u kind cid (create_issuance_domain actor r))"
    "guarantees evolves (copy_then_finalize L storage actor u kind cid (create_verification_domain actor))"
    for u kind r
    unfolding copy_then_finalize_def
    by (auto split: option.splits prod.splits
        intro!: evolution.g_intros g_world g_abandon g_delete_orphan
          issuance_workflow.finalize_evolves verification_workflow.finalize_evolves)
  show "guarantees evolves (create_issuance L storage actor recipient_id k cid)"
    "guarantees evolves (create_verification L storage actor k cid)"
    unfolding create_issuance_def create_verification_def create_issuance_body_def
      create_verification_body_def authorize_create_def
    by (intro g_with_denial evolution.g_intros g_world g_get_scoped g_lookup_failure g_reserve_promotion f)+
qed

section \<open>What a cancellation did\<close>

text \<open>
  A job that has not started is cancelled at once; a running one keeps its status and only carries
  the request, which its worker reads. A second request is accepted as a replay of the same one.
\<close>

definition cancel_recorded :: "user \<Rightarrow> uuid \<Rightarrow> uuid \<Rightarrow> db \<Rightarrow> job \<Rightarrow> db \<Rightarrow> bool" where
  "cancel_recorded actor k cid d j d' \<longleftrightarrow> (\<exists>p. lookup_by job_id k (db_jobs d) = Some p
     \<and> scope_jobs d actor p \<and> usr_role actor \<noteq> Auditor \<and>
     (if job_cancel_requested_at p \<noteq> None \<or> job_status p = Cancelled
      then j = p \<and> d' = d \<and> (\<exists>e\<in>set (db_audit d). is_exact_cancel_replay p actor cid e)
      else \<not> job_terminal (job_status p)
        \<and> (\<exists>t s e. j = p\<lparr>job_cancel_requested_at := Some t, job_updated_at := s,
                job_status := (if job_status p = Processing then Processing else Cancelled)\<rparr>
          \<and> lookup_by job_id k (db_jobs d') = Some j
          \<and> db_audit d' = db_audit d @ [e] \<and> is_exact_cancel_replay j actor cid e)))"

lemma request_cancel_body_wp:
  "wp (request_cancel_body T actor k cid)
     (\<lambda>j w'. cancel_recorded actor k cid (w_db w) j (w_db w') \<and> db_evolves (w_db w) (w_db w')
        \<and> w_store w' = w_store w)
     (\<lambda>_ w'. w_db w' = w_db w \<and> w_store w' = w_store w) w"
proof (cases "lookup_by job_id k (db_jobs (w_db w))")
  case None
  then show ?thesis
    unfolding request_cancel_body_def get_scoped_def by (intro wp_intros lookup_failure_wp) auto
next
  case (Some p)
  then have id: "job_id p = k" by (rule lookup_by_key)
  define edited where "edited j \<longleftrightarrow> (\<exists>t s. j = p\<lparr>job_cancel_requested_at := Some t, job_status := s\<rparr>
      \<and> status_reaches (job_status p) s \<and> s = (if job_status p = Processing then Processing else Cancelled))" for j
  have save: "wp (save_job [FCancelRequestedAt, FStatus, FUpdatedAt] j)
      (\<lambda>j' w''. (\<exists>t. j' = j\<lparr>job_updated_at := t\<rparr>) \<and> job_written j' (w_db w) (w_db w'') \<and> w_store w'' = w_store w)
      (\<lambda>_ w''. w_store w'' = w_store w) w'"
    if "w_db w' = w_db w" "w_store w' = w_store w" "edited j"
      "job_cancel_requested_at p = None" for j w'
    by (rule wp_mono [OF save_job_row_wp [where p = p]])
       (use that Some id in \<open>auto simp: edited_def merge_cancel job_evolves_def\<close>)
  have edit: "edited j" if "advance_job (p\<lparr>job_cancel_requested_at := Some t\<rparr>) Cancelled = Inr j"
      "job_status (p\<lparr>job_cancel_requested_at := Some t\<rparr>) \<in> {Created, Queued, RetryableFailed}" for j t
    using that status_reaches_step [of Cancelled "job_status p"] by (auto simp: edited_def advance_job_Inr)
  have running: "edited (p\<lparr>job_cancel_requested_at := Some t\<rparr>)"
    if "job_status (p\<lparr>job_cancel_requested_at := Some t\<rparr>) \<notin> {Created, Queued, RetryableFailed}"
      "job_status p \<notin> {Succeeded, Failed, DeadLettered}"
      "\<not> (job_cancel_requested_at p \<noteq> None \<or> job_status p = Cancelled)" for t
    unfolding edited_def by (rule exI [of _ t], rule exI [of _ "job_status p"]) (use that in \<open>cases "job_status p"; simp\<close>)
  have audit: "wp (record_event T actor ''job.cancel_requested'' (job_target j) OutcomeSucceeded cid md)
      (\<lambda>e w''. w_db w'' = (w_db v)\<lparr>db_audit := db_audit (w_db v) @ [e]\<rparr> \<and> w_store w'' = w_store v
         \<and> is_exact_cancel_replay j actor cid e) (\<lambda>_ w''. w_store w'' = w_store v) v" for j md v
    by (rule wp_mono [OF record_event_wp]) (auto simp: is_exact_cancel_replay_def job_target_def)
  have final: "cancel_recorded actor k cid (w_db w) j' d'"
    if "edited j" "\<exists>u. j' = j\<lparr>job_updated_at := u\<rparr>" and written: "job_written j' (w_db w) d"
      and d': "d' = d\<lparr>db_audit := db_audit d @ [e]\<rparr>" and e: "is_exact_cancel_replay j' actor cid e"
      and scope: "scope_jobs (w_db w) actor p" "usr_role actor \<noteq> Auditor"
      and unset: "job_cancel_requested_at p = None" "job_status p \<noteq> Cancelled"
        "job_status p \<notin> {Succeeded, Failed, DeadLettered}" for j j' d d' e
  proof -
    let ?s = "if job_status p = Processing then Processing else Cancelled"
    from that(1,2) obtain t u where
      "j' = p\<lparr>job_cancel_requested_at := Some t, job_status := ?s\<rparr>\<lparr>job_updated_at := u\<rparr>"
      unfolding edited_def by blast
    then have j': "j' = p\<lparr>job_cancel_requested_at := Some t, job_updated_at := u, job_status := ?s\<rparr>"
      by simp
    then have "lookup_by job_id k (db_jobs d') = Some j'"
      using job_written_lookup [OF written] id d' by simp
    moreover have "db_audit d' = db_audit (w_db w) @ [e]"
      using job_written_frame [OF written] d' by simp
    moreover have "\<not> job_terminal (job_status p)"
      using unset by (cases "job_status p") (simp_all add: job_terminal_def)
    ultimately show ?thesis
      unfolding cancel_recorded_def using Some scope unset j' e by (intro exI [of _ p]) auto
  qed
  have evolved: "db_evolves (w_db w) d'" if "job_written j' (w_db w) d" "d' = d\<lparr>db_audit := db_audit d @ [e]\<rparr>"
    for j' d d' e
    using that by (simp add: db_evolves_prefixes job_written_evolves db_evolves_refl)
  have same: "r = p" if "lookup_by (tb_key jobs_t) k (tb_rows jobs_t (w_db w)) = Some r" for r
    using that Some by simp
  have ends: "cancel_recorded actor k cid (w_db w) j' (w_db t') \<and> evolves w t' \<and> w_store t' = w_store w"
    if "edited j" "scope_jobs (w_db w) actor p" "usr_role actor \<noteq> Auditor"
      "\<not> (job_cancel_requested_at p \<noteq> None \<or> job_status p = Cancelled)"
      "job_status p \<notin> {Succeeded, Failed, DeadLettered}"
      "(\<exists>u. j' = j\<lparr>job_updated_at := u\<rparr>) \<and> job_written j' (w_db w) (w_db t) \<and> w_store t = w_store w"
      "w_db t' = (w_db t)\<lparr>db_audit := db_audit (w_db t) @ [e]\<rparr> \<and> w_store t' = w_store t
         \<and> is_exact_cancel_replay j' actor cid e" for j j' e and t t' :: "'a world"
    using that by (intro conjI final [of j j' "w_db t" "w_db t'" e] evolved [of j' "w_db t" "w_db t'" e]) auto
  have replayed: "cancel_recorded actor k cid (w_db w) p (w_db w)"
    if "scope_jobs (w_db w) actor p" "usr_role actor \<noteq> Auditor"
      "job_cancel_requested_at p \<noteq> None \<or> job_status p = Cancelled"
      "list_ex (is_exact_cancel_replay p actor cid) (tb_rows audit_t (w_db w))"
    using that Some unfolding cancel_recorded_def by (intro exI [of _ p]) (auto simp: list_ex_iff)
  show ?thesis
    unfolding request_cancel_body_def
    by (intro wp_intros lookup_failure_wp wp_mono [OF save] wp_mono [OF audit];
        (frule same, hypsubst)?;
        (simp add: db_evolves_refl replayed; fail)?)
      (rule ends | rule edit running; assumption | assumption)+
qed

section \<open>Properties\<close>

text \<open>
  C1. Creating an issuance is all or nothing: on success the upload is attached, the document, the issuance, its job and
  the outbox event exist together, and the promoted object carries the declared size and the announced digest as
  metadata and holds the bytes that the uploaded object had. On failure either none of these rows exists, or
  all of them do, with the object in place, as after a success.
\<close>

theorem create_issuance_atomic:
  assumes "object_storage ops stored content"
  shows "wp (create_issuance L ops actor recipient_id k cid)
     (\<lambda>(x, j) w'. \<exists>r. lookup_by rcp_id recipient_id (db_recipients (w_db w)) = Some r
        \<and> rcp_organization_id r = usr_organization_id actor
        \<and> workflow_complete stored content (issuance_made actor r) actor KindIssuance k cid w x j w')
     (\<lambda>_ w'. \<exists>r. all_or_nothing stored content (issuance_made actor r) actor KindIssuance k cid w w') w"
  by (rule create_issuance_wp [OF assms])

text \<open>
  C2. Creating a verification is all or nothing, without a document: on success the upload is attached, the
  verification, its job and the outbox event exist together, and the promoted object carries the declared size and the
  announced digest as metadata and holds the bytes that the uploaded object had; on failure either none of these
  rows exists, or all of them do, with the object in place, as after a success.
\<close>

theorem create_verification_atomic:
  assumes "object_storage ops stored content"
  shows "wp (create_verification L ops actor k cid)
     (\<lambda>(x, j) w'. workflow_complete stored content (verification_made actor) actor KindVerification k cid w x j w')
     (\<lambda>_ w'. all_or_nothing stored content (verification_made actor) actor KindVerification k cid w w') w"
  by (rule create_verification_wp [OF assms])

text \<open>
  A cancellation request on a job that has not started cancels it at once, on a running one it
  is only recorded, on a cancelled or requested one it must replay the same request, and on any
  other terminal one it is refused; it writes one event and otherwise changes nothing.
\<close>

theorem cancellation_recorded:
  "wp (request_cancel_body T actor k cid)
     (\<lambda>j w'. cancel_recorded actor k cid (w_db w) j (w_db w') \<and> db_evolves (w_db w) (w_db w'))
     (\<lambda>_ w'. w_db w' = w_db w) w"
  by (rule wp_mono [OF request_cancel_body_wp]) auto

end
