(* ===== verification/Utf8.thy ===== *)
theory Utf8
  imports PyLib
begin

text \<open>
  UTF-8 on the code points below 256, with the proof that encoding and strict decoding are inverse.
\<close>

lemma of_char_of: "n < 256 \<Longrightarrow> (of_char (char_of n :: char) :: nat) = n"
  by (simp add: of_char_of)

text \<open>\<open>str.encode("utf-8")\<close> and \<open>bytes.decode("utf-8")\<close> on code points below 256.\<close>

fun utf8_encode :: "string \<Rightarrow> bytes" where
  "utf8_encode [] = []"
| "utf8_encode (c # cs) = (let n = of_char c :: nat in
     (if n < 128 then [word_of_nat n]
      else [word_of_nat (192 + n div 64), word_of_nat (128 + n mod 64)]) @ utf8_encode cs)"

fun utf8_decode :: "bytes \<Rightarrow> string option" where
  "utf8_decode [] = Some []"
| "utf8_decode (b # bs) =
     (if unat b < 128 then map_option (\<lambda>s. char_of (unat b) # s) (utf8_decode bs)
      else case bs of
        [] \<Rightarrow> None
      | b' # rest \<Rightarrow>
          if (unat b = 194 \<or> unat b = 195) \<and> 128 \<le> unat b' \<and> unat b' < 192
          then map_option (\<lambda>s. char_of ((unat b - 192) * 64 + (unat b' - 128)) # s) (utf8_decode rest)
          else None)"

lemma char_below: "(of_char c :: nat) < 256"
  using unsigned_less [of "of_char c :: byte", where ?'a = nat] by (simp add: of_char_eq_iff)

lemma utf8_decode_encode: "utf8_decode (utf8_encode s) = Some s"
proof (induction s)
  case (Cons c s)
  define n where "n = (of_char c :: nat)"
  have n: "n < 256" by (simp add: n_def char_below)
  have c: "char_of n = c" by (simp add: n_def)
  show ?case
  proof (cases "n < 128")
    case True
    then have "unat (word_of_nat n :: byte) = n" by (simp add: unat_byte_of_nat)
    then show ?thesis using Cons True c by (simp add: n_def [symmetric])
  next
    case False
    have u: "unat (word_of_nat (192 + n div 64) :: byte) = 192 + n div 64"
      "unat (word_of_nat (128 + n mod 64) :: byte) = 128 + n mod 64"
      using n by (simp_all only: unat_byte_of_nat) (simp_all add: div_le_mono less_mult_imp_div_less)
    have q: "n div 64 = 2 \<or> n div 64 = 3" using n False by linarith
    show ?thesis
      using Cons False c q by (auto simp: n_def [symmetric] Let_def u simp del: of_nat_add)
  qed
qed simp

lemma utf8_pair:
  fixes b c :: nat
  assumes "b = 194 \<or> b = 195" "128 \<le> c" "c < 192"
  shows "(b - 192) * 64 + (c - 128) < 256" "\<not> (b - 192) * 64 + (c - 128) < 128"
    "192 + ((b - 192) * 64 + (c - 128)) div 64 = b" "128 + ((b - 192) * 64 + (c - 128)) mod 64 = c"
proof -
  from assms(2) obtain d where d: "c = 128 + d" using le_Suc_ex by blast
  with assms(3) have "d < 64" by simp
  with assms(1) d show "(b - 192) * 64 + (c - 128) < 256" "\<not> (b - 192) * 64 + (c - 128) < 128"
    "192 + ((b - 192) * 64 + (c - 128)) div 64 = b" "128 + ((b - 192) * 64 + (c - 128)) mod 64 = c"
    by auto
qed

lemma utf8_encode_decode: "utf8_decode bs = Some s \<Longrightarrow> utf8_encode s = bs"
proof (induction bs arbitrary: s rule: utf8_decode.induct)
  case (2 b bs)
  show ?case
  proof (cases "unat b < 128")
    case True
    with 2 show ?thesis by (auto simp: of_char_of)
  next
    case False
    with 2(3) obtain c rest r where *: "bs = c # rest" "unat b = 194 \<or> unat b = 195" "128 \<le> unat c"
      "unat c < 192" "utf8_decode rest = Some r"
      "s = char_of ((unat b - 192) * 64 + (unat c - 128)) # r"
      by (auto split: list.splits if_splits)
    with 2(2) False have r: "utf8_encode r = rest" by simp
    define m where "m = (unat b - 192) * 64 + (unat c - 128)"
    have m: "m < 256" "\<not> m < 128" "192 + m div 64 = unat b" "128 + m mod 64 = unat c"
      unfolding m_def by (rule utf8_pair [OF *(2-4)])+
    have n: "(of_char (char_of m :: char) :: nat) = m" using m(1) by (simp add: of_char_of)
    show ?thesis
      unfolding *(1) *(6) m_def [symmetric] utf8_encode.simps n Let_def
      using m(2) r by (simp only: m(3,4)) simp
  qed
qed simp

end
