(* ===== verification/Manifests.thy ===== *)
theory Manifests
  imports Documents Utf8
begin

text \<open>
  Signed manifests: \<open>documents/manifests.py\<close> (verification of stored text against one registry
  key) and \<open>release/manifest.py\<close> (building and signing the pair of an issuance). Base64 and UTF-8
  are modelled; the JSON parser, the canonical serializer \<open>rfc8785\<close>, the JSON schema validator,
  the PEM loaders and Ed25519 are parameters. A private key is its 32-byte seed.
\<close>

record manifest_libs =
  ml_load_pem :: pem_loader
  ml_json_loads :: "string \<Rightarrow> json option"
  ml_canonical :: "json \<Rightarrow> bytes option"
  ml_schema :: "string \<Rightarrow> json \<Rightarrow> bool"
  ml_verify :: "bytes \<Rightarrow> bytes \<Rightarrow> bytes \<Rightarrow> bool option"
  ml_sign :: "bytes \<Rightarrow> bytes \<Rightarrow> bytes"
  ml_public_pem :: "bytes \<Rightarrow> string"
  ml_load_private :: "bytes \<Rightarrow> bytes \<Rightarrow> (bool \<times> bytes) option"

section \<open>Base64\<close>

fun b64_char :: "nat \<Rightarrow> char" where
  "b64_char n = (if n < 26 then char_of (65 + n) else if n < 52 then char_of (71 + n)
     else if n < 62 then char_of (n - 4) else if n = 62 then CHR ''+'' else CHR ''/'')"

definition b64_value :: "char \<Rightarrow> nat option" where
  "b64_value c = (let n = of_char c :: nat in
     if 65 \<le> n \<and> n \<le> 90 then Some (n - 65)
     else if 97 \<le> n \<and> n \<le> 122 then Some (n - 71)
     else if 48 \<le> n \<and> n \<le> 57 then Some (n + 4)
     else if n = 43 then Some 62 else if n = 47 then Some 63 else None)"

text \<open>\<open>base64.b64encode\<close>, and \<open>base64.b64decode(_, validate=True)\<close>, which is strict.\<close>

fun b64encode :: "bytes \<Rightarrow> string" where
  "b64encode [] = []"
| "b64encode [a] = [b64_char (unat a div 4), b64_char (unat a mod 4 * 16), CHR ''='', CHR ''='']"
| "b64encode [a, b] = [b64_char (unat a div 4), b64_char (unat a mod 4 * 16 + unat b div 16),
     b64_char (unat b mod 16 * 4), CHR ''='']"
| "b64encode (a # b # c # rest) = b64_char (unat a div 4)
     # b64_char (unat a mod 4 * 16 + unat b div 16)
     # b64_char (unat b mod 16 * 4 + unat c div 64) # b64_char (unat c mod 64) # b64encode rest"

definition b64_byte :: "nat \<Rightarrow> byte" where
  "b64_byte n = word_of_nat n"

fun b64_quad :: "char \<Rightarrow> char \<Rightarrow> char \<Rightarrow> char \<Rightarrow> bool \<Rightarrow> bytes option" where
  "b64_quad c1 c2 c3 c4 final =
     (case (b64_value c1, b64_value c2) of
        (Some v1, Some v2) \<Rightarrow>
          (case (b64_value c3, b64_value c4) of
             (Some v3, Some v4) \<Rightarrow> Some [b64_byte (v1 * 4 + v2 div 16),
               b64_byte (v2 mod 16 * 16 + v3 div 4), b64_byte (v3 mod 4 * 64 + v4)]
           | (Some v3, None) \<Rightarrow> if final \<and> c4 = CHR ''='' then
               Some [b64_byte (v1 * 4 + v2 div 16), b64_byte (v2 mod 16 * 16 + v3 div 4)] else None
           | (None, None) \<Rightarrow> if final \<and> c3 = CHR ''='' \<and> c4 = CHR ''=''
               then Some [b64_byte (v1 * 4 + v2 div 16)] else None
           | (None, Some v4) \<Rightarrow> None)
      | _ \<Rightarrow> None)"

fun b64decode :: "string \<Rightarrow> bytes option" where
  "b64decode [] = Some []"
| "b64decode (c1 # c2 # c3 # c4 # rest) =
     (case (b64_quad c1 c2 c3 c4 (rest = []), b64decode rest) of
        (Some q, Some r) \<Rightarrow> Some (q @ r) | _ \<Rightarrow> None)"
| "b64decode _ = None"

lemma b64_value_char: "n < 64 \<Longrightarrow> b64_value (b64_char n) = Some n"
  by (auto simp: b64_value_def of_char_of Let_def)

lemma b64_value_pad: "b64_value (CHR ''='') = None"
  by (simp add: b64_value_def)

lemma b64_byte_unat [simp]: "b64_byte (unat b) = b"
  by (simp add: b64_byte_def)

lemma byte_parts [simp]:
  "unat (b :: byte) div 4 < 64" "unat (b :: byte) div 16 div 16 = 0" "unat (b :: byte) div 64 div 4 = 0"
  "unat (b :: byte) div 16 mod 16 = unat b div 16" "unat (b :: byte) div 64 mod 4 = unat b div 64"
  using unat_byte_less [of b] by (simp_all add: div_mult2_eq [symmetric])

lemma b64_bounds:
  "(x :: nat) mod 4 * 16 < 64" "(x :: nat) mod 16 * 4 < 64" "(x :: nat) mod 64 < 64"
  "(x :: nat) mod 4 * 16 + unat (b :: byte) div 16 < 64"
  "(x :: nat) mod 16 * 4 + unat (b :: byte) div 64 < 64"
proof -
  have "unat b div 16 < 16" "unat b div 64 < 4" using unat_byte_less [of b] by simp_all
  moreover have "x mod 4 \<le> 3" "x mod 16 \<le> 15" "x mod 64 < 64"
    using mod_less_divisor [of 4 x] mod_less_divisor [of 16 x] by (simp_all del: mod_less_divisor; linarith)+
  ultimately show "x mod 4 * 16 < 64" "x mod 16 * 4 < 64" "x mod 64 < 64"
    "x mod 4 * 16 + unat b div 16 < 64" "x mod 16 * 4 + unat b div 64 < 64"
    by linarith+
qed

lemma b64decode_encode: "b64decode (b64encode bs) = Some bs"
  by (induction bs rule: b64encode.induct)
     (simp_all del: b64_char.simps add: b64_value_char b64_value_pad b64_bounds)

lemma length_b64encode: "length (b64encode bs) = 4 * ((length bs + 2) div 3)"
  by (induction bs rule: b64encode.induct) (simp_all add: algebra_simps, presburger)

section \<open>Parsing stored text\<close>

definition max_manifest_bytes :: nat where
  "max_manifest_bytes = 1048576"

text \<open>
  \<open>json.loads\<close> with \<open>_unique_object\<close> as the hook of every object: the parser delivers the members
  in the order of the text, a repeated one in any object raises, and so do the constants that are
  not finite, which no value of the model stands for.
\<close>

fun unique_members :: "json \<Rightarrow> bool" where
  "unique_members (JObj kvs) = (distinct (map fst kvs) \<and> list_all (\<lambda>kv. unique_members (snd kv)) kvs)"
| "unique_members (JList xs) = list_all unique_members xs"
| "unique_members _ = True"

definition parse_exact_payload ::
  "manifest_libs \<Rightarrow> string \<Rightarrow> exn + (string \<times> json) list \<times> bytes \<times> bytes" where
  "parse_exact_payload L payload =
     (let encoded = utf8_encode payload in
      if encoded = [] \<or> length encoded > max_manifest_bytes
      then Inl (ValueError ''payload size is invalid'')
      else (case ml_json_loads L payload of
        None \<Rightarrow> Inl (ValueError ''invalid JSON'')
      | Some value \<Rightarrow>
          if \<not> unique_members value then Inl (ValueError ''duplicate JSON member'')
          else (case value of
            JObj kvs \<Rightarrow> (case ml_canonical L value of
                None \<Rightarrow> Inl (ValueError ''no canonical form'')
              | Some canonical \<Rightarrow> Inr (kvs, encoded, canonical))
          | _ \<Rightarrow> Inl (ValueError ''payload must be an object''))))"

section \<open>Verification of a stored manifest\<close>

record manifest_verification =
  mv_cryptographically_valid :: bool
  mv_trusted :: bool
  mv_lifecycle :: string
  mv_code :: string

definition mv_result :: "string \<Rightarrow> bool \<Rightarrow> bool \<Rightarrow> string \<Rightarrow> manifest_verification" where
  "mv_result code crypto trusted lifecycle = \<lparr>mv_cryptographically_valid = crypto,
     mv_trusted = trusted, mv_lifecycle = lifecycle, mv_code = code\<rparr>"

text \<open>The checks on the envelope: exact members, 88 characters of canonical base64, a usable key.\<close>

definition envelope_signature :: "manifest_libs \<Rightarrow> signing_key \<Rightarrow> json \<Rightarrow> (pem_key \<times> bytes) option" where
  "envelope_signature L key encoded = (case encoded of
     JStr text \<Rightarrow>
       if length text \<noteq> 88 then None
       else (case b64decode text of
         None \<Rightarrow> None
       | Some raw \<Rightarrow>
           if length raw \<noteq> 64 \<or> b64encode raw \<noteq> text then None
           else (case validate_ed25519_public_pem (ml_load_pem L) (key_public_key key) of
             Inl e \<Rightarrow> None | Inr verifier \<Rightarrow> Some (verifier, raw)))
   | _ \<Rightarrow> None)"

definition envelope_members :: "json \<Rightarrow> (string \<times> json) list option" where
  "envelope_members signature = (case signature of
     JObj kvs \<Rightarrow> if set (map fst kvs) = {''algorithm'', ''key_id'', ''signature''}
       \<and> jget ''algorithm'' kvs = JStr ''Ed25519'' then Some kvs else None
   | _ \<Rightarrow> None)"

definition key_ids_agree :: "(string \<times> json) list \<Rightarrow> (string \<times> json) list \<Rightarrow> signing_key \<Rightarrow> bool" where
  "key_ids_agree kvs value key \<longleftrightarrow> (case jget ''key_id'' kvs of
     JStr k \<Rightarrow> jget ''signing_key_id'' value = JStr k \<and> k = key_id key | _ \<Rightarrow> False)"

text \<open>What the lifecycle of the key makes of a valid signature.\<close>

definition valid_signature_result :: "signing_key \<Rightarrow> py_datetime \<Rightarrow> manifest_verification" where
  "valid_signature_result key current =
     (let lifecycle = key_status_value (key_status key) in
      if key_status key = KeyRevoked then mv_result ''VALID_REVOKED'' True False ''revoked''
      else if is_naive current then mv_result ''VALID_UNTRUSTED_WINDOW'' True False lifecycle
      else if instant current < key_valid_from key
           \<or> (case key_valid_until key of None \<Rightarrow> False | Some u \<Rightarrow> u \<le> instant current)
      then mv_result ''VALID_UNTRUSTED_WINDOW'' True False lifecycle
      else mv_result ''VALID_TRUSTED'' True True lifecycle)"

definition verify_stored_manifest ::
  "manifest_libs \<Rightarrow> string \<Rightarrow> json \<Rightarrow> signing_key \<Rightarrow> py_datetime \<Rightarrow> string option \<Rightarrow> manifest_verification" where
  "verify_stored_manifest L payload signature key current expected_kind =
     (let fail = (\<lambda>code. mv_result code False False (key_status_value (key_status key))) in
      case signing_key_check (ml_load_pem L) key of
        Inl e \<Rightarrow> fail ''INVALID_REGISTRY''
      | Inr _ \<Rightarrow> (case parse_exact_payload L payload of
          Inl e \<Rightarrow> fail ''INVALID_PAYLOAD''
        | Inr (value, stored, canonical) \<Rightarrow>
            if stored \<noteq> canonical then fail ''NONCANONICAL_PAYLOAD''
            else (let kind = (if ''recipient_id'' \<in> set (map fst value) then ''internal'' else ''public'') in
              if expected_kind \<noteq> None \<and> expected_kind \<noteq> Some kind then fail ''INVALID_SCHEMA''
              else if \<not> ml_schema L kind (JObj value) then fail ''INVALID_SCHEMA''
              else (case envelope_members signature of
                None \<Rightarrow> fail ''INVALID_ENVELOPE''
              | Some kvs \<Rightarrow>
                  if \<not> key_ids_agree kvs value key then fail ''KEY_ID_MISMATCH''
                  else (case envelope_signature L key (jget ''signature'' kvs) of
                    None \<Rightarrow> fail ''INVALID_ENVELOPE''
                  | Some (verifier, raw) \<Rightarrow> (case ml_verify L (pk_raw verifier) raw stored of
                      None \<Rightarrow> fail ''VERIFICATION_ERROR''
                    | Some ok \<Rightarrow> if \<not> ok then fail ''INVALID_SIGNATURE''
                        else valid_signature_result key current))))))"

text \<open>\<open>isoformat()\<close> of an aware UTC time: the microseconds only when there are any.\<close>

definition iso_format_utc :: "time \<Rightarrow> string" where
  "iso_format_utc t =
     (let us = t mod 86400000000; secs = us div 1000000 in
      case civil_from_days (t div 86400000000) of (y, m, d) \<Rightarrow>
        zero_padded 4 y @ ''-'' @ zero_padded 2 m @ ''-'' @ zero_padded 2 d @ ''T''
        @ zero_padded 2 (secs div 3600) @ '':'' @ zero_padded 2 (secs div 60 mod 60) @ '':''
        @ zero_padded 2 (secs mod 60)
        @ (if us mod 1000000 = 0 then [] else ''.'' @ zero_padded 6 (us mod 1000000)))"

definition opt_iso :: "time option \<Rightarrow> json" where
  "opt_iso t = (case t of None \<Rightarrow> JNull | Some x \<Rightarrow> JStr (iso_format_utc x @ ''+00:00''))"

definition shareable_public_manifest ::
  "manifest_libs \<Rightarrow> manifest \<Rightarrow> signing_key \<Rightarrow> py_datetime \<Rightarrow> exn + json" where
  "shareable_public_manifest L record key current =
     (let result = verify_stored_manifest L (man_public_payload record)
                     (man_public_signature_envelope record) key current (Some ''public'') in
      if \<not> mv_cryptographically_valid result \<or> \<not> mv_trusted result
      then Inl (ValidationError ''manifest is not shareable'')
      else Inr (JObj [(''payload'', JStr (man_public_payload record)),
        (''signature'', man_public_signature_envelope record),
        (''public_key'', JObj [(''key_id'', JStr (key_id key)), (''algorithm'', JStr (key_algorithm key)),
          (''public_key'', JStr (key_public_key key)), (''status'', JStr (key_status_value (key_status key))),
          (''valid_from'', JStr (iso_format_utc (key_valid_from key) @ ''+00:00'')),
          (''valid_until'', opt_iso (key_valid_until key)), (''revoked_at'', opt_iso (key_revoked_at key))])]))"

section \<open>Signing the manifests of an issuance\<close>

record signed_issuance_manifest =
  sm_internal_payload :: string
  sm_internal_signature_envelope :: json
  sm_public_payload :: string
  sm_public_signature_envelope :: json

text \<open>
  The two secrets are files: \<open>None\<close> is an \<open>OSError\<close>. The PEM loader answers whether the key is
  Ed25519 and its seed, or raises.
\<close>

definition rstrip_newlines :: "bytes \<Rightarrow> bytes" where
  "rstrip_newlines b = rev (dropWhile (\<lambda>x. x = 13 \<or> x = 10) (rev b))"

definition load_manifest_signing_key ::
  "manifest_libs \<Rightarrow> bytes option \<Rightarrow> bytes option \<Rightarrow> exn + bytes" where
  "load_manifest_signing_key L key_file passphrase_file = (case key_file of
     None \<Rightarrow> Inl (ValueError ''manifest signing key file is invalid'')
   | Some encoded \<Rightarrow> (case passphrase_file of
       None \<Rightarrow> Inl (ValueError ''manifest signing key passphrase file is invalid'')
     | Some text \<Rightarrow>
         (let passphrase = rstrip_newlines text in
          if passphrase = [] \<or> length passphrase > 4096
          then Inl (ValueError ''manifest signing key passphrase file is invalid'')
          else (case ml_load_private L encoded passphrase of
            None \<Rightarrow> Inl (ValueError ''manifest signing key file is invalid'')
          | Some (ed25519, seed) \<Rightarrow> if ed25519 then Inr seed
              else Inl (ValueError ''manifest signing key must be Ed25519'')))))"

definition internal_manifest ::
  "uuid \<Rightarrow> uuid \<Rightarrow> uuid \<Rightarrow> time \<Rightarrow> string \<Rightarrow> string \<Rightarrow> string \<Rightarrow> string \<Rightarrow> (string \<times> json) list" where
  "internal_manifest issuance_id document_id recipient_id issued_at source_sha256 output_sha256
     signing_key_id retention_policy_id = [
       (''schema_version'', JInt 1),
       (''issuance_id'', JStr (uuid_str issuance_id)),
       (''document_id'', JStr (uuid_str document_id)),
       (''recipient_id'', JStr (uuid_str recipient_id)),
       (''issued_at'', JStr (iso_format_utc issued_at @ ''Z'')),
       (''source_sha256'', JStr source_sha256),
       (''output_sha256'', JStr output_sha256),
       (''fingerprint_algorithm'', JStr ''none''),
       (''integrity_algorithm'', JStr ''integrity_release_v1''),
       (''signing_key_id'', JStr signing_key_id),
       (''retention_policy_id'', JStr retention_policy_id)]"

definition public_members :: "string list" where
  "public_members = [''schema_version'', ''issuance_id'', ''issued_at'', ''output_sha256'',
     ''fingerprint_algorithm'', ''integrity_algorithm'', ''signing_key_id'']"

definition sign_canonical :: "manifest_libs \<Rightarrow> bytes \<Rightarrow> string \<Rightarrow> bytes \<Rightarrow> json" where
  "sign_canonical L canonical signing_key_id seed = JObj [(''algorithm'', JStr ''Ed25519''),
     (''key_id'', JStr signing_key_id), (''signature'', JStr (b64encode (ml_sign L seed canonical)))]"

definition build_signed_issuance_manifest ::
  "manifest_libs \<Rightarrow> uuid \<Rightarrow> uuid \<Rightarrow> uuid \<Rightarrow> time \<Rightarrow> string \<Rightarrow> string \<Rightarrow> string \<Rightarrow> bytes \<Rightarrow> string
     \<Rightarrow> exn + signed_issuance_manifest" where
  "build_signed_issuance_manifest L issuance_id document_id recipient_id issued_at source_sha256
     output_sha256 signing_key_id seed retention_policy_id =
     (let internal = internal_manifest issuance_id document_id recipient_id issued_at source_sha256
            output_sha256 signing_key_id retention_policy_id;
          public = map (\<lambda>k. (k, jget k internal)) public_members in
      case (ml_canonical L (JObj internal), ml_canonical L (JObj public)) of
        (Some internal_bytes, Some public_bytes) \<Rightarrow>
          (case (utf8_decode internal_bytes, utf8_decode public_bytes) of
             (Some internal_text, Some public_text) \<Rightarrow> Inr \<lparr>
               sm_internal_payload = internal_text,
               sm_internal_signature_envelope = sign_canonical L internal_bytes signing_key_id seed,
               sm_public_payload = public_text,
               sm_public_signature_envelope = sign_canonical L public_bytes signing_key_id seed\<rparr>
           | _ \<Rightarrow> Inl (ValueError ''canonical bytes are not text''))
      | _ \<Rightarrow> Inl (ValueError ''no canonical form''))"

section \<open>Properties\<close>

text \<open>
  C36. A stored manifest is trusted exactly when every check passed: a registry key that is valid,
  stored text that is its own canonical form, the schema of its kind, an envelope with the exact
  members and canonical base64, one key identifier in envelope, payload and registry, a signature
  that verifies over the stored bytes, and an unrevoked key inside its validity window.
\<close>

theorem manifest_trusted_exact:
  "mv_trusted (verify_stored_manifest L payload signature key current expected_kind) \<longleftrightarrow>
     (\<exists>value stored kvs verifier raw kind. signing_key_check (ml_load_pem L) key = Inr ()
        \<and> parse_exact_payload L payload = Inr (value, stored, stored)
        \<and> kind = (if ''recipient_id'' \<in> set (map fst value) then ''internal'' else ''public'')
        \<and> expected_kind \<in> {None, Some kind} \<and> ml_schema L kind (JObj value)
        \<and> envelope_members signature = Some kvs \<and> key_ids_agree kvs value key
        \<and> envelope_signature L key (jget ''signature'' kvs) = Some (verifier, raw)
        \<and> ml_verify L (pk_raw verifier) raw stored = Some True
        \<and> key_status key \<noteq> KeyRevoked \<and> \<not> is_naive current
        \<and> key_valid_from key \<le> instant current
        \<and> (case key_valid_until key of None \<Rightarrow> True | Some u \<Rightarrow> instant current < u))"
proof (cases "signing_key_check (ml_load_pem L) key")
  case Inl
  then show ?thesis by (simp add: verify_stored_manifest_def mv_result_def)
next
  case registry: (Inr u)
  show ?thesis
  proof (cases "parse_exact_payload L payload")
    case Inl
    then show ?thesis using registry by (simp add: verify_stored_manifest_def mv_result_def)
  next
    case (Inr p)
    obtain kvs0 stored canonical where p: "p = (kvs0, stored, canonical)" by (cases p)
    define kind where "kind = (if ''recipient_id'' \<in> set (map fst kvs0) then ''internal'' else ''public'')"
    have valid: "mv_trusted (valid_signature_result key current) \<longleftrightarrow> key_status key \<noteq> KeyRevoked
        \<and> \<not> is_naive current \<and> key_valid_from key \<le> instant current
        \<and> (case key_valid_until key of None \<Rightarrow> True | Some u \<Rightarrow> instant current < u)"
      by (auto simp: valid_signature_result_def mv_result_def Let_def split: option.splits)
    have step: "mv_trusted (verify_stored_manifest L payload signature key current expected_kind) \<longleftrightarrow>
        stored = canonical \<and> expected_kind \<in> {None, Some kind} \<and> ml_schema L kind (JObj kvs0) \<and>
        (\<exists>kvs. envelope_members signature = Some kvs \<and> key_ids_agree kvs kvs0 key \<and>
          (\<exists>verifier raw. envelope_signature L key (jget ''signature'' kvs) = Some (verifier, raw)
            \<and> ml_verify L (pk_raw verifier) raw stored = Some True
            \<and> mv_trusted (valid_signature_result key current)))"
      unfolding verify_stored_manifest_def Let_def registry Inr p sum.case prod.case kind_def [symmetric]
      by (auto simp: mv_result_def split: option.splits)
    show ?thesis
      unfolding step valid using registry Inr p kind_def by auto
  qed
qed

text \<open>
  What the libraries do with one of the two payloads: its canonical bytes are text that parses to
  the same members, which have the same canonical form and the schema of their kind.
\<close>

definition canonical_text :: "manifest_libs \<Rightarrow> string \<Rightarrow> (string \<times> json) list \<Rightarrow> bool" where
  "canonical_text L kind kvs \<longleftrightarrow> (\<exists>b t kvs'. ml_canonical L (JObj kvs) = Some b \<and> utf8_decode b = Some t
     \<and> b \<noteq> [] \<and> length b \<le> max_manifest_bytes \<and> ml_json_loads L t = Some (JObj kvs')
     \<and> unique_members (JObj kvs') \<and> ml_canonical L (JObj kvs') = Some b
     \<and> map_of kvs' = map_of kvs \<and> ml_schema L kind (JObj kvs'))"

definition signing_pair :: "manifest_libs \<Rightarrow> bytes \<Rightarrow> signing_key \<Rightarrow> bool" where
  "signing_pair L seed key \<longleftrightarrow> (\<exists>k. validate_ed25519_public_pem (ml_load_pem L) (key_public_key key) = Inr k
     \<and> (\<forall>m. length (ml_sign L seed m) = 64 \<and> ml_verify L (pk_raw k) (ml_sign L seed m) m = Some True))"

lemma signed_payload_verifies:
  assumes canon: "canonical_text L kind kvs" and pair: "signing_pair L seed key"
    and key: "signing_key_check (ml_load_pem L) key = Inr ()"
    and id: "map_of kvs ''signing_key_id'' = Some (JStr (key_id key))"
    and kind: "kind = (if map_of kvs ''recipient_id'' \<noteq> None then ''internal'' else ''public'')"
    and bytes: "ml_canonical L (JObj kvs) = Some b" "utf8_decode b = Some t"
  shows "verify_stored_manifest L t (sign_canonical L b (key_id key) seed) key current (Some kind) =
     valid_signature_result key current"
proof -
  from canon bytes obtain kvs' where k: "b \<noteq> []" "length b \<le> max_manifest_bytes"
    "ml_json_loads L t = Some (JObj kvs')" "unique_members (JObj kvs')" "ml_canonical L (JObj kvs') = Some b"
    "map_of kvs' = map_of kvs" "ml_schema L kind (JObj kvs')"
    unfolding canonical_text_def by auto
  have parse: "parse_exact_payload L t = Inr (kvs', b, b)"
    using k bytes(2) by (auto simp: parse_exact_payload_def utf8_encode_decode)
  have kind': "(if ''recipient_id'' \<in> set (map fst kvs') then ''internal'' else ''public'') = kind"
    using kind k(6) map_of_eq_None_iff [of kvs' "''recipient_id''"] by auto
  let ?envelope = "[(''algorithm'', JStr ''Ed25519''), (''key_id'', JStr (key_id key)),
     (''signature'', JStr (b64encode (ml_sign L seed b)))]"
  have members: "envelope_members (sign_canonical L b (key_id key) seed) = Some ?envelope"
    by (simp add: envelope_members_def sign_canonical_def jget_def)
  have ids: "key_ids_agree ?envelope kvs' key"
    using id k(6) by (simp add: key_ids_agree_def jget_def)
  from pair obtain v where v: "validate_ed25519_public_pem (ml_load_pem L) (key_public_key key) = Inr v"
    "length (ml_sign L seed b) = 64" "ml_verify L (pk_raw v) (ml_sign L seed b) b = Some True"
    unfolding signing_pair_def by blast
  then have sig: "envelope_signature L key (jget ''signature'' ?envelope) = Some (v, ml_sign L seed b)"
    by (simp add: envelope_signature_def jget_def b64decode_encode length_b64encode)
  show ?thesis
    unfolding verify_stored_manifest_def Let_def key parse sum.case prod.case kind'
    using members ids sig v(3) k(7) by simp
qed

text \<open>
  C35. The pair that signing produces verifies, given a key row that passes its check and with which the signatures of the
  seed, 64 bytes each, verify, and given that the two payloads built for the issuance are canonical texts: each has a canonical form that is not empty, at most 1 MiB long
  and UTF-8, is read back as the same members without repetition and with the same canonical form, and is
  accepted by the schema of its kind. Then signing gives a pair, and the verifier accepts each stored payload with its
  envelope as a signature of its kind: trusted when the key is active in its window.
\<close>

theorem signed_manifests_verify:
  assumes pair: "signing_pair L seed key" and key: "signing_key_check (ml_load_pem L) key = Inr ()"
    and internal: "canonical_text L ''internal'' (internal_manifest i d r t source out (key_id key) policy)"
    and public: "canonical_text L ''public''
      (map (\<lambda>k. (k, jget k (internal_manifest i d r t source out (key_id key) policy))) public_members)"
  shows "\<exists>m. build_signed_issuance_manifest L i d r t source out (key_id key) seed policy = Inr m
     \<and> verify_stored_manifest L (sm_internal_payload m) (sm_internal_signature_envelope m) key current
         (Some ''internal'') = valid_signature_result key current
     \<and> verify_stored_manifest L (sm_public_payload m) (sm_public_signature_envelope m) key current
         (Some ''public'') = valid_signature_result key current"
proof -
  let ?internal = "internal_manifest i d r t source out (key_id key) policy"
  let ?public = "map (\<lambda>k. (k, jget k ?internal)) public_members"
  from internal obtain b x where b: "ml_canonical L (JObj ?internal) = Some b" "utf8_decode b = Some x"
    unfolding canonical_text_def by blast
  from public obtain c y where c: "ml_canonical L (JObj ?public) = Some c" "utf8_decode c = Some y"
    unfolding canonical_text_def by blast
  have "verify_stored_manifest L x (sign_canonical L b (key_id key) seed) key current (Some ''internal'') =
      valid_signature_result key current"
    by (rule signed_payload_verifies [OF internal pair key _ _ b]) (simp_all add: internal_manifest_def)
  moreover have "verify_stored_manifest L y (sign_canonical L c (key_id key) seed) key current (Some ''public'') =
      valid_signature_result key current"
    by (rule signed_payload_verifies [OF public pair key _ _ c])
       (simp_all add: internal_manifest_def public_members_def jget_def)
  ultimately show ?thesis
    unfolding build_signed_issuance_manifest_def Let_def using b c by simp
qed

end
