(* ===== verification/Floats.thy ===== *)
theory Floats
  imports Complex_Main PyLib
begin

unbundle bit_operations_syntax

text \<open>
  Python floats. Where the bits matter a float is its IEEE 754 double, a word of 64 bits; elsewhere a
  finite float is the rational it denotes.
\<close>

section \<open>Doubles\<close>

type_synonym double = "64 word"

text \<open>The rational a double denotes, nothing for an infinity or a NaN.\<close>

definition double_value :: "double \<Rightarrow> rat option" where
  "double_value d =
     (let sign = (if bit d 63 then - 1 else 1);
          e = unat (drop_bit 52 d) mod 2048;
          m = unat (take_bit 52 d)
      in if e = 2047 then None
         else if e = 0 then Some (sign * of_nat m / 2 ^ 1074)
         else if e < 1075 then Some (sign * of_nat (2 ^ 52 + m) / 2 ^ (1075 - e))
         else Some (sign * of_nat (2 ^ 52 + m) * 2 ^ (e - 1075)))"

section \<open>\<open>round\<close>\<close>

text \<open>\<open>round(x)\<close> of a finite float: to the nearest integer, ties to the even one.\<close>

definition round_half_even :: "rat \<Rightarrow> int" where
  "round_half_even x = (let f = \<lfloor>x\<rfloor>; d = x - of_int f in
     if d < 1 / 2 then f else if 1 / 2 < d then f + 1 else if even f then f else f + 1)"

end
