(* ===== verification/Artifact.thy ===== *)
theory Artifact
  imports Documents DemoModels Floats
begin

text \<open>
  Building the issued file (\<open>demo/issuance.py\<close>, lines 735 to 1058): the dispatch on the file kind,
  the page and raster budgets, the per-page pipeline and the serializer of the image-only PDF.
  pdfium, pypdf, OpenCV, zlib and the pixel-level fingerprint are parameters. A float is the
  rational it denotes, \<open>None\<close> one that is not finite, and \<open>rl_float\<close> is rounding to a float.
\<close>

definition issuance_error :: "string \<Rightarrow> exn" where
  "issuance_error code = DemoIssuanceError code 0"

section \<open>Rasters and documents\<close>

record raster =
  ra_shape :: "nat list"
  ra_data :: bytes

record pdf_page =
  pg_page_size :: "rat option \<times> rat option"
  pg_size :: "rat \<times> rat"
  pg_render :: "rat \<Rightarrow> exn + raster"

text \<open>
  \<open>rl_open\<close> says whether a refused document was encrypted; \<open>rl_reader\<close> is the strict reader:
  whether the file is encrypted and the user unit of each page, with \<open>PyPdfError\<close> among its
  \<open>ValueError\<close>s.
\<close>

record raster_libs =
  rl_open :: "bytes \<Rightarrow> bool + pdf_page list"
  rl_reader :: "bytes \<Rightarrow> exn + bool \<times> (exn + rat option) list"
  rl_float :: "rat \<Rightarrow> rat option"
  rl_decode_image :: "bytes \<Rightarrow> raster option"
  rl_encode_png :: "raster \<Rightarrow> bytes option"
  rl_marker :: "raster \<Rightarrow> uuid \<Rightarrow> exn + raster"
  rl_embed :: "raster \<Rightarrow> uuid \<Rightarrow> bytes \<Rightarrow> nat \<Rightarrow> string \<Rightarrow> exn + raster"
  rl_resize :: "raster \<Rightarrow> nat \<times> nat \<Rightarrow> string \<Rightarrow> raster"
  rl_crop :: "raster \<Rightarrow> nat \<Rightarrow> nat \<Rightarrow> nat \<Rightarrow> nat \<Rightarrow> raster"
  rl_drop_alpha :: "raster \<Rightarrow> raster"
  rl_bgr_to_rgb :: "raster \<Rightarrow> bytes"
  rl_compress :: "bytes \<Rightarrow> bytes"
  rl_candidates :: "string list"

definition ra_height :: "raster \<Rightarrow> nat" where "ra_height r = ra_shape r ! 0"
definition ra_width :: "raster \<Rightarrow> nat" where "ra_width r = ra_shape r ! 1"

section \<open>File kinds and names\<close>

definition issuance_output_extension :: "string \<Rightarrow> string" where
  "issuance_output_extension source_content_type =
     (case map_of [(''application/pdf'', ''pdf''), (''image/png'', ''png''), (''image/jpeg'', ''png'')]
             source_content_type of
        Some ext \<Rightarrow> ext | None \<Rightarrow> ''pdf'')"

definition png_magic :: bytes where
  "png_magic = [137, 80, 78, 71, 13, 10, 26, 10]"

definition jpeg_magic :: bytes where
  "jpeg_magic = [255, 216, 255]"

definition candidate_by_identifier :: "raster_libs \<Rightarrow> string \<Rightarrow> exn + string" where
  "candidate_by_identifier R identifier =
     (if identifier \<in> set (rl_candidates R) then Inr identifier
      else Inl (issuance_error ''DEMO_FINGERPRINT_CANDIDATE_INVALID''))"

definition select_frozen_candidate :: "raster_libs \<Rightarrow> exn + string" where
  "select_frozen_candidate R = candidate_by_identifier R demo_frozen_candidate_identifier"

definition accepted_decode_candidates :: "raster_libs \<Rightarrow> exn + string list" where
  "accepted_decode_candidates R = sum_map (candidate_by_identifier R) demo_accepted_candidate_identifiers"

section \<open>Budgets\<close>

definition source_render_scale :: rat where "source_render_scale = 2"

text \<open>A user unit is finite, positive and at most 75000.\<close>

definition unit_ok :: "rat option \<Rightarrow> bool" where
  "unit_ok u = (case u of None \<Rightarrow> False | Some q \<Rightarrow> 0 < q \<and> q \<le> 75000)"

definition reader_error :: "exn \<Rightarrow> exn" where
  "reader_error e = (case e of
     ValueError _ \<Rightarrow> issuance_error ''DEMO_PDF_INVALID''
   | TypeError _ \<Rightarrow> issuance_error ''DEMO_PDF_INVALID''
   | OverflowError _ \<Rightarrow> issuance_error ''DEMO_PDF_INVALID''
   | _ \<Rightarrow> e)"

definition source_page_units :: "raster_libs \<Rightarrow> bytes \<Rightarrow> nat \<Rightarrow> exn + rat list" where
  "source_page_units R source page_count =
     (case rl_reader R source of
        Inl e \<Rightarrow> Inl (reader_error e)
      | Inr (encrypted, pages) \<Rightarrow>
          if encrypted \<or> length pages \<noteq> page_count then Inl (issuance_error ''DEMO_PDF_INVALID'')
          else (case sum_map id pages of
            Inl e \<Rightarrow> Inl (reader_error e)
          | Inr units \<Rightarrow>
              if list_ex (\<lambda>u. \<not> unit_ok u) units then Inl (issuance_error ''DEMO_PDF_INVALID'')
              else Inr (map the units)))"

text \<open>\<open>math.ceil(size * SOURCE_RENDER_SCALE * user_unit)\<close> over floats; infinity cannot be rounded up.\<close>

definition render_extent :: "raster_libs \<Rightarrow> rat \<Rightarrow> rat \<Rightarrow> exn + int" where
  "render_extent R extent user_unit =
     (case rl_float R (extent * source_render_scale) of
        None \<Rightarrow> Inl (OverflowError ''cannot convert float infinity to integer'')
      | Some scaled \<Rightarrow> (case rl_float R (scaled * user_unit) of
          None \<Rightarrow> Inl (OverflowError ''cannot convert float infinity to integer'')
        | Some x \<Rightarrow> Inr \<lceil>x\<rceil>))"

definition canvas_pixels :: int where
  "canvas_pixels = fst demo_canonical_canvas * snd demo_canonical_canvas"

fun raster_budget :: "raster_libs \<Rightarrow> limits \<Rightarrow> int \<Rightarrow> (pdf_page \<times> rat) list \<Rightarrow> exn + int" where
  "raster_budget R li cumulative [] = Inr cumulative"
| "raster_budget R li cumulative ((page, user_unit) # rest) =
     (case pg_page_size page of
        (Some width, Some height) \<Rightarrow>
          if \<not> (0 < width \<and> 0 < height) then Inl (issuance_error ''DEMO_PDF_INVALID'')
          else sum_then (render_extent R width user_unit) (\<lambda>render_width.
            sum_then (render_extent R height user_unit) (\<lambda>render_height.
            (let total = cumulative + max (render_width * render_height) canvas_pixels in
             if total > lim_max_document_raster_pixels li
             then Inl (issuance_error ''DEMO_PDF_RASTER_LIMIT'')
             else raster_budget R li total rest)))
      | _ \<Rightarrow> Inl (issuance_error ''DEMO_PDF_INVALID''))"

definition validate_raster_budget :: "raster_libs \<Rightarrow> limits \<Rightarrow> pdf_page list \<Rightarrow> rat list \<Rightarrow> exn + unit" where
  "validate_raster_budget R li pages page_units =
     sum_then (raster_budget R li 0 (zip pages page_units)) (\<lambda>_. Inr ())"

section \<open>Pages\<close>

record canonicalized_page =
  cp_canvas :: raster
  cp_left :: nat
  cp_top :: nat
  cp_width :: nat
  cp_height :: nat

definition canonicalize_page :: "raster_libs \<Rightarrow> raster \<Rightarrow> exn + canonicalized_page" where
  "canonicalize_page R page_raster =
     (if length (ra_shape page_raster) \<noteq> 3 \<or> ra_shape page_raster ! 2 \<notin> {3, 4}
      then Inl (issuance_error ''DEMO_PDF_RENDER_FAILED'')
      else (let img = (if ra_shape page_raster ! 2 = 4 then rl_drop_alpha R page_raster else page_raster);
                canvas_height = nat (fst demo_canonical_canvas); canvas_width = nat (snd demo_canonical_canvas);
                interpolation = (if canvas_width < ra_width img \<and> canvas_height < ra_height img
                  then ''INTER_AREA'' else ''INTER_CUBIC'')
            in Inr \<lparr>cp_canvas = rl_resize R img (canvas_width, canvas_height) interpolation,
                    cp_left = 0, cp_top = 0, cp_width = canvas_width, cp_height = canvas_height\<rparr>))"

text \<open>The embedded canvas, cropped back to the region the page filled.\<close>

definition embed_page :: "raster_libs \<Rightarrow> raster \<Rightarrow> uuid \<Rightarrow> bytes \<Rightarrow> nat \<Rightarrow> string \<Rightarrow> exn + raster" where
  "embed_page R page_raster issuance_id key page_index candidate =
     sum_then (canonicalize_page R page_raster) (\<lambda>c.
     sum_then (rl_embed R (cp_canvas c) issuance_id key page_index candidate) (\<lambda>embedded.
     Inr (rl_crop R embedded (cp_top c) (cp_left c) (cp_height c) (cp_width c))))"

definition mark_page ::
  "raster_libs \<Rightarrow> bool \<Rightarrow> raster \<Rightarrow> uuid \<Rightarrow> bytes option \<Rightarrow> nat \<Rightarrow> string \<Rightarrow> exn + raster" where
  "mark_page R visible_marker page_raster issuance_id fingerprint_key page_index candidate =
     sum_then (if visible_marker then rl_marker R page_raster issuance_id
       else (case fingerprint_key of
         None \<Rightarrow> Inl (issuance_error ''DEMO_FINGERPRINT_KEY_INVALID'')
       | Some key \<Rightarrow> embed_page R page_raster issuance_id key page_index candidate)) (\<lambda>content.
     Inr (if take 2 (ra_shape content) \<noteq> take 2 (ra_shape page_raster)
          then rl_resize R content (ra_width page_raster, ra_height page_raster) ''INTER_CUBIC'' else content))"

record encoded_page =
  ep_compressed :: bytes
  ep_width :: nat
  ep_height :: nat
  ep_page_width :: "rat option"
  ep_page_height :: "rat option"

definition encode_lossless_page :: "raster_libs \<Rightarrow> raster \<Rightarrow> rat option \<Rightarrow> rat option \<Rightarrow> exn + encoded_page" where
  "encode_lossless_page R img page_width_pt page_height_pt =
     (if length (ra_shape img) \<noteq> 3 \<or> ra_shape img ! 2 \<noteq> 3
      then Inl (issuance_error ''DEMO_PDF_OUTPUT_FAILED'')
      else Inr \<lparr>ep_compressed = rl_compress R (rl_bgr_to_rgb R img), ep_width = ra_width img,
                ep_height = ra_height img, ep_page_width = page_width_pt, ep_page_height = page_height_pt\<rparr>)"

text \<open>The candidate of a run: the visible marker needs none, and no key.\<close>

definition chosen_candidate :: "raster_libs \<Rightarrow> bool \<Rightarrow> bytes option \<Rightarrow> exn + string" where
  "chosen_candidate R visible_marker fingerprint_key =
     (if visible_marker then Inr demo_frozen_candidate_identifier
      else if fingerprint_key = None then Inl (issuance_error ''DEMO_FINGERPRINT_KEY_INVALID'')
      else select_frozen_candidate R)"

definition encode_page ::
  "raster_libs \<Rightarrow> bool \<Rightarrow> uuid \<Rightarrow> bytes option \<Rightarrow> string \<Rightarrow> nat \<Rightarrow> pdf_page \<Rightarrow> rat \<Rightarrow> exn + encoded_page" where
  "encode_page R visible_marker issuance_id fingerprint_key candidate page_index page user_unit =
     sum_then (pg_render page (source_render_scale * user_unit)) (\<lambda>page_raster.
     sum_then (mark_page R visible_marker page_raster issuance_id fingerprint_key page_index candidate) (\<lambda>content.
     encode_lossless_page R content (rl_float R (fst (pg_size page) * user_unit))
       (rl_float R (snd (pg_size page) * user_unit))))"

fun encode_pages ::
  "raster_libs \<Rightarrow> bool \<Rightarrow> uuid \<Rightarrow> bytes option \<Rightarrow> string \<Rightarrow> nat \<Rightarrow> (pdf_page \<times> rat) list \<Rightarrow> exn + encoded_page list" where
  "encode_pages R visible_marker issuance_id fingerprint_key candidate page_index [] = Inr []"
| "encode_pages R visible_marker issuance_id fingerprint_key candidate page_index ((page, user_unit) # rest) =
     sum_then (encode_page R visible_marker issuance_id fingerprint_key candidate page_index page user_unit) (\<lambda>e.
     sum_then (encode_pages R visible_marker issuance_id fingerprint_key candidate (Suc page_index) rest) (\<lambda>es.
     Inr (e # es)))"

section \<open>The PDF\<close>

definition rstrip_char :: "char \<Rightarrow> string \<Rightarrow> string" where
  "rstrip_char c s = rev (dropWhile (\<lambda>x. x = c) (rev s))"

text \<open>\<open>format(value, ".6f").rstrip("0").rstrip(".")\<close> of a finite positive float.\<close>

definition pdf_number :: "rat option \<Rightarrow> exn + bytes" where
  "pdf_number v = (case v of
     None \<Rightarrow> Inl (issuance_error ''DEMO_PDF_OUTPUT_FAILED'')
   | Some x \<Rightarrow>
       if x \<le> 0 then Inl (issuance_error ''DEMO_PDF_OUTPUT_FAILED'')
       else (let n = round_half_even (x * 1000000);
                 digits = decimal (nat (n div 1000000)) @ ''.'' @ zero_padded 6 (n mod 1000000)
             in Inr (ascii (rstrip_char (CHR ''.'') (rstrip_char (CHR ''0'') digits)))))"

abbreviation nl :: bytes where "nl \<equiv> [10]"

definition number :: "nat \<Rightarrow> bytes" where
  "number n = ascii (decimal n)"

definition pdf_stream :: "bytes \<Rightarrow> bytes" where
  "pdf_stream contents = ascii ''<< /Length '' @ number (length contents) @ ascii '' >>'' @ nl
     @ ascii ''stream'' @ nl @ contents @ ascii ''endstream''"

definition page_reference :: "nat \<Rightarrow> nat" where
  "page_reference page_index = 3 + page_index * 3"

text \<open>\<open>separator.join(items)\<close>.\<close>

fun join_bytes :: "bytes \<Rightarrow> bytes list \<Rightarrow> bytes" where
  "join_bytes separator [] = []"
| "join_bytes separator [x] = x"
| "join_bytes separator (x # y # rest) = x @ separator @ join_bytes separator (y # rest)"

definition pdf_catalog :: "nat \<Rightarrow> bytes list" where
  "pdf_catalog n = [ascii ''<< /Type /Catalog /Pages 2 0 R >>'',
     ascii ''<< /Type /Pages /Count '' @ number n @ ascii '' /Kids [''
       @ join_bytes (ascii '' '') (map (\<lambda>i. number (page_reference i) @ ascii '' 0 R'') [0..<n])
       @ ascii ''] >>'']"

definition page_objects :: "nat \<Rightarrow> encoded_page \<Rightarrow> exn + bytes list" where
  "page_objects page_index p =
     (let image_ref = page_reference page_index + 1; content_ref = page_reference page_index + 2 in
      sum_then (pdf_number (ep_page_width p)) (\<lambda>w.
      sum_then (pdf_number (ep_page_height p)) (\<lambda>h.
      Inr [ascii ''<< /Type /Page /Parent 2 0 R /MediaBox [0 0 '' @ w @ ascii '' '' @ h
             @ ascii ''] /Resources << /XObject << /Im0 '' @ number image_ref
             @ ascii '' 0 R >> >> /Contents '' @ number content_ref @ ascii '' 0 R >>'',
           ascii ''<< /Type /XObject /Subtype /Image /Width '' @ number (ep_width p)
             @ ascii '' /Height '' @ number (ep_height p)
             @ ascii '' /ColorSpace /DeviceRGB /BitsPerComponent 8 /Filter /FlateDecode /Length ''
             @ number (length (ep_compressed p)) @ ascii '' >>'' @ nl @ ascii ''stream'' @ nl
             @ ep_compressed p @ nl @ ascii ''endstream'',
           pdf_stream (ascii ''q'' @ nl @ w @ ascii '' 0 0 '' @ h @ ascii '' 0 0 cm'' @ nl
             @ ascii ''/Im0 Do'' @ nl @ ascii ''Q'' @ nl)])))"

fun pages_objects :: "nat \<Rightarrow> encoded_page list \<Rightarrow> exn + bytes list" where
  "pages_objects page_index [] = Inr []"
| "pages_objects page_index (p # ps) =
     sum_then (page_objects page_index p) (\<lambda>os.
     sum_then (pages_objects (Suc page_index) ps) (\<lambda>rest. Inr (os @ rest)))"

definition pdf_header :: bytes where
  "pdf_header = ascii ''%PDF-1.4'' @ nl @ ascii ''%'' @ [226, 227, 207, 211] @ nl"

definition pdf_object :: "nat \<Rightarrow> bytes \<Rightarrow> bytes" where
  "pdf_object object_number body = number object_number @ ascii '' 0 obj'' @ nl @ body @ nl
     @ ascii ''endobj'' @ nl"

text \<open>The objects in order, with the offset at which each one starts.\<close>

fun pdf_bodies :: "nat \<Rightarrow> bytes \<Rightarrow> bytes list \<Rightarrow> nat list \<times> bytes" where
  "pdf_bodies object_number out [] = ([], out)"
| "pdf_bodies object_number out (body # rest) =
     (case pdf_bodies (Suc object_number) (out @ pdf_object object_number body) rest of
        (offsets, final) \<Rightarrow> (length out # offsets, final))"

definition xref_line :: "nat \<Rightarrow> bytes" where
  "xref_line offset = ascii (zero_padded 10 (int offset)) @ ascii '' 00000 n '' @ nl"

definition pdf_trailer :: "nat \<Rightarrow> nat list \<Rightarrow> nat \<Rightarrow> bytes" where
  "pdf_trailer n offsets xref_offset =
     ascii ''xref'' @ nl @ ascii ''0 '' @ number (n + 1) @ nl @ ascii ''0000000000 65535 f '' @ nl
     @ concat (map xref_line offsets)
     @ ascii ''trailer'' @ nl @ ascii ''<< /Size '' @ number (n + 1) @ ascii '' /Root 1 0 R >>'' @ nl
     @ ascii ''startxref'' @ nl @ number xref_offset @ nl @ ascii ''%%EOF'' @ nl"

definition serialize_image_only_pdf :: "encoded_page list \<Rightarrow> exn + bytes" where
  "serialize_image_only_pdf pages =
     sum_then (pages_objects 0 pages) (\<lambda>os.
     (let objects = pdf_catalog (length pages) @ os in
      case pdf_bodies 1 pdf_header objects of (offsets, output) \<Rightarrow>
        Inr (output @ pdf_trailer (length objects) offsets (length output))))"

section \<open>The artifact\<close>

definition build_issuance_pdf ::
  "raster_libs \<Rightarrow> limits \<Rightarrow> bytes \<Rightarrow> uuid \<Rightarrow> bytes option \<Rightarrow> bool \<Rightarrow> exn + bytes \<times> nat \<times> string" where
  "build_issuance_pdf R li source issuance_id fingerprint_key visible_marker =
     sum_then (sum_require (int (length source) \<le> lim_max_pdf_bytes li)
                 (issuance_error ''DEMO_PDF_FILE_LIMIT'')) (\<lambda>_.
     sum_then (sum_require (prefix (ascii ''%PDF-'') source) (issuance_error ''DEMO_PDF_INVALID'')) (\<lambda>_.
     sum_then (chosen_candidate R visible_marker fingerprint_key) (\<lambda>candidate.
     case rl_open R source of
       Inl encrypted \<Rightarrow> Inl (issuance_error (if encrypted then ''DEMO_PDF_ENCRYPTED'' else ''DEMO_PDF_INVALID''))
     | Inr pages \<Rightarrow>
         (let page_count = length pages in
          sum_then (sum_require (1 \<le> page_count \<and> int page_count \<le> lim_max_pdf_pages li)
                      (issuance_error ''DEMO_PDF_PAGE_LIMIT'')) (\<lambda>_.
          sum_then (source_page_units R source page_count) (\<lambda>page_units.
          sum_then (validate_raster_budget R li pages page_units) (\<lambda>_.
          sum_then (encode_pages R visible_marker issuance_id fingerprint_key candidate 0
                      (zip pages page_units)) (\<lambda>encoded_pages.
          sum_then (serialize_image_only_pdf encoded_pages) (\<lambda>file.
          Inr (file, page_count, candidate))))))))))"

definition build_issuance_image ::
  "raster_libs \<Rightarrow> limits \<Rightarrow> bytes \<Rightarrow> uuid \<Rightarrow> bytes option \<Rightarrow> bool \<Rightarrow> exn + bytes \<times> string" where
  "build_issuance_image R li source issuance_id fingerprint_key visible_marker =
     sum_then (sum_require (int (length source) \<le> lim_max_pdf_bytes li)
                 (issuance_error ''DEMO_PDF_FILE_LIMIT'')) (\<lambda>_.
     case rl_decode_image R source of
       None \<Rightarrow> Inl (issuance_error ''DEMO_IMAGE_INVALID'')
     | Some raster \<Rightarrow>
         sum_then (sum_require (length (ra_shape raster) = 3 \<and> ra_shape raster ! 2 = 3)
                     (issuance_error ''DEMO_IMAGE_INVALID'')) (\<lambda>_.
         sum_then (sum_require (int (ra_height raster * ra_width raster) \<le> lim_max_image_pixels li)
                     (issuance_error ''DEMO_IMAGE_PIXEL_LIMIT'')) (\<lambda>_.
         sum_then (chosen_candidate R visible_marker fingerprint_key) (\<lambda>candidate.
         sum_then (mark_page R visible_marker raster issuance_id fingerprint_key 0 candidate) (\<lambda>content.
         case rl_encode_png R content of
           None \<Rightarrow> Inl (issuance_error ''DEMO_PDF_OUTPUT_FAILED'')
         | Some encoded \<Rightarrow> Inr (encoded, candidate))))))"

definition build_issuance_artifact ::
  "raster_libs \<Rightarrow> limits \<Rightarrow> bytes \<Rightarrow> uuid \<Rightarrow> bytes option \<Rightarrow> bool \<Rightarrow> exn + bytes \<times> nat \<times> string \<times> string" where
  "build_issuance_artifact R li source issuance_id fingerprint_key visible_marker =
     (if prefix png_magic source \<or> prefix jpeg_magic source
      then sum_then (build_issuance_image R li source issuance_id fingerprint_key visible_marker)
        (\<lambda>(output, candidate). Inr (output, 1, candidate, ''image/png''))
      else sum_then (build_issuance_pdf R li source issuance_id fingerprint_key visible_marker)
        (\<lambda>(output, page_count, candidate). Inr (output, page_count, candidate, ''application/pdf'')))"

section \<open>Properties\<close>

definition located :: "bytes \<Rightarrow> nat \<Rightarrow> bytes \<Rightarrow> bool" where
  "located file offset part \<longleftrightarrow> prefix part (drop offset file)"

lemma located_append [simp]: "located (out @ part @ rest) (length out) part"
  by (simp add: located_def)

lemma located_prefix: "located file offset part \<Longrightarrow> located (file @ rest) offset part"
  by (auto simp: located_def prefix_def)

text \<open>The numbered objects of a body.\<close>

fun numbered_objects :: "nat \<Rightarrow> bytes list \<Rightarrow> bytes list" where
  "numbered_objects k [] = []"
| "numbered_objects k (b # bs) = pdf_object k b # numbered_objects (Suc k) bs"

lemma pdf_bodies_located:
  assumes "pdf_bodies k out bs = (offsets, final)"
  shows "final = out @ concat (numbered_objects k bs) \<and> list_all2 (located final) offsets (numbered_objects k bs)"
  using assms
proof (induction k out bs arbitrary: offsets rule: pdf_bodies.induct)
  case (2 k out b bs)
  then obtain offsets' where *: "pdf_bodies (Suc k) (out @ pdf_object k b) bs = (offsets', final)"
    "offsets = length out # offsets'" by (auto split: prod.splits)
  from 2(1) [OF *(1)] *(2) show ?case by auto
qed simp

lemma pages_objects_length: "pages_objects i ps = Inr os \<Longrightarrow> length os = 3 * length ps"
  by (induction i ps arbitrary: os rule: pages_objects.induct)
     (auto simp: sum_then_Inr page_objects_def Let_def)

lemma pdf_number_error: "pdf_number v = Inl e \<Longrightarrow> e = issuance_error ''DEMO_PDF_OUTPUT_FAILED''"
  by (auto simp: pdf_number_def Let_def split: option.splits if_splits)

lemma sum_then_Inl: "sum_then r f = Inl e \<longleftrightarrow> r = Inl e \<or> (\<exists>x. r = Inr x \<and> f x = Inl e)"
  by (cases r) simp_all

lemma pages_objects_error:
  "pages_objects i ps = Inl e \<Longrightarrow> e = issuance_error ''DEMO_PDF_OUTPUT_FAILED''"
  by (induction i ps rule: pages_objects.induct)
     (auto simp: sum_then_Inl page_objects_def Let_def dest: pdf_number_error)

text \<open>A page size that can be written: finite and positive, for both sides.\<close>

definition positive_size :: "rat option \<Rightarrow> bool" where
  "positive_size v \<longleftrightarrow> (case v of None \<Rightarrow> False | Some x \<Rightarrow> 0 < x)"

definition printable_page :: "encoded_page \<Rightarrow> bool" where
  "printable_page p \<longleftrightarrow> positive_size (ep_page_width p) \<and> positive_size (ep_page_height p)"

lemma pdf_number_ok: "(\<exists>b. pdf_number v = Inr b) \<longleftrightarrow> positive_size v"
  by (auto simp: pdf_number_def positive_size_def Let_def split: option.splits)

lemma page_objects_ok: "(\<exists>os. page_objects i p = Inr os) \<longleftrightarrow> printable_page p"
  by (auto simp: page_objects_def Let_def sum_then_Inr printable_page_def pdf_number_ok [symmetric])

lemma pages_objects_ok: "(\<exists>os. pages_objects i ps = Inr os) \<longleftrightarrow> list_all printable_page ps"
proof (induction i ps rule: pages_objects.induct)
  case (2 i p ps)
  then show ?case using page_objects_ok [of i p] by (auto simp: sum_then_Inr)
qed simp

lemma page_objects_length: "page_objects i p = Inr os \<Longrightarrow> length os = 3"
  by (auto simp: page_objects_def Let_def sum_then_Inr)

text \<open>The three objects of each page stand in the order of the pages.\<close>

lemma pages_objects_nth:
  "pages_objects k ps = Inr os \<Longrightarrow> i < length ps \<Longrightarrow> page_objects (k + i) (ps ! i) = Inr (take 3 (drop (3 * i) os))"
proof (induction k ps arbitrary: os i rule: pages_objects.induct)
  case (2 k p ps)
  then obtain a b where *: "page_objects k p = Inr a" "pages_objects (Suc k) ps = Inr b" "os = a @ b"
    by (auto simp: sum_then_Inr)
  have a: "length a = 3" by (rule page_objects_length [OF *(1)])
  show ?case
  proof (cases i)
    case 0
    then show ?thesis using * a by simp
  next
    case (Suc n)
    with 2(3) have n: "n < length ps" by simp
    from 2(1) [OF *(2) n] show ?thesis using Suc * a by simp
  qed
qed simp

text \<open>
  C38. A serialized document is its header, its numbered objects and a trailer whose cross-reference table is exact:
  every listed offset is where the object with its number starts, and the start mark points at the table. The
  objects are the catalog and, in the order of the pages, the three objects of each page. Serializing fails
  exactly when some page has a width or a height that is not finite and positive.
\<close>

theorem pdf_offsets_exact:
  "case serialize_image_only_pdf pages of
     Inl e \<Rightarrow> e = issuance_error ''DEMO_PDF_OUTPUT_FAILED'' \<and> \<not> list_all printable_page pages
   | Inr file \<Rightarrow> list_all printable_page pages \<and> (\<exists>objects offsets.
       length objects = 2 + 3 * length pages \<and> take 2 objects = pdf_catalog (length pages)
       \<and> list_all (\<lambda>i. page_objects i (pages ! i) = Inr (take 3 (drop (2 + 3 * i) objects))) [0..<length pages]
       \<and> (let body = pdf_header @ concat (numbered_objects 1 objects)
          in file = body @ pdf_trailer (length objects) offsets (length body)
            \<and> list_all2 (located file) offsets (numbered_objects 1 objects)
            \<and> located file (length body) (ascii ''xref'')))"
proof (cases "pages_objects 0 pages")
  case (Inl e)
  then show ?thesis
    using pages_objects_error [OF Inl] pages_objects_ok [of 0 pages] by (simp add: serialize_image_only_pdf_def)
next
  case (Inr os)
  define objects where "objects = pdf_catalog (length pages) @ os"
  obtain offsets out where b: "pdf_bodies 1 pdf_header objects = (offsets, out)"
    by (cases "pdf_bodies 1 pdf_header objects")
  note bodies = pdf_bodies_located [OF b]
  define trailer where "trailer = pdf_trailer (length objects) offsets (length out)"
  have whole: "serialize_image_only_pdf pages = Inr (out @ trailer)"
    using Inr b by (simp add: serialize_image_only_pdf_def objects_def Let_def trailer_def)
  have two: "length (pdf_catalog (length pages)) = 2" by (simp add: pdf_catalog_def)
  have "length objects = 2 + 3 * length pages" "take 2 objects = pdf_catalog (length pages)"
    using pages_objects_length [OF Inr] two by (simp_all add: objects_def)
  moreover have "list_all (\<lambda>i. page_objects i (pages ! i) = Inr (take 3 (drop (2 + 3 * i) objects))) [0..<length pages]"
    using pages_objects_nth [OF Inr] two by (simp add: objects_def list_all_iff)
  moreover have "list_all2 (located (out @ trailer)) offsets (numbered_objects 1 objects)"
    by (rule list_all2_mono [OF conjunct2 [OF bodies]]) (rule located_prefix)
  moreover have "located (out @ trailer) (length out) (ascii ''xref'')"
    unfolding trailer_def pdf_trailer_def by simp
  moreover have "list_all printable_page pages" using pages_objects_ok [of 0 pages] Inr by simp
  ultimately show ?thesis
    unfolding whole sum.case trailer_def Let_def conjunct1 [OF bodies] by blast
qed

lemma raster_budget_bound:
  "raster_budget R li c ps = Inr t \<Longrightarrow> (ps \<noteq> [] \<longrightarrow> t \<le> lim_max_document_raster_pixels li)
     \<and> c + canvas_pixels * int (length ps) \<le> t"
proof (induction ps arbitrary: c t)
  case (Cons p rest)
  obtain page u where p: "p = (page, u)" by (cases p)
  from Cons.prems p obtain w h rw rh where *: "pg_page_size page = (Some w, Some h)" "render_extent R w u = Inr rw"
    "render_extent R h u = Inr rh" "\<not> c + max (rw * rh) canvas_pixels > lim_max_document_raster_pixels li"
    "0 < w" "0 < h" "raster_budget R li (c + max (rw * rh) canvas_pixels) rest = Inr t"
    by (auto simp: sum_then_Inr Let_def split: option.splits if_splits prod.splits)
  have "(rest \<noteq> [] \<longrightarrow> t \<le> lim_max_document_raster_pixels li)
      \<and> c + max (rw * rh) canvas_pixels + canvas_pixels * int (length rest) \<le> t"
    by (rule Cons.IH [OF *(7)])
  moreover have "t = c + max (rw * rh) canvas_pixels" if "rest = []" using *(7) that by simp
  moreover have "canvas_pixels \<le> max (rw * rh) canvas_pixels" by simp
  moreover have "canvas_pixels * int (length (p # rest)) = canvas_pixels + canvas_pixels * int (length rest)"
    by (simp add: algebra_simps)
  ultimately show ?case using *(4) by (cases "rest = []") auto
qed simp

lemma source_page_units_length: "source_page_units R source n = Inr units \<Longrightarrow> length units = n"
  by (auto simp: source_page_units_def split: sum.splits if_splits prod.splits dest!: sum_map_length)

lemma build_issuance_pdf_Inr:
  assumes "build_issuance_pdf R li source k key marker = Inr (out, n, candidate)"
  shows "int (length source) \<le> lim_max_pdf_bytes li \<and> prefix (ascii ''%PDF-'') source \<and> 1 \<le> n
     \<and> int n \<le> lim_max_pdf_pages li \<and> canvas_pixels * int n \<le> lim_max_document_raster_pixels li"
proof -
  from assms obtain pages units t where *: "int (length source) \<le> lim_max_pdf_bytes li"
    "prefix (ascii ''%PDF-'') source" "1 \<le> n" "int n \<le> lim_max_pdf_pages li" "n = length pages"
    "source_page_units R source n = Inr units" "raster_budget R li 0 (zip pages units) = Inr t"
    by (cases "rl_open R source")
       (auto simp: build_issuance_pdf_def sum_then_Inr Let_def validate_raster_budget_def)
  then have l: "length (zip pages units) = n" using source_page_units_length by force
  then have "zip pages units \<noteq> []" using *(3) by auto
  then show ?thesis using raster_budget_bound [OF *(7)] * l by simp
qed

text \<open>
  An artifact is built only from a source within the byte limit; a PDF has at least one page,
  no more than the page limit, and a raster budget of at least one canvas per page within the pixel
  limit; an image counts as one page and its output is a PNG.
\<close>

theorem artifact_within_limits:
  "case build_issuance_artifact R li source issuance_id key visible_marker of
     Inl e \<Rightarrow> True
   | Inr (file, page_count, candidate, content_type) \<Rightarrow>
       int (length source) \<le> lim_max_pdf_bytes li
       \<and> (if prefix png_magic source \<or> prefix jpeg_magic source
          then page_count = 1 \<and> content_type = ''image/png''
            \<and> (\<exists>r. rl_decode_image R source = Some r \<and> int (ra_height r * ra_width r) \<le> lim_max_image_pixels li)
          else prefix (ascii ''%PDF-'') source \<and> content_type = ''application/pdf''
            \<and> 1 \<le> page_count \<and> int page_count \<le> lim_max_pdf_pages li
            \<and> canvas_pixels * int page_count \<le> lim_max_document_raster_pixels li)"
  unfolding build_issuance_artifact_def
  by (auto simp: sum_then_Inr build_issuance_image_def dest!: build_issuance_pdf_Inr
      split: sum.splits prod.splits option.splits)

end
