(* ===== verification/Runtime.thy ===== *)
theory Runtime
  imports Artifact
begin

text \<open>
  What the processes read at startup: the runtime limits (\<open>config/limits.py\<close>), the release mode
  (\<open>release/mode.py\<close>), the settings and environment of the worker, and the text of the visible
  marker (\<open>release/marker.py\<close>).
\<close>

section \<open>Runtime limits\<close>

definition safety_ceilings :: "(string \<times> int) list" where
  "safety_ceilings = [(''MAX_PDF_BYTES'', 100000000), (''MAX_PDF_PAGES'', 50),
     (''MAX_IMAGE_PIXELS'', 40000000), (''MAX_DOCUMENT_RASTER_PIXELS'', 140000000),
     (''JOB_TIMEOUT_SECONDS'', 600), (''WORKER_CONCURRENCY'', 1),
     (''RETENTION_RECONCILIATION_LEASE_SECONDS'', 600)]"

definition runtime_defaults :: "(string \<times> int) list" where
  "runtime_defaults = [(''MAX_PDF_BYTES'', 100000000), (''MAX_PDF_PAGES'', 50),
     (''MAX_IMAGE_PIXELS'', 40000000), (''MAX_DOCUMENT_RASTER_PIXELS'', 140000000),
     (''JOB_TIMEOUT_SECONDS'', 600), (''WORKER_CONCURRENCY'', 1),
     (''RETENTION_RECONCILIATION_LEASE_SECONDS'', 300)]"

definition production_runtime_limits :: "(string \<times> int) list" where
  "production_runtime_limits = [(''MAX_PDF_BYTES'', 100000000), (''MAX_PDF_PAGES'', 50),
     (''MAX_IMAGE_PIXELS'', 40000000), (''MAX_DOCUMENT_RASTER_PIXELS'', 140000000),
     (''JOB_TIMEOUT_SECONDS'', 600), (''WORKER_CONCURRENCY'', 1),
     (''RETENTION_RECONCILIATION_LEASE_SECONDS'', 600)]"

definition max_parsed_integer :: int where
  "max_parsed_integer = 2147483647"

definition decimal_digit :: "char \<Rightarrow> bool" where
  "decimal_digit c \<longleftrightarrow> (let n = of_char c :: nat in 48 \<le> n \<and> n \<le> 57)"

text \<open>\<open>[1-9][0-9]*\<close>, and \<open>int(value, 10)\<close>, which refuses more than 4300 digits.\<close>

definition positive_decimal_text :: "string \<Rightarrow> bool" where
  "positive_decimal_text s \<longleftrightarrow> s \<noteq> [] \<and> list_all decimal_digit s \<and> hd s \<noteq> CHR ''0''"

definition decimal_value :: "string \<Rightarrow> int" where
  "decimal_value s = foldl (\<lambda>a c. a * 10 + (of_char c - 48)) 0 s"

definition parse_positive_decimal :: "string \<Rightarrow> json \<Rightarrow> exn + int" where
  "parse_positive_decimal name v = (case v of
     JStr s \<Rightarrow>
       if \<not> positive_decimal_text s
       then Inl (ImproperlyConfigured (name @ '' must be a positive base-10 integer''))
       else if length s > 4300 then Inl (ValueError ''Exceeds the limit for integer string conversion'')
       else (let parsed = decimal_value s in
         if parsed > max_parsed_integer
         then Inl (ImproperlyConfigured (name @ '' exceeds the supported integer range''))
         else Inr parsed)
   | _ \<Rightarrow> Inl (ImproperlyConfigured (name @ '' must be a positive base-10 integer'')))"

text \<open>
  \<open>values.get(name)\<close>: \<open>JNull\<close> for a missing name. Every name of the ceilings has a default
  (\<open>runtime_defaults_complete\<close>), so the lookup in \<open>runtime_defaults\<close> never fails.
\<close>

definition load_limit :: "string \<Rightarrow> (string \<Rightarrow> json) \<Rightarrow> string \<times> int \<Rightarrow> exn + string \<times> int" where
  "load_limit environment values_get nc = (case nc of (name, cap) \<Rightarrow>
     let supplied = values_get name in
     if supplied = JNull then
       (if environment = ''production''
        then Inl (ImproperlyConfigured (name @ '' is required in production''))
        else Inr (name, the (map_of runtime_defaults name)))
     else sum_then (parse_positive_decimal name supplied) (\<lambda>parsed.
       if parsed > cap
       then Inl (ImproperlyConfigured (name @ '' exceeds safety ceiling '' @ decimal (nat cap)))
       else Inr (name, parsed)))"

definition load_runtime_limits :: "string \<Rightarrow> (string \<Rightarrow> json) \<Rightarrow> exn + (string \<times> int) list" where
  "load_runtime_limits environment values_get =
     (if environment \<notin> {''production'', ''local'', ''offline'', ''test''}
      then Inl (ImproperlyConfigured ''ENVIRONMENT must identify a supported runtime'')
      else sum_map (load_limit environment values_get) safety_ceilings)"

lemma runtime_defaults_complete:
  "list_all (\<lambda>(name, cap). case map_of runtime_defaults name of None \<Rightarrow> False
     | Some d \<Rightarrow> 0 < d \<and> d \<le> cap) safety_ceilings"
  by code_simp

section \<open>Release mode\<close>

datatype release_mode = IntegrityV1

definition integrity_v1 :: string where
  "integrity_v1 = ''integrity_v1''"

definition load_release_mode :: "string \<Rightarrow> json \<Rightarrow> exn + release_mode option" where
  "load_release_mode environment v =
     (if v = JNull
      then (if environment = ''production''
            then Inl (ImproperlyConfigured ''SPLITBIND_RELEASE_MODE must be integrity_v1 in production'')
            else Inr None)
      else if v \<noteq> JStr integrity_v1
      then Inl (ImproperlyConfigured ''SPLITBIND_RELEASE_MODE must be exactly integrity_v1'')
      else Inr (Some IntegrityV1))"

definition integrity_release_enabled :: "release_mode option \<Rightarrow> bool" where
  "integrity_release_enabled mode \<longleftrightarrow> mode = Some IntegrityV1"

section \<open>Settings of the worker\<close>

text \<open>
  The secrets are files: the outer option says whether a path is configured, the inner one whether
  the file can be read. The fingerprint key is an environment variable.
\<close>

record settings =
  set_demo_mode :: bool
  set_release_mode :: "release_mode option"
  set_fingerprint_enabled :: bool
  set_fingerprint_key :: "string option"
  set_signing_key_file :: "bytes option option"
  set_signing_passphrase_file :: "bytes option option"

definition integrity_mode :: "settings \<Rightarrow> bool" where
  "integrity_mode S = integrity_release_enabled (set_release_mode S)"

section \<open>The visible marker\<close>

definition b32_char :: "nat \<Rightarrow> char" where
  "b32_char n = (if n < 26 then char_of (65 + n) else char_of (24 + n))"

text \<open>\<open>base64.b32encode\<close>: five bytes are eight characters; the padding of a shorter group is cut below.\<close>

definition b32_group :: "bytes \<Rightarrow> string" where
  "b32_group five = map (\<lambda>i. b32_char (be_nat five div 32 ^ (7 - i) mod 32)) [0..<8]"

fun b32encode :: "bytes \<Rightarrow> string" where
  "b32encode [] = []"
| "b32encode [a] = take 2 (b32_group [a, 0, 0, 0, 0]) @ replicate 6 (CHR ''='')"
| "b32encode [a, b] = take 4 (b32_group [a, b, 0, 0, 0]) @ replicate 4 (CHR ''='')"
| "b32encode [a, b, c] = take 5 (b32_group [a, b, c, 0, 0]) @ replicate 3 (CHR ''='')"
| "b32encode [a, b, c, d] = take 7 (b32_group [a, b, c, d, 0]) @ [CHR ''='']"
| "b32encode (a # b # c # d # e # rest) = b32_group [a, b, c, d, e] @ b32encode rest"

definition marker_text :: "uuid \<Rightarrow> string" where
  "marker_text issuance_id = ''SB1-'' @ take 20 (rstrip_char (CHR ''='') (b32encode (uuid_bytes issuance_id)))"

section \<open>Properties\<close>

lemma decimal_value_snoc: "decimal_value (s @ [c]) = decimal_value s * 10 + (of_char c - 48)"
  by (simp add: decimal_value_def)

lemma decimal_facts:
  "decimal_value (decimal n) = int n \<and> list_all decimal_digit (decimal n) \<and> decimal n \<noteq> []
     \<and> (0 < n \<longrightarrow> hd (decimal n) \<noteq> CHR ''0'')"
proof (induction n rule: decimal.induct)
  case (1 n)
  have digit: "(of_char (char_of (48 + d) :: char) :: nat) = 48 + d" if "d < 10" for d :: nat
    using that by (simp add: of_char_of)
  have digit_value: "(of_char (char_of (48 + d) :: char) :: int) = 48 + int d" if "d < 10" for d :: nat
    using digit [OF that] by (metis of_nat_of_char of_nat_add of_nat_numeral)
  show ?case
  proof (cases "n < 10")
    case True
    have "char_of (48 + n) \<noteq> CHR ''0''" if "0 < n"
    proof
      assume "char_of (48 + n) = CHR ''0''"
      then have "48 + n = (of_char CHR ''0'' :: nat)" using digit [OF True] by metis
      with that show False by simp
    qed
    then show ?thesis using True digit digit_value
      by (simp add: decimal.simps [of n] decimal_value_def decimal_digit_def)
  next
    case False
    with 1 have "decimal_value (decimal (n div 10)) = int (n div 10)" "list_all decimal_digit (decimal (n div 10))"
      "decimal (n div 10) \<noteq> []" "hd (decimal (n div 10)) \<noteq> CHR ''0''" by auto
    moreover have "decimal_digit (char_of (48 + n mod 10))"
      using digit [of "n mod 10"] by (simp add: decimal_digit_def Let_def)
    ultimately show ?thesis using False digit_value [of "n mod 10"]
      by (simp add: decimal.simps [of n] decimal_value_snoc hd_append zdiv_int zmod_int)
  qed
qed

lemma decimal_digitE:
  assumes "decimal_digit c"
  obtains d where "d < 10" "c = char_of (48 + d)" "(of_char c :: int) = 48 + int d"
proof
  let ?n = "of_char c :: nat"
  from assms have n: "48 \<le> ?n" "?n \<le> 57" by (auto simp: decimal_digit_def Let_def)
  then show "?n - 48 < 10" by simp
  show "c = char_of (48 + (?n - 48))" using n by simp
  have "(of_char c :: int) = int ?n" by (simp only: of_nat_of_char)
  then show "(of_char c :: int) = 48 + int (?n - 48)" using n by linarith
qed

lemma positive_decimal_snoc:
  "s \<noteq> [] \<Longrightarrow> positive_decimal_text (s @ [c]) \<longleftrightarrow> positive_decimal_text s \<and> decimal_digit c"
  by (auto simp: positive_decimal_text_def hd_append)

text \<open>A positive decimal text is the decimal of its value: there is one spelling of each number.\<close>

lemma positive_decimal_canonical:
  "positive_decimal_text s \<Longrightarrow> 0 < decimal_value s \<and> decimal (nat (decimal_value s)) = s"
proof (induction s rule: rev_induct)
  case Nil
  then show ?case by (simp add: positive_decimal_text_def)
next
  case (snoc c s)
  from snoc.prems have "decimal_digit c" by (simp add: positive_decimal_text_def)
  then obtain d where d: "d < 10" "c = char_of (48 + d)" "(of_char c :: int) = 48 + int d"
    by (rule decimal_digitE)
  show ?case
  proof (cases "s = []")
    case True
    have "char_of (48 :: nat) = CHR ''0''" by code_simp
    with True snoc.prems d have "0 < d" by (cases "d = 0") (auto simp: positive_decimal_text_def)
    with True d show ?thesis by (simp add: decimal_value_def decimal.simps [of d])
  next
    case False
    with snoc have s: "0 < decimal_value s" "decimal (nat (decimal_value s)) = s"
      by (simp_all add: positive_decimal_snoc)
    define k where "k = nat (decimal_value s)"
    with s have k: "decimal_value s = int k" "0 < k" "decimal k = s" by auto
    have v: "decimal_value (s @ [c]) = int (k * 10 + d)" using k d by (simp add: decimal_value_snoc)
    have "decimal (k * 10 + d) = s @ [c]" using k d by (simp add: decimal.simps [of "k * 10 + d"])
    with v k show ?thesis by (simp only: nat_int) simp
  qed
qed

lemma length_decimal: "n < 10 ^ Suc k \<Longrightarrow> length (decimal n) \<le> Suc k"
proof (induction k arbitrary: n)
  case 0
  then show ?case by (simp add: decimal.simps [of n])
next
  case (Suc k)
  then have "n div 10 < 10 ^ Suc k" by (simp add: less_mult_imp_div_less mult.commute)
  with Suc.IH [OF this] show ?case by (simp add: decimal.simps [of n])
qed

text \<open>
  The parser of the limits accepts exactly the decimal texts of 1 to 2147483647, each in its only
  spelling (no sign, no leading zero, no blank), and returns the number the text denotes.
\<close>

theorem limit_text_exact:
  "parse_positive_decimal name v = Inr k \<longleftrightarrow>
     v = JStr (decimal (nat k)) \<and> 1 \<le> k \<and> k \<le> max_parsed_integer"
proof
  assume p: "parse_positive_decimal name v = Inr k"
  then obtain s where s: "v = JStr s" "positive_decimal_text s" "k = decimal_value s" "k \<le> max_parsed_integer"
    by (auto simp: parse_positive_decimal_def Let_def split: json.splits if_splits)
  from positive_decimal_canonical [OF s(2)] s
  show "v = JStr (decimal (nat k)) \<and> 1 \<le> k \<and> k \<le> max_parsed_integer" by auto
next
  assume v: "v = JStr (decimal (nat k)) \<and> 1 \<le> k \<and> k \<le> max_parsed_integer"
  then have "k < 10 ^ Suc 9" by (simp add: max_parsed_integer_def)
  then have "nat k < 10 ^ Suc 9" by (simp add: nat_less_iff)
  from length_decimal [OF this] v decimal_facts [of "nat k"]
  show "parse_positive_decimal name v = Inr k"
    by (auto simp: parse_positive_decimal_def positive_decimal_text_def)
qed

lemma load_limit_bounds:
  assumes "(n, cap) \<in> set safety_ceilings"
  shows "case load_limit environment values_get (n, cap) of
     Inl _ \<Rightarrow> True | Inr (m, v) \<Rightarrow> m = n \<and> 1 \<le> v \<and> v \<le> cap"
proof (cases "values_get n = JNull")
  case True
  with runtime_defaults_complete assms show ?thesis
    by (auto simp: load_limit_def list_all_iff split: option.splits)
next
  case False
  then show ?thesis
  proof (cases "parse_positive_decimal n (values_get n)")
    case (Inr k)
    then have "0 < k"
      by (auto simp: parse_positive_decimal_def Let_def split: json.splits if_splits
          dest: positive_decimal_canonical)
    with Inr False show ?thesis by (simp add: load_limit_def Let_def)
  qed (simp add: load_limit_def Let_def)
qed

text \<open>
  The limits a process starts with are one per safety ceiling, in their order, each at least one
  and at most its ceiling, whatever the environment and the supplied values are; in production no
  limit is defaulted.
\<close>

theorem runtime_limits_bounded:
  "case load_runtime_limits environment values_get of
     Inl _ \<Rightarrow> True
   | Inr ls \<Rightarrow> list_all2 (\<lambda>(n, cap) (m, v). m = n \<and> 1 \<le> v \<and> v \<le> cap
       \<and> (if environment = ''production'' then values_get n = JStr (decimal (nat v)) else True))
       safety_ceilings ls"
proof (cases "load_runtime_limits environment values_get")
  case (Inr ls)
  then have l: "list_all2 (\<lambda>x y. load_limit environment values_get x = Inr y) safety_ceilings ls"
    by (auto simp: load_runtime_limits_def split: if_splits dest: sum_map_Inr)
  have "list_all2 (\<lambda>(n, cap) (m, v). m = n \<and> 1 \<le> v \<and> v \<le> cap
       \<and> (if environment = ''production'' then values_get n = JStr (decimal (nat v)) else True))
       safety_ceilings ls"
  proof (rule list.rel_mono_strong [OF l])
    fix x y assume x: "x \<in> set safety_ceilings" and y: "load_limit environment values_get x = Inr y"
    obtain n cap m v where xy: "x = (n, cap)" "y = (m, v)" by (cases x, cases y) auto
    have p: "values_get n = JStr (decimal (nat v))" if "environment = ''production''"
      using y that unfolding xy
      by (auto simp: load_limit_def Let_def parse_positive_decimal_def sum_then_Inr
          split: if_splits json.splits dest: positive_decimal_canonical)
    show "(case x of (n, cap) \<Rightarrow> \<lambda>(m, v). m = n \<and> 1 \<le> v \<and> v \<le> cap
       \<and> (if environment = ''production'' then values_get n = JStr (decimal (nat v)) else True)) y"
      using load_limit_bounds [of n cap environment values_get] x y p by (simp add: xy)
  qed
  with Inr show ?thesis by simp
qed simp

end
