(* ===== verification/Issuance.thy ===== *)
theory Issuance
  imports JobServices Manifests Artifact Runtime "HOL-Library.List_Lexorder" "HOL-Library.Char_ord"
begin

text \<open>
  The issuance worker (\<open>demo/issuance.py\<close>): claiming a job, the one write of the output object, the
  atomic commit of the result, the compensation of a failed write, the recovery of a stale output
  and the replay of a committed result. Every transaction of the module is one definition; the
  object store is any record of operations.
\<close>

section \<open>Claims and results\<close>

record processing_claim =
  pc_job_id :: uuid
  pc_organization_id :: uuid
  pc_issuance_id :: uuid
  pc_document_id :: uuid
  pc_attempt :: int
  pc_source_object_key :: string
  pc_expected_source_sha256 :: string
  pc_output_object_key :: string
  pc_owner_token :: uuid

text \<open>The columns of the evidence row a result copies may be null before the commit.\<close>

record issuance_processing_result =
  ipr_organization_id :: uuid
  ipr_job_id :: uuid
  ipr_issuance_id :: uuid
  ipr_input_sha256 :: "string option"
  ipr_output_sha256 :: "string option"
  ipr_output_object_key :: string
  ipr_algorithm_label :: "string option"
  ipr_candidate_identifier :: "string option"
  ipr_canonical_canvas :: "int option \<times> int option"
  ipr_pages_processed :: "int option"
  ipr_processing_ms :: "int option"
  ipr_limitations :: "string list"
  ipr_cleanup_failures :: int

text \<open>
  What a process brings to a job: its libraries and settings, whether its temporary directory can
  be removed, and the milliseconds the job took.
\<close>

record processing_env =
  pe_libs :: libs
  pe_manifest_libs :: manifest_libs
  pe_raster_libs :: raster_libs
  pe_settings :: settings
  pe_workspace_removed :: bool
  pe_elapsed_ms :: int

definition integrity_algorithm_label :: string where
  "integrity_algorithm_label = ''integrity_release_v1''"

definition integrity_retention_policy_id :: string where
  "integrity_retention_policy_id = ''retention-v1''"

definition result_from_evidence :: "settings \<Rightarrow> demo_issuance_result \<Rightarrow> issuance_processing_result" where
  "result_from_evidence S r = \<lparr>
     ipr_organization_id = dir_organization_id r, ipr_job_id = dir_job_id r,
     ipr_issuance_id = dir_issuance_id r, ipr_input_sha256 = dir_input_sha256 r,
     ipr_output_sha256 = dir_output_sha256 r, ipr_output_object_key = dir_output_object_key r,
     ipr_algorithm_label = (if integrity_mode S then Some integrity_algorithm_label else dir_algorithm_label r),
     ipr_candidate_identifier = dir_candidate_identifier r,
     ipr_canonical_canvas = (dir_canvas_height r, dir_canvas_width r),
     ipr_pages_processed = dir_page_count r, ipr_processing_ms = dir_processing_ms r,
     ipr_limitations = dir_limitations r, ipr_cleanup_failures = dir_cleanup_failures r\<rparr>"

definition ownership_invalid :: exn where
  "ownership_invalid = issuance_error ''DEMO_OUTPUT_OWNERSHIP_INVALID''"

section \<open>Reading under lock\<close>

text \<open>\<open>Job.objects.filter(issuance__isnull=False).select_for_update().get(pk=job_id)\<close>.\<close>

definition locked_job :: "uuid \<Rightarrow> ('st world, job) prog" where
  "locked_job k = chain (get_row jobs_t k) (\<lambda>j.
     chain (require (job_issuance_id j \<noteq> None) (DoesNotExist (tb_name jobs_t))) (\<lambda>_. ret j))"

definition locked_issuance_document :: "job \<Rightarrow> ('st world, issuance \<times> document) prog" where
  "locked_issuance_document j = (case job_issuance_id j of
     None \<Rightarrow> raise (DoesNotExist (tb_name issuances_t))
   | Some k \<Rightarrow> chain (get_row issuances_t k) (\<lambda>i.
       chain (get_row documents_t (iss_document_id i)) (\<lambda>x. ret (i, x))))"

definition locked_binding :: "job \<Rightarrow> issuance \<Rightarrow> document \<Rightarrow> bool" where
  "locked_binding j i x \<longleftrightarrow> job_kind j = KindIssuance \<and> job_issuance_id j = Some (iss_id i)
     \<and> iss_organization_id i = job_organization_id j \<and> doc_id x = iss_document_id i
     \<and> doc_organization_id x = job_organization_id j"

definition validate_locked_binding :: "job \<Rightarrow> issuance \<Rightarrow> document \<Rightarrow> ('st world, unit) prog" where
  "validate_locked_binding j i x =
     require (locked_binding j i x) (issuance_error ''DEMO_ISSUANCE_JOB_INVALID'')"

definition claim_binding :: "processing_claim \<Rightarrow> job \<Rightarrow> issuance \<Rightarrow> document \<Rightarrow> bool" where
  "claim_binding c j i x \<longleftrightarrow> job_id j = pc_job_id c \<and> job_organization_id j = pc_organization_id c
     \<and> iss_id i = pc_issuance_id c \<and> doc_id x = pc_document_id c \<and> job_attempt j = pc_attempt c"

definition validate_claim_binding ::
  "processing_claim \<Rightarrow> job \<Rightarrow> issuance \<Rightarrow> document \<Rightarrow> ('st world, unit) prog" where
  "validate_claim_binding c j i x =
     chain (validate_locked_binding j i x) (\<lambda>_. require (claim_binding c j i x) ownership_invalid)"

definition owns_evidence :: "processing_claim \<Rightarrow> demo_issuance_result \<Rightarrow> bool" where
  "owns_evidence c r \<longleftrightarrow> dir_organization_id r = pc_organization_id c
     \<and> dir_issuance_id r = pc_issuance_id c \<and> dir_attempt r = pc_attempt c
     \<and> dir_owner_token r = pc_owner_token c \<and> dir_output_object_key r = pc_output_object_key c"

definition locked_evidence :: "processing_claim \<Rightarrow> ('st world, demo_issuance_result) prog" where
  "locked_evidence c = chain (get_row issuance_results_t (pc_job_id c)) (\<lambda>r.
     chain (require (owns_evidence c r) ownership_invalid) (\<lambda>_. ret r))"

text \<open>The four statements with which the transactions of a claim begin.\<close>

definition claimed_rows ::
  "processing_claim \<Rightarrow> ('st world, job \<times> issuance \<times> document \<times> demo_issuance_result) prog" where
  "claimed_rows c =
     chain (locked_job (pc_job_id c)) (\<lambda>j.
     chain (locked_issuance_document j) (\<lambda>(i, x).
     chain (validate_claim_binding c j i x) (\<lambda>_.
     chain (locked_evidence c) (\<lambda>r. ret (j, i, x, r)))))"

section \<open>Claiming a job\<close>

definition receipt_id :: "libs \<Rightarrow> job \<Rightarrow> uuid" where
  "receipt_id L j = lb_uuid5_url L
     (''splitbind-demo-issuance:'' @ uuid_str (job_id j) @ '':'' @ decimal (nat (job_attempt j)))"

definition replay_valid :: "libs \<Rightarrow> job \<Rightarrow> issuance \<Rightarrow> document \<Rightarrow> demo_issuance_result \<Rightarrow> bool \<Rightarrow> bool" where
  "replay_valid L j i x r receipt_exists \<longleftrightarrow> dir_output_state r = OutCommitted
     \<and> dir_organization_id r = job_organization_id j \<and> dir_issuance_id r = iss_id i
     \<and> dir_attempt r = job_attempt j \<and> iss_output_object_key i = Some (dir_output_object_key r)
     \<and> iss_output_sha256 i = dir_output_sha256 r
     \<and> dir_input_sha256 r = Some (doc_expected_source_sha256 x)
     \<and> doc_page_count x = dir_page_count r \<and> receipt_exists"

definition load_replay_result ::
  "processing_env \<Rightarrow> job \<Rightarrow> issuance \<Rightarrow> document \<Rightarrow> ('st world, issuance_processing_result) prog" where
  "load_replay_result E j i x =
     chain (get_row issuance_results_t (job_id j)) (\<lambda>r.
     chain (exists_where receipts_t (\<lambda>m. rec_message_id m = receipt_id (pe_libs E) j
              \<and> rec_organization_id m = job_organization_id j \<and> rec_job_id m = job_id j)) (\<lambda>found.
     chain (require (replay_valid (pe_libs E) j i x r found) (issuance_error ''DEMO_ISSUANCE_RESULT_INVALID'')) (\<lambda>_.
     chain (dir_full_clean r) (\<lambda>_.
     ret (result_from_evidence (pe_settings E) r)))))"

datatype acquisition =
    Replayed issuance_processing_result
  | Claimed processing_claim
  | JobCancelled

definition processing_claim_of :: "job \<Rightarrow> issuance \<Rightarrow> document \<Rightarrow> string \<Rightarrow> uuid \<Rightarrow> processing_claim" where
  "processing_claim_of j i x key token = \<lparr>pc_job_id = job_id j, pc_organization_id = job_organization_id j,
     pc_issuance_id = iss_id i, pc_document_id = doc_id x, pc_attempt = job_attempt j,
     pc_source_object_key = doc_source_object_key x,
     pc_expected_source_sha256 = doc_expected_source_sha256 x,
     pc_output_object_key = key, pc_owner_token = token\<rparr>"

text \<open>A reservation of the same owner for the same attempt is taken up again.\<close>

definition same_reservation :: "job \<Rightarrow> issuance \<Rightarrow> uuid \<Rightarrow> demo_issuance_result \<Rightarrow> bool" where
  "same_reservation j i token r \<longleftrightarrow> dir_owner_token r = token \<and> dir_output_state r = OutReserved
     \<and> dir_organization_id r = job_organization_id j \<and> dir_issuance_id r = iss_id i
     \<and> dir_attempt r = job_attempt j"

definition reserve_output :: "job \<Rightarrow> issuance \<Rightarrow> document \<Rightarrow> uuid \<Rightarrow> ('st world, processing_claim) prog" where
  "reserve_output j i x token =
     chain (get_row uploads_t (doc_upload_request_id x)) (\<lambda>u.
     chain now (\<lambda>created. chain now (\<lambda>updated.
     let key = output_key_for (job_organization_id j) (iss_id i)
                 (issuance_output_extension (upl_source_content_type u))
     in chain (insert_dir True (new_dir (job_organization_id j) (job_id j) (iss_id i) (job_attempt j)
              token key created updated)) (\<lambda>_.
     ret (processing_claim_of j i x key token)))))"

definition cancel_claimed :: "job \<Rightarrow> ('st world, job) prog" where
  "cancel_claimed j = chain (lift_sum (advance_job j Cancelled)) (\<lambda>j'. save_job [FStatus, FUpdatedAt] j')"

definition acquire_body :: "processing_env \<Rightarrow> uuid \<Rightarrow> uuid \<Rightarrow> ('st world, acquisition) prog" where
  "acquire_body E k token =
     chain (locked_job k) (\<lambda>j.
     chain (locked_issuance_document j) (\<lambda>(i, x).
     chain (validate_locked_binding j i x) (\<lambda>_.
     if job_status j = Succeeded then chain (load_replay_result E j i x) (\<lambda>r. ret (Replayed r))
     else if job_status j \<noteq> Processing then raise (issuance_error ''DEMO_ISSUANCE_JOB_INVALID'')
     else if job_cancel_requested_at j \<noteq> None then chain (cancel_claimed j) (\<lambda>_. ret JobCancelled)
     else chain (gets (\<lambda>w. lookup_by dir_job_id (job_id j) (db_issuance_results (w_db w)))) (\<lambda>existing.
       case existing of
         Some r \<Rightarrow> chain (require (same_reservation j i token r) (issuance_error ''DEMO_JOB_RESULT_OWNED'')) (\<lambda>_.
           ret (Claimed (processing_claim_of j i x (dir_output_object_key r) token)))
       | None \<Rightarrow> chain (reserve_output j i x token) (\<lambda>c. ret (Claimed c))))))"

definition acquire_processing_claim :: "processing_env \<Rightarrow> uuid \<Rightarrow> uuid \<Rightarrow> ('st world, acquisition) prog" where
  "acquire_processing_claim E k token = atomic (acquire_body E k token)"

section \<open>The output object and its owner\<close>

definition begin_upload_body :: "processing_claim \<Rightarrow> ('st world, bool) prog" where
  "begin_upload_body c =
     chain (claimed_rows c) (\<lambda>(j, i, x, r).
     chain (require (job_status j = Processing \<and> dir_output_state r = OutReserved) ownership_invalid) (\<lambda>_.
     if job_cancel_requested_at j \<noteq> None then
       chain (cancel_claimed j) (\<lambda>_.
       chain (save_dir True False [DOutputState, DUpdatedAt] (r\<lparr>dir_output_state := OutCleaned\<rparr>)) (\<lambda>_.
       ret False))
     else
       chain (save_dir True False [DOutputState, DUpdatedAt] (r\<lparr>dir_output_state := OutUploading\<rparr>)) (\<lambda>_.
       ret True)))"

definition begin_output_upload :: "processing_claim \<Rightarrow> ('st world, bool) prog" where
  "begin_output_upload c = atomic (begin_upload_body c)"

definition authorize_output_cleanup :: "processing_claim \<Rightarrow> ('st world, unit) prog" where
  "authorize_output_cleanup c = atomic (
     chain (claimed_rows c) (\<lambda>(j, i, x, r).
     require (dir_output_state r \<in> {OutUploading, OutCleanupRequired} \<and> iss_output_object_key i = None
         \<and> job_status j \<noteq> Succeeded) ownership_invalid))"

definition persist_cleanup_body ::
  "processing_claim \<Rightarrow> output_state \<Rightarrow> string \<Rightarrow> int \<Rightarrow> ('st world, unit) prog" where
  "persist_cleanup_body c state code failures =
     chain (claimed_rows c) (\<lambda>(j, i, x, r).
     chain (require (dir_output_state r \<in> {OutUploading, OutCleanupRequired}) ownership_invalid) (\<lambda>_.
     chain (save_dir True False [DOutputState, DSafeErrorCode, DCleanupFailures, DUpdatedAt]
              (r\<lparr>dir_output_state := state, dir_safe_error_code := Some code, dir_cleanup_failures := failures\<rparr>)) (\<lambda>_.
     if job_status j = Cancelled then
       chain (save_job [FSafeErrorCode, FUpdatedAt]
                (j\<lparr>job_safe_error_code := (if failures \<noteq> 0 then Some code else None)\<rparr>)) (\<lambda>_. ret ())
     else ret ())))"

definition persist_output_cleanup ::
  "processing_claim \<Rightarrow> output_state \<Rightarrow> string \<Rightarrow> int \<Rightarrow> ('st world, unit) prog" where
  "persist_output_cleanup c state code failures = atomic (persist_cleanup_body c state code failures)"

text \<open>
  Deleting the object this claim wrote, and recording whether it could be deleted. The result is
  the number of cleanup failures and the code to report.
\<close>

definition compensate_owned_output ::
  "'st storage_ops \<Rightarrow> processing_claim \<Rightarrow> string \<Rightarrow> string \<Rightarrow> int \<Rightarrow> ('st world, int \<times> string) prog" where
  "compensate_owned_output ops c cleaned_code failed_code prior =
     chain (authorize_output_cleanup c) (\<lambda>_.
     chain (attempt (chain (on_store (so_delete ops (pc_output_object_key c))) (\<lambda>_. ret True)) (\<lambda>_. ret False)) (\<lambda>deleted.
     if deleted then
       chain (persist_output_cleanup c OutCleaned cleaned_code prior) (\<lambda>_. ret (prior, cleaned_code))
     else
       chain (persist_output_cleanup c OutCleanupRequired failed_code (prior + 1)) (\<lambda>_.
       ret (prior + 1, failed_code))))"

section \<open>Recovering a stale output\<close>

definition claim_stale_body :: "processing_claim \<Rightarrow> uuid \<Rightarrow> ('st world, processing_claim \<times> int) prog" where
  "claim_stale_body c recovery_token =
     chain (require (recovery_token \<noteq> pc_owner_token c) ownership_invalid) (\<lambda>_.
     chain (claimed_rows c) (\<lambda>(j, i, x, r).
     chain (require (job_status j = Processing \<and> dir_output_state r \<in> {OutUploading, OutCleanupRequired}
              \<and> iss_output_object_key i = None \<and> iss_output_sha256 i = None) ownership_invalid) (\<lambda>_.
     chain (save_dir True True [DOwnerToken, DOutputState, DSafeErrorCode, DUpdatedAt]
              (r\<lparr>dir_owner_token := recovery_token, dir_output_state := OutCleanupRequired,
                 dir_safe_error_code := Some demo_stale_recovery_fence_code\<rparr>)) (\<lambda>_.
     ret (c\<lparr>pc_owner_token := recovery_token\<rparr>, dir_cleanup_failures r)))))"

definition claim_stale_output_recovery ::
  "processing_claim \<Rightarrow> uuid \<Rightarrow> ('st world, processing_claim \<times> int) prog" where
  "claim_stale_output_recovery c recovery_token = atomic (claim_stale_body c recovery_token)"

definition authorize_stale_output_delete :: "processing_claim \<Rightarrow> int \<Rightarrow> ('st world, unit) prog" where
  "authorize_stale_output_delete c failures = atomic (
     chain (claimed_rows c) (\<lambda>(j, i, x, r).
     require (job_status j = Processing \<and> dir_output_state r = OutCleanupRequired
         \<and> dir_safe_error_code r = Some demo_stale_recovery_fence_code
         \<and> dir_cleanup_failures r = failures
         \<and> iss_output_object_key i = None \<and> iss_output_sha256 i = None) ownership_invalid))"

definition record_stale_output_delete_failure ::
  "processing_claim \<Rightarrow> int \<Rightarrow> string \<Rightarrow> ('st world, int) prog" where
  "record_stale_output_delete_failure c prior code = atomic (
     chain (authorize_stale_output_delete c prior) (\<lambda>_.
     chain (locked_evidence c) (\<lambda>r.
     chain (save_dir True False [DCleanupFailures, DSafeErrorCode, DUpdatedAt]
              (r\<lparr>dir_cleanup_failures := prior + 1, dir_safe_error_code := Some code\<rparr>)) (\<lambda>r'.
     ret (dir_cleanup_failures r')))))"

definition fail_job :: "job \<Rightarrow> string \<Rightarrow> ('st world, job) prog" where
  "fail_job j code = chain (lift_sum (advance_job j Failed)) (\<lambda>j'.
     save_job [FStatus, FSafeErrorCode, FUpdatedAt] (j'\<lparr>job_safe_error_code := Some code\<rparr>))"

definition acknowledge_stale_output_delete ::
  "processing_claim \<Rightarrow> int \<Rightarrow> string \<Rightarrow> ('st world, unit) prog" where
  "acknowledge_stale_output_delete c failures code = atomic (
     chain (authorize_stale_output_delete c failures) (\<lambda>_.
     chain (locked_job (pc_job_id c)) (\<lambda>j.
     chain (locked_evidence c) (\<lambda>r.
     chain (save_dir True False [DOutputState, DSafeErrorCode, DUpdatedAt]
              (r\<lparr>dir_output_state := OutCleanupRequired,
                 dir_safe_error_code := Some demo_stale_recovery_fence_code\<rparr>)) (\<lambda>_.
     chain (fail_job j code) (\<lambda>_. ret ()))))))"

section \<open>Recording a failed job\<close>

text \<open>A recovery has taken the output over: its token is not the claim's.\<close>

definition taken_over :: "processing_claim \<Rightarrow> demo_issuance_result option \<Rightarrow> bool" where
  "taken_over c current \<longleftrightarrow> (case current of None \<Rightarrow> False
     | Some r \<Rightarrow> dir_owner_token r \<noteq> pc_owner_token c \<and> dir_output_state r = OutCleanupRequired)"

definition failed_output_state :: "output_state \<Rightarrow> output_state" where
  "failed_output_state s = (case s of OutReserved \<Rightarrow> OutCleaned | OutUploading \<Rightarrow> OutCleanupRequired | _ \<Rightarrow> s)"

definition record_failed_body :: "processing_claim \<Rightarrow> string \<Rightarrow> int \<Rightarrow> ('st world, unit) prog" where
  "record_failed_body c code failures =
     chain (locked_job (pc_job_id c)) (\<lambda>j.
     chain (gets (\<lambda>w. lookup_by dir_job_id (pc_job_id c) (db_issuance_results (w_db w)))) (\<lambda>current.
     if taken_over c current then ret ()
     else chain (locked_evidence c) (\<lambda>r.
     if job_status j \<noteq> Processing then ret ()
     else chain (fail_job j code) (\<lambda>_.
     chain (save_dir True False [DOutputState, DSafeErrorCode, DCleanupFailures, DUpdatedAt]
              (r\<lparr>dir_output_state := failed_output_state (dir_output_state r),
                 dir_safe_error_code := Some code, dir_cleanup_failures := failures\<rparr>)) (\<lambda>_.
     ret ())))))"

definition record_failed_job :: "processing_claim \<Rightarrow> string \<Rightarrow> int \<Rightarrow> ('st world, unit) prog" where
  "record_failed_job c code failures = atomic (record_failed_body c code failures)"

section \<open>Committing the result\<close>

text \<open>
  \<open>order_by("key_id")[:2]\<close> cuts the list before the keys that are no longer valid are dropped.
\<close>

definition signing_key_candidate :: "manifest_libs \<Rightarrow> uuid \<Rightarrow> bytes \<Rightarrow> time \<Rightarrow> signing_key \<Rightarrow> bool" where
  "signing_key_candidate L org seed t k \<longleftrightarrow> key_organization_id k = org
     \<and> key_public_key k = ml_public_pem L seed \<and> key_algorithm k = ''Ed25519''
     \<and> key_status k = KeyActive \<and> key_valid_from k \<le> t"

definition unexpired_key :: "time \<Rightarrow> signing_key \<Rightarrow> bool" where
  "unexpired_key t k \<longleftrightarrow> (case key_valid_until k of None \<Rightarrow> True | Some until \<Rightarrow> t < until)"

definition integrity_signing_key_locked ::
  "manifest_libs \<Rightarrow> uuid \<Rightarrow> bytes \<Rightarrow> time \<Rightarrow> ('st world, signing_key) prog" where
  "integrity_signing_key_locked L org seed t =
     chain (rows_where keys_t (signing_key_candidate L org seed t)) (\<lambda>rows.
     case filter (unexpired_key t) (take 2 (sort_key key_id rows)) of
       [] \<Rightarrow> raise (issuance_error ''MANIFEST_SIGNING_KEY_UNREGISTERED'')
     | k # rest \<Rightarrow> chain (require (rest = []) (issuance_error ''MANIFEST_SIGNING_KEY_UNREGISTERED'')) (\<lambda>_. ret k))"

definition next_manifest_id :: "db \<Rightarrow> nat" where
  "next_manifest_id d = Suc (foldr max (map man_id (db_manifests d)) 0)"

text \<open>\<open>full_clean()\<close> of a manifest: no blank column, \<open>clean()\<close>, uniqueness.\<close>

definition manifest_full_clean :: "manifest \<Rightarrow> ('st world, unit) prog" where
  "manifest_full_clean m =
     chain (require (man_internal_payload m \<noteq> [] \<and> json_truthy (man_internal_signature_envelope m)
              \<and> man_public_payload m \<noteq> [] \<and> json_truthy (man_public_signature_envelope m))
              (ValidationError ''full_clean'')) (\<lambda>_.
     chain (manifest_clean m) (\<lambda>_.
     chain (gets w_db) (\<lambda>d.
     require (manifest_ok d m) (ValidationError ''full_clean''))))"

definition commit_manifest ::
  "processing_env \<Rightarrow> processing_claim \<Rightarrow> issuance \<Rightarrow> document \<Rightarrow> string \<Rightarrow> string \<Rightarrow> bytes
     \<Rightarrow> ('st world, unit) prog" where
  "commit_manifest E c i x input_sha output_sha seed =
     chain now (\<lambda>t.
     chain (integrity_signing_key_locked (pe_manifest_libs E) (pc_organization_id c) seed t) (\<lambda>k.
     chain (lift_sum (build_signed_issuance_manifest (pe_manifest_libs E) (iss_id i) (doc_id x)
              (iss_recipient_id i) (iss_issued_at i) input_sha output_sha (key_id k) seed
              integrity_retention_policy_id)) (\<lambda>pair.
     chain now (\<lambda>created.
     chain (gets (\<lambda>w. next_manifest_id (w_db w))) (\<lambda>pk.
     let m = \<lparr>man_id = pk, man_organization_id = pc_organization_id c, man_issuance_id = iss_id i,
              man_signing_key_id = key_pk k, man_internal_payload = sm_internal_payload pair,
              man_internal_signature_envelope = sm_internal_signature_envelope pair,
              man_public_payload = sm_public_payload pair,
              man_public_signature_envelope = sm_public_signature_envelope pair,
              man_created_at = created\<rparr>
     in chain (manifest_full_clean m) (\<lambda>_. save_manifest True m))))))"

definition receipt_clean :: "job_result_receipt \<Rightarrow> ('st world, unit) prog" where
  "receipt_clean m = chain (related_org jobs_t job_organization_id (Some (rec_job_id m))) (\<lambda>a.
     validate_organization_relations (rec_organization_id m) [a])"

text \<open>\<open>JobResultReceipt.objects.create\<close>; the primary key is its only constraint.\<close>

definition create_receipt :: "uuid \<Rightarrow> uuid \<Rightarrow> job \<Rightarrow> ('st world, unit) prog" where
  "create_receipt message_id org j = chain now (\<lambda>received.
     save_new receipts_t (\<lambda>_ _. True) receipt_clean
       \<lparr>rec_message_id = message_id, rec_organization_id = org, rec_job_id = job_id j, rec_received_at = received\<rparr>)"

definition committed_evidence ::
  "demo_issuance_result \<Rightarrow> string \<Rightarrow> string \<Rightarrow> int \<Rightarrow> string \<Rightarrow> int \<Rightarrow> demo_issuance_result" where
  "committed_evidence r input_sha output_sha page_count candidate processing_ms = r\<lparr>
     dir_output_state := OutCommitted, dir_algorithm_label := Some demo_algorithm_label,
     dir_candidate_identifier := Some candidate,
     dir_canvas_height := Some (fst demo_canonical_canvas), dir_canvas_width := Some (snd demo_canonical_canvas),
     dir_input_sha256 := Some input_sha, dir_output_sha256 := Some output_sha,
     dir_page_count := Some page_count, dir_processing_ms := Some processing_ms,
     dir_limitations := demo_limitations, dir_cleanup_failures := 0, dir_safe_error_code := None\<rparr>"

definition committed_fields :: "dir_field list" where
  "committed_fields = [DOutputState, DAlgorithmLabel, DCandidateIdentifier, DCanvasHeight, DCanvasWidth,
     DInputSha256, DOutputSha256, DPageCount, DProcessingMs, DLimitations, DCleanupFailures,
     DSafeErrorCode, DUpdatedAt]"

definition commit_body ::
  "processing_env \<Rightarrow> processing_claim \<Rightarrow> string \<Rightarrow> string \<Rightarrow> int \<Rightarrow> string \<Rightarrow> int \<Rightarrow> bytes option
     \<Rightarrow> ('st world, issuance_processing_result option) prog" where
  "commit_body E c input_sha output_sha page_count candidate processing_ms seed =
     chain (claimed_rows c) (\<lambda>(j, i, x, r).
     chain (require (job_status j = Processing) (issuance_error ''DEMO_ISSUANCE_RESULT_INVALID'')) (\<lambda>_.
     if job_cancel_requested_at j \<noteq> None then chain (cancel_claimed j) (\<lambda>_. ret None)
     else
       chain (require (dir_output_state r = OutUploading \<and> iss_output_object_key i = None
                \<and> iss_output_sha256 i = None) (issuance_error ''DEMO_ISSUANCE_RESULT_INVALID'')) (\<lambda>_.
       chain (save_issuance False [IOutputObjectKey, IOutputSha256]
                (i\<lparr>iss_output_object_key := Some (pc_output_object_key c), iss_output_sha256 := Some output_sha\<rparr>)) (\<lambda>_.
       chain (save_document_page_count (x\<lparr>doc_page_count := Some page_count\<rparr>)) (\<lambda>_.
       chain (case seed of None \<Rightarrow> ret () | Some s \<Rightarrow> commit_manifest E c i x input_sha output_sha s) (\<lambda>_.
       chain (create_receipt (receipt_id (pe_libs E) j) (pc_organization_id c) j) (\<lambda>_.
       chain (save_dir True False committed_fields
                (committed_evidence r input_sha output_sha page_count candidate processing_ms)) (\<lambda>r'.
       chain (lift_sum (advance_job j Succeeded)) (\<lambda>j'.
       chain (save_job [FStatus, FSafeErrorCode, FUpdatedAt] (j'\<lparr>job_safe_error_code := None\<rparr>)) (\<lambda>_.
       ret (Some (result_from_evidence (pe_settings E) r'))))))))))))"

definition commit_issuance_result ::
  "processing_env \<Rightarrow> processing_claim \<Rightarrow> string \<Rightarrow> string \<Rightarrow> int \<Rightarrow> string \<Rightarrow> int \<Rightarrow> bytes option
     \<Rightarrow> ('st world, issuance_processing_result option) prog" where
  "commit_issuance_result E c input_sha output_sha page_count candidate processing_ms seed =
     atomic (commit_body E c input_sha output_sha page_count candidate processing_ms seed)"

section \<open>Processing a job\<close>

fun bytes_fromhex :: "string \<Rightarrow> bytes" where
  "bytes_fromhex (a # b # rest) = word_of_nat (16 * hex_value a + hex_value b) # bytes_fromhex rest"
| "bytes_fromhex _ = []"

definition load_fingerprint_key :: "settings \<Rightarrow> exn + bytes" where
  "load_fingerprint_key S = (case set_fingerprint_key S of
     None \<Rightarrow> Inl (issuance_error ''DEMO_FINGERPRINT_KEY_INVALID'')
   | Some encoded \<Rightarrow> if sha256_text encoded then Inr (bytes_fromhex encoded)
       else Inl (issuance_error ''DEMO_FINGERPRINT_KEY_INVALID''))"

definition fingerprint_key_for :: "settings \<Rightarrow> exn + bytes option" where
  "fingerprint_key_for S =
     (if integrity_mode S \<and> \<not> set_fingerprint_enabled S then Inr None
      else sum_then (load_fingerprint_key S) (\<lambda>key. Inr (Some key)))"

definition signing_seed_for :: "processing_env \<Rightarrow> exn + bytes option" where
  "signing_seed_for E =
     (if integrity_mode (pe_settings E) then
        (case (set_signing_key_file (pe_settings E), set_signing_passphrase_file (pe_settings E)) of
           (Some key_file, Some passphrase_file) \<Rightarrow>
             (case load_manifest_signing_key (pe_manifest_libs E) key_file passphrase_file of
                Inl (ValueError _) \<Rightarrow> Inl (issuance_error ''MANIFEST_SIGNING_KEY_INVALID'')
              | Inl e \<Rightarrow> Inl e
              | Inr seed \<Rightarrow> Inr (Some seed))
         | _ \<Rightarrow> Inl (issuance_error ''MANIFEST_SIGNING_KEY_UNAVAILABLE''))
      else Inr None)"

definition download_error :: "exn \<Rightarrow> exn" where
  "download_error e = (case e of
     UploadRejected m \<Rightarrow> issuance_error
       (if m = ''STORAGE_CHECKSUM_MISMATCH'' then ''DEMO_INPUT_CHECKSUM_MISMATCH''
        else if m = ''STORAGE_BYTE_LIMIT'' then ''DEMO_PDF_FILE_LIMIT''
        else ''DEMO_INPUT_STORAGE_REJECTED'')
   | StorageUnavailable _ \<Rightarrow> issuance_error ''DEMO_INPUT_STORAGE_FAILED''
   | _ \<Rightarrow> e)"

definition download_source :: "'st storage_ops \<Rightarrow> processing_claim \<Rightarrow> ('st world, object_bytes) prog" where
  "download_source ops c =
     chain (gets (\<lambda>w. lim_max_pdf_bytes (w_limits w))) (\<lambda>max_bytes.
     attempt (on_store (so_download_bytes ops (pc_source_object_key c) max_bytes (pc_expected_source_sha256 c)))
       (\<lambda>e. raise (download_error e)))"

text \<open>\<open>iter(lambda: stream.read(64 * 1024), b"")\<close>.\<close>

function file_chunks :: "bytes \<Rightarrow> bytes list" where
  "file_chunks data = (if data = [] then [] else take 65536 data # file_chunks (drop 65536 data))"
  by auto
termination
  by (relation "measure length") auto

declare file_chunks.simps [simp del]

definition upload_output ::
  "'st storage_ops \<Rightarrow> processing_claim \<Rightarrow> string \<Rightarrow> bytes \<Rightarrow> ('st world, object_bytes) prog" where
  "upload_output ops c content_type data =
     chain (gets (\<lambda>w. lim_max_pdf_bytes (w_limits w))) (\<lambda>max_bytes.
     attempt (on_store (so_upload_bytes ops (pc_output_object_key c) content_type (file_chunks data) max_bytes))
       (\<lambda>_. chain (compensate_owned_output ops c ''DEMO_OUTPUT_STORAGE_FAILED''
                ''DEMO_OUTPUT_STORAGE_CLEANUP_FAILED'' 0) (\<lambda>(failures, code).
         raise (DemoIssuanceError code failures))))"

text \<open>The body of the \<open>try\<close> whose handler removes the temporary directory.\<close>

definition make_output ::
  "processing_env \<Rightarrow> 'st storage_ops \<Rightarrow> processing_claim \<Rightarrow> bytes option
     \<Rightarrow> ('st world, object_bytes \<times> object_bytes \<times> nat \<times> string) prog" where
  "make_output E ops c key =
     chain (download_source ops c) (\<lambda>downloaded.
     chain (gets w_limits) (\<lambda>li.
     chain (lift_sum (build_issuance_artifact (pe_raster_libs E) li (ob_data downloaded) (pc_issuance_id c) key
              (integrity_mode (pe_settings E) \<and> \<not> set_fingerprint_enabled (pe_settings E))))
       (\<lambda>(data, page_count, candidate, content_type).
     chain (begin_output_upload c) (\<lambda>started.
     chain (require started (issuance_error ''DEMO_JOB_CANCELLED'')) (\<lambda>_.
     chain (upload_output ops c content_type data) (\<lambda>uploaded.
     ret (downloaded, uploaded, page_count, candidate)))))))"

definition failures_of :: "exn \<Rightarrow> int" where
  "failures_of e = (case e of DemoIssuanceError _ n \<Rightarrow> n | _ \<Rightarrow> 0)"

definition workspace_error :: "bool \<Rightarrow> exn \<Rightarrow> exn" where
  "workspace_error removed e = (if removed then e
     else DemoIssuanceError (if failures_of e \<noteq> 0 then ''DEMO_WORKSPACE_AND_OUTPUT_CLEANUP_FAILED''
            else ''DEMO_WORKSPACE_CLEANUP_FAILED'') (failures_of e + 1))"

definition compensate_and_raise ::
  "'st storage_ops \<Rightarrow> processing_claim \<Rightarrow> string \<Rightarrow> string \<Rightarrow> int \<Rightarrow> ('st world, 'a) prog" where
  "compensate_and_raise ops c cleaned_code failed_code prior =
     chain (compensate_owned_output ops c cleaned_code failed_code prior) (\<lambda>(failures, code).
     raise (DemoIssuanceError code failures))"

definition process_claimed_job ::
  "processing_env \<Rightarrow> 'st storage_ops \<Rightarrow> processing_claim \<Rightarrow> ('st world, issuance_processing_result) prog" where
  "process_claimed_job E ops c =
     chain (lift_sum (fingerprint_key_for (pe_settings E))) (\<lambda>key.
     chain (lift_sum (signing_seed_for E)) (\<lambda>seed.
     chain (attempt (make_output E ops c key) (\<lambda>e. raise (workspace_error (pe_workspace_removed E) e)))
       (\<lambda>(downloaded, uploaded, page_count, candidate).
     chain (if pe_workspace_removed E then ret ()
            else compensate_and_raise ops c ''DEMO_WORKSPACE_CLEANUP_FAILED''
              ''DEMO_WORKSPACE_AND_OUTPUT_CLEANUP_FAILED'' 1) (\<lambda>_.
     chain (attempt (commit_issuance_result E c (ob_actual_sha256 downloaded) (ob_actual_sha256 uploaded)
              (int page_count) candidate (max 0 (pe_elapsed_ms E)) seed)
              (\<lambda>_. compensate_and_raise ops c ''DEMO_RESULT_COMMIT_FAILED''
                 ''DEMO_RESULT_COMMIT_OUTPUT_CLEANUP_FAILED'' 0)) (\<lambda>committed.
     case committed of
       None \<Rightarrow> compensate_and_raise ops c ''DEMO_JOB_CANCELLED'' ''DEMO_JOB_CANCELLED_OUTPUT_CLEANUP_FAILED'' 0
     | Some result \<Rightarrow> ret result)))))"

definition cancelled_codes :: "string list" where
  "cancelled_codes = [''DEMO_JOB_CANCELLED'', ''DEMO_JOB_CANCELLED_OUTPUT_CLEANUP_FAILED'']"

definition processing_failed :: "processing_claim \<Rightarrow> exn \<Rightarrow> ('st world, 'a) prog" where
  "processing_failed c e = (case e of
     DemoIssuanceError code failures \<Rightarrow>
       chain (if code \<in> set cancelled_codes then ret () else record_failed_job c code failures) (\<lambda>_. raise e)
   | _ \<Rightarrow> chain (record_failed_job c ''DEMO_ISSUANCE_PROCESSING_FAILED'' 0) (\<lambda>_.
       raise (issuance_error ''DEMO_ISSUANCE_PROCESSING_FAILED'')))"

definition process_issuance_job ::
  "processing_env \<Rightarrow> 'st storage_ops \<Rightarrow> uuid \<Rightarrow> uuid option \<Rightarrow> ('st world, issuance_processing_result) prog" where
  "process_issuance_job E ops k owner =
     chain (require (set_demo_mode (pe_settings E) \<or> integrity_mode (pe_settings E))
              (issuance_error ''DEMO_MODE_DISABLED'')) (\<lambda>_.
     chain (case owner of Some token \<Rightarrow> ret token | None \<Rightarrow> uuid4) (\<lambda>token.
     chain (acquire_processing_claim E k token) (\<lambda>acquired.
     case acquired of
       Replayed result \<Rightarrow> ret result
     | JobCancelled \<Rightarrow> raise (issuance_error ''DEMO_JOB_CANCELLED'')
     | Claimed c \<Rightarrow> attempt (process_claimed_job E ops c) (processing_failed c))))"

end
