(* ===== verification/IssuanceFacts.thy ===== *)
theory IssuanceFacts
  imports Issuance
begin

text \<open>
  What the transactions of the issuance worker do: the rows a claim sees, the one row each save
  writes, the commit as a whole, the fence of the owner token and the evolution of the database.
\<close>

section \<open>Rows\<close>

text \<open>The database with one evidence row written.\<close>

definition dir_written :: "demo_issuance_result \<Rightarrow> db \<Rightarrow> db \<Rightarrow> bool" where
  "dir_written r d d' \<longleftrightarrow> (\<exists>rs. d' = d\<lparr>db_issuance_results := rs\<rparr>
     \<and> row_written dir_job_id (dir_job_id r) r (db_issuance_results d) rs
     \<and> rows_evolve dir_job_id dir_evolves (db_issuance_results d) rs)"

lemma wp_dir_clean_checked:
  assumes "\<And>e. E e w"
    and "\<And>j. lookup_by job_id (dir_job_id r) (db_jobs (w_db w)) = Some j \<Longrightarrow> dir_check j r = Inr () \<Longrightarrow> Q () w"
  shows "wp (dir_clean r) Q E w"
  unfolding dir_clean_def related_org_def by (intro wp_intros) (use assms in auto)

text \<open>The evidence passed its own validation against the job of its row.\<close>

definition dir_checked :: "db \<Rightarrow> demo_issuance_result \<Rightarrow> bool" where
  "dir_checked d r \<longleftrightarrow> (\<exists>j. lookup_by job_id (dir_job_id r) (db_jobs d) = Some j \<and> dir_check j r = Inr ())"

lemma save_dir_checked_wp:
  "wp (save_dir write transfer fs r) (\<lambda>r' w'. dir_checked (w_db w) r') (\<lambda>_ _. True) w"
  unfolding save_dir_def
  by (intro wp_intros wpi_save_stored wp_dir_clean_checked) (auto simp: dir_checked_def)

lemma save_dir_row_wp:
  assumes row: "lookup_by dir_job_id (dir_job_id r) (db_issuance_results (w_db w)) = Some p"
    and covered: "\<And>t. merge_dir fs (r\<lparr>dir_updated_at := t\<rparr>) p = r\<lparr>dir_updated_at := t\<rparr>"
  shows "wp (save_dir write transfer fs r)
     (\<lambda>r' w'. (\<exists>t. r' = r\<lparr>dir_updated_at := t\<rparr>) \<and> dir_written r' (w_db w) (w_db w') \<and> w_store w' = w_store w
        \<and> dir_save_check transfer r p = Inr () \<and> dir_ok (w_db w) r' \<and> dir_checked (w_db w) r')
     (\<lambda>_ w'. w_db w' = w_db w \<and> w_store w' = w_store w) w"
proof (rule wp_mono [OF wp_conj [OF save_dir_wp save_dir_checked_wp]], goal_cases)
  case (1 r' w')
  then obtain t where r': "r' = r\<lparr>dir_updated_at := t\<rparr>" by blast
  let ?rs = "update_by dir_job_id (dir_job_id r) (merge_dir fs r') (db_issuance_results (w_db w))"
  have p: "dir_save_check transfer r p = Inr ()" "dir_ok (w_db w) r'"
    using 1 row covered [of t] r' by auto
  have "row_written dir_job_id (dir_job_id r') r' (db_issuance_results (w_db w)) ?rs"
    using row_written_update [where key = dir_job_id and f = "merge_dir fs r'" and k = "dir_job_id r" and r = r',
        OF dir_job_id_merge row] covered [of t] r' by simp
  moreover have "rows_evolve dir_job_id dir_evolves (db_issuance_results (w_db w)) ?rs"
    unfolding r' by (rule dir_rows [OF row p(1)])
  ultimately have "dir_written r' (w_db w) (w_db w')" using 1 by (auto simp: dir_written_def)
  then show ?case using 1 p r' by blast
qed simp

lemma dir_written_evolves: "dir_written r d d' \<Longrightarrow> db_evolves a d \<Longrightarrow> db_evolves a d'"
  by (auto simp: dir_written_def intro: db_evolves_intros)

lemma dir_written_lookup:
  "dir_written r d d' \<Longrightarrow> lookup_by dir_job_id (dir_job_id r) (db_issuance_results d') = Some r"
  by (auto simp: dir_written_def row_written_def)

lemma dir_written_frame:
  assumes "dir_written r d d'"
  shows "db_organizations d' = db_organizations d" "db_users d' = db_users d"
    "db_recipients d' = db_recipients d" "db_signing_keys d' = db_signing_keys d"
    "db_uploads d' = db_uploads d" "db_schedule d' = db_schedule d" "db_documents d' = db_documents d"
    "db_issuances d' = db_issuances d" "db_manifests d' = db_manifests d"
    "db_verifications d' = db_verifications d" "db_jobs d' = db_jobs d" "db_receipts d' = db_receipts d"
    "db_outbox d' = db_outbox d" "db_audit d' = db_audit d"
    "db_verification_results d' = db_verification_results d"
  using assms by (auto simp: dir_written_def)

text \<open>The column lists that the handlers save.\<close>

lemma merge_dir_columns:
  "merge_dir [DOutputState, DUpdatedAt] r p =
     p\<lparr>dir_output_state := dir_output_state r, dir_updated_at := dir_updated_at r\<rparr>"
  "merge_dir [DOutputState, DSafeErrorCode, DCleanupFailures, DUpdatedAt] r p =
     p\<lparr>dir_output_state := dir_output_state r, dir_safe_error_code := dir_safe_error_code r,
       dir_cleanup_failures := dir_cleanup_failures r, dir_updated_at := dir_updated_at r\<rparr>"
  "merge_dir [DOwnerToken, DOutputState, DSafeErrorCode, DUpdatedAt] r p =
     p\<lparr>dir_owner_token := dir_owner_token r, dir_output_state := dir_output_state r,
       dir_safe_error_code := dir_safe_error_code r, dir_updated_at := dir_updated_at r\<rparr>"
  "merge_dir [DCleanupFailures, DSafeErrorCode, DUpdatedAt] r p =
     p\<lparr>dir_cleanup_failures := dir_cleanup_failures r, dir_safe_error_code := dir_safe_error_code r,
       dir_updated_at := dir_updated_at r\<rparr>"
  "merge_dir [DOutputState, DSafeErrorCode, DUpdatedAt] r p =
     p\<lparr>dir_output_state := dir_output_state r, dir_safe_error_code := dir_safe_error_code r,
       dir_updated_at := dir_updated_at r\<rparr>"
  by (simp_all add: merge_dir_def)

section \<open>The rows of a claim\<close>

definition claim_view ::
  "processing_claim \<Rightarrow> db \<Rightarrow> job \<Rightarrow> issuance \<Rightarrow> document \<Rightarrow> demo_issuance_result \<Rightarrow> bool" where
  "claim_view c d j i x r \<longleftrightarrow> lookup_by job_id (job_id j) (db_jobs d) = Some j
     \<and> lookup_by iss_id (iss_id i) (db_issuances d) = Some i
     \<and> lookup_by doc_id (doc_id x) (db_documents d) = Some x
     \<and> lookup_by dir_job_id (dir_job_id r) (db_issuance_results d) = Some r
     \<and> dir_job_id r = job_id j \<and> locked_binding j i x \<and> claim_binding c j i x \<and> owns_evidence c r"

lemma lookup_named: "lookup_by key k rows = Some r \<Longrightarrow> key r = k' \<Longrightarrow> lookup_by key k' rows = Some r"
  by (auto dest: lookup_by_key)

lemma claimed_rows_wp:
  "wp (claimed_rows c) (\<lambda>(j, i, x, r) w'. w' = w \<and> claim_view c (w_db w) j i x r) (\<lambda>_ w'. w' = w) w"
  unfolding claimed_rows_def locked_job_def locked_issuance_document_def validate_claim_binding_def
    validate_locked_binding_def locked_evidence_def
  by (intro wp_intros) (auto simp: claim_view_def claim_binding_def intro: lookup_named lookup_by_key)

lemma cancel_claimed_wp:
  assumes "lookup_by job_id (job_id j) (db_jobs (w_db w)) = Some j"
  shows "wp (cancel_claimed j)
     (\<lambda>j' w'. (\<exists>t. j' = j\<lparr>job_status := Cancelled, job_updated_at := t\<rparr>) \<and> job_written j' (w_db w) (w_db w')
        \<and> w_store w' = w_store w)
     (\<lambda>_ w'. w_db w' = w_db w \<and> w_store w' = w_store w) w"
  unfolding cancel_claimed_def
proof (intro wp_intros, goal_cases)
  case (1 j')
  then have j': "j' = j\<lparr>job_status := Cancelled\<rparr>" and t: "Cancelled \<in> set (transitions (job_status j))"
    by (simp_all add: advance_job_Inr)
  show ?case
    by (rule wp_mono [OF save_job_row_wp [where p = j]])
       (use assms t in \<open>auto simp: j' merge_status job_evolves_def intro: status_reaches_step\<close>)
qed simp

lemma fail_job_wp:
  assumes "lookup_by job_id (job_id j) (db_jobs (w_db w)) = Some j"
  shows "wp (fail_job j code)
     (\<lambda>j' w'. (\<exists>t. j' = j\<lparr>job_status := Failed, job_safe_error_code := Some code, job_updated_at := t\<rparr>)
        \<and> job_written j' (w_db w) (w_db w') \<and> w_store w' = w_store w)
     (\<lambda>_ w'. w_db w' = w_db w \<and> w_store w' = w_store w) w"
  unfolding fail_job_def
proof (intro wp_intros, goal_cases)
  case (1 j')
  then have j': "j' = j\<lparr>job_status := Failed\<rparr>" and t: "Failed \<in> set (transitions (job_status j))"
    by (simp_all add: advance_job_Inr)
  show ?case
    by (rule wp_mono [OF save_job_row_wp [where p = j]])
       (use assms t in \<open>auto simp: j' merge_terminal job_evolves_def intro: status_reaches_step\<close>)
qed simp

lemma save_code_wp:
  assumes "lookup_by job_id (job_id j) (db_jobs (w_db w)) = Some j"
  shows "wp (save_job [FSafeErrorCode, FUpdatedAt] (j\<lparr>job_safe_error_code := code\<rparr>))
     (\<lambda>j' w'. (\<exists>t. j' = j\<lparr>job_safe_error_code := code, job_updated_at := t\<rparr>) \<and> job_written j' (w_db w) (w_db w')
        \<and> w_store w' = w_store w)
     (\<lambda>_ w'. w_db w' = w_db w \<and> w_store w' = w_store w) w"
  by (rule wp_mono [OF save_job_row_wp [where p = j]])
     (use assms in \<open>auto simp: merge_code job_evolves_def\<close>)

text \<open>The saves of the handlers: the row was read, some columns were assigned, those columns are saved.\<close>

definition dir_saved :: "bool \<Rightarrow> demo_issuance_result \<Rightarrow> demo_issuance_result \<Rightarrow> 'st world \<Rightarrow> demo_issuance_result \<Rightarrow> 'st world \<Rightarrow> bool" where
  "dir_saved transfer r edited w r' w' \<longleftrightarrow> (\<exists>t. r' = edited\<lparr>dir_updated_at := t\<rparr>)
     \<and> dir_written r' (w_db w) (w_db w') \<and> w_store w' = w_store w
     \<and> dir_save_check transfer edited r = Inr () \<and> dir_ok (w_db w) r' \<and> dir_checked (w_db w) r'"

lemma save_dir_edited_wp:
  assumes "lookup_by dir_job_id (dir_job_id r) (db_issuance_results (w_db w)) = Some r"
    and "dir_job_id edited = dir_job_id r"
    and "\<And>t. merge_dir fs (edited\<lparr>dir_updated_at := t\<rparr>) r = edited\<lparr>dir_updated_at := t\<rparr>"
  shows "wp (save_dir True transfer fs edited) (dir_saved transfer r edited w)
     (\<lambda>_ w'. w_db w' = w_db w \<and> w_store w' = w_store w) w"
  by (rule wp_mono [OF save_dir_row_wp [where p = r]]) (use assms in \<open>auto simp: dir_saved_def\<close>)

lemma save_dir_columns_wp:
  assumes "lookup_by dir_job_id (dir_job_id r) (db_issuance_results (w_db w)) = Some r"
  shows "wp (save_dir True transfer [DOutputState, DUpdatedAt] (r\<lparr>dir_output_state := s\<rparr>))
       (dir_saved transfer r (r\<lparr>dir_output_state := s\<rparr>) w) (\<lambda>_ w'. w_db w' = w_db w \<and> w_store w' = w_store w) w"
    and "wp (save_dir True transfer [DOutputState, DSafeErrorCode, DCleanupFailures, DUpdatedAt]
           (r\<lparr>dir_output_state := s, dir_safe_error_code := e, dir_cleanup_failures := n\<rparr>))
       (dir_saved transfer r (r\<lparr>dir_output_state := s, dir_safe_error_code := e, dir_cleanup_failures := n\<rparr>) w)
       (\<lambda>_ w'. w_db w' = w_db w \<and> w_store w' = w_store w) w"
    and "wp (save_dir True transfer [DOwnerToken, DOutputState, DSafeErrorCode, DUpdatedAt]
           (r\<lparr>dir_owner_token := token, dir_output_state := s, dir_safe_error_code := e\<rparr>))
       (dir_saved transfer r (r\<lparr>dir_owner_token := token, dir_output_state := s, dir_safe_error_code := e\<rparr>) w)
       (\<lambda>_ w'. w_db w' = w_db w \<and> w_store w' = w_store w) w"
    and "wp (save_dir True transfer [DCleanupFailures, DSafeErrorCode, DUpdatedAt]
           (r\<lparr>dir_cleanup_failures := n, dir_safe_error_code := e\<rparr>))
       (dir_saved transfer r (r\<lparr>dir_cleanup_failures := n, dir_safe_error_code := e\<rparr>) w)
       (\<lambda>_ w'. w_db w' = w_db w \<and> w_store w' = w_store w) w"
    and "wp (save_dir True transfer [DOutputState, DSafeErrorCode, DUpdatedAt]
           (r\<lparr>dir_output_state := s, dir_safe_error_code := e\<rparr>))
       (dir_saved transfer r (r\<lparr>dir_output_state := s, dir_safe_error_code := e\<rparr>) w)
       (\<lambda>_ w'. w_db w' = w_db w \<and> w_store w' = w_store w) w"
    and "wp (save_dir True transfer committed_fields (committed_evidence r a b k cand ms))
       (dir_saved transfer r (committed_evidence r a b k cand ms) w)
       (\<lambda>_ w'. w_db w' = w_db w \<and> w_store w' = w_store w) w"
  by (rule save_dir_edited_wp [OF assms];
      simp add: merge_dir_columns committed_evidence_def; simp add: merge_dir_def committed_fields_def)+

lemma claim_viewD:
  assumes "claim_view c d j i x r"
  shows "lookup_by job_id (job_id j) (db_jobs d) = Some j"
    "lookup_by iss_id (iss_id i) (db_issuances d) = Some i"
    "lookup_by doc_id (doc_id x) (db_documents d) = Some x"
    "lookup_by dir_job_id (dir_job_id r) (db_issuance_results d) = Some r"
    "dir_job_id r = job_id j" "owns_evidence c r"
  using assms by (auto simp: claim_view_def)

section \<open>The transactions\<close>

lemma begin_output_upload_wp:
  "wp (begin_output_upload c)
     (\<lambda>started w'. w_store w' = w_store w \<and> (\<exists>j i x r t. claim_view c (w_db w) j i x r
        \<and> job_status j = Processing \<and> dir_output_state r = OutReserved
        \<and> (if started then job_cancel_requested_at j = None
             \<and> dir_written (r\<lparr>dir_output_state := OutUploading, dir_updated_at := t\<rparr>) (w_db w) (w_db w')
           else job_cancel_requested_at j \<noteq> None \<and> (\<exists>d u.
             job_written (j\<lparr>job_status := Cancelled, job_updated_at := u\<rparr>) (w_db w) d
             \<and> dir_written (r\<lparr>dir_output_state := OutCleaned, dir_updated_at := t\<rparr>) d (w_db w')))))
     (\<lambda>_ w'. w_db w' = w_db w \<and> w_store w' = w_store w) w"
  unfolding begin_output_upload_def begin_upload_body_def
  by (intro wp_intros wp_mono [OF claimed_rows_wp] wp_mono [OF cancel_claimed_wp] wp_mono [OF save_dir_columns_wp(1)])
     (auto simp: dir_saved_def job_written_frame dest: claim_viewD, blast+)

lemma authorize_output_cleanup_wp:
  "wp (authorize_output_cleanup c)
     (\<lambda>_ w'. w' = w \<and> (\<exists>j i x r. claim_view c (w_db w) j i x r
        \<and> dir_output_state r \<in> {OutUploading, OutCleanupRequired} \<and> iss_output_object_key i = None
        \<and> job_status j \<noteq> Succeeded))
     (\<lambda>_ w'. w' = w) w"
  unfolding authorize_output_cleanup_def
  by (intro wp_intros wp_mono [OF claimed_rows_wp]) auto

text \<open>What recording a cleanup wrote: the evidence row, and the code of a cancelled job.\<close>

definition cleanup_recorded ::
  "processing_claim \<Rightarrow> output_state \<Rightarrow> string \<Rightarrow> int \<Rightarrow> db \<Rightarrow> db \<Rightarrow> bool" where
  "cleanup_recorded c state code failures d d' \<longleftrightarrow> (\<exists>j i x r t d1. claim_view c d j i x r
     \<and> dir_output_state r \<in> {OutUploading, OutCleanupRequired}
     \<and> dir_written (r\<lparr>dir_output_state := state, dir_safe_error_code := Some code,
          dir_cleanup_failures := failures, dir_updated_at := t\<rparr>) d d1
     \<and> (if job_status j = Cancelled
        then \<exists>u. job_written (j\<lparr>job_safe_error_code := (if failures \<noteq> 0 then Some code else None),
               job_updated_at := u\<rparr>) d1 d'
        else d' = d1))"

lemma persist_output_cleanup_wp:
  "wp (persist_output_cleanup c state code failures)
     (\<lambda>_ w'. w_store w' = w_store w \<and> cleanup_recorded c state code failures (w_db w) (w_db w'))
     (\<lambda>_ w'. w_db w' = w_db w \<and> w_store w' = w_store w) w"
  unfolding persist_output_cleanup_def persist_cleanup_body_def cleanup_recorded_def
  by (intro wp_intros wp_mono [OF claimed_rows_wp] wp_mono [OF save_dir_columns_wp(2)] wp_mono [OF save_code_wp])
     (auto simp: dir_saved_def dir_written_frame dest: claim_viewD, blast+)

text \<open>The claim still owns an output that may be cleaned up.\<close>

definition may_clean :: "processing_claim \<Rightarrow> db \<Rightarrow> bool" where
  "may_clean c d \<longleftrightarrow> (\<exists>j i x r. claim_view c d j i x r
     \<and> dir_output_state r \<in> {OutUploading, OutCleanupRequired} \<and> iss_output_object_key i = None
     \<and> job_status j \<noteq> Succeeded)"

lemma compensate_wp:
  "wp (compensate_owned_output ops c cleaned_code failed_code prior)
     (\<lambda>(n, code) w'. may_clean c (w_db w) \<and> (\<exists>res. so_delete ops (pc_output_object_key c) (w_store w) = (res, w_store w')
        \<and> (case res of
            Inr _ \<Rightarrow> n = prior \<and> code = cleaned_code
              \<and> cleanup_recorded c OutCleaned cleaned_code prior (w_db w) (w_db w')
          | Inl _ \<Rightarrow> n = prior + 1 \<and> code = failed_code
              \<and> cleanup_recorded c OutCleanupRequired failed_code (prior + 1) (w_db w) (w_db w'))))
     (\<lambda>_ w'. w_db w' = w_db w \<and> (w_store w' = w_store w \<or> may_clean c (w_db w)
        \<and> (\<exists>res. so_delete ops (pc_output_object_key c) (w_store w) = (res, w_store w')))) w"
  unfolding compensate_owned_output_def
  by (intro wp_intros wp_mono [OF authorize_output_cleanup_wp] wp_mono [OF persist_output_cleanup_wp]
      wp_raw [where m = "so_delete ops k" for k])
     (auto simp: may_clean_def)

section \<open>The commit\<close>

lemma signing_key_chosen:
  assumes "filter (unexpired_key t) (take 2 (sort_key key_id
      (filter (signing_key_candidate L org seed t) keys))) = k # rest"
  shows "k \<in> set keys \<and> signing_key_candidate L org seed t k \<and> unexpired_key t k"
proof -
  have "k \<in> set (filter (unexpired_key t) (take 2 (sort_key key_id (filter (signing_key_candidate L org seed t) keys))))"
    unfolding assms by simp
  then show ?thesis by (auto dest!: in_set_takeD)
qed

lemma integrity_signing_key_wp:
  "wp (integrity_signing_key_locked L org seed t)
     (\<lambda>k w'. w' = w \<and> k \<in> set (db_signing_keys (w_db w)) \<and> signing_key_candidate L org seed t k \<and> unexpired_key t k)
     (\<lambda>_ w'. w' = w) w"
  unfolding integrity_signing_key_locked_def
  by (intro wp_intros) (auto dest: signing_key_chosen simp del: filter_eq_Cons_iff)

text \<open>The manifest of a commit: both texts signed by a registered key of the organization.\<close>

definition manifest_signed ::
  "manifest_libs \<Rightarrow> processing_claim \<Rightarrow> issuance \<Rightarrow> document \<Rightarrow> string \<Rightarrow> string \<Rightarrow> bytes \<Rightarrow> db \<Rightarrow> manifest \<Rightarrow> bool" where
  "manifest_signed L c i x input_sha output_sha seed d m \<longleftrightarrow> (\<exists>k t pair. k \<in> set (db_signing_keys d)
     \<and> signing_key_candidate L (pc_organization_id c) seed t k \<and> unexpired_key t k
     \<and> build_signed_issuance_manifest L (iss_id i) (doc_id x) (iss_recipient_id i) (iss_issued_at i) input_sha
         output_sha (key_id k) seed integrity_retention_policy_id = Inr pair
     \<and> man_organization_id m = pc_organization_id c \<and> man_issuance_id m = iss_id i
     \<and> man_signing_key_id m = key_pk k \<and> man_internal_payload m = sm_internal_payload pair
     \<and> man_internal_signature_envelope m = sm_internal_signature_envelope pair
     \<and> man_public_payload m = sm_public_payload pair
     \<and> man_public_signature_envelope m = sm_public_signature_envelope pair)"

definition manifest_added ::
  "manifest_libs \<Rightarrow> processing_claim \<Rightarrow> issuance \<Rightarrow> document \<Rightarrow> string \<Rightarrow> string \<Rightarrow> bytes \<Rightarrow> db \<Rightarrow> db \<Rightarrow> bool" where
  "manifest_added L c i x input_sha output_sha seed d d' \<longleftrightarrow>
     (\<exists>m. d' = d\<lparr>db_manifests := db_manifests d @ [m]\<rparr> \<and> manifest_signed L c i x input_sha output_sha seed d m)"

lemma manifest_addedI:
  "k \<in> set (db_signing_keys d) \<Longrightarrow> signing_key_candidate L (pc_organization_id c) seed t k \<Longrightarrow>
   unexpired_key t k \<Longrightarrow>
   build_signed_issuance_manifest L (iss_id i) (doc_id x) (iss_recipient_id i) (iss_issued_at i) input_sha
     output_sha (key_id k) seed integrity_retention_policy_id = Inr pair \<Longrightarrow>
   manifest_added L c i x input_sha output_sha seed d (d\<lparr>db_manifests := db_manifests d @
     [\<lparr>man_id = pk, man_organization_id = pc_organization_id c, man_issuance_id = iss_id i,
       man_signing_key_id = key_pk k, man_internal_payload = sm_internal_payload pair,
       man_internal_signature_envelope = sm_internal_signature_envelope pair,
       man_public_payload = sm_public_payload pair,
       man_public_signature_envelope = sm_public_signature_envelope pair, man_created_at = u\<rparr>]\<rparr>)"
  unfolding manifest_added_def manifest_signed_def
  by (rule exI, rule conjI, rule refl, intro exI [of _ k] exI [of _ t] exI [of _ pair]) simp

lemma commit_manifest_wp:
  "wp (commit_manifest E c i x input_sha output_sha seed)
     (\<lambda>_ w'. w_store w' = w_store w
        \<and> manifest_added (pe_manifest_libs E) c i x input_sha output_sha seed (w_db w) (w_db w'))
     (\<lambda>_ w'. w_store w' = w_store w) w"
  unfolding commit_manifest_def save_manifest_def manifest_full_clean_def Let_def
  by (intro wp_intros wpi_save_new wp_manifest_clean_weaken wp_mono [OF integrity_signing_key_wp])
     (auto intro: manifest_addedI)

definition receipt_added :: "uuid \<Rightarrow> uuid \<Rightarrow> uuid \<Rightarrow> db \<Rightarrow> db \<Rightarrow> bool" where
  "receipt_added message_id org k d d' \<longleftrightarrow> message_id \<notin> rec_message_id ` set (db_receipts d)
     \<and> (\<exists>m. d' = d\<lparr>db_receipts := db_receipts d @ [m]\<rparr> \<and> rec_message_id m = message_id
          \<and> rec_organization_id m = org \<and> rec_job_id m = k)"

lemma receipt_addedI:
  "message_id \<notin> rec_message_id ` set (db_receipts d) \<Longrightarrow>
   receipt_added message_id org k d (d\<lparr>db_receipts := db_receipts d @
     [\<lparr>rec_message_id = message_id, rec_organization_id = org, rec_job_id = k, rec_received_at = t\<rparr>]\<rparr>)"
  unfolding receipt_added_def by (rule conjI, assumption, rule exI, rule conjI, rule refl) simp

lemma create_receipt_wp:
  "wp (create_receipt message_id org j)
     (\<lambda>_ w'. w_store w' = w_store w \<and> receipt_added message_id org (job_id j) (w_db w) (w_db w'))
     (\<lambda>_ w'. w_store w' = w_store w) w"
  unfolding create_receipt_def receipt_clean_def related_org_def
  by (intro wp_intros wpi_save_new) (auto intro!: receipt_addedI)

lemma save_issued_output_wp:
  assumes p: "lookup_by iss_id (iss_id i) (db_issuances (w_db w)) = Some i"
    and none: "iss_output_object_key i = None" "iss_output_sha256 i = None"
    and i'_def: "i' = i\<lparr>iss_output_object_key := Some key, iss_output_sha256 := Some sha\<rparr>"
  shows "wp (save_issuance False [IOutputObjectKey, IOutputSha256] i')
     (\<lambda>_ w'. w_store w' = w_store w \<and> (\<exists>rs. w_db w' = (w_db w)\<lparr>db_issuances := rs\<rparr>
        \<and> row_written iss_id (iss_id i) i' (db_issuances (w_db w)) rs
        \<and> rows_evolve iss_id issuance_evolves (db_issuances (w_db w)) rs))
     (\<lambda>_ w'. w' = w) w"
proof -
  let ?f = "merge_issuance [IOutputObjectKey, IOutputSha256] i'"
  let ?rs = "update_by iss_id (iss_id i) ?f (db_issuances (w_db w))"
  have rw: "row_written iss_id (iss_id i) i' (db_issuances (w_db w)) ?rs"
    by (rule row_written_update [OF _ p]) (simp_all add: i'_def merge_issuance_def)
  have id: "iss_id i' = iss_id i" by (simp add: i'_def)
  show ?thesis
  proof (rule wp_mono [OF save_issuance_wp], goal_cases)
    case (1 q)
    then show ?case using p none by (simp add: id)
  next
    case (2 x w')
    then have w': "w' = w\<lparr>w_db := (w_db w)\<lparr>db_issuances := ?rs\<rparr>\<rparr>" and ev: "only_issuances_evolve (w_db w) (w_db w')"
      unfolding id by blast+
    then obtain rs where rs: "(w_db w)\<lparr>db_issuances := ?rs\<rparr> = (w_db w)\<lparr>db_issuances := rs\<rparr>"
      "rows_evolve iss_id issuance_evolves (db_issuances (w_db w)) rs"
      by (auto simp: only_issuances_evolve_def)
    have "rs = ?rs" using arg_cong [OF rs(1), of db_issuances] by simp
    with rs rw show ?case unfolding w' by (intro conjI exI [of _ ?rs]) simp_all
  qed simp
qed

lemma save_pages_wp:
  assumes "lookup_by doc_id (doc_id x) (db_documents (w_db w)) = Some x"
  shows "wp (save_document_page_count (x\<lparr>doc_page_count := n\<rparr>))
     (\<lambda>_ w'. w_store w' = w_store w \<and> (\<exists>rs. w_db w' = (w_db w)\<lparr>db_documents := rs\<rparr>
        \<and> row_written doc_id (doc_id x) (x\<lparr>doc_page_count := n\<rparr>) (db_documents (w_db w)) rs
        \<and> rows_evolve doc_id document_evolves (db_documents (w_db w)) rs))
     (\<lambda>_ w'. w' = w) w"
proof -
  let ?rs = "update_by doc_id (doc_id x) (\<lambda>row. row\<lparr>doc_page_count := n\<rparr>) (db_documents (w_db w))"
  have "row_written doc_id (doc_id x) (x\<lparr>doc_page_count := n\<rparr>) (db_documents (w_db w)) ?rs"
    by (rule row_written_update [OF _ assms]) simp_all
  moreover have "rows_evolve doc_id document_evolves (db_documents (w_db w)) ?rs"
    by (rule rows_evolve_update) (auto simp: document_evolves_def)
  ultimately show ?thesis
    unfolding save_document_page_count_def
    by (intro wpi_save_stored wp_document_clean_weaken wp_intros) auto
qed

end
