(* ===== verification/IssuanceCommit.thy ===== *)
theory IssuanceCommit
  imports IssuanceFacts
begin

text \<open>
  The properties of the issuance worker: the commit is all or nothing, a claim whose output was
  taken over can change nothing any more, a committed result is replayed, and every operation of
  the worker only lets the database evolve.
\<close>

section \<open>The commit\<close>

text \<open>
  What a commit made of a database: the rows the claim saw, each with its final columns, one
  receipt and, in the release, one signed manifest; no other table changed.
\<close>

definition issuance_committed ::
  "processing_env \<Rightarrow> processing_claim \<Rightarrow> string \<Rightarrow> string \<Rightarrow> int \<Rightarrow> string \<Rightarrow> int \<Rightarrow> bytes option
     \<Rightarrow> db \<Rightarrow> db \<Rightarrow> issuance_processing_result \<Rightarrow> bool" where
  "issuance_committed E c input_sha output_sha page_count candidate ms seed d d' result \<longleftrightarrow> (\<exists>j i x r t u d1 d2 iss docs.
     claim_view c d j i x r \<and> job_status j = Processing \<and> job_cancel_requested_at j = None
     \<and> dir_output_state r = OutUploading \<and> iss_output_object_key i = None \<and> iss_output_sha256 i = None
     \<and> row_written iss_id (iss_id i) (i\<lparr>iss_output_object_key := Some (pc_output_object_key c),
          iss_output_sha256 := Some output_sha\<rparr>) (db_issuances d) iss
     \<and> row_written doc_id (doc_id x) (x\<lparr>doc_page_count := Some page_count\<rparr>) (db_documents d) docs
     \<and> (case seed of None \<Rightarrow> d1 = d\<lparr>db_issuances := iss, db_documents := docs\<rparr>
        | Some s \<Rightarrow> manifest_added (pe_manifest_libs E) c i x input_sha output_sha s
            (d\<lparr>db_issuances := iss, db_documents := docs\<rparr>) d1)
     \<and> (\<exists>d3. receipt_added (receipt_id (pe_libs E) j) (pc_organization_id c) (job_id j) d1 d3
         \<and> dir_ok d3 ((committed_evidence r input_sha output_sha page_count candidate ms)\<lparr>dir_updated_at := t\<rparr>)
         \<and> dir_checked d3 ((committed_evidence r input_sha output_sha page_count candidate ms)\<lparr>dir_updated_at := t\<rparr>)
         \<and> dir_written ((committed_evidence r input_sha output_sha page_count candidate ms)\<lparr>dir_updated_at := t\<rparr>) d3 d2)
     \<and> job_written (j\<lparr>job_status := Succeeded, job_safe_error_code := None, job_updated_at := u\<rparr>) d2 d'
     \<and> result = result_from_evidence (pe_settings E)
         ((committed_evidence r input_sha output_sha page_count candidate ms)\<lparr>dir_updated_at := t\<rparr>))"

lemma succeed_job_wp:
  assumes "lookup_by job_id (job_id j) (db_jobs (w_db w)) = Some j" "advance_job j Succeeded = Inr j'"
  shows "wp (save_job [FStatus, FSafeErrorCode, FUpdatedAt] (j'\<lparr>job_safe_error_code := None\<rparr>))
     (\<lambda>k w'. (\<exists>t. k = j\<lparr>job_status := Succeeded, job_safe_error_code := None, job_updated_at := t\<rparr>)
        \<and> job_written k (w_db w) (w_db w') \<and> w_store w' = w_store w)
     (\<lambda>_ w'. w_db w' = w_db w \<and> w_store w' = w_store w) w"
proof -
  have j': "j' = j\<lparr>job_status := Succeeded\<rparr>" and t: "Succeeded \<in> set (transitions (job_status j))"
    using assms(2) by (simp_all add: advance_job_Inr)
  show ?thesis
    by (rule wp_mono [OF save_job_row_wp [where p = j]])
       (use assms t in \<open>auto simp: j' merge_terminal job_evolves_def intro: status_reaches_step\<close>)
qed

lemma receipt_added_frame:
  assumes "receipt_added m org k d d'"
  shows "db_jobs d' = db_jobs d" "db_issuance_results d' = db_issuance_results d" "db_issuances d' = db_issuances d"
    "db_documents d' = db_documents d" "db_manifests d' = db_manifests d"
  using assms by (auto simp: receipt_added_def)

lemma manifest_added_frame:
  assumes "manifest_added L c i x a b s d d'"
  shows "db_jobs d' = db_jobs d" "db_issuance_results d' = db_issuance_results d" "db_issuances d' = db_issuances d"
    "db_documents d' = db_documents d" "db_receipts d' = db_receipts d"
  using assms by (auto simp: manifest_added_def)

lemma optional_manifest_wp:
  "wp (case seed of None \<Rightarrow> ret () | Some s \<Rightarrow> commit_manifest E c i x a b s)
     (\<lambda>_ w'. w_store w' = w_store w \<and> db_jobs (w_db w') = db_jobs (w_db w)
        \<and> db_issuance_results (w_db w') = db_issuance_results (w_db w)
        \<and> (case seed of None \<Rightarrow> w_db w' = w_db w
           | Some s \<Rightarrow> manifest_added (pe_manifest_libs E) c i x a b s (w_db w) (w_db w')))
     (\<lambda>_ w'. w_store w' = w_store w) w"
proof (cases seed)
  case (Some s)
  then show ?thesis
    by simp (rule wp_mono [OF commit_manifest_wp], auto simp: manifest_added_frame)
qed (simp add: wp_simps)

lemma save_committed_wp:
  assumes "lookup_by dir_job_id (dir_job_id r) (db_issuance_results (w_db w)) = Some r"
  shows "wp (save_dir True False committed_fields (committed_evidence r a b k cand ms))
     (\<lambda>r' w'. w_store w' = w_store w \<and> dir_ok (w_db w) r' \<and> dir_checked (w_db w) r' \<and> db_jobs (w_db w') = db_jobs (w_db w)
        \<and> dir_written r' (w_db w) (w_db w')
        \<and> (\<exists>t. r' = (committed_evidence r a b k cand ms)\<lparr>dir_updated_at := t\<rparr>))
     (\<lambda>_ w'. w_db w' = w_db w \<and> w_store w' = w_store w) w"
  by (rule wp_mono [OF save_dir_columns_wp(6) [OF assms]]) (auto simp: dir_saved_def dir_written_frame)

lemma issuance_committedI:
  assumes "claim_view c d j i x r" "job_status j = Processing" "job_cancel_requested_at j = None"
    "dir_output_state r = OutUploading" "iss_output_object_key i = None" "iss_output_sha256 i = None"
    "row_written iss_id (iss_id i) (i\<lparr>iss_output_object_key := Some (pc_output_object_key c),
          iss_output_sha256 := Some output_sha\<rparr>) (db_issuances d) iss"
    "row_written doc_id (doc_id x) (x\<lparr>doc_page_count := Some page_count\<rparr>) (db_documents d) docs"
    "case seed of None \<Rightarrow> d1 = d\<lparr>db_issuances := iss, db_documents := docs\<rparr>
        | Some s \<Rightarrow> manifest_added (pe_manifest_libs E) c i x input_sha output_sha s
            (d\<lparr>db_issuances := iss, db_documents := docs\<rparr>) d1"
    "receipt_added (receipt_id (pe_libs E) j) (pc_organization_id c) (job_id j) d1 d3"
    "dir_ok d3 ((committed_evidence r input_sha output_sha page_count candidate ms)\<lparr>dir_updated_at := t\<rparr>)"
    "dir_checked d3 ((committed_evidence r input_sha output_sha page_count candidate ms)\<lparr>dir_updated_at := t\<rparr>)"
    "dir_written ((committed_evidence r input_sha output_sha page_count candidate ms)\<lparr>dir_updated_at := t\<rparr>) d3 d2"
    "job_written (j\<lparr>job_status := Succeeded, job_safe_error_code := None, job_updated_at := u\<rparr>) d2 d'"
  shows "issuance_committed E c input_sha output_sha page_count candidate ms seed d d'
     (result_from_evidence (pe_settings E)
        ((committed_evidence r input_sha output_sha page_count candidate ms)\<lparr>dir_updated_at := t\<rparr>))"
  unfolding issuance_committed_def using assms by blast

lemma commit_writes_wp:
  assumes v: "claim_view c (w_db w) j i x r" and s: "job_status j = Processing" "job_cancel_requested_at j = None"
    "dir_output_state r = OutUploading" "iss_output_object_key i = None" "iss_output_sha256 i = None"
  shows "wp (chain (save_issuance False [IOutputObjectKey, IOutputSha256]
        (i\<lparr>iss_output_object_key := Some (pc_output_object_key c), iss_output_sha256 := Some output_sha\<rparr>)) (\<lambda>_.
       chain (save_document_page_count (x\<lparr>doc_page_count := Some page_count\<rparr>)) (\<lambda>_.
       chain (case seed of None \<Rightarrow> ret () | Some s \<Rightarrow> commit_manifest E c i x input_sha output_sha s) (\<lambda>_.
       chain (create_receipt (receipt_id (pe_libs E) j) (pc_organization_id c) j) (\<lambda>_.
       chain (save_dir True False committed_fields (committed_evidence r input_sha output_sha page_count candidate ms)) (\<lambda>r'.
       chain (lift_sum (advance_job j Succeeded)) (\<lambda>j'.
       chain (save_job [FStatus, FSafeErrorCode, FUpdatedAt] (j'\<lparr>job_safe_error_code := None\<rparr>)) (\<lambda>_.
       ret (Some (result_from_evidence (pe_settings E) r'))))))))))
     (\<lambda>result w'. w_store w' = w_store w \<and> (case result of None \<Rightarrow> False | Some res \<Rightarrow>
        issuance_committed E c input_sha output_sha page_count candidate ms seed (w_db w) (w_db w') res))
     (\<lambda>_ w'. w_store w' = w_store w) w"
proof (rule wpi_basic(3), rule wp_mono [OF save_issued_output_wp [OF claim_viewD(2) [OF v] s(4,5) refl]], goal_cases)
  case (1 u1 w1)
  then obtain iss where iss: "w_db w1 = (w_db w)\<lparr>db_issuances := iss\<rparr>" "w_store w1 = w_store w"
    "row_written iss_id (iss_id i) (i\<lparr>iss_output_object_key := Some (pc_output_object_key c),
        iss_output_sha256 := Some output_sha\<rparr>) (db_issuances (w_db w)) iss" by blast
  have x: "lookup_by doc_id (doc_id x) (db_documents (w_db w1)) = Some x"
    using claim_viewD(3) [OF v] iss by simp
  show ?case
  proof (rule wpi_basic(3), rule wp_mono [OF save_pages_wp [OF x]], goal_cases)
    case (1 u2 w2)
    then obtain docs where docs: "w_db w2 = (w_db w)\<lparr>db_issuances := iss, db_documents := docs\<rparr>"
      "w_store w2 = w_store w"
      "row_written doc_id (doc_id x) (x\<lparr>doc_page_count := Some page_count\<rparr>) (db_documents (w_db w)) docs"
      using iss by auto
    have rows: "db_jobs (w_db w2) = db_jobs (w_db w)" "db_issuance_results (w_db w2) = db_issuance_results (w_db w)"
      by (simp_all add: docs)
    show ?case
      by (rule wpi_basic(3), rule wp_mono [OF optional_manifest_wp],
          intro wp_intros wp_mono [OF create_receipt_wp] wp_mono [OF save_committed_wp] wp_mono [OF succeed_job_wp])
        (use claim_viewD [OF v] rows docs in \<open>auto simp: receipt_added_frame dir_written_frame
            intro!: issuance_committedI [OF v s iss(3) docs(3), folded docs(1)]\<close>)
  qed (use iss in simp)
qed simp

lemma commit_body_wp:
  "wp (commit_body E c input_sha output_sha page_count candidate ms seed)
     (\<lambda>result w'. w_store w' = w_store w \<and> (case result of
        None \<Rightarrow> \<exists>j i x r t. claim_view c (w_db w) j i x r \<and> job_status j = Processing
          \<and> job_cancel_requested_at j \<noteq> None
          \<and> job_written (j\<lparr>job_status := Cancelled, job_updated_at := t\<rparr>) (w_db w) (w_db w')
      | Some res \<Rightarrow> issuance_committed E c input_sha output_sha page_count candidate ms seed (w_db w) (w_db w') res))
     (\<lambda>_ w'. w_store w' = w_store w) w"
  unfolding commit_body_def
proof (rule wpi_basic(3), rule wp_mono [OF claimed_rows_wp], goal_cases)
  case (1 v w1)
  then obtain j i x r where v: "v = (j, i, x, r)" "w1 = w" "claim_view c (w_db w) j i x r" by (cases v) auto
  show ?case
    unfolding v(1,2) prod.case
  proof (intro wpi_basic(3) wpi_require wpi_if, goal_cases)
    case 1
    then show ?case
      using claim_viewD [OF v(3)] v(3)
      by (intro wp_mono [OF cancel_claimed_wp] wp_intros) auto
  next
    case 2
    then show ?case
      by (intro wp_mono [OF commit_writes_wp [OF v(3), unfolded wp_chain]]) (auto split: option.splits simp: wp_simps)
  qed simp_all
qed simp

section \<open>Recovery and failure\<close>

lemma claim_stale_wp:
  "wp (claim_stale_output_recovery c token)
     (\<lambda>(c', n) w'. w_store w' = w_store w \<and> c' = c\<lparr>pc_owner_token := token\<rparr> \<and> token \<noteq> pc_owner_token c
        \<and> (\<exists>j i x r t. claim_view c (w_db w) j i x r \<and> job_status j = Processing
           \<and> dir_output_state r \<in> {OutUploading, OutCleanupRequired} \<and> n = dir_cleanup_failures r
           \<and> iss_output_object_key i = None \<and> iss_output_sha256 i = None
           \<and> dir_written (r\<lparr>dir_owner_token := token, dir_output_state := OutCleanupRequired,
               dir_safe_error_code := Some demo_stale_recovery_fence_code, dir_updated_at := t\<rparr>) (w_db w) (w_db w')))
     (\<lambda>_ w'. w_db w' = w_db w \<and> w_store w' = w_store w) w"
  unfolding claim_stale_output_recovery_def claim_stale_body_def
  by (intro wp_intros wp_mono [OF claimed_rows_wp] wp_mono [OF save_dir_columns_wp(3)])
     (auto simp: dir_saved_def dest: claim_viewD, blast+)

definition failure_recorded :: "processing_claim \<Rightarrow> string \<Rightarrow> int \<Rightarrow> db \<Rightarrow> db \<Rightarrow> bool" where
  "failure_recorded c code failures d d' \<longleftrightarrow> (\<exists>j r t u d1. lookup_by job_id (pc_job_id c) (db_jobs d) = Some j
     \<and> lookup_by dir_job_id (pc_job_id c) (db_issuance_results d) = Some r \<and> owns_evidence c r
     \<and> job_status j = Processing
     \<and> job_written (j\<lparr>job_status := Failed, job_safe_error_code := Some code, job_updated_at := u\<rparr>) d d1
     \<and> dir_written (r\<lparr>dir_output_state := failed_output_state (dir_output_state r),
          dir_safe_error_code := Some code, dir_cleanup_failures := failures, dir_updated_at := t\<rparr>) d1 d')"

lemma locked_job_wp:
  "wp (locked_job k) (\<lambda>j w'. w' = w \<and> lookup_by job_id (job_id j) (db_jobs (w_db w)) = Some j \<and> job_id j = k)
     (\<lambda>_ w'. w' = w) w"
  unfolding locked_job_def by (intro wp_intros) (auto intro: lookup_named dest: lookup_by_key)

lemma locked_evidence_wp:
  "wp (locked_evidence c) (\<lambda>r w'. w' = w \<and> lookup_by dir_job_id (dir_job_id r) (db_issuance_results (w_db w)) = Some r
        \<and> dir_job_id r = pc_job_id c \<and> owns_evidence c r)
     (\<lambda>_ w'. w' = w) w"
  unfolding locked_evidence_def by (intro wp_intros) (auto intro: lookup_named dest: lookup_by_key)

lemma record_failed_wp:
  "wp (record_failed_job c code failures)
     (\<lambda>_ w'. w_store w' = w_store w \<and> (if w_db w' = w_db w then True else failure_recorded c code failures (w_db w) (w_db w')))
     (\<lambda>_ w'. w_db w' = w_db w \<and> w_store w' = w_store w) w"
  unfolding record_failed_job_def record_failed_body_def
  by (intro wp_intros wp_mono [OF locked_job_wp] wp_mono [OF locked_evidence_wp] wp_mono [OF fail_job_wp]
        wp_mono [OF save_dir_columns_wp(2)])
     (auto simp: dir_saved_def failure_recorded_def job_written_frame, blast+)

section \<open>Every operation lets the database evolve\<close>

lemma row_written_rows_evolve:
  "row_written key k r rows rows' \<Longrightarrow> lookup_by key k rows = Some p \<Longrightarrow> R p r \<Longrightarrow> (\<And>r. R r r) \<Longrightarrow>
     rows_evolve key R rows rows'"
  by (auto simp: row_written_def rows_evolve_def) (metis option.inject)

lemma claimed_written_evolves:
  assumes v: "claim_view c d j i x r" and none: "iss_output_object_key i = None" "iss_output_sha256 i = None"
    and i: "row_written iss_id (iss_id i) (i\<lparr>iss_output_object_key := key, iss_output_sha256 := sha\<rparr>) (db_issuances d) iss"
    and x: "row_written doc_id (doc_id x) (x\<lparr>doc_page_count := n\<rparr>) (db_documents d) docs"
  shows "db_evolves d (d\<lparr>db_issuances := iss, db_documents := docs\<rparr>)"
proof -
  have "rows_evolve iss_id issuance_evolves (db_issuances d) iss"
    by (rule row_written_rows_evolve [OF i claim_viewD(2) [OF v]]) (simp_all add: issuance_evolves_def none)
  moreover have "rows_evolve doc_id document_evolves (db_documents d) docs"
    by (rule row_written_rows_evolve [OF x claim_viewD(3) [OF v]]) (auto simp: document_evolves_def)
  ultimately show ?thesis by (simp add: db_evolves_documents db_evolves_issuance_rows)
qed

lemma manifest_added_evolves: "manifest_added L c i x a b s d d' \<Longrightarrow> db_evolves e d \<Longrightarrow> db_evolves e d'"
  by (auto simp: manifest_added_def intro: db_evolves_intros)

lemma receipt_added_evolves: "receipt_added m org k d d' \<Longrightarrow> db_evolves e d \<Longrightarrow> db_evolves e d'"
  by (auto simp: receipt_added_def intro: db_evolves_intros)

lemmas written_evolves = job_written_evolves dir_written_evolves receipt_added_evolves manifest_added_evolves

lemma issuance_committed_evolves:
  assumes "issuance_committed E c a b n cand ms seed d d' res"
  shows "db_evolves d d'"
proof -
  from assms obtain j i x r t u d1 d2 iss docs d3 where
    "claim_view c d j i x r" "iss_output_object_key i = None" "iss_output_sha256 i = None"
    "row_written iss_id (iss_id i) (i\<lparr>iss_output_object_key := Some (pc_output_object_key c),
        iss_output_sha256 := Some b\<rparr>) (db_issuances d) iss"
    "row_written doc_id (doc_id x) (x\<lparr>doc_page_count := Some n\<rparr>) (db_documents d) docs"
    and m: "case seed of None \<Rightarrow> d1 = d\<lparr>db_issuances := iss, db_documents := docs\<rparr>
        | Some s \<Rightarrow> manifest_added (pe_manifest_libs E) c i x a b s (d\<lparr>db_issuances := iss, db_documents := docs\<rparr>) d1"
    and r: "receipt_added (receipt_id (pe_libs E) j) (pc_organization_id c) (job_id j) d1 d3"
    and w: "dir_written ((committed_evidence r a b n cand ms)\<lparr>dir_updated_at := t\<rparr>) d3 d2"
    and s: "job_written (j\<lparr>job_status := Succeeded, job_safe_error_code := None, job_updated_at := u\<rparr>) d2 d'"
    unfolding issuance_committed_def by blast
  then have "db_evolves d (d\<lparr>db_issuances := iss, db_documents := docs\<rparr>)" by (blast intro: claimed_written_evolves)
  then have "db_evolves d d1" using m by (auto split: option.splits intro: written_evolves)
  with r w s show ?thesis by (blast intro: written_evolves)
qed

lemma g_begin: "guarantees evolves (begin_output_upload c)"
  by (rule guaranteesI, rule wp_mono [OF begin_output_upload_wp])
     (auto split: if_splits, (blast intro: written_evolves db_evolves_refl)+)

lemma g_authorize: "guarantees evolves (authorize_output_cleanup c)"
  by (rule guaranteesI, rule wp_mono [OF authorize_output_cleanup_wp]) auto

lemma cleanup_recorded_evolves: "cleanup_recorded c s code n d d' \<Longrightarrow> db_evolves d d'"
  unfolding cleanup_recorded_def
  by (clarsimp split: if_splits) (blast intro: written_evolves db_evolves_refl)+

lemma g_persist: "guarantees evolves (persist_output_cleanup c s code n)"
  by (rule guaranteesI, rule wp_mono [OF persist_output_cleanup_wp]) (auto intro: cleanup_recorded_evolves)

lemma g_compensate: "guarantees evolves (compensate_owned_output ops c a b n)"
  unfolding compensate_owned_output_def by (intro evolution.g_intros g_world g_authorize g_persist)

lemma g_claim_stale: "guarantees evolves (claim_stale_output_recovery c token)"
  by (rule guaranteesI, rule wp_mono [OF claim_stale_wp]) (auto intro: dir_written_evolves)

lemma g_record_failed: "guarantees evolves (record_failed_job c code n)"
  by (rule guaranteesI, rule wp_mono [OF record_failed_wp])
     (auto simp: failure_recorded_def split: if_splits, (blast intro: written_evolves db_evolves_refl)+)

lemma g_commit: "guarantees evolves (commit_issuance_result E c a b n cand ms seed)"
  unfolding commit_issuance_result_def
  by (rule evolution.g_atomicI, rule wp_mono [OF commit_body_wp])
     (auto split: option.splits intro: issuance_committed_evolves job_written_evolves)

lemma g_locked_job: "guarantees evolves (locked_job k)"
  unfolding locked_job_def by (intro evolution.g_intros g_world)

lemma g_locked_evidence: "guarantees evolves (locked_evidence c)"
  unfolding locked_evidence_def by (intro evolution.g_intros g_world)

lemma g_locked_issuance_document: "guarantees evolves (locked_issuance_document j)"
  unfolding locked_issuance_document_def by (intro evolution.g_intros g_world)

lemma g_claimed_rows: "guarantees evolves (claimed_rows c)"
  by (rule guaranteesI, rule wp_mono [OF claimed_rows_wp]) auto

lemma g_authorize_stale: "guarantees evolves (authorize_stale_output_delete c n)"
  unfolding authorize_stale_output_delete_def
  by (intro evolution.g_intros g_world g_claimed_rows) (auto split: prod.splits intro: evolution.g_intros)

lemma g_record_stale: "guarantees evolves (record_stale_output_delete_failure c n code)"
  unfolding record_stale_output_delete_failure_def
  by (intro evolution.g_intros g_world g_authorize_stale g_locked_evidence)

lemma save_dir_jobs_wp:
  "wp (save_dir write transfer fs r)
     (\<lambda>_ w'. db_evolves (w_db w) (w_db w') \<and> db_jobs (w_db w') = db_jobs (w_db w)) (\<lambda>_ w'. db_evolves (w_db w) (w_db w')) w"
  by (rule wp_mono [OF wp_conj [OF save_dir_wp guarantees_wp [OF g_save_dir]]]) auto

lemma g_acknowledge: "guarantees evolves (acknowledge_stale_output_delete c n code)"
  unfolding acknowledge_stale_output_delete_def
proof (rule evolution.g_atomicI)
  fix w :: "'a world"
  show "wp (chain (authorize_stale_output_delete c n) (\<lambda>_.
     chain (locked_job (pc_job_id c)) (\<lambda>j.
     chain (locked_evidence c) (\<lambda>r.
     chain (save_dir True False [DOutputState, DSafeErrorCode, DUpdatedAt]
              (r\<lparr>dir_output_state := OutCleanupRequired,
                 dir_safe_error_code := Some demo_stale_recovery_fence_code\<rparr>)) (\<lambda>_.
     chain (fail_job j code) (\<lambda>_. ret ()))))))
     (\<lambda>_ v. db_evolves (w_db w) (w_db v)) (\<lambda>_ _. True) w"
    by (rule wpi_basic(3), rule wp_mono [OF guarantees_wp [OF g_authorize_stale]],
        intro wp_intros wp_mono [OF locked_job_wp] wp_mono [OF locked_evidence_wp] wp_mono [OF save_dir_jobs_wp]
          wp_mono [OF fail_job_wp])
       (auto intro: db_evolves_trans job_written_evolves)
qed

lemma g_acquire: "guarantees evolves (acquire_processing_claim E k token)"
  unfolding acquire_processing_claim_def
proof (rule evolution.g_atomicI)
  fix w :: "'a world"
  have fc: "guarantees evolves (load_replay_result E j i x)" for j i x
    unfolding load_replay_result_def dir_full_clean_def dir_clean_def
    by (intro evolution.g_intros g_world)
  have rs: "guarantees evolves (reserve_output j i x token)" for j i x
    unfolding reserve_output_def Let_def by (intro evolution.g_intros g_world)
  show "wp (acquire_body E k token) (\<lambda>_ v. db_evolves (w_db w) (w_db v)) (\<lambda>_ _. True) w"
    unfolding acquire_body_def validate_locked_binding_def locked_issuance_document_def
    by (intro wp_intros wp_mono [OF locked_job_wp] wp_mono [OF cancel_claimed_wp]
          wp_mono [OF guarantees_wp [OF fc]] wp_mono [OF guarantees_wp [OF rs]])
       (auto intro: job_written_evolves)
qed

lemma g_make_output: "guarantees evolves (make_output E ops c key)"
  unfolding make_output_def download_source_def upload_output_def
  by (intro evolution.g_intros g_world g_begin g_compensate)
     (auto split: prod.splits intro!: evolution.g_intros g_world g_begin g_compensate)

lemma g_compensate_and_raise: "guarantees evolves (compensate_and_raise ops c a b n)"
  unfolding compensate_and_raise_def
  by (intro evolution.g_intros g_compensate) (auto split: prod.splits intro: evolution.g_intros)

lemma g_process_claimed: "guarantees evolves (process_claimed_job E ops c)"
  unfolding process_claimed_job_def
  by (intro evolution.g_intros g_make_output)
     (auto split: prod.splits option.splits
        intro!: evolution.g_intros g_make_output g_compensate_and_raise g_commit)

lemma g_processing_failed: "guarantees evolves (processing_failed c e)"
  unfolding processing_failed_def by (cases e) (auto intro!: evolution.g_intros g_record_failed)

lemma g_process: "guarantees evolves (process_issuance_job E ops k owner)"
  unfolding process_issuance_job_def
  by (intro evolution.g_intros g_world g_acquire)
     (auto split: acquisition.splits intro!: evolution.g_intros g_process_claimed g_processing_failed)

section \<open>Losing the output\<close>

text \<open>\<open>m\<close> raises and changes neither the database nor the object store.\<close>

definition refused :: "'st world \<Rightarrow> ('st world, 'a) prog \<Rightarrow> bool" where
  "refused w m \<longleftrightarrow> wp m (\<lambda>_ _. False) (\<lambda>_ v. w_db v = w_db w \<and> w_store v = w_store w) w"

definition owner_lost :: "processing_claim \<Rightarrow> db \<Rightarrow> bool" where
  "owner_lost c d \<longleftrightarrow> (case lookup_by dir_job_id (pc_job_id c) (db_issuance_results d) of None \<Rightarrow> True
     | Some r \<Rightarrow> dir_owner_token r \<noteq> pc_owner_token c)"

lemma owner_lost_no_view:
  assumes "owner_lost c d"
  shows "\<not> claim_view c d j i x r"
proof
  assume v: "claim_view c d j i x r"
  then have "lookup_by dir_job_id (pc_job_id c) (db_issuance_results d) = Some r"
    by (auto simp: claim_view_def claim_binding_def)
  moreover have "dir_owner_token r = pc_owner_token c" using claim_viewD(6) [OF v] by (simp add: owns_evidence_def)
  ultimately show False using assms by (simp add: owner_lost_def)
qed

lemma owner_lost_refused:
  assumes "owner_lost c (w_db w)"
  shows "refused w (begin_output_upload c)" "refused w (commit_issuance_result E c a b n cand ms seed)"
    "refused w (compensate_owned_output ops c code code' k)" "refused w (claim_stale_output_recovery c token)"
    "refused w (persist_output_cleanup c state code k)"
proof -
  note no = owner_lost_no_view [OF assms]
  show "refused w (begin_output_upload c)"
    unfolding refused_def by (rule wp_mono [OF begin_output_upload_wp]) (auto simp: no)
  show "refused w (compensate_owned_output ops c code code' k)"
    unfolding refused_def by (rule wp_mono [OF compensate_wp]) (auto simp: no may_clean_def)
  show "refused w (claim_stale_output_recovery c token)"
    unfolding refused_def by (rule wp_mono [OF claim_stale_wp]) (auto simp: no)
  show "refused w (persist_output_cleanup c state code k)"
    unfolding refused_def by (rule wp_mono [OF persist_output_cleanup_wp]) (auto simp: no cleanup_recorded_def)
  show "refused w (commit_issuance_result E c a b n cand ms seed)"
    unfolding refused_def commit_issuance_result_def wp_atomic
    by (rule wp_mono [OF commit_body_wp]) (auto simp: no issuance_committed_def split: option.splits)
qed

lemma owner_lost_failure:
  "owner_lost c (w_db w) \<Longrightarrow> wp (record_failed_job c code k) (\<lambda>_ v. w_db v = w_db w \<and> w_store v = w_store w)
     (\<lambda>_ v. w_db v = w_db w \<and> w_store v = w_store w) w"
  by (rule wp_mono [OF record_failed_wp])
     (auto simp: owner_lost_def failure_recorded_def owns_evidence_def split: if_splits)

section \<open>Properties\<close>

text \<open>
  C4. Committing an issuance is all or nothing: on success the claimed job, still processing and not
  cancelled, has succeeded, the issuance has its output key and digest, the document its page
  count, the evidence its committed and validated columns, one receipt and in the release one
  manifest signed by a registered key were added, and no other row changed; when a cancellation
  was requested the job is cancelled and nothing else changes; when it fails nothing changes.
\<close>

theorem issuance_commit_atomic:
  "wp (commit_issuance_result E c input_sha output_sha page_count candidate ms seed)
     (\<lambda>result w'. w_store w' = w_store w \<and> (case result of
        None \<Rightarrow> \<exists>j i x r t. claim_view c (w_db w) j i x r \<and> job_status j = Processing
          \<and> job_cancel_requested_at j \<noteq> None
          \<and> job_written (j\<lparr>job_status := Cancelled, job_updated_at := t\<rparr>) (w_db w) (w_db w')
      | Some res \<Rightarrow> issuance_committed E c input_sha output_sha page_count candidate ms seed (w_db w) (w_db w') res))
     (\<lambda>_ w'. w_db w' = w_db w \<and> w_store w' = w_store w) w"
  unfolding commit_issuance_result_def wp_atomic by (rule wp_mono [OF commit_body_wp]) auto

text \<open>
  C5. A recovery fences the worker it took an output from: after it, starting the upload,
  committing, deleting the output object, recording a cleanup and recovering again under the old
  claim all raise without changing the database or the object store, and reporting a failure
  changes nothing.
\<close>

theorem recovery_fences_worker:
  "wp (claim_stale_output_recovery c token)
     (\<lambda>(c', n) w'. c' = c\<lparr>pc_owner_token := token\<rparr>
        \<and> refused w' (begin_output_upload c)
        \<and> refused w' (commit_issuance_result E c input_sha output_sha page_count candidate ms seed)
        \<and> refused w' (compensate_owned_output ops c code code' k)
        \<and> refused w' (persist_output_cleanup c state code k)
        \<and> refused w' (claim_stale_output_recovery c token')
        \<and> wp (record_failed_job c code k) (\<lambda>_ v. w_db v = w_db w' \<and> w_store v = w_store w')
            (\<lambda>_ v. w_db v = w_db w' \<and> w_store v = w_store w') w')
     (\<lambda>_ w'. w_db w' = w_db w \<and> w_store w' = w_store w) w"
proof (rule wp_mono [OF claim_stale_wp], goal_cases)
  case (1 res w')
  obtain c' n where res: "res = (c', n)" by (cases res)
  with 1 obtain j i x r t where v: "claim_view c (w_db w) j i x r" and c': "c' = c\<lparr>pc_owner_token := token\<rparr>"
    and t: "token \<noteq> pc_owner_token c"
    and d: "dir_written (r\<lparr>dir_owner_token := token, dir_output_state := OutCleanupRequired,
        dir_safe_error_code := Some demo_stale_recovery_fence_code, dir_updated_at := t\<rparr>) (w_db w) (w_db w')"
    by auto
  have "dir_job_id r = pc_job_id c" using v by (auto simp: claim_view_def claim_binding_def)
  with dir_written_lookup [OF d] t have "owner_lost c (w_db w')" by (simp add: owner_lost_def)
  then show ?case unfolding res using c' by (simp add: owner_lost_refused owner_lost_failure)
qed simp

text \<open>
  Whatever a worker does with a job, with whatever libraries, settings and object store, and
  whether it returns or raises, the database only evolves: no row of a protected table is lost or
  changes its identity, jobs follow the status graph, outputs their state graph, output columns are
  written once, committed evidence, manifests, receipts and audit events never change.
\<close>

theorem issuance_worker_evolves:
  "db_evolves (w_db w) (w_db (snd (process_issuance_job E ops k owner w)))"
  using g_process [of E ops k owner] by (simp add: guarantees_def)

end
