(* ===== verification/IssuanceReplay.thy ===== *)
theory IssuanceReplay
  imports IssuanceCommit
begin

text \<open>
  A committed job is answered from its evidence: what the next run of the job reads, and for which
  documents the evidence passes its full validation.
\<close>

text \<open>The rows a committed job leaves behind.\<close>

definition committed_view ::
  "processing_env \<Rightarrow> db \<Rightarrow> job \<Rightarrow> issuance \<Rightarrow> document \<Rightarrow> demo_issuance_result \<Rightarrow> bool" where
  "committed_view E d j i x r \<longleftrightarrow> lookup_by job_id (job_id j) (db_jobs d) = Some j
     \<and> lookup_by iss_id (iss_id i) (db_issuances d) = Some i
     \<and> lookup_by doc_id (doc_id x) (db_documents d) = Some x
     \<and> lookup_by dir_job_id (job_id j) (db_issuance_results d) = Some r
     \<and> list_ex (\<lambda>m. rec_message_id m = receipt_id (pe_libs E) j \<and> rec_organization_id m = job_organization_id j
         \<and> rec_job_id m = job_id j) (db_receipts d)
     \<and> job_status j = Succeeded \<and> locked_binding j i x \<and> dir_job_id r = job_id j
     \<and> dir_output_state r = OutCommitted \<and> dir_organization_id r = job_organization_id j
     \<and> dir_issuance_id r = iss_id i \<and> dir_attempt r = job_attempt j
     \<and> iss_output_object_key i = Some (dir_output_object_key r) \<and> iss_output_sha256 i = dir_output_sha256 r
     \<and> doc_page_count x = dir_page_count r \<and> dir_check j r = Inr () \<and> dir_ok d r"

lemma dir_ok_replaced:
  assumes ok: "dir_ok d r" and w: "row_written dir_job_id (dir_job_id r) r (db_issuance_results d) (db_issuance_results d')"
  shows "dir_ok d' r"
  using assms unfolding dir_ok_def row_written_def by blast

lemma issuance_committed_view:
  assumes "issuance_committed E c a b n cand ms seed d d' res"
  shows "\<exists>j i x x0 r. committed_view E d' j i x r \<and> job_id j = pc_job_id c
     \<and> lookup_by doc_id (pc_document_id c) (db_documents d) = Some x0
     \<and> doc_expected_source_sha256 x = doc_expected_source_sha256 x0
     \<and> dir_input_sha256 r = Some a \<and> dir_page_count r = Some n
     \<and> res = result_from_evidence (pe_settings E) r"
proof -
  from assms obtain j i x r t u d1 d2 iss docs d3 where
    v: "claim_view c d j i x r" and s: "job_status j = Processing"
    and wi: "row_written iss_id (iss_id i) (i\<lparr>iss_output_object_key := Some (pc_output_object_key c),
        iss_output_sha256 := Some b\<rparr>) (db_issuances d) iss"
    and wx: "row_written doc_id (doc_id x) (x\<lparr>doc_page_count := Some n\<rparr>) (db_documents d) docs"
    and m: "case seed of None \<Rightarrow> d1 = d\<lparr>db_issuances := iss, db_documents := docs\<rparr>
        | Some s \<Rightarrow> manifest_added (pe_manifest_libs E) c i x a b s (d\<lparr>db_issuances := iss, db_documents := docs\<rparr>) d1"
    and rec: "receipt_added (receipt_id (pe_libs E) j) (pc_organization_id c) (job_id j) d1 d3"
    and ok: "dir_ok d3 ((committed_evidence r a b n cand ms)\<lparr>dir_updated_at := t\<rparr>)"
      "dir_checked d3 ((committed_evidence r a b n cand ms)\<lparr>dir_updated_at := t\<rparr>)"
    and wr: "dir_written ((committed_evidence r a b n cand ms)\<lparr>dir_updated_at := t\<rparr>) d3 d2"
    and wj: "job_written (j\<lparr>job_status := Succeeded, job_safe_error_code := None, job_updated_at := u\<rparr>) d2 d'"
    and res: "res = result_from_evidence (pe_settings E) ((committed_evidence r a b n cand ms)\<lparr>dir_updated_at := t\<rparr>)"
    unfolding issuance_committed_def by blast
  let ?r = "(committed_evidence r a b n cand ms)\<lparr>dir_updated_at := t\<rparr>"
  let ?j = "j\<lparr>job_status := Succeeded, job_safe_error_code := None, job_updated_at := u\<rparr>"
  let ?i = "i\<lparr>iss_output_object_key := Some (pc_output_object_key c), iss_output_sha256 := Some b\<rparr>"
  let ?x = "x\<lparr>doc_page_count := Some n\<rparr>"
  note rows = claim_viewD [OF v]
  have b1: "locked_binding j i x" "claim_binding c j i x" "owns_evidence c r" "dir_job_id r = job_id j"
    using v by (auto simp: claim_view_def)
  have d1: "db_issuances d1 = iss" "db_documents d1 = docs" "db_jobs d1 = db_jobs d"
    using m by (auto simp: manifest_added_frame split: option.splits)
  have d3: "db_issuances d3 = iss" "db_documents d3 = docs" "db_jobs d3 = db_jobs d"
    using rec d1 by (simp_all add: receipt_added_frame)
  have d2: "db_issuances d' = iss" "db_documents d' = docs" "db_receipts d' = db_receipts d3"
    "db_issuance_results d' = db_issuance_results d2"
    using d3 by (simp_all add: job_written_frame [OF wj] dir_written_frame [OF wr])
  have k: "dir_job_id ?r = job_id j" using b1 by (simp add: committed_evidence_def)
  have "dir_check j ?r = Inr ()"
    using ok(2) rows(1) unfolding dir_checked_def k d3 by auto
  then have check: "dir_check ?j ?r = Inr ()" by (simp add: dir_check_def)
  have wr': "row_written dir_job_id (dir_job_id ?r) ?r (db_issuance_results d3) (db_issuance_results d')"
    using wr unfolding d2(4) by (auto simp: dir_written_def)
  have "committed_view E d' ?j ?i ?x ?r"
    unfolding committed_view_def
  proof (intro conjI)
    show "lookup_by job_id (job_id ?j) (db_jobs d') = Some ?j" by (rule job_written_lookup [OF wj])
    show "lookup_by iss_id (iss_id ?i) (db_issuances d') = Some ?i" using wi by (simp add: d2 row_written_def)
    show "lookup_by doc_id (doc_id ?x) (db_documents d') = Some ?x" using wx by (simp add: d2 row_written_def)
    show "lookup_by dir_job_id (job_id ?j) (db_issuance_results d') = Some ?r"
      using row_written_lookup [OF wr'] k by simp
    have "receipt_id (pe_libs E) ?j = receipt_id (pe_libs E) j" by (simp add: receipt_id_def)
    then show "list_ex (\<lambda>m. rec_message_id m = receipt_id (pe_libs E) ?j
        \<and> rec_organization_id m = job_organization_id ?j \<and> rec_job_id m = job_id ?j) (db_receipts d')"
      using rec b1 by (auto simp: d2 receipt_added_def claim_binding_def)
    show "dir_check ?j ?r = Inr ()" by (rule check)
    show "dir_ok d' ?r" by (rule dir_ok_replaced [OF ok(1) wr'])
    show "locked_binding ?j ?i ?x" using b1 by (simp add: locked_binding_def)
  qed (use b1 in \<open>auto simp: committed_evidence_def owns_evidence_def claim_binding_def\<close>)
  moreover have "lookup_by doc_id (pc_document_id c) (db_documents d) = Some x" "job_id ?j = pc_job_id c"
    using rows(3) b1(2) by (simp_all add: claim_binding_def)
  moreover have "dir_input_sha256 ?r = Some a" "dir_page_count ?r = Some n" by (simp_all add: committed_evidence_def)
  ultimately show ?thesis using res by fastforce
qed

lemma accepted_identifiers_hex: "list_all hex_146 demo_accepted_candidate_identifiers"
  by code_simp

lemma committed_fields_ok:
  assumes "committed_view E d j i x r" "dir_page_count r = Some n"
  shows "dir_fields_ok r \<longleftrightarrow> n \<le> 5"
proof -
  from assms have c: "dir_output_state r = OutCommitted" "dir_check j r = Inr ()" and ok: "dir_ok d r"
    by (auto simp: committed_view_def)
  have key: "dir_output_object_key r \<in> {output_key_for (dir_organization_id r) (dir_issuance_id r) ''pdf'',
      output_key_for (dir_organization_id r) (dir_issuance_id r) ''png''}"
    using c(2) unfolding dir_check_def by (metis sum.distinct(1))
  have len: "length (output_key_for a b e) = 91 + length e" for a b e by (simp add: output_key_for_def)
  have l: "length (dir_output_object_key r) = 94" using key by (auto simp: len)
  then have key': "dir_output_object_key r \<noteq> []" "length (dir_output_object_key r) \<le> 1024"
    using l by auto
  from ok c(1) have v: "committed_values_ok r" and p: "1 \<le> n" using assms(2)
    by (auto simp: dir_ok_def dir_committed_complete_def)
  obtain cand where cand: "dir_candidate_identifier r = Some cand" "hex_146 cand"
    using v accepted_identifiers_hex by (auto simp: committed_values_ok_def list_all_iff split: option.splits)
  show ?thesis
    using ok v p key' cand assms(2) by (simp add: dir_fields_ok_def dir_ok_def committed_values_ok_def demo_algorithm_label_def)
qed

lemma replay_valid_committed:
  "committed_view E d j i x r \<Longrightarrow> dir_input_sha256 r = Some (doc_expected_source_sha256 x) \<Longrightarrow>
     replay_valid (pe_libs E) j i x r (list_ex (\<lambda>m. rec_message_id m = receipt_id (pe_libs E) j
       \<and> rec_organization_id m = job_organization_id j \<and> rec_job_id m = job_id j) (db_receipts d))"
  by (simp add: committed_view_def replay_valid_def)

lemma replay_acquire:
  assumes v: "committed_view E (w_db w) j i x r" and a: "dir_input_sha256 r = Some (doc_expected_source_sha256 x)"
    and n: "dir_page_count r = Some n"
  shows "wp (acquire_processing_claim E (job_id j) token)
     (\<lambda>acq w'. n \<le> 5 \<and> acq = Replayed (result_from_evidence (pe_settings E) r) \<and> w_db w' = w_db w)
     (\<lambda>e w'. 5 < n \<and> e = ValidationError ''full_clean'' \<and> w_db w' = w_db w) w"
proof -
  note f = committed_fields_ok [OF v n] and rv = replay_valid_committed [OF v a]
  from v have rows: "lookup_by job_id (job_id j) (db_jobs (w_db w)) = Some j"
    "lookup_by iss_id (iss_id i) (db_issuances (w_db w)) = Some i"
    "lookup_by doc_id (doc_id x) (db_documents (w_db w)) = Some x"
    "lookup_by dir_job_id (job_id j) (db_issuance_results (w_db w)) = Some r"
    and b: "locked_binding j i x" "job_status j = Succeeded" "dir_job_id r = job_id j"
      "dir_organization_id r = job_organization_id j" "dir_issuance_id r = iss_id i" "dir_check j r = Inr ()"
      "dir_ok (w_db w) r"
    by (simp_all add: committed_view_def)
  from b(1) have i: "job_issuance_id j = Some (iss_id i)" "iss_document_id i = doc_id x"
    "iss_organization_id i = job_organization_id j" by (simp_all add: locked_binding_def)
  show ?thesis
    unfolding acquire_processing_claim_def acquire_body_def locked_job_def locked_issuance_document_def
      validate_locked_binding_def load_replay_result_def dir_full_clean_def dir_clean_def
    by (simp add: wp_simps rows b i f rv del: One_nat_def)
qed

section \<open>From the source to the stored object\<close>

lemma concat_file_chunks: "concat (file_chunks data) = data"
proof (induction data rule: file_chunks.induct)
  case (1 data)
  then show ?case by (simp add: file_chunks.simps [of data])
qed

lemma compensate_and_raise_wp:
  "wp (compensate_and_raise ops c code code' n) (\<lambda>_ _. False) (\<lambda>_ _. True) w"
  unfolding compensate_and_raise_def
  by (rule wpi_basic(3), rule wp_mono [OF wp_trivial]) (auto simp: wp_simps split: prod.splits)

text \<open>
  What a claim delivered: the artifact built from the bytes of the source object, which have the expected digest,
  stored under the claim's output key with its bytes, its size and its own digest.
\<close>

definition delivered ::
  "('st \<Rightarrow> string \<Rightarrow> object_metadata option) \<Rightarrow> ('st \<Rightarrow> string \<Rightarrow> bytes option) \<Rightarrow> (bytes \<Rightarrow> string) \<Rightarrow> processing_env
     \<Rightarrow> limits \<Rightarrow> processing_claim \<Rightarrow> bytes option \<Rightarrow> 'st \<Rightarrow> 'st \<Rightarrow> nat \<Rightarrow> string \<Rightarrow> string \<Rightarrow> bool" where
  "delivered stored content digest E li c key st st' n cand sha \<longleftrightarrow> (\<exists>source data content_type.
     content st (pc_source_object_key c) = Some source
     \<and> digest source = pc_expected_source_sha256 c
     \<and> build_issuance_artifact (pe_raster_libs E) li source (pc_issuance_id c) key
         (integrity_mode (pe_settings E) \<and> \<not> set_fingerprint_enabled (pe_settings E))
         = Inr (data, n, cand, content_type)
     \<and> sha = digest data
     \<and> stored st' (pc_output_object_key c) = Some (uploaded_metadata digest (pc_output_object_key c) content_type data)
     \<and> content st' (pc_output_object_key c) = Some data)"

context verified_object_storage
begin

lemma upload_output_wp:
  "wp (upload_output ops c content_type data)
     (\<lambda>up w'. ob_actual_sha256 up = digest data \<and> w_db w' = w_db w
        \<and> stored (w_store w') (pc_output_object_key c)
            = Some (uploaded_metadata digest (pc_output_object_key c) content_type data)
        \<and> content (w_store w') (pc_output_object_key c) = Some data)
     (\<lambda>_ _. True) w"
  unfolding upload_output_def
  by (intro wp_intros wp_raw [where m = "so_upload_bytes ops k ct cs n" for k ct cs n])
     (auto dest: upload_ok simp: concat_file_chunks wp_simps
        intro!: wp_mono [OF compensate_wp] split: prod.splits)

lemma make_output_wp:
  "wp (make_output E ops c key)
     (\<lambda>(dl, up, n, cand) w'. ob_actual_sha256 dl = pc_expected_source_sha256 c
        \<and> delivered stored content digest E (w_limits w) c key (w_store w) (w_store w') n cand (ob_actual_sha256 up))
     (\<lambda>_ _. True) w"
  unfolding make_output_def download_source_def delivered_def
  by (intro wp_intros wp_raw [where m = "so_download_bytes ops k n sha" for k n sha] wp_mono [OF upload_output_wp]
        wp_mono [OF wp_trivial, where m = "begin_output_upload c"])
     (auto dest!: download_ok)

lemma process_claimed_wp:
  "wp (process_claimed_job E ops c)
     (\<lambda>res w'. \<exists>d n cand sha seed key. fingerprint_key_for (pe_settings E) = Inr key \<and> signing_seed_for E = Inr seed
        \<and> db_evolves (w_db w) d \<and> delivered stored content digest E (w_limits w) c key (w_store w) (w_store w') n cand sha
        \<and> issuance_committed E c (pc_expected_source_sha256 c) sha (int n) cand (max 0 (pe_elapsed_ms E)) seed
            d (w_db w') res) (\<lambda>_ _. True) w"
  unfolding process_claimed_job_def
proof (intro wp_intros wp_mono [OF wp_conj [OF make_output_wp guarantees_wp [OF g_make_output]]], goal_cases)
  case (1 key seed r w1 dl p up q n cand)
  then have d: "ob_actual_sha256 dl = pc_expected_source_sha256 c"
    "delivered stored content digest E (w_limits w) c key (w_store w) (w_store w1) n cand (ob_actual_sha256 up)"
    "db_evolves (w_db w) (w_db w1)" "fingerprint_key_for (pe_settings E) = Inr key" "signing_seed_for E = Inr seed"
    by auto
  show ?case
    unfolding commit_issuance_result_def
    by (intro wp_intros wp_mono [OF commit_body_wp] wp_mono [OF compensate_and_raise_wp])
       (use d in auto)
qed (auto simp: wp_simps intro: wp_mono [OF compensate_and_raise_wp])

end

section \<open>Properties\<close>

text \<open>
  C6. The result of a commit is what the next run of the same job is answered with, and that run
  writes nothing, when the digest committed is the one the document was created with and the
  document has at most five pages; for a longer document, which the commit accepts up to fifty
  pages, the validation of the evidence raises and the job can never be replayed.
\<close>

theorem committed_job_replays:
  "wp (commit_issuance_result E c input_sha output_sha page_count candidate ms seed)
     (\<lambda>result w'. case result of None \<Rightarrow> True | Some res \<Rightarrow>
        if map_option doc_expected_source_sha256 (lookup_by doc_id (pc_document_id c) (db_documents (w_db w)))
             = Some input_sha
        then wp (acquire_processing_claim E (pc_job_id c) token)
          (\<lambda>acq w''. page_count \<le> 5 \<and> acq = Replayed res \<and> w_db w'' = w_db w')
          (\<lambda>e w''. 5 < page_count \<and> e = ValidationError ''full_clean'' \<and> w_db w'' = w_db w') w'
        else True)
     (\<lambda>_ _. True) w"
  unfolding commit_issuance_result_def wp_atomic
proof (rule wp_mono [OF commit_body_wp], goal_cases)
  case (1 result w')
  show ?case
  proof (cases result)
    case (Some res)
    with 1 obtain j i x x0 r where v: "committed_view E (w_db w') j i x r" and j: "job_id j = pc_job_id c"
      and x0: "lookup_by doc_id (pc_document_id c) (db_documents (w_db w)) = Some x0"
        "doc_expected_source_sha256 x = doc_expected_source_sha256 x0"
      and r: "dir_input_sha256 r = Some input_sha" "dir_page_count r = Some page_count"
        "res = result_from_evidence (pe_settings E) r"
      using issuance_committed_view [of E c input_sha output_sha page_count candidate ms seed] by (auto, blast)
    show ?thesis
    proof (cases "doc_expected_source_sha256 x0 = input_sha")
      case True
      with r x0 have "dir_input_sha256 r = Some (doc_expected_source_sha256 x)" by simp
      from replay_acquire [OF v this r(2), of token] show ?thesis by (simp add: Some x0 True r(3) j)
    qed (simp add: Some x0)
  qed simp
qed simp

text \<open>
  C3. A claimed job that returns a result has delivered, for every object store that keeps the contract
  verified_object_storage (among them the store of the repository): the object under its output key holds the bytes of the artifact, stored with their
  size and digest, this artifact was built within the limits from the bytes that the source key held, which have the
  expected digest, and the database it committed to has evolved into the committed one for exactly these two
  digests, that page count and that candidate.
\<close>

theorem issuance_delivers:
  assumes "verified_object_storage ops stored content digest"
  shows "wp (process_claimed_job E ops c)
     (\<lambda>res w'. \<exists>d n cand sha seed key. fingerprint_key_for (pe_settings E) = Inr key \<and> signing_seed_for E = Inr seed
        \<and> db_evolves (w_db w) d
        \<and> delivered stored content digest E (w_limits w) c key (w_store w) (w_store w') n cand sha
        \<and> issuance_committed E c (pc_expected_source_sha256 c) sha (int n) cand (max 0 (pe_elapsed_ms E)) seed
            d (w_db w') res) (\<lambda>_ _. True) w"
  by (rule verified_object_storage.process_claimed_wp [OF assms])

end
