(* ===== verification/Suspect.thy ===== *)
theory Suspect
  imports Artifact Runtime
begin

text \<open>
  Reading a suspect file (\<open>demo/verification.py\<close>, lines 285 to 670): the dispatch on the file kind,
  the page and raster budgets, the JPEG header scan, the page hypotheses and the aggregation of the
  decisions of the fingerprint decoder. As in \<open>Artifact\<close>, pdfium, pypdf, OpenCV and the pixel-level
  routines (\<open>decode_fingerprint_v2\<close>, \<open>restore_frame\<close>) are parameters and a float is the rational
  it denotes.
\<close>

definition verification_error :: "string \<Rightarrow> exn" where
  "verification_error code = DemoVerificationError code 0"

section \<open>Parameters\<close>

text \<open>
  The strict reader's view of a page. Its objects are known only by their operations: the set of
  keys, \<open>get\<close>, indexing, resolution of a reference, comparison with a text and \<open>int()\<close>, any of
  which may raise. \<open>PyPdfError\<close> is among the \<open>ValueError\<close>s.
\<close>

type_synonym pdf_handle = nat

record pdf_object_ops =
  po_keys :: "pdf_handle \<Rightarrow> exn + string list"
  po_get :: "pdf_handle \<Rightarrow> string \<Rightarrow> exn + pdf_handle option"
  po_item :: "pdf_handle \<Rightarrow> string \<Rightarrow> exn + pdf_handle"
  po_object :: "pdf_handle \<Rightarrow> exn + pdf_handle"
  po_equals :: "pdf_handle \<Rightarrow> string \<Rightarrow> bool"
  po_int :: "pdf_handle \<Rightarrow> exn + int"

record reader_page =
  rp_user_unit :: "exn + rat option"
  rp_rotation :: "exn + int"
  rp_object :: pdf_handle
  rp_mediabox :: "exn + rat option list"
  rp_cropbox :: "exn + rat option list"
  rp_contents :: "exn + bytes option"

record decode_decision =
  dd_issuance_id :: "uuid option"
  dd_confidence :: rat
  dd_valid_votes :: int
  dd_status :: string

record suspect_libs =
  sl_raster :: raster_libs
  sl_objects :: pdf_object_ops
  sl_reader :: "bytes \<Rightarrow> exn + bool \<times> reader_page list"
  sl_decode_unchanged :: "bytes \<Rightarrow> nat list option"
  sl_restore_frame :: "raster \<Rightarrow> exn + raster option"
  sl_decode :: "raster \<Rightarrow> bytes \<Rightarrow> nat \<Rightarrow> string \<Rightarrow> exn + decode_decision"

definition page_index_hypotheses :: nat where
  "page_index_hypotheses = 5"

definition unknown_page_min_consistent_decodes :: nat where
  "unknown_page_min_consistent_decodes = 1"

definition pdf_render_scale :: rat where
  "pdf_render_scale = 2"

section \<open>Decisions\<close>

record decode_summary =
  ds_issuance_id :: "uuid option"
  ds_confidence :: rat
  ds_valid_votes :: int
  ds_status :: string

definition summary :: "uuid option \<Rightarrow> rat \<Rightarrow> int \<Rightarrow> string \<Rightarrow> decode_summary" where
  "summary k confidence votes status = \<lparr>ds_issuance_id = k, ds_confidence = confidence,
     ds_valid_votes = votes, ds_status = status\<rparr>"

text \<open>\<open>max(values, default=0.0)\<close>.\<close>

definition max_default :: "rat list \<Rightarrow> rat" where
  "max_default xs = (case xs of [] \<Rightarrow> 0 | x # rest \<Rightarrow> foldl max x rest)"

definition decoded_ids :: "decode_decision list \<Rightarrow> uuid option list" where
  "decoded_ids decisions = remdups (map dd_issuance_id (filter (\<lambda>d. dd_status d = ''decoded'') decisions))"

definition first_present :: "string list \<Rightarrow> string list \<Rightarrow> string option" where
  "first_present wanted statuses = find (\<lambda>s. s \<in> set statuses) wanted"

definition aggregate_decisions :: "decode_decision list \<Rightarrow> exn + decode_summary" where
  "aggregate_decisions decisions =
     (let decoded = decoded_ids decisions;
          confidence = max_default (map dd_confidence decisions);
          valid_votes = sum_list (map dd_valid_votes decisions);
          statuses = map dd_status decisions
      in if ''partial_payload_evidence'' \<in> set statuses \<or> length decoded > 1
         then Inr (summary None confidence valid_votes ''partial_payload_evidence'')
         else (case decoded of
           [k] \<Rightarrow> Inr (summary k confidence valid_votes ''decoded'')
         | _ \<Rightarrow> (case first_present [''geometry_rejected'', ''payload_not_detected'',
                    ''insufficient_sync_evidence''] statuses of
             Some status \<Rightarrow> Inr (summary None confidence valid_votes status)
           | None \<Rightarrow> Inl (verification_error ''DEMO_FINGERPRINT_DECODE_FAILED''))))"

definition aggregate_unknown_page_decisions :: "decode_decision list \<Rightarrow> exn + decode_summary" where
  "aggregate_unknown_page_decisions decisions =
     sum_then (aggregate_decisions decisions) (\<lambda>s.
       if ds_status s \<noteq> ''decoded'' then Inr s
       else (let support = length (filter (\<lambda>d. dd_status d = ''decoded'' \<and> dd_issuance_id d = ds_issuance_id s) decisions)
             in if ds_issuance_id s = None \<or> support < unknown_page_min_consistent_decodes
                then Inr (summary None (ds_confidence s) (ds_valid_votes s) ''partial_payload_evidence'')
                else Inr s))"

definition conclusive :: "string \<Rightarrow> bool" where
  "conclusive status \<longleftrightarrow> status \<in> {''decoded'', ''partial_payload_evidence''}"

text \<open>
  Each profile in turn until one is conclusive, else what the first profile said. Without a profile
  there is no decision, and the aggregation stumbles over the missing one.
\<close>

fun first_conclusive :: "(string \<Rightarrow> exn + decode_decision) \<Rightarrow> decode_decision option \<Rightarrow> string list
    \<Rightarrow> exn + decode_decision option" where
  "first_conclusive decode fallback [] = Inr fallback"
| "first_conclusive decode fallback (candidate # rest) =
     sum_then (decode candidate) (\<lambda>d.
       if conclusive (dd_status d) then Inr (Some d)
       else first_conclusive decode (case fallback of None \<Rightarrow> Some d | Some f \<Rightarrow> Some f) rest)"

definition first_conclusive_decision ::
  "suspect_libs \<Rightarrow> raster \<Rightarrow> bytes \<Rightarrow> nat \<Rightarrow> string list \<Rightarrow> exn + decode_decision option" where
  "first_conclusive_decision V canvas key page_index candidates =
     first_conclusive (sl_decode V canvas key page_index) None candidates"

definition present_decisions :: "decode_decision option list \<Rightarrow> exn + decode_decision list" where
  "present_decisions = sum_map (\<lambda>d. case d of
     None \<Rightarrow> Inl (AttributeError ''NoneType has no attribute status'') | Some x \<Rightarrow> Inr x)"

section \<open>Pages of a PDF\<close>

definition legacy_content :: bytes where
  "legacy_content = ascii ''q'' @ nl @ ascii ''1152 0 0 2304 0 0 cm'' @ nl @ ascii ''/Im0 Do'' @ nl
     @ ascii ''Q'' @ nl"

definition legacy_box :: "rat option list" where
  "legacy_box = [Some 0, Some 0, Some 1152, Some 2304]"

text \<open>\<open>set(o) == {...}\<close> and \<open>o.get(k) == "..."\<close>, in sequence with short circuits.\<close>

definition sum_and :: "exn + bool \<Rightarrow> (unit \<Rightarrow> exn + bool) \<Rightarrow> exn + bool" where
  "sum_and a b = sum_then a (\<lambda>x. if x then b () else Inr False)"

definition keys_are :: "pdf_object_ops \<Rightarrow> pdf_handle \<Rightarrow> string list \<Rightarrow> exn + bool" where
  "keys_are W k names = sum_then (po_keys W k) (\<lambda>ks. Inr (set ks = set names))"

definition entry_is :: "pdf_object_ops \<Rightarrow> pdf_handle \<Rightarrow> string \<Rightarrow> string \<Rightarrow> exn + bool" where
  "entry_is W k name text = sum_then (po_get W k name) (\<lambda>v. case v of
     None \<Rightarrow> Inr False | Some x \<Rightarrow> Inr (po_equals W x text))"

definition entry_int_is :: "pdf_object_ops \<Rightarrow> pdf_handle \<Rightarrow> string \<Rightarrow> int \<Rightarrow> exn + bool" where
  "entry_int_is W k name n = sum_then (po_get W k name) (\<lambda>v. case v of
     None \<Rightarrow> Inr (n = 0) | Some x \<Rightarrow> sum_then (po_int W x) (\<lambda>i. Inr (i = n)))"

text \<open>A present entry, resolved; \<open>None\<close> when it is missing.\<close>

definition resolved_entry :: "pdf_object_ops \<Rightarrow> pdf_handle \<Rightarrow> string \<Rightarrow> exn + pdf_handle option" where
  "resolved_entry W k name = sum_then (po_get W k name) (\<lambda>v. case v of
     None \<Rightarrow> Inr None | Some x \<Rightarrow> sum_then (po_object W x) (\<lambda>y. Inr (Some y)))"

definition legacy_image :: "pdf_object_ops \<Rightarrow> pdf_handle \<Rightarrow> exn + bool" where
  "legacy_image W image_object =
     sum_and (keys_are W image_object [''/Type'', ''/Subtype'', ''/Width'', ''/Height'', ''/ColorSpace'',
        ''/BitsPerComponent'', ''/Filter'']) (\<lambda>_.
     sum_and (entry_is W image_object ''/Type'' ''/XObject'') (\<lambda>_.
     sum_and (entry_is W image_object ''/Subtype'' ''/Image'') (\<lambda>_.
     sum_and (entry_is W image_object ''/Filter'' ''/DCTDecode'') (\<lambda>_.
     sum_and (entry_int_is W image_object ''/Width'' 1152) (\<lambda>_.
     sum_and (entry_int_is W image_object ''/Height'' 2304) (\<lambda>_.
     sum_and (entry_is W image_object ''/ColorSpace'' ''/DeviceRGB'') (\<lambda>_.
     entry_int_is W image_object ''/BitsPerComponent'' 8)))))))"

definition legacy_resources :: "pdf_object_ops \<Rightarrow> pdf_handle \<Rightarrow> exn + bool" where
  "legacy_resources W page =
     sum_then (resolved_entry W page ''/Resources'') (\<lambda>r. case r of None \<Rightarrow> Inr False | Some resources \<Rightarrow>
     sum_and (keys_are W resources [''/XObject'']) (\<lambda>_.
     sum_then (resolved_entry W resources ''/XObject'') (\<lambda>x. case x of None \<Rightarrow> Inr False | Some xobjects \<Rightarrow>
     sum_and (keys_are W xobjects [''/Im0'']) (\<lambda>_.
     sum_then (po_item W xobjects ''/Im0'') (\<lambda>i.
     sum_then (po_object W i) (legacy_image W))))))"

definition is_legacy_canonical_page :: "pdf_object_ops \<Rightarrow> reader_page \<Rightarrow> rat \<Rightarrow> exn + bool" where
  "is_legacy_canonical_page W page user_unit =
     (if user_unit \<noteq> 1 then Inr False
      else sum_and (sum_then (rp_rotation page) (\<lambda>r. Inr (r = 0))) (\<lambda>_.
      sum_and (keys_are W (rp_object page) [''/Type'', ''/Parent'', ''/MediaBox'', ''/Resources'', ''/Contents'']) (\<lambda>_.
      sum_and (entry_is W (rp_object page) ''/Type'' ''/Page'') (\<lambda>_.
      sum_and (sum_then (rp_mediabox page) (\<lambda>b. Inr (b = legacy_box))) (\<lambda>_.
      sum_and (sum_then (rp_cropbox page) (\<lambda>b. Inr (b = legacy_box))) (\<lambda>_.
      sum_and (sum_then (rp_contents page) (\<lambda>c. Inr (c = Some legacy_content))) (\<lambda>_.
      legacy_resources W (rp_object page))))))))"

definition metadata_error :: "exn \<Rightarrow> exn" where
  "metadata_error e = (case e of
     ValueError _ \<Rightarrow> verification_error ''DEMO_PDF_INVALID''
   | TypeError _ \<Rightarrow> verification_error ''DEMO_PDF_INVALID''
   | OverflowError _ \<Rightarrow> verification_error ''DEMO_PDF_INVALID''
   | KeyError _ \<Rightarrow> verification_error ''DEMO_PDF_INVALID''
   | _ \<Rightarrow> e)"

definition render_scale :: "pdf_object_ops \<Rightarrow> reader_page \<Rightarrow> rat \<Rightarrow> exn + rat" where
  "render_scale W page user_unit = sum_then (is_legacy_canonical_page W page user_unit) (\<lambda>legacy.
     Inr (if legacy then 1 else pdf_render_scale * user_unit))"

definition pdf_page_metadata :: "suspect_libs \<Rightarrow> bytes \<Rightarrow> nat \<Rightarrow> exn + rat list \<times> rat list" where
  "pdf_page_metadata V source page_count = sum_error metadata_error (
     sum_then (sl_reader V source) (\<lambda>(encrypted, pages).
     sum_then (sum_require (\<not> encrypted \<and> length pages = page_count) (verification_error ''DEMO_PDF_INVALID'')) (\<lambda>_.
     sum_then (sum_map rp_user_unit pages) (\<lambda>units.
     sum_then (sum_require (list_all unit_ok units) (verification_error ''DEMO_PDF_INVALID'')) (\<lambda>_.
     sum_then (sum_map (\<lambda>(page, unit). render_scale (sl_objects V) page unit) (zip pages (map the units))) (\<lambda>scales.
     Inr (map the units, scales)))))))"

text \<open>\<open>math.ceil(size * scale)\<close>; infinity cannot be rounded up.\<close>

definition scaled_extent :: "raster_libs \<Rightarrow> rat \<Rightarrow> rat \<Rightarrow> exn + int" where
  "scaled_extent R extent scale = (case rl_float R (extent * scale) of
     None \<Rightarrow> Inl (OverflowError ''cannot convert float infinity to integer'')
   | Some x \<Rightarrow> Inr \<lceil>x\<rceil>)"

fun pdf_raster_budget :: "raster_libs \<Rightarrow> limits \<Rightarrow> int \<Rightarrow> (pdf_page \<times> rat) list \<Rightarrow> exn + int" where
  "pdf_raster_budget R li cumulative [] = Inr cumulative"
| "pdf_raster_budget R li cumulative ((page, scale) # rest) =
     (case pg_page_size page of
        (Some width, Some height) \<Rightarrow>
          if \<not> (0 < width \<and> 0 < height) then Inl (verification_error ''DEMO_PDF_INVALID'')
          else sum_then (scaled_extent R width scale) (\<lambda>render_width.
            sum_then (scaled_extent R height scale) (\<lambda>render_height.
            (let total = cumulative + render_width * render_height in
             if total > lim_max_document_raster_pixels li
             then Inl (verification_error ''DEMO_INPUT_RASTER_LIMIT'')
             else pdf_raster_budget R li total rest)))
      | _ \<Rightarrow> Inl (verification_error ''DEMO_PDF_INVALID''))"

definition validate_pdf_raster_budget :: "raster_libs \<Rightarrow> limits \<Rightarrow> pdf_page list \<Rightarrow> rat list \<Rightarrow> exn + unit" where
  "validate_pdf_raster_budget R li pages scales =
     sum_then (pdf_raster_budget R li 0 (zip pages scales)) (\<lambda>_. Inr ())"

text \<open>Opening a PDF and checking its pages: the common beginning of both ways to read one.\<close>

definition open_suspect_pdf :: "suspect_libs \<Rightarrow> limits \<Rightarrow> bytes \<Rightarrow> exn + pdf_page list \<times> rat list" where
  "open_suspect_pdf V li source = (case rl_open (sl_raster V) source of
     Inl encrypted \<Rightarrow> Inl (verification_error (if encrypted then ''DEMO_PDF_ENCRYPTED'' else ''DEMO_PDF_INVALID''))
   | Inr pages \<Rightarrow>
       sum_then (sum_require (1 \<le> length pages \<and> int (length pages) \<le> lim_max_pdf_pages li)
                   (verification_error ''DEMO_PDF_PAGE_LIMIT'')) (\<lambda>_.
       sum_then (pdf_page_metadata V source (length pages)) (\<lambda>(units, scales).
       sum_then (validate_pdf_raster_budget (sl_raster V) li pages scales) (\<lambda>_.
       Inr (pages, scales)))))"

definition page_canvas :: "suspect_libs \<Rightarrow> pdf_page \<Rightarrow> rat \<Rightarrow> exn + raster" where
  "page_canvas V page scale =
     sum_then (pg_render page scale) (\<lambda>img.
     sum_then (sum_require (length (ra_shape img) = 3 \<and> ra_shape img ! 2 \<in> {3, 4})
                 (verification_error ''DEMO_PDF_RENDER_FAILED'')) (\<lambda>_.
     sum_then (canonicalize_page (sl_raster V)
                 (if ra_shape img ! 2 = 4 then rl_drop_alpha (sl_raster V) img else img)) (\<lambda>c.
     Inr (cp_canvas c))))"

fun decode_pages ::
  "suspect_libs \<Rightarrow> bytes \<Rightarrow> string list \<Rightarrow> nat \<Rightarrow> (pdf_page \<times> rat) list \<Rightarrow> exn + decode_decision option list" where
  "decode_pages V key candidates page_index [] = Inr []"
| "decode_pages V key candidates page_index ((page, scale) # rest) =
     sum_then (page_canvas V page scale) (\<lambda>canvas.
     sum_then (first_conclusive_decision V canvas key page_index candidates) (\<lambda>d.
     sum_then (decode_pages V key candidates (Suc page_index) rest) (\<lambda>ds. Inr (d # ds))))"

definition decode_pdf :: "suspect_libs \<Rightarrow> limits \<Rightarrow> bytes \<Rightarrow> bytes \<Rightarrow> string list \<Rightarrow> exn + decode_summary \<times> int" where
  "decode_pdf V li source key candidates =
     sum_then (open_suspect_pdf V li source) (\<lambda>(pages, scales).
     sum_then (decode_pages V key candidates 0 (zip pages scales)) (\<lambda>found.
     sum_then (present_decisions found) (\<lambda>decisions.
     sum_then (aggregate_decisions decisions) (\<lambda>s. Inr (s, int (length pages))))))"

section \<open>Images\<close>

text \<open>\<open>struct.unpack\<close> of a big-endian unsigned integer.\<close>

definition big_endian :: "bytes \<Rightarrow> nat" where
  "big_endian bs = foldl (\<lambda>n b. 256 * n + unat b) 0 bs"

definition slice :: "nat \<Rightarrow> nat \<Rightarrow> 'a list \<Rightarrow> 'a list" where
  "slice i j xs = take (j - i) (drop i xs)"

definition start_of_frame :: "byte list" where
  "start_of_frame = [0xC0, 0xC1, 0xC2, 0xC3, 0xC5, 0xC6, 0xC7, 0xC9, 0xCA, 0xCB, 0xCD, 0xCE, 0xCF]"

text \<open>
  One turn of the scan: the scan goes on at an offset, or it ends, with the dimensions of the first
  frame header or without.
\<close>

datatype jpeg_turn = JpegNext nat | JpegSize "nat \<times> nat" | JpegInvalid

definition jpeg_turn :: "bytes \<Rightarrow> nat \<Rightarrow> jpeg_turn" where
  "jpeg_turn source start =
     (if source ! start \<noteq> 0xFF then JpegInvalid
      else (let marker_at = start + length (takeWhile (\<lambda>b. b = 0xFF) (drop start source)) in
        if marker_at \<ge> length source then JpegInvalid
        else (let marker = source ! marker_at; offset = marker_at + 1 in
          if marker \<in> {0x00, 0xD8} then JpegNext offset
          else if marker \<in> {0xD9, 0xDA} then JpegInvalid
          else if marker = 0x01 \<or> 0xD0 \<le> marker \<and> marker \<le> 0xD7 then JpegNext offset
          else if offset + 2 > length source then JpegInvalid
          else (let segment_length = big_endian (slice offset (offset + 2) source) in
            if segment_length < 2 \<or> offset + segment_length > length source then JpegInvalid
            else if marker \<in> set start_of_frame then
              (if segment_length < 8 then JpegInvalid
               else JpegSize (big_endian (slice (offset + 5) (offset + 7) source),
                              big_endian (slice (offset + 3) (offset + 5) source)))
            else JpegNext (offset + segment_length)))))"

lemma jpeg_turn_advances: "jpeg_turn source start = JpegNext next \<Longrightarrow> start < next"
  by (auto simp: jpeg_turn_def Let_def split: if_splits)

function jpeg_scan :: "bytes \<Rightarrow> nat \<Rightarrow> (nat \<times> nat) option" where
  "jpeg_scan source offset =
     (if offset < length source
      then (case jpeg_turn source offset of
        JpegNext next \<Rightarrow> jpeg_scan source next | JpegSize dims \<Rightarrow> Some dims | JpegInvalid \<Rightarrow> None)
      else None)"
  by auto
termination
  by (relation "measure (\<lambda>(source, offset). length source - offset)") (auto dest: jpeg_turn_advances)

declare jpeg_scan.simps [simp del]

definition jpeg_dimensions :: "bytes \<Rightarrow> exn + nat \<times> nat" where
  "jpeg_dimensions source = (case jpeg_scan source 2 of
     None \<Rightarrow> Inl (verification_error ''DEMO_IMAGE_INVALID'') | Some dims \<Rightarrow> Inr dims)"

definition validate_image_dimensions :: "limits \<Rightarrow> nat \<Rightarrow> nat \<Rightarrow> exn + unit" where
  "validate_image_dimensions li width height =
     (if width = 0 \<or> height = 0 then Inl (verification_error ''DEMO_IMAGE_INVALID'')
      else if int (width * height) > lim_max_image_pixels li
      then Inl (verification_error ''DEMO_INPUT_RASTER_LIMIT'')
      else Inr ())"

definition geometry_hypotheses :: "suspect_libs \<Rightarrow> raster \<Rightarrow> exn + raster list" where
  "geometry_hypotheses V img =
     sum_then (canonicalize_page (sl_raster V) img) (\<lambda>c.
     sum_then (sl_restore_frame V img) (\<lambda>restored.
     Inr (cp_canvas c # (case restored of None \<Rightarrow> [] | Some r \<Rightarrow> [r]))))"

definition decode_hypothesis :: "suspect_libs \<Rightarrow> bytes \<Rightarrow> string list \<Rightarrow> raster \<Rightarrow> exn + decode_summary" where
  "decode_hypothesis V key candidates page =
     sum_then (sum_map (\<lambda>i. first_conclusive_decision V page key i candidates) [0..<page_index_hypotheses]) (\<lambda>found.
     sum_then (present_decisions found) aggregate_unknown_page_decisions)"

fun first_conclusive_summary :: "(raster \<Rightarrow> exn + decode_summary) \<Rightarrow> decode_summary option \<Rightarrow> raster list
    \<Rightarrow> exn + decode_summary option" where
  "first_conclusive_summary decode fallback [] = Inr fallback"
| "first_conclusive_summary decode fallback (page # rest) =
     sum_then (decode page) (\<lambda>s.
       if conclusive (ds_status s) then Inr (Some s)
       else first_conclusive_summary decode (case fallback of None \<Rightarrow> Some s | Some f \<Rightarrow> Some f) rest)"

text \<open>There is always a first hypothesis, so there is always a summary.\<close>

definition decode_image ::
  "suspect_libs \<Rightarrow> bytes \<Rightarrow> nat \<Rightarrow> nat \<Rightarrow> bytes \<Rightarrow> string list \<Rightarrow> exn + decode_summary \<times> int" where
  "decode_image V source width height key candidates =
     (case rl_decode_image (sl_raster V) source of
        None \<Rightarrow> Inl (verification_error ''DEMO_IMAGE_INVALID'')
      | Some img \<Rightarrow>
          sum_then (sum_require (ra_shape img = [height, width, 3]) (verification_error ''DEMO_IMAGE_INVALID'')) (\<lambda>_.
          sum_then (geometry_hypotheses V img) (\<lambda>pages.
          sum_then (first_conclusive_summary (decode_hypothesis V key candidates) None pages) (\<lambda>found.
          Inr (the found, 1)))))"

definition png_dimensions :: "bytes \<Rightarrow> exn + nat \<times> nat" where
  "png_dimensions source =
     (if length source < 33 \<or> slice 8 12 source \<noteq> [0, 0, 0, 13] \<or> slice 12 16 source \<noteq> ascii ''IHDR''
      then Inl (verification_error ''DEMO_IMAGE_INVALID'')
      else Inr (big_endian (slice 16 20 source), big_endian (slice 20 24 source)))"

definition decode_sized ::
  "suspect_libs \<Rightarrow> limits \<Rightarrow> bytes \<Rightarrow> exn + nat \<times> nat \<Rightarrow> bytes \<Rightarrow> string list \<Rightarrow> exn + decode_summary \<times> int" where
  "decode_sized V li source dims key candidates =
     sum_then dims (\<lambda>(width, height).
     sum_then (validate_image_dimensions li width height) (\<lambda>_.
     decode_image V source width height key candidates))"

definition decode_png :: "suspect_libs \<Rightarrow> limits \<Rightarrow> bytes \<Rightarrow> bytes \<Rightarrow> string list \<Rightarrow> exn + decode_summary \<times> int" where
  "decode_png V li source key candidates = decode_sized V li source (png_dimensions source) key candidates"

definition decode_jpeg :: "suspect_libs \<Rightarrow> limits \<Rightarrow> bytes \<Rightarrow> bytes \<Rightarrow> string list \<Rightarrow> exn + decode_summary \<times> int" where
  "decode_jpeg V li source key candidates = decode_sized V li source (jpeg_dimensions source) key candidates"

section \<open>The two ways to read a file\<close>

definition decode_content ::
  "suspect_libs \<Rightarrow> limits \<Rightarrow> bytes \<Rightarrow> bytes \<Rightarrow> string list \<Rightarrow> exn + decode_summary \<times> int" where
  "decode_content V li source key candidates =
     (if int (length source) > lim_max_pdf_bytes li then Inl (verification_error ''DEMO_INPUT_FILE_LIMIT'')
      else if prefix (ascii ''%PDF-'') source then decode_pdf V li source key candidates
      else if prefix png_magic source then decode_png V li source key candidates
      else if prefix jpeg_magic source then decode_jpeg V li source key candidates
      else Inl (verification_error ''DEMO_INPUT_FORMAT_INVALID''))"

definition inspect_image :: "suspect_libs \<Rightarrow> limits \<Rightarrow> bytes \<Rightarrow> exn + int" where
  "inspect_image V li source = (case sl_decode_unchanged V source of
     None \<Rightarrow> Inl (verification_error ''DEMO_IMAGE_INVALID'')
   | Some shape \<Rightarrow>
       sum_then (sum_require (length shape \<in> {2, 3}) (verification_error ''DEMO_IMAGE_INVALID'')) (\<lambda>_.
       sum_then (validate_image_dimensions li (shape ! 1) (shape ! 0)) (\<lambda>_. Inr 1)))"

definition inspect_integrity_content :: "suspect_libs \<Rightarrow> limits \<Rightarrow> bytes \<Rightarrow> exn + int" where
  "inspect_integrity_content V li source =
     (if int (length source) > lim_max_pdf_bytes li then Inl (verification_error ''DEMO_INPUT_FILE_LIMIT'')
      else if prefix (ascii ''%PDF-'') source
      then sum_then (open_suspect_pdf V li source) (\<lambda>(pages, scales). Inr (int (length pages)))
      else if prefix png_magic source \<or> prefix jpeg_magic source then inspect_image V li source
      else Inl (verification_error ''DEMO_INPUT_FORMAT_INVALID''))"

section \<open>Facts\<close>

lemma jpeg_turn_next:
  assumes "jpeg_turn source start = JpegNext next" "start < length source"
  shows "start + 2 \<le> next \<and> start + 2 \<le> length source"
proof -
  let ?k = "length (takeWhile (\<lambda>b. b = 0xFF) (drop start source))"
  from assms have ff: "source ! start = 0xFF" by (auto simp: jpeg_turn_def split: if_splits)
  have "drop start source = source ! start # drop (Suc start) source"
    using assms(2) by (simp add: Cons_nth_drop_Suc)
  with ff have "1 \<le> ?k" by simp
  moreover have "start + ?k < length source" and "start + ?k + 1 \<le> next"
    using assms(1) by (auto simp: jpeg_turn_def Let_def split: if_splits)
  ultimately show ?thesis by linarith
qed

text \<open>The scan with a bound on its turns.\<close>

fun jpeg_turns :: "nat \<Rightarrow> bytes \<Rightarrow> nat \<Rightarrow> (nat \<times> nat) option option" where
  "jpeg_turns 0 source offset = None"
| "jpeg_turns (Suc n) source offset =
     (if offset < length source
      then (case jpeg_turn source offset of
        JpegNext next \<Rightarrow> jpeg_turns n source next | JpegSize dims \<Rightarrow> Some (Some dims) | JpegInvalid \<Rightarrow> Some None)
      else Some None)"

lemma jpeg_turns_enough:
  "length source \<le> offset + 2 * n + 1 \<Longrightarrow> jpeg_turns (Suc n) source offset = Some (jpeg_scan source offset)"
proof (induction n arbitrary: offset)
  case 0
  then show ?case
    using jpeg_turn_next [of source offset] by (auto simp: jpeg_scan.simps [of source offset] split: jpeg_turn.split)
next
  case (Suc n)
  show ?case
  proof (cases "offset < length source")
    case True
    show ?thesis
    proof (cases "jpeg_turn source offset")
      case (JpegNext later)
      then have "offset + 2 \<le> later" using jpeg_turn_next True by blast
      with Suc.prems have "length source \<le> later + 2 * n + 1" by simp
      from Suc.IH [OF this] show ?thesis
        using True JpegNext by (simp add: jpeg_scan.simps [of source offset] del: jpeg_turns.simps)
          (simp only: jpeg_turns.simps(2) [of "Suc n"] True if_True JpegNext jpeg_turn.case)
    qed (simp_all add: True jpeg_scan.simps [of source offset])
  qed (simp add: jpeg_scan.simps [of source offset])
qed

lemma big_endian_bound: "big_endian bs < 256 ^ length bs"
proof -
  have "foldl (\<lambda>n b. 256 * n + unat b) k bs < (k + 1) * 256 ^ length bs" for k :: nat and bs :: bytes
  proof (induction bs arbitrary: k)
    case (Cons b bs)
    have "foldl (\<lambda>n b. 256 * n + unat b) k (b # bs) < (256 * k + unat b + 1) * 256 ^ length bs"
      using Cons [of "256 * k + unat b"] by simp
    also have "256 * k + unat b + 1 \<le> 256 * (k + 1)" using unat_byte_less [of b] by simp
    then have "(256 * k + unat b + 1) * 256 ^ length bs \<le> 256 * (k + 1) * 256 ^ length bs"
      by (rule mult_le_mono1)
    also have "\<dots> = (k + 1) * 256 ^ length (b # bs)" by (simp add: algebra_simps)
    finally show ?case .
  qed simp
  from this [of 0 bs] show ?thesis by (simp add: big_endian_def)
qed

lemma jpeg_turn_size:
  "jpeg_turn source start = JpegSize (w, h) \<Longrightarrow> w < 65536 \<and> h < 65536"
proof -
  have two: "big_endian (slice i j source) < 65536" if "j \<le> i + 2" for i j
  proof -
    have "length (slice i j source) \<le> 2" using that by (simp add: slice_def)
    then have "(256 :: nat) ^ length (slice i j source) \<le> 256 ^ 2" by (intro power_increasing) auto
    with big_endian_bound [of "slice i j source"] show ?thesis by simp
  qed
  assume "jpeg_turn source start = JpegSize (w, h)"
  then show ?thesis
    by (auto simp: jpeg_turn_def Let_def split: if_splits intro!: two)
qed

lemma jpeg_scan_size: "jpeg_scan source offset = Some (w, h) \<Longrightarrow> w < 65536 \<and> h < 65536"
proof (induction source offset rule: jpeg_scan.induct)
  case (1 source offset)
  then show ?case
    by (auto simp: jpeg_scan.simps [of source offset] split: if_splits jpeg_turn.splits dest: jpeg_turn_size)
qed

lemma set_decoded_ids: "set (decoded_ids ds) = dd_issuance_id ` {d \<in> set ds. dd_status d = ''decoded''}"
  by (simp add: decoded_ids_def)

lemma decoded_ids_single: "decoded_ids ds = [k] \<longleftrightarrow> set (decoded_ids ds) = {k}"
proof
  assume "set (decoded_ids ds) = {k}"
  moreover have d: "distinct (decoded_ids ds)" by (simp add: decoded_ids_def)
  ultimately have "length (decoded_ids ds) = 1" using distinct_card [OF d] by simp
  then obtain x where "decoded_ids ds = [x]" by (metis One_nat_def length_0_conv length_Suc_conv)
  with \<open>set (decoded_ids ds) = {k}\<close> show "decoded_ids ds = [k]" by simp
qed simp

lemma first_present_other:
  "first_present [''geometry_rejected'', ''payload_not_detected'', ''insufficient_sync_evidence''] ss = Some s \<Longrightarrow>
     s \<noteq> ''decoded'' \<and> s \<noteq> ''partial_payload_evidence''"
  by (auto simp: first_present_def split: if_splits)

lemma aggregate_Inr:
  assumes "aggregate_decisions ds = Inr s"
  shows "ds_valid_votes s = sum_list (map dd_valid_votes ds)
     \<and> ds_confidence s = max_default (map dd_confidence ds)
     \<and> (if ds_status s = ''decoded'' then decoded_ids ds = [ds_issuance_id s]
            \<and> ''partial_payload_evidence'' \<notin> dd_status ` set ds
        else ds_issuance_id s = None \<and> \<not> (\<exists>k. decoded_ids ds = [k] \<and> ''partial_payload_evidence'' \<notin> dd_status ` set ds))"
  using assms first_present_other
  by (auto simp: aggregate_decisions_def Let_def summary_def split: if_splits list.splits option.splits)

lemma pdf_raster_budget_bound:
  "pdf_raster_budget R li c ps = Inr t \<Longrightarrow> ps \<noteq> [] \<Longrightarrow> t \<le> lim_max_document_raster_pixels li"
proof (induction R li c ps rule: pdf_raster_budget.induct)
  case (2 R li c page scale rest)
  show ?case
  proof (cases "rest = []")
    case True
    with 2(2) show ?thesis by (auto simp: sum_then_Inr Let_def split: option.splits if_splits prod.splits)
  next
    case False
    with 2 show ?thesis by (auto simp: sum_then_Inr Let_def split: option.splits if_splits prod.splits)
  qed
qed simp

lemma pdf_page_metadata_length:
  assumes "pdf_page_metadata V source n = Inr (units, scales)"
  shows "length units = n \<and> length scales = n"
  using assms
  by (auto simp: pdf_page_metadata_def sum_then_Inr split: prod.splits dest!: sum_map_length)

lemma open_suspect_pdf_Inr:
  assumes "open_suspect_pdf V li source = Inr (pages, scales)"
  shows "1 \<le> length pages \<and> int (length pages) \<le> lim_max_pdf_pages li \<and> length scales = length pages
     \<and> (\<exists>t. pdf_raster_budget (sl_raster V) li 0 (zip pages scales) = Inr t \<and> t \<le> lim_max_document_raster_pixels li)"
proof -
  from assms obtain units t where *: "1 \<le> length pages" "int (length pages) \<le> lim_max_pdf_pages li"
    "pdf_page_metadata V source (length pages) = Inr (units, scales)"
    "pdf_raster_budget (sl_raster V) li 0 (zip pages scales) = Inr t"
    by (cases "rl_open (sl_raster V) source")
       (auto simp: open_suspect_pdf_def sum_then_Inr validate_pdf_raster_budget_def split: prod.splits)
  then have l: "length scales = length pages" using pdf_page_metadata_length by blast
  with * have "zip pages scales \<noteq> []" by (cases pages; cases scales) auto
  with * l pdf_raster_budget_bound [OF *(4)] show ?thesis by blast
qed

lemma decode_image_Inr:
  "decode_image V source w h key cs = Inr (s, n) \<Longrightarrow>
     n = 1 \<and> (\<exists>img. rl_decode_image (sl_raster V) source = Some img \<and> ra_shape img = [h, w, 3])"
  by (auto simp: decode_image_def sum_then_Inr split: option.splits)

lemma decode_sized_Inr:
  "decode_sized V li source dims key cs = Inr (s, n) \<Longrightarrow> n = 1
     \<and> (\<exists>img w h. rl_decode_image (sl_raster V) source = Some img \<and> ra_shape img = [h, w, 3]
         \<and> 0 < w \<and> 0 < h \<and> int (w * h) \<le> lim_max_image_pixels li)"
  by (auto simp: decode_sized_def sum_then_Inr validate_image_dimensions_def dest!: decode_image_Inr
      split: prod.splits if_splits)

section \<open>Properties\<close>

text \<open>
  The scan of a JPEG header ends: every turn moves the offset past a marker of two bytes, so half as
  many turns as there are bytes, and one more, are enough for any file and any start; and the size
  it reads fits in 16 bits a side.
\<close>

theorem jpeg_scan_ends:
  "jpeg_turns (Suc (length source div 2)) source offset = Some (jpeg_scan source offset)
     \<and> (case jpeg_scan source offset of None \<Rightarrow> True | Some (width, height) \<Rightarrow> width < 65536 \<and> height < 65536)"
proof -
  have "length source \<le> offset + 2 * (length source div 2) + 1" by linarith
  from jpeg_turns_enough [OF this] show ?thesis
    by (auto split: option.split dest: jpeg_scan_size)
qed

text \<open>
  C32. The summary of a page whose number is not known names an issuance exactly when the decisions are
  unanimous: some hypothesis decoded, all that decoded agree on one issuance, and none found partial
  evidence; otherwise it names none. The votes are those of all hypotheses.
\<close>

theorem decision_is_unanimous:
  "case aggregate_unknown_page_decisions ds of
     Inl e \<Rightarrow> e = verification_error ''DEMO_FINGERPRINT_DECODE_FAILED''
   | Inr s \<Rightarrow> ds_valid_votes s = sum_list (map dd_valid_votes ds)
       \<and> (ds_status s = ''decoded'') = (\<exists>k. dd_issuance_id ` {d \<in> set ds. dd_status d = ''decoded''} = {Some k}
            \<and> ''partial_payload_evidence'' \<notin> dd_status ` set ds)
       \<and> (if ds_status s = ''decoded''
          then \<exists>k. ds_issuance_id s = Some k \<and> dd_issuance_id ` {d \<in> set ds. dd_status d = ''decoded''} = {Some k}
          else ds_issuance_id s = None)"
proof (cases "aggregate_decisions ds")
  case (Inl e)
  then have "e = verification_error ''DEMO_FINGERPRINT_DECODE_FAILED''"
    by (auto simp: aggregate_decisions_def Let_def split: if_splits list.splits option.splits)
  with Inl show ?thesis by (simp add: aggregate_unknown_page_decisions_def)
next
  case (Inr s)
  define I where "I = dd_issuance_id ` {d \<in> set ds. dd_status d = ''decoded''}"
  have ids: "decoded_ids ds = [k] \<longleftrightarrow> I = {k}" for k
    unfolding decoded_ids_single set_decoded_ids I_def ..
  note a = aggregate_Inr [OF Inr, unfolded ids]
  show ?thesis
  proof (cases "ds_status s = ''decoded''")
    case False
    then show ?thesis using a by (auto simp: aggregate_unknown_page_decisions_def Inr I_def [symmetric])
  next
    case True
    then have I: "I = {ds_issuance_id s}" using a by simp
    show ?thesis
    proof (cases "ds_issuance_id s")
      case None
      then show ?thesis using a True I
        by (simp add: aggregate_unknown_page_decisions_def Inr summary_def I_def [symmetric])
    next
      case (Some k)
      from I have "ds_issuance_id s \<in> I" by simp
      then have "filter (\<lambda>d. dd_status d = ''decoded'' \<and> dd_issuance_id d = Some k) ds \<noteq> []"
        by (auto simp: I_def Some filter_empty_conv)
      then show ?thesis using a True I Some
        by (simp add: aggregate_unknown_page_decisions_def Inr Let_def I_def [symmetric]
            unknown_page_min_consistent_decodes_def Suc_le_eq)
    qed
  qed
qed

text \<open>
  A suspect file is decoded only within the limits: the file within the byte limit; a PDF with at
  least one page, no more than the page limit, and pages whose rendered areas add up to no more than
  the pixel limit; an image as one page whose declared size is its decoded size, not empty and
  within the image limit.
\<close>

theorem suspect_within_limits:
  "case decode_content V li source key candidates of
     Inl e \<Rightarrow> True
   | Inr (s, n) \<Rightarrow> int (length source) \<le> lim_max_pdf_bytes li
       \<and> (if prefix (ascii ''%PDF-'') source
          then \<exists>pages scales t. open_suspect_pdf V li source = Inr (pages, scales) \<and> n = int (length pages)
            \<and> 1 \<le> n \<and> n \<le> lim_max_pdf_pages li \<and> length scales = length pages
            \<and> pdf_raster_budget (sl_raster V) li 0 (zip pages scales) = Inr t
            \<and> t \<le> lim_max_document_raster_pixels li
          else n = 1 \<and> (\<exists>img w h. rl_decode_image (sl_raster V) source = Some img \<and> ra_shape img = [h, w, 3]
            \<and> 0 < w \<and> 0 < h \<and> int (w * h) \<le> lim_max_image_pixels li))"
proof (cases "decode_content V li source key candidates")
  case (Inr sn)
  obtain s n where sn: "sn = (s, n)" by (cases sn)
  have pdf: "\<exists>pages scales t. open_suspect_pdf V li source = Inr (pages, scales) \<and> n = int (length pages)
            \<and> 1 \<le> n \<and> n \<le> lim_max_pdf_pages li \<and> length scales = length pages
            \<and> pdf_raster_budget (sl_raster V) li 0 (zip pages scales) = Inr t
            \<and> t \<le> lim_max_document_raster_pixels li"
    if d: "decode_pdf V li source key candidates = Inr (s, n)"
  proof -
    from d obtain pages scales where p: "open_suspect_pdf V li source = Inr (pages, scales)" "n = int (length pages)"
      by (auto simp: decode_pdf_def sum_then_Inr)
    from open_suspect_pdf_Inr [OF p(1)] p show ?thesis by auto
  qed
  show ?thesis
    using Inr pdf unfolding sn decode_content_def
    by (auto simp: decode_png_def decode_jpeg_def split: if_splits dest!: decode_sized_Inr)
qed simp

end
