(* ===== verification/Verification.thy ===== *)
theory Verification
  imports Issuance Suspect
begin

text \<open>
  The verification worker (\<open>demo/verification.py\<close>): claiming a job, resolving the source of a suspect
  file, the atomic commit of the result, the recording of a failure, cancellation and the replay of a
  committed result. Every transaction of the module is one definition; the object store is any
  record of operations.
\<close>

section \<open>Claims and results\<close>

text \<open>The digest of an upload is a nullable column.\<close>

record verification_claim =
  vc_job_id :: uuid
  vc_organization_id :: uuid
  vc_verification_id :: uuid
  vc_upload_id :: uuid
  vc_attempt :: int
  vc_input_object_key :: string
  vc_expected_input_sha256 :: "string option"
  vc_owner_token :: uuid

record source_resolution =
  sr_status :: verification_status
  sr_recovered_issuance_id :: "uuid option"
  sr_exact_file_hash_match :: bool
  sr_manifest_signature_valid :: "bool option"
  sr_limitations :: "string list"

text \<open>A result copies columns of the evidence row and members of its two JSON columns.\<close>

record verification_processing_result =
  vpr_organization_id :: uuid
  vpr_job_id :: uuid
  vpr_verification_id :: uuid
  vpr_status :: "verification_status option"
  vpr_recovered_issuance_id :: "uuid option"
  vpr_input_sha256 :: "string option"
  vpr_algorithm_label :: json
  vpr_decode_status :: json
  vpr_fingerprint_confidence :: json
  vpr_valid_vote_count :: json
  vpr_exact_file_hash_match :: json
  vpr_manifest_signature_valid :: json
  vpr_pages_analyzed :: json
  vpr_processing_ms :: json
  vpr_limitations :: "json list"
  vpr_cleanup_failures :: json

definition transformed_attribution_unavailable :: string where
  "transformed_attribution_unavailable = ''fingerprint.transformed_attribution_unavailable''"

definition fingerprint_below_release_gate :: string where
  "fingerprint_below_release_gate = ''fingerprint.recall_below_release_gate''"

definition verification_ownership_invalid :: exn where
  "verification_ownership_invalid = verification_error ''DEMO_VERIFICATION_OWNERSHIP_INVALID''"

section \<open>JSON values\<close>

text \<open>\<open>value[k]\<close> and \<open>tuple(value)\<close>.\<close>

definition json_item :: "string \<Rightarrow> json \<Rightarrow> exn + json" where
  "json_item k v = (case v of
     JObj kvs \<Rightarrow> (case map_of kvs k of None \<Rightarrow> Inl (KeyError k) | Some x \<Rightarrow> Inr x)
   | _ \<Rightarrow> Inl (TypeError ''not subscriptable with a string''))"

definition json_tuple :: "json \<Rightarrow> exn + json list" where
  "json_tuple v = (case v of
     JList xs \<Rightarrow> Inr xs
   | JStr s \<Rightarrow> Inr (map (\<lambda>c. JStr [c]) s)
   | JObj kvs \<Rightarrow> Inr (map (\<lambda>kv. JStr (fst kv)) kvs)
   | _ \<Rightarrow> Inl (TypeError ''not iterable''))"

text \<open>Equality of dictionaries does not depend on the order of their members.\<close>

function (sequential) json_eq :: "json \<Rightarrow> json \<Rightarrow> bool" where
  "json_eq (JObj a) (JObj b) \<longleftrightarrow> set (map fst a) = set (map fst b)
     \<and> list_all (\<lambda>kv. case map_of b (fst kv) of None \<Rightarrow> False | Some v \<Rightarrow> json_eq (snd kv) v) a"
| "json_eq (JList xs) (JList ys) \<longleftrightarrow> length xs = length ys \<and> list_all (\<lambda>(x, y). json_eq x y) (zip xs ys)"
| "json_eq a b \<longleftrightarrow> scalar_eq a b"
  by pat_completeness auto
termination
  by (relation "measure (\<lambda>p. size (fst p))")
     (auto simp: less_Suc_eq_le dest!: set_zip_leftD intro: size_list_estimation')

definition opt_bool :: "bool option \<Rightarrow> json" where
  "opt_bool b = (case b of None \<Rightarrow> JNull | Some x \<Rightarrow> JBool x)"

definition opt_str :: "string option \<Rightarrow> json" where
  "opt_str s = (case s of None \<Rightarrow> JNull | Some x \<Rightarrow> JStr x)"

definition str_list :: "string list \<Rightarrow> json" where
  "str_list xs = JList (map JStr xs)"

text \<open>\<open>dict.fromkeys(xs)\<close> as a list: first occurrences, in order.\<close>

definition unique_in_order :: "'a list \<Rightarrow> 'a list" where
  "unique_in_order xs = rev (remdups (rev xs))"

section \<open>The result of a row\<close>

definition release_limitations :: "settings \<Rightarrow> json \<Rightarrow> exn + json list" where
  "release_limitations S evidence =
     sum_then (if set_fingerprint_enabled S then Inr [fingerprint_below_release_gate]
       else sum_then (json_item ''exact_file_hash_match'' evidence) (\<lambda>m.
         Inr (if m = JBool True then [] else [transformed_attribution_unavailable]))) (\<lambda>more.
     Inr (map JStr (''evidence.not_proof_of_leak_edit_or_distribution'' # more)))"

definition result_from_record :: "settings \<Rightarrow> demo_verification_result \<Rightarrow> exn + verification_processing_result" where
  "result_from_record S r =
     (let ev = dvr_evidence r; me = dvr_metrics r in
      sum_then (json_item ''limitations'' ev) (\<lambda>ls.
      sum_then (json_tuple ls) (\<lambda>stored.
      sum_then (if integrity_mode S then release_limitations S ev else Inr stored) (\<lambda>limitations.
      sum_then (if integrity_mode S then Inr (JStr integrity_algorithm_label) else json_item ''algorithm_label'' ev) (\<lambda>label.
      sum_then (json_item ''decode_status'' ev) (\<lambda>status.
      sum_then (json_item ''fingerprint_confidence'' ev) (\<lambda>confidence.
      sum_then (json_item ''valid_vote_count'' ev) (\<lambda>votes.
      sum_then (json_item ''exact_file_hash_match'' ev) (\<lambda>exact.
      sum_then (json_item ''manifest_signature_valid'' ev) (\<lambda>sig_valid.
      sum_then (json_item ''analyzed_page_count'' ev) (\<lambda>pages.
      sum_then (json_item ''processing_ms'' me) (\<lambda>ms.
      sum_then (json_item ''cleanup_failures'' me) (\<lambda>failures.
      Inr \<lparr>vpr_organization_id = dvr_organization_id r, vpr_job_id = dvr_job_id r,
        vpr_verification_id = dvr_verification_id r, vpr_status = dvr_result_status r,
        vpr_recovered_issuance_id = dvr_recovered_issuance_id r, vpr_input_sha256 = dvr_input_sha256 r,
        vpr_algorithm_label = label, vpr_decode_status = status, vpr_fingerprint_confidence = confidence,
        vpr_valid_vote_count = votes, vpr_exact_file_hash_match = exact,
        vpr_manifest_signature_valid = sig_valid, vpr_pages_analyzed = pages, vpr_processing_ms = ms,
        vpr_limitations = limitations, vpr_cleanup_failures = failures\<rparr>)))))))))))))"

section \<open>Reading under lock\<close>

definition locked_verification_job :: "uuid \<Rightarrow> ('st world, job) prog" where
  "locked_verification_job k = chain (get_row jobs_t k) (\<lambda>j.
     chain (require (job_verification_id j \<noteq> None) (DoesNotExist (tb_name jobs_t))) (\<lambda>_. ret j))"

definition locked_verification_upload :: "job \<Rightarrow> ('st world, verification \<times> upload_request) prog" where
  "locked_verification_upload j = (case job_verification_id j of
     None \<Rightarrow> raise (DoesNotExist (tb_name verifications_t))
   | Some k \<Rightarrow> chain (get_row verifications_t k) (\<lambda>v.
       chain (get_row uploads_t (ver_upload_request_id v)) (\<lambda>u. ret (v, u))))"

definition promoted_for :: "job \<Rightarrow> upload_request \<Rightarrow> bool" where
  "promoted_for j u \<longleftrightarrow> (case upl_promotion_target_key u of
     None \<Rightarrow> False
   | Some key \<Rightarrow> (case validate_promoted_key key of
       Inl e \<Rightarrow> False
     | Inr g \<Rightarrow> pg_kind g = ''verification'' \<and> pg_organization g = uuid_str (job_organization_id j)
         \<and> pg_upload g = uuid_str (upl_id u)))"

definition verification_binding :: "job \<Rightarrow> verification \<Rightarrow> upload_request \<Rightarrow> bool" where
  "verification_binding j v u \<longleftrightarrow> job_kind j = KindVerification \<and> job_verification_id j = Some (ver_id v)
     \<and> ver_organization_id v = job_organization_id j \<and> upl_id u = ver_upload_request_id v
     \<and> upl_organization_id u = job_organization_id j \<and> upl_purpose u = PurposeVerification
     \<and> upl_promotion_status u = Attached \<and> promoted_for j u"

definition validate_verification_binding ::
  "job \<Rightarrow> verification \<Rightarrow> upload_request \<Rightarrow> ('st world, unit) prog" where
  "validate_verification_binding j v u =
     require (verification_binding j v u) (verification_error ''DEMO_VERIFICATION_JOB_INVALID'')"

definition verification_claim_binding ::
  "verification_claim \<Rightarrow> job \<Rightarrow> verification \<Rightarrow> upload_request \<Rightarrow> bool" where
  "verification_claim_binding c j v u \<longleftrightarrow> job_id j = vc_job_id c
     \<and> job_organization_id j = vc_organization_id c \<and> ver_id v = vc_verification_id c
     \<and> upl_id u = vc_upload_id c \<and> job_attempt j = vc_attempt c
     \<and> upl_promotion_target_key u = Some (vc_input_object_key c)
     \<and> upl_expected_sha256 u = vc_expected_input_sha256 c"

definition owns_result :: "verification_claim \<Rightarrow> demo_verification_result \<Rightarrow> bool" where
  "owns_result c r \<longleftrightarrow> dvr_organization_id r = vc_organization_id c
     \<and> dvr_verification_id r = vc_verification_id c \<and> dvr_attempt r = vc_attempt c
     \<and> dvr_owner_token r = vc_owner_token c"

definition locked_result :: "verification_claim \<Rightarrow> ('st world, demo_verification_result) prog" where
  "locked_result c = chain (get_row verification_results_t (vc_job_id c)) (\<lambda>r.
     chain (require (owns_result c r) verification_ownership_invalid) (\<lambda>_. ret r))"

text \<open>The four statements with which the transactions of a claim begin.\<close>

definition claimed_verification ::
  "verification_claim \<Rightarrow> ('st world, job \<times> verification \<times> upload_request \<times> demo_verification_result) prog" where
  "claimed_verification c =
     chain (locked_verification_job (vc_job_id c)) (\<lambda>j.
     chain (locked_verification_upload j) (\<lambda>(v, u).
     chain (validate_verification_binding j v u) (\<lambda>_.
     chain (require (verification_claim_binding c j v u) verification_ownership_invalid) (\<lambda>_.
     chain (locked_result c) (\<lambda>r. ret (j, v, u, r))))))"

section \<open>Cancellation\<close>

definition cancelled_result :: "time \<Rightarrow> demo_verification_result \<Rightarrow> demo_verification_result" where
  "cancelled_result completed_at r = r\<lparr>dvr_result_state := VerCancelled,
     dvr_evidence := JObj [(''algorithm_label'', JStr demo_algorithm_label), (''decode_status'', JStr ''cancelled''),
       (''limitations'', str_list demo_verification_limitations)],
     dvr_metrics := JObj [(''cleanup_failures'', JInt 0)],
     dvr_safe_error_code := Some ''DEMO_JOB_CANCELLED'', dvr_completed_at := Some completed_at\<rparr>"

definition cancel_locked :: "job \<Rightarrow> demo_verification_result \<Rightarrow> ('st world, unit) prog" where
  "cancel_locked j r =
     chain now (\<lambda>completed_at.
     chain (lift_sum (advance_job j Cancelled)) (\<lambda>j'.
     chain (save_job [FStatus, FSafeErrorCode, FUpdatedAt] (j'\<lparr>job_safe_error_code := None\<rparr>)) (\<lambda>_.
     chain (save_dvr True [RState, REvidence, RMetrics, RSafeErrorCode, RCompletedAt, RUpdatedAt]
              (cancelled_result completed_at r)) (\<lambda>_. ret ()))))"

definition cancel_before_work_body :: "verification_claim \<Rightarrow> ('st world, bool) prog" where
  "cancel_before_work_body c =
     chain (claimed_verification c) (\<lambda>(j, v, u, r).
     chain (require (job_status j = Processing) (verification_error ''DEMO_VERIFICATION_RESULT_INVALID'')) (\<lambda>_.
     if job_cancel_requested_at j = None then ret False
     else chain (cancel_locked j r) (\<lambda>_. ret True)))"

definition cancel_before_work :: "verification_claim \<Rightarrow> ('st world, bool) prog" where
  "cancel_before_work c = atomic (cancel_before_work_body c)"

section \<open>Claiming a job\<close>

definition verification_receipt_id :: "libs \<Rightarrow> job \<Rightarrow> uuid" where
  "verification_receipt_id L j = lb_uuid5_url L
     (''splitbind-demo-verification:'' @ uuid_str (job_id j) @ '':'' @ decimal (nat (job_attempt j)))"

definition verification_replay_valid ::
  "job \<Rightarrow> verification \<Rightarrow> upload_request \<Rightarrow> demo_verification_result \<Rightarrow> bool \<Rightarrow> bool" where
  "verification_replay_valid j v u r receipt_exists \<longleftrightarrow> dvr_result_state r = VerCommitted
     \<and> dvr_organization_id r = job_organization_id j \<and> dvr_verification_id r = ver_id v
     \<and> dvr_attempt r = job_attempt j \<and> ver_status v = dvr_result_status r
     \<and> ver_recovered_issuance_id v = dvr_recovered_issuance_id r
     \<and> json_eq (ver_evidence v) (dvr_evidence r) \<and> json_eq (ver_metrics v) (dvr_metrics r)
     \<and> ver_completed_at v = dvr_completed_at r \<and> upl_expected_sha256 u = dvr_input_sha256 r
     \<and> receipt_exists"

definition load_verification_replay ::
  "processing_env \<Rightarrow> job \<Rightarrow> verification \<Rightarrow> upload_request \<Rightarrow> ('st world, verification_processing_result) prog" where
  "load_verification_replay E j v u =
     chain (get_row verification_results_t (job_id j)) (\<lambda>r.
     chain (exists_where receipts_t (\<lambda>m. rec_message_id m = verification_receipt_id (pe_libs E) j
              \<and> rec_organization_id m = job_organization_id j \<and> rec_job_id m = job_id j)) (\<lambda>found.
     chain (require (verification_replay_valid j v u r found)
              (verification_error ''DEMO_VERIFICATION_RESULT_INVALID'')) (\<lambda>_.
     chain (if integrity_mode (pe_settings E) then ret () else dvr_full_clean r) (\<lambda>_.
     lift_sum (result_from_record (pe_settings E) r)))))"

datatype verification_acquisition =
    VerReplayed verification_processing_result
  | VerClaimed verification_claim
  | VerJobCancelled

definition verification_claim_of :: "job \<Rightarrow> verification \<Rightarrow> upload_request \<Rightarrow> uuid \<Rightarrow> verification_claim" where
  "verification_claim_of j v u token = \<lparr>vc_job_id = job_id j, vc_organization_id = job_organization_id j,
     vc_verification_id = ver_id v, vc_upload_id = upl_id u, vc_attempt = job_attempt j,
     vc_input_object_key = (case upl_promotion_target_key u of None \<Rightarrow> [] | Some k \<Rightarrow> k),
     vc_expected_input_sha256 = upl_expected_sha256 u, vc_owner_token = token\<rparr>"

definition same_verification_reservation ::
  "job \<Rightarrow> verification \<Rightarrow> uuid \<Rightarrow> demo_verification_result \<Rightarrow> bool" where
  "same_verification_reservation j v token r \<longleftrightarrow> dvr_owner_token r = token
     \<and> dvr_result_state r = VerReserved \<and> dvr_organization_id r = job_organization_id j
     \<and> dvr_verification_id r = ver_id v \<and> dvr_attempt r = job_attempt j"

definition reserve_verification ::
  "job \<Rightarrow> verification \<Rightarrow> upload_request \<Rightarrow> uuid \<Rightarrow> ('st world, verification_acquisition) prog" where
  "reserve_verification j v u token =
     chain now (\<lambda>created. chain now (\<lambda>updated.
     let r = new_dvr (job_organization_id j) (job_id j) (ver_id v) (job_attempt j) token created updated
     in chain (insert_dvr True r) (\<lambda>_.
     if job_cancel_requested_at j \<noteq> None then chain (cancel_locked j r) (\<lambda>_. ret VerJobCancelled)
     else ret (VerClaimed (verification_claim_of j v u token)))))"

definition acquire_verification_body :: "processing_env \<Rightarrow> uuid \<Rightarrow> uuid \<Rightarrow> ('st world, verification_acquisition) prog" where
  "acquire_verification_body E k token =
     chain (locked_verification_job k) (\<lambda>j.
     chain (locked_verification_upload j) (\<lambda>(v, u).
     chain (validate_verification_binding j v u) (\<lambda>_.
     if job_status j = Succeeded
     then chain (load_verification_replay E j v u) (\<lambda>r. ret (VerReplayed r))
     else if job_status j \<noteq> Processing then raise (verification_error ''DEMO_VERIFICATION_JOB_INVALID'')
     else chain (gets (\<lambda>w. lookup_by dvr_job_id (job_id j) (db_verification_results (w_db w)))) (\<lambda>existing.
       case existing of
         Some r \<Rightarrow> chain (require (same_verification_reservation j v token r)
                            (verification_error ''DEMO_JOB_RESULT_OWNED'')) (\<lambda>_.
           ret (VerClaimed (verification_claim_of j v u token)))
       | None \<Rightarrow> reserve_verification j v u token))))"

definition acquire_verification_claim :: "processing_env \<Rightarrow> uuid \<Rightarrow> uuid \<Rightarrow> ('st world, verification_acquisition) prog" where
  "acquire_verification_claim E k token = atomic (acquire_verification_body E k token)"

section \<open>Resolving the source\<close>

text \<open>\<open>queryset.get(...)\<close> under \<open>except DoesNotExist\<close>.\<close>

definition get_optional :: "('r, 'k) table \<Rightarrow> ('r \<Rightarrow> bool) \<Rightarrow> ('st world, 'r option) prog" where
  "get_optional t P = attempt (chain (get_where t P) (\<lambda>r. ret (Some r))) (\<lambda>e. case e of
     DoesNotExist _ \<Rightarrow> ret None | _ \<Rightarrow> raise e)"

definition retained_lookup_failed :: "exn \<Rightarrow> bool" where
  "retained_lookup_failed e = (case e of
     ValidationError _ \<Rightarrow> True
   | DoesNotExist t \<Rightarrow> t \<in> {tb_name issuance_results_t, tb_name jobs_t, tb_name documents_t}
   | _ \<Rightarrow> False)"

definition retained_rows :: "issuance \<Rightarrow> ('st world, demo_issuance_result \<times> job \<times> document) prog" where
  "retained_rows i =
     chain (get_where issuance_results_t (\<lambda>r. dir_issuance_id r = iss_id i
              \<and> dir_organization_id r = iss_organization_id i)) (\<lambda>r.
     chain (locked_job (dir_job_id r)) (\<lambda>j.
     chain (get_row documents_t (iss_document_id i)) (\<lambda>x.
     chain (dir_full_clean r) (\<lambda>_. ret (r, j, x)))))"

definition retained_evidence_valid ::
  "issuance \<Rightarrow> demo_issuance_result \<Rightarrow> job \<Rightarrow> document \<Rightarrow> bool \<Rightarrow> bool" where
  "retained_evidence_valid i r j x receipt_exists \<longleftrightarrow> job_status j = Succeeded
     \<and> dir_output_state r = OutCommitted \<and> dir_attempt r = job_attempt j
     \<and> Some (dir_output_object_key r) = iss_output_object_key i \<and> dir_output_sha256 r = iss_output_sha256 i
     \<and> dir_page_count r = doc_page_count x \<and> receipt_exists"

text \<open>The two comparisons of a trusted payload.\<close>

definition payload_names :: "manifest_libs \<Rightarrow> string \<Rightarrow> issuance \<Rightarrow> exn + bool" where
  "payload_names L payload i = (case ml_json_loads L payload of
     None \<Rightarrow> Inr False
   | Some (JObj kvs) \<Rightarrow> Inr (jget ''issuance_id'' kvs = JStr (uuid_str (iss_id i))
       \<and> jget ''output_sha256'' kvs = opt_str (iss_output_sha256 i))
   | Some v \<Rightarrow> Inl (AttributeError ''get''))"

definition retained_manifest :: "manifest_libs \<Rightarrow> issuance \<Rightarrow> ('st world, bool option) prog" where
  "retained_manifest L i =
     chain (get_optional manifests_t (\<lambda>m. man_issuance_id m = iss_id i
              \<and> man_organization_id m = iss_organization_id i)) (\<lambda>found. case found of
       None \<Rightarrow> ret None
     | Some m \<Rightarrow>
         chain (get_optional keys_t (\<lambda>k. key_pk k = man_signing_key_id m
                  \<and> key_organization_id k = iss_organization_id i)) (\<lambda>key. case key of
           None \<Rightarrow> ret (Some False)
         | Some k \<Rightarrow>
             chain now (\<lambda>t.
             if \<not> mv_trusted (verify_stored_manifest L (man_public_payload m) (man_public_signature_envelope m)
                    k (Aware t 0) (Some ''public''))
             then ret (Some False)
             else chain (lift_sum (payload_names L (man_public_payload m) i)) (\<lambda>b. ret (Some b)))))"

definition validate_retained_source ::
  "processing_env \<Rightarrow> issuance \<Rightarrow> ('st world, bool \<times> bool option) prog" where
  "validate_retained_source E i =
     chain (attempt (chain (retained_rows i) (\<lambda>rows. ret (Some rows)))
              (\<lambda>e. if retained_lookup_failed e then ret None else raise e)) (\<lambda>found. case found of
       None \<Rightarrow> ret (False, None)
     | Some (r, j, x) \<Rightarrow>
         chain (exists_where receipts_t (\<lambda>m. rec_message_id m = receipt_id (pe_libs E) j
                  \<and> rec_organization_id m = iss_organization_id i \<and> rec_job_id m = job_id j)) (\<lambda>receipt_exists.
         if \<not> retained_evidence_valid i r j x receipt_exists then ret (False, None)
         else chain (retained_manifest (pe_manifest_libs E) i) (\<lambda>b. ret (True, b))))"

definition resolution ::
  "verification_status \<Rightarrow> uuid option \<Rightarrow> bool \<Rightarrow> bool option \<Rightarrow> string list \<Rightarrow> source_resolution" where
  "resolution status k exact manifest_valid limitations = \<lparr>sr_status = status, sr_recovered_issuance_id = k,
     sr_exact_file_hash_match = exact, sr_manifest_signature_valid = manifest_valid, sr_limitations = limitations\<rparr>"

abbreviation signed_evidence_unavailable :: string where
  "signed_evidence_unavailable \<equiv> ''manifest.signed_evidence_unavailable''"

definition resolve_exact ::
  "processing_env \<Rightarrow> bool \<Rightarrow> issuance \<Rightarrow> ('st world, source_resolution) prog" where
  "resolve_exact E exact_only i =
     chain (validate_retained_source E i) (\<lambda>(evidence_valid, manifest_valid).
     ret (if evidence_valid \<and> manifest_valid = Some True
          then resolution VerifiedIntact (Some (iss_id i)) True manifest_valid
            (if manifest_valid = None then [signed_evidence_unavailable] else [])
          else if evidence_valid \<and> manifest_valid = None \<and> \<not> exact_only
          then resolution VerifiedIntact (Some (iss_id i)) True None [signed_evidence_unavailable]
          else resolution InvalidManifest None True manifest_valid [''evidence.retained_issuance_invalid'']))"

definition resolve_decoded :: "processing_env \<Rightarrow> uuid \<Rightarrow> uuid \<Rightarrow> ('st world, source_resolution) prog" where
  "resolve_decoded E org k =
     chain (rows_where issuances_t (\<lambda>i. iss_organization_id i = org \<and> iss_id i = k)) (\<lambda>rows. case rows of
       [] \<Rightarrow> ret (resolution PartialEvidence None False None
               [''fingerprint.decoded_source_not_available'', signed_evidence_unavailable])
     | i # _ \<Rightarrow>
         chain (validate_retained_source E i) (\<lambda>(evidence_valid, manifest_valid).
         ret (if \<not> evidence_valid \<or> manifest_valid = Some False
              then resolution InvalidManifest None False manifest_valid [''evidence.retained_issuance_invalid'']
              else resolution SourceIdentifiedModified (Some (iss_id i)) False manifest_valid
                (if manifest_valid = None then [signed_evidence_unavailable] else []))))"

definition resolve_source ::
  "processing_env \<Rightarrow> uuid \<Rightarrow> string \<Rightarrow> decode_summary \<Rightarrow> bool \<Rightarrow> ('st world, source_resolution) prog" where
  "resolve_source E org input_sha decode exact_only =
     chain (rows_where issuances_t (\<lambda>i. iss_organization_id i = org \<and> iss_output_sha256 i = Some input_sha)) (\<lambda>rows.
     case take 2 (sort_key iss_id rows) of
       [i] \<Rightarrow> resolve_exact E exact_only i
     | _ # _ # _ \<Rightarrow> ret (resolution PartialEvidence None True None
         [''evidence.exact_hash_ambiguous'', signed_evidence_unavailable])
     | [] \<Rightarrow>
         if exact_only then ret (resolution NoWatermark None False None [transformed_attribution_unavailable])
         else if ds_status decode = ''decoded'' \<and> ds_issuance_id decode \<noteq> None
         then resolve_decoded E org (the (ds_issuance_id decode))
         else ret (if ds_status decode = ''partial_payload_evidence''
           then resolution PartialEvidence None False None
             [''fingerprint.partial_payload_evidence'', signed_evidence_unavailable]
           else resolution NoWatermark None False None
             [''fingerprint.no_watermark_not_exclusion'', signed_evidence_unavailable]))"

section \<open>Committing the result\<close>

definition committed_verification_evidence ::
  "source_resolution \<Rightarrow> decode_summary \<Rightarrow> int \<Rightarrow> bool \<Rightarrow> json" where
  "committed_verification_evidence s decode pages exact_only = JObj [
     (''algorithm_label'', JStr demo_algorithm_label),
     (''decode_status'', JStr (ds_status decode)),
     (''fingerprint_confidence'', JFloat (ds_confidence decode)),
     (''valid_vote_count'', JInt (ds_valid_votes decode)),
     (''analyzed_page_count'', JInt pages),
     (''manifest_signature_valid'', opt_bool (sr_manifest_signature_valid s)),
     (''exact_file_hash_match'', JBool (sr_exact_file_hash_match s)),
     (''limitations'', str_list (if exact_only then demo_verification_limitations
        else unique_in_order (demo_verification_limitations @ sr_limitations s)))]"

definition verification_metrics :: "int \<Rightarrow> int \<Rightarrow> int \<Rightarrow> json" where
  "verification_metrics ms pages failures = JObj [(''processing_ms'', JInt ms),
     (''pages_processed'', JInt pages), (''cleanup_failures'', JInt failures)]"

definition finished_verification ::
  "verification \<Rightarrow> uuid option \<Rightarrow> verification_status \<Rightarrow> json \<Rightarrow> json \<Rightarrow> time \<Rightarrow> verification" where
  "finished_verification v k status evidence metrics completed_at = v\<lparr>ver_recovered_issuance_id := k,
     ver_status := Some status, ver_evidence := evidence, ver_metrics := metrics,
     ver_completed_at := Some completed_at\<rparr>"

definition finished_columns :: "verification_field list" where
  "finished_columns = [VRecoveredIssuance, VStatus, VEvidence, VMetrics, VCompletedAt]"

definition committed_result ::
  "demo_verification_result \<Rightarrow> string \<Rightarrow> verification_status \<Rightarrow> uuid option \<Rightarrow> json \<Rightarrow> json \<Rightarrow> time
     \<Rightarrow> demo_verification_result" where
  "committed_result r input_sha status k evidence metrics completed_at = r\<lparr>
     dvr_result_state := VerCommitted, dvr_input_sha256 := Some input_sha, dvr_result_status := Some status,
     dvr_recovered_issuance_id := k, dvr_evidence := evidence, dvr_metrics := metrics,
     dvr_completed_at := Some completed_at\<rparr>"

definition committed_columns :: "dvr_field list" where
  "committed_columns = [RState, RInputSha256, RStatus, RRecoveredIssuance, REvidence, RMetrics, RCompletedAt, RUpdatedAt]"

definition commit_verification_body ::
  "processing_env \<Rightarrow> verification_claim \<Rightarrow> string \<Rightarrow> decode_summary \<Rightarrow> int \<Rightarrow> int \<Rightarrow> bool
     \<Rightarrow> ('st world, verification_processing_result option) prog" where
  "commit_verification_body E c input_sha decode pages ms exact_only =
     chain (claimed_verification c) (\<lambda>(j, v, u, r).
     chain (require (job_status j = Processing) (verification_error ''DEMO_VERIFICATION_RESULT_INVALID'')) (\<lambda>_.
     if job_cancel_requested_at j \<noteq> None then chain (cancel_locked j r) (\<lambda>_. ret None)
     else
       chain (resolve_source E (vc_organization_id c) input_sha decode exact_only) (\<lambda>s.
       chain now (\<lambda>completed_at.
       let evidence = committed_verification_evidence s decode pages exact_only;
           metrics = verification_metrics ms pages 0
       in chain (save_verification finished_columns
              (finished_verification v (sr_recovered_issuance_id s) (sr_status s) evidence metrics completed_at)) (\<lambda>_.
       chain (create_receipt (verification_receipt_id (pe_libs E) j) (vc_organization_id c) j) (\<lambda>_.
       chain (save_dvr True committed_columns (committed_result r input_sha (sr_status s)
                (sr_recovered_issuance_id s) evidence metrics completed_at)) (\<lambda>r'.
       chain (lift_sum (advance_job j Succeeded)) (\<lambda>j'.
       chain (save_job [FStatus, FSafeErrorCode, FUpdatedAt] (j'\<lparr>job_safe_error_code := None\<rparr>)) (\<lambda>_.
       chain (lift_sum (result_from_record (pe_settings E) r')) (\<lambda>res. ret (Some res)))))))))))"

definition commit_verification_result ::
  "processing_env \<Rightarrow> verification_claim \<Rightarrow> string \<Rightarrow> decode_summary \<Rightarrow> int \<Rightarrow> int \<Rightarrow> bool
     \<Rightarrow> ('st world, verification_processing_result option) prog" where
  "commit_verification_result E c input_sha decode pages ms exact_only =
     atomic (commit_verification_body E c input_sha decode pages ms exact_only)"

section \<open>Recording a failed job\<close>

definition failed_verification_evidence :: json where
  "failed_verification_evidence = JObj [
     (''algorithm_label'', JStr demo_algorithm_label), (''decode_status'', JStr ''execution_error''),
     (''fingerprint_confidence'', JFloat 0), (''valid_vote_count'', JInt 0), (''analyzed_page_count'', JInt 0),
     (''manifest_signature_valid'', JNull), (''exact_file_hash_match'', JNull),
     (''limitations'', str_list demo_verification_limitations)]"

definition failed_result ::
  "demo_verification_result \<Rightarrow> string \<Rightarrow> json \<Rightarrow> time \<Rightarrow> demo_verification_result" where
  "failed_result r code metrics completed_at = r\<lparr>
     dvr_result_state := VerFailed, dvr_result_status := Some ProcessingFailed,
     dvr_evidence := failed_verification_evidence, dvr_metrics := metrics,
     dvr_safe_error_code := Some code, dvr_completed_at := Some completed_at\<rparr>"

definition failed_columns :: "dvr_field list" where
  "failed_columns = [RState, RStatus, REvidence, RMetrics, RSafeErrorCode, RCompletedAt, RUpdatedAt]"

definition record_failed_verification_body ::
  "verification_claim \<Rightarrow> string \<Rightarrow> int \<Rightarrow> int \<Rightarrow> ('st world, unit) prog" where
  "record_failed_verification_body c code failures ms =
     chain (claimed_verification c) (\<lambda>(j, v, u, r).
     if job_status j \<noteq> Processing then ret ()
     else
       chain now (\<lambda>completed_at.
       let metrics = verification_metrics (max 0 ms) 0 failures
       in chain (save_verification finished_columns
              (finished_verification v None ProcessingFailed failed_verification_evidence metrics completed_at)) (\<lambda>_.
       chain (save_dvr True failed_columns (failed_result r code metrics completed_at)) (\<lambda>_.
       chain (fail_job j code) (\<lambda>_. ret ())))))"

definition record_failed_verification ::
  "verification_claim \<Rightarrow> string \<Rightarrow> int \<Rightarrow> int \<Rightarrow> ('st world, unit) prog" where
  "record_failed_verification c code failures ms = atomic (record_failed_verification_body c code failures ms)"

section \<open>Processing a job\<close>

text \<open>The key and the profiles when the fingerprint is read, nothing when only digests are compared.\<close>

definition decode_inputs :: "settings \<Rightarrow> suspect_libs \<Rightarrow> exn + (bytes \<times> string list) option" where
  "decode_inputs S V =
     (if \<not> integrity_mode S \<or> set_fingerprint_enabled S
      then sum_error (\<lambda>e. case e of DemoIssuanceError code _ \<Rightarrow> verification_error code | _ \<Rightarrow> e)
        (sum_then (load_fingerprint_key S) (\<lambda>key.
         sum_then (accepted_decode_candidates (sl_raster V)) (\<lambda>candidates. Inr (Some (key, candidates)))))
      else Inr None)"

definition suspect_download_error :: "exn \<Rightarrow> exn" where
  "suspect_download_error e = (case e of
     UploadRejected m \<Rightarrow> verification_error
       (if m = ''STORAGE_CHECKSUM_MISMATCH'' then ''DEMO_INPUT_CHECKSUM_MISMATCH''
        else if m = ''STORAGE_BYTE_LIMIT'' then ''DEMO_INPUT_FILE_LIMIT''
        else ''DEMO_INPUT_STORAGE_REJECTED'')
   | StorageUnavailable _ \<Rightarrow> verification_error ''DEMO_INPUT_STORAGE_FAILED''
   | _ \<Rightarrow> e)"

text \<open>The storage interface takes a digest; an upload without one cannot be downloaded.\<close>

definition download_suspect :: "'st storage_ops \<Rightarrow> verification_claim \<Rightarrow> ('st world, object_bytes) prog" where
  "download_suspect ops c = (case vc_expected_input_sha256 c of
     None \<Rightarrow> raise (TypeError ''expected_sha256'')
   | Some sha \<Rightarrow>
       chain (gets (\<lambda>w. lim_max_pdf_bytes (w_limits w))) (\<lambda>max_bytes.
       attempt (on_store (so_download_bytes ops (vc_input_object_key c) max_bytes sha))
         (\<lambda>e. raise (suspect_download_error e))))"

definition read_suspect ::
  "suspect_libs \<Rightarrow> limits \<Rightarrow> bytes \<Rightarrow> (bytes \<times> string list) option \<Rightarrow> exn + decode_summary \<times> int" where
  "read_suspect V li source inputs = (case inputs of
     None \<Rightarrow> sum_then (inspect_integrity_content V li source) (\<lambda>pages.
       Inr (summary None 0 0 ''payload_not_detected'', pages))
   | Some (key, candidates) \<Rightarrow> decode_content V li source key candidates)"

definition stop_when_cancelled :: "verification_claim \<Rightarrow> ('st world, unit) prog" where
  "stop_when_cancelled c = chain (cancel_before_work c) (\<lambda>cancelled.
     require (\<not> cancelled) (verification_error ''DEMO_JOB_CANCELLED''))"

definition workspace_kept :: exn where
  "workspace_kept = DemoVerificationError ''DEMO_WORKSPACE_CLEANUP_FAILED'' 1"

definition process_claimed_verification ::
  "processing_env \<Rightarrow> suspect_libs \<Rightarrow> 'st storage_ops \<Rightarrow> verification_claim
     \<Rightarrow> ('st world, verification_processing_result) prog" where
  "process_claimed_verification E V ops c =
     chain (lift_sum (decode_inputs (pe_settings E) V)) (\<lambda>inputs.
     chain (stop_when_cancelled c) (\<lambda>_.
     chain (download_suspect ops c) (\<lambda>downloaded.
     chain (stop_when_cancelled c) (\<lambda>_.
     chain (gets w_limits) (\<lambda>li.
     chain (attempt (lift_sum (read_suspect V li (ob_data downloaded) inputs))
              (\<lambda>e. raise (if pe_workspace_removed E then e else workspace_kept))) (\<lambda>(decode, pages).
     chain (require (pe_workspace_removed E) workspace_kept) (\<lambda>_.
     chain (attempt (commit_verification_result E c (ob_actual_sha256 downloaded) decode pages
              (max 0 (pe_elapsed_ms E)) (integrity_mode (pe_settings E) \<and> \<not> set_fingerprint_enabled (pe_settings E)))
              (\<lambda>e. case e of DemoVerificationError _ _ \<Rightarrow> raise e
                 | _ \<Rightarrow> raise (verification_error ''DEMO_RESULT_COMMIT_FAILED''))) (\<lambda>committed.
     case committed of
       None \<Rightarrow> raise (verification_error ''DEMO_JOB_CANCELLED'')
     | Some res \<Rightarrow> ret res))))))))"

definition verification_failed :: "processing_env \<Rightarrow> verification_claim \<Rightarrow> exn \<Rightarrow> ('st world, 'a) prog" where
  "verification_failed E c e = (case e of
     DemoVerificationError code failures \<Rightarrow>
       chain (if code \<noteq> ''DEMO_JOB_CANCELLED''
              then record_failed_verification c code failures (pe_elapsed_ms E) else ret ()) (\<lambda>_. raise e)
   | _ \<Rightarrow> chain (record_failed_verification c ''DEMO_VERIFICATION_PROCESSING_FAILED'' 0 (pe_elapsed_ms E)) (\<lambda>_.
       raise (verification_error ''DEMO_VERIFICATION_PROCESSING_FAILED'')))"

definition process_verification_job ::
  "processing_env \<Rightarrow> suspect_libs \<Rightarrow> 'st storage_ops \<Rightarrow> uuid \<Rightarrow> uuid option
     \<Rightarrow> ('st world, verification_processing_result) prog" where
  "process_verification_job E V ops k owner =
     chain (require (set_demo_mode (pe_settings E) \<or> integrity_mode (pe_settings E))
              (verification_error ''DEMO_MODE_DISABLED'')) (\<lambda>_.
     chain (case owner of Some token \<Rightarrow> ret token | None \<Rightarrow> uuid4) (\<lambda>token.
     chain (acquire_verification_claim E k token) (\<lambda>acquired.
     case acquired of
       VerReplayed res \<Rightarrow> ret res
     | VerJobCancelled \<Rightarrow> raise (verification_error ''DEMO_JOB_CANCELLED'')
     | VerClaimed c \<Rightarrow> attempt (process_claimed_verification E V ops c) (verification_failed E c))))"

end
