(* ===== verification/VerificationFacts.thy ===== *)
theory VerificationFacts
  imports Verification IssuanceCommit
begin

text \<open>
  What the transactions of the verification worker do: the rows a claim sees, the rows each
  transaction writes, what a resolved source proves and the evolution of the database.
\<close>

section \<open>Rows\<close>

text \<open>The database with one result row written.\<close>

definition dvr_written :: "demo_verification_result \<Rightarrow> db \<Rightarrow> db \<Rightarrow> bool" where
  "dvr_written r d d' \<longleftrightarrow> (\<exists>rs. d' = d\<lparr>db_verification_results := rs\<rparr>
     \<and> row_written dvr_job_id (dvr_job_id r) r (db_verification_results d) rs
     \<and> rows_evolve dvr_job_id dvr_evolves (db_verification_results d) rs)"

text \<open>The row passed its own validation: against its job, and in its organization.\<close>

definition dvr_checked :: "db \<Rightarrow> demo_verification_result \<Rightarrow> bool" where
  "dvr_checked d r \<longleftrightarrow> (\<exists>j. lookup_by job_id (dvr_job_id r) (db_jobs d) = Some j \<and> dvr_check j r = Inr ())
     \<and> (case dvr_recovered_issuance_id r of None \<Rightarrow> True
        | Some k \<Rightarrow> \<exists>i. lookup_by iss_id k (db_issuances d) = Some i \<and> iss_organization_id i = dvr_organization_id r)"

lemma wp_dvr_clean_checked:
  assumes "\<And>e. E e w" and "dvr_checked (w_db w) r \<Longrightarrow> Q () w"
  shows "wp (dvr_clean r) Q E w"
  using assms
  by (auto simp: dvr_clean_def related_org_def related_def validate_organization_relations_def wp_simps
      dvr_checked_def split: option.splits sum.splits)

lemma save_dvr_checked_wp:
  "wp (save_dvr write fs r) (\<lambda>r' w'. dvr_checked (w_db w) r') (\<lambda>_ _. True) w"
  unfolding save_dvr_def
  by (intro wp_intros wpi_save_stored wp_dvr_clean_checked) auto

text \<open>A save of columns of a row that was read and edited.\<close>

definition dvr_saved ::
  "demo_verification_result \<Rightarrow> demo_verification_result \<Rightarrow> 'st world \<Rightarrow> demo_verification_result \<Rightarrow> 'st world \<Rightarrow> bool" where
  "dvr_saved r edited w r' w' \<longleftrightarrow> (\<exists>t. r' = edited\<lparr>dvr_updated_at := t\<rparr>) \<and> dvr_written r' (w_db w) (w_db w')
     \<and> w_store w' = w_store w \<and> dvr_save_check edited r = Inr () \<and> dvr_ok (w_db w) r' \<and> dvr_checked (w_db w) r'"

lemma save_dvr_edited_wp:
  assumes row: "lookup_by dvr_job_id (dvr_job_id r) (db_verification_results (w_db w)) = Some r"
    and key: "dvr_job_id edited = dvr_job_id r"
    and covered: "\<And>t. merge_dvr fs (edited\<lparr>dvr_updated_at := t\<rparr>) r = edited\<lparr>dvr_updated_at := t\<rparr>"
  shows "wp (save_dvr True fs edited) (dvr_saved r edited w)
     (\<lambda>_ w'. w_db w' = w_db w \<and> w_store w' = w_store w) w"
proof (rule wp_mono [OF wp_conj [OF save_dvr_wp save_dvr_checked_wp]], goal_cases)
  case (1 r' w')
  then obtain t where r': "r' = edited\<lparr>dvr_updated_at := t\<rparr>" by blast
  let ?rs = "update_by dvr_job_id (dvr_job_id r) (merge_dvr fs r') (db_verification_results (w_db w))"
  have p: "dvr_save_check edited r = Inr ()" "dvr_ok (w_db w) r'"
    using 1 row covered [of t] r' key by auto
  have "row_written dvr_job_id (dvr_job_id r') r' (db_verification_results (w_db w)) ?rs"
    using row_written_update [where key = dvr_job_id and f = "merge_dvr fs r'" and k = "dvr_job_id r" and r = r',
        OF dvr_job_id_merge row] covered [of t] r' key by simp
  moreover have "rows_evolve dvr_job_id dvr_evolves (db_verification_results (w_db w)) ?rs"
    unfolding r' by (rule dvr_rows [of edited, unfolded key, OF row p(1)])
  ultimately have "dvr_written r' (w_db w) (w_db w')" using 1 key by (auto simp: dvr_written_def)
  then show ?case using 1 p r' by (auto simp: dvr_saved_def)
qed simp

lemma dvr_written_evolves: "dvr_written r d d' \<Longrightarrow> db_evolves a d \<Longrightarrow> db_evolves a d'"
  by (auto simp: dvr_written_def intro: db_evolves_intros)

lemma dvr_written_lookup:
  "dvr_written r d d' \<Longrightarrow> lookup_by dvr_job_id (dvr_job_id r) (db_verification_results d') = Some r"
  by (auto simp: dvr_written_def row_written_def)

lemma dvr_written_frame:
  assumes "dvr_written r d d'"
  shows "db_organizations d' = db_organizations d" "db_users d' = db_users d"
    "db_recipients d' = db_recipients d" "db_signing_keys d' = db_signing_keys d"
    "db_uploads d' = db_uploads d" "db_schedule d' = db_schedule d" "db_documents d' = db_documents d"
    "db_issuances d' = db_issuances d" "db_manifests d' = db_manifests d"
    "db_verifications d' = db_verifications d" "db_jobs d' = db_jobs d" "db_receipts d' = db_receipts d"
    "db_outbox d' = db_outbox d" "db_audit d' = db_audit d"
    "db_issuance_results d' = db_issuance_results d"
  using assms by (auto simp: dvr_written_def)

lemma save_result_wps:
  assumes "lookup_by dvr_job_id (dvr_job_id r) (db_verification_results (w_db w)) = Some r"
  shows "wp (save_dvr True [RState, REvidence, RMetrics, RSafeErrorCode, RCompletedAt, RUpdatedAt] (cancelled_result t r))
       (dvr_saved r (cancelled_result t r) w) (\<lambda>_ w'. w_db w' = w_db w \<and> w_store w' = w_store w) w"
    and "wp (save_dvr True committed_columns (committed_result r sha s k ev me t))
       (dvr_saved r (committed_result r sha s k ev me t) w) (\<lambda>_ w'. w_db w' = w_db w \<and> w_store w' = w_store w) w"
    and "wp (save_dvr True failed_columns (failed_result r code me t))
       (dvr_saved r (failed_result r code me t) w) (\<lambda>_ w'. w_db w' = w_db w \<and> w_store w' = w_store w) w"
  by (rule save_dvr_edited_wp [OF assms];
      simp add: cancelled_result_def committed_result_def failed_result_def merge_dvr_def committed_columns_def
        failed_columns_def)+

section \<open>The rows of a claim\<close>

definition verification_view ::
  "verification_claim \<Rightarrow> db \<Rightarrow> job \<Rightarrow> verification \<Rightarrow> upload_request \<Rightarrow> demo_verification_result \<Rightarrow> bool" where
  "verification_view c d j v u r \<longleftrightarrow> lookup_by job_id (job_id j) (db_jobs d) = Some j
     \<and> lookup_by ver_id (ver_id v) (db_verifications d) = Some v
     \<and> lookup_by upl_id (upl_id u) (db_uploads d) = Some u
     \<and> lookup_by dvr_job_id (dvr_job_id r) (db_verification_results d) = Some r
     \<and> dvr_job_id r = job_id j \<and> verification_binding j v u \<and> verification_claim_binding c j v u \<and> owns_result c r"

lemma verification_viewD:
  assumes "verification_view c d j v u r"
  shows "lookup_by job_id (job_id j) (db_jobs d) = Some j"
    "lookup_by ver_id (ver_id v) (db_verifications d) = Some v"
    "lookup_by upl_id (upl_id u) (db_uploads d) = Some u"
    "lookup_by dvr_job_id (dvr_job_id r) (db_verification_results d) = Some r"
    "dvr_job_id r = job_id j" "owns_result c r"
  using assms by (auto simp: verification_view_def)

lemma claimed_verification_wp:
  "wp (claimed_verification c) (\<lambda>(j, v, u, r) w'. w' = w \<and> verification_view c (w_db w) j v u r) (\<lambda>_ w'. w' = w) w"
  unfolding claimed_verification_def locked_verification_job_def locked_verification_upload_def
    validate_verification_binding_def locked_result_def
  by (intro wp_intros) (auto simp: verification_view_def verification_claim_binding_def intro: lookup_named lookup_by_key)

text \<open>What a cancellation wrote.\<close>

definition verification_cancelled :: "job \<Rightarrow> demo_verification_result \<Rightarrow> db \<Rightarrow> db \<Rightarrow> bool" where
  "verification_cancelled j r d d' \<longleftrightarrow> (\<exists>d1 t s u.
     job_written (j\<lparr>job_status := Cancelled, job_safe_error_code := None, job_updated_at := t\<rparr>) d d1
     \<and> dvr_written ((cancelled_result s r)\<lparr>dvr_updated_at := u\<rparr>) d1 d')"

lemma terminal_job_wp:
  assumes "lookup_by job_id (job_id j) (db_jobs (w_db w)) = Some j" "advance_job j target = Inr j'"
  shows "wp (save_job [FStatus, FSafeErrorCode, FUpdatedAt] (j'\<lparr>job_safe_error_code := code\<rparr>))
     (\<lambda>k w'. (\<exists>t. k = j\<lparr>job_status := target, job_safe_error_code := code, job_updated_at := t\<rparr>)
        \<and> job_written k (w_db w) (w_db w') \<and> w_store w' = w_store w)
     (\<lambda>_ w'. w_db w' = w_db w \<and> w_store w' = w_store w) w"
proof -
  have j': "j' = j\<lparr>job_status := target\<rparr>" and t: "target \<in> set (transitions (job_status j))"
    using assms(2) by (simp_all add: advance_job_Inr)
  show ?thesis
    by (rule wp_mono [OF save_job_row_wp [where p = j]])
       (use assms t in \<open>auto simp: j' merge_terminal job_evolves_def intro: status_reaches_step\<close>)
qed

lemma cancel_locked_wp:
  assumes "lookup_by job_id (job_id j) (db_jobs (w_db w)) = Some j"
    "lookup_by dvr_job_id (dvr_job_id r) (db_verification_results (w_db w)) = Some r"
  shows "wp (cancel_locked j r)
     (\<lambda>_ w'. verification_cancelled j r (w_db w) (w_db w') \<and> w_store w' = w_store w)
     (\<lambda>_ w'. w_store w' = w_store w) w"
  unfolding cancel_locked_def
  by (intro wp_intros wp_mono [OF terminal_job_wp [where j = j and target = Cancelled]]
      wp_mono [OF save_result_wps(1)])
     (use assms in \<open>auto simp: dvr_saved_def verification_cancelled_def job_written_frame\<close>)

lemma cancel_before_work_wp:
  "wp (cancel_before_work c)
     (\<lambda>cancelled w'. w_store w' = w_store w \<and> (\<exists>j v u r. verification_view c (w_db w) j v u r \<and> job_status j = Processing
        \<and> (if cancelled then job_cancel_requested_at j \<noteq> None \<and> verification_cancelled j r (w_db w) (w_db w')
           else job_cancel_requested_at j = None \<and> w_db w' = w_db w)))
     (\<lambda>_ w'. w_db w' = w_db w \<and> w_store w' = w_store w) w"
  unfolding cancel_before_work_def cancel_before_work_body_def
  by (intro wp_intros wp_mono [OF claimed_verification_wp] wp_mono [OF cancel_locked_wp])
     (auto dest: verification_viewD, blast+)

section \<open>What a resolved source proves\<close>

text \<open>
  The committed evidence of an issuance: its job succeeded, its evidence row is committed and agrees
  with the issuance and its document, and the receipt of the job is there.
\<close>

definition retained_evidence :: "libs \<Rightarrow> db \<Rightarrow> issuance \<Rightarrow> bool" where
  "retained_evidence L d i \<longleftrightarrow> (\<exists>r j x. r \<in> set (db_issuance_results d) \<and> dir_issuance_id r = iss_id i
     \<and> dir_organization_id r = iss_organization_id i \<and> dir_output_state r = OutCommitted
     \<and> Some (dir_output_object_key r) = iss_output_object_key i \<and> dir_output_sha256 r = iss_output_sha256 i
     \<and> lookup_by job_id (dir_job_id r) (db_jobs d) = Some j \<and> job_status j = Succeeded \<and> dir_attempt r = job_attempt j
     \<and> lookup_by doc_id (iss_document_id i) (db_documents d) = Some x \<and> dir_page_count r = doc_page_count x
     \<and> list_ex (\<lambda>m. rec_message_id m = receipt_id L j \<and> rec_organization_id m = iss_organization_id i
         \<and> rec_job_id m = job_id j) (db_receipts d))"

text \<open>A manifest of the issuance, trusted at some time under a key of the organization, that names it.\<close>

definition manifest_proven :: "manifest_libs \<Rightarrow> db \<Rightarrow> issuance \<Rightarrow> bool" where
  "manifest_proven L d i \<longleftrightarrow> (\<exists>m k t kvs. m \<in> set (db_manifests d) \<and> man_issuance_id m = iss_id i
     \<and> man_organization_id m = iss_organization_id i \<and> k \<in> set (db_signing_keys d)
     \<and> key_pk k = man_signing_key_id m \<and> key_organization_id k = iss_organization_id i
     \<and> mv_trusted (verify_stored_manifest L (man_public_payload m) (man_public_signature_envelope m) k (Aware t 0)
         (Some ''public''))
     \<and> ml_json_loads L (man_public_payload m) = Some (JObj kvs)
     \<and> jget ''issuance_id'' kvs = JStr (uuid_str (iss_id i))
     \<and> jget ''output_sha256'' kvs = opt_str (iss_output_sha256 i))"

lemma filter_single: "filter P xs = [x] \<Longrightarrow> x \<in> set xs \<and> P x"
  by (auto simp: filter_eq_Cons_iff)

lemma payload_names_True:
  "payload_names L payload i = Inr True \<longleftrightarrow> (\<exists>kvs. ml_json_loads L payload = Some (JObj kvs)
     \<and> jget ''issuance_id'' kvs = JStr (uuid_str (iss_id i)) \<and> jget ''output_sha256'' kvs = opt_str (iss_output_sha256 i))"
  by (auto simp: payload_names_def split: option.splits json.splits)

lemma get_optional_wp:
  "wp (get_optional t P) (\<lambda>found w'. w' = w \<and> (case found of
       None \<Rightarrow> filter P (tb_rows t (w_db w)) = []
     | Some r \<Rightarrow> r \<in> set (tb_rows t (w_db w)) \<and> P r)) (\<lambda>_ w'. w' = w) w"
  unfolding get_optional_def
  by (auto simp: wp_simps filter_empty_conv split: list.splits dest: filter_eq_ConsD)

lemma retained_manifest_wp:
  "wp (retained_manifest L i)
     (\<lambda>b w'. w_db w' = w_db w \<and> w_store w' = w_store w \<and> (case b of
        None \<Rightarrow> \<not> list_ex (\<lambda>m. man_issuance_id m = iss_id i \<and> man_organization_id m = iss_organization_id i)
          (db_manifests (w_db w))
      | Some ok \<Rightarrow> ok \<longrightarrow> manifest_proven L (w_db w) i))
     (\<lambda>_ w'. w_db w' = w_db w \<and> w_store w' = w_store w) w"
  unfolding retained_manifest_def
  by (intro wp_intros wp_mono [OF get_optional_wp])
     (auto simp: manifest_proven_def list_ex_iff filter_empty_conv payload_names_True split: option.splits, blast+)

lemma retained_rows_wp:
  "wp (retained_rows i)
     (\<lambda>(r, j, x) w'. w' = w \<and> r \<in> set (db_issuance_results (w_db w)) \<and> dir_issuance_id r = iss_id i
        \<and> dir_organization_id r = iss_organization_id i \<and> lookup_by job_id (dir_job_id r) (db_jobs (w_db w)) = Some j
        \<and> lookup_by doc_id (iss_document_id i) (db_documents (w_db w)) = Some x)
     (\<lambda>_ w'. w' = w) w"
  unfolding retained_rows_def locked_job_def dir_full_clean_def dir_clean_def related_org_def
  by (intro wp_intros) (auto dest: filter_single)

lemma retained_evidenceI:
  "r \<in> set (db_issuance_results d) \<Longrightarrow> dir_issuance_id r = iss_id i \<Longrightarrow>
   dir_organization_id r = iss_organization_id i \<Longrightarrow> lookup_by job_id (dir_job_id r) (db_jobs d) = Some j \<Longrightarrow>
   lookup_by doc_id (iss_document_id i) (db_documents d) = Some x \<Longrightarrow>
   retained_evidence_valid i r j x (list_ex (\<lambda>m. rec_message_id m = receipt_id L j
     \<and> rec_organization_id m = iss_organization_id i \<and> rec_job_id m = job_id j) (db_receipts d)) \<Longrightarrow>
   retained_evidence L d i"
  unfolding retained_evidence_def retained_evidence_valid_def by blast

lemma validate_retained_source_wp:
  "wp (validate_retained_source E i)
     (\<lambda>(valid, b) w'. w_db w' = w_db w \<and> w_store w' = w_store w
        \<and> (valid \<longrightarrow> retained_evidence (pe_libs E) (w_db w) i)
        \<and> (b = Some True \<longrightarrow> manifest_proven (pe_manifest_libs E) (w_db w) i))
     (\<lambda>_ w'. w_db w' = w_db w \<and> w_store w' = w_store w) w"
  unfolding validate_retained_source_def
  by (intro wp_intros wp_mono [OF retained_rows_wp] wp_mono [OF retained_manifest_wp])
     (auto split: option.splits intro: retained_evidenceI)

text \<open>
  An attribution: whichever issuance a resolution names, it is one of the organization with its
  committed evidence. It is called intact only when it is the one issuance of the organization whose
  output has the digest of the file, and modified only when no output has it and the fingerprint
  was decoded to this issuance; a signature counts as valid only under a manifest that names it.
\<close>

definition attribution ::
  "processing_env \<Rightarrow> db \<Rightarrow> uuid \<Rightarrow> string \<Rightarrow> decode_summary \<Rightarrow> bool \<Rightarrow> source_resolution \<Rightarrow> bool" where
  "attribution E d org sha decode exact_only s \<longleftrightarrow> (case sr_recovered_issuance_id s of
     None \<Rightarrow> sr_status s \<in> {PartialEvidence, InvalidManifest, NoWatermark}
   | Some k \<Rightarrow> (\<exists>i. i \<in> set (db_issuances d) \<and> iss_id i = k \<and> iss_organization_id i = org
       \<and> retained_evidence (pe_libs E) d i
       \<and> (if sr_manifest_signature_valid s = Some True then manifest_proven (pe_manifest_libs E) d i
          else sr_manifest_signature_valid s = None \<and> \<not> exact_only)
       \<and> (case sr_status s of
            VerifiedIntact \<Rightarrow> sr_exact_file_hash_match s
              \<and> filter (\<lambda>x. iss_organization_id x = org \<and> iss_output_sha256 x = Some sha) (db_issuances d) = [i]
          | SourceIdentifiedModified \<Rightarrow> \<not> sr_exact_file_hash_match s \<and> \<not> exact_only
              \<and> filter (\<lambda>x. iss_organization_id x = org \<and> iss_output_sha256 x = Some sha) (db_issuances d) = []
              \<and> ds_status decode = ''decoded'' \<and> ds_issuance_id decode = Some k
          | _ \<Rightarrow> False)))"

lemma unattributed:
  "status \<in> {PartialEvidence, InvalidManifest, NoWatermark} \<Longrightarrow>
     attribution E d org sha decode exact_only (resolution status None exact b limitations)"
  by (simp add: attribution_def resolution_def)

lemma take_sorted_single: "take 2 (sort_key f xs) = [x] \<Longrightarrow> xs = [x]"
proof -
  assume a: "take 2 (sort_key f xs) = [x]"
  then have "min (length xs) 2 = 1" by (metis length_sort length_take One_nat_def length_Cons list.size(3) min.commute)
  then obtain y where "xs = [y]" by (auto simp: min_def length_Suc_conv split: if_splits)
  with a show "xs = [x]" by simp
qed

lemma take_sorted_empty: "take 2 (sort_key f xs) = [] \<Longrightarrow> xs = []"
  by (metis length_0_conv length_sort take_eq_Nil zero_neq_numeral)

lemma resolve_exact_wp:
  assumes "filter (\<lambda>x. iss_organization_id x = org \<and> iss_output_sha256 x = Some sha) (db_issuances (w_db w)) = [i]"
  shows "wp (resolve_exact E exact_only i)
     (\<lambda>s w'. w_db w' = w_db w \<and> w_store w' = w_store w \<and> attribution E (w_db w) org sha decode exact_only s)
     (\<lambda>_ w'. w_db w' = w_db w \<and> w_store w' = w_store w) w"
  unfolding resolve_exact_def
  by (intro wp_intros wp_mono [OF validate_retained_source_wp])
     (use filter_single [OF assms] assms in \<open>auto simp: attribution_def resolution_def split: option.splits\<close>)

lemma resolve_decoded_wp:
  assumes "filter (\<lambda>x. iss_organization_id x = org \<and> iss_output_sha256 x = Some sha) (db_issuances (w_db w)) = []"
    and "ds_status decode = ''decoded''" "ds_issuance_id decode = Some k"
  shows "wp (resolve_decoded E org k)
     (\<lambda>s w'. w_db w' = w_db w \<and> w_store w' = w_store w \<and> attribution E (w_db w) org sha decode False s)
     (\<lambda>_ w'. w_db w' = w_db w \<and> w_store w' = w_store w) w"
  unfolding resolve_decoded_def
  by (intro wp_intros wp_mono [OF validate_retained_source_wp])
     (use assms in \<open>auto simp: attribution_def resolution_def split: option.splits dest!: filter_eq_ConsD\<close>)

lemma resolve_source_wp:
  "wp (resolve_source E org sha decode exact_only)
     (\<lambda>s w'. w_db w' = w_db w \<and> w_store w' = w_store w \<and> attribution E (w_db w) org sha decode exact_only s)
     (\<lambda>_ w'. w_db w' = w_db w \<and> w_store w' = w_store w) w"
proof -
  let ?rows = "filter (\<lambda>x. iss_organization_id x = org \<and> iss_output_sha256 x = Some sha) (db_issuances (w_db w))"
  show ?thesis
  proof (cases "take 2 (sort_key iss_id ?rows)")
    case Nil
    note resolve_decoded_wp [OF take_sorted_empty [OF Nil]]
    then show ?thesis
      unfolding resolve_source_def
      by (auto simp: Nil wp_simps unattributed)
  next
    case (Cons i rest)
    show ?thesis
    proof (cases rest)
      case Nil
      with Cons have "take 2 (sort_key iss_id ?rows) = [i]" by simp
      note resolve_exact_wp [OF take_sorted_single [OF this]]
      then show ?thesis unfolding resolve_source_def by (simp add: Cons Nil wp_simps)
    next
      case (Cons b more)
      with \<open>take 2 (sort_key iss_id ?rows) = i # rest\<close> show ?thesis
        unfolding resolve_source_def by (simp add: wp_simps unattributed)
    qed
  qed
qed

end
