(* ===== verification/VerificationCommit.thy ===== *)
theory VerificationCommit
  imports VerificationFacts
begin

text \<open>
  The properties of the verification worker: its commit is all or nothing and attributes a file only
  on evidence, every operation only lets the database evolve, and a committed result is replayed.
\<close>

section \<open>The commit\<close>

lemma save_finished_wp:
  assumes "lookup_by ver_id (ver_id v) (db_verifications (w_db w)) = Some v"
  shows "wp (save_verification finished_columns (finished_verification v k status ev me t))
     (\<lambda>_ w'. w_store w' = w_store w \<and> (\<exists>rs. w_db w' = (w_db w)\<lparr>db_verifications := rs\<rparr>
        \<and> row_written ver_id (ver_id v) (finished_verification v k status ev me t) (db_verifications (w_db w)) rs))
     (\<lambda>_ w'. w' = w) w"
proof -
  let ?v = "finished_verification v k status ev me t"
  let ?rs = "update_by ver_id (ver_id v) (merge_verification finished_columns ?v) (db_verifications (w_db w))"
  have id: "ver_id ?v = ver_id v" by (simp add: finished_verification_def)
  have "row_written ver_id (ver_id v) ?v (db_verifications (w_db w)) ?rs"
    by (rule row_written_update [OF _ assms])
      (simp_all add: finished_verification_def finished_columns_def merge_verification_def)
  then show ?thesis
    unfolding save_verification_def
    by (intro wpi_save_stored wp_verification_clean_weaken wp_intros) (auto simp: id)
qed

lemma finished_rows_evolve:
  assumes "row_written ver_id (ver_id v) (finished_verification v k status ev me t) (db_verifications d) rs"
    "lookup_by ver_id (ver_id v) (db_verifications d) = Some v" "db_evolves a d"
  shows "db_evolves a (d\<lparr>db_verifications := rs\<rparr>)"
  by (rule db_evolves_verifications [OF assms(3) row_written_rows_evolve [OF assms(1,2)]])
     (simp_all add: verification_evolves_def finished_verification_def)

text \<open>
  What a commit made of a database: the verification, the evidence row and the job the claim saw,
  each with its final columns, and one receipt; no other row changed.
\<close>

definition verification_committed ::
  "processing_env \<Rightarrow> verification_claim \<Rightarrow> string \<Rightarrow> decode_summary \<Rightarrow> int \<Rightarrow> int \<Rightarrow> bool \<Rightarrow> source_resolution
     \<Rightarrow> db \<Rightarrow> db \<Rightarrow> verification_processing_result \<Rightarrow> bool" where
  "verification_committed E c sha decode pages ms exact_only s d d' res \<longleftrightarrow> (\<exists>j v u r ev me t t2 t3 vs d3 d2.
     verification_view c d j v u r \<and> job_status j = Processing \<and> job_cancel_requested_at j = None
     \<and> dvr_result_state r = VerReserved
     \<and> ev = committed_verification_evidence s decode pages exact_only \<and> me = verification_metrics ms pages 0
     \<and> row_written ver_id (ver_id v) (finished_verification v (sr_recovered_issuance_id s) (sr_status s) ev me t)
         (db_verifications d) vs
     \<and> receipt_added (verification_receipt_id (pe_libs E) j) (vc_organization_id c) (job_id j)
         (d\<lparr>db_verifications := vs\<rparr>) d3
     \<and> dvr_ok d3 ((committed_result r sha (sr_status s) (sr_recovered_issuance_id s) ev me t)\<lparr>dvr_updated_at := t2\<rparr>)
     \<and> dvr_checked d3 ((committed_result r sha (sr_status s) (sr_recovered_issuance_id s) ev me t)\<lparr>dvr_updated_at := t2\<rparr>)
     \<and> dvr_written ((committed_result r sha (sr_status s) (sr_recovered_issuance_id s) ev me t)\<lparr>dvr_updated_at := t2\<rparr>) d3 d2
     \<and> job_written (j\<lparr>job_status := Succeeded, job_safe_error_code := None, job_updated_at := t3\<rparr>) d2 d'
     \<and> result_from_record (pe_settings E)
         ((committed_result r sha (sr_status s) (sr_recovered_issuance_id s) ev me t)\<lparr>dvr_updated_at := t2\<rparr>) = Inr res)"

lemma dvr_reserved: "dvr_save_check r p = Inr () \<Longrightarrow> dvr_result_state p = VerReserved"
  unfolding dvr_save_check_def by (metis sum.distinct(1))

lemma verification_committedI:
  assumes "verification_view c d j v u r" "job_status j = Processing" "job_cancel_requested_at j = None"
    "dvr_result_state r = VerReserved"
    "ev = committed_verification_evidence s decode pages exact_only" "me = verification_metrics ms pages 0"
    "row_written ver_id (ver_id v) (finished_verification v (sr_recovered_issuance_id s) (sr_status s) ev me t)
       (db_verifications d) vs"
    "receipt_added (verification_receipt_id (pe_libs E) j) (vc_organization_id c) (job_id j)
       (d\<lparr>db_verifications := vs\<rparr>) d3"
    "r' = (committed_result r sha (sr_status s) (sr_recovered_issuance_id s) ev me t)\<lparr>dvr_updated_at := t2\<rparr>"
    "dvr_ok d3 r'" "dvr_checked d3 r'" "dvr_written r' d3 d2"
    "job_written (j\<lparr>job_status := Succeeded, job_safe_error_code := None, job_updated_at := t3\<rparr>) d2 d'"
    "result_from_record (pe_settings E) r' = Inr res"
  shows "verification_committed E c sha decode pages ms exact_only s d d' res"
  unfolding verification_committed_def using assms by blast

lemma commit_rows_wp:
  assumes v: "verification_view c (w_db w) j v u r" and s: "job_status j = Processing" "job_cancel_requested_at j = None"
    and ev: "ev = committed_verification_evidence s decode pages exact_only" "me = verification_metrics ms pages 0"
  shows "wp (chain (save_verification finished_columns
              (finished_verification v (sr_recovered_issuance_id s) (sr_status s) ev me t)) (\<lambda>_.
       chain (create_receipt (verification_receipt_id (pe_libs E) j) (vc_organization_id c) j) (\<lambda>_.
       chain (save_dvr True committed_columns (committed_result r sha (sr_status s)
                (sr_recovered_issuance_id s) ev me t)) (\<lambda>r'.
       chain (lift_sum (advance_job j Succeeded)) (\<lambda>j'.
       chain (save_job [FStatus, FSafeErrorCode, FUpdatedAt] (j'\<lparr>job_safe_error_code := None\<rparr>)) (\<lambda>_.
       chain (lift_sum (result_from_record (pe_settings E) r')) (\<lambda>res. ret (Some res))))))))
     (\<lambda>res w'. w_store w' = w_store w \<and> (case res of None \<Rightarrow> False
        | Some x \<Rightarrow> verification_committed E c sha decode pages ms exact_only s (w_db w) (w_db w') x))
     (\<lambda>_ w'. w_store w' = w_store w) w"
proof (rule wpi_basic(3), rule wp_mono [OF save_finished_wp [OF verification_viewD(2) [OF v]]], goal_cases)
  case (1 u1 w1)
  then obtain vs where w1: "w_db w1 = (w_db w)\<lparr>db_verifications := vs\<rparr>" "w_store w1 = w_store w"
    and vs: "row_written ver_id (ver_id v) (finished_verification v (sr_recovered_issuance_id s) (sr_status s) ev me t)
        (db_verifications (w_db w)) vs" by blast
  note rows = verification_viewD [OF v]
  show ?case
  proof (intro wp_intros wp_mono [OF create_receipt_wp], goal_cases)
    case (1 u2 w2)
    then have rec: "receipt_added (verification_receipt_id (pe_libs E) j) (vc_organization_id c) (job_id j)
        ((w_db w)\<lparr>db_verifications := vs\<rparr>) (w_db w2)" "w_store w2 = w_store w" by (simp_all add: w1)
    have w2: "db_jobs (w_db w2) = db_jobs (w_db w)" "db_verification_results (w_db w2) = db_verification_results (w_db w)"
      using rec(1) by (auto simp: receipt_added_def)
    show ?case
    proof (rule wp_mono [OF save_result_wps(2)], goal_cases)
      case 1
      show ?case using rows(4) by (simp add: w2)
    next
      case (2 r' w3)
      then obtain t2 where r': "r' = (committed_result r sha (sr_status s) (sr_recovered_issuance_id s) ev me t)\<lparr>dvr_updated_at := t2\<rparr>"
        and w3: "dvr_written r' (w_db w2) (w_db w3)" "w_store w3 = w_store w" "dvr_ok (w_db w2) r'" "dvr_checked (w_db w2) r'"
        and ck: "dvr_save_check (committed_result r sha (sr_status s) (sr_recovered_issuance_id s) ev me t) r = Inr ()"
        using rec(2) by (auto simp: dvr_saved_def)
      have j: "lookup_by job_id (job_id j) (db_jobs (w_db w3)) = Some j"
        using rows(1) by (simp add: dvr_written_frame [OF w3(1)] w2)
      show ?case
        by (intro wp_intros wp_mono [OF terminal_job_wp [where j = j and target = Succeeded, OF j]])
           (use w3 rec(2) in \<open>auto intro: verification_committedI [OF v s dvr_reserved [OF ck] ev vs rec(1) r' w3(3,4,1)]\<close>)
    qed (simp add: rec)
  qed (use w1 in simp_all)
qed simp

lemma commit_verification_body_wp:
  "wp (commit_verification_body E c sha decode pages ms exact_only)
     (\<lambda>res w'. w_store w' = w_store w \<and> (case res of
        None \<Rightarrow> \<exists>j v u r. verification_view c (w_db w) j v u r \<and> job_status j = Processing
          \<and> job_cancel_requested_at j \<noteq> None \<and> verification_cancelled j r (w_db w) (w_db w')
      | Some x \<Rightarrow> \<exists>s. attribution E (w_db w) (vc_organization_id c) sha decode exact_only s
          \<and> verification_committed E c sha decode pages ms exact_only s (w_db w) (w_db w') x))
     (\<lambda>_ w'. w_store w' = w_store w) w"
  unfolding commit_verification_body_def
proof (rule wpi_basic(3), rule wp_mono [OF claimed_verification_wp], goal_cases)
  case (1 p w1)
  then obtain j v u r where p: "p = (j, v, u, r)" "w1 = w" "verification_view c (w_db w) j v u r" by (cases p) auto
  show ?case
    unfolding p(1,2) prod.case
  proof (intro wpi_basic(3) wpi_require wpi_if, goal_cases)
    case 1
    then show ?case
      using verification_viewD [OF p(3)] p(3)
      by (intro wp_mono [OF cancel_locked_wp] wp_intros) (auto, blast)
  next
    case 2
    show ?case
    proof (rule wp_mono [OF resolve_source_wp], goal_cases)
      case (1 s w2)
      then have w2: "w_db w2 = w_db w" "w_store w2 = w_store w"
        and a: "attribution E (w_db w) (vc_organization_id c) sha decode exact_only s" by auto
      have v: "verification_view c (w_db (w2\<lparr>w_tick := Suc (w_tick w2)\<rparr>)) j v u r" using p(3) w2 by simp
      show ?case
        unfolding wp_chain [where m = now] wp_now Let_def
        by (rule wp_mono [OF commit_rows_wp [OF v _ _ refl refl]])
           (use 2 w2 a in \<open>auto split: option.splits\<close>)
    qed simp
  qed simp_all
qed simp

section \<open>Failure\<close>

definition verification_failure_recorded ::
  "verification_claim \<Rightarrow> string \<Rightarrow> int \<Rightarrow> int \<Rightarrow> db \<Rightarrow> db \<Rightarrow> bool" where
  "verification_failure_recorded c code failures ms d d' \<longleftrightarrow> (\<exists>j v u r t t2 t3 vs d2.
     verification_view c d j v u r \<and> job_status j = Processing
     \<and> row_written ver_id (ver_id v) (finished_verification v None ProcessingFailed failed_verification_evidence
          (verification_metrics (max 0 ms) 0 failures) t) (db_verifications d) vs
     \<and> dvr_written ((failed_result r code (verification_metrics (max 0 ms) 0 failures) t)\<lparr>dvr_updated_at := t2\<rparr>)
          (d\<lparr>db_verifications := vs\<rparr>) d2
     \<and> job_written (j\<lparr>job_status := Failed, job_safe_error_code := Some code, job_updated_at := t3\<rparr>) d2 d')"

lemma record_failed_verification_wp:
  "wp (record_failed_verification c code failures ms)
     (\<lambda>_ w'. w_store w' = w_store w
        \<and> (if w_db w' = w_db w then True else verification_failure_recorded c code failures ms (w_db w) (w_db w')))
     (\<lambda>_ w'. w_db w' = w_db w \<and> w_store w' = w_store w) w"
  unfolding record_failed_verification_def wp_atomic record_failed_verification_body_def
proof (rule wpi_basic(3), rule wp_mono [OF claimed_verification_wp], goal_cases)
  case (1 p w1)
  then obtain j v u r where p: "p = (j, v, u, r)" "w1 = w" "verification_view c (w_db w) j v u r" by (cases p) auto
  note rows = verification_viewD [OF p(3)]
  show ?case
    unfolding p(1,2) prod.case
    by (intro wp_intros wp_mono [OF save_finished_wp] wp_mono [OF save_result_wps(3)] wp_mono [OF fail_job_wp [where j = j]])
       (use p(3) rows in \<open>auto simp: dvr_saved_def verification_failure_recorded_def dvr_written_frame\<close>,
        blast)
qed simp

section \<open>Every operation lets the database evolve\<close>

lemma verification_cancelled_evolves: "verification_cancelled j r d d' \<Longrightarrow> db_evolves a d \<Longrightarrow> db_evolves a d'"
  unfolding verification_cancelled_def by (blast intro: job_written_evolves dvr_written_evolves)

lemma verification_committed_evolves:
  assumes "verification_committed E c sha decode pages ms exact_only s d d' res"
  shows "db_evolves d d'"
proof -
  from assms obtain j v u r ev me t t2 t3 vs d3 d2 where
    v: "verification_view c d j v u r"
    and vs: "row_written ver_id (ver_id v) (finished_verification v (sr_recovered_issuance_id s) (sr_status s) ev me t)
         (db_verifications d) vs"
    and w: "receipt_added (verification_receipt_id (pe_libs E) j) (vc_organization_id c) (job_id j)
         (d\<lparr>db_verifications := vs\<rparr>) d3"
      "dvr_written ((committed_result r sha (sr_status s) (sr_recovered_issuance_id s) ev me t)\<lparr>dvr_updated_at := t2\<rparr>) d3 d2"
      "job_written (j\<lparr>job_status := Succeeded, job_safe_error_code := None, job_updated_at := t3\<rparr>) d2 d'"
    unfolding verification_committed_def by blast
  have "db_evolves d (d\<lparr>db_verifications := vs\<rparr>)"
    by (rule finished_rows_evolve [OF vs verification_viewD(2) [OF v] db_evolves_refl])
  with w show ?thesis by (blast intro: written_evolves dvr_written_evolves)
qed

lemma verification_failure_evolves:
  assumes "verification_failure_recorded c code failures ms d d'"
  shows "db_evolves d d'"
proof -
  from assms obtain j v u r t t2 t3 vs d2 where
    v: "verification_view c d j v u r"
    and vs: "row_written ver_id (ver_id v) (finished_verification v None ProcessingFailed failed_verification_evidence
          (verification_metrics (max 0 ms) 0 failures) t) (db_verifications d) vs"
    and w: "dvr_written ((failed_result r code (verification_metrics (max 0 ms) 0 failures) t)\<lparr>dvr_updated_at := t2\<rparr>)
          (d\<lparr>db_verifications := vs\<rparr>) d2"
      "job_written (j\<lparr>job_status := Failed, job_safe_error_code := Some code, job_updated_at := t3\<rparr>) d2 d'"
    unfolding verification_failure_recorded_def by blast
  have "db_evolves d (d\<lparr>db_verifications := vs\<rparr>)"
    by (rule finished_rows_evolve [OF vs verification_viewD(2) [OF v] db_evolves_refl])
  with w show ?thesis by (blast intro: written_evolves dvr_written_evolves)
qed

lemma g_cancel_before_work: "guarantees evolves (cancel_before_work c)"
  by (rule guaranteesI, rule wp_mono [OF cancel_before_work_wp])
     (auto split: if_splits intro: verification_cancelled_evolves)

lemma g_commit_verification: "guarantees evolves (commit_verification_result E c sha decode pages ms exact_only)"
  unfolding commit_verification_result_def
  by (rule evolution.g_atomicI, rule wp_mono [OF commit_verification_body_wp])
     (auto split: option.splits intro: verification_committed_evolves verification_cancelled_evolves)

lemma g_record_failed_verification: "guarantees evolves (record_failed_verification c code failures ms)"
  by (rule guaranteesI, rule wp_mono [OF record_failed_verification_wp])
     (auto split: if_splits intro: verification_failure_evolves)

lemma locked_verification_job_wp:
  "wp (locked_verification_job k) (\<lambda>j w'. w' = w \<and> lookup_by job_id (job_id j) (db_jobs (w_db w)) = Some j \<and> job_id j = k)
     (\<lambda>_ w'. w' = w) w"
  unfolding locked_verification_job_def by (intro wp_intros) (auto intro: lookup_named dest: lookup_by_key)

lemma lookup_inserted: "key r \<notin> key ` set rows \<Longrightarrow> key r = k \<Longrightarrow> lookup_by key k (rows @ [r]) = Some r"
  by (auto simp: row_simps lookup_by_None image_iff split: option.splits dest!: lookup_by_SomeD)

lemma new_dvr_job [simp]: "dvr_job_id (new_dvr org k v a token t t') = k"
  by (simp add: new_dvr_def)

lemma dvr_inserted_evolves:
  "db_evolves d (d\<lparr>db_verification_results := db_verification_results d @ [r]\<rparr>)"
  by (intro db_evolves_intros)

lemma reserve_verification_wp:
  assumes "lookup_by job_id (job_id j) (db_jobs (w_db w)) = Some j"
  shows "wp (reserve_verification j v u token) (\<lambda>_ w'. db_evolves (w_db w) (w_db w')) (\<lambda>_ _. True) w"
  unfolding reserve_verification_def Let_def
  by (intro wp_intros wp_mono [OF insert_dvr_wp] wp_mono [OF cancel_locked_wp])
     (use assms in \<open>auto intro: lookup_inserted dvr_inserted_evolves
        dest!: verification_cancelled_evolves [OF _ dvr_inserted_evolves]\<close>)

lemma g_load_verification_replay: "guarantees evolves (load_verification_replay E j v u)"
  unfolding load_verification_replay_def dvr_full_clean_def dvr_clean_def
  by (intro evolution.g_intros g_world)

lemma g_acquire_verification: "guarantees evolves (acquire_verification_claim E k token)"
  unfolding acquire_verification_claim_def
proof (rule evolution.g_atomicI)
  fix w :: "'a world"
  show "wp (acquire_verification_body E k token) (\<lambda>_ v. db_evolves (w_db w) (w_db v)) (\<lambda>_ _. True) w"
    unfolding acquire_verification_body_def validate_verification_binding_def locked_verification_upload_def
    by (intro wp_intros wp_mono [OF locked_verification_job_wp] wp_mono [OF reserve_verification_wp]
          wp_mono [OF guarantees_wp [OF g_load_verification_replay]]) auto
qed

lemma g_process_claimed_verification: "guarantees evolves (process_claimed_verification E V ops c)"
  unfolding process_claimed_verification_def stop_when_cancelled_def download_suspect_def
  by (intro evolution.g_intros g_world g_cancel_before_work)
     (auto split: prod.splits option.splits exn.splits
        intro!: evolution.g_intros g_world g_cancel_before_work g_commit_verification)

lemma g_verification_failed: "guarantees evolves (verification_failed E c e)"
  unfolding verification_failed_def
  by (cases e) (auto intro!: evolution.g_intros g_record_failed_verification)

lemma g_process_verification: "guarantees evolves (process_verification_job E V ops k owner)"
  unfolding process_verification_job_def
  by (intro evolution.g_intros g_world g_acquire_verification)
     (auto split: verification_acquisition.splits
        intro!: evolution.g_intros g_process_claimed_verification g_verification_failed)

section \<open>Properties\<close>

text \<open>
  C29. Committing a verification is all or nothing: on success the claimed job, still processing and not
  cancelled, has succeeded, the verification and the evidence row have the same final status,
  evidence, metrics and source, one receipt was added and no other row changed, and the source is
  attributed only on committed evidence of the claim's own organization; when a cancellation was
  requested job and evidence are cancelled and nothing else changes; when it fails nothing changes.
\<close>

theorem verification_commit_atomic:
  "wp (commit_verification_result E c sha decode pages ms exact_only)
     (\<lambda>res w'. w_store w' = w_store w \<and> (case res of
        None \<Rightarrow> \<exists>j v u r. verification_view c (w_db w) j v u r \<and> job_status j = Processing
          \<and> job_cancel_requested_at j \<noteq> None \<and> verification_cancelled j r (w_db w) (w_db w')
      | Some x \<Rightarrow> \<exists>s. attribution E (w_db w) (vc_organization_id c) sha decode exact_only s
          \<and> verification_committed E c sha decode pages ms exact_only s (w_db w) (w_db w') x))
     (\<lambda>_ w'. w_db w' = w_db w \<and> w_store w' = w_store w) w"
  unfolding commit_verification_result_def wp_atomic by (rule wp_mono [OF commit_verification_body_wp]) auto

text \<open>
  Whatever a worker does with a verification job, with whatever libraries, settings and object store,
  and whether it returns or raises, the database only evolves: the identity of every row stays, jobs
  follow the status graph, a result row that is no longer reserved and every receipt, manifest and
  audit event never change.
\<close>

theorem verification_worker_evolves:
  "db_evolves (w_db w) (w_db (snd (process_verification_job E V ops k owner w)))"
  using g_process_verification [of E V ops k owner] by (simp add: guarantees_def)

end
