(* ===== verification/VerificationReplay.thy ===== *)
theory VerificationReplay
  imports VerificationCommit
begin

text \<open>A committed verification is answered from its evidence by the next run of its job.\<close>

section \<open>Equal evidence\<close>

lemma json_eq_strings [simp]: "json_eq (str_list xs) (str_list xs)"
  by (auto simp: str_list_def list_all_iff in_set_zip)

lemma json_eq_opt_bool [simp]: "json_eq (opt_bool b) (opt_bool b)"
  by (cases b) (simp_all add: opt_bool_def)

lemma json_eq_evidence:
  "json_eq (committed_verification_evidence s decode pages exact_only) (committed_verification_evidence s decode pages exact_only)"
  "json_eq (verification_metrics ms pages n) (verification_metrics ms pages n)"
  by (simp_all add: committed_verification_evidence_def verification_metrics_def)

section \<open>The rows of a committed verification\<close>

definition committed_verification_view ::
  "processing_env \<Rightarrow> db \<Rightarrow> job \<Rightarrow> verification \<Rightarrow> upload_request \<Rightarrow> demo_verification_result \<Rightarrow> bool" where
  "committed_verification_view E d j v u r \<longleftrightarrow> lookup_by job_id (job_id j) (db_jobs d) = Some j
     \<and> lookup_by ver_id (ver_id v) (db_verifications d) = Some v
     \<and> lookup_by upl_id (upl_id u) (db_uploads d) = Some u
     \<and> lookup_by dvr_job_id (job_id j) (db_verification_results d) = Some r
     \<and> list_ex (\<lambda>m. rec_message_id m = verification_receipt_id (pe_libs E) j
         \<and> rec_organization_id m = job_organization_id j \<and> rec_job_id m = job_id j) (db_receipts d)
     \<and> job_status j = Succeeded \<and> verification_binding j v u \<and> dvr_job_id r = job_id j
     \<and> dvr_result_state r = VerCommitted \<and> dvr_organization_id r = job_organization_id j
     \<and> dvr_verification_id r = ver_id v \<and> dvr_attempt r = job_attempt j
     \<and> ver_status v = dvr_result_status r \<and> ver_recovered_issuance_id v = dvr_recovered_issuance_id r
     \<and> json_eq (ver_evidence v) (dvr_evidence r) \<and> json_eq (ver_metrics v) (dvr_metrics r)
     \<and> ver_completed_at v = dvr_completed_at r \<and> dvr_safe_error_code r = None
     \<and> dvr_checked d r \<and> dvr_ok d r"

lemma dvr_ok_replaced:
  assumes ok: "dvr_ok d r"
    and w: "row_written dvr_job_id (dvr_job_id r) r (db_verification_results d) (db_verification_results d')"
  shows "dvr_ok d' r"
  using assms unfolding dvr_ok_def row_written_def by blast

lemma verification_committed_view:
  assumes "verification_committed E c sha decode pages ms exact_only s d d' res"
  shows "\<exists>j v u r. committed_verification_view E d' j v u r \<and> job_id j = vc_job_id c
     \<and> upl_expected_sha256 u = vc_expected_input_sha256 c \<and> dvr_input_sha256 r = Some sha
     \<and> result_from_record (pe_settings E) r = Inr res"
proof -
  from assms obtain j v u r ev me t t2 t3 vs d3 d2 where
    v: "verification_view c d j v u r" and s: "job_status j = Processing" and rs: "dvr_result_state r = VerReserved"
    and ev: "ev = committed_verification_evidence s decode pages exact_only" "me = verification_metrics ms pages 0"
    and vs: "row_written ver_id (ver_id v) (finished_verification v (sr_recovered_issuance_id s) (sr_status s) ev me t)
         (db_verifications d) vs"
    and rec: "receipt_added (verification_receipt_id (pe_libs E) j) (vc_organization_id c) (job_id j)
         (d\<lparr>db_verifications := vs\<rparr>) d3"
    and ok: "dvr_ok d3 ((committed_result r sha (sr_status s) (sr_recovered_issuance_id s) ev me t)\<lparr>dvr_updated_at := t2\<rparr>)"
      "dvr_checked d3 ((committed_result r sha (sr_status s) (sr_recovered_issuance_id s) ev me t)\<lparr>dvr_updated_at := t2\<rparr>)"
    and wr: "dvr_written ((committed_result r sha (sr_status s) (sr_recovered_issuance_id s) ev me t)\<lparr>dvr_updated_at := t2\<rparr>) d3 d2"
    and wj: "job_written (j\<lparr>job_status := Succeeded, job_safe_error_code := None, job_updated_at := t3\<rparr>) d2 d'"
    and res: "result_from_record (pe_settings E)
         ((committed_result r sha (sr_status s) (sr_recovered_issuance_id s) ev me t)\<lparr>dvr_updated_at := t2\<rparr>) = Inr res"
    unfolding verification_committed_def by blast
  define r' where "r' = (committed_result r sha (sr_status s) (sr_recovered_issuance_id s) ev me t)\<lparr>dvr_updated_at := t2\<rparr>"
  define j' where "j' = j\<lparr>job_status := Succeeded, job_safe_error_code := None, job_updated_at := t3\<rparr>"
  define v' where "v' = finished_verification v (sr_recovered_issuance_id s) (sr_status s) ev me t"
  note rows = verification_viewD [OF v]
  have b: "verification_binding j v u" "verification_claim_binding c j v u" "owns_result c r" "dvr_job_id r = job_id j"
    using v by (auto simp: verification_view_def)
  have d3: "db_verifications d3 = vs" "db_uploads d3 = db_uploads d" "db_jobs d3 = db_jobs d"
    using rec by (auto simp: receipt_added_def)
  have d2: "db_verifications d' = vs" "db_uploads d' = db_uploads d" "db_receipts d' = db_receipts d3"
    "db_verification_results d' = db_verification_results d2" "db_issuances d' = db_issuances d3"
    using d3 by (simp_all add: job_written_frame [OF wj] dvr_written_frame [OF wr])
  have job: "lookup_by job_id (job_id j') (db_jobs d') = Some j'"
    unfolding j'_def by (rule job_written_lookup [OF wj])
  have safe: "dvr_safe_error_code r = None"
    using ok(2) by (auto simp: dvr_checked_def dvr_check_def committed_result_def split: if_splits json.splits)
  have k: "dvr_job_id r' = job_id j" using b by (simp add: r'_def committed_result_def)
  have checked: "dvr_checked d' r'"
  proof -
    from ok(2) obtain x where "lookup_by job_id (dvr_job_id r') (db_jobs d3) = Some x" "dvr_check x r' = Inr ()"
      by (auto simp: dvr_checked_def r'_def)
    with rows(1) k d3 have "dvr_check j r' = Inr ()" by simp
    then have "dvr_check j' r' = Inr ()" by (simp add: dvr_check_def j'_def)
    then show ?thesis using ok(2) job k unfolding dvr_checked_def d2(5) r'_def [symmetric] k by (auto simp: j'_def)
  qed
  have wr': "row_written dvr_job_id (dvr_job_id r') r' (db_verification_results d3) (db_verification_results d')"
    using wr unfolding d2(4) r'_def [symmetric] by (auto simp: dvr_written_def)
  have "committed_verification_view E d' j' v' u r'"
    unfolding committed_verification_view_def
  proof (intro conjI)
    show "lookup_by job_id (job_id j') (db_jobs d') = Some j'" by (rule job)
    show "lookup_by ver_id (ver_id v') (db_verifications d') = Some v'"
      using vs by (simp add: d2 row_written_def v'_def finished_verification_def)
    show "lookup_by upl_id (upl_id u) (db_uploads d') = Some u" using rows(3) by (simp add: d2)
    show "lookup_by dvr_job_id (job_id j') (db_verification_results d') = Some r'"
      using row_written_lookup [OF wr'] k by (simp add: j'_def)
    have "verification_receipt_id (pe_libs E) j' = verification_receipt_id (pe_libs E) j"
      by (simp add: verification_receipt_id_def j'_def)
    then show "list_ex (\<lambda>m. rec_message_id m = verification_receipt_id (pe_libs E) j'
        \<and> rec_organization_id m = job_organization_id j' \<and> rec_job_id m = job_id j') (db_receipts d')"
      using rec b by (auto simp: d2 j'_def receipt_added_def verification_claim_binding_def)
    show "dvr_checked d' r'" by (rule checked)
    show "dvr_ok d' r'" by (rule dvr_ok_replaced [OF _ wr']) (use ok(1) in \<open>simp add: r'_def\<close>)
    have org: "job_organization_id j' = job_organization_id j" by (simp add: j'_def)
    have "promoted_for j' u = promoted_for j u" unfolding promoted_for_def org ..
    then show "verification_binding j' v' u" using b org
      by (simp add: verification_binding_def) (simp add: j'_def v'_def finished_verification_def)
    show "json_eq (ver_evidence v') (dvr_evidence r')" "json_eq (ver_metrics v') (dvr_metrics r')"
      by (simp_all add: v'_def r'_def finished_verification_def committed_result_def ev json_eq_evidence)
  qed (use b safe in \<open>auto simp: r'_def j'_def v'_def committed_result_def finished_verification_def owns_result_def
        verification_claim_binding_def\<close>)
  moreover have "job_id j' = vc_job_id c" "upl_expected_sha256 u = vc_expected_input_sha256 c"
    using b by (simp_all add: verification_claim_binding_def j'_def)
  moreover have "dvr_input_sha256 r' = Some sha" by (simp add: r'_def committed_result_def)
  ultimately show ?thesis using res unfolding r'_def by blast
qed

lemma replay_verification_acquire:
  assumes v: "committed_verification_view E (w_db w) j v u r" and a: "upl_expected_sha256 u = dvr_input_sha256 r"
    and res: "result_from_record (pe_settings E) r = Inr res"
  shows "wp (acquire_verification_claim E (job_id j) token)
     (\<lambda>acq w'. acq = VerReplayed res \<and> w_db w' = w_db w) (\<lambda>_ _. False) w"
proof -
  from v have rows: "lookup_by job_id (job_id j) (db_jobs (w_db w)) = Some j"
    "lookup_by ver_id (ver_id v) (db_verifications (w_db w)) = Some v"
    "lookup_by upl_id (upl_id u) (db_uploads (w_db w)) = Some u"
    "lookup_by dvr_job_id (job_id j) (db_verification_results (w_db w)) = Some r"
    and b: "verification_binding j v u" "job_status j = Succeeded" "dvr_job_id r = job_id j"
      "dvr_organization_id r = job_organization_id j" "dvr_verification_id r = ver_id v" "dvr_safe_error_code r = None"
      "dvr_checked (w_db w) r" "dvr_ok (w_db w) r"
    by (simp_all add: committed_verification_view_def)
  from b(1) have i: "job_verification_id j = Some (ver_id v)" "ver_upload_request_id v = upl_id u"
    "ver_organization_id v = job_organization_id j" by (simp_all add: verification_binding_def)
  have rv: "verification_replay_valid j v u r (list_ex (\<lambda>m. rec_message_id m = verification_receipt_id (pe_libs E) j
       \<and> rec_organization_id m = job_organization_id j \<and> rec_job_id m = job_id j) (db_receipts (w_db w)))"
    using v a by (simp add: committed_verification_view_def verification_replay_valid_def)
  have ok: "dvr_fields_ok r" using b(6,8) by (simp add: dvr_fields_ok_def dvr_ok_def)
  have ck: "dvr_check j r = Inr ()" using b(3,7) rows(1) by (auto simp: dvr_checked_def)
  have clean: "wp (dvr_full_clean r) (\<lambda>_ w'. w' = w) (\<lambda>_ _. False) w"
    using b(7) unfolding dvr_full_clean_def dvr_clean_def
    by (cases "dvr_recovered_issuance_id r")
       (auto simp: wp_simps rows b i ck ok related_org_def related_def validate_organization_relations_def dvr_checked_def)
  show ?thesis
    unfolding acquire_verification_claim_def acquire_verification_body_def locked_verification_job_def
      locked_verification_upload_def validate_verification_binding_def load_verification_replay_def
    using wp_mono [OF clean, where Q' = "\<lambda>_ w'. w_db w' = w_db w" and E' = "\<lambda>_ _. False"]
    by (auto simp: wp_simps rows b i rv res)
qed

section \<open>Properties\<close>

text \<open>
  C30. The result of a commit is what the next run of the same job is answered with, and that run writes nothing, when
  the digest committed is the one the upload was announced with. The next run finds the database as the commit left
  it and has the same settings and libraries; the time, the store and the limits may be others.
\<close>

theorem committed_verification_replays:
  "wp (commit_verification_result E c sha decode pages ms exact_only)
     (\<lambda>result w'. case result of None \<Rightarrow> True | Some res \<Rightarrow>
        if vc_expected_input_sha256 c = Some sha
        then wp (acquire_verification_claim E (vc_job_id c) token)
          (\<lambda>acq w''. acq = VerReplayed res \<and> w_db w'' = w_db w') (\<lambda>_ _. False) (later\<lparr>w_db := w_db w'\<rparr>)
        else True)
     (\<lambda>_ _. True) w"
  unfolding commit_verification_result_def wp_atomic
proof (rule wp_mono [OF commit_verification_body_wp], goal_cases)
  case (1 result w')
  show ?case
  proof (cases result)
    case (Some res)
    with 1 obtain s where "verification_committed E c sha decode pages ms exact_only s (w_db w) (w_db w') res" by auto
    from verification_committed_view [OF this] obtain j v u r where
      v: "committed_verification_view E (w_db w') j v u r" and j: "job_id j = vc_job_id c"
      and u: "upl_expected_sha256 u = vc_expected_input_sha256 c" "dvr_input_sha256 r = Some sha"
      and res: "result_from_record (pe_settings E) r = Inr res" by blast
    show ?thesis
    proof (cases "vc_expected_input_sha256 c = Some sha")
      case True
      with u have "upl_expected_sha256 u = dvr_input_sha256 r" by simp
      from replay_verification_acquire [where w = "later\<lparr>w_db := w_db w'\<rparr>", simplified, OF v this res, of token]
      show ?thesis by (simp add: Some True j)
    qed (simp add: Some)
  qed simp
qed simp

text \<open>
  C31. A result is committed only for a file of at most five pages, in every mode, and with counts that
  are not negative and a confidence between zero and one. A commit that gives no result has cancelled the job and
  its evidence as requested and written nothing else, and one that raises has written nothing: so a commit for a
  longer document, which the page limit admits up to fifty pages, changes nothing but a cancellation.
\<close>

theorem committed_verification_bounded:
  "wp (commit_verification_result E c sha decode pages ms exact_only)
     (\<lambda>result w'. case result of
        None \<Rightarrow> \<exists>j v u r. verification_view c (w_db w) j v u r \<and> job_status j = Processing
          \<and> job_cancel_requested_at j \<noteq> None \<and> verification_cancelled j r (w_db w) (w_db w')
      | Some res \<Rightarrow> 1 \<le> pages \<and> pages \<le> 5 \<and> 0 \<le> ms \<and> 0 \<le> ds_valid_votes decode
        \<and> 0 \<le> ds_confidence decode \<and> ds_confidence decode \<le> 1
        \<and> ds_status decode \<in> set demo_decode_statuses)
     (\<lambda>_ w'. w_db w' = w_db w) w"
  unfolding commit_verification_result_def wp_atomic
proof (rule wp_mono [OF commit_verification_body_wp], goal_cases)
  case (1 result w')
  show ?case
  proof (cases result)
    case (Some res)
    with 1 obtain s where "verification_committed E c sha decode pages ms exact_only s (w_db w) (w_db w') res" by auto
    then obtain d3 r t t2 where "dvr_checked d3 ((committed_result r sha (sr_status s) (sr_recovered_issuance_id s)
        (committed_verification_evidence s decode pages exact_only) (verification_metrics ms pages 0) t)\<lparr>dvr_updated_at := t2\<rparr>)"
      unfolding verification_committed_def by blast
    then show ?thesis
      by (auto simp: Some dvr_checked_def dvr_check_def committed_result_def committed_verification_evidence_def
          verification_metrics_def committed_evidence_check_def Let_def jget_def in_strings_def unit_interval_def
          nonneg_int_def page_count_ok_def hashable_def str_list_def split: if_splits)
  qed (use 1 in simp)
qed simp

end
