(* ===== verification/Worker.thy ===== *)
theory Worker
  imports IssuanceReplay VerificationReplay "HOL-Library.Product_Lexorder"
begin

text \<open>
  The worker loop (\<open>demo/worker.py\<close>, \<open>release/worker.py\<close>): staging created jobs from the outbox,
  claiming queued ones, processing one job a cycle, retries, and the recovery of jobs and outputs that
  a crashed worker left behind. Transactions are serial; a query with \<open>skip_locked\<close> does not see the jobs that
  another worker holds (\<open>w_locked\<close>).
\<close>

definition stale_processing_age :: int where
  "stale_processing_age = 15 * 60 * 1000000"

definition stale_reconciliation_limit :: nat where
  "stale_reconciliation_limit = 25"

definition max_stale_reconciliation_limit :: nat where
  "max_stale_reconciliation_limit = 100"

definition deadline_error_code :: string where
  "deadline_error_code = ''DEMO_JOB_DEADLINE_EXCEEDED''"

definition stale_job_error_code :: string where
  "stale_job_error_code = ''DEMO_STALE_JOB_FAILED''"

definition stale_result_error_code :: string where
  "stale_result_error_code = ''DEMO_STALE_RESULT_INVALID''"

definition stale_cleanup_error_code :: string where
  "stale_cleanup_error_code = ''DEMO_STALE_OUTPUT_CLEANUP_FAILED''"

record worker_result =
  wr_job_id :: uuid
  wr_kind :: job_kind
  wr_safe_code :: string

definition worker_result :: "uuid \<Rightarrow> job_kind \<Rightarrow> string \<Rightarrow> worker_result" where
  "worker_result k kind code = \<lparr>wr_job_id = k, wr_kind = kind, wr_safe_code = code\<rparr>"

definition is_enabled :: "settings \<Rightarrow> bool option \<Rightarrow> bool" where
  "is_enabled S enabled = (case enabled of None \<Rightarrow> set_demo_mode S | Some b \<Rightarrow> b)"

definition given_or_now :: "time option \<Rightarrow> ('st world, time) prog" where
  "given_or_now t = (case t of Some x \<Rightarrow> ret x | None \<Rightarrow> now)"

text \<open>\<open>_lock_jobs\<close>, \<open>_lock_job_rows\<close>: \<open>select_for_update(skip_locked=True)\<close>.\<close>

definition unlocked_jobs :: "'st world \<Rightarrow> job list" where
  "unlocked_jobs w = filter (\<lambda>j. \<not> w_locked w (job_id j)) (db_jobs (w_db w))"

text \<open>\<open>filter(status=...).order_by("created_at", "id").first()\<close>.\<close>

definition oldest_job :: "job_status \<Rightarrow> job list \<Rightarrow> job option" where
  "oldest_job s rows = first_by (\<lambda>j. (job_created_at j, job_id j)) (filter (\<lambda>j. job_status j = s) rows)"

section \<open>Claiming a queued job\<close>

record claim_options =
  co_owner_token :: "uuid option"
  co_now :: "time option"
  co_enabled :: "bool option"
  co_deadline_code :: string
  co_timeout_seconds :: "int option"
  co_timeout_code :: "string option"

definition terminalize_locked_job :: "job \<Rightarrow> job_status \<Rightarrow> string option \<Rightarrow> ('st world, job) prog" where
  "terminalize_locked_job j s code = chain (lift_sum (advance_job j s)) (\<lambda>j'.
     save_job [FStatus, FSafeErrorCode, FUpdatedAt] (j'\<lparr>job_safe_error_code := code\<rparr>))"

text \<open>The extension of the output, from the content type of the upload behind the document.\<close>

definition claimed_output_extension :: "db \<Rightarrow> job \<Rightarrow> string" where
  "claimed_output_extension d j =
     (let content_type = Option.bind (job_issuance_id j) (\<lambda>k.
            Option.bind (lookup_by iss_id k (db_issuances d)) (\<lambda>i.
            Option.bind (lookup_by doc_id (iss_document_id i) (db_documents d)) (\<lambda>x.
            Option.bind (lookup_by upl_id (doc_upload_request_id x) (db_uploads d)) (\<lambda>u.
            Some (upl_source_content_type u)))))
      in issuance_output_extension (case content_type of None \<Rightarrow> [] | Some t \<Rightarrow> t))"

definition reserve_claimed :: "job \<Rightarrow> uuid \<Rightarrow> ('st world, unit) prog" where
  "reserve_claimed j token =
     chain (gets (\<lambda>w. claimed_output_extension (w_db w) j)) (\<lambda>ext.
     chain now (\<lambda>created. chain now (\<lambda>updated.
     case job_kind j of
       KindIssuance \<Rightarrow> (case job_issuance_id j of
           None \<Rightarrow> raise (DoesNotExist (tb_name issuances_t))
         | Some i \<Rightarrow> insert_dir True (new_dir (job_organization_id j) (job_id j) i (job_attempt j) token
             (output_key_for (job_organization_id j) i ext) created updated))
     | KindVerification \<Rightarrow> (case job_verification_id j of
           None \<Rightarrow> raise (DoesNotExist (tb_name verifications_t))
         | Some v \<Rightarrow> insert_dvr True (new_dvr (job_organization_id j) (job_id j) v (job_attempt j) token
             created updated)))))"

definition past_timeout :: "claim_options \<Rightarrow> time \<Rightarrow> job \<Rightarrow> bool" where
  "past_timeout co t j \<longleftrightarrow> (case co_timeout_seconds co of None \<Rightarrow> False
     | Some s \<Rightarrow> job_created_at j + s * 1000000 \<le> t)"

definition claim_body :: "claim_options \<Rightarrow> ('st world, (job \<times> uuid) option) prog" where
  "claim_body co =
     chain (gets (\<lambda>w. oldest_job Queued (unlocked_jobs w))) (\<lambda>found. case found of
       None \<Rightarrow> ret None
     | Some j \<Rightarrow>
         if job_cancel_requested_at j \<noteq> None then
           chain (lift_sum (advance_job j Cancelled)) (\<lambda>j'. chain (save_job [FStatus, FUpdatedAt] j') (\<lambda>_. ret None))
         else chain (given_or_now (co_now co)) (\<lambda>t.
           if job_deadline_at j \<le> t then
             chain (terminalize_locked_job j Failed (Some (co_deadline_code co))) (\<lambda>_. ret None)
           else if past_timeout co t j then
             chain (terminalize_locked_job j Failed (co_timeout_code co)) (\<lambda>_. ret None)
           else
             chain (lift_sum (advance_job j Processing)) (\<lambda>j'.
             chain (save_job [FStatus, FUpdatedAt] j') (\<lambda>j''.
             chain (case co_owner_token co of Some token \<Rightarrow> ret token | None \<Rightarrow> uuid4) (\<lambda>token.
             chain (reserve_claimed j'' token) (\<lambda>_. ret (Some (j'', token))))))))"

definition claim_next_job :: "settings \<Rightarrow> claim_options \<Rightarrow> ('st world, (job \<times> uuid) option) prog" where
  "claim_next_job S co = (if is_enabled S (co_enabled co) then atomic (claim_body co) else ret None)"

section \<open>Staging a created job\<close>

text \<open>The object key and the digest a job reads, when its rows are there and in its organization.\<close>

definition locked_job_input :: "db \<Rightarrow> job \<Rightarrow> (json \<times> json) option" where
  "locked_job_input d j =
     (case (job_kind j, job_issuance_id j, job_verification_id j) of
        (KindIssuance, Some k, _) \<Rightarrow>
          Option.bind (lookup_by iss_id k (db_issuances d)) (\<lambda>i.
          if iss_organization_id i \<noteq> job_organization_id j then None
          else Option.bind (lookup_by doc_id (iss_document_id i) (db_documents d)) (\<lambda>x.
          if doc_organization_id x \<noteq> job_organization_id j then None
          else Some (JStr (doc_source_object_key x), JStr (doc_expected_source_sha256 x))))
      | (KindVerification, _, Some k) \<Rightarrow>
          Option.bind (lookup_by ver_id k (db_verifications d)) (\<lambda>v.
          if ver_organization_id v \<noteq> job_organization_id j then None
          else Option.bind (lookup_by upl_id (ver_upload_request_id v) (db_uploads d)) (\<lambda>u.
          if upl_organization_id u \<noteq> job_organization_id j then None
          else Some (opt_json (upl_promotion_target_key u), opt_json (upl_expected_sha256 u))))
      | _ \<Rightarrow> None)"

definition outbox_matches_job :: "libs \<Rightarrow> outbox_event \<Rightarrow> job \<Rightarrow> (json \<times> json) option \<Rightarrow> bool" where
  "outbox_matches_job L e j binding \<longleftrightarrow>
     obx_organization_id e = job_organization_id j \<and> obx_job_id e = job_id j
     \<and> obx_attempt e = job_attempt j \<and> obx_published_at e = None
     \<and> (case binding of None \<Rightarrow> False
        | Some (key, sha) \<Rightarrow> obx_topic e = kind_value (job_kind j) @ ''.requested''
            \<and> json_eq (obx_payload e) (job_request_payload j (obx_message_id e) key sha)
            \<and> lb_job_schema L (obx_payload e))"

definition stage_body :: "libs \<Rightarrow> ('st world, job option) prog" where
  "stage_body L =
     chain (gets (\<lambda>w. oldest_job Created (unlocked_jobs w))) (\<lambda>found. case found of
       None \<Rightarrow> ret None
     | Some j \<Rightarrow>
         chain (rows_where outbox_t (\<lambda>e. obx_job_id e = job_id j)) (\<lambda>rows.
         chain (gets (\<lambda>w. locked_job_input (w_db w) j)) (\<lambda>binding.
         case take 2 (sort_key obx_id rows) of
           [e] \<Rightarrow>
             if outbox_matches_job L e j binding then
               chain (lift_sum (advance_job j Queued)) (\<lambda>j'.
               chain (save_job [FStatus, FUpdatedAt] j') (\<lambda>j''. ret (Some j'')))
             else ret None
         | _ \<Rightarrow> ret None)))"

definition stage_next_created_job :: "settings \<Rightarrow> libs \<Rightarrow> bool option \<Rightarrow> ('st world, job option) prog" where
  "stage_next_created_job S L enabled = (if is_enabled S enabled then atomic (stage_body L) else ret None)"

section \<open>Recovering stale work\<close>

text \<open>What the recovery of one job begins with.\<close>

datatype recovery =
    Recovered worker_result
  | Tombstone processing_claim int
  | Cleanup processing_claim int

definition recovery_unusable :: "exn \<Rightarrow> bool" where
  "recovery_unusable e = (case e of
     DoesNotExist t \<Rightarrow> t = tb_name issuance_results_t
   | DemoIssuanceError _ _ \<Rightarrow> True
   | ValidationError _ \<Rightarrow> True
   | _ \<Rightarrow> False)"

definition verification_recovery_unusable :: "exn \<Rightarrow> bool" where
  "verification_recovery_unusable e = (case e of
     DoesNotExist t \<Rightarrow> t = tb_name verification_results_t
   | DemoVerificationError _ _ \<Rightarrow> True
   | ValidationError _ \<Rightarrow> True
   | _ \<Rightarrow> False)"

definition usable :: "(exn \<Rightarrow> bool) \<Rightarrow> ('st world, 'a) prog \<Rightarrow> ('st world, 'a option) prog" where
  "usable caught m = attempt (chain m (\<lambda>x. ret (Some x))) (\<lambda>e. if caught e then ret None else raise e)"

definition issuance_claim_for_recovery ::
  "job \<Rightarrow> demo_issuance_result \<Rightarrow> ('st world, (processing_claim \<times> issuance \<times> document) option) prog" where
  "issuance_claim_for_recovery j r =
     (if dir_organization_id r \<noteq> job_organization_id j \<or> dir_job_id r \<noteq> job_id j
         \<or> Some (dir_issuance_id r) \<noteq> job_issuance_id j \<or> dir_attempt r \<noteq> job_attempt j
      then ret None
      else usable recovery_unusable (
        chain (locked_issuance_document j) (\<lambda>(i, x).
        let c = processing_claim_of j i x (dir_output_object_key r) (dir_owner_token r) in
        chain (validate_claim_binding c j i x) (\<lambda>_.
        chain (dir_full_clean r) (\<lambda>_. ret (c, i, x))))))"

definition verification_claim_for_recovery ::
  "job \<Rightarrow> demo_verification_result \<Rightarrow> ('st world, (verification_claim \<times> verification \<times> upload_request) option) prog" where
  "verification_claim_for_recovery j r =
     (if dvr_organization_id r \<noteq> job_organization_id j \<or> dvr_job_id r \<noteq> job_id j
         \<or> Some (dvr_verification_id r) \<noteq> job_verification_id j \<or> dvr_attempt r \<noteq> job_attempt j
      then ret None
      else usable verification_recovery_unusable (
        chain (locked_verification_upload j) (\<lambda>(v, u).
        let c = verification_claim_of j v u (dvr_owner_token r) in
        chain (validate_verification_binding j v u) (\<lambda>_.
        chain (require (verification_claim_binding c j v u) verification_ownership_invalid) (\<lambda>_.
        chain (dvr_full_clean r) (\<lambda>_. ret (c, v, u)))))))"

text \<open>A committed row whose job is still processing is adopted when it can be replayed.\<close>

definition adopt_committed :: "(exn \<Rightarrow> bool) \<Rightarrow> job \<Rightarrow> ('st world, 'a) prog \<Rightarrow> ('st world, recovery) prog" where
  "adopt_committed caught j replay =
     chain (usable caught replay) (\<lambda>found. case found of
       None \<Rightarrow> chain (terminalize_locked_job j Failed (Some stale_result_error_code)) (\<lambda>_.
         ret (Recovered (worker_result (job_id j) (job_kind j) stale_result_error_code)))
     | Some _ \<Rightarrow> chain (terminalize_locked_job j Succeeded None) (\<lambda>_.
         ret (Recovered (worker_result (job_id j) (job_kind j) ''OK''))))"

definition replay_refused :: "exn \<Rightarrow> bool" where
  "replay_refused e = (case e of DemoIssuanceError _ _ \<Rightarrow> True | ValidationError _ \<Rightarrow> True | _ \<Rightarrow> False)"

definition verification_replay_refused :: "exn \<Rightarrow> bool" where
  "verification_replay_refused e = (case e of DemoVerificationError _ _ \<Rightarrow> True | ValidationError _ \<Rightarrow> True | _ \<Rightarrow> False)"

definition prepare_issuance_recovery ::
  "processing_env \<Rightarrow> job \<Rightarrow> demo_issuance_result \<Rightarrow> ('st world, recovery option) prog" where
  "prepare_issuance_recovery E j r =
     chain (issuance_claim_for_recovery j r) (\<lambda>prepared. case prepared of
       None \<Rightarrow> ret None
     | Some (c, i, x) \<Rightarrow>
         if dir_output_state r = OutCommitted then
           chain (adopt_committed replay_refused j (load_replay_result E j i x)) (\<lambda>a. ret (Some a))
         else if dir_output_state r \<in> {OutUploading, OutCleanupRequired} then
           chain uuid4 (\<lambda>token.
           chain (claim_stale_output_recovery c token) (\<lambda>(rc, prior). ret (Some (Cleanup rc prior))))
         else
           chain (record_failed_job c stale_job_error_code 0) (\<lambda>_.
           ret (Some (Recovered (worker_result (job_id j) (job_kind j) stale_job_error_code)))))"

definition prepare_verification_recovery ::
  "processing_env \<Rightarrow> job \<Rightarrow> demo_verification_result \<Rightarrow> ('st world, recovery option) prog" where
  "prepare_verification_recovery E j r =
     chain (verification_claim_for_recovery j r) (\<lambda>prepared. case prepared of
       None \<Rightarrow> ret None
     | Some (c, v, u) \<Rightarrow>
         if dvr_result_state r = VerCommitted then
           chain (adopt_committed verification_replay_refused j (load_verification_replay E j v u)) (\<lambda>a. ret (Some a))
         else if dvr_result_state r = VerReserved then
           chain (record_failed_verification c stale_job_error_code 0 (pe_elapsed_ms E)) (\<lambda>_.
           ret (Some (Recovered (worker_result (job_id j) (job_kind j) stale_job_error_code))))
         else ret None)"

text \<open>A failed job whose output may still appear: its evidence keeps the fence of the recovery.\<close>

definition fenced_evidence :: "demo_issuance_result \<Rightarrow> bool" where
  "fenced_evidence r \<longleftrightarrow> dir_output_state r = OutCleanupRequired
     \<and> dir_safe_error_code r = Some demo_stale_recovery_fence_code"

definition prepare_tombstone :: "job \<Rightarrow> demo_issuance_result option \<Rightarrow> ('st world, recovery option) prog" where
  "prepare_tombstone j found = (case found of
     None \<Rightarrow> ret None
   | Some r \<Rightarrow>
       if fenced_evidence r then
         chain (issuance_claim_for_recovery j r) (\<lambda>prepared. case prepared of
           None \<Rightarrow> ret None
         | Some (c, i, x) \<Rightarrow> ret (Some (Tombstone c (dir_cleanup_failures r))))
       else ret None)"

definition prepare_stale_body :: "processing_env \<Rightarrow> uuid \<Rightarrow> time \<Rightarrow> ('st world, recovery option) prog" where
  "prepare_stale_body E k stale_before =
     chain (gets (\<lambda>w. lookup_by job_id k (db_jobs (w_db w)))) (\<lambda>found. case found of
       None \<Rightarrow> ret None
     | Some j \<Rightarrow>
         chain (if job_kind j = KindIssuance \<and> job_status j = Failed
                then chain (gets (\<lambda>w. lookup_by dir_job_id k (db_issuance_results (w_db w)))) (prepare_tombstone j)
                else ret None) (\<lambda>tombstone.
         if tombstone \<noteq> None then ret tombstone
         else if job_status j \<noteq> Processing \<or> stale_before \<le> job_updated_at j then ret None
         else (case job_kind j of
           KindIssuance \<Rightarrow>
             chain (gets (\<lambda>w. lookup_by dir_job_id k (db_issuance_results (w_db w)))) (\<lambda>owned. case owned of
               None \<Rightarrow> ret None | Some r \<Rightarrow> prepare_issuance_recovery E j r)
         | KindVerification \<Rightarrow>
             chain (gets (\<lambda>w. lookup_by dvr_job_id k (db_verification_results (w_db w)))) (\<lambda>owned. case owned of
               None \<Rightarrow> ret None | Some r \<Rightarrow> prepare_verification_recovery E j r))))"

definition prepare_stale_recovery :: "processing_env \<Rightarrow> uuid \<Rightarrow> time \<Rightarrow> ('st world, recovery option) prog" where
  "prepare_stale_recovery E k stale_before = atomic (prepare_stale_body E k stale_before)"

definition delete_output :: "'st storage_ops \<Rightarrow> processing_claim \<Rightarrow> ('st world, bool) prog" where
  "delete_output ops c =
     attempt (chain (on_store (so_delete ops (pc_output_object_key c))) (\<lambda>_. ret True)) (\<lambda>_. ret False)"

definition recover_stale_job ::
  "processing_env \<Rightarrow> 'st storage_ops \<Rightarrow> uuid \<Rightarrow> time \<Rightarrow> ('st world, worker_result option) prog" where
  "recover_stale_job E ops k stale_before =
     chain (prepare_stale_recovery E k stale_before) (\<lambda>prepared. case prepared of
       None \<Rightarrow> ret None
     | Some a \<Rightarrow> (case a of
         Recovered res \<Rightarrow> ret (Some res)
       | Tombstone c prior \<Rightarrow>
           chain (delete_output ops c) (\<lambda>deleted.
           ret (Some (worker_result (pc_job_id c) KindIssuance
             (if deleted then stale_job_error_code else stale_cleanup_error_code))))
       | Cleanup c prior \<Rightarrow>
           chain (authorize_stale_output_delete c prior) (\<lambda>_.
           chain (delete_output ops c) (\<lambda>deleted.
           if deleted then
             chain (acknowledge_stale_output_delete c prior stale_job_error_code) (\<lambda>_.
             ret (Some (worker_result (pc_job_id c) KindIssuance stale_job_error_code)))
           else
             chain (record_stale_output_delete_failure c prior stale_cleanup_error_code) (\<lambda>_.
             ret (Some (worker_result (pc_job_id c) KindIssuance stale_cleanup_error_code)))))))"

definition stale_candidate :: "db \<Rightarrow> time \<Rightarrow> job \<Rightarrow> bool" where
  "stale_candidate d stale_before j \<longleftrightarrow>
     (list_ex (\<lambda>r. dir_job_id r = job_id j) (db_issuance_results d)
        \<or> list_ex (\<lambda>r. dvr_job_id r = job_id j) (db_verification_results d))
       \<and> job_status j = Processing \<and> job_updated_at j < stale_before
     \<or> list_ex (\<lambda>r. dir_job_id r = job_id j \<and> fenced_evidence r) (db_issuance_results d) \<and> job_status j = Failed"

definition stale_candidates :: "'st world \<Rightarrow> time \<Rightarrow> nat \<Rightarrow> job list" where
  "stale_candidates w stale_before limit =
     take limit (sort_key (\<lambda>j. (job_updated_at j, job_id j))
       (filter (stale_candidate (w_db w) stale_before) (unlocked_jobs w)))"

fun recover_each ::
  "processing_env \<Rightarrow> 'st storage_ops \<Rightarrow> time \<Rightarrow> uuid list \<Rightarrow> ('st world, worker_result list) prog" where
  "recover_each E ops stale_before [] = ret []"
| "recover_each E ops stale_before (k # ks) =
     chain (recover_stale_job E ops k stale_before) (\<lambda>outcome.
     chain (recover_each E ops stale_before ks) (\<lambda>rest.
     ret (case outcome of None \<Rightarrow> rest | Some res \<Rightarrow> res # rest)))"

definition reconcile_stale_jobs ::
  "processing_env \<Rightarrow> 'st storage_ops \<Rightarrow> nat \<Rightarrow> time option \<Rightarrow> bool option \<Rightarrow> int \<Rightarrow> ('st world, worker_result list) prog" where
  "reconcile_stale_jobs E ops limit at_time enabled stale_age =
     (if \<not> is_enabled (pe_settings E) enabled then ret []
      else
        chain (require (1 \<le> limit \<and> limit \<le> max_stale_reconciliation_limit)
                 (ValueError ''stale reconciliation limit is out of bounds'')) (\<lambda>_.
        chain (given_or_now at_time) (\<lambda>observed.
        chain (gets (\<lambda>w. map job_id (stale_candidates w (observed - stale_age) limit))) (\<lambda>ids.
        recover_each E ops (observed - stale_age) ids))))"

section \<open>One cycle\<close>

definition run_claimed ::
  "processing_env \<Rightarrow> suspect_libs \<Rightarrow> 'st storage_ops \<Rightarrow> string \<Rightarrow> job \<Rightarrow> uuid \<Rightarrow> ('st world, worker_result) prog" where
  "run_claimed E V ops failed_code j token =
     attempt (chain (case job_kind j of
          KindIssuance \<Rightarrow> chain (process_issuance_job E ops (job_id j) (Some token)) (\<lambda>_. ret ())
        | KindVerification \<Rightarrow> chain (process_verification_job E V ops (job_id j) (Some token)) (\<lambda>_. ret ()))
        (\<lambda>_. ret (worker_result (job_id j) (job_kind j) ''OK'')))
       (\<lambda>_. ret (worker_result (job_id j) (job_kind j) failed_code))"

definition demo_claim_options :: claim_options where
  "demo_claim_options = \<lparr>co_owner_token = None, co_now = None, co_enabled = None,
     co_deadline_code = deadline_error_code, co_timeout_seconds = None, co_timeout_code = None\<rparr>"

definition run_worker_cycle ::
  "processing_env \<Rightarrow> suspect_libs \<Rightarrow> 'st storage_ops \<Rightarrow> ('st world, worker_result option) prog" where
  "run_worker_cycle E V ops =
     chain (stage_next_created_job (pe_settings E) (pe_libs E) None) (\<lambda>_.
     chain (claim_next_job (pe_settings E) demo_claim_options) (\<lambda>claimed. case claimed of
       None \<Rightarrow> ret None
     | Some (j, token) \<Rightarrow>
         chain (run_claimed E V ops ''DEMO_JOB_PROCESSING_FAILED'' j token) (\<lambda>res. ret (Some res))))"

section \<open>The release worker\<close>

definition max_job_attempt :: int where
  "max_job_attempt = 2"

definition require_integrity_mode :: "settings \<Rightarrow> ('st world, unit) prog" where
  "require_integrity_mode S = require (integrity_mode S) (ImproperlyConfigured ''INTEGRITY_RELEASE_MODE_REQUIRED'')"

definition job_has_result :: "db \<Rightarrow> job \<Rightarrow> bool" where
  "job_has_result d j \<longleftrightarrow> (case job_kind j of
     KindIssuance \<Rightarrow> list_ex (\<lambda>r. dir_job_id r = job_id j) (db_issuance_results d)
   | KindVerification \<Rightarrow> list_ex (\<lambda>r. dvr_job_id r = job_id j) (db_verification_results d))"

definition requeue :: "job \<Rightarrow> ('st world, job) prog" where
  "requeue j = chain (lift_sum (advance_job j Queued)) (\<lambda>j'.
     save_job [FStatus, FAttempt, FSafeErrorCode, FUpdatedAt]
       (j'\<lparr>job_attempt := job_attempt j' + 1, job_safe_error_code := None\<rparr>))"

definition retry_body :: "time \<Rightarrow> ('st world, unit) prog" where
  "retry_body t =
     chain (gets (\<lambda>w. first_by (\<lambda>j. (job_updated_at j, job_id j))
              (filter (\<lambda>j. job_status j = RetryableFailed) (unlocked_jobs w)))) (\<lambda>found. case found of
       None \<Rightarrow> ret ()
     | Some j \<Rightarrow>
         if job_cancel_requested_at j \<noteq> None then
           chain (lift_sum (advance_job j Cancelled)) (\<lambda>j'. chain (save_job [FStatus, FUpdatedAt] j') (\<lambda>_. ret ()))
         else if job_deadline_at j \<le> t then
           chain (terminalize_locked_job j Failed (Some ''INTEGRITY_JOB_DEADLINE_EXCEEDED'')) (\<lambda>_. ret ())
         else
           chain (gets (\<lambda>w. job_has_result (w_db w) j)) (\<lambda>owned.
           if owned then
             chain (terminalize_locked_job j DeadLettered (Some ''INTEGRITY_JOB_RESULT_ALREADY_OWNED'')) (\<lambda>_. ret ())
           else if max_job_attempt \<le> job_attempt j then
             chain (terminalize_locked_job j DeadLettered (Some ''INTEGRITY_JOB_ATTEMPTS_EXHAUSTED'')) (\<lambda>_. ret ())
           else chain (requeue j) (\<lambda>_. ret ())))"

definition prepare_one_retry :: "time \<Rightarrow> ('st world, unit) prog" where
  "prepare_one_retry t = atomic (retry_body t)"

definition integrity_claim_options :: "uuid \<Rightarrow> time \<Rightarrow> int \<Rightarrow> claim_options" where
  "integrity_claim_options token t limit_seconds = \<lparr>co_owner_token = Some token, co_now = Some t, co_enabled = Some True,
     co_deadline_code = ''INTEGRITY_JOB_DEADLINE_EXCEEDED'', co_timeout_seconds = Some limit_seconds,
     co_timeout_code = Some ''INTEGRITY_JOB_TIMEOUT_EXCEEDED''\<rparr>"

definition claim_next_integrity_job ::
  "settings \<Rightarrow> uuid \<Rightarrow> py_datetime \<Rightarrow> ('st world, (job \<times> uuid) option) prog" where
  "claim_next_integrity_job S token t =
     chain (require_integrity_mode S) (\<lambda>_.
     chain (require (\<not> is_naive t) (ValueError ''INTEGRITY_NOW_INVALID'')) (\<lambda>_.
     chain (prepare_one_retry (instant t)) (\<lambda>_.
     chain (gets (\<lambda>w. lim_job_timeout_seconds (w_limits w))) (\<lambda>secs.
     claim_next_job S (integrity_claim_options token (instant t) secs)))))"

definition process_integrity_cycle ::
  "processing_env \<Rightarrow> suspect_libs \<Rightarrow> 'st storage_ops \<Rightarrow> py_datetime \<Rightarrow> ('st world, worker_result option) prog" where
  "process_integrity_cycle E V ops t =
     chain (require_integrity_mode (pe_settings E)) (\<lambda>_.
     chain (stage_next_created_job (pe_settings E) (pe_libs E) (Some True)) (\<lambda>_.
     chain uuid4 (\<lambda>token.
     chain (claim_next_integrity_job (pe_settings E) token t) (\<lambda>claimed. case claimed of
       None \<Rightarrow> ret None
     | Some (j, owner) \<Rightarrow>
         chain (run_claimed E V ops ''INTEGRITY_JOB_PROCESSING_FAILED'' j owner) (\<lambda>res. ret (Some res))))))"

definition recover_stale_integrity_jobs ::
  "processing_env \<Rightarrow> 'st storage_ops \<Rightarrow> time \<Rightarrow> ('st world, worker_result list) prog" where
  "recover_stale_integrity_jobs E ops t =
     chain (require_integrity_mode (pe_settings E)) (\<lambda>_.
     chain (gets (\<lambda>w. lim_job_timeout_seconds (w_limits w))) (\<lambda>secs.
     reconcile_stale_jobs E ops stale_reconciliation_limit (Some t) (Some True) (secs * 1000000)))"

text \<open>The checks of the worker at its start; the settings and the database connection are given.\<close>

definition validate_integrity_worker_startup ::
  "settings \<Rightarrow> manifest_libs \<Rightarrow> (string \<Rightarrow> json) \<Rightarrow> string \<Rightarrow> bool \<Rightarrow> exn + unit" where
  "validate_integrity_worker_startup S L get vendor connects =
     sum_then (sum_require (integrity_mode S) (ImproperlyConfigured ''INTEGRITY_RELEASE_MODE_REQUIRED'')) (\<lambda>_.
     sum_then (sum_require (list_all (\<lambda>(n, v). n = ''RETENTION_RECONCILIATION_LEASE_SECONDS'' \<or> scalar_eq (get n) (JInt v))
                 production_runtime_limits) (ImproperlyConfigured ''INTEGRITY_LIMITS_INVALID'')) (\<lambda>_.
     sum_then (sum_require (vendor = ''postgresql'') (ImproperlyConfigured ''INTEGRITY_DATABASE_INVALID'')) (\<lambda>_.
     sum_then (sum_require connects (ImproperlyConfigured ''INTEGRITY_DATABASE_UNAVAILABLE'')) (\<lambda>_.
     case (set_signing_key_file S, set_signing_passphrase_file S) of
       (Some key_file, Some passphrase_file) \<Rightarrow>
         (case load_manifest_signing_key L key_file passphrase_file of
            Inr _ \<Rightarrow> Inr ()
          | Inl (ValueError _) \<Rightarrow> Inl (ImproperlyConfigured ''INTEGRITY_SIGNING_KEY_INVALID'')
          | Inl (TypeError _) \<Rightarrow> Inl (ImproperlyConfigured ''INTEGRITY_SIGNING_KEY_INVALID'')
          | Inl e \<Rightarrow> Inl e)
     | _ \<Rightarrow> Inl (ImproperlyConfigured ''INTEGRITY_SIGNING_KEY_INVALID'')))))"

end
