(* ===== verification/WorkerFacts.thy ===== *)
theory WorkerFacts
  imports Worker
begin

text \<open>
  What a worker does to the database: a claimed job is held by one owner, a cycle only lets the
  database evolve, a recovery settles its job, and tombstones are never settled.
\<close>

section \<open>The row a query selects\<close>

definition job_keys_distinct :: "db \<Rightarrow> bool" where
  "job_keys_distinct d \<longleftrightarrow> distinct (map job_id (db_jobs d))"

lemma lookup_distinct: "distinct (map key rows) \<Longrightarrow> r \<in> set rows \<Longrightarrow> lookup_by key (key r) rows = Some r"
  by (induction rows) (auto simp: lookup_by_def)

lemma oldest_job_row:
  assumes "oldest_job s (unlocked_jobs w) = Some j" "job_keys_distinct (w_db w)"
  shows "lookup_by job_id (job_id j) (db_jobs (w_db w)) = Some j \<and> job_status j = s"
  using first_by_SomeD [of _ "filter (\<lambda>j. job_status j = s) (unlocked_jobs w)" j] assms lookup_distinct
  by (fastforce simp: oldest_job_def unlocked_jobs_def job_keys_distinct_def)

lemma job_written_keys:
  assumes "wp m Q E w" "\<And>x w'. Q x w' \<Longrightarrow> map job_id (db_jobs (w_db w')) = map job_id (db_jobs (w_db w))"
  shows "wp m (\<lambda>x w'. Q x w' \<and> (job_keys_distinct (w_db w) \<longrightarrow> job_keys_distinct (w_db w'))) E w"
  by (rule wp_mono [OF assms(1)]) (auto simp: job_keys_distinct_def dest: assms(2))

lemma save_job_keys_wp:
  "wp (save_job fs j) (\<lambda>_ w'. job_keys_distinct (w_db w') = job_keys_distinct (w_db w)) (\<lambda>_ _. True) w"
  by (rule wp_mono [OF save_job_wp]) (auto simp: job_keys_distinct_def map_key_update)

section \<open>Job writes of the loop\<close>

text \<open>One job row changed its status, code and attempt.\<close>

definition job_settled :: "job \<Rightarrow> job_status \<Rightarrow> string option \<Rightarrow> db \<Rightarrow> db \<Rightarrow> bool" where
  "job_settled j s code d d' \<longleftrightarrow> (\<exists>t. job_written (j\<lparr>job_status := s, job_safe_error_code := code, job_updated_at := t\<rparr>) d d')"

lemma terminalize_wp:
  assumes "lookup_by job_id (job_id j) (db_jobs (w_db w)) = Some j"
  shows "wp (terminalize_locked_job j s code)
     (\<lambda>_ w'. job_settled j s code (w_db w) (w_db w') \<and> w_store w' = w_store w)
     (\<lambda>_ w'. w_db w' = w_db w \<and> w_store w' = w_store w) w"
  unfolding terminalize_locked_job_def
  by (intro wp_intros wp_mono [OF terminal_job_wp [where j = j and target = s, OF assms]]) (auto simp: job_settled_def)

lemma terminalize_keys_wp:
  "wp (terminalize_locked_job j s code) (\<lambda>_ w'. job_keys_distinct (w_db w') = job_keys_distinct (w_db w)) (\<lambda>_ _. True) w"
  unfolding terminalize_locked_job_def by (intro wp_intros wp_mono [OF save_job_keys_wp]) auto

lemma save_status_wp:
  assumes "lookup_by job_id (job_id j) (db_jobs (w_db w)) = Some j" "advance_job j s = Inr j'"
  shows "wp (save_job [FStatus, FUpdatedAt] j')
     (\<lambda>k w'. (\<exists>t. k = j\<lparr>job_status := s, job_updated_at := t\<rparr>) \<and> job_written k (w_db w) (w_db w')
        \<and> w_store w' = w_store w \<and> job_keys_distinct (w_db w') = job_keys_distinct (w_db w))
     (\<lambda>_ w'. w_db w' = w_db w \<and> w_store w' = w_store w) w"
proof -
  have j': "j' = j\<lparr>job_status := s\<rparr>" and t: "s \<in> set (transitions (job_status j))"
    using assms(2) by (simp_all add: advance_job_Inr)
  show ?thesis
    by (rule wp_mono [OF wp_conj [OF save_job_row_wp [where p = j] save_job_keys_wp]])
       (use assms t in \<open>auto simp: j' merge_status job_evolves_def intro: status_reaches_step\<close>)
qed

section \<open>Claiming\<close>

text \<open>\<open>now or timezone.now()\<close>: the time a claim compares the deadline and the timeout with.\<close>

definition claim_time :: "claim_options \<Rightarrow> 'st world \<Rightarrow> time" where
  "claim_time co w = (case co_now co of None \<Rightarrow> w_clock w (w_tick w) | Some t \<Rightarrow> t)"

text \<open>The oldest queued job that no other worker holds, not cancelled and in time.\<close>

definition claimable :: "claim_options \<Rightarrow> 'st world \<Rightarrow> job \<Rightarrow> bool" where
  "claimable co w j \<longleftrightarrow> oldest_job Queued (unlocked_jobs w) = Some j \<and> job_cancel_requested_at j = None
     \<and> claim_time co w < job_deadline_at j \<and> \<not> past_timeout co (claim_time co w) j"

text \<open>The job has one evidence row, new and reserved by the token.\<close>

definition evidence_reserved :: "job \<Rightarrow> uuid \<Rightarrow> db \<Rightarrow> db \<Rightarrow> bool" where
  "evidence_reserved k token d d' \<longleftrightarrow> (case job_kind k of
     KindIssuance \<Rightarrow> \<exists>r. d' = d\<lparr>db_issuance_results := db_issuance_results d @ [r]\<rparr>
       \<and> dir_job_id r = job_id k \<and> dir_owner_token r = token \<and> dir_output_state r = OutReserved
       \<and> job_id k \<notin> dir_job_id ` set (db_issuance_results d)
   | KindVerification \<Rightarrow> \<exists>r. d' = d\<lparr>db_verification_results := db_verification_results d @ [r]\<rparr>
       \<and> dvr_job_id r = job_id k \<and> dvr_owner_token r = token \<and> dvr_result_state r = VerReserved
       \<and> job_id k \<notin> dvr_job_id ` set (db_verification_results d))"

definition job_claimed :: "claim_options \<Rightarrow> 'st world \<Rightarrow> job \<Rightarrow> uuid \<Rightarrow> db \<Rightarrow> bool" where
  "job_claimed co w k token d' \<longleftrightarrow> (\<exists>j t d1. claimable co w j \<and> k = j\<lparr>job_status := Processing, job_updated_at := t\<rparr>
     \<and> job_written k (w_db w) d1 \<and> evidence_reserved k token d1 d')"

text \<open>Nothing was claimed: no job was queued, or the oldest one was cancelled or had run out of time.\<close>

definition claim_declined :: "claim_options \<Rightarrow> 'st world \<Rightarrow> db \<Rightarrow> bool" where
  "claim_declined co w d' \<longleftrightarrow> (case oldest_job Queued (unlocked_jobs w) of
     None \<Rightarrow> d' = w_db w
   | Some j \<Rightarrow>
       if job_cancel_requested_at j \<noteq> None then job_settled j Cancelled (job_safe_error_code j) (w_db w) d'
       else if job_deadline_at j \<le> claim_time co w then job_settled j Failed (Some (co_deadline_code co)) (w_db w) d'
       else past_timeout co (claim_time co w) j \<and> job_settled j Failed (co_timeout_code co) (w_db w) d')"

lemma reserve_claimed_wp:
  "wp (reserve_claimed j token)
     (\<lambda>_ w'. w_store w' = w_store w \<and> evidence_reserved j token (w_db w) (w_db w'))
     (\<lambda>_ w'. w_store w' = w_store w) w"
proof (cases "job_kind j")
  case KindIssuance
  then show ?thesis
    unfolding reserve_claimed_def evidence_reserved_def
    by (cases "job_issuance_id j"; simp)
       (intro wp_intros wp_mono [OF insert_dir_wp]; auto simp: new_dir_def wp_simps)+
next
  case KindVerification
  then show ?thesis
    unfolding reserve_claimed_def evidence_reserved_def
    by (cases "job_verification_id j"; simp)
       (intro wp_intros wp_mono [OF insert_dvr_wp]; auto simp: new_dvr_def wp_simps)+
qed

lemma past_deadline: "\<not> job_deadline_at j \<le> t \<longleftrightarrow> t < job_deadline_at j"
  by auto

lemma job_claimedI:
  "claimable co w j \<Longrightarrow> k = j\<lparr>job_status := Processing, job_updated_at := t\<rparr> \<Longrightarrow> job_written k (w_db w) d1 \<Longrightarrow>
     evidence_reserved k token d1 d' \<Longrightarrow> job_claimed co w k token d'"
  by (auto simp: job_claimed_def)

lemma cancelled_settled: "job_written (j\<lparr>job_status := s, job_updated_at := t\<rparr>) d d' \<Longrightarrow>
    job_settled j s (job_safe_error_code j) d d'"
  by (auto simp: job_settled_def)

lemma given_or_now_wp:
  "wp (given_or_now x) (\<lambda>t w'. w_db w' = w_db w \<and> w_store w' = w_store w
     \<and> t = (case x of None \<Rightarrow> w_clock w (w_tick w) | Some y \<Rightarrow> y)) (\<lambda>_ _. False) w"
  unfolding given_or_now_def by (intro wp_intros) auto

text \<open>What the claim does in the world \<open>w\<close>.\<close>

definition claim_outcome :: "claim_options \<Rightarrow> 'st world \<Rightarrow> (job \<times> uuid) option \<Rightarrow> 'st world \<Rightarrow> bool" where
  "claim_outcome co w x w' \<longleftrightarrow> w_store w' = w_store w \<and> (case x of None \<Rightarrow> claim_declined co w (w_db w')
     | Some (k, token) \<Rightarrow> job_claimed co w k token (w_db w'))"

lemma claim_outcomeI:
  "w_store w' = w_store w \<Longrightarrow> claim_declined co w (w_db w') \<Longrightarrow> claim_outcome co w None w'"
  "w_store w' = w_store w \<Longrightarrow> job_claimed co w k token (w_db w') \<Longrightarrow> claim_outcome co w (Some (k, token)) w'"
  by (simp_all add: claim_outcome_def)

text \<open>The three ways in which the transaction goes on with the job it selected.\<close>

lemma claim_settled_wp:
  assumes row: "lookup_by job_id (job_id j) (db_jobs (w_db v)) = Some j"
    and v: "w_db v = w_db w" "w_store v = w_store w"
    and declined: "\<And>d. job_settled j Failed code (w_db w) d \<Longrightarrow> claim_declined co w d"
  shows "wp (terminalize_locked_job j Failed code) (\<lambda>_. claim_outcome co w None) (\<lambda>_ w'. w_store w' = w_store w) v"
  by (rule wp_mono [OF terminalize_wp [OF row]]) (use v declined in \<open>auto intro!: claim_outcomeI\<close>)

lemma claim_cancelled_wp:
  assumes oldest: "oldest_job Queued (unlocked_jobs w) = Some j" "job_cancel_requested_at j \<noteq> None"
    and row: "lookup_by job_id (job_id j) (db_jobs (w_db w)) = Some j"
  shows "wp (chain (lift_sum (advance_job j Cancelled)) (save_job [FStatus, FUpdatedAt]))
      (\<lambda>_. claim_outcome co w None) (\<lambda>_ w'. w_store w' = w_store w) w"
  by (intro wp_intros, rule wp_mono [OF save_status_wp [OF row]])
     (use oldest in \<open>auto intro!: claim_outcomeI simp: claim_declined_def dest: cancelled_settled\<close>)

lemma claim_started_wp:
  assumes row: "lookup_by job_id (job_id j) (db_jobs (w_db v)) = Some j"
    and v: "w_db v = w_db w" "w_store v = w_store w"
    and j: "claimable co w j" "advance_job j Processing = Inr j'"
  shows "wp (chain (save_job [FStatus, FUpdatedAt] j') (\<lambda>j''.
        chain (case co_owner_token co of Some token \<Rightarrow> ret token | None \<Rightarrow> uuid4) (\<lambda>token.
        chain (reserve_claimed j'' token) (\<lambda>_. ret (Some (j'', token))))))
      (claim_outcome co w) (\<lambda>_ w'. w_store w' = w_store w) v"
  by (rule wpi_basic(3), rule wp_mono [OF save_status_wp [OF row j(2)]],
      intro wp_intros wp_mono [OF reserve_claimed_wp])
     (use j v in \<open>auto intro!: claim_outcomeI intro: job_claimedI\<close>)

lemma claim_body_wp:
  assumes distinct: "job_keys_distinct (w_db w)"
  shows "wp (claim_body co) (claim_outcome co w) (\<lambda>_ w'. w_store w' = w_store w) w"
  unfolding claim_body_def
proof (rule wpi_basic(3), rule wpi_basic(5), rule wpi_option, goal_cases)
  case 1
  then show ?case by (simp add: wp_simps claim_declined_def claim_outcome_def)
next
  case (2 j)
  have row: "lookup_by job_id (job_id j) (db_jobs (w_db v)) = Some j" if "w_db v = w_db w" for v :: "'a world"
    using oldest_job_row 2 distinct that by fastforce
  show ?case
  proof (rule wpi_if, goal_cases)
    case 1
    show ?case using claim_cancelled_wp [OF 2 1 row] by (simp add: wp_simps)
  next
    case not_cancelled: 2
    show ?case
    proof (rule wpi_basic(3), rule wp_mono [OF given_or_now_wp], goal_cases)
      case (1 t v)
      then have t: "t = claim_time co w" and v: "w_db v = w_db w" "w_store v = w_store w"
        by (simp_all add: claim_time_def)
      have fail: "wp (terminalize_locked_job j Failed code) (\<lambda>_. claim_outcome co w None) (\<lambda>_ w'. w_store w' = w_store w) v"
        if "\<And>d. job_settled j Failed code (w_db w) d \<Longrightarrow> claim_declined co w d" for code
        by (rule claim_settled_wp [OF row [OF v(1)] v that])
      note start = claim_started_wp [OF row [OF v(1)] v, where co = co]
      show ?case
        using not_cancelled t v(2)
        by (intro wpi_if wpi_basic(3) [where l = "lift_sum r" for r] wpi_lift_sum start)
           (auto simp: wp_chain [where m = "terminalize_locked_job a b c" for a b c] wp_ret 2 claimable_def
              claim_declined_def intro!: fail)
    qed simp
  qed
qed

section \<open>The claimed job has one owner\<close>

definition acquire_claimed :: "processing_env \<Rightarrow> job \<Rightarrow> uuid \<Rightarrow> ('st world, unit) prog" where
  "acquire_claimed E k token = (case job_kind k of
     KindIssuance \<Rightarrow> chain (acquire_processing_claim E (job_id k) token) (\<lambda>_. ret ())
   | KindVerification \<Rightarrow> chain (acquire_verification_claim E (job_id k) token) (\<lambda>_. ret ()))"

lemma acquire_issuance_refused:
  assumes "lookup_by job_id k (db_jobs (w_db w)) = Some j" "job_status j = Processing" "job_cancel_requested_at j = None"
    and "lookup_by dir_job_id k (db_issuance_results (w_db w)) = Some r" "dir_owner_token r \<noteq> token"
  shows "wp (acquire_processing_claim E k token) (\<lambda>_ _. False) (\<lambda>_ v. w_db v = w_db w \<and> w_store v = w_store w) w"
  unfolding acquire_processing_claim_def acquire_body_def wp_atomic locked_issuance_document_def
    validate_locked_binding_def
  by (intro wp_intros wp_mono [OF locked_job_wp]) (use assms in \<open>auto simp: same_reservation_def\<close>)

lemma acquire_verification_refused:
  assumes "lookup_by job_id k (db_jobs (w_db w)) = Some j" "job_status j = Processing"
    and "lookup_by dvr_job_id k (db_verification_results (w_db w)) = Some r" "dvr_owner_token r \<noteq> token"
  shows "wp (acquire_verification_claim E k token) (\<lambda>_ _. False) (\<lambda>_ v. w_db v = w_db w \<and> w_store v = w_store w) w"
  unfolding acquire_verification_claim_def acquire_verification_body_def wp_atomic locked_verification_upload_def
    validate_verification_binding_def
  by (intro wp_intros wp_mono [OF locked_verification_job_wp])
     (use assms in \<open>auto simp: same_verification_reservation_def\<close>)

lemma claimed_row:
  assumes "evidence_reserved k token d1 d'" "job_written k d d1"
  shows "lookup_by job_id (job_id k) (db_jobs d') = Some k"
  using assms job_written_lookup [of k d d1] by (auto simp: evidence_reserved_def split: job_kind.splits)

lemma reserved_evidence:
  assumes "evidence_reserved k token d d'"
  shows "case job_kind k of
     KindIssuance \<Rightarrow> \<exists>r. lookup_by dir_job_id (job_id k) (db_issuance_results d') = Some r \<and> dir_owner_token r = token
   | KindVerification \<Rightarrow> \<exists>r. lookup_by dvr_job_id (job_id k) (db_verification_results d') = Some r \<and> dvr_owner_token r = token"
proof -
  have i: "lookup_by dir_job_id (job_id k) (rs @ [r]) = Some r"
    if "dir_job_id r = job_id k" "job_id k \<notin> dir_job_id ` set rs" for r rs
    using lookup_inserted [of dir_job_id r rs "job_id k"] that by simp
  have v: "lookup_by dvr_job_id (job_id k) (rs @ [r]) = Some r"
    if "dvr_job_id r = job_id k" "job_id k \<notin> dvr_job_id ` set rs" for r rs
    using lookup_inserted [of dvr_job_id r rs "job_id k"] that by simp
  show ?thesis using assms by (auto simp: evidence_reserved_def i v split: job_kind.splits)
qed

lemma job_claimed_exclusive:
  assumes "job_claimed co w0 k token (w_db w)" "token' \<noteq> token"
  shows "refused w (acquire_claimed E k token')"
proof -
  from assms obtain j t d1 where j: "claimable co w0 j" and k: "k = j\<lparr>job_status := Processing, job_updated_at := t\<rparr>"
    and d1: "job_written k (w_db w0) d1" and ev: "evidence_reserved k token d1 (w_db w)"
    by (auto simp: job_claimed_def)
  note row = claimed_row [OF ev d1]
  have open_job: "job_status k = Processing" "job_cancel_requested_at k = None"
    using j by (simp_all add: k claimable_def)
  show ?thesis
  proof (cases "job_kind k")
    case KindIssuance
    with reserved_evidence [OF ev] obtain r where
      "lookup_by dir_job_id (job_id k) (db_issuance_results (w_db w)) = Some r" "dir_owner_token r = token" by auto
    with acquire_issuance_refused [OF row open_job] assms(2) KindIssuance show ?thesis
      by (simp add: refused_def acquire_claimed_def wp_simps)
  next
    case KindVerification
    with reserved_evidence [OF ev] obtain r where
      "lookup_by dvr_job_id (job_id k) (db_verification_results (w_db w)) = Some r" "dvr_owner_token r = token" by auto
    with acquire_verification_refused [OF row open_job(1)] assms(2) KindVerification show ?thesis
      by (simp add: refused_def acquire_claimed_def wp_simps)
  qed
qed

section \<open>Every cycle lets the database evolve\<close>

text \<open>The step of a cycle that works on the job a query selected.\<close>

definition keyed_evolution :: "db \<Rightarrow> db \<Rightarrow> bool" where
  "keyed_evolution d d' \<longleftrightarrow> db_evolves d d' \<and> job_keys_distinct d'"

lemma keyed_refl: "job_keys_distinct d \<Longrightarrow> keyed_evolution d d"
  by (simp add: keyed_evolution_def)

lemma settled_evolves: "job_settled j s code d d' \<Longrightarrow> db_evolves d d'"
  by (auto simp: job_settled_def intro: job_written_evolves)

lemma declined_evolves: "claim_declined co w d' \<Longrightarrow> db_evolves (w_db w) d'"
  by (auto simp: claim_declined_def intro: settled_evolves split: option.splits if_splits)

lemma reserved_evolves: "evidence_reserved k token d d' \<Longrightarrow> db_evolves d d'"
  by (auto simp: evidence_reserved_def intro!: db_evolves_intros split: job_kind.splits)

lemma claimed_evolves: "job_claimed co w k token d' \<Longrightarrow> db_evolves (w_db w) d'"
  unfolding job_claimed_def by (metis db_evolves_refl db_evolves_trans job_written_evolves reserved_evolves)

lemma claim_evolves:
  assumes "job_keys_distinct (w_db w)"
  shows "wp (claim_next_job S co) (\<lambda>_ w'. db_evolves (w_db w) (w_db w')) (\<lambda>_ w'. db_evolves (w_db w) (w_db w')) w"
  unfolding claim_next_job_def
  by (intro wpi_if wpi_world(3) wp_mono [OF claim_body_wp [OF assms]] wpi_basic(1))
     (auto simp: claim_outcome_def split: option.splits dest: declined_evolves claimed_evolves)

lemma stage_evolves:
  assumes "job_keys_distinct (w_db w)"
  shows "wp (stage_next_created_job S L en) (\<lambda>_ w'. keyed_evolution (w_db w) (w_db w'))
     (\<lambda>_ w'. keyed_evolution (w_db w) (w_db w')) w"
  unfolding stage_next_created_job_def
proof (intro wpi_if wpi_world(3), goal_cases)
  case 1
  show ?case
    unfolding stage_body_def
  proof (rule wpi_basic(3), rule wpi_basic(5), rule wpi_option, goal_cases)
    case (2 j)
    then have row: "lookup_by job_id (job_id j) (db_jobs (w_db w)) = Some j" using oldest_job_row assms by blast
    show ?case
      by (intro wp_intros wp_mono [OF save_status_wp [where j = j and s = Queued, OF row]])
         (use assms in \<open>auto simp: keyed_evolution_def intro: job_written_evolves\<close>)
  qed (use assms in \<open>simp add: wp_simps keyed_refl\<close>)
qed (use assms in \<open>simp add: wp_simps keyed_refl\<close>)

lemma g_run_claimed: "guarantees evolves (run_claimed E V ops code j token)"
  unfolding run_claimed_def
  by (cases "job_kind j") (auto intro!: evolution.g_intros g_process g_process_verification)

section \<open>Retries\<close>

text \<open>The job that is put back in the queue: a failed first attempt without a result, within its deadline.\<close>

definition job_requeued :: "time \<Rightarrow> job \<Rightarrow> db \<Rightarrow> db \<Rightarrow> bool" where
  "job_requeued t j d d' \<longleftrightarrow> job_cancel_requested_at j = None \<and> t < job_deadline_at j
     \<and> \<not> job_has_result d j \<and> job_attempt j < max_job_attempt
     \<and> (\<exists>u. job_written (j\<lparr>job_status := Queued, job_attempt := job_attempt j + 1,
            job_safe_error_code := None, job_updated_at := u\<rparr>) d d')"

definition retry_outcome :: "time \<Rightarrow> db \<Rightarrow> db \<Rightarrow> bool" where
  "retry_outcome t d d' \<longleftrightarrow> d' = d \<or> (\<exists>j. lookup_by job_id (job_id j) (db_jobs d) = Some j \<and> job_status j = RetryableFailed
     \<and> (job_requeued t j d d' \<or> (\<exists>s code. s \<in> {Cancelled, Failed, DeadLettered} \<and> job_settled j s code d d')))"

lemma retry_selected:
  assumes "first_by f (filter (\<lambda>j. job_status j = RetryableFailed) (unlocked_jobs w)) = Some j" "job_keys_distinct (w_db w)"
  shows "lookup_by job_id (job_id j) (db_jobs (w_db w)) = Some j \<and> job_status j = RetryableFailed"
  using first_by_SomeD(1) [OF assms(1)] assms(2) lookup_distinct
  by (fastforce simp: job_keys_distinct_def unlocked_jobs_def)

lemma requeue_wp:
  assumes row: "lookup_by job_id (job_id j) (db_jobs (w_db w)) = Some j"
  shows "wp (requeue j)
     (\<lambda>_ w'. (\<exists>u. job_written (j\<lparr>job_status := Queued, job_attempt := job_attempt j + 1,
            job_safe_error_code := None, job_updated_at := u\<rparr>) (w_db w) (w_db w'))
        \<and> w_store w' = w_store w \<and> job_keys_distinct (w_db w') = job_keys_distinct (w_db w))
     (\<lambda>_ _. True) w"
  unfolding requeue_def
proof (intro wp_intros, goal_cases)
  case (1 j')
  then have j': "j' = j\<lparr>job_status := Queued\<rparr>" and t: "Queued \<in> set (transitions (job_status j))"
    by (simp_all add: advance_job_Inr)
  show ?case
    by (rule wp_mono [OF wp_conj [OF save_job_row_wp [where p = j] save_job_keys_wp]])
       (use row t in \<open>auto simp: j' merge_job_def job_evolves_def intro: status_reaches_step\<close>)
qed simp

lemma retry_body_wp:
  assumes distinct: "job_keys_distinct (w_db w)"
  shows "wp (retry_body t) (\<lambda>_ w'. w_store w' = w_store w \<and> retry_outcome t (w_db w) (w_db w')
      \<and> job_keys_distinct (w_db w')) (\<lambda>_ _. True) w"
  unfolding retry_body_def
proof (rule wpi_basic(3), rule wpi_basic(5), rule wpi_option, goal_cases)
  case 1
  then show ?case using distinct by (simp add: wp_simps retry_outcome_def)
next
  case (2 j)
  then have row: "lookup_by job_id (job_id j) (db_jobs (w_db w)) = Some j" and st: "job_status j = RetryableFailed"
    using retry_selected distinct by blast+
  have settle: "wp (terminalize_locked_job j s code) (\<lambda>_ w'. w_store w' = w_store w \<and> retry_outcome t (w_db w) (w_db w')
      \<and> job_keys_distinct (w_db w')) (\<lambda>_ _. True) w" if "s \<in> {Cancelled, Failed, DeadLettered}" for s code
    by (rule wp_mono [OF wp_conj [OF terminalize_wp [OF row] terminalize_keys_wp]])
       (use row st that distinct in \<open>auto simp: retry_outcome_def\<close>)
  have cancel: "wp (chain (lift_sum (advance_job j Cancelled)) (\<lambda>j'. chain (save_job [FStatus, FUpdatedAt] j') (\<lambda>_. ret ())))
      (\<lambda>_ w'. w_store w' = w_store w \<and> retry_outcome t (w_db w) (w_db w') \<and> job_keys_distinct (w_db w')) (\<lambda>_ _. True) w"
    by (intro wp_intros, rule wp_mono [OF save_status_wp [where j = j and s = Cancelled, OF row]])
       (use row st distinct in \<open>auto simp: retry_outcome_def wp_ret dest: cancelled_settled\<close>)
  have again: "wp (requeue j) (\<lambda>_ w'. w_store w' = w_store w \<and> retry_outcome t (w_db w) (w_db w') \<and> job_keys_distinct (w_db w'))
      (\<lambda>_ _. True) w" if "job_cancel_requested_at j = None" "t < job_deadline_at j" "\<not> job_has_result (w_db w) j"
        "job_attempt j < max_job_attempt"
    by (rule wp_mono [OF requeue_wp [OF row]])
       (use row st that distinct in \<open>auto simp: retry_outcome_def job_requeued_def\<close>)
  show ?case
    by (intro wpi_if wpi_basic(3) [where l = "gets f" for f] wpi_basic(5) cancel)
       (auto simp: wp_chain [where m = "terminalize_locked_job a b c" for a b c] wp_chain [where m = "requeue a" for a] wp_ret
         intro: settle again)
qed

lemma retry_evolves:
  "job_keys_distinct (w_db w) \<Longrightarrow> wp (prepare_one_retry t) (\<lambda>_ w'. keyed_evolution (w_db w) (w_db w'))
     (\<lambda>_ w'. keyed_evolution (w_db w) (w_db w')) w"
  unfolding prepare_one_retry_def wp_atomic
  by (rule wp_mono [OF retry_body_wp])
     (auto simp: keyed_evolution_def retry_outcome_def job_requeued_def intro: settled_evolves job_written_evolves)

text \<open>A later step that lets the database evolve, after steps that did.\<close>

lemma evolves_after:
  assumes "keyed_evolution d (w_db w)"
    "job_keys_distinct (w_db w) \<Longrightarrow> wp m (\<lambda>_ w'. db_evolves (w_db w) (w_db w')) (\<lambda>_ w'. db_evolves (w_db w) (w_db w')) w"
  shows "wp m (\<lambda>_ w'. db_evolves d (w_db w')) (\<lambda>_ w'. db_evolves d (w_db w')) w"
  using assms by (auto simp: keyed_evolution_def intro: db_evolves_trans elim!: wp_mono)

lemma guaranteed_after:
  "guarantees evolves m \<Longrightarrow> db_evolves d (w_db w) \<Longrightarrow>
     wp m (\<lambda>_ w'. db_evolves d (w_db w')) (\<lambda>_ w'. db_evolves d (w_db w')) w"
  by (rule wp_mono [OF guarantees_wp [where R = evolves]]) (auto intro: db_evolves_trans)

text \<open>Claiming a job and working on it.\<close>

lemma claim_and_run_evolves:
  assumes "keyed_evolution d (w_db w)"
  shows "wp (claim_next_job S co) (\<lambda>claimed. wp (case claimed of None \<Rightarrow> ret None
       | Some (j, token) \<Rightarrow> chain (run_claimed E V ops code j token) (\<lambda>res. ret (Some res)))
         (\<lambda>_ w'. db_evolves d (w_db w')) (\<lambda>_ w'. db_evolves d (w_db w')))
     (\<lambda>_ w'. db_evolves d (w_db w')) w"
  by (rule wp_mono [OF evolves_after [OF assms claim_evolves]])
     (auto split: option.splits simp: wp_chain wp_ret intro: guaranteed_after [OF g_run_claimed])

text \<open>A whole cycle of either worker.\<close>

lemma cycles_evolve:
  assumes "job_keys_distinct (w_db w)"
  shows "db_evolves (w_db w) (w_db (snd (run_worker_cycle E V ops w)))
    \<and> db_evolves (w_db w) (w_db (snd (process_integrity_cycle E V ops t w)))"
proof
  let ?e = "\<lambda>d w'. db_evolves d (w_db w')"
  have "wp (run_worker_cycle E V ops) (\<lambda>_. ?e (w_db w)) (\<lambda>_. ?e (w_db w)) w"
    unfolding run_worker_cycle_def
    by (rule wpi_basic(3), rule wp_mono [OF stage_evolves [OF assms]], rule wpi_basic(3), rule claim_and_run_evolves)
       (auto simp: keyed_evolution_def)
  then show "?e (w_db w) (snd (run_worker_cycle E V ops w))" by (simp add: wp_final)
  have "wp (process_integrity_cycle E V ops t) (\<lambda>_. ?e (w_db w)) (\<lambda>_. ?e (w_db w)) w"
    unfolding process_integrity_cycle_def claim_next_integrity_job_def require_integrity_mode_def
  proof (intro wpi_basic(3) wpi_require wp_mono [OF stage_evolves [OF assms]], goal_cases)
    case (1 x w1)
    note staged = 1
    show ?case
    proof (intro wpi_world(2) wpi_basic(3) wpi_require, goal_cases)
      case 1
      let ?v = "w1\<lparr>w_uuid_tick := Suc (w_uuid_tick w1)\<rparr>"
      have "keyed_evolution (w_db w) (w_db ?v)" using staged by simp
      then show ?case
        by (intro wp_mono [OF retry_evolves])
           (auto simp: keyed_evolution_def wp_chain [where m = "gets f" for f] wp_gets
             intro!: claim_and_run_evolves intro: db_evolves_trans)
    qed (use staged in \<open>simp_all add: keyed_evolution_def\<close>)
  qed (simp_all add: keyed_evolution_def)
  then show "?e (w_db w) (snd (process_integrity_cycle E V ops t w))" by (simp add: wp_final)
qed

section \<open>Properties\<close>

text \<open>
  C7. A claim takes the oldest queued job that no other worker holds and gives it one owner: the job that is returned
  is now processing, was queued, not cancelled, and before its deadline and its timeout at the time given or, without
  one, on the clock; its only evidence row was reserved by the returned token, and nothing else changed; any
  other token is refused by the worker's own acquisition without an effect. When no job is returned, either the worker
  is disabled or no such job is queued and nothing changed, or the oldest one was cancelled as requested, or failed
  with the code of the deadline or of the timeout that it had passed; an error changes nothing.
\<close>

theorem claim_is_exclusive:
  assumes "job_keys_distinct (w_db w)"
  shows "wp (claim_next_job S co)
     (\<lambda>x w'. w_store w' = w_store w \<and> (case x of
        None \<Rightarrow> if is_enabled S (co_enabled co) then claim_declined co w (w_db w') else w_db w' = w_db w
      | Some (k, token) \<Rightarrow> job_claimed co w k token (w_db w')
          \<and> (\<forall>token'. token' = token \<or> refused w' (acquire_claimed E k token'))))
     (\<lambda>_ w'. w_db w' = w_db w \<and> w_store w' = w_store w) w"
  unfolding claim_next_job_def
proof (intro wpi_if wpi_world(3), goal_cases)
  case 1
  show ?case
    by (rule wp_mono [OF claim_body_wp [OF assms]])
       (use 1 in \<open>auto simp: claim_outcome_def split: option.splits prod.splits dest: job_claimed_exclusive\<close>)
qed (simp add: wp_simps)

text \<open>
  The retry of the release worker is bounded: the oldest retryable job is queued again, with the next
  attempt and no error code, only when it has no result, is not cancelled, is before its deadline and
  has made less than two attempts; otherwise it is cancelled, failed or dead-lettered, or nothing changes.
\<close>

theorem retry_is_bounded:
  assumes "job_keys_distinct (w_db w)"
  shows "wp (prepare_one_retry t) (\<lambda>_ w'. w_store w' = w_store w \<and> retry_outcome t (w_db w) (w_db w'))
     (\<lambda>_ w'. w_db w' = w_db w) w"
  unfolding prepare_one_retry_def wp_atomic by (rule wp_mono [OF retry_body_wp [OF assms]]) auto

text \<open>
  A cycle of either worker, with whatever settings, libraries, document tools and object store,
  and whether it returns or raises, only lets the database evolve: no row is lost, jobs follow their
  status graph and attempts never decrease, and committed evidence and history never change.
\<close>

theorem worker_cycles_evolve:
  assumes "job_keys_distinct (w_db w)"
  shows "db_evolves (w_db w) (w_db (snd (run_worker_cycle E V ops w)))
    \<and> db_evolves (w_db w) (w_db (snd (process_integrity_cycle E V ops t w)))"
  by (rule cycles_evolve [OF assms])

end
