(* ===== verification/WorkerRecovery.thy ===== *)
theory WorkerRecovery
  imports WorkerFacts
begin

text \<open>
  The recovery of stale jobs: every recovery that reports a result has settled its job, and the jobs
  whose output may still appear are picked up again by every run.
\<close>

definition job_in :: "db \<Rightarrow> uuid \<Rightarrow> job_status \<Rightarrow> bool" where
  "job_in d k s \<longleftrightarrow> (\<exists>j. lookup_by job_id k (db_jobs d) = Some j \<and> job_status j = s)"

lemma job_in_written: "job_written j d d' \<Longrightarrow> job_in d' (job_id j) (job_status j)"
  by (auto simp: job_in_def dest: job_written_lookup)

text \<open>One job failed with a code, and every other job is as it was.\<close>

definition job_failed :: "job \<Rightarrow> string \<Rightarrow> db \<Rightarrow> db \<Rightarrow> bool" where
  "job_failed j code d d' \<longleftrightarrow> (\<exists>t. row_written job_id (job_id j)
     (j\<lparr>job_status := Failed, job_safe_error_code := Some code, job_updated_at := t\<rparr>) (db_jobs d) (db_jobs d'))"

lemma job_written_row: "job_written j d d' \<Longrightarrow> row_written job_id (job_id j) j (db_jobs d) (db_jobs d')"
  by (auto simp: job_written_def)

lemma job_failedI:
  assumes "job_written k d1 d2" "k = j\<lparr>job_status := Failed, job_safe_error_code := Some code, job_updated_at := t\<rparr>"
    and "db_jobs d1 = db_jobs d" "db_jobs d' = db_jobs d2"
  shows "job_failed j code d d'"
  unfolding job_failed_def by (rule exI [of _ t]) (use job_written_row [OF assms(1)] assms in simp)

section \<open>The transactions of a recovery\<close>

definition issuance_rows :: "job \<Rightarrow> db \<Rightarrow> issuance \<Rightarrow> document \<Rightarrow> bool" where
  "issuance_rows j d i x \<longleftrightarrow> job_issuance_id j = Some (iss_id i) \<and> lookup_by iss_id (iss_id i) (db_issuances d) = Some i
     \<and> lookup_by doc_id (iss_document_id i) (db_documents d) = Some x"

definition verification_rows :: "job \<Rightarrow> db \<Rightarrow> verification \<Rightarrow> upload_request \<Rightarrow> bool" where
  "verification_rows j d v u \<longleftrightarrow> job_verification_id j = Some (ver_id v)
     \<and> lookup_by ver_id (ver_id v) (db_verifications d) = Some v
     \<and> lookup_by upl_id (ver_upload_request_id v) (db_uploads d) = Some u"

lemma locked_pair_wp:
  "wp (locked_issuance_document j) (\<lambda>(i, x) w'. w' = w \<and> issuance_rows j (w_db w) i x) (\<lambda>_ w'. w' = w) w"
  "wp (locked_verification_upload j) (\<lambda>(v, u) w'. w' = w \<and> verification_rows j (w_db w) v u) (\<lambda>_ w'. w' = w) w"
  unfolding locked_issuance_document_def locked_verification_upload_def
  by (intro wp_intros; auto simp: issuance_rows_def verification_rows_def dest: lookup_by_key)+

lemma full_clean_wp:
  "wp (dir_full_clean r) (\<lambda>_ w'. w' = w) (\<lambda>_ w'. w' = w) w"
  "wp (dvr_full_clean v) (\<lambda>_ w'. w' = w) (\<lambda>_ w'. w' = w) w"
  unfolding dir_full_clean_def dvr_full_clean_def dir_clean_def dvr_clean_def related_org_def
  by (intro wp_intros; simp)+

lemma authorize_stale_wp:
  "wp (authorize_stale_output_delete c n) (\<lambda>_ w'. w' = w) (\<lambda>_ w'. w_db w' = w_db w \<and> w_store w' = w_store w) w"
  unfolding authorize_stale_output_delete_def
  by (intro wp_intros wp_mono [OF claimed_rows_wp]) auto

lemma save_dir_frame_wp:
  "wp (save_dir write transfer fs r) (\<lambda>_ w'. db_jobs (w_db w') = db_jobs (w_db w) \<and> w_store w' = w_store w)
     (\<lambda>_ _. True) w"
  by (rule wp_mono [OF save_dir_wp]) auto

lemma acknowledge_wp:
  assumes row: "lookup_by job_id (pc_job_id c) (db_jobs (w_db w)) = Some j"
  shows "wp (acknowledge_stale_output_delete c n code)
     (\<lambda>_ w'. job_failed j code (w_db w) (w_db w') \<and> w_store w' = w_store w) (\<lambda>_ _. True) w"
  unfolding acknowledge_stale_output_delete_def wp_atomic
  by (rule wpi_basic(3), rule wp_mono [OF authorize_stale_wp], intro wp_intros,
      rule wp_mono [OF locked_job_wp], intro wp_intros wp_mono [OF locked_evidence_wp] wp_mono [OF save_dir_frame_wp]
        wp_mono [OF fail_job_wp])
     (use row in \<open>auto intro: job_failedI\<close>)

lemma record_stale_wp:
  "wp (record_stale_output_delete_failure c n code)
     (\<lambda>_ w'. db_jobs (w_db w') = db_jobs (w_db w) \<and> w_store w' = w_store w) (\<lambda>_ _. True) w"
  unfolding record_stale_output_delete_failure_def wp_atomic
  by (rule wpi_basic(3), rule wp_mono [OF authorize_stale_wp],
      intro wp_intros wp_mono [OF locked_evidence_wp] wp_mono [OF save_dir_frame_wp]) auto

lemma record_failed_settles:
  assumes "lookup_by dir_job_id (pc_job_id c) (db_issuance_results (w_db w)) = Some r" "dir_owner_token r = pc_owner_token c"
    and "lookup_by job_id (pc_job_id c) (db_jobs (w_db w)) = Some j" "job_status j = Processing"
  shows "wp (record_failed_job c code n) (\<lambda>_ w'. job_failed j code (w_db w) (w_db w') \<and> w_store w' = w_store w)
     (\<lambda>_ _. True) w"
  unfolding record_failed_job_def record_failed_body_def wp_atomic
  by (rule wpi_basic(3), rule wp_mono [OF locked_job_wp], intro wp_intros wp_mono [OF locked_evidence_wp]
        wp_mono [OF save_dir_frame_wp] wp_mono [OF fail_job_wp])
     (use assms in \<open>auto simp: taken_over_def intro: job_failedI\<close>)

lemma record_failed_verification_settles:
  assumes "lookup_by job_id (vc_job_id c) (db_jobs (w_db w)) = Some j" "job_status j = Processing"
  shows "wp (record_failed_verification c code n ms)
     (\<lambda>_ w'. job_failed j code (w_db w) (w_db w') \<and> w_store w' = w_store w) (\<lambda>_ _. True) w"
  unfolding record_failed_verification_def record_failed_verification_body_def wp_atomic
proof (rule wpi_basic(3), rule wp_mono [OF claimed_verification_wp], goal_cases)
  case (1 p w1)
  then obtain j' v u r where p: "p = (j', v, u, r)" "w1 = w" "verification_view c (w_db w) j' v u r" by (cases p) auto
  note rows = verification_viewD [OF p(3)]
  have "job_id j' = vc_job_id c" using p(3) by (simp add: verification_view_def verification_claim_binding_def)
  then have j': "j' = j" using rows(1) assms(1) by simp
  show ?case
    unfolding p(1,2) prod.case j'
    by (intro wp_intros wp_mono [OF save_finished_wp] wp_mono [OF save_result_wps(3)] wp_mono [OF fail_job_wp [where j = j]])
       (use assms rows j' in \<open>auto simp: dvr_saved_def dvr_written_frame intro: job_failedI\<close>)
qed simp

section \<open>Preparing a recovery\<close>

lemma observed_wp:
  assumes "wp m Q (\<lambda>_ w'. w' = w) w" "\<And>x w'. Q x w' \<Longrightarrow> w' = w"
  shows "wp m (\<lambda>x w'. w' = w \<and> Q x w \<and> fst (m w) = Inr x) (\<lambda>e w'. w' = w \<and> fst (m w) = Inl e) w"
  using assms by (auto simp: wp_def split: prod.splits sum.splits)

lemma issuance_claim_wp:
  "wp (issuance_claim_for_recovery j r)
     (\<lambda>p w'. w' = w \<and> (case p of None \<Rightarrow> True | Some (c, i, x) \<Rightarrow>
        c = processing_claim_of j i x (dir_output_object_key r) (dir_owner_token r) \<and> issuance_rows j (w_db w) i x))
     (\<lambda>_ w'. w' = w) w"
  unfolding issuance_claim_for_recovery_def usable_def validate_claim_binding_def
    validate_locked_binding_def Let_def
  by (intro wp_intros wp_mono [OF locked_pair_wp(1)] wp_mono [OF full_clean_wp(1)])
     (auto split: option.splits)

lemma verification_claim_wp:
  "wp (verification_claim_for_recovery j r)
     (\<lambda>p w'. w' = w \<and> (case p of None \<Rightarrow> True | Some (c, v, u) \<Rightarrow>
        c = verification_claim_of j v u (dvr_owner_token r) \<and> verification_rows j (w_db w) v u))
     (\<lambda>_ w'. w' = w) w"
  unfolding verification_claim_for_recovery_def usable_def validate_verification_binding_def Let_def
  by (intro wp_intros wp_mono [OF locked_pair_wp(2)] wp_mono [OF full_clean_wp(2)])
     (auto split: option.splits)

lemma load_replay_wp:
  "wp (load_replay_result E j i x) (\<lambda>_ w'. w' = w) (\<lambda>_ w'. w' = w) w"
  "wp (load_verification_replay E j v u) (\<lambda>_ w'. w' = w) (\<lambda>_ w'. w' = w) w"
  unfolding load_replay_result_def load_verification_replay_def
  by (intro wp_intros wp_mono [OF full_clean_wp(1)] wp_mono [OF full_clean_wp(2)]; simp)+

section \<open>What a recovery comes to\<close>

text \<open>A committed row is adopted exactly when the replay of its result is accepted.\<close>

definition adopted :: "job \<Rightarrow> exn + 'a \<Rightarrow> string \<Rightarrow> db \<Rightarrow> db \<Rightarrow> bool" where
  "adopted j reply code d d' \<longleftrightarrow> (case reply of
     Inr _ \<Rightarrow> code = ''OK'' \<and> job_settled j Succeeded None d d'
   | Inl _ \<Rightarrow> code = stale_result_error_code \<and> job_settled j Failed (Some stale_result_error_code) d d')"

definition cleanup_code :: "exn + unit \<Rightarrow> string" where
  "cleanup_code x = (case x of Inl _ \<Rightarrow> stale_cleanup_error_code | Inr _ \<Rightarrow> stale_job_error_code)"

text \<open>The recovery of a processing issuance job, by the state of its evidence.\<close>

definition issuance_recovered ::
  "processing_env \<Rightarrow> 'st storage_ops \<Rightarrow> job \<Rightarrow> demo_issuance_result \<Rightarrow> 'st world \<Rightarrow> string \<Rightarrow> 'st world \<Rightarrow> bool" where
  "issuance_recovered E ops j r w code w' \<longleftrightarrow>
     (if dir_output_state r = OutCommitted then w_store w' = w_store w
        \<and> (\<exists>i x. issuance_rows j (w_db w) i x \<and> adopted j (fst (load_replay_result E j i x w)) code (w_db w) (w_db w'))
      else if dir_output_state r \<in> {OutUploading, OutCleanupRequired} then
        (\<exists>x. so_delete ops (dir_output_object_key r) (w_store w) = (x, w_store w') \<and> code = cleanup_code x
          \<and> (case x of Inl _ \<Rightarrow> db_jobs (w_db w') = db_jobs (w_db w) | Inr _ \<Rightarrow> job_failed j code (w_db w) (w_db w')))
      else w_store w' = w_store w \<and> code = stale_job_error_code \<and> job_failed j code (w_db w) (w_db w'))"

definition verification_recovered ::
  "processing_env \<Rightarrow> job \<Rightarrow> demo_verification_result \<Rightarrow> 'st world \<Rightarrow> string \<Rightarrow> 'st world \<Rightarrow> bool" where
  "verification_recovered E j r w code w' \<longleftrightarrow> w_store w' = w_store w \<and>
     (if dvr_result_state r = VerCommitted then
        (\<exists>v u. verification_rows j (w_db w) v u \<and> adopted j (fst (load_verification_replay E j v u w)) code (w_db w) (w_db w'))
      else dvr_result_state r = VerReserved \<and> code = stale_job_error_code \<and> job_failed j code (w_db w) (w_db w'))"

text \<open>A failed job only has its output deleted again; a processing one must be stale.\<close>

definition recovery_reported ::
  "processing_env \<Rightarrow> 'st storage_ops \<Rightarrow> time \<Rightarrow> job \<Rightarrow> 'st world \<Rightarrow> string \<Rightarrow> 'st world \<Rightarrow> bool" where
  "recovery_reported E ops sb j w code w' \<longleftrightarrow>
     (if job_status j = Failed then
        (\<exists>r x. lookup_by dir_job_id (job_id j) (db_issuance_results (w_db w)) = Some r \<and> fenced_evidence r
          \<and> w_db w' = w_db w \<and> so_delete ops (dir_output_object_key r) (w_store w) = (x, w_store w') \<and> code = cleanup_code x)
      else job_status j = Processing \<and> job_updated_at j < sb \<and> (case job_kind j of
          KindIssuance \<Rightarrow> \<exists>r. lookup_by dir_job_id (job_id j) (db_issuance_results (w_db w)) = Some r
            \<and> issuance_recovered E ops j r w code w'
        | KindVerification \<Rightarrow> \<exists>r. lookup_by dvr_job_id (job_id j) (db_verification_results (w_db w)) = Some r
            \<and> verification_recovered E j r w code w'))"

text \<open>No recovery is due, or the evidence does not belong to the job as it is now.\<close>

definition nothing_due :: "uuid \<Rightarrow> time \<Rightarrow> 'st world \<Rightarrow> bool" where
  "nothing_due k sb w \<longleftrightarrow> (case lookup_by job_id k (db_jobs (w_db w)) of None \<Rightarrow> True | Some j \<Rightarrow>
     (case job_kind j of
        KindIssuance \<Rightarrow> (case lookup_by dir_job_id k (db_issuance_results (w_db w)) of None \<Rightarrow> True | Some r \<Rightarrow>
          \<not> (job_status j = Processing \<and> job_updated_at j < sb \<or> job_status j = Failed \<and> fenced_evidence r)
          \<or> fst (issuance_claim_for_recovery j r w) = Inr None)
      | KindVerification \<Rightarrow> (case lookup_by dvr_job_id k (db_verification_results (w_db w)) of None \<Rightarrow> True | Some r \<Rightarrow>
          \<not> (job_status j = Processing \<and> job_updated_at j < sb) \<or> dvr_result_state r \<notin> {VerCommitted, VerReserved}
          \<or> fst (verification_claim_for_recovery j r w) = Inr None)))"

definition recovered_outcome ::
  "processing_env \<Rightarrow> 'st storage_ops \<Rightarrow> uuid \<Rightarrow> time \<Rightarrow> 'st world \<Rightarrow> worker_result option \<Rightarrow> 'st world \<Rightarrow> bool" where
  "recovered_outcome E ops k sb w res w' \<longleftrightarrow> (case res of
     None \<Rightarrow> nothing_due k sb w \<and> w_db w' = w_db w \<and> w_store w' = w_store w
   | Some r \<Rightarrow> \<exists>j. lookup_by job_id k (db_jobs (w_db w)) = Some j
       \<and> r = worker_result k (job_kind j) (wr_safe_code r) \<and> recovery_reported E ops sb j w (wr_safe_code r) w')"

section \<open>The preparation of a recovery\<close>

text \<open>What the first transaction leaves to do: nothing, or the deletion of the output.\<close>

definition stale_job :: "uuid \<Rightarrow> time \<Rightarrow> db \<Rightarrow> job \<Rightarrow> bool" where
  "stale_job k sb d j \<longleftrightarrow> lookup_by job_id k (db_jobs d) = Some j \<and> job_status j = Processing \<and> job_updated_at j < sb"

definition recovery_prepared :: "processing_env \<Rightarrow> uuid \<Rightarrow> time \<Rightarrow> 'st world \<Rightarrow> recovery option \<Rightarrow> 'st world \<Rightarrow> bool" where
  "recovery_prepared E k sb w a w' \<longleftrightarrow> w_store w' = w_store w \<and> (case a of
     None \<Rightarrow> nothing_due k sb w \<and> w_db w' = w_db w
   | Some (Recovered res) \<Rightarrow> \<forall>ops. recovered_outcome E ops k sb w (Some res) w'
   | Some (Tombstone c n) \<Rightarrow> w_db w' = w_db w \<and> pc_job_id c = k \<and> (\<exists>j r. lookup_by job_id k (db_jobs (w_db w)) = Some j
       \<and> job_status j = Failed \<and> job_kind j = KindIssuance \<and> fenced_evidence r
       \<and> lookup_by dir_job_id k (db_issuance_results (w_db w)) = Some r
       \<and> pc_output_object_key c = dir_output_object_key r)
   | Some (Cleanup c n) \<Rightarrow> db_jobs (w_db w') = db_jobs (w_db w) \<and> pc_job_id c = k \<and> (\<exists>j r. stale_job k sb (w_db w) j
       \<and> job_kind j = KindIssuance \<and> dir_output_state r \<in> {OutUploading, OutCleanupRequired}
       \<and> lookup_by dir_job_id k (db_issuance_results (w_db w)) = Some r
       \<and> pc_output_object_key c = dir_output_object_key r))"

lemma adopt_committed_wp:
  assumes row: "lookup_by job_id (job_id j) (db_jobs (w_db w)) = Some j"
    and replay: "wp replay (\<lambda>_ w'. w' = w) (\<lambda>_ w'. w' = w) w"
  shows "wp (adopt_committed caught j replay)
     (\<lambda>a w'. w_store w' = w_store w \<and> (\<exists>code. a = Recovered (worker_result (job_id j) (job_kind j) code)
        \<and> adopted j (fst (replay w)) code (w_db w) (w_db w'))) (\<lambda>_ _. True) w"
  unfolding adopt_committed_def usable_def
  by (intro wp_intros wp_mono [OF observed_wp [OF replay]])
     (use row in \<open>auto simp: adopted_def intro!: wp_intros wp_mono [OF terminalize_wp]\<close>)

lemma recovered_by_wp:
  assumes "lookup_by job_id k (db_jobs (w_db w)) = Some j" "a = Some (Recovered (worker_result k (job_kind j) code))"
    and "w_store w' = w_store w" "\<And>ops. recovery_reported E ops sb j w code w'"
  shows "recovery_prepared E k sb w a w'"
  using assms by (simp add: recovery_prepared_def recovered_outcome_def worker_result_def)

lemma prepare_issuance_wp:
  assumes stale: "stale_job k sb (w_db w) j" "job_kind j = KindIssuance"
    and evidence: "lookup_by dir_job_id k (db_issuance_results (w_db w)) = Some r"
  shows "wp (prepare_issuance_recovery E j r) (recovery_prepared E k sb w) (\<lambda>_ _. True) w"
proof -
  have row: "lookup_by job_id k (db_jobs (w_db w)) = Some j" "lookup_by job_id (job_id j) (db_jobs (w_db w)) = Some j"
    and k: "job_id j = k" and st: "job_status j = Processing" "job_updated_at j < sb"
    using stale by (auto simp: stale_job_def dest: lookup_by_key intro: lookup_named)
  have report: "recovery_reported E ops sb j w code w'" if "issuance_recovered E ops j r w code w'" for ops code w'
    using that st stale(2) evidence k by (simp add: recovery_reported_def)
  show ?thesis
    unfolding prepare_issuance_recovery_def
  proof (rule wpi_basic(3), rule wp_mono [OF observed_wp [OF issuance_claim_wp]], simp, rule wpi_option, goal_cases)
    case (1 a w1)
    then show ?case using row stale(2) evidence by (simp add: wp_simps recovery_prepared_def nothing_due_def)
  next
    case (2 a w1 p)
    then obtain c i x where p: "p = (c, i, x)" "w1 = w"
      and c: "c = processing_claim_of j i x (dir_output_object_key r) (dir_owner_token r)" "issuance_rows j (w_db w) i x"
      by (cases p) auto
    have c': "pc_job_id c = k" "pc_owner_token c = dir_owner_token r" "pc_output_object_key c = dir_output_object_key r"
      by (simp_all add: c(1) processing_claim_of_def k)
    have failed: "wp (record_failed_job c stale_job_error_code 0)
        (\<lambda>_ w'. job_failed j stale_job_error_code (w_db w) (w_db w') \<and> w_store w' = w_store w) (\<lambda>_ _. True) w"
      by (rule wp_mono [OF record_failed_settles]) (use c' row st evidence in auto)
    show ?case
      unfolding p prod.case
    proof (intro wpi_if, goal_cases)
      case 1
      show ?case
        by (intro wp_intros wp_mono [OF adopt_committed_wp [OF row(2) load_replay_wp(1)]])
           (use 1 c(2) row k in \<open>auto intro!: recovered_by_wp report simp: issuance_recovered_def\<close>, blast)
    next
      case 2
      show ?case
        by (intro wp_intros wp_mono [OF claim_stale_wp])
           (use 2 stale evidence c' in \<open>auto simp: recovery_prepared_def dir_written_frame\<close>)
    next
      case 3
      show ?case
        by (intro wp_intros wp_mono [OF failed])
           (use 3 row k in \<open>auto intro!: recovered_by_wp report simp: issuance_recovered_def\<close>)
    qed
  qed simp
qed

lemma prepare_verification_wp:
  assumes stale: "stale_job k sb (w_db w) j" "job_kind j = KindVerification"
    and evidence: "lookup_by dvr_job_id k (db_verification_results (w_db w)) = Some r"
  shows "wp (prepare_verification_recovery E j r) (recovery_prepared E k sb w) (\<lambda>_ _. True) w"
proof -
  have row: "lookup_by job_id k (db_jobs (w_db w)) = Some j" "lookup_by job_id (job_id j) (db_jobs (w_db w)) = Some j"
    and k: "job_id j = k" and st: "job_status j = Processing" "job_updated_at j < sb"
    using stale by (auto simp: stale_job_def dest: lookup_by_key intro: lookup_named)
  have report: "recovery_reported E ops sb j w code w'" if "verification_recovered E j r w code w'" for ops code w'
    using that st stale(2) evidence k by (simp add: recovery_reported_def)
  show ?thesis
    unfolding prepare_verification_recovery_def
  proof (rule wpi_basic(3), rule wp_mono [OF observed_wp [OF verification_claim_wp]], simp, rule wpi_option, goal_cases)
    case (1 a w1)
    then show ?case using row stale(2) evidence by (simp add: wp_simps recovery_prepared_def nothing_due_def)
  next
    case (2 a w1 p)
    then obtain c v u where p: "p = (c, v, u)" "w1 = w"
      and c: "c = verification_claim_of j v u (dvr_owner_token r)" "verification_rows j (w_db w) v u"
      by (cases p) auto
    have c': "vc_job_id c = k" by (simp add: c(1) verification_claim_of_def k)
    have failed: "wp (record_failed_verification c stale_job_error_code 0 ms)
        (\<lambda>_ w'. job_failed j stale_job_error_code (w_db w) (w_db w') \<and> w_store w' = w_store w) (\<lambda>_ _. True) w" for ms
      by (rule wp_mono [OF record_failed_verification_settles]) (use c' row st in auto)
    show ?case
      unfolding p prod.case
    proof (intro wpi_if, goal_cases)
      case 1
      show ?case
        by (intro wp_intros wp_mono [OF adopt_committed_wp [OF row(2) load_replay_wp(2)]])
           (use 1 c(2) row k in \<open>auto intro!: recovered_by_wp report simp: verification_recovered_def\<close>, blast)
    next
      case 2
      show ?case
        by (intro wp_intros wp_mono [OF failed])
           (use 2 row k in \<open>auto intro!: recovered_by_wp report simp: verification_recovered_def\<close>)
    next
      case 3
      then show ?case using row stale(2) evidence by (simp add: wp_simps recovery_prepared_def nothing_due_def)
    qed
  qed simp
qed

text \<open>A failed issuance job: its fenced output is deleted again, and nothing else happens.\<close>

lemma prepare_tombstone_wp:
  assumes row: "lookup_by job_id k (db_jobs (w_db w)) = Some j" "job_status j = Failed" "job_kind j = KindIssuance"
    and found: "found = lookup_by dir_job_id k (db_issuance_results (w_db w))"
  shows "wp (prepare_tombstone j found) (\<lambda>a w'. w' = w \<and> recovery_prepared E k sb w a w
      \<and> (case a of Some (Tombstone c n) \<Rightarrow> True | None \<Rightarrow> True | _ \<Rightarrow> False)) (\<lambda>_ _. True) w"
proof (cases found)
  case None
  then show ?thesis
    using row found [symmetric] by (simp add: prepare_tombstone_def wp_simps recovery_prepared_def nothing_due_def)
next
  case (Some r)
  have k: "job_id j = k" using row(1) by (rule lookup_by_key)
  show ?thesis
  proof (cases "fenced_evidence r")
    case False
    then show ?thesis
      using row found [symmetric] Some by (simp add: prepare_tombstone_def wp_simps recovery_prepared_def nothing_due_def)
  next
    case True
    then show ?thesis
      unfolding prepare_tombstone_def Some option.case
      by (intro wp_intros wp_mono [OF observed_wp [OF issuance_claim_wp]])
         (use row found [symmetric] Some k True in \<open>auto simp: recovery_prepared_def nothing_due_def processing_claim_of_def\<close>)
  qed
qed

lemma prepare_stale_wp:
  "wp (prepare_stale_recovery E k sb) (recovery_prepared E k sb w) (\<lambda>_ _. True) w"
  unfolding prepare_stale_recovery_def wp_atomic prepare_stale_body_def
proof (intro wpi_basic(3) wpi_basic(5) wpi_option, goal_cases)
  case (2 j)
  then have row: "lookup_by job_id k (db_jobs (w_db w)) = Some j" and k: "job_id j = k"
    by (auto dest: lookup_by_key)
  show ?case
  proof (cases "job_kind j = KindIssuance \<and> job_status j = Failed")
    case True
    then have due: "\<not> (job_status j = Processing)" by simp
    show ?thesis
      using True due prepare_tombstone_wp [OF row _ _ refl, of E sb]
      by (auto simp: wp_simps elim!: wp_mono split: option.splits)
  next
    case not_tombstone: False
    show ?thesis
    proof (cases "stale_job k sb (w_db w) j")
      case False
      with not_tombstone row show ?thesis
        by (auto simp: wp_simps stale_job_def recovery_prepared_def nothing_due_def split: job_kind.splits option.splits)
    next
      case True
      then show ?thesis
        using not_tombstone row
        by (cases "job_kind j")
           (auto simp: wp_simps stale_job_def recovery_prepared_def nothing_due_def split: option.splits
              intro!: prepare_issuance_wp prepare_verification_wp)
    qed
  qed
qed (simp add: wp_simps recovery_prepared_def nothing_due_def)

section \<open>One recovery\<close>

lemma delete_output_wp:
  "wp (delete_output ops c) (\<lambda>b w'. w_db w' = w_db w
     \<and> (\<exists>x. so_delete ops (pc_output_object_key c) (w_store w) = (x, w_store w') \<and> b = (case x of Inr _ \<Rightarrow> True | Inl _ \<Rightarrow> False)))
     (\<lambda>_ _. False) w"
proof (cases "so_delete ops (pc_output_object_key c) (w_store w)")
  case (Pair x st)
  then show ?thesis unfolding delete_output_def by (cases x; simp add: wp_simps; simp add: wp_def)
qed

lemma recover_stale_wp:
  "wp (recover_stale_job E ops k sb) (recovered_outcome E ops k sb w) (\<lambda>_ _. True) w"
  unfolding recover_stale_job_def
proof (rule wpi_basic(3), rule wp_mono [OF prepare_stale_wp], goal_cases)
  case (1 a w1)
  note prepared = 1
  show ?case
  proof (cases a)
    case None
    with prepared show ?thesis by (simp add: wp_simps recovery_prepared_def recovered_outcome_def)
  next
    case (Some b)
    show ?thesis
    proof (cases b)
      case (Recovered res)
      with Some prepared show ?thesis by (simp add: wp_simps recovery_prepared_def)
    next
      case (Tombstone c n)
      then obtain j r where j: "lookup_by job_id k (db_jobs (w_db w)) = Some j" "job_status j = Failed"
          "job_kind j = KindIssuance" "fenced_evidence r" "lookup_by dir_job_id k (db_issuance_results (w_db w)) = Some r"
          "pc_output_object_key c = dir_output_object_key r" "pc_job_id c = k"
        and same: "w_db w1 = w_db w" "w_store w1 = w_store w"
        using Some prepared by (auto simp: recovery_prepared_def)
      have k: "job_id j = k" using j(1) by (rule lookup_by_key)
      have reported: "recovered_outcome E ops k sb w (Some (worker_result (pc_job_id c) KindIssuance (cleanup_code x))) w'"
        if "so_delete ops (pc_output_object_key c) (w_store w) = (x, w_store w')" "w_db w' = w_db w" for x w'
        using that j k by (auto simp: recovered_outcome_def recovery_reported_def worker_result_def)
      show ?thesis
        unfolding Some Tombstone option.case recovery.case
      proof (intro wpi_basic(3), rule wp_mono [OF delete_output_wp], goal_cases)
        case (1 deleted w2)
        then obtain x where x: "so_delete ops (pc_output_object_key c) (w_store w) = (x, w_store w2)" "w_db w2 = w_db w"
          "deleted = (case x of Inr _ \<Rightarrow> True | Inl _ \<Rightarrow> False)" using same by auto
        then show ?case using reported [OF x(1,2)] by (cases x) (simp_all add: wp_simps cleanup_code_def)
      qed simp
    next
      case (Cleanup c n)
      then obtain j r where j: "stale_job k sb (w_db w) j" "job_kind j = KindIssuance"
          "dir_output_state r \<in> {OutUploading, OutCleanupRequired}"
          "lookup_by dir_job_id k (db_issuance_results (w_db w)) = Some r" "pc_output_object_key c = dir_output_object_key r"
        and c: "pc_job_id c = k" and same: "db_jobs (w_db w1) = db_jobs (w_db w)" "w_store w1 = w_store w"
        using Some prepared by (auto simp: recovery_prepared_def)
      have row: "lookup_by job_id (pc_job_id c) (db_jobs d) = Some j" if "db_jobs d = db_jobs (w_db w)" for d
        using j(1) c that by (simp add: stale_job_def)
      have reported: "recovered_outcome E ops k sb w (Some (worker_result (pc_job_id c) KindIssuance (cleanup_code x))) w'"
        if "so_delete ops (pc_output_object_key c) (w_store w) = (x, w_store w')"
          "case x of Inl _ \<Rightarrow> db_jobs (w_db w') = db_jobs (w_db w) | Inr _ \<Rightarrow> job_failed j (cleanup_code x) (w_db w) (w_db w')"
        for x w'
        using that j c lookup_by_key [of job_id k "db_jobs (w_db w)" j]
        by (auto simp: recovered_outcome_def recovery_reported_def issuance_recovered_def worker_result_def stale_job_def)
      show ?thesis
        unfolding Some Cleanup option.case recovery.case
      proof (rule wpi_basic(3), rule wp_mono [OF authorize_stale_wp], rule wpi_basic(3),
          rule wp_mono [OF delete_output_wp], goal_cases)
        case (1 _ w2 deleted w3)
        then obtain x where w3: "db_jobs (w_db w3) = db_jobs (w_db w)"
            "so_delete ops (pc_output_object_key c) (w_store w) = (x, w_store w3)"
            "deleted = (case x of Inr _ \<Rightarrow> True | Inl _ \<Rightarrow> False)"
          using same by auto
        have failed: "job_failed j code (w_db w) d" if "job_failed j code (w_db w3) d" for code d
          using that w3(1) by (simp add: job_failed_def)
        show ?case
        proof (cases x)
          case (Inl e)
          with w3 reported show ?thesis
            by (auto simp: cleanup_code_def intro!: wp_intros wp_mono [OF record_stale_wp])
        next
          case (Inr u)
          with w3 reported failed show ?thesis
            by (auto simp: cleanup_code_def intro!: wp_intros wp_mono [OF acknowledge_wp [OF row [OF w3(1)]]])
        qed
      qed simp_all
    qed
  qed
qed simp

section \<open>Every recovery lets the database evolve\<close>

lemma terminalize_evolves:
  "lookup_by job_id (job_id j) (db_jobs (w_db w)) = Some j \<Longrightarrow>
     wp (terminalize_locked_job j s code) (\<lambda>_ w'. db_evolves (w_db w) (w_db w')) (\<lambda>_ _. True) w"
  by (rule wp_mono [OF terminalize_wp]) (auto dest: settled_evolves)

lemma adopt_evolves:
  assumes row: "lookup_by job_id (job_id j) (db_jobs (w_db w)) = Some j"
    and replay: "wp replay (\<lambda>_ w'. w' = w) (\<lambda>_ w'. w' = w) w"
  shows "wp (adopt_committed caught j replay) (\<lambda>_ w'. db_evolves (w_db w) (w_db w')) (\<lambda>_ _. True) w"
  unfolding adopt_committed_def usable_def
  by (intro wp_intros wp_mono [OF replay] wp_mono [OF terminalize_evolves [OF row]])
     (use row in \<open>auto intro!: wp_intros wp_mono [OF terminalize_evolves [OF row]]\<close>)

lemma prepare_evolves:
  assumes row: "lookup_by job_id (job_id j) (db_jobs (w_db w)) = Some j"
  shows "wp (prepare_issuance_recovery E j r) (\<lambda>_ w'. db_evolves (w_db w) (w_db w')) (\<lambda>_ _. True) w"
    and "wp (prepare_verification_recovery E j v) (\<lambda>_ w'. db_evolves (w_db w) (w_db w')) (\<lambda>_ _. True) w"
proof -
  show "wp (prepare_issuance_recovery E j r) (\<lambda>_ w'. db_evolves (w_db w) (w_db w')) (\<lambda>_ _. True) w"
    unfolding prepare_issuance_recovery_def
    by (rule wpi_basic(3), rule wp_mono [OF issuance_claim_wp])
       (auto split: option.splits intro!: wp_intros wp_mono [OF adopt_evolves [OF row load_replay_wp(1)]]
         wp_mono [OF guarantees_wp [OF g_claim_stale]] wp_mono [OF guarantees_wp [OF g_record_failed]])
  show "wp (prepare_verification_recovery E j v) (\<lambda>_ w'. db_evolves (w_db w) (w_db w')) (\<lambda>_ _. True) w"
    unfolding prepare_verification_recovery_def
    by (rule wpi_basic(3), rule wp_mono [OF verification_claim_wp])
       (auto split: option.splits intro!: wp_intros wp_mono [OF adopt_evolves [OF row load_replay_wp(2)]]
         wp_mono [OF guarantees_wp [OF g_record_failed_verification]])
qed

lemma g_prepare_stale: "guarantees evolves (prepare_stale_recovery E k sb)"
  unfolding prepare_stale_recovery_def
proof (rule evolution.g_atomicI)
  fix w :: "'a world"
  show "wp (prepare_stale_body E k sb) (\<lambda>_ v. db_evolves (w_db w) (w_db v)) (\<lambda>_ _. True) w"
    unfolding prepare_stale_body_def
  proof (intro wpi_basic(3) wpi_basic(5) wpi_option, goal_cases)
    case (2 j)
    then have row: "lookup_by job_id (job_id j) (db_jobs (w_db w)) = Some j"
      by (auto intro: lookup_named dest: lookup_by_key)
    have same: "wp (if job_kind j = KindIssuance \<and> job_status j = Failed
                then chain (gets (\<lambda>w. lookup_by dir_job_id k (db_issuance_results (w_db w)))) (prepare_tombstone j)
                else ret None) (\<lambda>_ w'. w' = w) (\<lambda>_ _. True) w"
      unfolding prepare_tombstone_def
      by (intro wp_intros wp_mono [OF issuance_claim_wp]) (auto simp: wp_simps split: option.splits)
    show ?case
    proof (rule wp_mono [OF same], goal_cases)
      case (1 tombstone w1)
      then show ?case
        by (cases "job_kind j")
           (use row in \<open>auto simp: wp_simps split: option.splits intro: prepare_evolves\<close>)
    qed simp
  qed (auto simp: wp_simps)
qed

lemma g_recover_stale: "guarantees evolves (recover_stale_job E ops k sb)"
  unfolding recover_stale_job_def delete_output_def
  by (intro evolution.g_intros g_prepare_stale)
     (auto split: recovery.splits intro!: evolution.g_intros g_world g_authorize_stale g_acknowledge g_record_stale)

lemma g_recover_each: "guarantees evolves (recover_each E ops sb ks)"
  by (induction ks) (auto intro!: evolution.g_intros g_recover_stale)

lemma g_reconcile: "guarantees evolves (reconcile_stale_jobs E ops n t en age)"
  unfolding reconcile_stale_jobs_def given_or_now_def
  by (intro evolution.g_intros g_world g_recover_each)

section \<open>Failed jobs whose output may still appear\<close>

lemma prepare_failed_wp:
  assumes "job_in (w_db w) k Failed"
  shows "wp (prepare_stale_recovery E k sb) (\<lambda>a w'. w_db w' = w_db w
      \<and> (case a of None \<Rightarrow> True | Some (Tombstone c n) \<Rightarrow> True | _ \<Rightarrow> False)) (\<lambda>_ w'. w_db w' = w_db w) w"
  unfolding prepare_stale_recovery_def wp_atomic prepare_stale_body_def
proof (intro wpi_basic(3) wpi_basic(5) wpi_option, goal_cases)
  case (2 j)
  then have row: "lookup_by job_id k (db_jobs (w_db w)) = Some j" and st: "job_status j = Failed"
    using assms by (auto simp: job_in_def)
  show ?case
    by (intro wp_intros wp_mono [OF prepare_tombstone_wp [OF row]]) (use st in \<open>auto simp: wp_simps split: option.splits\<close>)
qed (auto simp: wp_simps)

lemma recover_failed_wp:
  assumes "job_in (w_db w) k Failed"
  shows "wp (recover_stale_job E ops k sb) (\<lambda>_ w'. w_db w' = w_db w) (\<lambda>_ w'. w_db w' = w_db w) w"
  unfolding recover_stale_job_def
  by (rule wpi_basic(3), rule wp_mono [OF prepare_failed_wp [OF assms]])
     (auto split: option.splits recovery.splits intro!: wp_intros wp_mono [OF delete_output_wp])

lemma recover_each_failed:
  "list_all (\<lambda>k. job_in (w_db w) k Failed) ks \<Longrightarrow>
     wp (recover_each E ops sb ks) (\<lambda>_ w'. w_db w' = w_db w) (\<lambda>_ w'. w_db w' = w_db w) w"
proof (induction ks arbitrary: w)
  case (Cons k ks)
  show ?case
    unfolding recover_each.simps
    by (intro wp_intros wp_mono [OF recover_failed_wp] wp_mono [OF Cons.IH]) (use Cons.prems in auto)
qed (simp add: wp_simps)

lemma candidate_state:
  assumes "list_all (\<lambda>j. job_status j = s) (stale_candidates w sb n)" "job_keys_distinct (w_db w)"
  shows "list_all (\<lambda>k. job_in (w_db w) k s) (map job_id (stale_candidates w sb n))"
  using assms lookup_distinct [of job_id "db_jobs (w_db w)"]
  by (fastforce simp: list_all_iff job_in_def stale_candidates_def unlocked_jobs_def job_keys_distinct_def dest: in_set_takeD)

section \<open>Properties\<close>

text \<open>
  C9. What a recovery reports is what happened. A stale processing job succeeds exactly when its evidence is committed and
  the replay of its result is accepted, and fails with the code of an invalid result when the replay is refused; with
  reserved or cleaned evidence it fails with the code of a stale job, and none of these touches the store; with an output
  that may exist it fails with that code when the deletion of this output returned, and no job changes when it
  raised; a failed job with a fenced output has only this output deleted again. Without a report nothing changed,
  and no recovery was due or the evidence did not fit the job. In every case, also when the recovery raises, the
  database only evolves.
\<close>

theorem recovery_settles:
  "wp (recover_stale_job E ops k sb)
     (\<lambda>res w'. db_evolves (w_db w) (w_db w') \<and> (case res of
        None \<Rightarrow> nothing_due k sb w \<and> w_db w' = w_db w \<and> w_store w' = w_store w
      | Some r \<Rightarrow> \<exists>j. lookup_by job_id k (db_jobs (w_db w)) = Some j
          \<and> r = worker_result k (job_kind j) (wr_safe_code r) \<and> recovery_reported E ops sb j w (wr_safe_code r) w'))
     (\<lambda>_ w'. db_evolves (w_db w) (w_db w')) w"
  by (rule wp_mono [OF wp_conj [OF recover_stale_wp guarantees_wp [OF g_recover_stale]]])
     (auto simp: recovered_outcome_def split: option.splits)

text \<open>
  C10. Failed jobs whose output may still appear are candidates of every run and are never settled: when the
  oldest candidates within the limit are all of this kind, a run changes no row, so the stale
  processing jobs behind them are never recovered.
\<close>

theorem tombstones_starve_recovery:
  assumes "job_keys_distinct (w_db w)"
    and "list_all (\<lambda>j. job_status j = Failed) (stale_candidates w (t - age) n)"
  shows "w_db (snd (reconcile_stale_jobs E ops n (Some t) en age w)) = w_db w"
proof -
  have "wp (reconcile_stale_jobs E ops n (Some t) en age) (\<lambda>_ w'. w_db w' = w_db w) (\<lambda>_ w'. w_db w' = w_db w) w"
    unfolding reconcile_stale_jobs_def given_or_now_def
    by (intro wp_intros wp_mono [OF recover_each_failed]) (use candidate_state assms in \<open>auto simp: wp_simps\<close>)
  then show ?thesis by (simp add: wp_final)
qed

end
