(* ===== verification/System.thy ===== *)
theory System
  imports WorkerRecovery
begin

text \<open>
  The whole service as one machine: every request, every worker cycle, every transaction of a worker on
  its own and every cleanup is a step, in any order and with any arguments, so a run covers crashed
  workers, several workers at once and claims that were forged or kept too long. The object store may change at
  any time, since clients write to it through signed links.
\<close>

section \<open>Services that had no evolution fact\<close>

lemma g_record_denial: "guarantees evolves (record_denial T actor action code kind)"
  unfolding record_denial_def by (intro evolution.g_intros g_world)

lemma g_reject: "guarantees evolves (reject T actor code action kind)"
  unfolding reject_def by (intro evolution.g_intros g_record_denial)

lemma g_create_upload: "guarantees evolves (create_upload T ops actor kind filename content_type n sha)"
  by (rule guaranteesI, rule wp_mono [OF create_upload_wp])
     (auto simp: audited_def upload_created_def intro!: db_evolves_intros)

lemma scoped_upload_wp:
  "wp (scoped_upload T actor k)
     (\<lambda>u w'. w' = w \<and> lookup_by upl_id (upl_id u) (db_uploads (w_db w)) = Some u) (\<lambda>_ _. True) w"
  unfolding scoped_upload_def
  by (intro wp_intros wp_mono [OF record_denial_wp])
     (auto simp: find_scoped_upload_def split: option.splits if_splits dest: lookup_self)

lemma store_call_wp: "wp (on_store m) (\<lambda>_ w'. w_db w' = w_db w) (\<lambda>_ w'. w_db w' = w_db w) w"
  by (simp add: wp_def on_store_def split: prod.splits sum.splits)

lemma finish_upload_evolves:
  assumes row: "lookup_by upl_id (upl_id u) (db_uploads (w_db w)) = Some u"
  shows "wp (finish_upload T ops actor u sha) (\<lambda>_. evolves w) (\<lambda>_ _. True) w"
proof -
  have rejected: "wp (reject T actor code action kind) Q (\<lambda>_ _. True) v" for code action kind Q v
    by (rule wp_mono [OF reject_wp]) auto
  have unavailable: "wp (case e of
          StorageUnavailable _ \<Rightarrow> reject T actor ''STORAGE_UNAVAILABLE'' action kind
        | _ \<Rightarrow> raise e) Q (\<lambda>_ _. True) v" for e action kind Q v
    by (cases e) (simp_all add: wp_simps rejected)
  show ?thesis
    unfolding finish_upload_def Let_def
    by (intro wp_intros wp_mono [OF authorize_upload_wp] rejected unavailable wp_mono [OF store_call_wp]
          wp_mono [OF save_upload_evolves] wp_mono [OF record_event_wp])
       (use row in \<open>auto simp: protected_fields_def intro!: db_evolves_prefixes intro: db_evolves_uploads\<close>)
qed

lemma g_complete_upload: "guarantees evolves (complete_upload T ops actor k sha)"
proof -
  have "guarantees evolves (atomic (chain (scoped_upload T actor k) (\<lambda>u. finish_upload T ops actor u sha)))"
    by (rule evolution.g_atomicI, rule wpi_basic(3), rule wp_mono [OF scoped_upload_wp])
       (auto intro!: finish_upload_evolves)
  then show ?thesis
    unfolding complete_upload_def
    by (intro evolution.g_intros) (auto split: exn.splits intro!: evolution.g_intros g_record_denial)
qed

lemma g_request_cancel: "guarantees evolves (request_cancel T actor k cid)"
proof -
  have "guarantees evolves (request_cancel_body T actor k cid)"
    by (rule guaranteesI, rule wp_mono [OF request_cancel_body_wp]) auto
  then show ?thesis unfolding request_cancel_def by (rule g_with_denial)
qed

lemma save_signing_key_frame:
  "wp (save_signing_key load b k) (\<lambda>_ w'. w_db w' = (w_db w)\<lparr>db_signing_keys := db_signing_keys (w_db w')\<rparr>) (\<lambda>_ _. True) w"
  by (cases "lookup_by key_pk (key_pk k) (db_signing_keys (w_db w))")
     (auto simp: save_signing_key_def wp_simps save_stored_wp signing_key_clean_def table_defs split: sum.splits)

lemma transition_frame:
  "wp (transition_signing_key load pk target t) (\<lambda>_ w'. w_db w' = (w_db w)\<lparr>db_signing_keys := db_signing_keys (w_db w')\<rparr>)
     (\<lambda>_ _. True) w"
  by (auto simp: transition_signing_key_def wp_simps table_defs Let_def
      intro!: wp_mono [OF save_signing_key_frame] split: option.splits)

lemma g_key_services:
  "guarantees evolves (register_signing_key load k)" "guarantees evolves (transition_signing_key load pk target t)"
proof -
  show "guarantees evolves (register_signing_key load k)"
    unfolding register_signing_key_def signing_key_clean_def
    by (intro evolution.g_intros g_world guaranteesI wpi_save_new wp_intros) (auto intro!: db_evolves_intros split: sum.splits)
  show "guarantees evolves (transition_signing_key load pk target t)"
    by (rule guaranteesI, rule wp_mono [OF wp_conj [OF transition_evolves transition_frame]])
       (metis db_evolves_keys db_evolves_refl, simp)
qed

section \<open>Steps and runs\<close>

text \<open>
  One request, one cycle or one transaction, on any arguments; \<open>ops\<close> is the object store. The transactions of the
  workers are steps of their own besides the cycles that call them: between two of them anything may
  happen.
\<close>

inductive system_step :: "'st storage_ops \<Rightarrow> 'st world \<Rightarrow> 'st world \<Rightarrow> bool" for ops where
  upload_intent: "system_step ops w (snd (create_upload T ops actor kind filename content_type n sha w))"
| client_put: "system_step ops w (w\<lparr>w_store := s\<rparr>)"
| upload_complete: "system_step ops w (snd (complete_upload T ops actor k sha w))"
| issue: "system_step ops w (snd (create_issuance L ops actor recipient_id k cid w))"
| verify: "system_step ops w (snd (create_verification L ops actor k cid w))"
| cancel: "system_step ops w (snd (request_cancel T actor k cid w))"
| key_registered: "system_step ops w (snd (register_signing_key load key w))"
| key_moved: "system_step ops w (snd (transition_signing_key load pk target t w))"
| demo_cycle: "system_step ops w (snd (run_worker_cycle E V ops w))"
| release_cycle: "system_step ops w (snd (process_integrity_cycle E V ops dt w))"
| staged: "system_step ops w (snd (stage_next_created_job S L en w))"
| claimed: "system_step ops w (snd (claim_next_job S co w))"
| acquired: "system_step ops w (snd (acquire_processing_claim E k token w))"
| output_begun: "system_step ops w (snd (begin_output_upload c w))"
| issuance_committed: "system_step ops w (snd (commit_issuance_result E c a b n cand ms seed w))"
| compensated: "system_step ops w (snd (compensate_owned_output ops c a b n w))"
| issuance_failed: "system_step ops w (snd (record_failed_job c code n w))"
| verification_acquired: "system_step ops w (snd (acquire_verification_claim E k token w))"
| verification_committed: "system_step ops w (snd (commit_verification_result E vc sha' decode pages ms exact_only w))"
| verification_failed: "system_step ops w (snd (record_failed_verification vc code failures ms w))"
| retried: "system_step ops w (snd (prepare_one_retry now_time w))"
| stale_claimed: "system_step ops w (snd (claim_stale_output_recovery c token w))"
| recovered: "system_step ops w (snd (reconcile_stale_jobs E ops limit at_time en age w))"
| cleaned: "system_step ops w (snd (cleanup_expired T ops now_arg batch_size w))"

text \<open>The states of a service that was started with no job.\<close>

inductive system_reachable :: "'st storage_ops \<Rightarrow> 'st world \<Rightarrow> bool" for ops where
  fresh: "db_jobs (w_db w) = [] \<Longrightarrow> system_reachable ops w"
| later: "system_reachable ops w \<Longrightarrow> system_step ops w w' \<Longrightarrow> system_reachable ops w'"

inductive_cases system_stepE: "system_step ops w w'"

lemma guarantees_final: "guarantees R m \<Longrightarrow> R s (snd (m s))"
  by (simp add: guarantees_def)

lemma wp_always: "wp m (\<lambda>_. P) (\<lambda>_. P) s \<Longrightarrow> P (snd (m s))"
  by (simp add: wp_final)

lemmas g_services = g_create_upload g_complete_upload g_create_services g_request_cancel g_key_services g_acquire g_begin
  g_commit g_compensate g_record_failed g_acquire_verification g_commit_verification g_record_failed_verification
  g_claim_stale g_reconcile g_cleanup_expired

lemma system_step_evolves:
  assumes "system_step ops w w'" "job_keys_distinct (w_db w)"
  shows "db_evolves (w_db w) (w_db w')"
  using assms(1)
proof (rule system_stepE)
  fix E V assume "w' = snd (run_worker_cycle E V ops w)"
  then show ?thesis using cycles_evolve [OF assms(2)] by simp
next
  fix E V t assume "w' = snd (process_integrity_cycle E V ops t w)"
  then show ?thesis using cycles_evolve [OF assms(2)] by simp
next
  fix S co assume "w' = snd (claim_next_job S co w)"
  then show ?thesis using wp_always [OF claim_evolves [OF assms(2)]] by simp
next
  fix S L en assume "w' = snd (stage_next_created_job S L en w)"
  then show ?thesis using wp_always [OF stage_evolves [OF assms(2)]] by (simp add: keyed_evolution_def)
next
  fix t assume "w' = snd (prepare_one_retry t w)"
  then show ?thesis using wp_always [OF retry_evolves [OF assms(2)]] by (simp add: keyed_evolution_def)
qed (simp_all add: g_services [THEN guarantees_final])

text \<open>Job numbers stay unique, so every step of a run lets the database evolve.\<close>

lemma reachable_keys: "system_reachable ops w \<Longrightarrow> job_keys_distinct (w_db w)"
proof (induction rule: system_reachable.induct)
  case (later w w')
  then show ?case using system_step_evolves [of ops w w'] by (simp add: db_evolves_def job_keys_distinct_def)
qed (simp add: job_keys_distinct_def)

lemma run_evolves:
  "(system_step ops)\<^sup>*\<^sup>* w w' \<Longrightarrow> system_reachable ops w \<Longrightarrow> system_reachable ops w' \<and> db_evolves (w_db w) (w_db w')"
proof (induction rule: rtranclp_induct)
  case (step v u)
  then have "db_evolves (w_db v) (w_db u)" using system_step_evolves reachable_keys by blast
  with step show ?case by (blast intro: later db_evolves_trans)
qed simp

section \<open>What a run never takes back\<close>

text \<open>A row that is there and satisfies \<open>P\<close> is there for ever, with the columns \<open>f\<close> as they are.\<close>

definition settled_columns :: "('r \<Rightarrow> 'k) \<Rightarrow> ('r \<Rightarrow> bool) \<Rightarrow> ('r \<Rightarrow> 'c) \<Rightarrow> 'r list \<Rightarrow> 'r list \<Rightarrow> bool" where
  "settled_columns key P f rows rows' \<longleftrightarrow> (\<forall>k. case lookup_by key k rows of None \<Rightarrow> True
     | Some r \<Rightarrow> (case lookup_by key k rows' of None \<Rightarrow> False | Some r' \<Rightarrow> if P r then f r' = f r else True))"

lemma settled_columnsI:
  "rows_evolve key R rows rows' \<Longrightarrow> (\<And>r r'. R r r' \<Longrightarrow> P r \<Longrightarrow> f r' = f r) \<Longrightarrow> settled_columns key P f rows rows'"
  unfolding settled_columns_def by (auto split: option.splits dest: rows_evolveD)

definition history_kept :: "db \<Rightarrow> db \<Rightarrow> bool" where
  "history_kept d e \<longleftrightarrow>
     prefix (db_audit d) (db_audit e) \<and> prefix (db_outbox d) (db_outbox e)
     \<and> prefix (db_manifests d) (db_manifests e) \<and> prefix (db_receipts d) (db_receipts e)
     \<and> settled_columns job_id (\<lambda>_. True) (\<lambda>j. (job_organization_id j, job_kind j, job_issuance_id j, job_verification_id j, job_deadline_at j))
         (db_jobs d) (db_jobs e)
     \<and> settled_columns job_id (\<lambda>j. job_terminal (job_status j)) job_status (db_jobs d) (db_jobs e)
     \<and> settled_columns job_id (\<lambda>j. job_cancel_requested_at j \<noteq> None) job_cancel_requested_at (db_jobs d) (db_jobs e)
     \<and> settled_columns dir_job_id (\<lambda>r. dir_output_state r = OutCommitted) id (db_issuance_results d) (db_issuance_results e)
     \<and> settled_columns dvr_job_id (\<lambda>r. dvr_result_state r \<noteq> VerReserved) id
         (db_verification_results d) (db_verification_results e)
     \<and> settled_columns iss_id (\<lambda>i. iss_output_object_key i \<noteq> None) iss_output_object_key (db_issuances d) (db_issuances e)
     \<and> settled_columns iss_id (\<lambda>i. iss_output_sha256 i \<noteq> None) iss_output_sha256 (db_issuances d) (db_issuances e)
     \<and> settled_columns upl_id (\<lambda>u. upl_finalized_at u \<noteq> None) upl_finalized_at (db_uploads d) (db_uploads e)
     \<and> settled_columns upl_id (\<lambda>u. upl_promotion_status u = Attached) upl_promotion_status (db_uploads d) (db_uploads e)
     \<and> settled_columns upl_id (\<lambda>u. upl_promotion_target_key u \<noteq> None) upl_promotion_target_key (db_uploads d) (db_uploads e)
     \<and> settled_columns key_pk (\<lambda>k. key_status k = KeyRevoked) (\<lambda>k. (key_status k, key_revoked_at k))
         (db_signing_keys d) (db_signing_keys e)"

text \<open>What the relations of the tables say of one row.\<close>

lemma settled_rows:
  "job_evolves j j' \<Longrightarrow> (job_organization_id j', job_kind j', job_issuance_id j', job_verification_id j', job_deadline_at j')
     = (job_organization_id j, job_kind j, job_issuance_id j, job_verification_id j, job_deadline_at j)"
  "job_evolves j j' \<Longrightarrow> job_terminal (job_status j) \<Longrightarrow> job_status j' = job_status j"
  "job_evolves j j' \<Longrightarrow> job_cancel_requested_at j \<noteq> None \<Longrightarrow> job_cancel_requested_at j' = job_cancel_requested_at j"
  "dir_evolves r r' \<Longrightarrow> dir_output_state r = OutCommitted \<Longrightarrow> id r' = id r"
  "dvr_evolves v v' \<Longrightarrow> dvr_result_state v \<noteq> VerReserved \<Longrightarrow> id v' = id v"
  "issuance_evolves i i' \<Longrightarrow> iss_output_object_key i \<noteq> None \<Longrightarrow> iss_output_object_key i' = iss_output_object_key i"
  "issuance_evolves i i' \<Longrightarrow> iss_output_sha256 i \<noteq> None \<Longrightarrow> iss_output_sha256 i' = iss_output_sha256 i"
  "upload_evolves u u' \<Longrightarrow> upl_finalized_at u \<noteq> None \<Longrightarrow> upl_finalized_at u' = upl_finalized_at u"
  "upload_evolves u u' \<Longrightarrow> upl_promotion_status u = Attached \<Longrightarrow> upl_promotion_status u' = upl_promotion_status u"
  "upload_evolves u u' \<Longrightarrow> upl_promotion_target_key u \<noteq> None \<Longrightarrow> upl_promotion_target_key u' = upl_promotion_target_key u"
  "key_evolves k k' \<Longrightarrow> key_status k = KeyRevoked \<Longrightarrow> (key_status k', key_revoked_at k') = (key_status k, key_revoked_at k)"
proof -
  show "key_evolves k k' \<Longrightarrow> key_status k = KeyRevoked \<Longrightarrow> (key_status k', key_revoked_at k') = (key_status k, key_revoked_at k)"
    by (cases "key_status k'") (auto simp: key_evolves_def)
qed (auto simp: job_evolves_def dir_evolves_def dvr_evolves_def issuance_evolves_def upload_evolves_def promotion_frozen_def
      dest: status_reaches_terminal)

lemma evolved_history: "db_evolves d e \<Longrightarrow> history_kept d e"
  unfolding db_evolves_def history_kept_def
  by (elim conjE, intro conjI; (assumption | (erule settled_columnsI, erule settled_rows; assumption)))

section \<open>Properties\<close>

text \<open>
  C8. In whatever order requests, workers and cleanups run, and wherever a worker stops, job numbers stay unique and nothing
  that was settled is taken back: the audit log, the outbox, the manifests and the receipts only grow, and
  the identity of every job, a final status, a cancellation request, committed evidence of both
  kinds, the key and digest of an issued file, the completion of an upload, its target and its attachment,
  and the revocation of a signing key stay as they are.
\<close>

theorem history_is_permanent:
  assumes "system_reachable ops w" "(system_step ops)\<^sup>*\<^sup>* w w'"
  shows "job_keys_distinct (w_db w') \<and> history_kept (w_db w) (w_db w')"
  using run_evolves [OF assms(2,1)] reachable_keys evolved_history by blast

end
