(* ===== verification/RefManifest.thy ===== *)
theory RefManifest
  imports Manifests Runtime
begin

text \<open>
  The reference manifests (\<open>splitbind_ref/manifest.py\<close>): two manifest classes that validate their fields, the
  canonical bytes of a manifest and the signed pair of an issuance. The JSON parser, \<open>rfc8785\<close> and Ed25519 are
  the parameters of the theory Manifests; a dictionary is a list of members with different names.
\<close>

section \<open>UUID texts\<close>

text \<open>\<open>str.replace(sub, "")\<close>.\<close>

function remove_all :: "string \<Rightarrow> string \<Rightarrow> string" where
  "remove_all sub s = (if s = [] \<or> sub = [] then s
     else if take (length sub) s = sub then remove_all sub (drop (length sub) s) else hd s # remove_all sub (tl s))"
  by pat_completeness auto
termination by (relation "measure (\<lambda>(_, s). length s)") auto

declare remove_all.simps [simp del]

definition any_hex_value :: "char \<Rightarrow> nat option" where
  "any_hex_value c = (let n = of_char c :: nat in
     if 48 \<le> n \<and> n \<le> 57 then Some (n - 48) else if 97 \<le> n \<and> n \<le> 102 then Some (n - 87)
     else if 65 \<le> n \<and> n \<le> 70 then Some (n - 55) else None)"

text \<open>\<open>int(s, 16)\<close> of a text without a minus: blanks around, a plus, \<open>0x\<close>, and one underscore between two digits.\<close>

fun hex_number :: "bool \<Rightarrow> nat \<Rightarrow> string \<Rightarrow> nat option" where
  "hex_number after_digit acc [] = (if after_digit then Some acc else None)"
| "hex_number after_digit acc (c # cs) =
     (if c = CHR ''_'' then (if after_digit then hex_number False acc cs else None)
      else (case any_hex_value c of None \<Rightarrow> None | Some v \<Rightarrow> hex_number True (acc * 16 + v) cs))"

definition py_int16 :: "string \<Rightarrow> nat option" where
  "py_int16 s =
     (let t = py_strip s; u = (if take 1 t = ''+'' then tl t else t)
      in if take 2 u = ''0x'' \<or> take 2 u = ''0X''
         then (let digits = drop 2 u in hex_number False 0 (if take 1 digits = ''_'' then tl digits else digits))
         else hex_number False 0 u)"

definition strip_braces :: "string \<Rightarrow> string" where
  "strip_braces s = (let brace = (\<lambda>c. c = CHR ''{'' \<or> c = CHR ''}'') in rev (dropWhile brace (rev (dropWhile brace s))))"

text \<open>\<open>UUID(value)\<close>.\<close>

definition py_uuid :: "string \<Rightarrow> uuid option" where
  "py_uuid s =
     (let digits = filter (\<lambda>c. c \<noteq> CHR ''-'') (strip_braces (remove_all ''uuid:'' (remove_all ''urn:'' s)))
      in if length digits \<noteq> 32 then None
         else (case py_int16 digits of None \<Rightarrow> None | Some n \<Rightarrow> Some (word_of_nat n)))"

section \<open>Validation of the fields\<close>

definition invalid_member :: "string \<Rightarrow> string \<Rightarrow> exn" where
  "invalid_member name what = ValueError (''manifest '' @ name @ what)"

definition validate_uuid_member :: "string \<Rightarrow> json \<Rightarrow> exn + unit" where
  "validate_uuid_member name v = (case v of
     JStr s \<Rightarrow> (case py_uuid s of
         None \<Rightarrow> Inl (invalid_member name '' must be a UUID string'')
       | Some u \<Rightarrow> sum_require (uuid_str u = py_lower s) (invalid_member name '' must use canonical UUID text''))
   | _ \<Rightarrow> Inl (TypeError (''manifest '' @ name @ '' must be a UUID string'')))"

definition validate_hash_member :: "string \<Rightarrow> json \<Rightarrow> exn + unit" where
  "validate_hash_member name v = sum_require (case v of JStr s \<Rightarrow> sha256_text s | _ \<Rightarrow> False)
     (invalid_member name '' must be lowercase SHA-256 hex'')"

definition validate_bounded_member :: "string \<Rightarrow> json \<Rightarrow> exn + unit" where
  "validate_bounded_member name v = sum_require (case v of JStr s \<Rightarrow> 1 \<le> length s \<and> length s \<le> 128 | _ \<Rightarrow> False)
     (invalid_member name '' must contain 1 to 128 characters'')"

definition lower_or_digit :: "char \<Rightarrow> bool" where
  "lower_or_digit c \<longleftrightarrow> decimal_digit c \<or> (let n = of_char c :: nat in 97 \<le> n \<and> n \<le> 122)"

definition algorithm_text :: "string \<Rightarrow> bool" where
  "algorithm_text s \<longleftrightarrow> s \<noteq> [] \<and> length s \<le> 128 \<and> lower_or_digit (hd s)
     \<and> list_all (\<lambda>c. lower_or_digit c \<or> c \<in> set ''._-'') (tl s)"

text \<open>The pattern of a timestamp: nineteen fixed places, perhaps a fraction, and \<open>Z\<close>.\<close>

definition timestamp_places :: "string \<Rightarrow> bool" where
  "timestamp_places s = list_all2 (\<lambda>p c. if p = CHR ''9'' then decimal_digit c else c = p) ''9999-99-99T99:99:99'' s"

definition timestamp_text :: "string \<Rightarrow> bool" where
  "timestamp_text s \<longleftrightarrow> 20 \<le> length s \<and> timestamp_places (take 19 s) \<and> last s = CHR ''Z''
     \<and> (let fraction = butlast (drop 19 s) in fraction = []
        \<or> hd fraction = CHR ''.'' \<and> tl fraction \<noteq> [] \<and> list_all decimal_digit (tl fraction))"

definition leap_year :: "int \<Rightarrow> bool" where
  "leap_year y \<longleftrightarrow> y mod 4 = 0 \<and> (y mod 100 \<noteq> 0 \<or> y mod 400 = 0)"

definition days_in_month :: "int \<Rightarrow> int \<Rightarrow> int" where
  "days_in_month y m = (if m = 2 then (if leap_year y then 29 else 28) else if m \<in> {4, 6, 9, 11} then 30 else 31)"

text \<open>What \<open>datetime.fromisoformat\<close> accepts of a text of that pattern.\<close>

definition valid_instant :: "string \<Rightarrow> bool" where
  "valid_instant s \<longleftrightarrow>
     (let part = (\<lambda>a n. decimal_value (take n (drop a s))); y = part 0 4; m = part 5 2; d = part 8 2
      in 1 \<le> y \<and> 1 \<le> m \<and> m \<le> 12 \<and> 1 \<le> d \<and> d \<le> days_in_month y m
         \<and> part 11 2 < 24 \<and> part 14 2 < 60 \<and> part 17 2 < 60)"

definition validate_issued_at :: "json \<Rightarrow> exn + unit" where
  "validate_issued_at v = sum_require (case v of JStr s \<Rightarrow> timestamp_text s \<and> valid_instant s | _ \<Rightarrow> False)
     (ValueError ''manifest issued_at must be an RFC 3339 UTC timestamp'')"

definition validate_algorithm :: "string \<Rightarrow> json \<Rightarrow> exn + unit" where
  "validate_algorithm name v = sum_require (case v of JStr s \<Rightarrow> algorithm_text s | _ \<Rightarrow> False) (invalid_member name '' is invalid'')"

definition validate_common :: "(string \<times> json) list \<Rightarrow> exn + unit" where
  "validate_common kvs =
     sum_then (sum_require (jget ''schema_version'' kvs = JInt 1) (ValueError ''manifest schema_version must be integer 1'')) (\<lambda>_.
     sum_then (validate_uuid_member ''issuance_id'' (jget ''issuance_id'' kvs)) (\<lambda>_.
     sum_then (validate_issued_at (jget ''issued_at'' kvs)) (\<lambda>_.
     sum_then (validate_hash_member ''output_sha256'' (jget ''output_sha256'' kvs)) (\<lambda>_.
     sum_then (validate_algorithm ''fingerprint_algorithm'' (jget ''fingerprint_algorithm'' kvs)) (\<lambda>_.
     sum_then (validate_algorithm ''integrity_algorithm'' (jget ''integrity_algorithm'' kvs)) (\<lambda>_.
     validate_bounded_member ''signing_key_id'' (jget ''signing_key_id'' kvs)))))))"

definition internal_members :: "string list" where
  "internal_members = [''schema_version'', ''issuance_id'', ''document_id'', ''recipient_id'', ''issued_at'',
     ''source_sha256'', ''output_sha256'', ''fingerprint_algorithm'', ''integrity_algorithm'',
     ''signing_key_id'', ''retention_policy_id'']"

definition validate_internal :: "(string \<times> json) list \<Rightarrow> exn + unit" where
  "validate_internal kvs =
     sum_then (sum_require (set (map fst kvs) = set internal_members)
        (ValueError ''internal manifest fields do not match version 1'')) (\<lambda>_.
     sum_then (validate_common kvs) (\<lambda>_.
     sum_then (validate_uuid_member ''document_id'' (jget ''document_id'' kvs)) (\<lambda>_.
     sum_then (validate_uuid_member ''recipient_id'' (jget ''recipient_id'' kvs)) (\<lambda>_.
     sum_then (validate_hash_member ''source_sha256'' (jget ''source_sha256'' kvs)) (\<lambda>_.
     validate_bounded_member ''retention_policy_id'' (jget ''retention_policy_id'' kvs))))))"

definition validate_public :: "(string \<times> json) list \<Rightarrow> exn + unit" where
  "validate_public kvs =
     sum_then (sum_require (set (map fst kvs) = set public_members)
        (ValueError ''public manifest fields do not match version 1'')) (\<lambda>_. validate_common kvs)"

section \<open>The manifest classes\<close>

record internal_manifest_v1 =
  im_schema_version :: int
  im_issuance_id :: string
  im_document_id :: string
  im_recipient_id :: string
  im_issued_at :: string
  im_source_sha256 :: string
  im_output_sha256 :: string
  im_fingerprint_algorithm :: string
  im_integrity_algorithm :: string
  im_signing_key_id :: string
  im_retention_policy_id :: string

record public_manifest_v1 =
  pm_schema_version :: int
  pm_issuance_id :: string
  pm_issued_at :: string
  pm_output_sha256 :: string
  pm_fingerprint_algorithm :: string
  pm_integrity_algorithm :: string
  pm_signing_key_id :: string

text \<open>\<open>model_dump\<close>: the fields in their order.\<close>

definition dump_internal :: "internal_manifest_v1 \<Rightarrow> (string \<times> json) list" where
  "dump_internal m = [(''schema_version'', JInt (im_schema_version m)), (''issuance_id'', JStr (im_issuance_id m)),
     (''document_id'', JStr (im_document_id m)), (''recipient_id'', JStr (im_recipient_id m)),
     (''issued_at'', JStr (im_issued_at m)), (''source_sha256'', JStr (im_source_sha256 m)),
     (''output_sha256'', JStr (im_output_sha256 m)), (''fingerprint_algorithm'', JStr (im_fingerprint_algorithm m)),
     (''integrity_algorithm'', JStr (im_integrity_algorithm m)), (''signing_key_id'', JStr (im_signing_key_id m)),
     (''retention_policy_id'', JStr (im_retention_policy_id m))]"

definition dump_public :: "public_manifest_v1 \<Rightarrow> (string \<times> json) list" where
  "dump_public p = [(''schema_version'', JInt (pm_schema_version p)), (''issuance_id'', JStr (pm_issuance_id p)),
     (''issued_at'', JStr (pm_issued_at p)), (''output_sha256'', JStr (pm_output_sha256 p)),
     (''fingerprint_algorithm'', JStr (pm_fingerprint_algorithm p)),
     (''integrity_algorithm'', JStr (pm_integrity_algorithm p)), (''signing_key_id'', JStr (pm_signing_key_id p))]"

text \<open>The validated members of a mapping: one is an integer, the others are texts.\<close>

definition int_member :: "string \<Rightarrow> (string \<times> json) list \<Rightarrow> int" where
  "int_member k kvs = (case jget k kvs of JInt n \<Rightarrow> n | _ \<Rightarrow> 0)"

definition text_member :: "string \<Rightarrow> (string \<times> json) list \<Rightarrow> string" where
  "text_member k kvs = (case jget k kvs of JStr s \<Rightarrow> s | _ \<Rightarrow> [])"

text \<open>
  \<open>InternalManifestV1(**value)\<close> as \<open>_coerce_internal\<close> calls it: missing and unexpected members are a
  \<open>TypeError\<close> of the call, which like the ones of the validation becomes a \<open>ValueError\<close>.
\<close>

definition construct_internal :: "(string \<times> json) list \<Rightarrow> exn + internal_manifest_v1" where
  "construct_internal kvs =
     (let mismatch = ValueError ''internal manifest fields do not match version 1''
      in if set (map fst kvs) \<noteq> set internal_members then Inl mismatch
         else (case validate_internal kvs of
            Inl (TypeError _) \<Rightarrow> Inl mismatch
          | Inl e \<Rightarrow> Inl e
          | Inr _ \<Rightarrow> Inr \<lparr>im_schema_version = int_member ''schema_version'' kvs,
              im_issuance_id = text_member ''issuance_id'' kvs, im_document_id = text_member ''document_id'' kvs,
              im_recipient_id = text_member ''recipient_id'' kvs, im_issued_at = text_member ''issued_at'' kvs,
              im_source_sha256 = text_member ''source_sha256'' kvs, im_output_sha256 = text_member ''output_sha256'' kvs,
              im_fingerprint_algorithm = text_member ''fingerprint_algorithm'' kvs,
              im_integrity_algorithm = text_member ''integrity_algorithm'' kvs,
              im_signing_key_id = text_member ''signing_key_id'' kvs,
              im_retention_policy_id = text_member ''retention_policy_id'' kvs\<rparr>))"

datatype manifest_source = Built internal_manifest_v1 | Given json

definition coerce_internal :: "manifest_source \<Rightarrow> exn + internal_manifest_v1" where
  "coerce_internal v = (case v of
     Built m \<Rightarrow> Inr m
   | Given (JObj kvs) \<Rightarrow> construct_internal kvs
   | Given _ \<Rightarrow> Inl (TypeError ''internal manifest must be InternalManifestV1 or a mapping''))"

definition construct_public :: "public_manifest_v1 \<Rightarrow> exn + public_manifest_v1" where
  "construct_public p = sum_then (validate_public (dump_public p)) (\<lambda>_. Inr p)"

definition public_manifest :: "manifest_source \<Rightarrow> exn + public_manifest_v1" where
  "public_manifest v = sum_then (coerce_internal v) (\<lambda>m. construct_public
     \<lparr>pm_schema_version = im_schema_version m, pm_issuance_id = im_issuance_id m, pm_issued_at = im_issued_at m,
      pm_output_sha256 = im_output_sha256 m, pm_fingerprint_algorithm = im_fingerprint_algorithm m,
      pm_integrity_algorithm = im_integrity_algorithm m, pm_signing_key_id = im_signing_key_id m\<rparr>)"

section \<open>Canonical bytes and signatures\<close>

definition max_safe_integer :: int where
  "max_safe_integer = 9007199254740991"

definition max_canonical_bytes :: nat where
  "max_canonical_bytes = 1048576"

fun validate_json_value :: "string \<Rightarrow> json \<Rightarrow> exn + unit"
  and validate_json_items :: "string \<Rightarrow> nat \<Rightarrow> json list \<Rightarrow> exn + unit"
  and validate_json_members :: "string \<Rightarrow> (string \<times> json) list \<Rightarrow> exn + unit" where
  "validate_json_value path (JInt n) = sum_require (\<bar>n\<bar> \<le> max_safe_integer)
     (ValueError (''manifest integer at '' @ path @ '' exceeds the I-JSON safe range''))"
| "validate_json_value path (JList xs) = validate_json_items path 0 xs"
| "validate_json_value path (JObj kvs) = validate_json_members path kvs"
| "validate_json_value path _ = Inr ()"
| "validate_json_items path i [] = Inr ()"
| "validate_json_items path i (x # xs) =
     sum_then (validate_json_value (path @ ''['' @ decimal i @ '']'') x) (\<lambda>_. validate_json_items path (Suc i) xs)"
| "validate_json_members path [] = Inr ()"
| "validate_json_members path ((k, v) # kvs) =
     sum_then (validate_json_value (path @ ''.'' @ k) v) (\<lambda>_. validate_json_members path kvs)"

datatype manifest_input = InternalInput internal_manifest_v1 | PublicInput public_manifest_v1 | TextInput string | ValueInput json

definition plain_manifest :: "manifest_libs \<Rightarrow> manifest_input \<Rightarrow> exn + json" where
  "plain_manifest L v = (case v of
     InternalInput m \<Rightarrow> Inr (JObj (dump_internal m))
   | PublicInput p \<Rightarrow> Inr (JObj (dump_public p))
   | TextInput s \<Rightarrow> (case ml_json_loads L s of
         None \<Rightarrow> Inl (ValueError ''manifest JSON is invalid or ambiguous'')
       | Some x \<Rightarrow> if unique_members x then Inr x else Inl (ValueError ''manifest JSON is invalid or ambiguous''))
   | ValueInput x \<Rightarrow> Inr x)"

definition canonicalize_manifest :: "manifest_libs \<Rightarrow> manifest_input \<Rightarrow> exn + bytes" where
  "canonicalize_manifest L v =
     sum_then (plain_manifest L v) (\<lambda>x.
     sum_then (validate_json_value ''$'' x) (\<lambda>_.
     case ml_canonical L x of
       None \<Rightarrow> Inl (ValueError ''manifest cannot be canonicalized as RFC 8785 JCS'')
     | Some canonical \<Rightarrow> if length canonical > max_canonical_bytes
         then Inl (ValueError ''manifest canonical payload exceeds 1 MiB'') else Inr canonical))"

text \<open>A signing key is its identifier and the seed of its private key.\<close>

record manifest_signing_key =
  msk_key_id :: string
  msk_seed :: bytes

definition make_signing_key :: "string \<Rightarrow> bytes \<Rightarrow> exn + manifest_signing_key" where
  "make_signing_key k seed =
     sum_then (validate_bounded_member ''key_id'' (JStr k)) (\<lambda>_. Inr \<lparr>msk_key_id = k, msk_seed = seed\<rparr>)"

record signature_envelope =
  sg_algorithm :: string
  sg_key_id :: string
  sg_signature :: bytes

definition sign_manifest :: "manifest_libs \<Rightarrow> bytes \<Rightarrow> manifest_signing_key \<Rightarrow> exn + signature_envelope" where
  "sign_manifest L canonical key =
     (if canonical = [] then Inl (TypeError ''canonical manifest must be non-empty bytes'')
      else if length canonical > max_canonical_bytes then Inl (ValueError ''canonical manifest exceeds 1 MiB'')
      else Inr \<lparr>sg_algorithm = ''Ed25519'', sg_key_id = msk_key_id key, sg_signature = ml_sign L (msk_seed key) canonical\<rparr>)"

record 'm signed_manifest =
  sd_manifest :: 'm
  sd_canonical :: bytes
  sd_envelope :: signature_envelope

definition signed_manifest_pair ::
  "manifest_libs \<Rightarrow> manifest_source \<Rightarrow> manifest_signing_key \<Rightarrow> exn + internal_manifest_v1 signed_manifest \<times> public_manifest_v1 signed_manifest" where
  "signed_manifest_pair L v key =
     sum_then (coerce_internal v) (\<lambda>m.
     if im_signing_key_id m \<noteq> msk_key_id key
     then Inl (ValueError ''manifest signing_key_id does not match the signing key'')
     else
       sum_then (public_manifest (Built m)) (\<lambda>external.
       sum_then (canonicalize_manifest L (InternalInput m)) (\<lambda>internal_bytes.
       sum_then (canonicalize_manifest L (PublicInput external)) (\<lambda>public_bytes.
       sum_then (sign_manifest L internal_bytes key) (\<lambda>internal_envelope.
       sum_then (sign_manifest L public_bytes key) (\<lambda>public_envelope.
       Inr (\<lparr>sd_manifest = m, sd_canonical = internal_bytes, sd_envelope = internal_envelope\<rparr>,
            \<lparr>sd_manifest = external, sd_canonical = public_bytes, sd_envelope = public_envelope\<rparr>)))))))"

section \<open>What a constructed manifest holds\<close>

lemma member_is_text:
  "validate_uuid_member name v = Inr u \<Longrightarrow> \<exists>s. v = JStr s" "validate_hash_member name v = Inr u \<Longrightarrow> \<exists>s. v = JStr s"
  "validate_bounded_member name v = Inr u \<Longrightarrow> \<exists>s. v = JStr s" "validate_algorithm name v = Inr u \<Longrightarrow> \<exists>s. v = JStr s"
  "validate_issued_at v = Inr u \<Longrightarrow> \<exists>s. v = JStr s"
  by (cases v; simp add: validate_uuid_member_def validate_hash_member_def validate_bounded_member_def
      validate_algorithm_def validate_issued_at_def sum_require_def)+

lemma validate_common_members:
  "validate_common kvs = Inr u \<Longrightarrow> jget ''schema_version'' kvs = JInt 1 \<and> (\<exists>s. jget ''issuance_id'' kvs = JStr s)
     \<and> (\<exists>s. jget ''issued_at'' kvs = JStr s) \<and> (\<exists>s. jget ''output_sha256'' kvs = JStr s)
     \<and> (\<exists>s. jget ''fingerprint_algorithm'' kvs = JStr s) \<and> (\<exists>s. jget ''integrity_algorithm'' kvs = JStr s)
     \<and> (\<exists>s. jget ''signing_key_id'' kvs = JStr s)"
  by (auto simp: validate_common_def sum_then_Inr sum_require_def dest!: member_is_text split: if_splits)

lemma validate_internal_members:
  "validate_internal kvs = Inr u \<Longrightarrow> validate_common kvs = Inr () \<and> (\<exists>s. jget ''document_id'' kvs = JStr s)
     \<and> (\<exists>s. jget ''recipient_id'' kvs = JStr s) \<and> (\<exists>s. jget ''source_sha256'' kvs = JStr s)
     \<and> (\<exists>s. jget ''retention_policy_id'' kvs = JStr s)"
  by (auto simp: validate_internal_def sum_then_Inr dest!: member_is_text)

lemma constructed_members:
  assumes "construct_internal kvs = Inr m"
  shows "set (map fst kvs) = set internal_members" "validate_internal kvs = Inr ()"
    "dump_internal m = map (\<lambda>k. (k, jget k kvs)) internal_members"
proof -
  show k: "set (map fst kvs) = set internal_members" using assms by (simp add: construct_internal_def Let_def split: if_splits)
  show v: "validate_internal kvs = Inr ()"
    using assms k by (auto simp: construct_internal_def Let_def split: sum.splits exn.splits)
  from validate_internal_members [OF v] obtain s1 s2 s3 s4 where j: "validate_common kvs = Inr ()" "jget ''document_id'' kvs = JStr s1"
    "jget ''recipient_id'' kvs = JStr s2" "jget ''source_sha256'' kvs = JStr s3" "jget ''retention_policy_id'' kvs = JStr s4"
    by blast
  from validate_common_members [OF j(1)] obtain s5 s6 s7 s8 s9 s0 where i: "jget ''schema_version'' kvs = JInt 1"
    "jget ''issuance_id'' kvs = JStr s5" "jget ''issued_at'' kvs = JStr s6" "jget ''output_sha256'' kvs = JStr s7"
    "jget ''fingerprint_algorithm'' kvs = JStr s8" "jget ''integrity_algorithm'' kvs = JStr s9" "jget ''signing_key_id'' kvs = JStr s0"
    by blast
  have "m = \<lparr>im_schema_version = 1, im_issuance_id = s5, im_document_id = s1, im_recipient_id = s2, im_issued_at = s6,
      im_source_sha256 = s3, im_output_sha256 = s7, im_fingerprint_algorithm = s8, im_integrity_algorithm = s9,
      im_signing_key_id = s0, im_retention_policy_id = s4\<rparr>"
    using assms k v i j(2-) by (simp add: construct_internal_def Let_def int_member_def text_member_def)
  then show "dump_internal m = map (\<lambda>k. (k, jget k kvs)) internal_members"
    using i j(2-) by (simp add: dump_internal_def internal_members_def)
qed

text \<open>The validation only looks at the members by their names, so a manifest validates its own dump again.\<close>

lemma jget_dump: "jget k (map (\<lambda>k. (k, jget k kvs)) ks) = (if k \<in> set ks then jget k kvs else JNull)"
  by (induction ks) (auto simp: jget_def)

lemma validate_common_dump:
  "set public_members \<subseteq> set ks \<Longrightarrow> validate_common (map (\<lambda>k. (k, jget k kvs)) ks) = validate_common kvs"
  by (simp add: validate_common_def jget_dump public_members_def)

lemma validate_internal_dump:
  assumes "set (map fst kvs) = set internal_members"
  shows "validate_internal (map (\<lambda>k. (k, jget k kvs)) internal_members) = validate_internal kvs"
proof -
  have sub: "set public_members \<subseteq> set internal_members" by (simp add: internal_members_def public_members_def)
  have mem: "''document_id'' \<in> set internal_members" "''recipient_id'' \<in> set internal_members"
    "''source_sha256'' \<in> set internal_members" "''retention_policy_id'' \<in> set internal_members"
    by (simp_all add: internal_members_def)
  from assms have keys: "fst ` set kvs = set internal_members" by simp
  show ?thesis by (simp add: validate_internal_def validate_common_dump [OF sub] jget_dump mem image_image keys)
qed

lemma construct_dump:
  assumes "construct_internal kvs = Inr m"
  shows "construct_internal (dump_internal m) = Inr m"
proof -
  note c = constructed_members [OF assms]
  have members: "k \<in> set internal_members \<Longrightarrow> jget k (dump_internal m) = jget k kvs" for k
    unfolding c(3) jget_dump by simp
  have "validate_internal (dump_internal m) = Inr ()" unfolding c(3) validate_internal_dump [OF c(1)] by (rule c(2))
  moreover have "set (map fst (dump_internal m)) = set internal_members" unfolding c(3) by (simp add: comp_def)
  ultimately show ?thesis
    using assms c(1,2) members
    by (simp add: construct_internal_def Let_def int_member_def text_member_def internal_members_def)
qed

lemma constructed_public:
  assumes "construct_internal kvs = Inr m"
  shows "\<exists>p. public_manifest (Built m) = Inr p \<and> dump_public p = map (\<lambda>k. (k, jget k kvs)) public_members"
proof -
  note c = constructed_members [OF assms]
  let ?p = "\<lparr>pm_schema_version = im_schema_version m, pm_issuance_id = im_issuance_id m, pm_issued_at = im_issued_at m,
      pm_output_sha256 = im_output_sha256 m, pm_fingerprint_algorithm = im_fingerprint_algorithm m,
      pm_integrity_algorithm = im_integrity_algorithm m, pm_signing_key_id = im_signing_key_id m\<rparr>"
  have d: "dump_public ?p = map (\<lambda>k. (k, jget k kvs)) public_members"
    using c(3) by (simp add: dump_internal_def dump_public_def internal_members_def public_members_def)
  have "validate_common kvs = Inr ()" using validate_internal_members [OF c(2)] by blast
  then have "validate_public (dump_public ?p) = Inr ()"
    unfolding d by (simp add: validate_public_def validate_common_dump comp_def sum_require_def sum_then_def)
  with d show ?thesis by (simp add: public_manifest_def coerce_internal_def construct_public_def sum_then_def)
qed

section \<open>Properties\<close>

text \<open>
  C37. The signed pair of an issuance says what was given and no more: when signing succeeds, the mapping had exactly
  the eleven members of version 1, the internal manifest keeps every one of them unchanged and is read
  back from its own dump, the public manifest holds the seven public members with the same values and none of
  document, recipient, source or retention, the key is the one the manifest names, and both signatures are
  made over the canonical bytes of their own payload, at most one mebibyte. A valid manifest always
  has its public projection.
\<close>

theorem signed_pair_exact:
  "case signed_manifest_pair L (Given v) key of
     Inl _ \<Rightarrow> (case v of JObj kvs \<Rightarrow> (case construct_internal kvs of Inl _ \<Rightarrow> True
        | Inr m \<Rightarrow> (\<exists>p. public_manifest (Built m) = Inr p)) | _ \<Rightarrow> True)
   | Inr (internal, public) \<Rightarrow> \<exists>kvs. v = JObj kvs \<and> set (map fst kvs) = set internal_members
       \<and> jget ''signing_key_id'' kvs = JStr (msk_key_id key)
       \<and> dump_internal (sd_manifest internal) = map (\<lambda>k. (k, jget k kvs)) internal_members
       \<and> construct_internal (dump_internal (sd_manifest internal)) = Inr (sd_manifest internal)
       \<and> dump_public (sd_manifest public) = map (\<lambda>k. (k, jget k kvs)) public_members
       \<and> ml_canonical L (JObj (dump_internal (sd_manifest internal))) = Some (sd_canonical internal)
       \<and> ml_canonical L (JObj (dump_public (sd_manifest public))) = Some (sd_canonical public)
       \<and> length (sd_canonical internal) \<le> 1048576 \<and> length (sd_canonical public) \<le> 1048576
       \<and> sd_envelope internal = \<lparr>sg_algorithm = ''Ed25519'', sg_key_id = msk_key_id key,
            sg_signature = ml_sign L (msk_seed key) (sd_canonical internal)\<rparr>
       \<and> sd_envelope public = \<lparr>sg_algorithm = ''Ed25519'', sg_key_id = msk_key_id key,
            sg_signature = ml_sign L (msk_seed key) (sd_canonical public)\<rparr>"
proof (cases "signed_manifest_pair L (Given v) key")
  case (Inl e)
  then show ?thesis by (auto split: json.splits sum.splits dest: constructed_public)
next
  case (Inr r)
  then obtain m p ib pb ie pe where m: "coerce_internal (Given v) = Inr m" and k: "im_signing_key_id m = msk_key_id key"
    and p: "public_manifest (Built m) = Inr p" and ib: "canonicalize_manifest L (InternalInput m) = Inr ib"
    and pb: "canonicalize_manifest L (PublicInput p) = Inr pb"
    and e: "sign_manifest L ib key = Inr ie" "sign_manifest L pb key = Inr pe"
    and r: "r = (\<lparr>sd_manifest = m, sd_canonical = ib, sd_envelope = ie\<rparr>, \<lparr>sd_manifest = p, sd_canonical = pb, sd_envelope = pe\<rparr>)"
    by (auto simp: signed_manifest_pair_def sum_then_Inr split: if_splits)
  from m obtain kvs where kvs: "v = JObj kvs" "construct_internal kvs = Inr m"
    by (auto simp: coerce_internal_def split: json.splits)
  note c = constructed_members [OF kvs(2)]
  from c(3) k have sk: "jget ''signing_key_id'' kvs = JStr (msk_key_id key)" by (simp add: dump_internal_def internal_members_def)
  from constructed_public [OF kvs(2)] p have d: "dump_public p = map (\<lambda>k. (k, jget k kvs)) public_members" by auto
  show ?thesis
    using Inr r kvs(1) c(1,3) construct_dump [OF kvs(2)] d sk ib pb e
    by (auto simp: canonicalize_manifest_def plain_manifest_def sign_manifest_def sum_then_Inr max_canonical_bytes_def
        split: option.splits if_splits)
qed

end
