(* ===== verification/Profiles.thy ===== *)
theory Profiles
  imports Utf8 Floats
begin

text \<open>
  The binary identities of the fingerprint candidates (\<open>splitbind_ref/fingerprint_v2_profile.py\<close>,
  \<open>fingerprint_v3_profile.py\<close>): the fields that seed every tile layout and payload permutation, packed in
  a fixed order.
\<close>

section \<open>\<open>struct.pack\<close>\<close>

datatype packed = U32 int | F64 double

fun pack_value :: "packed \<Rightarrow> exn + bytes" where
  "pack_value (U32 n) = (if 0 \<le> n \<and> n < 2 ^ 32 then Inr (be_bytes 4 (nat n))
     else Inl (StructError ''argument out of range''))"
| "pack_value (F64 d) = Inr (be_bytes 8 (unat d))"

definition struct_pack :: "packed list \<Rightarrow> exn + bytes" where
  "struct_pack vs = sum_then (sum_map pack_value vs) (\<lambda>parts. Inr (concat parts))"

text \<open>Values of the same formats are packed without ambiguity.\<close>

fun same_format :: "packed \<Rightarrow> packed \<Rightarrow> bool" where
  "same_format (U32 _) (U32 _) = True"
| "same_format (F64 _) (F64 _) = True"
| "same_format _ _ = False"

lemma be_bytes_inj: "m < 256 ^ k \<Longrightarrow> n < 256 ^ k \<Longrightarrow> be_bytes k m = be_bytes k n \<longleftrightarrow> m = n"
  by (metis be_nat_bytes)

lemma unat_double: "unat (d :: double) < 256 ^ 8"
  using unsigned_less [of d, where ?'a = nat] by simp

lemma pack_value_length:
  "pack_value v = Inr a \<Longrightarrow> length a = (case v of U32 _ \<Rightarrow> 4 | F64 _ \<Rightarrow> 8)"
  by (cases v) (auto split: if_splits)

lemma pack_value_inj:
  assumes "pack_value v = Inr a" "pack_value w = Inr a" "same_format v w"
  shows "v = w"
proof (cases v)
  case (U32 m)
  then obtain n where w: "w = U32 n" using assms(3) by (cases w) auto
  have "nat m < 256 ^ 4" "nat n < 256 ^ 4" "be_bytes 4 (nat m) = be_bytes 4 (nat n)" "0 \<le> m" "0 \<le> n"
    using assms(1,2) U32 w by (auto simp: nat_less_iff split: if_splits)
  then show ?thesis using U32 w be_bytes_inj [of "nat m" 4 "nat n"] by simp
next
  case (F64 d)
  then obtain e where w: "w = F64 e" using assms(3) by (cases w) auto
  then have "unat d = unat e"
    using assms(1,2) F64 be_bytes_inj [OF unat_double unat_double, of d e] by simp
  then show ?thesis using F64 w by (simp add: word_unat_eq_iff)
qed

lemma same_format_length:
  "same_format v w \<Longrightarrow> pack_value v = Inr a \<Longrightarrow> pack_value w = Inr b \<Longrightarrow> length a = length b"
  by (cases v; cases w) (auto split: if_splits)

lemma struct_pack_Nil [simp]: "struct_pack [] = Inr []"
  by (simp add: struct_pack_def)

lemma struct_pack_Cons:
  "struct_pack (v # vs) = Inr b \<longleftrightarrow> (\<exists>a r. pack_value v = Inr a \<and> struct_pack vs = Inr r \<and> b = a @ r)"
  by (auto simp: struct_pack_def sum_then_Inr)

lemma struct_pack_inj:
  assumes "list_all2 same_format vs ws" "struct_pack vs = Inr a" "struct_pack ws = Inr b" "a @ x = b @ y"
  shows "vs = ws \<and> x = y"
  using assms
proof (induction vs ws arbitrary: a b rule: list_all2_induct)
  case (Cons v vs w ws)
  then obtain p r q s where *: "pack_value v = Inr p" "struct_pack vs = Inr r" "a = p @ r"
    "pack_value w = Inr q" "struct_pack ws = Inr s" "b = q @ s"
    by (auto simp: struct_pack_Cons)
  with Cons.hyps have "length p = length q" by (auto dest: same_format_length)
  with Cons.prems * have "p = q" "r @ x = s @ y" by auto
  with Cons * show ?case by (auto dest: pack_value_inj)
qed simp

lemma struct_pack_length: "list_all2 same_format vs ws \<Longrightarrow> struct_pack vs = Inr a \<Longrightarrow> struct_pack ws = Inr b \<Longrightarrow> length a = length b"
proof (induction vs ws arbitrary: a b rule: list_all2_induct)
  case (Cons v vs w ws)
  then show ?case by (auto simp: struct_pack_Cons dest: same_format_length)
qed simp

section \<open>Version 2\<close>

record fingerprint_v2_profile =
  f2_schema_version :: int
  f2_contract_sha256 :: bytes
  f2_qim_delta :: double
  f2_pilot_strength_rms :: double
  f2_tile_size_px :: int
  f2_tiles_per_page :: int
  f2_payload_repetitions :: int
  f2_bit_replication :: int
  f2_bit_confidence_min :: double
  f2_pilot_score_min :: double

definition v2_fields :: "fingerprint_v2_profile \<Rightarrow> packed list" where
  "v2_fields p = [U32 (f2_schema_version p), F64 (f2_qim_delta p), F64 (f2_pilot_strength_rms p),
     U32 (f2_tile_size_px p), U32 (f2_tiles_per_page p), U32 (f2_payload_repetitions p), U32 (f2_bit_replication p)]"

definition candidate_identifier_v2 :: "fingerprint_v2_profile \<Rightarrow> exn + bytes" where
  "candidate_identifier_v2 p =
     (if length (f2_contract_sha256 p) \<noteq> 32
      then Inl (ValueError ''profile contract_sha256 must contain exactly 32 bytes'')
      else sum_then (struct_pack (v2_fields p)) (\<lambda>fields.
        Inr (ascii ''SBF2'' @ [1] @ f2_contract_sha256 p @ fields)))"

section \<open>Version 3\<close>

record fingerprint_v3_profile =
  f3_schema_version :: int
  f3_contract_sha256 :: bytes
  f3_qim_delta :: double
  f3_pilot_strength_rms :: double
  f3_spread_delta :: double
  f3_spread_chips_per_bit :: int
  f3_saturated_fraction_min :: double
  f3_saturation_low :: int
  f3_saturation_high :: int
  f3_tile_size_px :: int
  f3_tiles_per_page :: int
  f3_payload_repetitions :: int
  f3_bit_replication :: int
  f3_bit_confidence_min :: double
  f3_pilot_score_min :: double
  f3_max_geometry_hypotheses :: int
  f3_geometry_ratio_tolerance :: double
  f3_crop_retained_scales :: "double list"
  f3_resize_interpolation :: string

definition require_real :: "double \<Rightarrow> string \<Rightarrow> exn + rat" where
  "require_real d name = (case double_value d of
     None \<Rightarrow> Inl (ValueError (name @ '' must be a finite real number'')) | Some v \<Rightarrow> Inr v)"

definition require_positive :: "double \<times> string \<Rightarrow> exn + unit" where
  "require_positive = (\<lambda>(d, name). sum_then (require_real d name) (\<lambda>v.
     sum_require (0 < v) (ValueError (name @ '' must be positive''))))"

definition require_count :: "int \<times> string \<Rightarrow> exn + unit" where
  "require_count = (\<lambda>(n, name). sum_require (0 < n) (ValueError (name @ '' must be positive'')))"

definition require_fraction :: "double \<times> string \<Rightarrow> exn + unit" where
  "require_fraction = (\<lambda>(d, name). sum_then (require_real d name) (\<lambda>v.
     sum_require (0 \<le> v \<and> v \<le> 1) (ValueError (name @ '' must be between zero and one''))))"

definition validate_crop_retained_scales :: "double list \<Rightarrow> exn + rat list" where
  "validate_crop_retained_scales ds =
     (if ds = [] then Inl (ValueError ''crop_retained_scales must be a non-empty list of finite real numbers'')
      else sum_then (sum_map (\<lambda>d. require_real d ''crop_retained_scales'') ds) (\<lambda>scales.
        if list_ex (\<lambda>v. v \<le> 0 \<or> v > 1) scales
        then Inl (ValueError ''crop_retained_scales must be in the interval (0, 1]'') else Inr scales))"

definition validate_v3_profile :: "fingerprint_v3_profile \<Rightarrow> exn + unit" where
  "validate_v3_profile p =
     sum_then (sum_require (f3_schema_version p = 3) (ValueError ''profile schema_version must be 3'')) (\<lambda>_.
     sum_then (sum_require (length (f3_contract_sha256 p) = 32)
         (ValueError ''profile contract_sha256 must contain exactly 32 bytes'')) (\<lambda>_.
     sum_then (sum_map require_positive
        [(f3_qim_delta p, ''profile.qim_delta''), (f3_pilot_strength_rms p, ''profile.pilot_strength_rms''),
         (f3_spread_delta p, ''profile.spread_delta''),
         (f3_geometry_ratio_tolerance p, ''profile.geometry_ratio_tolerance'')]) (\<lambda>_.
     sum_then (sum_map require_count
        [(f3_spread_chips_per_bit p, ''profile.spread_chips_per_bit''), (f3_tile_size_px p, ''profile.tile_size_px''),
         (f3_tiles_per_page p, ''profile.tiles_per_page''),
         (f3_payload_repetitions p, ''profile.payload_repetitions''),
         (f3_bit_replication p, ''profile.bit_replication''),
         (f3_max_geometry_hypotheses p, ''profile.max_geometry_hypotheses'')]) (\<lambda>_.
     sum_then (sum_map require_fraction
        [(f3_saturated_fraction_min p, ''profile.saturated_fraction_min''),
         (f3_bit_confidence_min p, ''profile.bit_confidence_min''),
         (f3_pilot_score_min p, ''profile.pilot_score_min'')]) (\<lambda>_.
     sum_then (sum_require (0 \<le> f3_saturation_low p \<and> f3_saturation_low p < 256)
         (ValueError ''profile.saturation_low must be an 8-bit value'')) (\<lambda>_.
     sum_then (sum_require (0 \<le> f3_saturation_high p \<and> f3_saturation_high p < 256)
         (ValueError ''profile.saturation_high must be an 8-bit value'')) (\<lambda>_.
     sum_then (sum_require (f3_saturation_low p < f3_saturation_high p)
         (ValueError ''profile saturation bounds must be ordered'')) (\<lambda>_.
     sum_then (validate_crop_retained_scales (f3_crop_retained_scales p)) (\<lambda>_.
     sum_require (f3_resize_interpolation p \<noteq> [])
         (ValueError ''profile.resize_interpolation must be a non-empty string''))))))))))"

definition v3_fields :: "fingerprint_v3_profile \<Rightarrow> packed list" where
  "v3_fields p = [U32 (f3_schema_version p), F64 (f3_qim_delta p), F64 (f3_pilot_strength_rms p),
     F64 (f3_spread_delta p), U32 (f3_spread_chips_per_bit p), F64 (f3_saturated_fraction_min p),
     U32 (f3_saturation_low p), U32 (f3_saturation_high p), U32 (f3_tile_size_px p), U32 (f3_tiles_per_page p),
     U32 (f3_payload_repetitions p), U32 (f3_bit_replication p), F64 (f3_bit_confidence_min p),
     F64 (f3_pilot_score_min p), U32 (f3_max_geometry_hypotheses p), F64 (f3_geometry_ratio_tolerance p),
     U32 (int (length (f3_crop_retained_scales p)))]"

definition candidate_identifier_v3 :: "fingerprint_v3_profile \<Rightarrow> exn + bytes" where
  "candidate_identifier_v3 p =
     sum_then (validate_v3_profile p) (\<lambda>_.
     let interpolation = utf8_encode (f3_resize_interpolation p)
     in sum_then (struct_pack (v3_fields p)) (\<lambda>fields.
        sum_then (struct_pack (map F64 (f3_crop_retained_scales p))) (\<lambda>scales.
        sum_then (struct_pack [U32 (int (length interpolation))]) (\<lambda>len.
        Inr (ascii ''SBF3'' @ [1] @ f3_contract_sha256 p @ fields @ scales @ len @ interpolation)))))"

lemma utf8_encode_inj: "utf8_encode a = utf8_encode b \<longleftrightarrow> a = b"
  by (metis option.inject utf8_decode_encode)

lemma same_length_formats: "length ds = length es \<Longrightarrow> list_all2 same_format (map F64 ds) (map F64 es)"
  by (simp add: list_all2_conv_all_nth)

lemma candidate_identifier_v3_inj:
  "candidate_identifier_v3 p = Inr b \<Longrightarrow> candidate_identifier_v3 q = Inr b \<Longrightarrow> p = q"
proof -
  assume p: "candidate_identifier_v3 p = Inr b" and q: "candidate_identifier_v3 q = Inr b"
  obtain f s l where fp: "length (f3_contract_sha256 p) = 32" "struct_pack (v3_fields p) = Inr f"
    "struct_pack (map F64 (f3_crop_retained_scales p)) = Inr s"
    "struct_pack [U32 (int (length (utf8_encode (f3_resize_interpolation p))))] = Inr l"
    "b = ascii ''SBF3'' @ [1] @ f3_contract_sha256 p @ f @ s @ l @ utf8_encode (f3_resize_interpolation p)"
    using p by (auto simp: candidate_identifier_v3_def validate_v3_profile_def sum_then_Inr Let_def)
  obtain g t m where fq: "length (f3_contract_sha256 q) = 32" "struct_pack (v3_fields q) = Inr g"
    "struct_pack (map F64 (f3_crop_retained_scales q)) = Inr t"
    "struct_pack [U32 (int (length (utf8_encode (f3_resize_interpolation q))))] = Inr m"
    "b = ascii ''SBF3'' @ [1] @ f3_contract_sha256 q @ g @ t @ m @ utf8_encode (f3_resize_interpolation q)"
    using q by (auto simp: candidate_identifier_v3_def validate_v3_profile_def sum_then_Inr Let_def)
  from fp fq have sha: "f3_contract_sha256 p = f3_contract_sha256 q"
    and rest: "f @ s @ l @ utf8_encode (f3_resize_interpolation p) = g @ t @ m @ utf8_encode (f3_resize_interpolation q)"
    by auto
  have "list_all2 same_format (v3_fields p) (v3_fields q)" by (simp add: v3_fields_def)
  from struct_pack_inj [OF this fp(2) fq(2) rest]
  have fields: "v3_fields p = v3_fields q"
    and rest: "s @ l @ utf8_encode (f3_resize_interpolation p) = t @ m @ utf8_encode (f3_resize_interpolation q)" by auto
  have "length (f3_crop_retained_scales p) = length (f3_crop_retained_scales q)" using fields by (simp add: v3_fields_def)
  from struct_pack_inj [OF same_length_formats [OF this] fp(3) fq(3) rest]
  have scales: "f3_crop_retained_scales p = f3_crop_retained_scales q"
    and rest: "l @ utf8_encode (f3_resize_interpolation p) = m @ utf8_encode (f3_resize_interpolation q)"
    by (auto simp: inj_map_eq_map inj_def)
  from struct_pack_inj [OF _ fp(4) fq(4) rest]
  have "f3_resize_interpolation p = f3_resize_interpolation q" by (simp add: utf8_encode_inj)
  with sha fields scales show "p = q" by (intro fingerprint_v3_profile.equality) (simp_all add: v3_fields_def)
qed

lemma candidate_identifier_v2_inj:
  assumes "candidate_identifier_v2 p = Inr b" "candidate_identifier_v2 q = Inr b"
  shows "f2_contract_sha256 p = f2_contract_sha256 q \<and> v2_fields p = v2_fields q"
proof -
  obtain f g where f: "length (f2_contract_sha256 p) = 32" "struct_pack (v2_fields p) = Inr f"
      "b = ascii ''SBF2'' @ [1] @ f2_contract_sha256 p @ f"
    and g: "length (f2_contract_sha256 q) = 32" "struct_pack (v2_fields q) = Inr g"
      "b = ascii ''SBF2'' @ [1] @ f2_contract_sha256 q @ g"
    using assms by (auto simp: candidate_identifier_v2_def sum_then_Inr split: if_splits)
  then have "f2_contract_sha256 p = f2_contract_sha256 q" "f @ [] = g @ []" by auto
  moreover have "list_all2 same_format (v2_fields p) (v2_fields q)" by (simp add: v2_fields_def)
  ultimately show ?thesis using struct_pack_inj f g by blast
qed

section \<open>Properties\<close>

text \<open>
  Different candidates have different identities: when two version 3 profiles are valid, their identifiers
  are equal exactly when the profiles are equal in every field, the lists and texts of variable length
  included; two version 2 profiles with one identifier agree on every field the identity packs.
\<close>

theorem candidate_identifiers_injective:
  "(case (candidate_identifier_v3 p, candidate_identifier_v3 q) of
      (Inr a, Inr b) \<Rightarrow> (a = b) = (p = q) | _ \<Rightarrow> True)
   \<and> (case (candidate_identifier_v2 u, candidate_identifier_v2 v) of
      (Inr a, Inr b) \<Rightarrow> (a = b) = (f2_contract_sha256 u = f2_contract_sha256 v \<and> v2_fields u = v2_fields v)
    | _ \<Rightarrow> True)"
  using candidate_identifier_v3_inj [of p _ q] candidate_identifier_v2_inj [of u _ v]
  by (auto split: sum.splits simp: candidate_identifier_v2_def sum_then_Inr)

end
