(* ===== verification/Payload.thy ===== *)
theory Payload
  imports PyLib
begin

unbundle bit_operations_syntax

text \<open>
  The payload of the fingerprint (\<open>splitbind_ref/payload.py\<close>): magic, version, issuance and a CRC, in
  the layout of the contract \<open>payload-profile.v1.json\<close>; decoding accepts exactly what encoding
  produces, and no change of a single byte goes unnoticed.
\<close>

section \<open>The contract\<close>

record payload_contract =
  pf_schema_version :: int
  pf_magic :: string
  pf_version_bytes :: nat
  pf_uuid_bytes :: nat
  pf_crc_bytes :: nat
  pf_total_bytes :: nat
  pf_crc_input_bytes :: nat
  pf_parity_symbols :: int
  pf_message_bytes :: nat
  pf_interleave_depth :: int

definition payload_profile :: payload_contract where
  "payload_profile = \<lparr>pf_schema_version = 1, pf_magic = ''SB'', pf_version_bytes = 1, pf_uuid_bytes = 16,
     pf_crc_bytes = 4, pf_total_bytes = 23, pf_crc_input_bytes = 19, pf_parity_symbols = 16,
     pf_message_bytes = 23, pf_interleave_depth = 8\<rparr>"

section \<open>CRC-32\<close>

text \<open>\<open>zlib.crc32\<close>: the reflected polynomial, one bit of the input at a time.\<close>

definition crc_step :: "32 word \<Rightarrow> 32 word" where
  "crc_step c = (if bit c 0 then drop_bit 1 c XOR 0xEDB88320 else drop_bit 1 c)"

definition crc_byte :: "32 word \<Rightarrow> byte \<Rightarrow> 32 word" where
  "crc_byte c b = (crc_step ^^ 8) (c XOR ucast b)"

definition crc32 :: "bytes \<Rightarrow> 32 word" where
  "crc32 bs = foldl crc_byte 0xFFFFFFFF bs XOR 0xFFFFFFFF"

definition crc_bytes :: "bytes \<Rightarrow> bytes" where
  "crc_bytes bs = be_bytes (pf_crc_bytes payload_profile) (unat (crc32 bs))"

section \<open>Encoding and decoding\<close>

record payload_decode =
  pd_issuance_id :: uuid
  pd_version :: int

definition encode_payload :: "uuid \<Rightarrow> int \<Rightarrow> exn + bytes" where
  "encode_payload issuance_id version =
     (if version \<noteq> pf_schema_version payload_profile then Inl (ValueError (''unsupported payload version: '' @ int_text version))
      else
        let body = ascii (pf_magic payload_profile)
              @ be_bytes (pf_version_bytes payload_profile) (nat version) @ uuid_bytes issuance_id
        in Inr (body @ crc_bytes body))"

definition verify_crc :: "bytes \<Rightarrow> bool" where
  "verify_crc payload \<longleftrightarrow> length payload = pf_total_bytes payload_profile
     \<and> crc_bytes (take (pf_crc_input_bytes payload_profile) payload)
       = drop (pf_crc_input_bytes payload_profile) payload"

definition decode_payload :: "bytes \<Rightarrow> exn + payload_decode" where
  "decode_payload encoded =
     (let magic = ascii (pf_magic payload_profile);
          version_end = length magic + pf_version_bytes payload_profile;
          version = int (be_nat (take (pf_version_bytes payload_profile) (drop (length magic) encoded)))
      in if length encoded \<noteq> pf_total_bytes payload_profile then Inl (ValueError (''payload length must be '' @ decimal (pf_total_bytes payload_profile) @ '' bytes''))
         else if \<not> prefix magic encoded then Inl (ValueError ''invalid payload magic'')
         else if version \<noteq> pf_schema_version payload_profile then Inl (ValueError (''unsupported payload version: '' @ int_text version))
         else if \<not> verify_crc encoded then Inl (ValueError ''payload CRC mismatch'')
         else Inr \<lparr>pd_issuance_id = uuid_of_bytes (take (pf_uuid_bytes payload_profile) (drop version_end encoded)),
                   pd_version = version\<rparr>)"

section \<open>The CRC is injective in its state and in each byte\<close>

lemma xor_cancel [simp]:
  fixes a b c :: "'a::len word"
  shows "a XOR c = b XOR c \<longleftrightarrow> a = b" "c XOR a = c XOR b \<longleftrightarrow> a = b"
proof -
  show "a XOR c = b XOR c \<longleftrightarrow> a = b" by (metis xor.assoc xor.right_neutral xor_self_eq)
  then show "c XOR a = c XOR b \<longleftrightarrow> a = b" by (simp add: xor.commute)
qed

lemma bit_poly_31: "bit (0xEDB88320 :: 32 word) 31"
  by (simp add: bit_word_iff_drop_bit_and)

lemma bit_step_31: "bit (crc_step c) 31 = bit c 0"
  by (auto simp: crc_step_def bit_xor_iff bit_drop_bit_eq bit_poly_31 dest: bit_imp_le_length)

lemma crc_step_inj: "crc_step c = crc_step d \<longleftrightarrow> c = d"
proof
  assume eq: "crc_step c = crc_step d"
  then have low: "bit c 0 = bit d 0" using bit_step_31 by metis
  then have "drop_bit 1 c = drop_bit 1 d"
    using eq by (auto simp: crc_step_def split: if_splits)
  then have "bit c (Suc n) = bit d (Suc n)" for n
    by (metis bit_drop_bit_eq comp_apply plus_1_eq_Suc)
  with low show "c = d" by (intro bit_eqI) (metis not0_implies_Suc)
qed simp

lemma crc_steps_inj: "(crc_step ^^ n) c = (crc_step ^^ n) d \<longleftrightarrow> c = d"
  by (induction n) (auto simp: crc_step_inj)

lemma crc_byte_state: "crc_byte c b = crc_byte d b \<longleftrightarrow> c = d"
  by (simp add: crc_byte_def crc_steps_inj)

lemma crc_byte_input: "crc_byte c a = crc_byte c b \<longleftrightarrow> a = b"
proof
  assume "crc_byte c a = crc_byte c b"
  then have "(ucast a :: 32 word) = ucast b" by (simp add: crc_byte_def crc_steps_inj)
  moreover have "unat (ucast x :: 32 word) = unat x" for x :: byte
    using unat_byte_less [of x] by (simp add: unsigned_ucast_eq take_bit_nat_eq_self)
  ultimately show "a = b" by (metis word_unat_eq_iff)
qed simp

lemma foldl_crc_inj: "foldl crc_byte c bs = foldl crc_byte d bs \<longleftrightarrow> c = d"
  by (induction bs arbitrary: c d) (auto simp: crc_byte_state)

text \<open>Changing one byte changes the checksum.\<close>

lemma crc32_update:
  assumes "i < length bs" "b \<noteq> bs ! i"
  shows "crc32 (bs[i := b]) \<noteq> crc32 bs"
proof -
  have "foldl crc_byte c (bs[i := b]) \<noteq> foldl crc_byte c bs" for c
    by (subst (2) id_take_nth_drop [OF assms(1)])
       (simp add: upd_conv_take_nth_drop [OF assms(1)] foldl_crc_inj crc_byte_input assms(2))
  then show ?thesis by (simp add: crc32_def)
qed

lemma crc_bytes_inj: "crc_bytes a = crc_bytes b \<longleftrightarrow> crc32 a = crc32 b"
proof -
  have "unat (c :: 32 word) < 256 ^ 4" for c using unsigned_less [of c, where ?'a = nat] by simp
  then have "be_nat (be_bytes 4 (unat (c :: 32 word))) = unat c" for c by (simp add: be_nat_bytes)
  then show ?thesis by (metis crc_bytes_def payload_contract.select_convs(5) payload_profile_def word_unat_eq_iff)
qed

lemma length_crc_bytes [simp]: "length (crc_bytes bs) = 4"
  by (simp add: crc_bytes_def payload_profile_def)


section \<open>The layout\<close>

lemma encode_shape:
  "encode_payload k v = Inr bs \<longleftrightarrow> v = 1 \<and>
     bs = ascii ''SB'' @ [1] @ uuid_bytes k @ crc_bytes (ascii ''SB'' @ [1] @ uuid_bytes k)"
  by (auto simp: encode_payload_def payload_profile_def Let_def)

lemma decode_shape:
  assumes "length u = 16" "length c = 4"
  shows "decode_payload (ascii ''SB'' @ [x] @ u @ c) = Inr d \<longleftrightarrow>
     x = 1 \<and> crc_bytes (ascii ''SB'' @ [x] @ u) = c \<and> d = \<lparr>pd_issuance_id = uuid_of_bytes u, pd_version = 1\<rparr>"
proof -
  have x: "be_nat [x] = 1 \<longleftrightarrow> x = 1" using be_nat_snoc [of "[]" x] by (simp add: word_unat_eq_iff)
  have m: "ascii ''SB'' = [0x53, 0x42]" by (simp add: ascii_def)
  show ?thesis
    using assms x by (auto simp: decode_payload_def verify_crc_def payload_profile_def Let_def m)
qed

lemma decoded_layout:
  assumes "decode_payload bs = Inr d"
  shows "\<exists>x u c. bs = ascii ''SB'' @ [x] @ u @ c \<and> length u = 16 \<and> length c = 4"
proof -
  from assms have l: "length bs = 23" and "prefix (ascii ''SB'') bs"
    by (auto simp: decode_payload_def payload_profile_def Let_def split: if_splits)
  then obtain r where r: "bs = ascii ''SB'' @ r" by (auto elim: prefixE)
  with l obtain x s where "r = x # s" "length s = 20" by (cases r) auto
  then have "bs = ascii ''SB'' @ [x] @ take 16 s @ drop 16 s \<and> length (take 16 s) = 16 \<and> length (drop 16 s) = 4"
    by (simp add: r)
  then show ?thesis by blast
qed

section \<open>Properties\<close>

text \<open>
  Payloads round-trip: encoding an issuance succeeds for the version of the contract only and decoding
  gives it back, and decoding accepts a byte string exactly when it is the encoding of what it returns.
\<close>

theorem payload_roundtrip:
  "(decode_payload bs = Inr d) = (pd_version d = 1 \<and> encode_payload (pd_issuance_id d) (pd_version d) = Inr bs)"
proof
  assume d: "decode_payload bs = Inr d"
  then obtain x u c where bs: "bs = ascii ''SB'' @ [x] @ u @ c" "length u = 16" "length c = 4"
    using decoded_layout by blast
  with d have "x = 1" "crc_bytes (ascii ''SB'' @ [x] @ u) = c" "d = \<lparr>pd_issuance_id = uuid_of_bytes u, pd_version = 1\<rparr>"
    using decode_shape by blast+
  then show "pd_version d = 1 \<and> encode_payload (pd_issuance_id d) (pd_version d) = Inr bs"
    unfolding encode_shape using bs by (simp add: uuid_bytes_of_bytes)
next
  assume e: "pd_version d = 1 \<and> encode_payload (pd_issuance_id d) (pd_version d) = Inr bs"
  then have bs: "bs = ascii ''SB'' @ [1] @ uuid_bytes (pd_issuance_id d)
      @ crc_bytes (ascii ''SB'' @ [1] @ uuid_bytes (pd_issuance_id d))"
    by (simp only: encode_shape)
  show "decode_payload bs = Inr d"
    unfolding bs by (subst decode_shape) (use e in simp_all)
qed

text \<open>
  C26. No corruption of a single byte goes unnoticed: decoding refuses an encoded payload with one byte changed,
  wherever the byte is.
\<close>

theorem payload_detects_corruption:
  assumes "encode_payload k v = Inr bs" "i < 23" "b \<noteq> bs ! i"
  shows "\<exists>e. decode_payload (bs[i := b]) = Inl e"
proof -
  obtain body where bs: "bs = body @ crc_bytes body" and l: "length body = 19"
    using assms(1) unfolding encode_shape
    by (intro that [of "ascii ''SB'' @ [1] @ uuid_bytes k"]) simp_all
  have "\<not> verify_crc (bs[i := b])"
  proof (cases "i < 19")
    case True
    then have "bs[i := b] = body[i := b] @ crc_bytes body" by (simp add: bs l list_update_append1)
    moreover have "crc_bytes (body[i := b]) \<noteq> crc_bytes body"
      unfolding crc_bytes_inj by (rule crc32_update) (use True l assms(3) in \<open>auto simp: bs nth_append\<close>)
    ultimately show ?thesis by (simp add: verify_crc_def payload_profile_def l)
  next
    case False
    then have "bs[i := b] = body @ (crc_bytes body)[i - 19 := b]" by (simp add: bs l list_update_append)
    moreover have "(crc_bytes body)[i - 19 := b] \<noteq> crc_bytes body"
      using False assms by (simp add: bs l nth_append list_update_same_conv)
    ultimately show ?thesis by (simp add: verify_crc_def payload_profile_def l)
  qed
  then show ?thesis by (auto simp: decode_payload_def payload_profile_def Let_def)
qed

end
