(* ===== verification/Ecc.thy ===== *)
theory Ecc
  imports Payload
begin

text \<open>
  Framing of the payload (\<open>splitbind_ref/ecc.py\<close>): the byte interleaving, the erasure ladder and the
  Reed-Solomon codec behind them. The codec is the library \<open>reedsolo\<close> and a parameter.
\<close>

section \<open>Strided slices\<close>

text \<open>\<open>range(start, n, step)\<close> for a positive step, and \<open>data[offset::depth]\<close>.\<close>

definition py_range :: "nat \<Rightarrow> nat \<Rightarrow> nat \<Rightarrow> nat list" where
  "py_range start n step = map (\<lambda>k. start + k * step) [0..<(n - start + step - 1) div step]"

definition strided :: "'a list \<Rightarrow> nat \<Rightarrow> nat \<Rightarrow> 'a list" where
  "strided data offset depth = map ((!) data) (py_range offset (length data) depth)"

text \<open>\<open>data[offset::depth] = values\<close> for a slice of the same length.\<close>

fun write_at :: "'a list \<Rightarrow> nat list \<Rightarrow> 'a list \<Rightarrow> 'a list" where
  "write_at data (i # ps) (v # vs) = write_at (data[i := v]) ps vs"
| "write_at data _ _ = data"

lemma set_py_range: "0 < step \<Longrightarrow> i \<in> set (py_range start n step) \<longleftrightarrow> start \<le> i \<and> i < n \<and> step dvd (i - start)"
proof (safe, goal_cases)
  case 1
  then show ?case by (auto simp: py_range_def)
next
  case 2
  then obtain k where k: "i = start + k * step" "k < (n - start + step - 1) div step" by (auto simp: py_range_def)
  then have "k * step + step \<le> n - start + step - 1"
    by (metis Suc_leI add.commute div_times_less_eq_dividend le_trans mult_Suc mult_le_mono1)
  then show ?case using k 2 by simp
next
  case 3
  then show ?case by (auto simp: py_range_def)
next
  case 4
  then obtain k where k: "i - start = k * step" by (metis dvd_div_mult_self)
  have "k * step + step \<le> n - start + step - 1" using 4 k by simp
  then have "k < (n - start + step - 1) div step"
    using 4 by (metis Suc_le_eq add.commute div_le_mono mult_Suc nonzero_mult_div_cancel_right not_less0)
  moreover have "i = start + k * step" using 4 k by simp
  ultimately show ?case by (auto simp: py_range_def)
qed

lemma distinct_py_range: "0 < step \<Longrightarrow> distinct (py_range start n step)"
  by (auto simp: py_range_def distinct_map inj_on_def)

section \<open>Interleaving\<close>

definition interleave :: "'a list \<Rightarrow> int \<Rightarrow> exn + 'a list" where
  "interleave data depth =
     (if depth \<le> 0 then Inl (ValueError ''interleave depth must be positive'')
      else Inr (concat (map (\<lambda>offset. strided data offset (nat depth)) [0..<nat depth])))"

fun restore_lanes :: "bytes \<Rightarrow> nat \<Rightarrow> nat list \<Rightarrow> nat \<Rightarrow> bytes \<Rightarrow> bytes" where
  "restore_lanes data depth [] cursor restored = restored"
| "restore_lanes data depth (offset # offsets) cursor restored =
     (let lane = py_range offset (length data) depth
      in restore_lanes data depth offsets (cursor + length lane)
           (write_at restored lane (take (length lane) (drop cursor data))))"

definition deinterleave :: "bytes \<Rightarrow> int \<Rightarrow> exn + bytes" where
  "deinterleave data depth =
     (if depth \<le> 0 then Inl (ValueError ''interleave depth must be positive'')
      else Inr (restore_lanes data (nat depth) [0..<nat depth] 0 (replicate (length data) 0)))"

text \<open>Where each byte of the interleaved text comes from.\<close>

definition lane_positions :: "nat \<Rightarrow> nat \<Rightarrow> nat list" where
  "lane_positions n depth = concat (map (\<lambda>offset. py_range offset n depth) [0..<depth])"

lemma lane_mod: "0 < d \<Longrightarrow> off < d \<Longrightarrow> i \<in> set (py_range off n d) \<longleftrightarrow> i < n \<and> i mod d = off"
proof -
  assume d: "0 < d" "off < d"
  have "off \<le> i \<and> d dvd (i - off) \<longleftrightarrow> i mod d = off"
    by (metis d(2) mod_eq_dvd_iff_nat mod_less mod_less_eq_dividend)
  then show ?thesis using set_py_range [OF d(1), of i off n] by auto
qed

lemma set_lane_positions: "0 < d \<Longrightarrow> set (lane_positions n d) = {..<n}"
  by (auto simp: lane_positions_def lane_mod intro: exI [of _ "_ mod d"])

lemma distinct_lanes: "k \<le> d \<Longrightarrow> 0 < d \<Longrightarrow> distinct (concat (map (\<lambda>off. py_range off n d) [0..<k]))"
proof (induction k)
  case (Suc k)
  then show ?case by (auto simp: distinct_py_range lane_mod)
qed simp

lemma lane_positions_perm:
  assumes "0 < d"
  shows "distinct (lane_positions n d)" "length (lane_positions n d) = n"
proof -
  show dist: "distinct (lane_positions n d)" unfolding lane_positions_def by (rule distinct_lanes) (use assms in auto)
  show "length (lane_positions n d) = n"
    using distinct_card [OF dist] set_lane_positions [OF assms] by simp
qed

lemma interleave_positions: "0 < d \<Longrightarrow> interleave data (int d) = Inr (map ((!) data) (lane_positions (length data) d))"
  by (simp add: interleave_def lane_positions_def strided_def map_concat comp_def)

lemma length_write_at [simp]: "length (write_at r ps vs) = length r"
  by (induction r ps vs rule: write_at.induct) auto

lemma write_at_append:
  "length p \<le> length vs \<Longrightarrow>
     write_at (write_at r p (take (length p) vs)) q (drop (length p) vs) = write_at r (p @ q) vs"
proof (induction p arbitrary: r vs)
  case (Cons i p)
  then show ?case by (cases vs) auto
qed simp

lemma write_at_other: "i \<notin> set ps \<Longrightarrow> write_at r ps vs ! i = r ! i"
  by (induction r ps vs rule: write_at.induct) auto

lemma write_at_nth:
  "distinct ps \<Longrightarrow> length ps = length vs \<Longrightarrow> set ps \<subseteq> {..<length r} \<Longrightarrow> k < length ps \<Longrightarrow>
     write_at r ps vs ! (ps ! k) = vs ! k"
proof (induction r ps vs arbitrary: k rule: write_at.induct)
  case (1 data i ps v vs)
  then show ?case by (cases k) (auto simp: write_at_other)
qed auto

lemma restore_lanes_positions:
  "restore_lanes data d offs cursor r =
     write_at r (concat (map (\<lambda>off. py_range off (length data) d) offs)) (drop cursor data)"
  if "cursor + length (concat (map (\<lambda>off. py_range off (length data) d) offs)) \<le> length data"
  using that
proof (induction offs arbitrary: cursor r)
  case (Cons off offs)
  then show ?case
    by (simp add: Let_def) (subst write_at_append [symmetric]; simp add: add.commute)
qed (cases "drop cursor data"; simp)

lemma deinterleave_positions:
  "0 < d \<Longrightarrow> deinterleave data (int d) = Inr (write_at (replicate (length data) 0) (lane_positions (length data) d) data)"
  using restore_lanes_positions [of 0 data d "[0..<d]"] lane_positions_perm [of d "length data"]
  by (simp add: deinterleave_def lane_positions_def)

lemma deinterleave_nth:
  assumes "0 < d" "k < length data"
  shows "write_at (replicate (length data) 0) (lane_positions (length data) d) data ! (lane_positions (length data) d ! k) = data ! k"
  by (rule write_at_nth) (use assms in \<open>simp_all add: lane_positions_perm set_lane_positions\<close>)

lemma interleave_inverse:
  assumes "0 < d"
  shows "map ((!) data) (lane_positions (length data) d) = ys \<longleftrightarrow>
    write_at (replicate (length ys) 0) (lane_positions (length ys) d) ys = (data :: bytes)"
proof
  let ?P = "\<lambda>n. lane_positions n d"
  note perm = lane_positions_perm [OF assms] set_lane_positions [OF assms]
  show "write_at (replicate (length ys) 0) (?P (length ys)) ys = data" if "map ((!) data) (?P (length data)) = ys"
  proof (rule nth_equalityI)
    show len: "length (write_at (replicate (length ys) 0) (?P (length ys)) ys) = length data"
      using that perm by auto
    fix i assume i: "i < length (write_at (replicate (length ys) 0) (?P (length ys)) ys)"
    then have "i \<in> set (?P (length data))" using len perm by simp
    then obtain k where k: "k < length data" "?P (length data) ! k = i" using perm by (metis in_set_conv_nth)
    then have "write_at (replicate (length ys) 0) (?P (length ys)) ys ! i = ys ! k"
      using deinterleave_nth [OF assms, of k ys] len by simp
    then show "write_at (replicate (length ys) 0) (?P (length ys)) ys ! i = data ! i"
      using that k perm by auto
  qed
  show "map ((!) data) (?P (length data)) = ys" if "write_at (replicate (length ys) 0) (?P (length ys)) ys = data"
  proof (rule nth_equalityI)
    show "length (map ((!) data) (?P (length data))) = length ys" using that perm by auto
    fix k assume "k < length (map ((!) data) (?P (length data)))"
    then have "k < length ys" using that perm by auto
    then show "map ((!) data) (?P (length data)) ! k = ys ! k"
      using deinterleave_nth [OF assms, of k ys] that perm by auto
  qed
qed

lemma interleave_iff: "(interleave data depth = Inr ys) = (deinterleave ys depth = Inr (data :: bytes))"
proof (cases "0 < depth")
  case True
  then obtain d where d: "depth = int d" "0 < d" by (metis pos_int_cases)
  then show ?thesis using interleave_inverse [of d data ys] by (simp add: interleave_positions deinterleave_positions)
qed (simp add: interleave_def deinterleave_def)

section \<open>The codec\<close>

text \<open>
  \<open>RSCodec.encode\<close> and \<open>RSCodec.decode\<close> for a number of parity symbols; \<open>None\<close> is a
  \<open>ReedSolomonError\<close>.
\<close>

record rs_codec =
  rs_encode :: "int \<Rightarrow> bytes \<Rightarrow> bytes"
  rs_decode :: "int \<Rightarrow> bytes \<Rightarrow> nat list \<Rightarrow> bytes option"

text \<open>
  For a message of the contracted 23 bytes, which with its parity fits one codeword of the field, the codec appends
  its parity symbols and reads the intact codeword back.
\<close>

definition codec_reads_back :: "rs_codec \<Rightarrow> int \<Rightarrow> bool" where
  "codec_reads_back C n \<longleftrightarrow> (\<forall>m. length m = pf_message_bytes payload_profile \<longrightarrow>
     length (rs_encode C n m) = length m + nat n \<and> rs_decode C n (rs_encode C n m) [] = Some m)"

definition validate_parity_symbols :: "int \<Rightarrow> int \<Rightarrow> exn + unit" where
  "validate_parity_symbols parity contracted = (if parity \<noteq> contracted
     then Inl (ValueError (''parity_symbols must be '' @ int_text contracted @ '' for the frozen payload contract'')) else Inr ())"

definition encode_ecc :: "rs_codec \<Rightarrow> bytes \<Rightarrow> int \<Rightarrow> exn + bytes" where
  "encode_ecc C payload parity =
     (if length payload \<noteq> pf_message_bytes payload_profile
      then Inl (ValueError (''Reed-Solomon payload must be '' @ decimal (pf_message_bytes payload_profile) @ '' bytes''))
      else sum_then (validate_parity_symbols parity (pf_parity_symbols payload_profile)) (\<lambda>_.
        interleave (rs_encode C parity payload) (pf_interleave_depth payload_profile)))"

definition decoded_message :: "bytes option \<Rightarrow> exn + bytes" where
  "decoded_message found = (case found of
     None \<Rightarrow> Inl (EccDecodeError ''Reed-Solomon codeword exceeds correction capacity'')
   | Some m \<Rightarrow> if length m \<noteq> pf_message_bytes payload_profile
       then Inl (EccDecodeError ''Reed-Solomon decoder returned an invalid payload length'') else Inr m)"

definition checked_codeword :: "bytes \<Rightarrow> int \<Rightarrow> exn + nat" where
  "checked_codeword codeword parity =
     sum_then (validate_parity_symbols parity (pf_parity_symbols payload_profile)) (\<lambda>_.
     let expected = pf_message_bytes payload_profile + nat parity
     in if length codeword \<noteq> expected
        then Inl (ValueError (''Reed-Solomon codeword must be '' @ decimal expected @ '' bytes'')) else Inr expected)"

definition decode_ecc :: "rs_codec \<Rightarrow> bytes \<Rightarrow> int \<Rightarrow> exn + bytes" where
  "decode_ecc C codeword parity =
     sum_then (checked_codeword codeword parity) (\<lambda>_.
     sum_then (deinterleave codeword (pf_interleave_depth payload_profile)) (\<lambda>raw.
     decoded_message (rs_decode C parity raw [])))"

definition validate_erase_positions :: "int list \<Rightarrow> nat \<Rightarrow> exn + int list" where
  "validate_erase_positions positions expected =
     (if list_ex (\<lambda>p. \<not> (0 \<le> p \<and> p < int expected)) positions
      then Inl (ValueError ''erase_positions must be valid codeword byte indices'')
      else if \<not> distinct positions then Inl (ValueError ''erase_positions must not contain duplicates'')
      else Inr positions)"

definition decode_ecc_with_erasures :: "rs_codec \<Rightarrow> bytes \<Rightarrow> int list \<Rightarrow> int \<Rightarrow> exn + bytes" where
  "decode_ecc_with_erasures C codeword erase_positions parity =
     sum_then (checked_codeword codeword parity) (\<lambda>expected.
     sum_then (validate_erase_positions erase_positions expected) (\<lambda>positions.
     if int (length positions) > parity then Inl (EccDecodeError ''Reed-Solomon erasures exceed correction capacity'')
     else
       sum_then (deinterleave codeword (pf_interleave_depth payload_profile)) (\<lambda>raw.
       sum_then (interleave [0..<expected] (pf_interleave_depth payload_profile)) (\<lambda>raw_index.
       decoded_message (rs_decode C parity raw (map (\<lambda>p. raw_index ! nat p) positions))))))"

section \<open>Erasures\<close>

definition erasure_budget :: nat where
  "erasure_budget = nat (pf_parity_symbols payload_profile)"

text \<open>\<open>np.lexsort\<close> by confidence, then by position.\<close>

definition rank_erasure_candidates :: "'c::linorder list \<Rightarrow> nat list" where
  "rank_erasure_candidates confidence = sort_key ((!) confidence) [0..<length confidence]"

fun halving_counts :: "nat \<Rightarrow> nat list" where
  "halving_counts n = (if n = 0 then [0] else n # halving_counts (n div 2))"

declare halving_counts.simps [simp del]

definition erasure_ladder :: "int list \<Rightarrow> int list \<Rightarrow> int list list" where
  "erasure_ladder erase_positions ranking =
     (let attempts = erase_positions # map (\<lambda>n. sort (take n ranking))
            (filter (\<lambda>n. n \<le> length ranking) (halving_counts erasure_budget))
      in rev (remdups (rev attempts)))"

lemma halving_counts_bound: "n \<in> set (halving_counts b) \<Longrightarrow> n \<le> b"
  by (induction b rule: halving_counts.induct) (fastforce simp: halving_counts.simps [of b for b] split: if_splits)

lemma halving_counts_zero: "0 \<in> set (halving_counts b)"
  by (induction b rule: halving_counts.induct) (subst halving_counts.simps, auto)

lemma hd_rev_remdups: "hd (rev (remdups (rev (x # xs)))) = x"
  by (induction xs rule: rev_induct) (auto simp: hd_append)

lemma payload_contract_simps:
  "pf_message_bytes payload_profile = 23" "pf_parity_symbols payload_profile = 16"
  "pf_interleave_depth payload_profile = int 8" "erasure_budget = 16"
  by (simp_all add: payload_profile_def erasure_budget_def)

lemma validate_parity_Inr [simp]: "validate_parity_symbols p c = Inr u \<longleftrightarrow> p = c"
  by (simp add: validate_parity_symbols_def)

lemma checked_codeword_Inr: "checked_codeword w p = Inr n \<longleftrightarrow> p = 16 \<and> length w = 39 \<and> n = 39"
  by (auto simp: checked_codeword_def sum_then_Inr payload_contract_simps Let_def)

lemma decoded_message_Inr: "decoded_message r = Inr m \<longleftrightarrow> r = Some m \<and> length m = 23"
  by (auto simp: decoded_message_def payload_contract_simps split: option.splits if_splits)

section \<open>Properties\<close>

text \<open>
  Interleaving and deinterleaving are inverse to each other for every depth and length, ragged rows
  included; both refuse a depth that is not positive.
\<close>

theorem interleave_roundtrip:
  "(interleave data depth = Inr ys) = (deinterleave ys depth = Inr data)"
  by (rule interleave_iff)

text \<open>
  Every payload that is framed is read back: with a codec that reads an intact codeword back, the framed
  codeword has 39 bytes and both decoders return the payload.
\<close>

theorem ecc_roundtrip:
  assumes "codec_reads_back C 16" "encode_ecc C m parity = Inr w"
  shows "length w = 39 \<and> decode_ecc C w parity = Inr m \<and> decode_ecc_with_erasures C w [] parity = Inr m"
proof -
  from assms(2) have m: "length m = 23" "parity = 16" and w: "interleave (rs_encode C 16 m) (int 8) = Inr w"
    by (auto simp: encode_ecc_def sum_then_Inr payload_contract_simps split: if_splits)
  from w have raw: "deinterleave w (int 8) = Inr (rs_encode C 16 m)" by (simp only: interleave_iff)
  have intact: "length (rs_encode C 16 m) = 39" "rs_decode C 16 (rs_encode C 16 m) [] = Some m"
    using assms(1) m by (auto simp: codec_reads_back_def payload_contract_simps)
  have index: "\<exists>x. interleave [0..<39] 8 = Inr x" by (simp add: interleave_def)
  have "length w = 39" using w intact interleave_positions [of 8 "rs_encode C 16 m"] by (auto simp: lane_positions_perm)
  then show ?thesis
    using m raw intact index
    by (auto simp: decode_ecc_def decode_ecc_with_erasures_def sum_then_Inr checked_codeword_Inr
        decoded_message_Inr payload_contract_simps validate_erase_positions_def interleave_positions)
qed

text \<open>
  The erasures a receiver declares reach their own bytes: when decoding succeeds, the codec was given the
  deinterleaved codeword and one position for each declared one, all different and at most sixteen,
  at which the deinterleaved codeword holds the declared byte.
\<close>

theorem erasures_reach_their_bytes:
  "case decode_ecc_with_erasures C w ps parity of Inl _ \<Rightarrow> True | Inr m \<Rightarrow>
     (\<exists>raw rs. deinterleave w 8 = Inr raw \<and> rs_decode C parity raw rs = Some m \<and> distinct rs
        \<and> list_all2 (\<lambda>p r. r < 39 \<and> raw ! r = w ! nat p) ps rs \<and> length ps \<le> 16)"
proof (cases "decode_ecc_with_erasures C w ps parity")
  case (Inr m)
  then obtain raw idx where raw: "deinterleave w (int 8) = Inr raw" and idx: "interleave [0..<39] (int 8) = Inr idx"
    and v: "validate_erase_positions ps 39 = Inr ps" and w: "length w = 39" "parity = 16" "length ps \<le> 16"
    and m: "rs_decode C parity raw (map (\<lambda>p. idx ! nat p) ps) = Some m"
    by (auto simp: decode_ecc_with_erasures_def sum_then_Inr checked_codeword_Inr decoded_message_Inr
        payload_contract_simps validate_erase_positions_def split: if_splits)
  let ?P = "lane_positions 39 8"
  have P: "idx = map ((!) [0..<39]) ?P" using idx interleave_positions [of 8 "[0..<39]"] by simp
  have perm: "distinct ?P" "length ?P = 39" "set ?P = {..<39}"
    by (simp_all add: lane_positions_perm set_lane_positions)
  have "map ((!) [0..<39]) ?P = ?P" by (rule map_idI) (use perm in auto)
  with P have P: "idx = ?P" by simp
  have restored: "raw = write_at (replicate 39 0) ?P w" using raw deinterleave_positions [of 8 w] w by simp
  have r: "raw ! (idx ! k) = w ! k" "idx ! k < 39" if "k < 39" for k
  proof -
    show "raw ! (idx ! k) = w ! k" using deinterleave_nth [of 8 k w] that w by (simp add: restored P)
    show "idx ! k < 39" using perm that by (metis P lessThan_iff nth_mem)
  qed
  have ps: "distinct ps" "\<And>p. p \<in> set ps \<Longrightarrow> 0 \<le> p \<and> p < 39"
    using v by (auto simp: validate_erase_positions_def list_ex_iff split: if_splits)
  have "idx ! nat p = idx ! nat q \<longleftrightarrow> p = q" if "p \<in> set ps" "q \<in> set ps" for p q
    using ps(2) [OF that(1)] ps(2) [OF that(2)] nth_eq_iff_index_eq [OF perm(1), of "nat p" "nat q"] perm(2)
    by (simp add: P nat_less_iff eq_nat_nat_iff)
  then have "distinct (map (\<lambda>p. idx ! nat p) ps)" using ps(1) by (auto simp: distinct_map inj_on_def)
  moreover have "list_all2 (\<lambda>p r. r < 39 \<and> raw ! r = w ! nat p) ps (map (\<lambda>p. idx ! nat p) ps)"
    using ps(2) r by (auto simp: list_all2_conv_all_nth nat_less_iff)
  ultimately show ?thesis using Inr raw m w by auto
qed simp

text \<open>
  The erasure ladder tries the receiver's own claim first and never the same set twice; every other
  attempt lies within the budget of sixteen and takes its positions from the ranking, and the last
  resort, no erasure at all, is always among them.
\<close>

theorem erasure_ladder_attempts:
  "hd (erasure_ladder claim ranking) = claim \<and> distinct (erasure_ladder claim ranking)
   \<and> [] \<in> set (erasure_ladder claim ranking)
   \<and> list_all (\<lambda>a. a = claim \<or> (length a \<le> 16 \<and> set a \<subseteq> set ranking)) (erasure_ladder claim ranking)"
proof -
  let ?more = "map (\<lambda>n. sort (take n ranking)) (filter (\<lambda>n. n \<le> length ranking) (halving_counts erasure_budget))"
  have l: "erasure_ladder claim ranking = rev (remdups (rev (claim # ?more)))" by (simp add: erasure_ladder_def Let_def)
  have "[] \<in> set ?more"
    using halving_counts_zero [of erasure_budget] by (force simp: image_iff)
  moreover have "length a \<le> 16 \<and> set a \<subseteq> set ranking" if "a \<in> set ?more" for a
    using that halving_counts_bound [of _ 16] by (auto simp: payload_contract_simps dest: in_set_takeD)
  ultimately show ?thesis unfolding l hd_rev_remdups by (auto simp: list_all_iff)
qed

end
