(* ===== verification/Doubles.thy ===== *)
theory Doubles
  imports Floats "HOL-Library.Log_Nat"
begin

text \<open>
  Arithmetic on Python floats: the exact result rounded to the nearest double, ties to the even one, or
  an infinity when it is out of range. The two zeros are one value here; no function of the model
  looks at the sign of a zero.
\<close>

section \<open>Rounding\<close>

text \<open>The exponent of a rational: the power of two at or below its magnitude.\<close>

definition binary_exponent :: "rat \<Rightarrow> int" where
  "binary_exponent q =
     (let (n, d) = quotient_of \<bar>q\<bar>; e = int (floorlog 2 (nat n)) - int (floorlog 2 (nat d))
      in if 2 powi e \<le> \<bar>q\<bar> then e else e - 1)"

text \<open>The distance of two doubles of that magnitude; below \<open>2 ^ -1022\<close> they are subnormal.\<close>

definition spacing :: "rat \<Rightarrow> rat" where
  "spacing q = 2 powi (max (binary_exponent q) (- 1022) - 52)"

definition round_double :: "rat \<Rightarrow> rat" where
  "round_double q = (if q = 0 then 0 else of_int (round_half_even (q / spacing q)) * spacing q)"

section \<open>Floats\<close>

datatype pyfloat = Fin rat | PosInf | NegInf | NotANumber

definition to_double :: "rat \<Rightarrow> pyfloat" where
  "to_double q = (let r = round_double q in
     if 2 ^ 1024 \<le> r then PosInf else if r \<le> - (2 ^ 1024) then NegInf else Fin r)"

definition py_float :: "double \<Rightarrow> pyfloat" where
  "py_float d = (case double_value d of
     Some v \<Rightarrow> Fin v
   | None \<Rightarrow> if take_bit 52 d \<noteq> 0 then NotANumber else if bit d 63 then NegInf else PosInf)"

fun f_isfinite :: "pyfloat \<Rightarrow> bool" where
  "f_isfinite (Fin _) = True"
| "f_isfinite _ = False"

fun f_neg :: "pyfloat \<Rightarrow> pyfloat" where
  "f_neg (Fin x) = Fin (- x)"
| "f_neg PosInf = NegInf"
| "f_neg NegInf = PosInf"
| "f_neg NotANumber = NotANumber"

fun f_abs :: "pyfloat \<Rightarrow> pyfloat" where
  "f_abs (Fin x) = Fin \<bar>x\<bar>"
| "f_abs NotANumber = NotANumber"
| "f_abs _ = PosInf"

fun f_add :: "pyfloat \<Rightarrow> pyfloat \<Rightarrow> pyfloat" where
  "f_add (Fin x) (Fin y) = to_double (x + y)"
| "f_add NotANumber _ = NotANumber"
| "f_add _ NotANumber = NotANumber"
| "f_add PosInf NegInf = NotANumber"
| "f_add NegInf PosInf = NotANumber"
| "f_add PosInf _ = PosInf"
| "f_add NegInf _ = NegInf"
| "f_add (Fin _) y = y"

definition f_sub :: "pyfloat \<Rightarrow> pyfloat \<Rightarrow> pyfloat" where
  "f_sub x y = f_add x (f_neg y)"

text \<open>The sign of a float: what an infinity times it is.\<close>

definition signed_infinity :: "rat \<Rightarrow> pyfloat" where
  "signed_infinity s = (if s = 0 then NotANumber else if 0 < s then PosInf else NegInf)"

fun f_sign :: "pyfloat \<Rightarrow> rat" where
  "f_sign (Fin x) = sgn x"
| "f_sign PosInf = 1"
| "f_sign NegInf = - 1"
| "f_sign NotANumber = 0"

fun f_mul :: "pyfloat \<Rightarrow> pyfloat \<Rightarrow> pyfloat" where
  "f_mul (Fin x) (Fin y) = to_double (x * y)"
| "f_mul x y = signed_infinity (f_sign x * f_sign y)"

fun f_div :: "pyfloat \<Rightarrow> pyfloat \<Rightarrow> exn + pyfloat" where
  "f_div (Fin x) (Fin y) = (if y = 0 then Inl (ZeroDivisionError ''float division by zero'') else Inr (to_double (x / y)))"
| "f_div NotANumber (Fin y) = (if y = 0 then Inl (ZeroDivisionError ''float division by zero'') else Inr NotANumber)"
| "f_div x (Fin y) = (if y = 0 then Inl (ZeroDivisionError ''float division by zero'') else Inr (signed_infinity (f_sign x * sgn y)))"
| "f_div (Fin _) NotANumber = Inr NotANumber"
| "f_div (Fin _) _ = Inr (Fin 0)"
| "f_div _ _ = Inr NotANumber"

text \<open>Comparisons are false when an operand is not a number.\<close>

fun f_less :: "pyfloat \<Rightarrow> pyfloat \<Rightarrow> bool" where
  "f_less (Fin x) (Fin y) = (x < y)"
| "f_less NotANumber _ = False"
| "f_less _ NotANumber = False"
| "f_less NegInf y = (y \<noteq> NegInf)"
| "f_less PosInf _ = False"
| "f_less (Fin _) y = (y = PosInf)"

fun f_eq :: "pyfloat \<Rightarrow> pyfloat \<Rightarrow> bool" where
  "f_eq NotANumber _ = False"
| "f_eq x y = (x = y)"

definition f_le :: "pyfloat \<Rightarrow> pyfloat \<Rightarrow> bool" where
  "f_le x y \<longleftrightarrow> f_less x y \<or> f_eq x y"

text \<open>\<open>max(x, y)\<close> and \<open>min(x, y)\<close> return their first argument unless the second is beyond it.\<close>

definition f_max :: "pyfloat \<Rightarrow> pyfloat \<Rightarrow> pyfloat" where
  "f_max x y = (if f_less x y then y else x)"

definition f_min :: "pyfloat \<Rightarrow> pyfloat \<Rightarrow> pyfloat" where
  "f_min x y = (if f_less y x then y else x)"

text \<open>\<open>float(n)\<close>, also the implicit conversion of an integer operand, and \<open>round(x)\<close>.\<close>

definition f_of_int :: "int \<Rightarrow> exn + pyfloat" where
  "f_of_int n = (case to_double (of_int n) of
     Fin r \<Rightarrow> Inr (Fin r) | _ \<Rightarrow> Inl (OverflowError ''int too large to convert to float''))"

fun f_round :: "pyfloat \<Rightarrow> exn + int" where
  "f_round (Fin x) = Inr (round_half_even x)"
| "f_round NotANumber = Inl (ValueError ''cannot convert float NaN to integer'')"
| "f_round _ = Inl (OverflowError ''cannot convert float infinity to integer'')"

text \<open>The order in which numpy sorts floats: a value that is not a number comes last.\<close>

instantiation pyfloat :: linorder
begin

fun less_eq_pyfloat :: "pyfloat \<Rightarrow> pyfloat \<Rightarrow> bool" where
  "less_eq_pyfloat NegInf _ = True"
| "less_eq_pyfloat (Fin x) (Fin y) = (x \<le> y)"
| "less_eq_pyfloat (Fin _) y = (y \<noteq> NegInf)"
| "less_eq_pyfloat PosInf y = (y = PosInf \<or> y = NotANumber)"
| "less_eq_pyfloat NotANumber y = (y = NotANumber)"

definition less_pyfloat :: "pyfloat \<Rightarrow> pyfloat \<Rightarrow> bool" where
  "less_pyfloat x y \<longleftrightarrow> x \<le> y \<and> \<not> y \<le> x"

instance
proof
  fix x y z :: pyfloat
  show "x < y \<longleftrightarrow> x \<le> y \<and> \<not> y \<le> x" by (rule less_pyfloat_def)
  show "x \<le> x" by (cases x) auto
  show "x \<le> y \<Longrightarrow> y \<le> z \<Longrightarrow> x \<le> z" by (cases x; cases y; cases z) auto
  show "x \<le> y \<Longrightarrow> y \<le> x \<Longrightarrow> x = y" by (cases x; cases y) auto
  show "x \<le> y \<or> y \<le> x" by (cases x; cases y) auto
qed

end

section \<open>How far rounding moves a number\<close>

lemma round_half_even_near: "\<bar>of_int (round_half_even x) - x\<bar> \<le> 1 / 2"
proof -
  have "of_int \<lfloor>x\<rfloor> \<le> x" "x < of_int \<lfloor>x\<rfloor> + 1" by linarith+
  then show ?thesis by (auto simp: round_half_even_def Let_def abs_le_iff)
qed

lemma round_half_even_unique: "\<bar>x - of_int n\<bar> < 1 / 2 \<Longrightarrow> round_half_even x = n"
proof -
  assume "\<bar>x - of_int n\<bar> < 1 / 2"
  then have "\<bar>of_int (round_half_even x) - of_int n :: rat\<bar> < 1"
    using round_half_even_near [of x] unfolding abs_le_iff abs_less_iff by linarith
  then have "\<bar>round_half_even x - n\<bar> < 1" by (metis of_int_abs of_int_diff of_int_less_1_iff)
  then show ?thesis by simp
qed

lemma round_half_even_int [simp]: "round_half_even (of_int n) = n"
  by (rule round_half_even_unique) simp

lemma round_half_even_mono: "x \<le> y \<Longrightarrow> round_half_even x \<le> round_half_even y"
proof -
  assume "x \<le> y"
  then consider "\<lfloor>x\<rfloor> = \<lfloor>y\<rfloor>" | "\<lfloor>x\<rfloor> + 1 \<le> \<lfloor>y\<rfloor>" using floor_mono by fastforce
  then show ?thesis
  proof cases
    case 1
    with \<open>x \<le> y\<close> show ?thesis by (auto simp: round_half_even_def Let_def)
  next
    case 2
    then show ?thesis by (auto simp: round_half_even_def Let_def)
  qed
qed

lemma binary_exponent_bounds:
  assumes "q \<noteq> 0"
  shows "2 powi (binary_exponent q) \<le> \<bar>q\<bar>" "\<bar>q\<bar> < 2 powi (binary_exponent q + 1)"
proof -
  obtain n d where nd: "quotient_of \<bar>q\<bar> = (n, d)" by fastforce
  from nd have d: "0 < d" by (rule quotient_of_denom_pos)
  from nd have q: "\<bar>q\<bar> = of_int n / of_int d" by (rule quotient_of_div)
  with d assms have n: "0 < n" by (metis of_int_0_less_iff zero_less_abs_iff zero_less_divide_iff order_less_asym)
  define a where "a = floorlog 2 (nat n)"
  define b where "b = floorlog 2 (nat d)"
  have ab: "0 < a" "0 < b" unfolding a_def b_def neq0_conv [symmetric] floorlog_eq_zero_iff using n d by simp_all
  have "2 ^ (a - 1) \<le> nat n" "nat n < 2 ^ a" "2 ^ (b - 1) \<le> nat d" "nat d < 2 ^ b"
    using floorlog_bounds [of "nat n" 2] floorlog_bounds [of "nat d" 2] n d by (auto simp: a_def b_def)
  then have i: "2 ^ (a - 1) \<le> n" "n < 2 ^ a" "2 ^ (b - 1) \<le> d" "d < 2 ^ b"
    using n d by (simp_all add: nat_less_iff le_nat_iff)
  have r: "(2 :: rat) ^ (a - 1) \<le> of_int n" "(of_int n :: rat) < 2 ^ a" "(2 :: rat) ^ (b - 1) \<le> of_int d" "(of_int d :: rat) < 2 ^ b"
    using i by (metis of_int_le_iff of_int_numeral of_int_power, metis of_int_less_iff of_int_numeral of_int_power,
      metis of_int_le_iff of_int_numeral of_int_power, metis of_int_less_iff of_int_numeral of_int_power)
  have pos: "(0 :: rat) < of_int n" "(0 :: rat) < of_int d" using n d by simp_all
  have up: "\<bar>q\<bar> < 2 powi (int a - int b + 1)"
  proof -
    have "\<bar>q\<bar> < 2 ^ a / 2 ^ (b - 1)" unfolding q using r pos by (intro frac_less) auto
    also have "\<dots> = 2 powi (int a - int b + 1)" using ab by (simp add: power_int_diff power_int_add power_diff)
    finally show ?thesis .
  qed
  have lo: "2 powi (int a - int b - 1) \<le> \<bar>q\<bar>"
  proof -
    have "2 powi (int a - int b - 1) = (2 :: rat) ^ (a - 1) / 2 ^ b" using ab by (simp add: power_int_diff power_diff)
    also have "\<dots> \<le> \<bar>q\<bar>" unfolding q using r pos by (intro frac_le) auto
    finally show ?thesis .
  qed
  have e: "binary_exponent q = (if 2 powi (int a - int b) \<le> \<bar>q\<bar> then int a - int b else int a - int b - 1)"
    by (simp add: binary_exponent_def nd a_def b_def Let_def)
  show "2 powi (binary_exponent q) \<le> \<bar>q\<bar>" "\<bar>q\<bar> < 2 powi (binary_exponent q + 1)"
    using up lo by (auto simp: e)
qed

lemma two_powi_less: "(2 :: rat) powi a < 2 powi b \<longleftrightarrow> a < b"
  by (meson not_le order.strict_trans1 power_int_increasing power_int_strict_increasing one_le_numeral one_less_numeral_iff semiring_norm(76))

lemma two_powi_le: "(2 :: rat) powi a \<le> 2 powi b \<longleftrightarrow> a \<le> b"
  using two_powi_less [of b a] by (simp add: not_less [symmetric])

lemma spacing_pos: "0 < spacing q"
  by (simp add: spacing_def)

lemma round_double_near: "\<bar>round_double q - q\<bar> \<le> spacing q / 2"
proof (cases "q = 0")
  case False
  have "\<bar>of_int (round_half_even (q / spacing q)) - q / spacing q\<bar> * spacing q \<le> 1 / 2 * spacing q"
    using round_half_even_near [of "q / spacing q"] spacing_pos [of q] by (intro mult_right_mono) auto
  moreover have "\<bar>of_int (round_half_even (q / spacing q)) - q / spacing q\<bar> * spacing q = \<bar>round_double q - q\<bar>"
    using False spacing_pos [of q] by (simp add: round_double_def abs_mult_pos left_diff_distrib)
  ultimately show ?thesis by simp
qed (simp add: round_double_def less_imp_le spacing_pos)

lemma spacing_le:
  assumes "\<bar>q\<bar> \<le> 2 ^ k" "q \<noteq> 0"
  shows "spacing q \<le> 2 ^ k / 2 ^ 52"
proof -
  have "(2 :: rat) powi (binary_exponent q) \<le> 2 powi (int k)"
    using binary_exponent_bounds(1) [OF assms(2)] assms(1) by simp
  then have "binary_exponent q \<le> int k" by (simp only: two_powi_le)
  then have "spacing q \<le> 2 powi (int k - 52)" unfolding spacing_def by (intro power_int_increasing) auto
  then show ?thesis by (simp add: power_int_diff)
qed

text \<open>The absolute error of a result below a power of two.\<close>

lemma round_double_error: "\<bar>q\<bar> \<le> 2 ^ k \<Longrightarrow> \<bar>round_double q - q\<bar> \<le> 2 ^ k / 2 ^ 53"
proof (cases "q = 0")
  case False
  assume "\<bar>q\<bar> \<le> 2 ^ k"
  from spacing_le [OF this False] round_double_near [of q] show ?thesis by simp
qed (simp add: round_double_def)

text \<open>Small integers are doubles.\<close>

lemma round_double_exact: "q / spacing q = of_int m \<Longrightarrow> round_double q = q"
proof -
  assume e: "q / spacing q = of_int m"
  then have "of_int m * spacing q = q" using spacing_pos [of q] by (simp add: divide_eq_eq)
  with e show ?thesis by (simp add: round_double_def)
qed

text \<open>Small integers are doubles.\<close>

lemma round_double_int: "\<bar>n\<bar> < 2 ^ 53 \<Longrightarrow> round_double (of_int n) = of_int n"
proof (cases "n = 0")
  case False
  assume n: "\<bar>n\<bar> < 2 ^ 53"
  let ?e = "max (binary_exponent (of_int n)) (- 1022) - 52"
  have "\<bar>of_int n :: rat\<bar> < 2 powi 53" using n by (metis of_int_abs of_int_less_iff of_int_numeral of_int_power power_int_numeral)
  then have "(2 :: rat) powi (binary_exponent (of_int n)) < 2 powi 53"
    using binary_exponent_bounds(1) [of "of_int n"] False by (simp del: power_int_numeral)
  then have "binary_exponent (of_int n) < 53" by (simp only: two_powi_less)
  then have e: "?e \<le> 0" by simp
  have "(of_int n :: rat) / spacing (of_int n) = of_int (n * 2 ^ nat (- ?e))"
    unfolding spacing_def power_int_def using e by (simp add: power_inverse field_simps)
  then show ?thesis by (rule round_double_exact)
qed (simp add: round_double_def)

lemma to_double_Fin: "\<bar>q\<bar> \<le> 2 ^ 1000 \<Longrightarrow> to_double q = Fin (round_double q)"
proof -
  assume q: "\<bar>q\<bar> \<le> 2 ^ 1000"
  have "(2 :: rat) ^ 1000 / 2 ^ 53 \<le> 2 ^ 1000" by simp
  with round_double_error [OF q] q have "\<bar>round_double q\<bar> \<le> 2 * 2 ^ 1000" by linarith
  moreover have "(2 :: rat) * 2 ^ 1000 < 2 ^ 1024" by simp
  ultimately show ?thesis by (auto simp: to_double_def Let_def)
qed

lemma f_of_int_small: "\<bar>n\<bar> < 2 ^ 53 \<Longrightarrow> f_of_int n = Inr (Fin (of_int n))"
proof -
  assume n: "\<bar>n\<bar> < 2 ^ 53"
  have "\<bar>of_int n :: rat\<bar> \<le> 2 ^ 53" using n by (metis less_imp_le of_int_abs of_int_le_iff of_int_numeral of_int_power)
  also have "(2 :: rat) ^ 53 \<le> 2 ^ 1000" by simp
  finally show ?thesis using to_double_Fin [of "of_int n"] round_double_int [OF n] by (simp add: f_of_int_def)
qed

section \<open>Rounding between zero and one\<close>

lemma spacing_less:
  assumes "\<bar>q\<bar> < 2 powi k" "q \<noteq> 0" "- 1021 \<le> k"
  shows "spacing q \<le> 2 powi (k - 53)"
proof -
  have "(2 :: rat) powi (binary_exponent q) < 2 powi k"
    using binary_exponent_bounds(1) [OF assms(2)] assms(1) by simp
  then have "binary_exponent q < k" by (simp only: two_powi_less)
  then show ?thesis unfolding spacing_def using assms(3) by (intro power_int_increasing) auto
qed

lemma round_double_error_unit: "\<bar>q\<bar> < 1 \<Longrightarrow> \<bar>round_double q - q\<bar> \<le> 1 / 2 ^ 54"
proof (cases "q = 0")
  case False
  assume "\<bar>q\<bar> < 1"
  then have "spacing q \<le> 2 powi (- 53)" using spacing_less [of q 0] False by simp
  then have "spacing q \<le> 1 / 2 ^ 53" by (simp add: power_int_def power_one_over)
  with round_double_near [of q] show ?thesis by simp
qed (simp add: round_double_def)

lemma round_double_nonneg: "0 \<le> q \<Longrightarrow> 0 \<le> round_double q"
proof -
  assume "0 \<le> q"
  then have "0 \<le> round_half_even (q / spacing q)"
    using round_half_even_mono [of 0 "q / spacing q"] round_half_even_int [of 0] spacing_pos [of q] by simp
  then show ?thesis using spacing_pos [of q] by (simp add: round_double_def)
qed

lemma round_double_pos:
  assumes "0 < q" "2 powi (- 1022) \<le> q"
  shows "0 < round_double q"
proof -
  have "(2 :: rat) powi (- 1022) < 2 powi (binary_exponent q + 1)"
    using binary_exponent_bounds(2) [of q] assms by simp
  then have "- 1022 < binary_exponent q + 1" by (simp only: two_powi_less)
  then have "spacing q = 2 powi (binary_exponent q - 52)" by (simp add: spacing_def)
  also have "\<dots> \<le> 2 powi (binary_exponent q)" by (intro power_int_increasing) auto
  also have "\<dots> \<le> q" using binary_exponent_bounds(1) [of q] assms(1) by simp
  finally show ?thesis using round_double_near [of q] assms(1) unfolding abs_le_iff by simp
qed

text \<open>A result that exceeds one by no more than half the spacing above one is rounded to at most one.\<close>

lemma round_double_le_one:
  assumes "q \<le> 1 + 1 / 2 ^ 53"
  shows "round_double q \<le> 1"
proof -
  consider "q \<le> 0" | "0 < q" "q < 1" | "1 \<le> q" by linarith
  then show ?thesis
  proof cases
    case 1
    then have "round_half_even (q / spacing q) \<le> 0"
      using round_half_even_mono [of "q / spacing q" 0] round_half_even_int [of 0] spacing_pos [of q]
      by (simp add: divide_le_0_iff)
    then have "of_int (round_half_even (q / spacing q)) * spacing q \<le> 0"
      using spacing_pos [of q] by (simp add: mult_nonpos_nonneg)
    then show ?thesis by (simp add: round_double_def)
  next
    case 2
    let ?j = "max (binary_exponent q) (- 1022) - 52"
    have "(2 :: rat) powi (binary_exponent q) < 2 powi 0" using binary_exponent_bounds(1) [of q] 2 by (simp add: abs_of_pos)
    then have "binary_exponent q < 0" by (simp only: two_powi_less)
    then have j: "?j \<le> 0" by simp
    have inv: "1 / spacing q = of_int (2 ^ nat (- ?j))"
      unfolding spacing_def power_int_def using j by (simp add: power_inverse power_one_over)
    have "round_half_even (q / spacing q) \<le> round_half_even (1 / spacing q)"
      using 2 spacing_pos [of q] by (intro round_half_even_mono divide_right_mono) auto
    then have "of_int (round_half_even (q / spacing q)) \<le> 1 / spacing q" by (simp only: inv round_half_even_int of_int_le_iff)
    then have "of_int (round_half_even (q / spacing q)) * spacing q \<le> 1" using spacing_pos [of q] by (simp add: pos_le_divide_eq)
    then show ?thesis by (simp add: round_double_def)
  next
    case 3
    have "q < 2 powi 1" using assms by (rule le_less_trans) simp
    then have "(2 :: rat) powi (binary_exponent q) < 2 powi 1" "(2 :: rat) powi 0 < 2 powi (binary_exponent q + 1)"
      using binary_exponent_bounds [of q] 3 by (simp_all add: abs_of_nonneg)
    then have "binary_exponent q < 1" "0 < binary_exponent q + 1" by (simp_all only: two_powi_less)
    then have "binary_exponent q = 0" by simp
    then have s: "spacing q = 1 / 2 ^ 52" by (simp add: spacing_def power_int_def power_one_over)
    have "q * 2 ^ 52 \<le> 2 ^ 52 + 1 / 2" using assms by simp
    then have "round_half_even (q * 2 ^ 52) \<le> round_half_even (2 ^ 52 + 1 / 2)" by (rule round_half_even_mono)
    also have "round_half_even (2 ^ 52 + 1 / 2) = 2 ^ 52"
    proof -
      have fl: "\<lfloor>2 ^ 52 + 1 / 2 :: rat\<rfloor> = 2 ^ 52" by (rule floor_unique) simp_all
      show ?thesis unfolding round_half_even_def Let_def fl by simp
    qed
    finally have "(of_int (round_half_even (q * 2 ^ 52)) :: rat) \<le> of_int (2 ^ 52)" by (simp only: of_int_le_iff)
    then show ?thesis using 3 by (simp add: round_double_def s)
  qed
qed

section \<open>Quotients of integers and sums\<close>

text \<open>\<open>a / b\<close> of two integers: the quotient rounded once.\<close>

definition int_div :: "nat \<Rightarrow> nat \<Rightarrow> exn + pyfloat" where
  "int_div a b = (if b = 0 then Inl (ZeroDivisionError ''division by zero'')
     else (case to_double (of_nat a / of_nat b) of
        Fin r \<Rightarrow> Inr (Fin r) | _ \<Rightarrow> Inl (OverflowError ''integer division result too large for a float'')))"

text \<open>A sum from the left; numpy adds fewer than eight values in this order too.\<close>

definition f_sum :: "pyfloat list \<Rightarrow> pyfloat" where
  "f_sum = foldl f_add (Fin 0)"

lemma int_div_le_one:
  assumes "a \<le> b" "0 < b"
  obtains r where "int_div a b = Inr (Fin r)" "r = round_double (of_nat a / of_nat b)" "0 \<le> r" "r \<le> 1"
proof -
  have q: "0 \<le> (of_nat a / of_nat b :: rat)" "(of_nat a / of_nat b :: rat) \<le> 1"
    using assms by simp_all
  have r: "0 \<le> round_double (of_nat a / of_nat b)" "round_double (of_nat a / of_nat b) \<le> 1"
    by (rule round_double_nonneg [OF q(1)], rule round_double_le_one [OF order_trans [OF q(2)]]) simp
  have "\<bar>of_nat a / of_nat b :: rat\<bar> \<le> 1" using q by (simp only: abs_of_nonneg)
  also have "(1 :: rat) \<le> 2 ^ 1000" by simp
  finally have "to_double (of_nat a / of_nat b) = Fin (round_double (of_nat a / of_nat b))" by (rule to_double_Fin)
  then show thesis using that r assms(2) by (simp add: int_div_def)
qed

end
