(* ===== verification/TileLayout.thy ===== *)
theory TileLayout
  imports Profiles Ecc Doubles "HOL-Library.Multiset"
begin

text \<open>
  The key-bound placement of fingerprint tiles (\<open>splitbind_ref/tile_layout.py\<close>, \<open>tile_layout_v2.py\<close>,
  \<open>tile_layout_v3.py\<close>): a stream of HMAC blocks, unbiased draws by rejection, the shuffle and the choice of
  the tiles. HMAC-SHA256 is a parameter. The block counter has four bytes, so every loop ends: the
  draw that would need a further block raises an \<open>OverflowError\<close>.
\<close>

section \<open>The byte stream\<close>

record byte_stream =
  bs_counter :: nat
  bs_buffer :: bytes

type_synonym hmac = "bytes \<Rightarrow> bytes \<Rightarrow> bytes"

definition empty_stream :: byte_stream where
  "empty_stream = \<lparr>bs_counter = 0, bs_buffer = []\<rparr>"

text \<open>The next block under a seed, in the domain of the caller.\<close>

definition stream_block :: "hmac \<Rightarrow> bytes \<Rightarrow> bytes \<Rightarrow> nat \<Rightarrow> bytes" where
  "stream_block hm domain seed counter = hm seed (domain @ be_bytes 4 counter)"

function stream_fill :: "(nat \<Rightarrow> bytes) \<Rightarrow> nat \<Rightarrow> byte_stream \<Rightarrow> exn + byte_stream" where
  "stream_fill block n s =
     (if n \<le> length (bs_buffer s) then Inr s
      else if 2 ^ 32 \<le> bs_counter s then Inl (OverflowError ''int too big to convert'')
      else stream_fill block n \<lparr>bs_counter = Suc (bs_counter s), bs_buffer = bs_buffer s @ block (bs_counter s)\<rparr>)"
  by pat_completeness auto
termination by (relation "measure (\<lambda>(_, _, s). 2 ^ 32 - bs_counter s)") auto

declare stream_fill.simps [simp del]

definition stream_read :: "(nat \<Rightarrow> bytes) \<Rightarrow> nat \<Rightarrow> byte_stream \<Rightarrow> exn + (bytes \<times> byte_stream)" where
  "stream_read block n s = sum_then (stream_fill block n s) (\<lambda>t.
     Inr (take n (bs_buffer t), t\<lparr>bs_buffer := drop n (bs_buffer t)\<rparr>))"

lemma stream_fill_Inr:
  "stream_fill block n s = Inr t \<Longrightarrow> n \<le> length (bs_buffer t) \<and> bs_counter s \<le> bs_counter t
     \<and> (bs_counter t = bs_counter s \<longrightarrow> t = s) \<and> (bs_counter s \<noteq> bs_counter t \<longrightarrow> bs_counter t \<le> 2 ^ 32)"
proof (induction block n s rule: stream_fill.induct)
  case (1 block n s)
  show ?case
  proof (cases "n \<le> length (bs_buffer s)")
    case True
    then show ?thesis using 1(2) by (simp add: stream_fill.simps)
  next
    case False
    with 1(2) have c: "bs_counter s < 2 ^ 32"
      and t: "stream_fill block n \<lparr>bs_counter = Suc (bs_counter s), bs_buffer = bs_buffer s @ block (bs_counter s)\<rparr> = Inr t"
      by (auto simp: stream_fill.simps [of block n s] split: if_splits)
    show ?thesis using 1(1) [OF False _ t] c by auto
  qed
qed

section \<open>Unbiased draws\<close>

fun bit_length :: "nat \<Rightarrow> nat" where
  "bit_length n = (if n = 0 then 0 else Suc (bit_length (n div 2)))"

declare bit_length.simps [simp del]

definition draw_bytes :: "nat \<Rightarrow> nat" where
  "draw_bytes upper = max 1 ((bit_length upper + 7) div 8)"

definition acceptance_limit :: "nat \<Rightarrow> nat" where
  "acceptance_limit upper = (let space = 256 ^ draw_bytes upper in space - space mod upper)"

text \<open>
  The rejection loop. Every turn reads at least one byte: it uses up the buffer or a value of the
  counter, which bounds the loop whatever the blocks are.
\<close>

function draw_below :: "(nat \<Rightarrow> bytes) \<Rightarrow> nat \<Rightarrow> byte_stream \<Rightarrow> exn + (nat \<times> byte_stream)" where
  "draw_below block upper s =
     (case stream_read block (draw_bytes upper) s of
        Inl e \<Rightarrow> Inl e
      | Inr (b, t) \<Rightarrow>
          if be_nat b < acceptance_limit upper then Inr (be_nat b mod upper, t)
          else draw_below block upper t)"
  by pat_completeness auto
termination
proof (relation "measures [\<lambda>(_, _, s). 2 ^ 32 - bs_counter s, \<lambda>(_, _, s). length (bs_buffer s)]", simp, goal_cases)
  case (1 block upper s p b t)
  then obtain u where u: "stream_fill block (draw_bytes upper) s = Inr u"
    and t: "t = u\<lparr>bs_buffer := drop (draw_bytes upper) (bs_buffer u)\<rparr>"
    by (auto simp: stream_read_def sum_then_Inr)
  have "0 < draw_bytes upper" by (simp add: draw_bytes_def)
  with stream_fill_Inr [OF u] show ?case
    unfolding t by (cases "bs_counter u = bs_counter s") auto
qed

declare draw_below.simps [simp del]

definition randbelow :: "(nat \<Rightarrow> bytes) \<Rightarrow> nat \<Rightarrow> byte_stream \<Rightarrow> exn + (nat \<times> byte_stream)" where
  "randbelow block upper s = (if upper = 0 then Inl (ValueError ''upper_bound must be positive'') else draw_below block upper s)"

lemma randbelow_less: "randbelow block upper s = Inr (r, t) \<Longrightarrow> r < upper"
proof -
  have "draw_below block upper s = Inr (r, t) \<Longrightarrow> 0 < upper \<Longrightarrow> r < upper" for s
  proof (induction block upper s rule: draw_below.induct)
    case (1 block upper s)
    from 1(2) show ?case
      by (subst (asm) draw_below.simps) (use 1 in \<open>auto split: sum.splits prod.splits if_splits\<close>)
  qed
  then show "randbelow block upper s = Inr (r, t) \<Longrightarrow> r < upper" by (simp add: randbelow_def split: if_splits)
qed

section \<open>The shuffle\<close>

definition swap_at :: "'a list \<Rightarrow> nat \<Rightarrow> nat \<Rightarrow> 'a list" where
  "swap_at xs i j = xs[i := xs ! j, j := xs ! i]"

fun shuffle_down :: "(nat \<Rightarrow> bytes) \<Rightarrow> nat \<Rightarrow> 'a list \<Rightarrow> byte_stream \<Rightarrow> exn + ('a list \<times> byte_stream)" where
  "shuffle_down block 0 xs s = Inr (xs, s)"
| "shuffle_down block (Suc i) xs s = sum_then (randbelow block (Suc i + 1) s) (\<lambda>(j, t).
     shuffle_down block i (swap_at xs (Suc i) j) t)"

text \<open>A shuffle leaves the stream at the next unread byte.\<close>

definition shuffle_from :: "(nat \<Rightarrow> bytes) \<Rightarrow> 'a list \<Rightarrow> byte_stream \<Rightarrow> exn + ('a list \<times> byte_stream)" where
  "shuffle_from block xs s = shuffle_down block (length xs - 1) xs s"

definition shuffle :: "(nat \<Rightarrow> bytes) \<Rightarrow> 'a list \<Rightarrow> exn + 'a list" where
  "shuffle block xs = sum_then (shuffle_from block xs empty_stream) (\<lambda>(ys, _). Inr ys)"

lemma mset_swap_at: "i < length xs \<Longrightarrow> j < length xs \<Longrightarrow> mset (swap_at xs i j) = mset xs"
  by (simp add: swap_at_def mset_swap)

lemma shuffle_down_mset:
  "shuffle_down block i xs s = Inr (ys, u) \<Longrightarrow> i < length xs \<Longrightarrow> mset ys = mset xs"
proof (induction block i xs s arbitrary: ys rule: shuffle_down.induct)
  case (2 block i xs s)
  then obtain j t where r: "randbelow block (Suc i + 1) s = Inr (j, t)"
    and ys: "shuffle_down block i (swap_at xs (Suc i) j) t = Inr (ys, u)"
    by (auto simp: sum_then_Inr)
  have j: "j < length xs" using randbelow_less [OF r] 2(3) by simp
  have "mset ys = mset (swap_at xs (Suc i) j)" using 2(1) [OF ys] 2(3) by (simp add: swap_at_def)
  then show ?case using mset_swap_at [OF 2(3) j] by simp
qed simp

lemma shuffle_from_perm: "shuffle_from block xs s = Inr (ys, u) \<Longrightarrow> mset ys = mset xs"
  using shuffle_down_mset [of block "length xs - 1" xs s ys u] by (cases xs) (auto simp: shuffle_from_def)

lemma shuffle_perm: "shuffle block xs = Inr ys \<Longrightarrow> mset ys = mset xs"
  by (auto simp: shuffle_def sum_then_Inr dest: shuffle_from_perm)

section \<open>Slots of a page\<close>

record tile =
  tl_x :: nat
  tl_y :: nat
  tl_width :: nat
  tl_height :: nat

definition tile_slots :: "nat \<Rightarrow> nat \<Rightarrow> nat \<Rightarrow> tile list" where
  "tile_slots height width edge = concat (map (\<lambda>y. map (\<lambda>x. \<lparr>tl_x = x, tl_y = y, tl_width = edge, tl_height = edge\<rparr>)
     (py_range 0 (width - edge + 1) edge)) (py_range 0 (height - edge + 1) edge))"

definition tiles_apart :: "tile \<Rightarrow> tile \<Rightarrow> bool" where
  "tiles_apart a b \<longleftrightarrow> tl_x a + tl_width a \<le> tl_x b \<or> tl_x b + tl_width b \<le> tl_x a
     \<or> tl_y a + tl_height a \<le> tl_y b \<or> tl_y b + tl_height b \<le> tl_y a"

text \<open>What a placement promises: so many different tiles of the edge, inside the page, without overlap.\<close>

definition tiles_placed :: "nat \<Rightarrow> nat \<Rightarrow> nat \<Rightarrow> nat \<Rightarrow> tile list \<Rightarrow> bool" where
  "tiles_placed height width edge n ts \<longleftrightarrow> length ts = n \<and> distinct ts
     \<and> list_all (\<lambda>t. tl_width t = edge \<and> tl_height t = edge \<and> tl_x t + edge \<le> width \<and> tl_y t + edge \<le> height) ts
     \<and> pairwise tiles_apart (set ts)"

lemma tile_slots_in:
  assumes "0 < edge" "edge \<le> height" "edge \<le> width"
  shows "t \<in> set (tile_slots height width edge) \<longleftrightarrow> tl_width t = edge \<and> tl_height t = edge
     \<and> tl_x t + edge \<le> width \<and> tl_y t + edge \<le> height \<and> edge dvd tl_x t \<and> edge dvd tl_y t"
  using assms by (cases t) (auto simp: tile_slots_def set_py_range image_iff)

lemma multiples_apart: "edge dvd a \<Longrightarrow> edge dvd b \<Longrightarrow> a < b \<Longrightarrow> a + edge \<le> (b :: nat)"
  by (metis add_diff_cancel_left' dvd_diff_nat dvd_imp_le le_add_diff_inverse less_imp_le_nat nat_add_left_cancel_le zero_less_diff)

lemma tile_slots_apart:
  assumes "0 < edge" "edge \<le> height" "edge \<le> width"
  shows "pairwise tiles_apart (set (tile_slots height width edge))"
proof (rule pairwiseI)
  fix a b assume a: "a \<in> set (tile_slots height width edge)" and b: "b \<in> set (tile_slots height width edge)" and ne: "a \<noteq> b"
  note ab = a [unfolded tile_slots_in [OF assms]] b [unfolded tile_slots_in [OF assms]]
  then have "tl_x a \<noteq> tl_x b \<or> tl_y a \<noteq> tl_y b" using ne by (auto intro: tile.equality)
  then show "tiles_apart a b"
    using ab multiples_apart [of edge "tl_x a" "tl_x b"] multiples_apart [of edge "tl_x b" "tl_x a"]
      multiples_apart [of edge "tl_y a" "tl_y b"] multiples_apart [of edge "tl_y b" "tl_y a"]
    by (auto simp: tiles_apart_def neq_iff)
qed

lemma concat_map_product: "concat (map (\<lambda>y. map (f y) xs) ys) = map (\<lambda>(y, x). f y x) (List.product ys xs)"
  by (induction ys) auto

lemma distinct_tile_slots: "0 < edge \<Longrightarrow> distinct (tile_slots height width edge)"
  unfolding tile_slots_def concat_map_product
  by (simp add: distinct_map distinct_product distinct_py_range inj_on_def)

text \<open>Any selection of different slots is a placement.\<close>

lemma selected_slots_placed:
  assumes "0 < edge" "edge \<le> height" "edge \<le> width" "mset ys = mset (tile_slots height width edge)" "n \<le> length ys"
  shows "tiles_placed height width edge n (take n ys)"
proof -
  have "distinct ys" using assms(1,4) distinct_tile_slots by (metis mset_eq_imp_distinct_iff)
  moreover have sub: "set (take n ys) \<subseteq> set (tile_slots height width edge)"
    using assms(4) set_take_subset by (metis mset_eq_setD)
  ultimately show ?thesis
    using assms pairwise_subset [OF tile_slots_apart [OF assms(1-3)] sub]
    by (auto simp: tiles_placed_def list_all_iff tile_slots_in [OF assms(1-3)] dest!: subsetD [OF sub])
qed

section \<open>Version 1\<close>

text \<open>The seed is bound to a document nonce; the profile is a mapping from names to integers.\<close>

definition permutation_domain :: bytes where
  "permutation_domain = ascii ''splitbind-tile-permutation'' @ [0]"

definition validate_page_shape :: "int \<times> int \<Rightarrow> exn + (nat \<times> nat)" where
  "validate_page_shape shape = (case shape of (height, width) \<Rightarrow>
     if height \<le> 0 \<or> width \<le> 0 then Inl (ValueError ''page dimensions must be positive integers'')
     else Inr (nat height, nat width))"

definition validate_bytes :: "string \<Rightarrow> bytes \<Rightarrow> exn + unit" where
  "validate_bytes name v = sum_require (v \<noteq> []) (ValueError (name @ '' must be non-empty bytes''))"

definition validate_page_index :: "int \<Rightarrow> exn + unit" where
  "validate_page_index i = sum_require (0 \<le> i \<and> i \<le> 0xFFFFFFFF) (ValueError ''page_index must fit an unsigned 32-bit integer'')"

definition contract_tile_sizes :: "int list" where "contract_tile_sizes = [256, 384]"

definition contract_tile_counts :: "int list" where "contract_tile_counts = [12, 18, 24]"

text \<open>\<open>str\<close> of a list of names.\<close>

definition quoted :: "string \<Rightarrow> string" where
  "quoted name = [char_of (39 :: nat)] @ name @ [char_of (39 :: nat)]"

fun comma_separated :: "string list \<Rightarrow> string" where
  "comma_separated [] = []"
| "comma_separated [x] = x"
| "comma_separated (x # xs) = x @ '', '' @ comma_separated xs"

definition tile_profile_names :: "string list" where
  "tile_profile_names = [''schema_version'', ''tile_size_px'', ''tiles_per_page'']"

definition validate_tile_profile :: "(string \<times> int) list \<Rightarrow> exn + (int \<times> nat \<times> nat)" where
  "validate_tile_profile profile =
     (if set (map fst profile) \<noteq> set tile_profile_names
      then Inl (ValueError (''profile must contain exactly ['' @ comma_separated (map quoted tile_profile_names) @ '']''))
      else
        let version = the (map_of profile ''schema_version'');
            tile_size = the (map_of profile ''tile_size_px'');
            tile_count = the (map_of profile ''tiles_per_page'')
        in if version \<noteq> 1 then Inl (ValueError ''unsupported profile schema_version'')
           else if tile_size \<notin> set contract_tile_sizes
           then Inl (ValueError ''tile_size_px is not in the contracted candidate grid'')
           else if tile_count \<notin> set contract_tile_counts
           then Inl (ValueError ''tiles_per_page is not in the contracted candidate grid'')
           else Inr (version, nat tile_size, nat tile_count))"

definition too_few_slots :: "nat \<Rightarrow> nat \<Rightarrow> exn" where
  "too_few_slots found wanted = ValueError (''page provides '' @ decimal found
     @ '' non-overlapping tile slots, but profile requests '' @ decimal wanted)"

definition derive_tiles ::
  "hmac \<Rightarrow> int \<times> int \<Rightarrow> bytes \<Rightarrow> bytes \<Rightarrow> int \<Rightarrow> (string \<times> int) list \<Rightarrow> exn + tile list" where
  "derive_tiles hm page_shape key document_nonce page_index profile =
     sum_then (validate_page_shape page_shape) (\<lambda>(height, width).
     sum_then (validate_bytes ''key'' key) (\<lambda>_.
     sum_then (validate_bytes ''document nonce'' document_nonce) (\<lambda>_.
     sum_then (validate_page_index page_index) (\<lambda>_.
     sum_then (validate_tile_profile profile) (\<lambda>(version, tile_size, tile_count).
     if tile_size > height \<or> tile_size > width then Inl (ValueError ''page is smaller than the contracted tile size'')
     else
       let candidates = tile_slots height width tile_size
       in if tile_count > length candidates then Inl (too_few_slots (length candidates) tile_count)
          else
            let seed = hm key (document_nonce @ be_bytes 4 (nat page_index) @ be_bytes 4 (nat version))
            in sum_then (shuffle (stream_block hm permutation_domain seed) candidates) (\<lambda>shuffled.
               Inr (take tile_count shuffled)))))))"

section \<open>Version 2\<close>

definition max_page_pixels :: nat where
  "max_page_pixels = 40000000"

definition seed_domain_v2 :: bytes where
  "seed_domain_v2 = ascii ''splitbind-v2-tile-layout'' @ [0]"

definition stream_domain_v2 :: bytes where
  "stream_domain_v2 = ascii ''splitbind-v2-tile-permutation'' @ [0]"

definition validate_v2_layout :: "fingerprint_v2_profile \<Rightarrow> exn + bytes" where
  "validate_v2_layout p =
     sum_then (sum_require (f2_schema_version p = 2) (ValueError ''profile schema_version must be 2'')) (\<lambda>_.
     sum_then (sum_require (0 < f2_tile_size_px p \<and> 0 < f2_tiles_per_page p)
        (ValueError ''profile tile dimensions and count must be positive'')) (\<lambda>_.
     candidate_identifier_v2 p))"

text \<open>The part the two later versions share: the budget of the page and the shuffled slots.\<close>

definition shuffled_slots ::
  "hmac \<Rightarrow> bytes \<Rightarrow> bytes \<Rightarrow> bytes \<Rightarrow> nat \<Rightarrow> nat \<Rightarrow> nat \<Rightarrow> nat \<Rightarrow> exn + tile list" where
  "shuffled_slots hm domain key seed_message height width edge wanted =
     (if height * width > max_page_pixels then Inl (ValueError ''page exceeds the 40-megapixel processing ceiling'')
      else if edge > height \<or> edge > width then Inl (ValueError ''page is smaller than the contracted tile size'')
      else
        let candidates = tile_slots height width edge
        in if wanted > length candidates then Inl (too_few_slots (length candidates) wanted)
           else shuffle (stream_block hm domain (hm key seed_message)) candidates)"

definition derive_tiles_v2 :: "hmac \<Rightarrow> int \<times> int \<Rightarrow> bytes \<Rightarrow> int \<Rightarrow> fingerprint_v2_profile \<Rightarrow> exn + tile list" where
  "derive_tiles_v2 hm page_shape key page_index p =
     sum_then (validate_page_shape page_shape) (\<lambda>(height, width).
     sum_then (validate_bytes ''key'' key) (\<lambda>_.
     sum_then (validate_page_index page_index) (\<lambda>_.
     sum_then (validate_v2_layout p) (\<lambda>identifier.
     sum_then (shuffled_slots hm stream_domain_v2 key (seed_domain_v2 @ be_bytes 4 (nat page_index) @ identifier)
        height width (nat (f2_tile_size_px p)) (nat (f2_tiles_per_page p))) (\<lambda>shuffled.
     Inr (take (nat (f2_tiles_per_page p)) shuffled))))))"

section \<open>Version 3\<close>

definition seed_domain_v3 :: bytes where
  "seed_domain_v3 = ascii ''splitbind-v3-tile-layout'' @ [0]"

definition stream_domain_v3 :: bytes where
  "stream_domain_v3 = ascii ''splitbind-v3-tile-permutation'' @ [0]"

definition validate_v3_layout :: "fingerprint_v3_profile \<Rightarrow> exn + bytes" where
  "validate_v3_layout p =
     sum_then (sum_require (f3_schema_version p = 3) (ValueError ''profile schema_version must be 3'')) (\<lambda>_.
     sum_then (sum_require (0 < f3_tile_size_px p \<and> 0 < f3_tiles_per_page p)
        (ValueError ''profile tile dimensions and count must be positive'')) (\<lambda>_.
     candidate_identifier_v3 p))"

text \<open>
  \<open>round(page_height * retained_scale)\<close>. A page has at most forty million pixels and a scale lies between zero
  and one, so neither the conversion nor the rounding raises.
\<close>

definition retained_extent :: "nat \<Rightarrow> double \<Rightarrow> int" where
  "retained_extent extent scale =
     (case sum_then (f_of_int (int extent)) (\<lambda>e. f_round (f_mul e (py_float scale))) of Inl _ \<Rightarrow> 0 | Inr n \<Rightarrow> n)"

lemma retained_extent_exact:
  assumes "extent \<le> max_page_pixels" "double_value scale = Some v" "0 < v" "v \<le> 1"
  shows "sum_then (f_of_int (int extent)) (\<lambda>e. f_round (f_mul e (py_float scale)))
    = Inr (round_half_even (round_double (of_nat extent * v)))"
proof -
  have e: "f_of_int (int extent) = Inr (Fin (of_nat extent))"
    using f_of_int_small [of "int extent"] assms(1) by (simp add: max_page_pixels_def)
  have "(of_nat extent :: rat) \<le> 2 ^ 1000"
  proof -
    have "(of_nat extent :: rat) \<le> of_nat 40000000" using assms(1) by (simp only: of_nat_le_iff max_page_pixels_def)
    also have "\<dots> \<le> 2 ^ 1000" by simp
    finally show ?thesis .
  qed
  moreover have "\<bar>of_nat extent * v\<bar> \<le> of_nat extent" using assms(3,4) by (simp add: abs_mult mult_left_le)
  ultimately have "\<bar>of_nat extent * v\<bar> \<le> 2 ^ 1000" by linarith
  with e show ?thesis using assms(2) by (simp add: py_float_def to_double_Fin)
qed

definition survives_crop :: "tile \<Rightarrow> nat \<Rightarrow> nat \<Rightarrow> double \<Rightarrow> bool" where
  "survives_crop t height width scale \<longleftrightarrow>
     (let kept_height = retained_extent height scale; kept_width = retained_extent width scale;
          y0 = (int height - kept_height) div 2; x0 = (int width - kept_width) div 2
      in x0 \<le> int (tl_x t) \<and> y0 \<le> int (tl_y t)
         \<and> int (tl_x t + tl_width t) \<le> x0 + kept_width \<and> int (tl_y t + tl_height t) \<le> y0 + kept_height)"

definition survives_center_crops :: "tile \<Rightarrow> nat \<Rightarrow> nat \<Rightarrow> double list \<Rightarrow> bool" where
  "survives_center_crops t height width scales \<longleftrightarrow> list_all (survives_crop t height width) scales"

definition derive_tiles_v3 ::
  "hmac \<Rightarrow> int \<times> int \<Rightarrow> bytes \<Rightarrow> int \<Rightarrow> fingerprint_v3_profile \<Rightarrow> exn + tile list" where
  "derive_tiles_v3 hm page_shape key page_index p =
     sum_then (validate_page_shape page_shape) (\<lambda>(height, width).
     sum_then (validate_bytes ''key'' key) (\<lambda>_.
     sum_then (validate_page_index page_index) (\<lambda>_.
     sum_then (validate_v3_layout p) (\<lambda>identifier.
     sum_then (shuffled_slots hm stream_domain_v3 key (seed_domain_v3 @ be_bytes 4 (nat page_index) @ identifier)
        height width (nat (f3_tile_size_px p)) (nat (f3_tiles_per_page p))) (\<lambda>shuffled.
     let keeps = (\<lambda>t. survives_center_crops t height width (f3_crop_retained_scales p))
     in Inr (take (nat (f3_tiles_per_page p)) (filter keeps shuffled @ filter (\<lambda>t. \<not> keeps t) shuffled)))))))"

section \<open>Draws and shuffles end\<close>

lemma stream_fill_error: "stream_fill block n s = Inl e \<Longrightarrow> e = OverflowError ''int too big to convert''"
proof (induction block n s rule: stream_fill.induct)
  case (1 block n s)
  then show ?case by (subst (asm) stream_fill.simps) (auto split: if_splits)
qed

lemma draw_below_error: "draw_below block upper s = Inl e \<Longrightarrow> e = OverflowError ''int too big to convert''"
proof (induction block upper s rule: draw_below.induct)
  case (1 block upper s)
  from 1(2) show ?case
    by (subst (asm) draw_below.simps)
       (use 1 in \<open>auto simp: stream_read_def sum_then_def split: sum.splits prod.splits if_splits dest: stream_fill_error\<close>)
qed

lemma shuffle_down_error:
  "shuffle_down block i xs s = Inl e \<Longrightarrow> e = OverflowError ''int too big to convert''"
proof (induction block i xs s rule: shuffle_down.induct)
  case (2 block i xs s)
  then show ?case
    by (auto simp: sum_then_def randbelow_def split: sum.splits prod.splits if_splits dest: draw_below_error)
qed simp

lemma shuffle_error: "shuffle block xs = Inl e \<Longrightarrow> e = OverflowError ''int too big to convert''"
  by (auto simp: shuffle_def shuffle_from_def sum_then_def split: sum.splits dest: shuffle_down_error)

lemma randbelow_error: "randbelow block upper s = Inl e \<Longrightarrow> upper = 0 \<or> e = OverflowError ''int too big to convert''"
  by (auto simp: randbelow_def split: if_splits dest: draw_below_error)

lemma shuffled_slots_perm:
  assumes "shuffled_slots hm domain key seed height width edge wanted = Inr ys"
  shows "edge \<le> height \<and> edge \<le> width \<and> mset ys = mset (tile_slots height width edge) \<and> wanted \<le> length ys"
  using assms
  by (auto simp: shuffled_slots_def Let_def split: if_splits dest: shuffle_perm dest!: mset_eq_length)

lemma filter_parts_mset: "mset (filter P xs @ filter (\<lambda>x. \<not> P x) xs) = mset xs"
  by simp

text \<open>Every placement is a part of the slots of the page in some order.\<close>

definition selected_slots :: "nat \<Rightarrow> nat \<Rightarrow> nat \<Rightarrow> nat \<Rightarrow> tile list \<Rightarrow> bool" where
  "selected_slots height width edge n ts \<longleftrightarrow> 0 < edge \<and> edge \<le> height \<and> edge \<le> width
     \<and> (\<exists>ys. mset ys = mset (tile_slots height width edge) \<and> n \<le> length ys \<and> ts = take n ys)"

lemma selected_placed: "selected_slots height width edge n ts \<Longrightarrow> tiles_placed height width edge n ts"
  by (auto simp: selected_slots_def intro: selected_slots_placed)

lemma validate_page_shape_Inr: "validate_page_shape (h, w) = Inr r \<longleftrightarrow> 0 < h \<and> 0 < w \<and> r = (nat h, nat w)"
  by (auto simp: validate_page_shape_def)

lemma validate_tile_profile_Inr:
  "validate_tile_profile profile = Inr r \<Longrightarrow> r = (1, nat (the (map_of profile ''tile_size_px'')), nat (the (map_of profile ''tiles_per_page'')))
     \<and> 0 < the (map_of profile ''tile_size_px'')"
  by (auto simp: validate_tile_profile_def contract_tile_sizes_def Let_def split: if_splits)

lemma derive_tiles_selected:
  assumes "derive_tiles hm (h, w) key nonce i profile = Inr ts"
  shows "selected_slots (nat h) (nat w) (nat (the (map_of profile ''tile_size_px''))) (nat (the (map_of profile ''tiles_per_page''))) ts"
proof -
  let ?edge = "nat (the (map_of profile ''tile_size_px''))" and ?n = "nat (the (map_of profile ''tiles_per_page''))"
  have "0 < ?edge \<and> \<not> (?edge > nat h \<or> ?edge > nat w) \<and> \<not> ?n > length (tile_slots (nat h) (nat w) ?edge)
      \<and> (\<exists>block ys. shuffle block (tile_slots (nat h) (nat w) ?edge) = Inr ys \<and> ts = take ?n ys)"
    using assms
    by (auto simp: derive_tiles_def sum_then_Inr validate_page_shape_Inr Let_def dest!: validate_tile_profile_Inr split: if_splits;
        blast)
  then obtain block ys where fits: "0 < ?edge" "\<not> (?edge > nat h \<or> ?edge > nat w)" "\<not> ?n > length (tile_slots (nat h) (nat w) ?edge)"
    and ys: "shuffle block (tile_slots (nat h) (nat w) ?edge) = Inr ys" "ts = take ?n ys" by blast
  have "length ys = length (tile_slots (nat h) (nat w) ?edge)" using shuffle_perm [OF ys(1)] by (rule mset_eq_length)
  then show ?thesis using fits ys(2) shuffle_perm [OF ys(1)] by (auto simp: selected_slots_def not_less)
qed

lemma derive_tiles_v2_selected:
  "derive_tiles_v2 hm (h, w) key i p = Inr ts \<Longrightarrow> selected_slots (nat h) (nat w) (nat (f2_tile_size_px p)) (nat (f2_tiles_per_page p)) ts"
  by (auto simp: derive_tiles_v2_def sum_then_Inr validate_page_shape_Inr validate_v2_layout_def selected_slots_def
      dest!: shuffled_slots_perm)

lemma derive_tiles_v3_slots:
  assumes "derive_tiles_v3 hm (h, w) key i p = Inr ts"
  shows "\<exists>ys. mset ys = mset (tile_slots (nat h) (nat w) (nat (f3_tile_size_px p))) \<and> nat (f3_tiles_per_page p) \<le> length ys
      \<and> ts = take (nat (f3_tiles_per_page p))
         (filter (\<lambda>t. survives_center_crops t (nat h) (nat w) (f3_crop_retained_scales p)) ys
          @ filter (\<lambda>t. \<not> survives_center_crops t (nat h) (nat w) (f3_crop_retained_scales p)) ys)
      \<and> 0 < nat (f3_tile_size_px p) \<and> nat (f3_tile_size_px p) \<le> nat h \<and> nat (f3_tile_size_px p) \<le> nat w"
proof -
  from assms obtain seed ys where
    ys: "shuffled_slots hm stream_domain_v3 key seed (nat h) (nat w) (nat (f3_tile_size_px p)) (nat (f3_tiles_per_page p)) = Inr ys"
    and ts: "ts = take (nat (f3_tiles_per_page p))
         (filter (\<lambda>t. survives_center_crops t (nat h) (nat w) (f3_crop_retained_scales p)) ys
          @ filter (\<lambda>t. \<not> survives_center_crops t (nat h) (nat w) (f3_crop_retained_scales p)) ys)"
    and pos: "0 < f3_tile_size_px p"
    by (auto simp: derive_tiles_v3_def validate_v3_layout_def sum_then_Inr validate_page_shape_Inr Let_def simp del: take_append)
  show ?thesis using shuffled_slots_perm [OF ys] ts pos by (intro exI [of _ ys]) auto
qed

lemma derive_tiles_v3_selected:
  assumes "derive_tiles_v3 hm (h, w) key i p = Inr ts"
  shows "selected_slots (nat h) (nat w) (nat (f3_tile_size_px p)) (nat (f3_tiles_per_page p)) ts"
proof -
  let ?keeps = "\<lambda>t. survives_center_crops t (nat h) (nat w) (f3_crop_retained_scales p)"
  obtain ys where ys: "mset ys = mset (tile_slots (nat h) (nat w) (nat (f3_tile_size_px p)))"
    "nat (f3_tiles_per_page p) \<le> length ys" "ts = take (nat (f3_tiles_per_page p)) (filter ?keeps ys @ filter (\<lambda>t. \<not> ?keeps t) ys)"
    "0 < nat (f3_tile_size_px p)" "nat (f3_tile_size_px p) \<le> nat h" "nat (f3_tile_size_px p) \<le> nat w"
    using derive_tiles_v3_slots [OF assms] by blast
  define zs where "zs = filter ?keeps ys @ filter (\<lambda>t. \<not> ?keeps t) ys"
  have z: "mset zs = mset ys" unfolding zs_def by (rule filter_parts_mset)
  then have "length zs = length ys" by (rule mset_eq_length)
  then show ?thesis
    unfolding selected_slots_def using ys z by (intro conjI exI [of _ zs]) (simp_all add: zs_def del: take_append mset_append)
qed

section \<open>Properties\<close>

text \<open>
  C12. Every placement of tiles is sound, in all three versions and whatever the keyed hash returns: the page gets
  exactly the contracted number of different tiles of the contracted size, all inside the page, and
  no two of them overlap.
\<close>

theorem derived_tiles_placed:
  "(case derive_tiles hm (h, w) key nonce i profile of Inl _ \<Rightarrow> True | Inr ts \<Rightarrow>
      tiles_placed (nat h) (nat w) (nat (the (map_of profile ''tile_size_px'')))
        (nat (the (map_of profile ''tiles_per_page''))) ts)
   \<and> (case derive_tiles_v2 hm (h, w) key i p of Inl _ \<Rightarrow> True | Inr ts \<Rightarrow>
      tiles_placed (nat h) (nat w) (nat (f2_tile_size_px p)) (nat (f2_tiles_per_page p)) ts)
   \<and> (case derive_tiles_v3 hm (h, w) key i q of Inl _ \<Rightarrow> True | Inr ts \<Rightarrow>
      tiles_placed (nat h) (nat w) (nat (f3_tile_size_px q)) (nat (f3_tiles_per_page q)) ts)"
  by (auto split: sum.splits
      dest: derive_tiles_selected derive_tiles_v2_selected derive_tiles_v3_selected intro: selected_placed)

text \<open>
  Version 3 prefers the tiles that survive the contracted crops: either every chosen tile survives, or every
  slot of the page that survives was chosen.
\<close>

theorem crop_survivors_first:
  "case derive_tiles_v3 hm (h, w) key i p of Inl _ \<Rightarrow> True | Inr ts \<Rightarrow>
     (let keeps = (\<lambda>t. survives_center_crops t (nat h) (nat w) (f3_crop_retained_scales p))
      in list_all keeps ts
         \<or> list_all (\<lambda>t. t \<in> set ts) (filter keeps (tile_slots (nat h) (nat w) (nat (f3_tile_size_px p)))))"
proof (cases "derive_tiles_v3 hm (h, w) key i p")
  case (Inr ts)
  let ?keeps = "\<lambda>t. survives_center_crops t (nat h) (nat w) (f3_crop_retained_scales p)"
  let ?n = "nat (f3_tiles_per_page p)"
  obtain ys where ys: "mset ys = mset (tile_slots (nat h) (nat w) (nat (f3_tile_size_px p)))"
    and ts: "ts = take ?n (filter ?keeps ys @ filter (\<lambda>t. \<not> ?keeps t) ys)"
    using derive_tiles_v3_slots [OF Inr] by blast
  have same: "set ys = set (tile_slots (nat h) (nat w) (nat (f3_tile_size_px p)))" using ys by (rule mset_eq_setD)
  show ?thesis
  proof (cases "?n \<le> length (filter ?keeps ys)")
    case True
    then have "set ts \<subseteq> set (filter ?keeps ys)" using ts by (auto dest: in_set_takeD)
    then show ?thesis using Inr by (auto simp: Let_def list_all_iff)
  next
    case False
    then have "set (filter ?keeps ys) \<subseteq> set ts" using ts by simp
    then show ?thesis using Inr same by (auto simp: Let_def list_all_iff)
  qed
qed simp

text \<open>
  C13. Every draw and every shuffle ends, for every hash: a draw is a number below its bound, a shuffle is a
  permutation of its list, and the only error is the overflow of the four-byte block counter.
\<close>

theorem shuffles_end:
  "(case shuffle block xs of Inr ys \<Rightarrow> mset ys = mset xs | Inl e \<Rightarrow> e = OverflowError ''int too big to convert'')
   \<and> (case randbelow block upper s of Inr (r, t) \<Rightarrow> r < upper
      | Inl e \<Rightarrow> upper = 0 \<or> e = OverflowError ''int too big to convert'')"
  by (auto split: sum.splits dest: shuffle_perm shuffle_error randbelow_less randbelow_error)

end
