(* ===== verification/PayloadPositions.thy ===== *)
theory PayloadPositions
  imports TileLayout
begin

text \<open>
  Where the bits of a codeword go in a tile of version 2 or 3 (\<open>splitbind_ref/fingerprint_v2_codec.py\<close>,
  \<open>fingerprint_v3_dct.py\<close>): a keyed permutation of the coefficient pairs of the tile and, for every bit, the first
  replicas that lie in different DCT blocks. The two files differ in their domains, their profile and the
  version that their messages name.
\<close>

definition codeword_bytes :: nat where "codeword_bytes = 39"

definition bits_per_byte :: nat where "bits_per_byte = 8"

type_synonym coefficient = "nat \<times> nat"

definition coefficient_pairs :: "(coefficient \<times> coefficient) list" where
  "coefficient_pairs = [((1, 2), (2, 1)), ((2, 3), (3, 2))]"

definition payload_seed_domain :: bytes where
  "payload_seed_domain = ascii ''splitbind-v2-payload-permutation'' @ [0]"

definition payload_stream_domain :: bytes where
  "payload_stream_domain = ascii ''splitbind-v2-payload-stream'' @ [0]"

definition payload_seed_domain_v3 :: bytes where
  "payload_seed_domain_v3 = ascii ''splitbind-v3-payload-permutation'' @ [0]"

definition payload_stream_domain_v3 :: bytes where
  "payload_stream_domain_v3 = ascii ''splitbind-v3-payload-stream'' @ [0]"

text \<open>What the codec reads of a profile.\<close>

record codec_profile =
  cp_version :: nat
  cp_seed_domain :: bytes
  cp_stream_domain :: bytes
  cp_schema_version :: int
  cp_tile_size_px :: int
  cp_bit_replication :: int
  cp_bit_confidence_min :: double
  cp_qim_delta :: double
  cp_identifier :: "exn + bytes"

definition codec_v2 :: "fingerprint_v2_profile \<Rightarrow> codec_profile" where
  "codec_v2 p = \<lparr>cp_version = 2, cp_seed_domain = payload_seed_domain, cp_stream_domain = payload_stream_domain,
     cp_schema_version = f2_schema_version p, cp_tile_size_px = f2_tile_size_px p,
     cp_bit_replication = f2_bit_replication p, cp_bit_confidence_min = f2_bit_confidence_min p,
     cp_qim_delta = f2_qim_delta p, cp_identifier = candidate_identifier_v2 p\<rparr>"

definition codec_v3 :: "fingerprint_v3_profile \<Rightarrow> codec_profile" where
  "codec_v3 p = \<lparr>cp_version = 3, cp_seed_domain = payload_seed_domain_v3, cp_stream_domain = payload_stream_domain_v3,
     cp_schema_version = f3_schema_version p, cp_tile_size_px = f3_tile_size_px p,
     cp_bit_replication = f3_bit_replication p, cp_bit_confidence_min = f3_bit_confidence_min p,
     cp_qim_delta = f3_qim_delta p, cp_identifier = candidate_identifier_v3 p\<rparr>"

definition tile_capacity :: "codec_profile \<Rightarrow> nat" where
  "tile_capacity p = 2 * (nat (cp_tile_size_px p) div 16) ^ 2"

definition frozen_confidence :: rat where
  "frozen_confidence = the (double_value 0x3FE3333333333333)"

definition validate_codec_profile :: "codec_profile \<Rightarrow> exn + bytes" where
  "validate_codec_profile p =
     sum_then (sum_require (cp_schema_version p = int (cp_version p))
        (ValueError (''profile schema_version must be '' @ decimal (cp_version p)))) (\<lambda>_.
     sum_then (sum_require (0 < cp_tile_size_px p \<and> cp_tile_size_px p mod 16 = 0)
        (ValueError ''profile tile_size_px must be a positive multiple of 16'')) (\<lambda>_.
     sum_then (sum_require (cp_bit_replication p = 3)
        (ValueError ''profile bit_replication must be the frozen value 3'')) (\<lambda>_.
     sum_then (sum_require (double_value (cp_bit_confidence_min p) = Some frozen_confidence)
        (ValueError ''profile bit_confidence_min must be the frozen value 0.60'')) (\<lambda>_.
     sum_then (sum_require (case double_value (cp_qim_delta p) of None \<Rightarrow> False | Some v \<Rightarrow> 0 < v)
        (ValueError ''profile qim_delta must be finite and positive'')) (\<lambda>_.
     cp_identifier p)))))"

definition validate_binding :: "bytes \<Rightarrow> int \<Rightarrow> codec_profile \<Rightarrow> exn + bytes" where
  "validate_binding key page_index p =
     sum_then (validate_bytes ''key'' key) (\<lambda>_.
     sum_then (validate_page_index page_index) (\<lambda>_.
     validate_codec_profile p))"

text \<open>The first replicas in blocks not used yet, and the positions that remain.\<close>

fun pick_replicas :: "nat \<Rightarrow> nat list \<Rightarrow> nat list \<Rightarrow> nat list \<times> nat list" where
  "pick_replicas r blocks [] = ([], [])"
| "pick_replicas r blocks (v # vs) =
     (if r = 0 then ([], v # vs)
      else if v div length coefficient_pairs \<in> set blocks
      then (let (picked, rest) = pick_replicas r blocks vs in (picked, v # rest))
      else (let (picked, rest) = pick_replicas (r - 1) (v div length coefficient_pairs # blocks) vs in (v # picked, rest)))"

fun place_bits :: "nat \<Rightarrow> nat \<Rightarrow> nat \<Rightarrow> nat list \<Rightarrow> exn + nat list list" where
  "place_bits version r 0 positions = Inr []"
| "place_bits version r (Suc bits) positions =
     (let (picked, rest) = pick_replicas r [] positions
      in if length picked \<noteq> r then Inl (ValueError (''V'' @ decimal version @ '' tile cannot place replicas in distinct DCT blocks''))
         else sum_then (place_bits version r bits rest) (\<lambda>more. Inr (picked # more)))"

definition replica_groups ::
  "hmac \<Rightarrow> bytes \<Rightarrow> int \<Rightarrow> codec_profile \<Rightarrow> exn + nat list list" where
  "replica_groups hm key page_index p =
     sum_then (validate_binding key page_index p) (\<lambda>identifier.
     let required = codeword_bytes * bits_per_byte * nat (cp_bit_replication p); capacity = tile_capacity p
     in if required > capacity
        then Inl (ValueError (''V'' @ decimal (cp_version p) @ '' tile capacity is '' @ decimal capacity @ '' bits, but embedding needs '' @ decimal required))
        else
          let seed = hm key (cp_seed_domain p @ be_bytes 4 (nat page_index) @ identifier)
          in sum_then (shuffle (stream_block hm (cp_stream_domain p) seed) [0..<capacity]) (\<lambda>positions.
             place_bits (cp_version p) (nat (cp_bit_replication p)) (codeword_bytes * bits_per_byte) positions))"

definition selected_positions ::
  "hmac \<Rightarrow> bytes \<Rightarrow> int \<Rightarrow> codec_profile \<Rightarrow> exn + nat list" where
  "selected_positions hm key page_index p = sum_then (replica_groups hm key page_index p) (\<lambda>groups. Inr (concat groups))"

text \<open>The block corner and the coefficient pair of a position.\<close>

definition position_components ::
  "nat \<Rightarrow> codec_profile \<Rightarrow> nat \<times> nat \<times> coefficient \<times> coefficient" where
  "position_components position p =
     (let block_index = position div length coefficient_pairs; pair_index = position mod length coefficient_pairs;
          blocks_per_edge = nat (cp_tile_size_px p) div 16;
          (first, second) = coefficient_pairs ! pair_index
      in (block_index div blocks_per_edge * 8, block_index mod blocks_per_edge * 8, first, second))"

section \<open>Picking replicas\<close>

lemma two_pairs [simp]: "length coefficient_pairs = 2"
  by (simp add: coefficient_pairs_def)

lemma pick_replicas_parts:
  "pick_replicas r blocks vs = (picked, rest) \<Longrightarrow>
     mset vs = mset (picked @ rest) \<and> length picked \<le> r \<and> distinct (map (\<lambda>v. v div 2) picked)
     \<and> set blocks \<inter> (\<lambda>v. v div 2) ` set picked = {}"
proof (induction r blocks vs arbitrary: picked rest rule: pick_replicas.induct)
  case (2 r blocks v vs)
  consider "r = 0" | "r \<noteq> 0" "v div 2 \<in> set blocks" | "r \<noteq> 0" "v div 2 \<notin> set blocks" by blast
  then show ?case
  proof cases
    case 1
    with 2(3) show ?thesis by auto
  next
    case 2
    obtain p q where pq: "pick_replicas r blocks vs = (p, q)" by fastforce
    with 2 \<open>pick_replicas r blocks (v # vs) = (picked, rest)\<close> have "picked = p" "rest = v # q" by auto
    with "2.IH"(1) [of p q] 2 pq show ?thesis by auto
  next
    case 3
    obtain p q where pq: "pick_replicas (r - 1) (v div 2 # blocks) vs = (p, q)" by fastforce
    with 3 \<open>pick_replicas r blocks (v # vs) = (picked, rest)\<close> have "picked = v # p" "rest = q" by auto
    with "2.IH"(2) [of p q] 3 pq show ?thesis by (auto simp: image_iff)
  qed
qed auto

text \<open>With enough blocks left all the replicas are found.\<close>

lemma pick_replicas_full:
  "pick_replicas r blocks vs = (picked, rest) \<Longrightarrow> r \<le> card ((\<lambda>v. v div 2) ` set vs - set blocks) \<Longrightarrow> length picked = r"
proof (induction r blocks vs arbitrary: picked rest rule: pick_replicas.induct)
  case (2 r blocks v vs)
  consider "r = 0" | "r \<noteq> 0" "v div 2 \<in> set blocks" | "r \<noteq> 0" "v div 2 \<notin> set blocks" by blast
  then show ?case
  proof cases
    case 1
    with 2(3) show ?thesis by auto
  next
    case 2
    obtain p q where pq: "pick_replicas r blocks vs = (p, q)" by fastforce
    have "(\<lambda>v. v div 2) ` set (v # vs) - set blocks = (\<lambda>v. v div 2) ` set vs - set blocks" using 2 by auto
    with "2.IH"(1) [of p q] 2 pq \<open>pick_replicas r blocks (v # vs) = (picked, rest)\<close>
      \<open>r \<le> card ((\<lambda>v. v div 2) ` set (v # vs) - set blocks)\<close> show ?thesis by auto
  next
    case 3
    obtain p q where pq: "pick_replicas (r - 1) (v div 2 # blocks) vs = (p, q)" by fastforce
    have "(\<lambda>v. v div 2) ` set (v # vs) - set blocks
       = insert (v div 2) ((\<lambda>v. v div 2) ` set vs - set (v div 2 # blocks))" using 3 by auto
    then have "card ((\<lambda>v. v div 2) ` set (v # vs) - set blocks)
       = Suc (card ((\<lambda>v. v div 2) ` set vs - set (v div 2 # blocks)))" by simp
    with \<open>r \<le> card ((\<lambda>v. v div 2) ` set (v # vs) - set blocks)\<close>
    have "r - 1 \<le> card ((\<lambda>v. v div 2) ` set vs - set (v div 2 # blocks))" by linarith
    with "2.IH"(2) [of p q] 3 pq have "length p = r - 1" by simp
    with 3 pq \<open>pick_replicas r blocks (v # vs) = (picked, rest)\<close> show ?thesis by auto
  qed
qed auto

lemma card_halves: "finite S \<Longrightarrow> card S \<le> 2 * card ((\<lambda>v::nat. v div 2) ` S)"
proof -
  assume "finite S"
  have "S \<subseteq> (\<lambda>(b, i). 2 * b + i) ` ((\<lambda>v. v div 2) ` S \<times> {0, 1})"
  proof
    fix v assume "v \<in> S"
    then show "v \<in> (\<lambda>(b, i). 2 * b + i) ` ((\<lambda>v. v div 2) ` S \<times> {0, 1})"
      by (intro image_eqI [of _ _ "(v div 2, v mod 2)"]) auto
  qed
  then have "card S \<le> card ((\<lambda>v. v div 2) ` S \<times> {0, 1 :: nat})"
    using \<open>finite S\<close> by (metis (no_types, lifting) card_image_le card_mono finite.emptyI finite.insertI finite_SigmaI finite_imageI le_trans)
  then show ?thesis by (simp add: card_cartesian_product)
qed

section \<open>Placing the bits\<close>

text \<open>What holds of the groups: as many positions per bit as asked, in distinct blocks, no position twice.\<close>

definition spread_groups :: "nat \<Rightarrow> nat list \<Rightarrow> nat list list \<Rightarrow> bool" where
  "spread_groups r positions groups \<longleftrightarrow>
     list_all (\<lambda>g. length g = r \<and> distinct (map (\<lambda>v. v div 2) g)) groups \<and> mset (concat groups) \<subseteq># mset positions"

lemma place_bits_spread: "place_bits version r n positions = Inr groups \<Longrightarrow> spread_groups r positions groups \<and> length groups = n"
proof (induction version r n positions arbitrary: groups rule: place_bits.induct)
  case (2 version r bits positions)
  obtain picked rest where pick: "pick_replicas r [] positions = (picked, rest)" by fastforce
  with 2(2) obtain more where more: "length picked = r" "place_bits version r bits rest = Inr more" "groups = picked # more"
    by (auto simp: sum_then_Inr split: if_splits)
  from pick_replicas_parts [OF pick] have p: "mset positions = mset picked + mset rest" "distinct (map (\<lambda>v. v div 2) picked)"
    by simp_all
  from 2(1) [OF pick [symmetric] refl _ more(2)] more(1)
  have "spread_groups r rest more" "length more = bits" by simp_all
  with p more show ?case by (auto simp: spread_groups_def)
qed (simp add: spread_groups_def)

lemma place_bits_total:
  "distinct positions \<Longrightarrow> 3 * n + 2 \<le> length positions \<Longrightarrow> \<exists>groups. place_bits version 3 n positions = Inr groups"
proof (induction n arbitrary: positions)
  case (Suc n)
  obtain picked rest where pick: "pick_replicas 3 [] positions = (picked, rest)" by fastforce
  have "3 \<le> card ((\<lambda>v. v div 2) ` set positions)"
    using card_halves [of "set positions"] Suc(2,3) by (simp add: distinct_card)
  then have l: "length picked = 3" using pick_replicas_full [OF pick] by simp
  from pick_replicas_parts [OF pick] have m: "mset positions = mset (picked @ rest)" by simp
  then have "length positions = length picked + length rest" by (metis length_append mset_eq_length)
  moreover have "distinct rest" using m Suc(2) by (metis distinct_append mset_eq_imp_distinct_iff)
  ultimately obtain more where "place_bits version 3 n rest = Inr more" using Suc.IH [of rest] Suc(3) l by auto
  then show ?case using pick l by (simp add: sum_then_def)
qed simp

lemma capacity_slack: "codeword_bytes * bits_per_byte * 3 \<le> tile_capacity p \<Longrightarrow> 3 * 312 + 2 \<le> tile_capacity p"
proof -
  assume a: "codeword_bytes * bits_per_byte * 3 \<le> tile_capacity p"
  define k where "k = nat (cp_tile_size_px p) div 16"
  have "22 \<le> k"
  proof (rule ccontr)
    assume "\<not> 22 \<le> k"
    then have "k ^ 2 \<le> 21 ^ 2" by (intro power_mono) auto
    with a show False by (simp add: tile_capacity_def k_def codeword_bytes_def bits_per_byte_def)
  qed
  then have "22 ^ 2 \<le> k ^ 2" by (intro power_mono) auto
  then show ?thesis by (simp add: tile_capacity_def k_def)
qed

lemma position_components_inj:
  assumes "position_components v p = position_components w p" "0 < nat (cp_tile_size_px p) div 16"
  shows "v = w"
proof -
  define k where "k = nat (cp_tile_size_px p) div 16"
  have e: "v div 2 div k = w div 2 div k" "v div 2 mod k = w div 2 mod k"
     "coefficient_pairs ! (v mod 2) = coefficient_pairs ! (w mod 2)"
    using assms by (auto simp: position_components_def Let_def k_def split: prod.splits)
  have "v div 2 = w div 2" using e(1,2) by (metis div_mult_mod_eq)
  moreover have "v mod 2 = w mod 2"
  proof -
    have "v mod 2 = 0 \<or> v mod 2 = 1" "w mod 2 = 0 \<or> w mod 2 = 1" by auto
    with e(3) show ?thesis by (auto simp: coefficient_pairs_def)
  qed
  ultimately show ?thesis by (metis div_mult_mod_eq)
qed

lemma binding_valid:
  assumes "validate_binding key page_index p = Inr i"
  shows "cp_bit_replication p = 3" "0 < cp_tile_size_px p" "cp_tile_size_px p mod 16 = 0"
  using assms by (auto simp: validate_binding_def validate_codec_profile_def sum_then_Inr sum_require_def split: if_splits)

lemma replica_groups_Inr:
  assumes "replica_groups hm key page_index p = Inr groups"
  obtains positions where "mset positions = mset [0..<tile_capacity p]" "cp_bit_replication p = 3"
    "0 < nat (cp_tile_size_px p) div 16" "place_bits (cp_version p) 3 312 positions = Inr groups"
proof -
  from assms obtain ident positions where v: "validate_binding key page_index p = Inr ident"
    and s: "shuffle (stream_block hm (cp_stream_domain p)
       (hm key (cp_seed_domain p @ be_bytes 4 (nat page_index) @ ident))) [0..<tile_capacity p] = Inr positions"
    and g: "place_bits (cp_version p) (nat (cp_bit_replication p)) (codeword_bytes * bits_per_byte) positions = Inr groups"
    by (auto simp: replica_groups_def Let_def sum_then_Inr split: if_splits)
  from binding_valid [OF v] have "16 \<le> cp_tile_size_px p" by presburger
  then have "16 \<le> nat (cp_tile_size_px p)" by linarith
  then have "0 < nat (cp_tile_size_px p) div 16" by (simp add: div_greater_zero_iff)
  with that [of positions] shuffle_perm [OF s] binding_valid [OF v] g show thesis
    by (simp add: codeword_bytes_def bits_per_byte_def)
qed

text \<open>
  C11. Where the bits of a codeword go: a call either refuses its arguments, or runs out of the counter
  of the stream, or gives 312 groups of three positions, every group in three different DCT blocks,
  where no two of the 936 positions name the same block and coefficient pair. The code's check
  that a tile has room for the replicas in distinct blocks never fires.
\<close>

theorem replicas_spread:
  "case replica_groups hm key page_index p of
     Inl e \<Rightarrow> (case validate_binding key page_index p of
         Inl refusal \<Rightarrow> e = refusal
       | Inr _ \<Rightarrow> if tile_capacity p < 936
           then e = ValueError (''V'' @ decimal (cp_version p) @ '' tile capacity is '' @ decimal (tile_capacity p) @ '' bits, but embedding needs '' @ decimal 936)
           else e = OverflowError ''int too big to convert'')
   | Inr groups \<Rightarrow> length groups = 312
       \<and> list_all (\<lambda>g. length g = 3 \<and> distinct (map (\<lambda>v. v div 2) g)) groups
       \<and> list_all (\<lambda>v. v < tile_capacity p) (concat groups)
       \<and> distinct (map (\<lambda>v. position_components v p) (concat groups))"
proof (cases "replica_groups hm key page_index p")
  case (Inr groups)
  then obtain positions where m: "mset positions = mset [0..<tile_capacity p]" "0 < nat (cp_tile_size_px p) div 16"
    and g: "place_bits (cp_version p) 3 312 positions = Inr groups"
    by (rule replica_groups_Inr)
  from place_bits_spread [OF g] have sp: "spread_groups 3 positions groups" "length groups = 312" by simp_all
  have sub: "mset (concat groups) \<subseteq># mset [0..<tile_capacity p]" using sp(1) m(1) by (simp add: spread_groups_def)
  obtain others where "mset [0..<tile_capacity p] = mset (concat groups @ others)"
    using sub by (metis mset_append mset_subset_eq_exists_conv ex_mset)
  then have d: "distinct (concat groups)" by (metis distinct_append distinct_upt mset_eq_imp_distinct_iff)
  have "set (concat groups) \<subseteq> {..<tile_capacity p}" using set_mset_mono [OF sub] by (auto simp: subset_iff)
  then have l: "list_all (\<lambda>v. v < tile_capacity p) (concat groups)" by (auto simp: list_all_iff)
  have "inj_on (\<lambda>v. position_components v p) (set (concat groups))"
    by (intro inj_onI position_components_inj [where p = p]) (use m(2) in auto)
  with d l sp Inr show ?thesis by (simp add: spread_groups_def distinct_map)
next
  case (Inl e)
  show ?thesis
  proof (cases "validate_binding key page_index p")
    case (Inl refusal)
    with \<open>replica_groups hm key page_index p = Inl e\<close> show ?thesis by (simp add: replica_groups_def)
  next
    case (Inr ident)
    let ?seed = "hm key (cp_seed_domain p @ be_bytes 4 (nat page_index) @ ident)"
    have r: "nat (cp_bit_replication p) = 3" using binding_valid(1) [OF Inr] by simp
    have n: "codeword_bytes * bits_per_byte = 312" by (simp add: codeword_bytes_def bits_per_byte_def)
    show ?thesis
    proof (cases "shuffle (stream_block hm (cp_stream_domain p) ?seed) [0..<tile_capacity p]")
      case Inl
      with \<open>replica_groups hm key page_index p = Inl e\<close> Inr r n shuffle_error [OF Inl] show ?thesis
        by (auto simp: replica_groups_def Let_def sum_then_def split: if_splits)
    next
      case Inr': (Inr positions)
      have "tile_capacity p < 936"
      proof (rule ccontr)
        assume "\<not> tile_capacity p < 936"
        then have "3 * 312 + 2 \<le> tile_capacity p" using capacity_slack [of p] n by simp
        then have "\<exists>groups. place_bits (cp_version p) 3 312 positions = Inr groups"
          using shuffle_perm [OF Inr'] by (intro place_bits_total) (metis distinct_upt mset_eq_imp_distinct_iff, metis length_upt diff_zero mset_eq_length)
        with \<open>replica_groups hm key page_index p = Inl e\<close> Inr r n Inr' \<open>\<not> tile_capacity p < 936\<close> show False
          by (auto simp: replica_groups_def Let_def sum_then_def)
      qed
      with \<open>replica_groups hm key page_index p = Inl e\<close> Inr r n show ?thesis
        by (simp add: replica_groups_def Let_def sum_then_def)
    qed
  qed
qed

end
