(* ===== verification/BitPacking.thy ===== *)
theory BitPacking
  imports PyLib
begin

text \<open>
  Bytes as bits, the most significant first: \<open>np.unpackbits\<close> and \<open>np.packbits\<close> with \<open>bitorder="big"\<close>, and the
  comprehensions of \<open>splitbind_ref/integrity.py\<close> that do the same.
\<close>

definition byte_bits :: "byte \<Rightarrow> bool list" where
  "byte_bits b = rev (map (bit b) [0..<8])"

definition bits_byte :: "bool list \<Rightarrow> byte" where
  "bits_byte bs = horner_sum of_bool 2 (rev bs)"

definition unpack_bits :: "bytes \<Rightarrow> bool list" where
  "unpack_bits bs = concat (map byte_bits bs)"

fun pack_bits :: "bool list \<Rightarrow> bytes" where
  "pack_bits [] = []"
| "pack_bits (b # bs) = bits_byte (take 8 (b # bs)) # pack_bits (drop 8 (b # bs))"

lemma length_byte_bits [simp]: "length (byte_bits b) = 8"
  by (simp add: byte_bits_def)

lemma bits_byte_bits [simp]: "bits_byte (byte_bits b) = b"
  using horner_sum_bit_eq_take_bit [of b 8] by (simp add: bits_byte_def byte_bits_def take_bit_word_eq_self)

lemma length_unpack_bits [simp]: "length (unpack_bits bs) = 8 * length bs"
  by (induction bs) (simp_all add: unpack_bits_def)

lemma unpack_bits_simps [simp]: "unpack_bits [] = []" "unpack_bits (b # bs) = byte_bits b @ unpack_bits bs"
  by (simp_all add: unpack_bits_def)

lemma pack_bits_append: "length xs = 8 \<Longrightarrow> pack_bits (xs @ ys) = bits_byte xs # pack_bits ys"
  by (cases xs) simp_all

lemma pack_unpack_bits [simp]: "pack_bits (unpack_bits bs) = bs"
  by (induction bs) (simp_all add: pack_bits_append)

end
