(* ===== verification/Spread.thy ===== *)
theory Spread
  imports TileLayout BitPacking
begin

text \<open>
  The spread codec of version 3 (\<open>splitbind_ref/fingerprint_v3_spread.py\<close>): keyed groups of chips, samples of the
  tile that are darkened or lightened for a bit, and the reading of a codeword from the means of the
  groups. \<open>np.mean\<close> is a parameter.
\<close>

section \<open>Chips\<close>

definition chip_seed_domain :: bytes where
  "chip_seed_domain = ascii ''splitbind-v3-spread-chip-permutation'' @ [0]"

definition chip_stream_domain :: bytes where
  "chip_stream_domain = ascii ''splitbind-v3-spread-chip-stream'' @ [0]"

definition spread_bits :: nat where "spread_bits = 39 * 8"

definition chips_per_block :: nat where "chips_per_block = 16"

text \<open>The samples of four rows and four columns of the flattened tile.\<close>

definition quadrant :: "nat \<Rightarrow> nat \<Rightarrow> nat \<Rightarrow> nat list" where
  "quadrant edge x0 y0 = map (\<lambda>(y, x). y * edge + x) (List.product [y0..<y0 + 4] [x0..<x0 + 4])"

text \<open>Two opposite quadrants of a carrier block, in one of four orientations.\<close>

definition block_chips :: "nat \<Rightarrow> nat \<Rightarrow> nat \<Rightarrow> nat list \<times> nat list" where
  "block_chips edge block_index orientation =
     (let blocks_per_edge = edge div 8;
          origin_y = block_index div blocks_per_edge * 8; origin_x = block_index mod blocks_per_edge * 8;
          first = quadrant edge (origin_x + (if 2 \<le> orientation then 4 else 0)) origin_y;
          second = quadrant edge (origin_x + (if 2 \<le> orientation then 0 else 4)) (origin_y + 4)
      in if odd orientation then (second, first) else (first, second))"

fun bit_group :: "(nat \<Rightarrow> bytes) \<Rightarrow> nat \<Rightarrow> nat list \<Rightarrow> byte_stream \<Rightarrow> exn + ((nat list \<times> nat list) \<times> byte_stream)" where
  "bit_group block edge [] s = Inr (([], []), s)"
| "bit_group block edge (b # bs) s = sum_then (randbelow block 4 s) (\<lambda>(orientation, t).
     let (first, second) = block_chips edge b orientation
     in sum_then (bit_group block edge bs t) (\<lambda>((group_a, group_b), u). Inr ((first @ group_a, second @ group_b), u)))"

fun bit_groups :: "(nat \<Rightarrow> bytes) \<Rightarrow> nat \<Rightarrow> nat \<Rightarrow> nat \<Rightarrow> nat list \<Rightarrow> byte_stream \<Rightarrow> exn + (nat list \<times> nat list) list" where
  "bit_groups block edge blocks_per_bit 0 selected s = Inr []"
| "bit_groups block edge blocks_per_bit (Suc n) selected s =
     sum_then (bit_group block edge (take blocks_per_bit selected) s) (\<lambda>(g, t).
     sum_then (bit_groups block edge blocks_per_bit n (drop blocks_per_bit selected) t) (\<lambda>gs. Inr (g # gs)))"

definition validate_spread_binding :: "bytes \<Rightarrow> int \<Rightarrow> fingerprint_v3_profile \<Rightarrow> exn + bytes" where
  "validate_spread_binding key page_index p =
     sum_then (validate_bytes ''key'' key) (\<lambda>_.
     sum_then (validate_page_index page_index) (\<lambda>_.
     candidate_identifier_v3 p))"

definition chip_groups :: "hmac \<Rightarrow> bytes \<Rightarrow> int \<Rightarrow> fingerprint_v3_profile \<Rightarrow> exn + (nat list \<times> nat list) list" where
  "chip_groups hm key page_index p =
     sum_then (validate_spread_binding key page_index p) (\<lambda>identifier.
     let chips = nat (f3_spread_chips_per_bit p); edge = nat (f3_tile_size_px p);
         blocks_per_bit = chips div chips_per_block; capacity = (edge div 8) ^ 2;
         required = spread_bits * blocks_per_bit
     in if chips mod chips_per_block \<noteq> 0 then Inl (ValueError ''V3 spread chips per bit must be divisible by 16'')
        else if required > capacity
        then Inl (ValueError (''V3 spread capacity is '' @ decimal capacity @ '' carrier blocks, but embedding needs '' @ decimal required))
        else
          let block = stream_block hm chip_stream_domain
                (hm key (chip_seed_domain @ be_bytes 4 (nat page_index) @ identifier))
          in sum_then (shuffle_from block [0..<capacity] empty_stream) (\<lambda>(block_indexes, t).
             bit_groups block edge blocks_per_bit spread_bits (take required block_indexes) t))"

section \<open>The chips of different blocks are different\<close>

text \<open>The carrier block of a sample.\<close>

definition sample_block :: "nat \<Rightarrow> nat \<Rightarrow> nat" where
  "sample_block edge i = i div edge div 8 * (edge div 8) + i mod edge div 8"

lemma set_quadrant:
  "x0 + 4 \<le> edge \<Longrightarrow> i \<in> set (quadrant edge x0 y0) \<longleftrightarrow>
     i div edge \<in> {y0..<y0 + 4} \<and> i mod edge \<in> {x0..<x0 + 4}"
proof -
  assume e: "x0 + 4 \<le> edge"
  then have "0 < edge" by simp
  show ?thesis
  proof
    assume "i \<in> set (quadrant edge x0 y0)"
    then obtain y x where "y \<in> {y0..<y0 + 4}" "x \<in> {x0..<x0 + 4}" "i = y * edge + x" by (auto simp: quadrant_def)
    then show "i div edge \<in> {y0..<y0 + 4} \<and> i mod edge \<in> {x0..<x0 + 4}" using e by auto
  next
    assume "i div edge \<in> {y0..<y0 + 4} \<and> i mod edge \<in> {x0..<x0 + 4}"
    then show "i \<in> set (quadrant edge x0 y0)"
      unfolding quadrant_def set_map set_product
      by (intro image_eqI [of _ _ "(i div edge, i mod edge)"]) auto
  qed
qed

lemma distinct_quadrant: "x0 + 4 \<le> edge \<Longrightarrow> distinct (quadrant edge x0 y0)"
proof -
  assume e: "x0 + 4 \<le> edge"
  have "inj_on (\<lambda>(y, x). y * edge + x) ({y0..<y0 + 4} \<times> {x0..<x0 + 4})"
  proof (rule inj_onI, clarify)
    fix y x y' x'
    assume "x \<in> {x0..<x0 + 4}" "x' \<in> {x0..<x0 + 4}" and eq: "y * edge + x = y' * edge + x'"
    then have l: "x < edge" "x' < edge" using e by auto
    from arg_cong [OF eq, of "\<lambda>i. i div edge"] l have "y = y'" by simp
    with eq show "y = y' \<and> x = x'" by simp
  qed
  then show ?thesis by (simp add: quadrant_def distinct_map distinct_product)
qed

lemma length_quadrant [simp]: "length (quadrant edge x0 y0) = 16"
  by (simp add: quadrant_def)

lemma quadrant_block:
  assumes "b < (edge div 8) ^ 2" "i \<in> set (quadrant edge (b mod (edge div 8) * 8 + dx) (b div (edge div 8) * 8 + dy))" "dx \<le> 4" "dy \<le> 4"
  shows "sample_block edge i = b" "i < edge ^ 2"
proof -
  let ?n = "edge div 8"
  have n: "0 < ?n" using assms(1) by (cases "?n = 0") auto
  have x: "b mod ?n < ?n" using n by simp
  have y: "b div ?n < ?n" using assms(1) by (simp add: less_mult_imp_div_less power2_eq_square)
  have e: "8 * ?n \<le> edge" by simp
  have le: "b mod ?n * 8 + dx + 4 \<le> edge" using x assms(3) e by linarith
  from assms(2) [unfolded set_quadrant [OF le]]
  have i: "i div edge div 8 = b div ?n" "i mod edge div 8 = b mod ?n" "i div edge < edge"
    using assms(3,4) y e by auto
  show "sample_block edge i = b" unfolding sample_block_def i by (rule div_mult_mod_eq)
  have "i < edge * edge" using i(3) by (metis div_less_iff_less_mult gr_implies_not0 neq0_conv div_by_0 less_nat_zero_code)
  then show "i < edge ^ 2" by (simp add: power2_eq_square)
qed

text \<open>Samples that lie in the blocks of a list, each of them once.\<close>

definition chips_within :: "nat \<Rightarrow> nat set \<Rightarrow> nat list \<Rightarrow> bool" where
  "chips_within edge blocks is \<longleftrightarrow> distinct is \<and> (\<forall>i\<in>set is. sample_block edge i \<in> blocks \<and> i < edge ^ 2)"

lemma chips_within_append:
  "chips_within edge A is \<Longrightarrow> chips_within edge B js \<Longrightarrow> A \<inter> B = {} \<Longrightarrow> chips_within edge (A \<union> B) (is @ js)"
  unfolding chips_within_def by (simp add: Ball_def) blast

lemma chips_within_mset: "chips_within edge A is \<Longrightarrow> mset js = mset is \<Longrightarrow> chips_within edge A js"
  unfolding chips_within_def by (metis mset_eq_imp_distinct_iff mset_eq_setD)

lemma block_chips_within:
  assumes "b < (edge div 8) ^ 2" "block_chips edge b orientation = (f, g)"
  shows "length f = 16 \<and> length g = 16 \<and> chips_within edge {b} (f @ g)"
proof -
  let ?n = "edge div 8"
  have n: "0 < ?n" using assms(1) by (cases "?n = 0") auto
  have "b mod ?n < ?n" using n by simp
  moreover have "8 * ?n \<le> edge" by simp
  ultimately have le: "b mod ?n * 8 + dx + 4 \<le> edge" if "dx \<le> 4" for dx using that by linarith
  have quad: "chips_within edge {b} (quadrant edge (b mod ?n * 8 + dx) (b div ?n * 8 + dy))" if "dx \<le> 4" "dy \<le> 4" for dx dy
    using quadrant_block [OF assms(1), of _ dx dy] distinct_quadrant [OF le [of dx]] that by (auto simp: chips_within_def)
  have apart: "set (quadrant edge (b mod ?n * 8 + dx) (b div ?n * 8 + 0)) \<inter> set (quadrant edge (b mod ?n * 8 + dx') (b div ?n * 8 + 4)) = {}"
    if "dx \<le> 4" "dx' \<le> 4" for dx dx'
    using that by (auto simp: set_quadrant [OF le])
  have both: "chips_within edge {b} (quadrant edge (b mod ?n * 8 + dx) (b div ?n * 8 + 0) @ quadrant edge (b mod ?n * 8 + dx') (b div ?n * 8 + 4))"
    if "dx \<le> 4" "dx' \<le> 4" for dx dx'
    using quad [of dx 0] quad [of dx' 4] apart [of dx dx'] that by (auto simp: chips_within_def)
  let ?dx = "if 2 \<le> orientation then 4 else (0 :: nat)" and ?dx' = "if 2 \<le> orientation then 0 else (4 :: nat)"
  define Q1 where "Q1 = quadrant edge (b mod ?n * 8 + ?dx) (b div ?n * 8 + 0)"
  define Q2 where "Q2 = quadrant edge (b mod ?n * 8 + ?dx') (b div ?n * 8 + 4)"
  have "(f, g) = (if odd orientation then (Q2, Q1) else (Q1, Q2))"
    using assms(2) [symmetric] by (simp add: block_chips_def Let_def Q1_def Q2_def)
  moreover have "chips_within edge {b} (Q1 @ Q2)" unfolding Q1_def Q2_def by (rule both) auto
  moreover have "length Q1 = 16" "length Q2 = 16" by (simp_all add: Q1_def Q2_def)
  ultimately show ?thesis using chips_within_mset [of edge "{b}" "Q1 @ Q2" "Q2 @ Q1"] by (cases "odd orientation") auto
qed

lemma bit_group_within:
  assumes "bit_group block edge bs s = Inr ((a, b), t)" "distinct bs" "set bs \<subseteq> {..<(edge div 8) ^ 2}"
  shows "length a = 16 * length bs \<and> length b = 16 * length bs \<and> chips_within edge (set bs) (a @ b)"
  using assms
proof (induction block edge bs s arbitrary: a b t rule: bit_group.induct)
  case (1 block edge s)
  then show ?case by (simp add: chips_within_def)
next
  case (2 block edge k bs s)
  from 2(2) obtain orientation u where r: "randbelow block 4 s = Inr (orientation, u)"
    by (auto simp: sum_then_Inr)
  obtain f g where fg: "block_chips edge k orientation = (f, g)" by fastforce
  from 2(2) obtain a' b' where rest: "bit_group block edge bs u = Inr ((a', b'), t)"
    and ab: "a = f @ a'" "b = g @ b'"
    by (auto simp: sum_then_Inr r fg)
  from 2(1) [OF refl fg [symmetric] rest] 2(3,4)
  have ih: "length a' = 16 * length bs" "length b' = 16 * length bs" "chips_within edge (set bs) (a' @ b')" by simp_all
  from block_chips_within [OF _ fg] 2(4)
  have here: "length f = 16" "length g = 16" "chips_within edge {k} (f @ g)" by auto
  have "chips_within edge ({k} \<union> set bs) ((f @ g) @ (a' @ b'))"
    using here(3) ih(3) 2(3) by (intro chips_within_append) auto
  then have "chips_within edge (set (k # bs)) ((f @ g) @ (a' @ b'))" by simp
  then have "chips_within edge (set (k # bs)) (a @ b)" by (rule chips_within_mset) (simp add: ab)
  with ih here ab show ?case by simp
qed

definition all_chips :: "(nat list \<times> nat list) list \<Rightarrow> nat list" where
  "all_chips groups = concat (map (\<lambda>(a, b). a @ b) groups)"

lemma all_chips_simps [simp]: "all_chips [] = []" "all_chips (g # gs) = (fst g @ snd g) @ all_chips gs"
  by (simp_all add: all_chips_def split_beta)

lemma bit_groups_within:
  assumes "bit_groups block edge m n selected s = Inr groups" "distinct selected" "set selected \<subseteq> {..<(edge div 8) ^ 2}"
    "n * m \<le> length selected"
  shows "length groups = n \<and> list_all (\<lambda>(a, b). length a = 16 * m \<and> length b = 16 * m) groups
    \<and> chips_within edge (set selected) (all_chips groups)"
  using assms
proof (induction block edge m n selected s arbitrary: groups rule: bit_groups.induct)
  case (1 block edge m selected s)
  then show ?case by (simp add: chips_within_def)
next
  case (2 block edge m n selected s)
  from 2(2) obtain a b t rest where g: "bit_group block edge (take m selected) s = Inr ((a, b), t)"
    and r: "bit_groups block edge m n (drop m selected) t = Inr rest" and groups: "groups = (a, b) # rest"
    by (auto simp: sum_then_Inr)
  from 2(5) have m: "m \<le> length selected" "n * m \<le> length (drop m selected)" by auto
  have sub: "set (take m selected) \<subseteq> {..<(edge div 8) ^ 2}" "set (drop m selected) \<subseteq> {..<(edge div 8) ^ 2}"
    using 2(4) by (auto dest: in_set_takeD in_set_dropD)
  have here: "length a = 16 * m" "length b = 16 * m" "chips_within edge (set (take m selected)) (a @ b)"
    using bit_group_within [OF g] 2(3) sub m by auto
  have ih: "length rest = n" "list_all (\<lambda>(a, b). length a = 16 * m \<and> length b = 16 * m) rest"
    "chips_within edge (set (drop m selected)) (all_chips rest)"
    using 2(1) [OF r] 2(3) sub m by auto
  have "set (take m selected) \<inter> set (drop m selected) = {}" "set (take m selected) \<union> set (drop m selected) = set selected"
    using 2(3) by (metis append_take_drop_id distinct_append, metis append_take_drop_id set_append)
  with chips_within_append [OF here(3) ih(3)] here ih groups show ?case by simp
qed

lemma chip_groups_within:
  assumes "chip_groups hm key i p = Inr groups"
  shows "length groups = 312
    \<and> list_all (\<lambda>(a, b). length a = nat (f3_spread_chips_per_bit p) \<and> length b = nat (f3_spread_chips_per_bit p)) groups
    \<and> list_all (\<lambda>k. k < nat (f3_tile_size_px p) ^ 2) (all_chips groups)
    \<and> distinct (all_chips groups)"
proof -
  let ?chips = "nat (f3_spread_chips_per_bit p)" and ?edge = "nat (f3_tile_size_px p)"
  let ?required = "spread_bits * (?chips div chips_per_block)"
  from assms obtain block order t where c: "?chips mod chips_per_block = 0" "?required \<le> (?edge div 8) ^ 2"
    and order: "shuffle_from block [0..<(?edge div 8) ^ 2] empty_stream = Inr (order, t)"
    and g: "bit_groups block ?edge (?chips div chips_per_block) spread_bits (take ?required order) t = Inr groups"
    by (auto simp: chip_groups_def Let_def sum_then_Inr split: if_splits)
  from shuffle_from_perm [OF order] have o: "distinct order" "set order = {..<(?edge div 8) ^ 2}" "length order = (?edge div 8) ^ 2"
    by (metis distinct_upt mset_eq_imp_distinct_iff, metis atLeast_upt mset_eq_setD, metis diff_zero length_upt mset_eq_length)
  have "16 * (?chips div chips_per_block) = ?chips" using c(1) by (metis add_0_right chips_per_block_def mult_div_mod_eq)
  moreover have "distinct (take ?required order)" "set (take ?required order) \<subseteq> {..<(?edge div 8) ^ 2}"
    "spread_bits * (?chips div chips_per_block) \<le> length (take ?required order)"
    using o c(2) set_take_subset [of ?required order] by simp_all
  from bit_groups_within [OF g this] have "length groups = spread_bits"
    "list_all (\<lambda>(a, b). length a = 16 * (?chips div chips_per_block) \<and> length b = 16 * (?chips div chips_per_block)) groups"
    "chips_within ?edge (set (take ?required order)) (all_chips groups)" by simp_all
  ultimately show ?thesis by (simp add: spread_bits_def chips_within_def list_all_iff)
qed

section \<open>Writing a codeword\<close>

text \<open>A numpy array of two dimensions, its samples row by row.\<close>

record sample_array =
  sa_height :: nat
  sa_width :: nat
  sa_samples :: "pyfloat list"

datatype polarity = Darken | Lighten

definition validate_spread_tile :: "sample_array \<Rightarrow> fingerprint_v3_profile \<Rightarrow> exn + unit" where
  "validate_spread_tile tile p =
     sum_then (candidate_identifier_v3 p) (\<lambda>_.
     let edge = nat (f3_tile_size_px p)
     in sum_then (sum_require (sa_height tile = edge \<and> sa_width tile = edge)
          (ValueError (''tile_luminance must have contracted shape ('' @ decimal edge @ '', '' @ decimal edge @ '')''))) (\<lambda>_.
        sum_then (sum_require (list_all f_isfinite (sa_samples tile))
          (ValueError ''tile_luminance must contain only finite values'')) (\<lambda>_.
        sum_require (\<not> list_ex (\<lambda>s. f_less s (Fin 0) \<or> f_less (Fin 255) s) (sa_samples tile))
          (ValueError ''tile_luminance samples must be in the interval [0, 255]''))))"

definition validate_codeword :: "bytes \<Rightarrow> exn + unit" where
  "validate_codeword codeword = sum_require (length codeword = 39) (ValueError ''codeword must contain exactly 39 bytes'')"

definition embedding_polarity :: "(pyfloat list \<Rightarrow> pyfloat) \<Rightarrow> sample_array \<Rightarrow> polarity" where
  "embedding_polarity mean tile = (if f_le (Fin (255 / 2)) (mean (sa_samples tile)) then Darken else Lighten)"

fun shift_sample :: "polarity \<Rightarrow> pyfloat \<Rightarrow> pyfloat \<Rightarrow> pyfloat" where
  "shift_sample Darken delta s = f_max (Fin 0) (f_sub s delta)"
| "shift_sample Lighten delta s = f_min (Fin 255) (f_add s delta)"

text \<open>\<open>samples[list(active)] = ...\<close> computes every new sample from the old ones.\<close>

definition shift_samples :: "polarity \<Rightarrow> pyfloat \<Rightarrow> nat list \<Rightarrow> pyfloat list \<Rightarrow> pyfloat list" where
  "shift_samples pol delta active samples = foldl (\<lambda>acc i. acc[i := shift_sample pol delta (samples ! i)]) samples active"

definition active_group :: "bool \<Rightarrow> nat list \<times> nat list \<Rightarrow> nat list" where
  "active_group b g = (if b then snd g else fst g)"

definition embed_spread_codeword ::
  "hmac \<Rightarrow> (pyfloat list \<Rightarrow> pyfloat) \<Rightarrow> sample_array \<Rightarrow> bytes \<Rightarrow> bytes \<Rightarrow> int \<Rightarrow> fingerprint_v3_profile \<Rightarrow> exn + sample_array" where
  "embed_spread_codeword hm mean tile codeword key page_index p =
     sum_then (validate_spread_tile tile p) (\<lambda>_.
     sum_then (validate_codeword codeword) (\<lambda>_.
     sum_then (chip_groups hm key page_index p) (\<lambda>groups.
     let pol = embedding_polarity mean tile; delta = py_float (f3_spread_delta p)
     in Inr (tile\<lparr>sa_samples := foldl (\<lambda>samples (b, g). shift_samples pol delta (active_group b g) samples)
          (sa_samples tile) (zip (unpack_bits codeword) groups)\<rparr>))))"

section \<open>Reading a codeword\<close>

record spread_evidence =
  se_codeword :: bytes
  se_erase_positions :: "nat list"
  se_mean_confidence :: pyfloat
  se_polarity :: polarity
  se_erasure_ranking :: "nat list"

definition read_spread_bit ::
  "(pyfloat list \<Rightarrow> pyfloat) \<Rightarrow> pyfloat list \<Rightarrow> pyfloat \<Rightarrow> polarity \<Rightarrow> nat list \<times> nat list \<Rightarrow> exn + (bool \<times> pyfloat)" where
  "read_spread_bit mean samples delta pol g =
     (let difference = f_sub (mean (map ((!) samples) (fst g))) (mean (map ((!) samples) (snd g)));
          b = (case pol of Darken \<Rightarrow> f_less (Fin 0) difference | Lighten \<Rightarrow> \<not> f_less (Fin 0) difference)
      in sum_then (f_div (f_abs difference) delta) (\<lambda>c. Inr (b, f_min (Fin 1) c)))"

text \<open>The running totals of the loop over the bits.\<close>

record confidence_totals =
  ct_sum :: pyfloat
  ct_bytes :: "pyfloat list"
  ct_erasures :: "nat list"

fun add_confidences :: "pyfloat \<Rightarrow> nat \<Rightarrow> pyfloat list \<Rightarrow> confidence_totals \<Rightarrow> confidence_totals" where
  "add_confidences least bit_index [] t = t"
| "add_confidences least bit_index (c # cs) t =
     (let k = bit_index div 8
      in add_confidences least (Suc bit_index) cs
           \<lparr>ct_sum = f_add (ct_sum t) c, ct_bytes = (ct_bytes t)[k := f_min (ct_bytes t ! k) c],
            ct_erasures = (if f_less c least then List.insert k (ct_erasures t) else ct_erasures t)\<rparr>)"

definition no_confidences :: confidence_totals where
  "no_confidences = \<lparr>ct_sum = Fin 0, ct_bytes = replicate 39 PosInf, ct_erasures = []\<rparr>"

definition extract_spread_codeword ::
  "hmac \<Rightarrow> (pyfloat list \<Rightarrow> pyfloat) \<Rightarrow> sample_array \<Rightarrow> bytes \<Rightarrow> int \<Rightarrow> fingerprint_v3_profile \<Rightarrow> polarity \<Rightarrow> exn + spread_evidence" where
  "extract_spread_codeword hm mean tile key page_index p pol =
     sum_then (validate_spread_tile tile p) (\<lambda>_.
     sum_then (chip_groups hm key page_index p) (\<lambda>groups.
     sum_then (sum_map (read_spread_bit mean (sa_samples tile) (py_float (f3_spread_delta p)) pol) groups) (\<lambda>read.
     let totals = add_confidences (py_float (f3_bit_confidence_min p)) 0 (map snd read) no_confidences
     in sum_then (f_of_int (int (length read))) (\<lambda>n.
        sum_then (f_div (ct_sum totals) n) (\<lambda>mean_confidence.
        Inr \<lparr>se_codeword = pack_bits (map fst read), se_erase_positions = sort (ct_erasures totals),
             se_mean_confidence = mean_confidence, se_polarity = pol,
             se_erasure_ranking = rank_erasure_candidates (ct_bytes totals)\<rparr>)))))"

section \<open>A flat tile\<close>

lemma shift_samples_length [simp]: "length (shift_samples pol delta active samples) = length samples"
proof -
  have "length (foldl (\<lambda>acc i. acc[i := f i]) xs is) = length xs" for f :: "nat \<Rightarrow> pyfloat" and xs "is"
    by (induction "is" arbitrary: xs) auto
  then show ?thesis by (simp add: shift_samples_def)
qed

lemma shift_samples_nth:
  "j < length samples \<Longrightarrow> shift_samples pol delta active samples ! j
     = (if j \<in> set active then shift_sample pol delta (samples ! j) else samples ! j)"
proof -
  have "j < length xs \<Longrightarrow> foldl (\<lambda>acc i. acc[i := f i]) xs is ! j = (if j \<in> set is then f j else xs ! j)"
    for f :: "nat \<Rightarrow> pyfloat" and xs "is"
    by (induction "is" arbitrary: xs) (auto simp: nth_list_update)
  then show "j < length samples \<Longrightarrow> ?thesis" by (simp add: shift_samples_def)
qed

text \<open>The samples a codeword changes, and the samples after all its bits are written.\<close>

fun active_samples :: "bool list \<Rightarrow> (nat list \<times> nat list) list \<Rightarrow> nat set" where
  "active_samples (b # bs) (g # gs) = set (active_group b g) \<union> active_samples bs gs"
| "active_samples _ _ = {}"

lemma active_group_sub: "set (active_group b g) \<subseteq> set (fst g) \<union> set (snd g)"
  by (simp add: active_group_def)

lemma active_samples_sub: "active_samples bs gs \<subseteq> set (all_chips gs)"
proof (induction bs gs rule: active_samples.induct)
  case (1 b bs g gs)
  then show ?case using active_group_sub [of b g] by auto
qed simp_all

lemma all_chips_nth: "i < length gs \<Longrightarrow> set (fst (gs ! i)) \<union> set (snd (gs ! i)) \<subseteq> set (all_chips gs)"
  by (induction gs arbitrary: i) (auto simp: nth_Cons split: nat.splits)

lemma write_groups:
  assumes "distinct (all_chips gs)" "j < length samples"
  shows "foldl (\<lambda>samples (b, g). shift_samples pol delta (active_group b g) samples) samples (zip bs gs) ! j
     = (if j \<in> active_samples bs gs then shift_sample pol delta (samples ! j) else samples ! j)"
  using assms
proof (induction bs gs arbitrary: samples rule: active_samples.induct)
  case (1 b bs g gs)
  have "set (active_group b g) \<inter> active_samples bs gs = {}"
    using 1(2) active_group_sub [of b g] active_samples_sub [of bs gs] by auto
  with 1 show ?case by (auto simp: shift_samples_nth)
qed simp_all

lemma active_samples_nth: "i < length bs \<Longrightarrow> length bs = length gs \<Longrightarrow> set (active_group (bs ! i) (gs ! i)) \<subseteq> active_samples bs gs"
  by (induction bs gs arbitrary: i rule: active_samples.induct) (auto simp: nth_Cons split: nat.splits)

lemma inactive_untouched:
  "distinct (all_chips gs) \<Longrightarrow> length bs = length gs \<Longrightarrow> i < length gs \<Longrightarrow>
     set (active_group (\<not> bs ! i) (gs ! i)) \<inter> active_samples bs gs = {}"
proof (induction bs gs arbitrary: i rule: active_samples.induct)
  case (1 b bs g gs)
  show ?case
  proof (cases i)
    case 0
    then show ?thesis
      using 1(2) active_group_sub [of "\<not> b" g] active_samples_sub [of bs gs] by (auto simp: active_group_def)
  next
    case (Suc k)
    then have k: "k < length gs" using 1(4) by simp
    have "set (active_group (\<not> bs ! k) (gs ! k)) \<subseteq> set (all_chips gs)"
      using all_chips_nth [OF k] active_group_sub [of "\<not> bs ! k" "gs ! k"] by blast
    moreover have "set (active_group b g) \<inter> set (all_chips gs) = {}"
      using 1(2) active_group_sub [of b g] by auto
    moreover have "set (active_group (\<not> bs ! k) (gs ! k)) \<inter> active_samples bs gs = {}"
      using 1 k by simp
    ultimately show ?thesis unfolding Suc nth_Cons_Suc active_samples.simps by blast
  qed
qed simp_all

section \<open>The round trip\<close>

text \<open>
  What the round trip needs of \<open>np.mean\<close>: the mean of equal samples that are whole numbers of the eight-bit range
  is that number; every partial sum is a whole number below \<open>2 ^ 53\<close>.
\<close>

definition mean_of_equals :: "(pyfloat list \<Rightarrow> pyfloat) \<Rightarrow> bool" where
  "mean_of_equals mean \<longleftrightarrow> (\<forall>n k. 0 < n \<and> n \<le> 2 ^ 45 \<and> k \<le> 255 \<longrightarrow> mean (replicate n (Fin (of_nat k))) = Fin (of_nat k))"

text \<open>The level the active samples of a flat tile get.\<close>

definition marked_level :: "nat \<Rightarrow> nat \<Rightarrow> nat" where
  "marked_level k d = (if 128 \<le> k then k - d else k + d)"

definition level_polarity :: "nat \<Rightarrow> polarity" where
  "level_polarity k = (if 128 \<le> k then Darken else Lighten)"

lemma to_double_nat: "n < 2 ^ 53 \<Longrightarrow> to_double (of_nat n) = Fin (of_nat n)"
  using f_of_int_small [of "int n"] by (simp add: f_of_int_def split: pyfloat.splits)

lemma to_double_of_int: "\<bar>n\<bar> < 2 ^ 53 \<Longrightarrow> to_double (of_int n) = Fin (of_int n)"
  using f_of_int_small [of n] by (simp add: f_of_int_def split: pyfloat.splits)

lemma shift_sample_level:
  assumes "if 128 \<le> k then d \<le> k \<and> k \<le> 255 else k + d \<le> 255"
  shows "shift_sample (level_polarity k) (Fin (of_nat d)) (Fin (of_nat k)) = Fin (of_nat (marked_level k d))"
proof (cases "128 \<le> k")
  case True
  then have "to_double (of_nat k - of_nat d) = Fin (of_nat (k - d))"
    using to_double_nat [of "k - d"] assms by (simp add: of_nat_diff less_imp_diff_less)
  with True show ?thesis by (simp add: level_polarity_def marked_level_def f_sub_def f_max_def)
next
  case False
  then have "to_double (of_nat k + of_nat d) = Fin (of_nat (k + d))" using to_double_nat [of "k + d"] assms by simp
  moreover have "(of_nat (k + d) :: rat) \<le> of_nat 255" using False assms by (simp only: of_nat_le_iff if_False)
  ultimately show ?thesis using False by (simp add: level_polarity_def marked_level_def f_min_def)
qed

text \<open>One bit of a marked flat tile.\<close>

lemma read_marked_bit:
  assumes mean: "mean_of_equals mean" and d: "0 < d" "if 128 \<le> k then d \<le> k \<and> k \<le> 255 else k + d \<le> 255"
    and n: "0 < n" "n \<le> 2 ^ 45" "length (fst g) = n" "length (snd g) = n"
    and active: "\<And>i. i \<in> set (active_group b g) \<Longrightarrow> samples ! i = Fin (of_nat (marked_level k d))"
    and other: "\<And>i. i \<in> set (active_group (\<not> b) g) \<Longrightarrow> samples ! i = Fin (of_nat k)"
  shows "read_spread_bit mean samples (Fin (of_nat d)) (level_polarity k) g = Inr (b, Fin 1)"
proof -
  have le: "marked_level k d \<le> 255" "k \<le> 255" using d by (auto simp: marked_level_def split: if_splits)
  have "map ((!) samples) (active_group b g) = replicate n (Fin (of_nat (marked_level k d)))"
    using active n by (intro replicate_eqI) (auto simp: active_group_def)
  then have ma: "mean (map ((!) samples) (active_group b g)) = Fin (of_nat (marked_level k d))"
    using mean n(1,2) le(1) by (simp add: mean_of_equals_def)
  have "map ((!) samples) (active_group (\<not> b) g) = replicate n (Fin (of_nat k))"
    using other n by (intro replicate_eqI) (auto simp: active_group_def)
  then have mo: "mean (map ((!) samples) (active_group (\<not> b) g)) = Fin (of_nat k)"
    using mean n(1,2) le(2) by (simp add: mean_of_equals_def)
  have one: "to_double 1 = Fin 1" using to_double_nat [of 1] by simp
  have pm: "to_double (of_nat d) = Fin (of_nat d)" "to_double (- of_nat d) = Fin (- of_nat d)"
    using to_double_nat [of d] to_double_of_int [of "- int d"] d by (auto split: if_splits)
  show ?thesis
    using d ma mo pm one
    by (cases b; cases "128 \<le> k")
       (simp_all add: read_spread_bit_def Let_def active_group_def level_polarity_def marked_level_def f_sub_def f_min_def
         of_nat_diff)
qed

lemma add_full_confidences:
  assumes "\<not> f_less (Fin 1) least" "i + n \<le> 8 * length (ct_bytes t)" "list_all (\<lambda>c. c = PosInf \<or> c = Fin 1) (ct_bytes t)"
    "ct_sum t = Fin (of_nat i)" "i + n < 2 ^ 53"
  shows "let u = add_confidences least i (replicate n (Fin 1)) t
    in ct_sum u = Fin (of_nat (i + n)) \<and> ct_erasures u = ct_erasures t \<and> length (ct_bytes u) = length (ct_bytes t)
     \<and> (\<forall>k<length (ct_bytes t). ct_bytes u ! k = (if k \<in> (\<lambda>j. j div 8) ` {i..<i + n} then Fin 1 else ct_bytes t ! k))"
  using assms
proof (induction n arbitrary: i t)
  case (Suc n)
  define t' where "t' = \<lparr>ct_sum = f_add (ct_sum t) (Fin 1), ct_bytes = (ct_bytes t)[i div 8 := f_min (ct_bytes t ! (i div 8)) (Fin 1)],
     ct_erasures = ct_erasures t\<rparr>"
  have k: "i div 8 < length (ct_bytes t)" using Suc(3) by linarith
  have m: "f_min (ct_bytes t ! (i div 8)) (Fin 1) = Fin 1" using k Suc(4) by (auto simp: list_all_length f_min_def)
  have er: "ct_erasures t' = ct_erasures t" by (simp add: t'_def)
  have bytes: "ct_bytes t' = (ct_bytes t)[i div 8 := Fin 1]" by (simp add: t'_def m)
  have "list_all (\<lambda>c. c = PosInf \<or> c = Fin 1) (ct_bytes t')"
    using Suc(4) unfolding bytes list_all_iff by (auto dest!: set_update_subset_insert [THEN subsetD])
  moreover have "ct_sum t' = Fin (of_nat (Suc i))"
    using Suc(5,6) to_double_nat [of "Suc i"] by (simp add: t'_def add.commute)
  ultimately have ih: "let u = add_confidences least (Suc i) (replicate n (Fin 1)) t'
    in ct_sum u = Fin (of_nat (Suc i + n)) \<and> ct_erasures u = ct_erasures t' \<and> length (ct_bytes u) = length (ct_bytes t')
     \<and> (\<forall>k<length (ct_bytes t'). ct_bytes u ! k = (if k \<in> (\<lambda>j. j div 8) ` {Suc i..<Suc i + n} then Fin 1 else ct_bytes t' ! k))"
    using Suc(2,3,6) by (intro Suc.IH) (simp_all add: bytes)
  have step: "add_confidences least i (replicate (Suc n) (Fin 1)) t = add_confidences least (Suc i) (replicate n (Fin 1)) t'"
    using Suc(2) by (simp add: t'_def Let_def)
  have range: "{i..<i + Suc n} = insert i {Suc i..<Suc i + n}" by auto
  show ?case
    using ih unfolding step range by (auto simp: Let_def bytes er nth_list_update)
qed simp

lemma full_confidence_totals:
  assumes "\<not> f_less (Fin 1) least"
  shows "add_confidences least 0 (replicate 312 (Fin 1)) no_confidences
    = \<lparr>ct_sum = Fin 312, ct_bytes = replicate 39 (Fin 1), ct_erasures = []\<rparr>"
proof -
  let ?u = "add_confidences least 0 (replicate 312 (Fin 1)) no_confidences"
  have start: "ct_sum no_confidences = Fin (of_nat 0)" "length (ct_bytes no_confidences) = 39" "ct_erasures no_confidences = []"
    "list_all (\<lambda>c. c = PosInf \<or> c = Fin 1) (ct_bytes no_confidences)" "\<And>k. k < 39 \<Longrightarrow> ct_bytes no_confidences ! k = PosInf"
    by (simp_all add: no_confidences_def list_all_iff)
  have u: "ct_sum ?u = Fin 312" "ct_erasures ?u = []" "length (ct_bytes ?u) = 39"
    "\<And>k. k < 39 \<Longrightarrow> ct_bytes ?u ! k = (if k \<in> (\<lambda>j. j div 8) ` {0..<312} then Fin 1 else PosInf)"
    using add_full_confidences [OF assms, of 0 312 no_confidences] start by (simp_all add: Let_def)
  have "k \<in> (\<lambda>j. j div 8) ` {0..<312}" if "k < 39" for k :: nat
    using that by (intro image_eqI [of _ _ "8 * k"]) auto
  with u(4) have "ct_bytes ?u = replicate 39 (Fin 1)" using u(3) by (intro nth_equalityI) auto
  with u(1,2) show ?thesis by (intro confidence_totals.equality) auto
qed

lemma rank_equal_confidences: "rank_erasure_candidates (replicate n c) = [0..<n]"
proof -
  have "map ((!) (replicate n c)) [0..<n] = replicate n c" by (intro nth_equalityI) auto
  then have "sorted (map ((!) (replicate n c)) [0..<n])" by simp
  then show ?thesis by (simp add: rank_erasure_candidates_def sort_key_id_if_sorted)
qed

lemma v3_valid:
  assumes "candidate_identifier_v3 p = Inr w"
  shows "0 < f3_spread_chips_per_bit p" "\<not> f_less (Fin 1) (py_float (f3_bit_confidence_min p))"
  using assms
  by (auto simp: candidate_identifier_v3_def validate_v3_profile_def sum_then_Inr require_count_def require_fraction_def
      require_real_def sum_require_def py_float_def split: if_splits option.splits)

lemma sum_map_all2: "list_all2 (\<lambda>x y. f x = Inr y) xs ys \<Longrightarrow> sum_map f xs = Inr ys"
  by (induction rule: list_all2_induct) (simp_all add: sum_then_def)

lemma write_groups_length [simp]:
  "length (foldl (\<lambda>samples (b, g). shift_samples pol delta (active_group b g) samples) samples bgs) = length samples"
  by (induction bgs arbitrary: samples) auto

text \<open>The bits read from a marked flat tile are the bits written.\<close>

lemma read_marked_tile:
  assumes mean: "mean_of_equals mean" and d: "0 < d" "if 128 \<le> k then d \<le> k \<and> k \<le> 255 else k + d \<le> 255"
    and bits: "length bits = length groups" and apart: "distinct (all_chips groups)"
    and chips: "0 < n" "n \<le> 2 ^ 45" "list_all (\<lambda>(a, b). length a = n \<and> length b = n) groups"
    and inside: "list_all (\<lambda>i. i < m) (all_chips groups)"
  shows "sum_map (read_spread_bit mean
       (foldl (\<lambda>samples (b, g). shift_samples (level_polarity k) (Fin (of_nat d)) (active_group b g) samples)
          (replicate m (Fin (of_nat k))) (zip bits groups)) (Fin (of_nat d)) (level_polarity k)) groups
     = Inr (map (\<lambda>b. (b, Fin 1)) bits)"
proof -
  let ?s = "foldl (\<lambda>samples (b, g). shift_samples (level_polarity k) (Fin (of_nat d)) (active_group b g) samples)
          (replicate m (Fin (of_nat k))) (zip bits groups)"
  have level: "?s ! j = Fin (of_nat (if j \<in> active_samples bits groups then marked_level k d else k))" if "j < m" for j
    using write_groups [OF apart, of j "replicate m (Fin (of_nat k))"] that shift_sample_level [OF d(2)] by simp
  have one: "read_spread_bit mean ?s (Fin (of_nat d)) (level_polarity k) (groups ! i) = Inr (bits ! i, Fin 1)"
    if i: "i < length groups" for i
  proof (rule read_marked_bit [OF mean d chips(1,2)])
    have "(fst (groups ! i), snd (groups ! i)) \<in> set groups" using i by simp
    then show "length (fst (groups ! i)) = n" "length (snd (groups ! i)) = n"
      using chips(3) by (fastforce simp: list_all_iff)+
    have sub: "set (active_group c (groups ! i)) \<subseteq> {..<m}" for c
      using inside all_chips_nth [OF i] active_group_sub [of c "groups ! i"] by (auto simp: list_all_iff)
    show "?s ! j = Fin (of_nat (marked_level k d))" if "j \<in> set (active_group (bits ! i) (groups ! i))" for j
      using that sub active_samples_nth [of i bits groups] i bits by (subst level) auto
    show "?s ! j = Fin (of_nat k)" if "j \<in> set (active_group (\<not> bits ! i) (groups ! i))" for j
      using that sub inactive_untouched [OF apart bits i] by (subst level) auto
  qed
  have "list_all2 (\<lambda>g r. read_spread_bit mean ?s (Fin (of_nat d)) (level_polarity k) g = Inr r) groups (map (\<lambda>b. (b, Fin 1)) bits)"
    using one bits by (simp add: list_all2_conv_all_nth)
  then show ?thesis by (rule sum_map_all2)
qed

lemma flat_polarity:
  assumes "mean_of_equals mean" "0 < m" "m \<le> 2 ^ 45" "k \<le> 255" "sa_samples tile = replicate m (Fin (of_nat k))"
  shows "embedding_polarity mean tile = level_polarity k"
proof -
  have "mean (sa_samples tile) = Fin (of_nat k)" using assms by (simp add: mean_of_equals_def)
  moreover have "f_le (Fin (255 / 2)) (Fin (of_nat k)) \<longleftrightarrow> 128 \<le> k"
  proof -
    have "(255 / 2 :: rat) \<le> of_nat k \<longleftrightarrow> of_nat 255 \<le> (of_nat (2 * k) :: rat)" by (simp add: mult.commute)
    also have "\<dots> \<longleftrightarrow> 255 \<le> 2 * k" by (simp only: of_nat_le_iff)
    finally show ?thesis by (auto simp: f_le_def)
  qed
  ultimately show ?thesis by (simp add: embedding_polarity_def level_polarity_def)
qed

section \<open>Properties\<close>

text \<open>
  C15. The chips of a codeword never overlap: a call that succeeds gives 312 pairs of groups, one for every bit,
  each group with the contracted number of samples, every sample inside the tile, and no sample in two
  groups or twice in one; so writing one bit never disturbs another.
\<close>

theorem chips_never_overlap:
  "case chip_groups hm key i p of Inl _ \<Rightarrow> True | Inr groups \<Rightarrow>
     length groups = 312
     \<and> list_all (\<lambda>(a, b). length a = nat (f3_spread_chips_per_bit p) \<and> length b = nat (f3_spread_chips_per_bit p)) groups
     \<and> list_all (\<lambda>k. k < nat (f3_tile_size_px p) ^ 2) (all_chips groups) \<and> distinct (all_chips groups)"
  by (auto split: sum.splits dest: chip_groups_within)

text \<open>
  C14. A codeword written into a flat tile is read back whole: when the samples are one whole number of the eight-bit
  range, the step of the profile is a positive whole number that fits between that level and the end of
  the range, and the mean of numpy is exact on equal samples (at most 2 to the power of 45 of them), then reading with the polarity of the writer gives
  the same 39 bytes, no erasure and full confidence.
\<close>

theorem spread_roundtrip:
  assumes "mean_of_equals mean"
    and "sa_samples tile = replicate (nat (f3_tile_size_px p) ^ 2) (Fin (of_nat k))"
    and "py_float (f3_spread_delta p) = Fin (of_nat d)" "0 < d" "if 128 \<le> k then d \<le> k \<and> k \<le> 255 else k + d \<le> 255"
    and "embed_spread_codeword hm mean tile codeword key i p = Inr marked"
    and "nat (f3_tile_size_px p) ^ 2 \<le> 2 ^ 45"
  shows "extract_spread_codeword hm mean marked key i p (embedding_polarity mean tile)
    = Inr \<lparr>se_codeword = codeword, se_erase_positions = [], se_mean_confidence = Fin 1,
        se_polarity = embedding_polarity mean tile, se_erasure_ranking = [0..<39]\<rparr>"
proof -
  let ?m = "nat (f3_tile_size_px p) ^ 2" and ?n = "nat (f3_spread_chips_per_bit p)" and ?pol = "embedding_polarity mean tile"
  from assms(6) obtain groups where v: "validate_spread_tile tile p = Inr ()" "length codeword = 39"
    and g: "chip_groups hm key i p = Inr groups"
    and marked: "marked = tile\<lparr>sa_samples := foldl (\<lambda>samples (b, g). shift_samples ?pol (Fin (of_nat d)) (active_group b g) samples)
          (replicate ?m (Fin (of_nat k))) (zip (unpack_bits codeword) groups)\<rparr>"
    by (auto simp: embed_spread_codeword_def validate_codeword_def sum_then_Inr sum_require_def assms(2,3) Let_def split: if_splits)
  from v(1) obtain w where w: "candidate_identifier_v3 p = Inr w" by (auto simp: validate_spread_tile_def sum_then_Inr)
  note valid = v3_valid [OF w]
  from chip_groups_within [OF g] have cg: "length groups = 312" "list_all (\<lambda>(a, b). length a = ?n \<and> length b = ?n) groups"
    "list_all (\<lambda>i. i < ?m) (all_chips groups)" "distinct (all_chips groups)" by simp_all
  have n: "0 < ?n" using valid(1) by simp
  have "?n \<le> ?m"
  proof (cases groups)
    case (Cons g' gs)
    with cg(2) have "length (fst g') = ?n" by (cases g') auto
    moreover have "distinct (fst g')" "set (fst g') \<subseteq> {..<?m}" using cg(3,4) Cons by (auto simp: list_all_iff)
    ultimately show ?thesis by (metis card_lessThan card_mono distinct_card finite_lessThan)
  qed (use cg in simp)
  with n assms(7) have "0 < ?m" and small: "?n \<le> 2 ^ 45" by linarith+
  have k: "k \<le> 255" using assms(5) by (auto split: if_splits)
  have pol: "?pol = level_polarity k" using flat_polarity [OF assms(1) \<open>0 < ?m\<close> assms(7) k assms(2)] .
  have bits: "length (unpack_bits codeword) = length groups" using v(2) cg(1) by simp
  let ?s = "sa_samples marked"
  have s: "?s = foldl (\<lambda>samples (b, g). shift_samples (level_polarity k) (Fin (of_nat d)) (active_group b g) samples)
          (replicate ?m (Fin (of_nat k))) (zip (unpack_bits codeword) groups)" using marked pol by simp
  have read: "sum_map (read_spread_bit mean ?s (Fin (of_nat d)) (level_polarity k)) groups = Inr (map (\<lambda>b. (b, Fin 1)) (unpack_bits codeword))"
    unfolding s by (rule read_marked_tile [OF assms(1,4,5) bits cg(4) n small cg(2,3)])
  have "\<exists>x\<le>255. ?s ! j = Fin (of_nat x)" if "j < ?m" for j
    using write_groups [OF cg(4), of j "replicate ?m (Fin (of_nat k))"] that shift_sample_level [OF assms(5)] assms(5) k
    unfolding s by (intro exI [of _ "if j \<in> active_samples (unpack_bits codeword) groups then marked_level k d else k"])
      (auto simp: marked_level_def split: if_splits)
  moreover have "length ?s = ?m" unfolding s by simp
  ultimately have levels: "\<exists>x\<le>255. v = Fin (of_nat x)" if "v \<in> set ?s" for v
    using that by (metis in_set_conv_nth)
  have ok: "f_isfinite v \<and> \<not> f_less v (Fin 0) \<and> \<not> f_less (Fin 255) v" if "v \<in> set ?s" for v
  proof -
    obtain x where x: "x \<le> 255" "v = Fin (of_nat x)" using levels [OF \<open>v \<in> set ?s\<close>] by blast
    have "(of_nat x :: rat) \<le> of_nat 255" using x(1) by (simp only: of_nat_le_iff)
    with x show ?thesis by simp
  qed
  have "sa_height marked = sa_height tile" "sa_width marked = sa_width tile" by (simp_all add: marked)
  with v(1) ok have "validate_spread_tile marked p = Inr ()"
    by (auto simp: validate_spread_tile_def sum_then_Inr sum_require_def list_all_iff list_ex_iff Let_def split: if_splits)
  then show ?thesis
    using g read valid full_confidence_totals [of "py_float (f3_bit_confidence_min p)"] v(2)
      f_of_int_small [of 312] to_double_nat [of 1]
    by (simp add: extract_spread_codeword_def Let_def pol assms(3) sum_then_def comp_def map_replicate_const rank_equal_confidences)
qed

end
