(* ===== verification/Qim.thy ===== *)
theory Qim
  imports Doubles
begin

text \<open>
  Parity quantization of a pair of transform coefficients (\<open>qim_embed_pair\<close> and \<open>qim_extract_pair\<close> of
  \<open>splitbind_ref/dwt_dct_qim.py\<close>) in double arithmetic: a bit is written into the parity of the
  rounded difference and read back from it.
\<close>

record qim_extraction =
  qx_bit :: int
  qx_lattice_index :: int
  qx_confidence :: pyfloat

definition validate_qim_inputs :: "pyfloat \<Rightarrow> pyfloat \<Rightarrow> pyfloat \<Rightarrow> exn + unit" where
  "validate_qim_inputs a b delta =
     (if \<not> (f_isfinite a \<and> f_isfinite b \<and> f_isfinite delta)
      then Inl (ValueError ''QIM coefficients and delta must be finite'')
      else sum_require (f_less (Fin 0) delta) (ValueError ''delta must be positive''))"

definition qim_embed_pair :: "pyfloat \<Rightarrow> pyfloat \<Rightarrow> int \<Rightarrow> pyfloat \<Rightarrow> exn + (pyfloat \<times> pyfloat)" where
  "qim_embed_pair a b b01 delta =
     sum_then (validate_qim_inputs a b delta) (\<lambda>_.
     sum_then (sum_require (b01 = 0 \<or> b01 = 1) (ValueError ''bit must be 0 or 1'')) (\<lambda>_.
     let difference = f_sub a b
     in sum_then (f_div difference delta) (\<lambda>scaled.
        sum_then (f_round scaled) (\<lambda>lattice.
        let target = (if lattice mod 2 = b01 then lattice else lattice + 1)
        in sum_then (f_of_int target) (\<lambda>target'.
           sum_then (f_div (f_sub (f_mul target' delta) difference) (Fin 2)) (\<lambda>correction.
           Inr (f_add a correction, f_sub b correction)))))))"

definition qim_extract_pair :: "pyfloat \<Rightarrow> pyfloat \<Rightarrow> pyfloat \<Rightarrow> exn + qim_extraction" where
  "qim_extract_pair a b delta =
     sum_then (validate_qim_inputs a b delta) (\<lambda>_.
     sum_then (f_div (f_sub a b) delta) (\<lambda>normalized.
     sum_then (f_round normalized) (\<lambda>lattice.
     sum_then (f_of_int lattice) (\<lambda>lattice'.
     let distance = f_abs (f_sub normalized lattice');
         confidence = f_max (Fin 0) (f_min (Fin 1) (f_sub (Fin 1) (f_mul (Fin 2) distance)))
     in Inr \<lparr>qx_bit = lattice mod 2, qx_lattice_index = lattice, qx_confidence = confidence\<rparr>))))"

section \<open>One operation at a time\<close>

text \<open>A float operation whose exact result is below \<open>2 ^ 60\<close> gives a finite double near it.\<close>

lemma to_double_near:
  assumes "\<bar>q\<bar> \<le> 2 ^ k" "k \<le> 60"
  obtains r where "to_double q = Fin r" "\<bar>r - q\<bar> \<le> 2 ^ k / 2 ^ 53"
proof -
  have "(2 :: rat) ^ k \<le> 2 ^ 1000" using assms(2) by (intro power_increasing) auto
  then show thesis using that [OF to_double_Fin round_double_error [OF assms(1)]] assms(1) by simp
qed

section \<open>Writing a bit\<close>

lemma f_sub_Fin: "f_sub (Fin x) (Fin y) = to_double (x - y)"
  by (simp add: f_sub_def)

text \<open>What the embedding computes when nothing overflows, with the error of every step.\<close>

lemma qim_embed_pair_bounds:
  assumes x: "\<bar>x\<bar> \<le> 2 ^ 30" and y: "\<bar>y\<bar> \<le> 2 ^ 30" and d: "1 \<le> d" "d \<le> 2 ^ 30" and b: "b = 0 \<or> b = 1"
  obtains a' b' n where "qim_embed_pair (Fin x) (Fin y) b (Fin d) = Inr (Fin a', Fin b')"
    "\<bar>a' - x\<bar> \<le> d" "\<bar>b' - y\<bar> \<le> d" "n mod 2 = b" "\<bar>n\<bar> \<le> 2 ^ 33" "\<bar>a' - b' - of_int n * d\<bar> \<le> 1 / 2 ^ 17"
proof -
  have "\<bar>x - y\<bar> \<le> 2 ^ 31" using x y unfolding abs_le_iff by simp
  then obtain D where D: "to_double (x - y) = Fin D" "\<bar>D - (x - y)\<bar> \<le> 2 ^ 31 / 2 ^ 53" by (rule to_double_near) simp
  have Db: "\<bar>D\<bar> \<le> 2 ^ 32" using D(2) \<open>\<bar>x - y\<bar> \<le> 2 ^ 31\<close> unfolding abs_le_iff by simp
  moreover have "\<bar>D / d\<bar> \<le> \<bar>D\<bar>" using d(1) by (simp add: abs_divide divide_le_eq mult_le_cancel_left1)
  ultimately have "\<bar>D / d\<bar> \<le> 2 ^ 32" by (rule order_trans [rotated])
  then obtain q where q: "to_double (D / d) = Fin q" "\<bar>q - D / d\<bar> \<le> 2 ^ 32 / 2 ^ 53" by (rule to_double_near) simp
  define L where "L = round_half_even q"
  define n where "n = (if L mod 2 = b then L else L + 1)"
  have Lq: "\<bar>of_int L - q\<bar> \<le> 1 / 2" unfolding L_def by (rule round_half_even_near)
  have nq: "\<bar>of_int n - q\<bar> \<le> 3 / 2" using Lq unfolding n_def abs_le_iff by simp
  have nmod: "n mod 2 = b" using b by (auto simp: n_def) presburger+
  have "\<bar>of_int n :: rat\<bar> \<le> 2 ^ 33" using nq q(2) \<open>\<bar>D / d\<bar> \<le> 2 ^ 32\<close> unfolding abs_le_iff by simp
  then have nb: "\<bar>n\<bar> \<le> 2 ^ 33" by (metis of_int_abs of_int_le_iff of_int_numeral of_int_power)
  then have nf: "f_of_int n = Inr (Fin (of_int n))" by (intro f_of_int_small) simp
  have nD: "\<bar>of_int n * d - D\<bar> \<le> (3 / 2 + 1 / 2 ^ 20) * d"
  proof -
    have "\<bar>of_int n - z\<bar> \<le> 3 / 2 + 1 / 2 ^ 20" if "\<bar>q - z\<bar> \<le> 2 ^ 32 / 2 ^ 53" for z
      using nq that unfolding abs_le_iff by simp
    from this [OF q(2)] have "\<bar>of_int n - D / d\<bar> \<le> 3 / 2 + 1 / 2 ^ 20" .
    then have "\<bar>of_int n - D / d\<bar> * d \<le> (3 / 2 + 1 / 2 ^ 20) * d" using d by (intro mult_right_mono) auto
    moreover have "\<bar>of_int n - D / d\<bar> * d = \<bar>of_int n * d - D\<bar>" using d by (simp add: abs_mult_pos left_diff_distrib)
    ultimately show ?thesis by simp
  qed
  have "\<bar>of_int n * d\<bar> \<le> 2 ^ 33" using nD Db d unfolding abs_le_iff by simp
  then obtain p where p: "to_double (of_int n * d) = Fin p" "\<bar>p - of_int n * d\<bar> \<le> 2 ^ 33 / 2 ^ 53" by (rule to_double_near) simp
  have "\<bar>p - D\<bar> \<le> 2 ^ 32" using p(2) nD d unfolding abs_le_iff by simp
  then obtain e where e: "to_double (p - D) = Fin e" "\<bar>e - (p - D)\<bar> \<le> 2 ^ 32 / 2 ^ 53" by (rule to_double_near) simp
  have "\<bar>e / 2\<bar> \<le> 2 ^ 32" using e(2) \<open>\<bar>p - D\<bar> \<le> 2 ^ 32\<close> unfolding abs_le_iff by simp
  then obtain c where c: "to_double (e / 2) = Fin c" "\<bar>c - e / 2\<bar> \<le> 2 ^ 32 / 2 ^ 53" by (rule to_double_near) simp
  have cb: "\<bar>c\<bar> \<le> 7 / 8 * d" using c(2) e(2) p(2) nD d unfolding abs_le_iff by simp
  have "\<bar>x + c\<bar> \<le> 2 ^ 33" using x cb d unfolding abs_le_iff by simp
  then obtain a' where a': "to_double (x + c) = Fin a'" "\<bar>a' - (x + c)\<bar> \<le> 2 ^ 33 / 2 ^ 53" by (rule to_double_near) simp
  have "\<bar>y - c\<bar> \<le> 2 ^ 33" using y cb d unfolding abs_le_iff by simp
  then obtain b' where b': "to_double (y - c) = Fin b'" "\<bar>b' - (y - c)\<bar> \<le> 2 ^ 33 / 2 ^ 53" by (rule to_double_near) simp
  have run: "qim_embed_pair (Fin x) (Fin y) b (Fin d) = Inr (Fin a', Fin b')"
    using d b D(1) q(1) nf p(1) e(1) c(1) a'(1) b'(1)
    by (simp add: qim_embed_pair_def validate_qim_inputs_def sum_require_def f_sub_Fin L_def [symmetric] n_def [symmetric] Let_def)
  have near: "\<bar>a' - x\<bar> \<le> d" "\<bar>b' - y\<bar> \<le> d" using a'(2) b'(2) cb d unfolding abs_le_iff by simp_all
  have "\<bar>a' - b' - of_int n * d\<bar> \<le> 1 / 2 ^ 17"
    using a'(2) b'(2) c(2) e(2) p(2) D(2) unfolding abs_le_iff by simp
  from that [OF run near nmod nb this] show thesis .
qed

section \<open>Reading it back\<close>

lemma qim_extract_pair_near:
  assumes "\<bar>a - b - of_int n * d\<bar> \<le> d / 8 + 1 / 2 ^ 17" "\<bar>n\<bar> \<le> 2 ^ 33" "1 \<le> d" "d \<le> 2 ^ 30" "\<bar>a - b\<bar> \<le> 2 ^ 34"
  obtains c where "qim_extract_pair (Fin a) (Fin b) (Fin d) = Inr \<lparr>qx_bit = n mod 2, qx_lattice_index = n, qx_confidence = Fin c\<rparr>"
    "74 / 100 < c" "c \<le> 1"
proof -
  obtain D where D: "to_double (a - b) = Fin D" "\<bar>D - (a - b)\<bar> \<le> 2 ^ 34 / 2 ^ 53" using assms(5) by (rule to_double_near) simp
  have "\<bar>D - of_int n * d\<bar> \<le> d / 8 + 1 / 2 ^ 16" using D(2) assms(1) unfolding abs_le_iff by simp
  also have "\<dots> \<le> (1 / 8 + 1 / 2 ^ 16) * d" using assms(3) by simp
  finally have "\<bar>D / d - of_int n\<bar> * d \<le> (1 / 8 + 1 / 2 ^ 16) * d" using assms(3) by (simp add: abs_mult_pos left_diff_distrib)
  then have Dn: "\<bar>D / d - of_int n\<bar> \<le> 1 / 8 + 1 / 2 ^ 16" using assms(3) by (simp only: mult_le_cancel_right_pos)
  have nb: "\<bar>of_int n :: rat\<bar> \<le> 2 ^ 33" using assms(2) by (metis of_int_abs of_int_le_iff of_int_numeral of_int_power)
  have "\<bar>D / d\<bar> \<le> \<bar>D / d - of_int n\<bar> + \<bar>of_int n\<bar>" using abs_triangle_ineq [of "D / d - of_int n" "of_int n"] by simp
  also have "\<dots> \<le> (1 / 8 + 1 / 2 ^ 16) + 2 ^ 33" using Dn nb by (rule add_mono)
  finally have "\<bar>D / d\<bar> \<le> 2 ^ 34" by (rule order_trans) simp
  then obtain q where q: "to_double (D / d) = Fin q" "\<bar>q - D / d\<bar> \<le> 2 ^ 34 / 2 ^ 53" by (rule to_double_near) simp
  have "\<bar>q - of_int n\<bar> \<le> 1 / 8 + 1 / 2 ^ 15" if "\<bar>q - z\<bar> \<le> 2 ^ 34 / 2 ^ 53" "\<bar>z - of_int n\<bar> \<le> 1 / 8 + 1 / 2 ^ 16" for z
    using that unfolding abs_le_iff by simp
  from this [OF q(2) Dn] have qn: "\<bar>q - of_int n\<bar> \<le> 1 / 8 + 1 / 2 ^ 15" .
  then have r: "round_half_even q = n" by (intro round_half_even_unique) (simp add: abs_less_iff abs_le_iff)
  have nf: "f_of_int n = Inr (Fin (of_int n))" using assms(2) by (intro f_of_int_small) simp
  have "\<bar>q - of_int n\<bar> \<le> 2 ^ 0" using qn by simp
  then obtain s where s: "to_double (q - of_int n) = Fin s" "\<bar>s - (q - of_int n)\<bar> \<le> 2 ^ 0 / 2 ^ 53" by (rule to_double_near) simp
  have sb: "\<bar>s\<bar> \<le> 1 / 8 + 1 / 2 ^ 14" using s(2) qn unfolding abs_le_iff by simp
  then have "\<bar>2 * \<bar>s\<bar>\<bar> \<le> 2 ^ 0" by simp
  then obtain m where m: "to_double (2 * \<bar>s\<bar>) = Fin m" "\<bar>m - 2 * \<bar>s\<bar>\<bar> \<le> 2 ^ 0 / 2 ^ 53" by (rule to_double_near) simp
  define t where "t = \<bar>s\<bar>"
  have "0 \<le> t" "t \<le> 1 / 8 + 1 / 2 ^ 14" using sb by (simp_all add: t_def)
  then have mb: "- 1 / 2 ^ 53 \<le> m" "m \<le> 1 / 4 + 1 / 2 ^ 12"
    using m(2) unfolding t_def [symmetric] abs_le_iff by simp_all
  then have "\<bar>1 - m\<bar> \<le> 2 ^ 1" by (simp add: abs_le_iff)
  then obtain v where v: "to_double (1 - m) = Fin v" "\<bar>v - (1 - m)\<bar> \<le> 2 ^ 1 / 2 ^ 53" by (rule to_double_near) simp
  have vb: "74 / 100 < v" using v(2) mb unfolding abs_le_iff by simp
  let ?c = "if v < 1 then v else 1"
  have "f_max (Fin 0) (f_min (Fin 1) (Fin v)) = Fin ?c" using vb by (auto simp: f_max_def f_min_def)
  then have "qim_extract_pair (Fin a) (Fin b) (Fin d)
      = Inr \<lparr>qx_bit = n mod 2, qx_lattice_index = n, qx_confidence = Fin ?c\<rparr>"
    using assms(3) D(1) q(1) r nf s(1) m(1) v(1)
    by (simp add: qim_extract_pair_def validate_qim_inputs_def sum_require_def f_sub_Fin Let_def)
  then show thesis by (rule that) (use vb in auto)
qed

text \<open>
  C21. A bit written into a pair of coefficients is read back after the pair was disturbed, in double arithmetic, for
  every pair up to 2 to the power of 30 and every step from one to 2 to the power of 30: no operation overflows, each coefficient
  moves by at most one step, and as long as the disturbance of the two together stays below an eighth of
  the step the reader finds the bit, with a confidence above 0.74, so above the 0.60 below which a bit is
  an erasure.
\<close>

theorem qim_survives_noise:
  assumes "\<bar>x\<bar> \<le> 2 ^ 30" "\<bar>y\<bar> \<le> 2 ^ 30" "1 \<le> d" "d \<le> 2 ^ 30" "b = 0 \<or> b = 1" "\<bar>u\<bar> + \<bar>v\<bar> \<le> d / 8"
  shows "\<exists>a' b' n c. qim_embed_pair (Fin x) (Fin y) b (Fin d) = Inr (Fin a', Fin b')
     \<and> \<bar>a' - x\<bar> \<le> d \<and> \<bar>b' - y\<bar> \<le> d
     \<and> qim_extract_pair (Fin (a' + u)) (Fin (b' + v)) (Fin d)
         = Inr \<lparr>qx_bit = b, qx_lattice_index = n, qx_confidence = Fin c\<rparr>
     \<and> 74 / 100 < c \<and> c \<le> 1"
proof -
  obtain a' b' n where w: "qim_embed_pair (Fin x) (Fin y) b (Fin d) = Inr (Fin a', Fin b')"
    "\<bar>a' - x\<bar> \<le> d" "\<bar>b' - y\<bar> \<le> d" "n mod 2 = b" "\<bar>n\<bar> \<le> 2 ^ 33" "\<bar>a' - b' - of_int n * d\<bar> \<le> 1 / 2 ^ 17"
    using assms(1-5) by (rule qim_embed_pair_bounds)
  have uv: "\<bar>u - v\<bar> \<le> d / 8" using assms(6) by linarith
  have near: "\<bar>a' + u - (b' + v) - of_int n * d\<bar> \<le> d / 8 + 1 / 2 ^ 17" using w(6) uv unfolding abs_le_iff by simp
  have "\<bar>a' + u - (b' + v)\<bar> \<le> 2 ^ 34" using w(2,3) uv assms(1,2,4) unfolding abs_le_iff by simp
  from qim_extract_pair_near [OF near w(5) assms(3,4) this] w(4) obtain c where
    "qim_extract_pair (Fin (a' + u)) (Fin (b' + v)) (Fin d) = Inr \<lparr>qx_bit = b, qx_lattice_index = n, qx_confidence = Fin c\<rparr>"
    "74 / 100 < c" "c \<le> 1" by auto
  with w(1-3) show ?thesis by (intro exI conjI) auto
qed

end
