(* ===== verification/Haar.thy ===== *)
theory Haar
  imports Spread Qim
begin

text \<open>
  The Haar transform (\<open>haar_dwt2\<close> and \<open>haar_idwt2\<close> of \<open>splitbind_ref/dwt_dct_qim.py\<close>) in double arithmetic, with
  the padding of odd shapes, and a bound for the error of going through both.
\<close>

section \<open>Arrays\<close>

definition sample :: "sample_array \<Rightarrow> nat \<Rightarrow> nat \<Rightarrow> pyfloat" where
  "sample a y x = sa_samples a ! (y * sa_width a + x)"

definition tabulate :: "nat \<Rightarrow> nat \<Rightarrow> (nat \<Rightarrow> nat \<Rightarrow> pyfloat) \<Rightarrow> sample_array" where
  "tabulate h w f = \<lparr>sa_height = h, sa_width = w, sa_samples = map (\<lambda>(y, x). f y x) (List.product [0..<h] [0..<w])\<rparr>"

text \<open>\<open>a[y:y+8, x:x+8]\<close> and the assignment to it.\<close>

definition block_at :: "sample_array \<Rightarrow> nat \<Rightarrow> nat \<Rightarrow> sample_array" where
  "block_at a y x = tabulate (min 8 (sa_height a - y)) (min 8 (sa_width a - x)) (\<lambda>i j. sample a (y + i) (x + j))"

definition put_block :: "sample_array \<Rightarrow> nat \<Rightarrow> nat \<Rightarrow> sample_array \<Rightarrow> sample_array" where
  "put_block a y x b = tabulate (sa_height a) (sa_width a) (\<lambda>i j.
     if y \<le> i \<and> i < y + 8 \<and> x \<le> j \<and> j < x + 8 then sample b (i - y) (j - x) else sample a i j)"

definition validate_float_image :: "sample_array \<Rightarrow> exn + unit" where
  "validate_float_image a = sum_require (list_all f_isfinite (sa_samples a))
     (ValueError ''transform input must contain only finite values'')"

section \<open>The Haar transform\<close>

text \<open>\<open>math.sqrt(2.0)\<close>, and a quotient by it, which cannot raise.\<close>

definition root2 :: rat where
  "root2 = 6369051672525773 / 4503599627370496"

definition over_root2 :: "pyfloat \<Rightarrow> pyfloat" where
  "over_root2 x = (case f_div x (Fin root2) of Inr y \<Rightarrow> y | Inl _ \<Rightarrow> NotANumber)"

definition half_sum :: "pyfloat \<Rightarrow> pyfloat \<Rightarrow> pyfloat" where
  "half_sum x y = over_root2 (f_add x y)"

definition half_difference :: "pyfloat \<Rightarrow> pyfloat \<Rightarrow> pyfloat" where
  "half_difference x y = over_root2 (f_sub x y)"

record haar_bands =
  hb_ll :: sample_array
  hb_lh :: sample_array
  hb_hl :: sample_array
  hb_hh :: sample_array
  hb_shape :: "nat \<times> nat"

text \<open>\<open>np.pad\<close> repeats the last row and the last column where their number is odd.\<close>

definition padded :: "sample_array \<Rightarrow> nat \<Rightarrow> nat \<Rightarrow> pyfloat" where
  "padded a y x = sample a (min y (sa_height a - 1)) (min x (sa_width a - 1))"

definition haar_dwt2 :: "sample_array \<Rightarrow> exn + haar_bands" where
  "haar_dwt2 a =
     sum_then (validate_float_image a) (\<lambda>_.
     let rows = (sa_height a + 1) div 2; columns = (sa_width a + 1) div 2;
         low = (\<lambda>y x. half_sum (padded a y (2 * x)) (padded a y (2 * x + 1)));
         high = (\<lambda>y x. half_difference (padded a y (2 * x)) (padded a y (2 * x + 1)))
     in Inr \<lparr>hb_ll = tabulate rows columns (\<lambda>y x. half_sum (low (2 * y) x) (low (2 * y + 1) x)),
             hb_lh = tabulate rows columns (\<lambda>y x. half_difference (low (2 * y) x) (low (2 * y + 1) x)),
             hb_hl = tabulate rows columns (\<lambda>y x. half_sum (high (2 * y) x) (high (2 * y + 1) x)),
             hb_hh = tabulate rows columns (\<lambda>y x. half_difference (high (2 * y) x) (high (2 * y + 1) x)),
             hb_shape = (sa_height a, sa_width a)\<rparr>)"

definition same_shape :: "sample_array \<Rightarrow> sample_array \<Rightarrow> bool" where
  "same_shape a b \<longleftrightarrow> sa_height a = sa_height b \<and> sa_width a = sa_width b"

definition restored_row :: "sample_array \<Rightarrow> sample_array \<Rightarrow> nat \<Rightarrow> nat \<Rightarrow> pyfloat" where
  "restored_row l h y x = (if even y then half_sum (sample l (y div 2) x) (sample h (y div 2) x)
     else half_difference (sample l (y div 2) x) (sample h (y div 2) x))"

definition haar_idwt2 :: "haar_bands \<Rightarrow> exn + sample_array" where
  "haar_idwt2 b =
     sum_then (sum_map validate_float_image [hb_ll b, hb_lh b, hb_hl b, hb_hh b]) (\<lambda>_.
     let (height, width) = hb_shape b;
         low = restored_row (hb_ll b) (hb_lh b); high = restored_row (hb_hl b) (hb_hh b)
     in if \<not> list_all (same_shape (hb_ll b)) [hb_lh b, hb_hl b, hb_hh b]
        then Inl (ValueError ''Haar bands must have identical shapes'')
        else if height = 0 \<or> width = 0
        then Inl (ValueError ''original_shape must contain two positive integers'')
        else if height > 2 * sa_height (hb_ll b) \<or> width > 2 * sa_width (hb_ll b)
        then Inl (ValueError ''original_shape exceeds the reconstructed padded image'')
        else Inr (tabulate height width (\<lambda>y x.
          if even x then half_sum (low y (x div 2)) (high y (x div 2))
          else half_difference (low y (x div 2)) (high y (x div 2)))))"

section \<open>The error of a step\<close>

definition bounded_by :: "rat \<Rightarrow> pyfloat \<Rightarrow> bool" where
  "bounded_by b s = (case s of Fin x \<Rightarrow> \<bar>x\<bar> \<le> b | _ \<Rightarrow> False)"

definition close_to :: "rat \<Rightarrow> pyfloat \<Rightarrow> pyfloat \<Rightarrow> bool" where
  "close_to e s t = (case (s, t) of (Fin x, Fin y) \<Rightarrow> \<bar>x - y\<bar> \<le> e | _ \<Rightarrow> False)"

text \<open>The inverse of the root: a quotient by the root is a product with it.\<close>

definition inv_root2 :: rat where
  "inv_root2 = 4503599627370496 / 6369051672525773"

definition step_error :: rat where
  "step_error = 1 / 100000000000"

lemma over_root2_near:
  assumes "\<bar>z\<bar> \<le> 8192"
  obtains r where "over_root2 (to_double z) = Fin r" "\<bar>r - z * inv_root2\<bar> \<le> step_error"
proof -
  have "\<bar>z\<bar> \<le> 2 ^ 13" using assms by simp
  then obtain s where s: "to_double z = Fin s" "\<bar>s - z\<bar> \<le> 2 ^ 13 / 2 ^ 53" by (rule to_double_near) simp
  have se: "\<bar>s - z\<bar> \<le> 1 / 1000000000000" using s(2) by (rule order_trans) simp
  have q: "s / root2 = s * inv_root2" by (simp add: root2_def inv_root2_def)
  have "\<bar>s * inv_root2\<bar> \<le> 8192" using se assms unfolding abs_le_iff inv_root2_def by linarith
  then have "\<bar>s * inv_root2\<bar> \<le> 2 ^ 13" by simp
  then obtain r where r: "to_double (s * inv_root2) = Fin r" "\<bar>r - s * inv_root2\<bar> \<le> 2 ^ 13 / 2 ^ 53" by (rule to_double_near) simp
  have re: "\<bar>r - s * inv_root2\<bar> \<le> 1 / 1000000000000" using r(2) by (rule order_trans) simp
  have "root2 \<noteq> 0" by (simp add: root2_def)
  then have "over_root2 (to_double z) = Fin r" by (simp add: over_root2_def s(1) q r(1))
  moreover have "\<bar>r - z * inv_root2\<bar> \<le> step_error"
    using re se unfolding abs_le_iff step_error_def inv_root2_def by linarith
  ultimately show thesis by (rule that)
qed

lemma halves_near:
  assumes "\<bar>x\<bar> \<le> 4096" "\<bar>y\<bar> \<le> 4096"
  obtains p q where "half_sum (Fin x) (Fin y) = Fin p" "\<bar>p - (x * inv_root2 + y * inv_root2)\<bar> \<le> step_error"
    "half_difference (Fin x) (Fin y) = Fin q" "\<bar>q - (x * inv_root2 - y * inv_root2)\<bar> \<le> step_error"
proof -
  have z: "\<bar>x + y\<bar> \<le> 8192" "\<bar>x - y\<bar> \<le> 8192" using assms unfolding abs_le_iff by linarith+
  obtain p where p: "over_root2 (to_double (x + y)) = Fin p" "\<bar>p - (x * inv_root2 + y * inv_root2)\<bar> \<le> step_error"
    using over_root2_near [OF z(1)] by (metis distrib_right)
  obtain q where q: "over_root2 (to_double (x - y)) = Fin q" "\<bar>q - (x * inv_root2 - y * inv_root2)\<bar> \<le> step_error"
    using over_root2_near [OF z(2)] by (metis left_diff_distrib)
  show thesis using p q by (intro that) (simp_all add: half_sum_def half_difference_def f_sub_Fin distrib_right left_diff_distrib)
qed

lemma close_toE: "close_to e s t \<Longrightarrow> (\<And>x y. s = Fin x \<Longrightarrow> t = Fin y \<Longrightarrow> \<bar>x - y\<bar> \<le> e \<Longrightarrow> thesis) \<Longrightarrow> thesis"
  by (cases s; cases t) (auto simp: close_to_def)

lemma bounded_byE: "bounded_by b s \<Longrightarrow> (\<And>x. s = Fin x \<Longrightarrow> \<bar>x\<bar> \<le> b \<Longrightarrow> thesis) \<Longrightarrow> thesis"
  by (cases s) (auto simp: bounded_by_def)

text \<open>Halves stay bounded, and two halves give their operands back.\<close>

lemma halves_bounded:
  assumes "bounded_by b s" "bounded_by b t" "b \<le> 2048"
  shows "bounded_by (3 / 2 * b + 1) (half_sum s t)" "bounded_by (3 / 2 * b + 1) (half_difference s t)"
proof -
  obtain x where x: "s = Fin x" "\<bar>x\<bar> \<le> b" using assms(1) by (rule bounded_byE)
  obtain y where y: "t = Fin y" "\<bar>y\<bar> \<le> b" using assms(2) by (rule bounded_byE)
  have l: "\<bar>x\<bar> \<le> 4096" "\<bar>y\<bar> \<le> 4096" using x(2) y(2) assms(3) by linarith+
  obtain p q where "half_sum s t = Fin p" "\<bar>p - (x * inv_root2 + y * inv_root2)\<bar> \<le> step_error"
    "half_difference s t = Fin q" "\<bar>q - (x * inv_root2 - y * inv_root2)\<bar> \<le> step_error"
    unfolding x y by (rule halves_near [OF l])
  moreover from this have "\<bar>p\<bar> \<le> 3 / 2 * b + 1" "\<bar>q\<bar> \<le> 3 / 2 * b + 1"
    using x(2) y(2) unfolding inv_root2_def step_error_def by linarith+
  ultimately show "bounded_by (3 / 2 * b + 1) (half_sum s t)" "bounded_by (3 / 2 * b + 1) (half_difference s t)"
    by (simp_all add: bounded_by_def)
qed

lemma halves_invert:
  assumes "bounded_by 2048 s" "bounded_by 2048 t" "d \<le> 1"
    "close_to d u (half_sum s t)" "close_to d v (half_difference s t)"
  shows "close_to (3 / 2 * d + 3 * step_error) (half_sum u v) s" "close_to (3 / 2 * d + 3 * step_error) (half_difference u v) t"
proof -
  obtain x where x: "s = Fin x" "\<bar>x\<bar> \<le> 2048" using assms(1) by (rule bounded_byE)
  obtain y where y: "t = Fin y" "\<bar>y\<bar> \<le> 2048" using assms(2) by (rule bounded_byE)
  have l: "\<bar>x\<bar> \<le> 4096" "\<bar>y\<bar> \<le> 4096" using x(2) y(2) by linarith+
  obtain p q where pq: "half_sum s t = Fin p" "\<bar>p - (x * inv_root2 + y * inv_root2)\<bar> \<le> step_error"
    "half_difference s t = Fin q" "\<bar>q - (x * inv_root2 - y * inv_root2)\<bar> \<le> step_error"
    unfolding x y by (rule halves_near [OF l])
  obtain p' where p': "u = Fin p'" "\<bar>p' - p\<bar> \<le> d" using assms(4) unfolding pq(1) by (rule close_toE) auto
  obtain q' where q': "v = Fin q'" "\<bar>q' - q\<bar> \<le> d" using assms(5) unfolding pq(3) by (rule close_toE) auto
  have l': "\<bar>p'\<bar> \<le> 4096" "\<bar>q'\<bar> \<le> 4096"
    using pq(2,4) p'(2) q'(2) x(2) y(2) assms(3) unfolding inv_root2_def step_error_def by linarith+
  obtain m n where mn: "half_sum u v = Fin m" "\<bar>m - (p' * inv_root2 + q' * inv_root2)\<bar> \<le> step_error"
    "half_difference u v = Fin n" "\<bar>n - (p' * inv_root2 - q' * inv_root2)\<bar> \<le> step_error"
    unfolding p' q' by (rule halves_near [OF l'])
  have near: "\<bar>r - z\<bar> \<le> 3 / 2 * d + 3 * step_error"
    if "\<bar>z\<bar> \<le> 2048" "\<bar>w - 2 * (z * inv_root2)\<bar> \<le> 2 * d + 2 * step_error" "\<bar>r - w * inv_root2\<bar> \<le> step_error" for r w z
    using that unfolding inv_root2_def step_error_def by linarith
  have "\<bar>p' + q' - 2 * (x * inv_root2)\<bar> \<le> 2 * d + 2 * step_error" "\<bar>p' - q' - 2 * (y * inv_root2)\<bar> \<le> 2 * d + 2 * step_error"
    using pq(2,4) p'(2) q'(2) by linarith+
  from near [OF x(2) this(1)] near [OF y(2) this(2)] mn(2,4)
  have "\<bar>m - x\<bar> \<le> 3 / 2 * d + 3 * step_error" "\<bar>n - y\<bar> \<le> 3 / 2 * d + 3 * step_error"
    by (simp_all add: distrib_right left_diff_distrib)
  then show "close_to (3 / 2 * d + 3 * step_error) (half_sum u v) s" "close_to (3 / 2 * d + 3 * step_error) (half_difference u v) t"
    by (simp_all add: mn(1,3) x(1) y(1) close_to_def)
qed

lemma bounded_finite: "bounded_by b s \<Longrightarrow> f_isfinite s"
  by (erule bounded_byE) simp

lemma close_self: "bounded_by b s \<Longrightarrow> close_to 0 s s"
  by (erule bounded_byE) (simp add: close_to_def)

lemma sample_tabulate [simp]: "y < h \<Longrightarrow> x < w \<Longrightarrow> sample (tabulate h w f) y x = f y x"
proof -
  assume l: "y < h" "x < w"
  have "y * w + x < Suc y * w" using l by simp
  also have "Suc y * w \<le> h * w" using l by (intro mult_right_mono) auto
  finally have i: "y * w + x < h * w" .
  then have "List.product [0..<h] [0..<w] ! (y * w + x) = (y, x)" using l by (simp add: product_nth)
  with i show ?thesis by (simp add: sample_def tabulate_def)
qed

lemma tabulate_shape [simp]: "sa_height (tabulate h w f) = h" "sa_width (tabulate h w f) = w"
  by (simp_all add: tabulate_def)

lemma tabulate_finite: "(\<And>y x. y < h \<Longrightarrow> x < w \<Longrightarrow> f_isfinite (f y x)) \<Longrightarrow> list_all f_isfinite (sa_samples (tabulate h w f))"
  by (auto simp: tabulate_def list_all_iff)


section \<open>The transform and its inverse\<close>

lemma low_high_bounded:
  assumes "list_all (bounded_by 1024) (sa_samples a)" "length (sa_samples a) = sa_height a * sa_width a"
    "0 < sa_height a" "0 < sa_width a"
  shows "bounded_by 1024 (padded a y x)"
proof -
  let ?y = "min y (sa_height a - 1)" and ?x = "min x (sa_width a - 1)"
  have "?x < sa_width a" "?y < sa_height a" using assms(3,4) by auto
  then have "?y * sa_width a + ?x < Suc ?y * sa_width a" by simp
  also have "Suc ?y * sa_width a \<le> sa_height a * sa_width a" using \<open>?y < sa_height a\<close> by (intro mult_right_mono) auto
  finally show ?thesis using assms(1,2) by (simp add: padded_def sample_def list_all_length)
qed

text \<open>One row or column and its two halves.\<close>

lemma restored_pair:
  fixes y :: nat
  assumes "\<And>k. bounded_by b (f k)" "b \<le> 2048"
  shows "close_to (3 * step_error) (if even y then half_sum (half_sum (f (2 * (y div 2))) (f (2 * (y div 2) + 1)))
             (half_difference (f (2 * (y div 2))) (f (2 * (y div 2) + 1)))
           else half_difference (half_sum (f (2 * (y div 2))) (f (2 * (y div 2) + 1)))
             (half_difference (f (2 * (y div 2))) (f (2 * (y div 2) + 1)))) (f y)"
proof -
  let ?s = "f (2 * (y div 2))" and ?t = "f (2 * (y div 2) + 1)"
  have wide: "bounded_by 2048 (f k)" for k using assms(1) [of k] assms(2) by (auto simp: bounded_by_def split: pyfloat.splits)
  have self: "close_to 0 (half_sum ?s ?t) (half_sum ?s ?t)" "close_to 0 (half_difference ?s ?t) (half_difference ?s ?t)"
    by (rule close_self, rule halves_bounded(1) [OF wide wide], simp, rule close_self, rule halves_bounded(2) [OF wide wide], simp)
  have "close_to (3 / 2 * 0 + 3 * step_error) (half_sum (half_sum ?s ?t) (half_difference ?s ?t)) ?s"
    "close_to (3 / 2 * 0 + 3 * step_error) (half_difference (half_sum ?s ?t) (half_difference ?s ?t)) ?t"
    by (rule halves_invert [OF wide wide _ self], simp)+
  then show ?thesis by (cases "even y") (auto elim!: evenE oddE)
qed

lemma haar_inverts:
  assumes size: "0 < sa_height a" "0 < sa_width a" "length (sa_samples a) = sa_height a * sa_width a"
    and range: "list_all (bounded_by 1024) (sa_samples a)"
  obtains r where "sum_then (haar_dwt2 a) haar_idwt2 = Inr r" "same_shape r a"
    "\<And>y x. y < sa_height a \<Longrightarrow> x < sa_width a \<Longrightarrow> close_to (1 / 10000000000) (sample r y x) (sample a y x)"
proof -
  define low where "low = (\<lambda>y x. half_sum (padded a y (2 * x)) (padded a y (2 * x + 1)))"
  define high where "high = (\<lambda>y x. half_difference (padded a y (2 * x)) (padded a y (2 * x + 1)))"
  let ?h = "(sa_height a + 1) div 2" and ?w = "(sa_width a + 1) div 2"
  have pad: "bounded_by 1024 (padded a y x)" for y x by (rule low_high_bounded [OF range size(3,1,2)])
  have rows: "bounded_by 1537 (low y x)" "bounded_by 1537 (high y x)" for y x
    using halves_bounded [OF pad pad] by (simp_all add: low_def high_def)
  have bands: "bounded_by 2307 (half_sum (f (2 * y) x) (f (2 * y + 1) x))" "bounded_by 2307 (half_difference (f (2 * y) x) (f (2 * y + 1) x))"
    if "f = low \<or> f = high" for f y x
  proof -
    have b: "bounded_by 1537 (f y x)" for y x using rows that by auto
    show "bounded_by 2307 (half_sum (f (2 * y) x) (f (2 * y + 1) x))" "bounded_by 2307 (half_difference (f (2 * y) x) (f (2 * y + 1) x))"
      using halves_bounded [OF b b, of "2 * y" x "2 * y + 1" x] by (auto simp: bounded_by_def split: pyfloat.splits)
  qed
  define B where "B = \<lparr>hb_ll = tabulate ?h ?w (\<lambda>y x. half_sum (low (2 * y) x) (low (2 * y + 1) x)),
     hb_lh = tabulate ?h ?w (\<lambda>y x. half_difference (low (2 * y) x) (low (2 * y + 1) x)),
     hb_hl = tabulate ?h ?w (\<lambda>y x. half_sum (high (2 * y) x) (high (2 * y + 1) x)),
     hb_hh = tabulate ?h ?w (\<lambda>y x. half_difference (high (2 * y) x) (high (2 * y + 1) x)),
     hb_shape = (sa_height a, sa_width a)\<rparr>"
  have "list_all f_isfinite (sa_samples a)" using range by (auto simp: list_all_iff dest: bounded_finite)
  then have dwt: "haar_dwt2 a = Inr B"
    by (simp add: haar_dwt2_def validate_float_image_def sum_require_def sum_then_def B_def low_def high_def Let_def)
  define out where "out = (\<lambda>y x. if even x then half_sum (restored_row (hb_ll B) (hb_lh B) y (x div 2)) (restored_row (hb_hl B) (hb_hh B) y (x div 2))
     else half_difference (restored_row (hb_ll B) (hb_lh B) y (x div 2)) (restored_row (hb_hl B) (hb_hh B) y (x div 2)))"
  have fin: "list_all f_isfinite (sa_samples (hb_ll B))" "list_all f_isfinite (sa_samples (hb_lh B))"
    "list_all f_isfinite (sa_samples (hb_hl B))" "list_all f_isfinite (sa_samples (hb_hh B))"
    unfolding B_def haar_bands.simps
    by (rule tabulate_finite, rule bounded_finite, rule bands, simp)+
  have idwt: "haar_idwt2 B = Inr (tabulate (sa_height a) (sa_width a) out)"
  proof -
    have shapes: "same_shape (hb_ll B) (hb_lh B)" "same_shape (hb_ll B) (hb_hl B)" "same_shape (hb_ll B) (hb_hh B)"
      "sa_height (hb_ll B) = ?h" "sa_width (hb_ll B) = ?w" "hb_shape B = (sa_height a, sa_width a)"
      by (simp_all add: B_def same_shape_def)
    have "\<not> sa_height a > 2 * ?h" "\<not> sa_width a > 2 * ?w" by auto
    then show ?thesis using fin size(1,2)
      by (simp add: haar_idwt2_def validate_float_image_def sum_require_def sum_then_def shapes out_def [symmetric] Let_def
          flip: Suc_eq_plus1)
  qed
  have close: "close_to (1 / 10000000000) (out y x) (padded a y x)" if "y < sa_height a" "x < sa_width a" for y x
  proof -
    have yx: "y div 2 < ?h" "x div 2 < ?w" using that by auto
    have r: "close_to (3 * step_error) (restored_row (hb_ll B) (hb_lh B) y (x div 2)) (low y (x div 2))"
      "close_to (3 * step_error) (restored_row (hb_hl B) (hb_hh B) y (x div 2)) (high y (x div 2))"
      unfolding restored_row_def B_def haar_bands.select_convs sample_tabulate [OF yx]
      by (rule restored_pair [of 1537 "\<lambda>k. low k (x div 2)"], rule rows, simp)
        (rule restored_pair [of 1537 "\<lambda>k. high k (x div 2)"], rule rows, simp)
    have wide: "bounded_by 2048 (padded a y k)" for k using pad [of y k] by (auto simp: bounded_by_def split: pyfloat.splits)
    have "close_to (3 / 2 * (3 * step_error) + 3 * step_error) (out y x) (padded a y x)"
      using halves_invert [OF wide wide _ r [unfolded low_def high_def]] by (cases "even x") (auto simp: out_def step_error_def elim!: evenE oddE)
    then show ?thesis by (auto simp: close_to_def step_error_def split: pyfloat.splits)
  qed
  show thesis
  proof (rule that)
    show "sum_then (haar_dwt2 a) haar_idwt2 = Inr (tabulate (sa_height a) (sa_width a) out)" by (simp add: dwt idwt)
    show "same_shape (tabulate (sa_height a) (sa_width a) out) a" by (simp add: same_shape_def)
    show "close_to (1 / 10000000000) (sample (tabulate (sa_height a) (sa_width a) out) y x) (sample a y x)"
      if "y < sa_height a" "x < sa_width a" for y x
      using close [OF that] that by (simp add: padded_def min_absorb1)
  qed
qed

section \<open>Properties\<close>

text \<open>
  C20. The transform can be inverted: an array of any shape with samples up to 1024, rows and columns padded where
  their number is odd, comes back with its shape, every sample within one part in ten billion, although
  each of the two directions rounds four times.
\<close>

theorem haar_restores:
  assumes "0 < sa_height a" "0 < sa_width a" "length (sa_samples a) = sa_height a * sa_width a"
    "list_all (bounded_by 1024) (sa_samples a)"
  shows "case sum_then (haar_dwt2 a) haar_idwt2 of
     Inl _ \<Rightarrow> False
   | Inr r \<Rightarrow> same_shape r a
       \<and> list_all (\<lambda>(y, x). close_to (1 / 10000000000) (sample r y x) (sample a y x))
           (List.product [0..<sa_height a] [0..<sa_width a])"
proof -
  obtain r where r: "sum_then (haar_dwt2 a) haar_idwt2 = Inr r" "same_shape r a"
    "\<And>y x. y < sa_height a \<Longrightarrow> x < sa_width a \<Longrightarrow> close_to (1 / 10000000000) (sample r y x) (sample a y x)"
    using haar_inverts [OF assms] by blast
  then show ?thesis by (auto simp: list_all_iff)
qed

end
