(* ===== verification/Codec.thy ===== *)
theory Codec
  imports PayloadPositions Haar
begin

text \<open>
  The replicated codec of a tile (\<open>splitbind_ref/fingerprint_v2_codec.py\<close>, \<open>fingerprint_v3_dct.py\<close>), in
  double arithmetic: bits are quantized into pairs of coefficients of the LL band and read back by a vote of their
  replicas. The two files differ only in what \<open>codec_profile\<close> holds. The cosine transform of a block is two products of numpy matrices, whose order
  of additions numpy does not fix: it and its inverse are parameters.
\<close>

section \<open>The codec\<close>

definition put_sample :: "sample_array \<Rightarrow> coefficient \<Rightarrow> pyfloat \<Rightarrow> sample_array" where
  "put_sample a = (\<lambda>(y, x) v. a\<lparr>sa_samples := (sa_samples a)[y * sa_width a + x := v]\<rparr>)"

record transforms =
  tr_dct :: "sample_array \<Rightarrow> sample_array"
  tr_idct :: "sample_array \<Rightarrow> sample_array"

definition validate_dct_block :: "sample_array \<Rightarrow> exn + unit" where
  "validate_dct_block a =
     sum_then (validate_float_image a) (\<lambda>_.
     sum_require (sa_height a = 8 \<and> sa_width a = 8) (ValueError ''DCT input must be exactly 8x8''))"

definition dct2 :: "transforms \<Rightarrow> sample_array \<Rightarrow> exn + sample_array" where
  "dct2 T a = sum_then (validate_dct_block a) (\<lambda>_. Inr (tr_dct T a))"

definition idct2 :: "transforms \<Rightarrow> sample_array \<Rightarrow> exn + sample_array" where
  "idct2 T a = sum_then (validate_dct_block a) (\<lambda>_. Inr (tr_idct T a))"

definition validate_codec_tile :: "sample_array \<Rightarrow> codec_profile \<Rightarrow> exn + unit" where
  "validate_codec_tile tile p =
     sum_then (validate_codec_profile p) (\<lambda>_.
     let edge = nat (cp_tile_size_px p)
     in sum_then (sum_require (sa_height tile = edge \<and> sa_width tile = edge)
          (ValueError (''tile_luminance must have contracted shape ('' @ decimal edge @ '', '' @ decimal edge @ '')''))) (\<lambda>_.
        sum_require (list_all f_isfinite (sa_samples tile))
          (ValueError ''tile_luminance must contain only finite values'')))"

text \<open>One bit of one replica is written into the LL band, and read from it.\<close>

definition write_position ::
  "transforms \<Rightarrow> codec_profile \<Rightarrow> sample_array \<Rightarrow> bool \<times> nat \<Rightarrow> exn + sample_array" where
  "write_position T p ll = (\<lambda>(b, position).
     let (y, x, first, second) = position_components position p
     in sum_then (dct2 T (block_at ll y x)) (\<lambda>coefficients.
        sum_then (qim_embed_pair (sample coefficients (fst first) (snd first)) (sample coefficients (fst second) (snd second))
            (of_bool b) (py_float (cp_qim_delta p))) (\<lambda>(u, v).
        sum_then (idct2 T (put_sample (put_sample coefficients first u) second v)) (\<lambda>block.
        Inr (put_block ll y x block)))))"

definition read_position :: "transforms \<Rightarrow> codec_profile \<Rightarrow> sample_array \<Rightarrow> nat \<Rightarrow> exn + (bool \<times> pyfloat)" where
  "read_position T p ll position =
     (let (y, x, first, second) = position_components position p
      in sum_then (dct2 T (block_at ll y x)) (\<lambda>coefficients.
         sum_then (qim_extract_pair (sample coefficients (fst first) (snd first)) (sample coefficients (fst second) (snd second))
            (py_float (cp_qim_delta p))) (\<lambda>e.
         Inr (qx_bit e = 1, qx_confidence e))))"

fun write_positions ::
  "transforms \<Rightarrow> codec_profile \<Rightarrow> sample_array \<Rightarrow> (bool \<times> nat) list \<Rightarrow> exn + sample_array" where
  "write_positions T p ll [] = Inr ll"
| "write_positions T p ll (w # ws) = sum_then (write_position T p ll w) (\<lambda>ll'. write_positions T p ll' ws)"

definition embed_codeword ::
  "hmac \<Rightarrow> transforms \<Rightarrow> sample_array \<Rightarrow> bytes \<Rightarrow> bytes \<Rightarrow> int \<Rightarrow> codec_profile \<Rightarrow> exn + sample_array" where
  "embed_codeword hm T tile codeword key page_index p =
     sum_then (validate_codec_tile tile p) (\<lambda>_.
     sum_then (validate_codeword codeword) (\<lambda>_.
     sum_then (validate_binding key page_index p) (\<lambda>_.
     let replicated = concat (map (replicate (nat (cp_bit_replication p))) (unpack_bits codeword))
     in sum_then (selected_positions hm key page_index p) (\<lambda>positions.
        if length replicated \<noteq> length positions
        then Inl (ValueError (''V'' @ decimal (cp_version p) @ '' profile replication does not match payload capacity''))
        else sum_then (haar_dwt2 tile) (\<lambda>bands.
             sum_then (write_positions T p (hb_ll bands) (zip replicated positions)) (\<lambda>ll.
             haar_idwt2 (bands\<lparr>hb_ll := ll\<rparr>)))))))"

section \<open>The vote of the replicas\<close>

record codeword_evidence =
  ce_codeword :: bytes
  ce_erase_positions :: "nat list"
  ce_mean_confidence :: pyfloat
  ce_bit_error_hint :: pyfloat
  ce_erasure_ranking :: "nat list"

definition replica_weight :: "bool \<Rightarrow> (bool \<times> pyfloat) list \<Rightarrow> pyfloat" where
  "replica_weight b readings = f_sum (map snd (filter (\<lambda>(v, _). v = b) readings))"

text \<open>The bit with more confidence behind it, that confidence, and the number of replicas against it.\<close>

definition vote_replicas :: "nat \<Rightarrow> (bool \<times> pyfloat) list \<Rightarrow> exn + (bool \<times> pyfloat \<times> nat)" where
  "vote_replicas r readings =
     (let zero_weight = replica_weight False readings; one_weight = replica_weight True readings;
          winner = f_less zero_weight one_weight
      in sum_then (f_div (f_max zero_weight one_weight) (Fin (of_nat r))) (\<lambda>confidence.
         Inr (winner, confidence, length (filter (\<lambda>(v, _). v \<noteq> winner) readings))))"

fun in_groups :: "nat \<Rightarrow> nat \<Rightarrow> 'a list \<Rightarrow> 'a list list" where
  "in_groups r 0 xs = []"
| "in_groups r (Suc n) xs = take r xs # in_groups r n (drop r xs)"

definition codeword_from_readings :: "codec_profile \<Rightarrow> (bool \<times> pyfloat) list \<Rightarrow> exn + codeword_evidence" where
  "codeword_from_readings p readings =
     (let r = nat (cp_bit_replication p); bit_count = codeword_bytes * bits_per_byte
      in sum_then (sum_map (vote_replicas r) (in_groups r bit_count readings)) (\<lambda>votes.
         let totals = add_confidences (py_float (cp_bit_confidence_min p)) 0 (map (fst \<circ> snd) votes) no_confidences
         in sum_then (f_div (ct_sum totals) (Fin (of_nat bit_count))) (\<lambda>mean_confidence.
            sum_then (int_div (sum_list (map (snd \<circ> snd) votes)) (length readings)) (\<lambda>hint.
            Inr \<lparr>ce_codeword = pack_bits (map fst votes), ce_erase_positions = sort (ct_erasures totals),
                 ce_mean_confidence = mean_confidence, ce_bit_error_hint = hint,
                 ce_erasure_ranking = rank_erasure_candidates (ct_bytes totals)\<rparr>))))"

text \<open>The readings of all replicas in a tile, and the codeword that they make.\<close>

definition tile_readings ::
  "hmac \<Rightarrow> transforms \<Rightarrow> sample_array \<Rightarrow> bytes \<Rightarrow> int \<Rightarrow> codec_profile \<Rightarrow> exn + (bool \<times> pyfloat) list" where
  "tile_readings hm T tile key page_index p =
     sum_then (validate_codec_tile tile p) (\<lambda>_.
     sum_then (validate_binding key page_index p) (\<lambda>_.
     sum_then (haar_dwt2 tile) (\<lambda>bands.
     sum_then (selected_positions hm key page_index p) (\<lambda>positions.
     sum_map (read_position T p (hb_ll bands)) positions))))"

definition extract_codeword ::
  "hmac \<Rightarrow> transforms \<Rightarrow> sample_array \<Rightarrow> bytes \<Rightarrow> int \<Rightarrow> codec_profile \<Rightarrow> exn + codeword_evidence" where
  "extract_codeword hm T tile key page_index p =
     sum_then (tile_readings hm T tile key page_index p) (codeword_from_readings p)"

definition embed_codeword_v2 ::
  "hmac \<Rightarrow> transforms \<Rightarrow> sample_array \<Rightarrow> bytes \<Rightarrow> bytes \<Rightarrow> int \<Rightarrow> fingerprint_v2_profile \<Rightarrow> exn + sample_array" where
  "embed_codeword_v2 hm T tile codeword key page_index p = embed_codeword hm T tile codeword key page_index (codec_v2 p)"

definition extract_codeword_v2 ::
  "hmac \<Rightarrow> transforms \<Rightarrow> sample_array \<Rightarrow> bytes \<Rightarrow> int \<Rightarrow> fingerprint_v2_profile \<Rightarrow> exn + codeword_evidence" where
  "extract_codeword_v2 hm T tile key page_index p = extract_codeword hm T tile key page_index (codec_v2 p)"

definition embed_codeword_v3 ::
  "hmac \<Rightarrow> transforms \<Rightarrow> sample_array \<Rightarrow> bytes \<Rightarrow> bytes \<Rightarrow> int \<Rightarrow> fingerprint_v3_profile \<Rightarrow> exn + sample_array" where
  "embed_codeword_v3 hm T tile codeword key page_index p = embed_codeword hm T tile codeword key page_index (codec_v3 p)"

definition extract_codeword_v3 ::
  "hmac \<Rightarrow> transforms \<Rightarrow> sample_array \<Rightarrow> bytes \<Rightarrow> int \<Rightarrow> fingerprint_v3_profile \<Rightarrow> exn + codeword_evidence" where
  "extract_codeword_v3 hm T tile key page_index p = extract_codeword hm T tile key page_index (codec_v3 p)"

section \<open>Voting\<close>

lemma foldl_add_near:
  assumes "list_all (\<lambda>c. 0 \<le> c \<and> c \<le> 1) cs" "\<bar>a\<bar> + 2 * of_nat (length cs) \<le> 16"
  shows "\<exists>s. foldl f_add (Fin a) (map Fin cs) = Fin s \<and> \<bar>s - (a + sum_list cs)\<bar> \<le> of_nat (length cs) / 2 ^ 40"
  using assms
proof (induction cs arbitrary: a)
  case (Cons c cs)
  define L where "L = (of_nat (length cs) :: rat)"
  have c: "0 \<le> c" "c \<le> 1" using Cons.prems(1) by auto
  have L: "0 \<le> L" by (simp add: L_def)
  have a: "2 * L - 14 \<le> a" "a \<le> 14 - 2 * L" using Cons.prems(2) by (auto simp: L_def abs_le_iff abs_if split: if_splits)
  have "\<bar>a + c\<bar> \<le> 16" using a c L unfolding abs_le_iff by linarith
  then have "\<bar>a + c\<bar> \<le> 2 ^ 4" by simp
  then obtain r where r: "to_double (a + c) = Fin r" "\<bar>r - (a + c)\<bar> \<le> 2 ^ 4 / 2 ^ 53" by (rule to_double_near) simp
  have e: "\<bar>r - (a + c)\<bar> \<le> 1 / 2 ^ 40" using r(2) by (rule order_trans) simp
  have "\<bar>r - (a + c)\<bar> \<le> 1" using e by (rule order_trans) simp
  then have "\<bar>r\<bar> + 2 * L \<le> 16" using a c unfolding abs_le_iff by linarith
  with Cons.IH [of r] Cons.prems(1) obtain s where
    s: "foldl f_add (Fin r) (map Fin cs) = Fin s" "\<bar>s - (r + sum_list cs)\<bar> \<le> L / 2 ^ 40" by (auto simp: L_def)
  have "\<bar>s - (a + (c + sum_list cs))\<bar> \<le> \<bar>s - (r + sum_list cs)\<bar> + \<bar>r - (a + c)\<bar>" by linarith
  also have "\<dots> \<le> L / 2 ^ 40 + 1 / 2 ^ 40" using s(2) e by (rule add_mono)
  finally show ?case using s(1) r(1) by (simp add: L_def add_divide_distrib)
qed simp

text \<open>Three readings of a bit of which at least two read it with a confidence above \<open>74 / 100\<close>.\<close>

definition confident_majority :: "bool \<Rightarrow> (bool \<times> pyfloat) list \<Rightarrow> bool" where
  "confident_majority b readings \<longleftrightarrow> length readings = 3
     \<and> list_all (\<lambda>(_, c). f_le (Fin 0) c \<and> f_le c (Fin 1)) readings
     \<and> 2 \<le> length (filter (\<lambda>(v, c). v = b \<and> f_less (Fin (74 / 100)) c) readings)"

definition confident_consensus :: "bool \<Rightarrow> (bool \<times> pyfloat) list \<Rightarrow> bool" where
  "confident_consensus b readings \<longleftrightarrow> confident_majority b readings
     \<and> list_all (\<lambda>(v, c). v = b \<and> f_less (Fin (74 / 100)) c) readings"

lemma unit_Fin: "f_le (Fin 0) c \<and> f_le c (Fin 1) \<longleftrightarrow> (\<exists>q. c = Fin q \<and> 0 \<le> q \<and> q \<le> 1)"
  by (cases c) (auto simp: f_le_def)

lemma replica_weight_near:
  assumes "readings = map (\<lambda>(v, q). (v, Fin q)) qs" "list_all (\<lambda>(_, q). 0 \<le> q \<and> q \<le> 1) qs" "length qs = 3"
  obtains s where "replica_weight b readings = Fin s" "\<bar>s - sum_list (map snd (filter (\<lambda>(v, _). v = b) qs))\<bar> \<le> 1 / 2 ^ 30"
proof -
  let ?cs = "map snd (filter (\<lambda>(v, _). v = b) qs)"
  have l: "length ?cs \<le> 3" using assms(3) length_filter_le [of "\<lambda>(v, _). v = b" qs] by simp
  have "list_all (\<lambda>c. 0 \<le> c \<and> c \<le> 1) ?cs" using assms(2) by (auto simp: list_all_iff)
  moreover have "\<bar>0 :: rat\<bar> + 2 * of_nat (length ?cs) \<le> 16"
  proof -
    have "(of_nat (length ?cs) :: rat) \<le> of_nat 3" using l by (simp only: of_nat_le_iff)
    then show ?thesis by simp
  qed
  ultimately obtain s where s: "foldl f_add (Fin 0) (map Fin ?cs) = Fin s" "\<bar>s - (0 + sum_list ?cs)\<bar> \<le> of_nat (length ?cs) / 2 ^ 40"
    using foldl_add_near [of ?cs 0] by blast
  have "(of_nat (length ?cs) :: rat) \<le> of_nat 3" using l by (simp only: of_nat_le_iff)
  then have "of_nat (length ?cs) / 2 ^ 40 \<le> (1 / 2 ^ 30 :: rat)" by simp
  moreover have "map snd (filter (\<lambda>(v, _). v = b) readings) = map Fin ?cs"
    unfolding assms(1) by (induction qs) auto
  ultimately show thesis using s that by (simp add: replica_weight_def f_sum_def)
qed


lemma vote_replicas_majority:
  assumes "confident_majority b g"
  obtains c k where "vote_replicas 3 g = Inr (b, Fin c, k)" "0 \<le> c" "c \<le> 2" "k \<le> 3"
    "confident_consensus b g \<Longrightarrow> 73 / 100 < c \<and> k = 0"
proof -
  have "list_all (\<lambda>(_, c). \<exists>q. c = Fin q \<and> 0 \<le> q \<and> q \<le> 1) g"
    using assms by (simp add: confident_majority_def unit_Fin)
  then have "\<exists>qs. g = map (\<lambda>(v, q). (v, Fin q)) qs \<and> list_all (\<lambda>(_, q). 0 \<le> q \<and> q \<le> 1) qs"
  proof (induction g)
    case (Cons x g)
    then obtain qs q where "g = map (\<lambda>(v, q). (v, Fin q)) qs" "list_all (\<lambda>(_, q). 0 \<le> q \<and> q \<le> 1) qs"
      "x = (fst x, Fin q)" "0 \<le> q" "q \<le> 1" by (cases x) auto
    then show ?case by (intro exI [of _ "(fst x, q) # qs"]) auto
  qed simp
  then obtain qs where g: "g = map (\<lambda>(v, q). (v, Fin q)) qs" and u: "list_all (\<lambda>(_, q). 0 \<le> q \<and> q \<le> 1) qs" by blast
  have l: "length qs = 3" using assms g by (simp add: confident_majority_def)
  then obtain v1 q1 v2 q2 v3 q3 where qs: "qs = [(v1, q1), (v2, q2), (v3, q3)]"
    by (auto simp: numeral_3_eq_3 length_Suc_conv)
  define W where "W = (\<lambda>x. sum_list (map snd (filter (\<lambda>(v, _). v = x) qs)))"
  have W: "\<And>x. W x = (if v1 = x then q1 else 0) + (if v2 = x then q2 else 0) + (if v3 = x then q3 else 0)"
    by (simp add: W_def qs)
  obtain s where s: "replica_weight b g = Fin s" "\<bar>s - W b\<bar> \<le> 1 / 2 ^ 30"
    unfolding W_def by (rule replica_weight_near [OF g u l])
  obtain t where t: "replica_weight (\<not> b) g = Fin t" "\<bar>t - W (\<not> b)\<bar> \<le> 1 / 2 ^ 30"
    unfolding W_def by (rule replica_weight_near [OF g u l])
  have two: "2 \<le> length (filter (\<lambda>(v, q). v = b \<and> 74 / 100 < q) qs)"
    using assms unfolding confident_majority_def g by (simp add: filter_map o_def split_def)
  have q: "0 \<le> q1" "q1 \<le> 1" "0 \<le> q2" "q2 \<le> 1" "0 \<le> q3" "q3 \<le> 1" using u by (auto simp: qs)
  have big: "148 / 100 < W b" "W b \<le> 3" and small: "W (\<not> b) \<le> 1" "0 \<le> W (\<not> b)"
    using two q by (auto simp: W qs split: if_splits)
  have st: "147 / 100 < s" "t < 102 / 100" "s \<le> 4"
    using s(2) t(2) big small unfolding abs_le_iff by simp_all
  have "\<bar>s / 3\<bar> \<le> 2 ^ 1" using st unfolding abs_le_iff by simp
  then obtain c where c: "to_double (s / 3) = Fin c" "\<bar>c - s / 3\<bar> \<le> 2 ^ 1 / 2 ^ 53" by (rule to_double_near) simp
  have cb: "0 \<le> c" "c \<le> 2" using c(2) st unfolding abs_le_iff by simp_all
  have win: "f_less (replica_weight False g) (replica_weight True g) = b"
    using s t st by (cases b) simp_all
  have mx: "f_max (replica_weight False g) (replica_weight True g) = Fin s"
    using s t st by (cases b) (simp_all add: f_max_def)
  define k where "k = length (filter (\<lambda>(v, _). v \<noteq> b) g)"
  have run: "vote_replicas 3 g = Inr (b, Fin c, k)"
    unfolding vote_replicas_def Let_def win mx by (simp add: c(1) k_def)
  have "k \<le> 3" using l by (simp add: k_def g) (metis length_filter_le length_map l)
  moreover have "73 / 100 < c \<and> k = 0" if "confident_consensus b g"
  proof -
    have all: "v1 = b" "v2 = b" "v3 = b" "74 / 100 < q1" "74 / 100 < q2" "74 / 100 < q3"
      using that by (auto simp: confident_consensus_def g qs)
    then have "222 / 100 < W b" by (simp add: W)
    then have "221 / 100 < s" using s(2) unfolding abs_le_iff by simp
    then have "73 / 100 < c" using c(2) unfolding abs_le_iff by simp
    moreover have "k = 0" using all by (simp add: k_def g qs)
    ultimately show ?thesis ..
  qed
  ultimately show thesis using that run cb by blast
qed

lemma length_in_groups [simp]: "length (in_groups r n xs) = n"
  by (induction n arbitrary: xs) simp_all

lemma voted_bits:
  assumes "list_all2 confident_majority bs gs"
  shows "\<exists>cs ks. sum_map (vote_replicas 3) gs = Inr (zip bs (zip (map Fin cs) ks)) \<and> length cs = length bs
    \<and> length ks = length bs \<and> list_all (\<lambda>k. k \<le> 3) ks
    \<and> (list_all2 confident_consensus bs gs \<longrightarrow> list_all (\<lambda>c. 73 / 100 < c) cs \<and> list_all (\<lambda>k. k = 0) ks)"
  using assms
proof (induction bs gs rule: list_all2_induct)
  case Nil
  show ?case by (intro exI [of _ "[]"]) simp
next
  case (Cons b bs g gs)
  then obtain cs ks where r: "sum_map (vote_replicas 3) gs = Inr (zip bs (zip (map Fin cs) ks))" "length cs = length bs" "length ks = length bs"
    "list_all (\<lambda>k. k \<le> 3) ks"
    "list_all2 confident_consensus bs gs \<longrightarrow> list_all (\<lambda>c. 73 / 100 < c) cs \<and> list_all (\<lambda>k. k = 0) ks"
    by blast
  obtain c k where v: "vote_replicas 3 g = Inr (b, Fin c, k)" "k \<le> 3" "confident_consensus b g \<longrightarrow> 73 / 100 < c \<and> k = 0"
    using vote_replicas_majority [OF Cons.hyps(1)] by blast
  show ?case
    by (rule exI [of _ "c # cs"], rule exI [of _ "k # ks"]) (use r v in \<open>auto simp: sum_then_def\<close>)
qed

lemma confident_no_erasures:
  "list_all (\<lambda>c. \<not> f_less c least) cs \<Longrightarrow> ct_erasures (add_confidences least i cs t) = ct_erasures t"
  by (induction cs arbitrary: i t) (simp_all add: Let_def)

lemma f_div_Fin: "n \<noteq> 0 \<Longrightarrow> \<exists>r. f_div x (Fin n) = Inr r"
  by (cases x) simp_all

lemma frozen_confidence_value: "double_value (0x3FE3333333333333) = Some frozen_confidence" "frozen_confidence = 5404319552844595 / 9007199254740992"
  by (simp_all add: frozen_confidence_def double_value_def Let_def)

lemma codec_profile_valid:
  "validate_codec_tile tile p = Inr u \<Longrightarrow> cp_bit_replication p = 3 \<and> py_float (cp_bit_confidence_min p) = Fin frozen_confidence"
  by (auto simp: validate_codec_tile_def validate_codec_profile_def sum_then_Inr py_float_def)

lemma selected_positions_length: "selected_positions hm key i p = Inr ps \<Longrightarrow> length ps = 936"
proof -
  assume "selected_positions hm key i p = Inr ps"
  then obtain groups where g: "replica_groups hm key i p = Inr groups" "ps = concat groups"
    by (auto simp: selected_positions_def sum_then_Inr)
  from g(1) obtain positions where "place_bits (cp_version p) 3 312 positions = Inr groups" by (rule replica_groups_Inr)
  from place_bits_spread [OF this] have "list_all (\<lambda>g. length g = 3) groups" "length groups = 312"
    by (auto simp: spread_groups_def list_all_iff)
  moreover have "list_all (\<lambda>g. length g = 3) gs \<Longrightarrow> length (concat gs) = 3 * length gs" for gs :: "nat list list"
    by (induction gs) simp_all
  ultimately show ?thesis using g(2) by simp
qed

lemma sum_list_bound: "list_all (\<lambda>k. k \<le> (m :: nat)) ks \<Longrightarrow> sum_list ks \<le> m * length ks"
  by (induction ks) auto

section \<open>Properties\<close>

text \<open>
  C19. The replicas outvote a damaged one: when of the three readings of each bit of a codeword two are right and confident,
  as they are within the noise that the quantization bears, reading the tile gives that codeword, whatever
  the third one says. When all three are right and confident nothing is declared an erasure and the
  estimated bit errors are zero. Reading fails only where a tile, its binding or a transform is refused.
\<close>

theorem replicas_outvote_damage:
  "case tile_readings hm T tile key page_index p of
     Inl e \<Rightarrow> extract_codeword hm T tile key page_index p = Inl e
   | Inr readings \<Rightarrow> length readings = 936
       \<and> (if list_all2 confident_majority (unpack_bits w) (in_groups 3 312 readings)
          then case extract_codeword hm T tile key page_index p of
            Inl _ \<Rightarrow> False
          | Inr e \<Rightarrow> ce_codeword e = w
             \<and> (if list_all2 confident_consensus (unpack_bits w) (in_groups 3 312 readings)
                then ce_erase_positions e = [] \<and> ce_bit_error_hint e = Fin 0 else True)
          else True)"
proof (cases "tile_readings hm T tile key page_index p")
  case (Inr readings)
  have valid: "cp_bit_replication p = 3" "py_float (cp_bit_confidence_min p) = Fin frozen_confidence" and n: "length readings = 936"
    using Inr by (auto simp: tile_readings_def sum_then_Inr dest!: codec_profile_valid selected_positions_length sum_map_length)
  let ?groups = "in_groups 3 312 readings"
  have run: "extract_codeword hm T tile key page_index p = codeword_from_readings p readings"
    using Inr by (simp add: extract_codeword_def)
  show ?thesis
  proof (cases "list_all2 confident_majority (unpack_bits w) ?groups")
    case True
    obtain cs ks where v: "sum_map (vote_replicas 3) ?groups = Inr (zip (unpack_bits w) (zip (map Fin cs) ks))"
      "length cs = length (unpack_bits w)" "length ks = length (unpack_bits w)" "list_all (\<lambda>k. k \<le> 3) ks"
      "list_all2 confident_consensus (unpack_bits w) ?groups \<longrightarrow> list_all (\<lambda>c. 73 / 100 < c) cs \<and> list_all (\<lambda>k. k = 0) ks"
      using voted_bits [OF True] by blast
    let ?votes = "zip (unpack_bits w) (zip (map Fin cs) ks)"
    have "length (in_groups 3 312 readings) = 312" using sum_map_length [OF v(1)] True n
      by (metis length_in_groups)
    then have w: "length (unpack_bits w) = 312" using list_all2_lengthD [OF True] by simp
    have parts: "map fst ?votes = unpack_bits w" "map (fst \<circ> snd) ?votes = map Fin cs" "map (snd \<circ> snd) ?votes = ks"
      using v(2,3) by (simp_all flip: map_map)
    define totals where "totals = add_confidences (Fin frozen_confidence) 0 (map Fin cs) no_confidences"
    obtain mean where mean: "f_div (ct_sum totals) (Fin (of_nat 312)) = Inr mean" using f_div_Fin [of "of_nat 312"] by auto
    have "sum_list ks \<le> 936" using sum_list_bound [OF v(4)] v(3) w by simp
    then obtain hint where hint: "int_div (sum_list ks) 936 = Inr (Fin hint)" "hint = round_double (of_nat (sum_list ks) / of_nat 936)"
      by (rule int_div_le_one) simp
    have result: "codeword_from_readings p readings = Inr \<lparr>ce_codeword = w, ce_erase_positions = sort (ct_erasures totals),
        ce_mean_confidence = mean, ce_bit_error_hint = Fin hint, ce_erasure_ranking = rank_erasure_candidates (ct_bytes totals)\<rparr>"
      using mean hint(1) by (simp add: codeword_from_readings_def valid codeword_bytes_def bits_per_byte_def v(1) parts n Let_def
          totals_def [symmetric] del: of_nat_numeral)
    have "ct_erasures totals = [] \<and> hint = 0" if "list_all2 confident_consensus (unpack_bits w) ?groups"
    proof
      have c: "list_all (\<lambda>c. 73 / 100 < c) cs" "list_all (\<lambda>k. k = 0) ks" using v(5) that by auto
      have "list_all (\<lambda>c. \<not> f_less c (Fin frozen_confidence)) (map Fin cs)"
        using c(1) by (auto simp: list_all_iff frozen_confidence_value(2))
      then show "ct_erasures totals = []" unfolding totals_def by (subst confident_no_erasures) (simp_all add: no_confidences_def)
      have "sum_list ks = 0" using c(2) by (simp add: list_all_iff)
      then show "hint = 0" using hint(2) by (simp add: round_double_def)
    qed
    then show ?thesis using Inr n run result by simp
  qed (simp add: Inr n)
qed (simp add: extract_codeword_def)

end
