(* ===== verification/Votes.thy ===== *)
theory Votes
  imports Codec Payload
begin

text \<open>
  The decision of the fingerprint decoders (\<open>splitbind_ref/fingerprint_v2.py\<close>, \<open>fingerprint_v3.py\<close>): every tile of
  every candidate profile may cast a vote, the identity of a payload whose CRC is right, and only a quorum of the
  tiles of one candidate attributes a page. The alignment of a page, its luminance, the frozen
  grids of profiles and the libraries under the codecs are parameters.
\<close>

section \<open>Votes\<close>

record payload_vote =
  pv_candidate_id :: bytes
  pv_tile_ordinal :: nat
  pv_issuance_id :: uuid
  pv_bit_error_rate :: "pyfloat option"

datatype vote_codec = DctCodec | SpreadDarken | SpreadLighten

record payload_vote_v3 = payload_vote +
  pv_geometry_matrix :: "pyfloat list"
  pv_codec :: vote_codec

record vote_decision =
  vd_issuance_id :: "uuid option"
  vd_confidence :: pyfloat
  vd_valid_votes :: nat
  vd_bit_error_rate :: "pyfloat option"
  vd_status :: string

text \<open>The first attempt of the erasure ladder that gives a payload with a right CRC; a refusal is the next attempt.\<close>

definition attempt_payload :: "rs_codec \<Rightarrow> bytes \<Rightarrow> int list \<Rightarrow> exn + (bytes \<times> payload_decode)" where
  "attempt_payload C codeword erasures =
     sum_then (decode_ecc_with_erasures C codeword erasures (pf_parity_symbols payload_profile)) (\<lambda>payload.
     sum_then (decode_payload payload) (\<lambda>decoded. Inr (payload, decoded)))"

fun first_payload :: "rs_codec \<Rightarrow> bytes \<Rightarrow> int list list \<Rightarrow> exn + (bytes \<times> payload_decode) option" where
  "first_payload C codeword [] = Inr None"
| "first_payload C codeword (erasures # rest) = (case attempt_payload C codeword erasures of
     Inr found \<Rightarrow> Inr (Some found)
   | Inl (EccDecodeError _) \<Rightarrow> first_payload C codeword rest
   | Inl (ValueError _) \<Rightarrow> first_payload C codeword rest
   | Inl e \<Rightarrow> Inl e)"

definition bit_error_rate :: "bytes \<Rightarrow> bytes \<Rightarrow> exn + pyfloat" where
  "bit_error_rate observed wanted =
     int_div (length (filter (\<lambda>(a, b). a \<noteq> b) (zip (unpack_bits observed) (unpack_bits wanted)))) (length (unpack_bits wanted))"

text \<open>The identity that the evidence of a tile gives, with the bit errors of its codeword.\<close>

definition decode_payload_vote :: "rs_codec \<Rightarrow> bytes \<Rightarrow> nat list \<Rightarrow> nat list \<Rightarrow> exn + (uuid \<times> pyfloat) option" where
  "decode_payload_vote C codeword erase_positions ranking =
     sum_then (first_payload C codeword (erasure_ladder (map int erase_positions) (map int ranking))) (\<lambda>found.
     case found of
       None \<Rightarrow> Inr None
     | Some (payload, decoded) \<Rightarrow>
         sum_then (encode_ecc C payload (pf_parity_symbols payload_profile)) (\<lambda>wanted.
         sum_then (bit_error_rate codeword wanted) (\<lambda>ber. Inr (Some (pd_issuance_id decoded, ber)))))"

definition mean_bit_error_rate :: "('a payload_vote_scheme) list \<Rightarrow> exn + pyfloat option" where
  "mean_bit_error_rate votes = (case map the (filter (\<lambda>r. r \<noteq> None) (map pv_bit_error_rate votes)) of
     [] \<Rightarrow> Inr None
   | values \<Rightarrow> sum_then (f_div (f_sum values) (Fin (of_nat (length values)))) (\<lambda>r. Inr (Some r)))"

text \<open>\<open>max\<close> of a non-empty list keeps the first of the greatest.\<close>

fun first_max :: "('a \<Rightarrow> 'a \<Rightarrow> bool) \<Rightarrow> 'a \<Rightarrow> 'a list \<Rightarrow> 'a" where
  "first_max lt best [] = best"
| "first_max lt best (x # xs) = first_max lt (if lt best x then x else best) xs"

definition best_geometry_confidence :: "pyfloat list \<Rightarrow> pyfloat" where
  "best_geometry_confidence scores =
     (case map (\<lambda>s. f_min (f_max s (Fin (- 1))) (Fin 1)) (filter f_isfinite scores) of
        [] \<Rightarrow> Fin 0 | s # ss \<Rightarrow> first_max f_less s ss)"

section \<open>Groups of votes\<close>

text \<open>
  The votes for one identity by the tiles of one candidate, with their share of the tiles that carry the
  payload. A candidate that no profile names is a \<open>KeyError\<close>.
\<close>

record 'v support_group =
  sg_candidate :: bytes
  sg_issuance :: uuid
  sg_support :: pyfloat
  sg_votes :: "'v list"

definition group_support ::
  "(bytes \<times> nat) list \<Rightarrow> 'a payload_vote_scheme list \<Rightarrow> bytes \<times> uuid \<Rightarrow> exn + 'a payload_vote_scheme support_group" where
  "group_support repetitions votes = (\<lambda>(c, u).
     let supporting = filter (\<lambda>v. pv_candidate_id v = c \<and> pv_issuance_id v = u) votes
     in case map_of repetitions c of
       None \<Rightarrow> Inl (KeyError ''candidate_id'')
     | Some n \<Rightarrow> sum_then (int_div (length supporting) n) (\<lambda>support.
         Inr \<lparr>sg_candidate = c, sg_issuance = u, sg_support = support, sg_votes = supporting\<rparr>))"

definition group_less :: "'v support_group \<Rightarrow> 'v support_group \<Rightarrow> bool" where
  "group_less g h \<longleftrightarrow> f_less (sg_support g) (sg_support h)
     \<or> f_eq (sg_support g) (sg_support h) \<and> length (sg_votes g) < length (sg_votes h)"

definition support_threshold :: pyfloat where
  "support_threshold = py_float 0x3FE3333333333333"

definition eligible_group :: "'v support_group \<Rightarrow> bool" where
  "eligible_group g \<longleftrightarrow> 2 \<le> length (sg_votes g) \<and> f_le support_threshold (sg_support g)"

definition group_decision ::
  "'a payload_vote_scheme support_group \<Rightarrow> uuid option \<Rightarrow> string \<Rightarrow> exn + vote_decision" where
  "group_decision g u status = sum_then (mean_bit_error_rate (sg_votes g)) (\<lambda>ber.
     Inr \<lparr>vd_issuance_id = u, vd_confidence = sg_support g, vd_valid_votes = length (sg_votes g),
          vd_bit_error_rate = ber, vd_status = status\<rparr>)"

definition no_votes :: "pyfloat \<Rightarrow> string \<Rightarrow> vote_decision" where
  "no_votes geometry_confidence status = \<lparr>vd_issuance_id = None, vd_confidence = geometry_confidence, vd_valid_votes = 0,
     vd_bit_error_rate = None, vd_status = status\<rparr>"

section \<open>Version 2\<close>

text \<open>One vote for each tile of a candidate; two that differ are refused.\<close>

fun unique_votes :: "payload_vote list \<Rightarrow> payload_vote list \<Rightarrow> exn + payload_vote list" where
  "unique_votes seen [] = Inr seen"
| "unique_votes seen (v # vs) =
     (case find (\<lambda>w. pv_candidate_id w = pv_candidate_id v \<and> pv_tile_ordinal w = pv_tile_ordinal v) seen of
        None \<Rightarrow> unique_votes (seen @ [v]) vs
      | Some w \<Rightarrow> if w \<noteq> v then Inl (ValueError ''duplicate V2 tile provenance has conflicting evidence'')
          else unique_votes seen vs)"

text \<open>The values of a list in the order in which they first appear.\<close>

definition first_seen :: "'a list \<Rightarrow> 'a list" where
  "first_seen xs = rev (remdups (rev xs))"

definition group_keys :: "'a payload_vote_scheme list \<Rightarrow> (bytes \<times> uuid) list" where
  "group_keys votes = concat (map (\<lambda>c. map (Pair c)
     (first_seen (map pv_issuance_id (filter (\<lambda>v. pv_candidate_id v = c) votes)))) (first_seen (map pv_candidate_id votes)))"

definition strongest_group :: "'v support_group list \<Rightarrow> 'v support_group" where
  "strongest_group gs = first_max group_less (hd gs) (tl gs)"

definition decide_payload_votes_v2 ::
  "payload_vote list \<Rightarrow> (bytes \<times> nat) list \<Rightarrow> pyfloat \<Rightarrow> exn + vote_decision" where
  "decide_payload_votes_v2 votes repetitions geometry_confidence =
     sum_then (unique_votes [] votes) (\<lambda>unique.
     if unique = [] then Inr (no_votes geometry_confidence ''payload_not_detected'')
     else sum_then (sum_map (group_support repetitions unique) (group_keys unique)) (\<lambda>groups.
       let eligible = filter eligible_group groups; observed = first_seen (map pv_issuance_id unique)
       in if length observed \<noteq> 1 \<or> eligible = []
          then group_decision (strongest_group groups) None ''partial_payload_evidence''
          else group_decision (strongest_group (filter (\<lambda>g. sg_issuance g = hd observed) eligible))
                 (Some (hd observed)) ''decoded''))"

section \<open>Version 3\<close>

text \<open>The first vote of each tile for each candidate and identity.\<close>

fun tile_votes :: "payload_vote_v3 list \<Rightarrow> payload_vote_v3 list \<Rightarrow> payload_vote_v3 list" where
  "tile_votes seen [] = seen"
| "tile_votes seen (v # vs) =
     (if list_ex (\<lambda>w. pv_candidate_id w = pv_candidate_id v \<and> pv_issuance_id w = pv_issuance_id v
        \<and> pv_tile_ordinal w = pv_tile_ordinal v) seen
      then tile_votes seen vs else tile_votes (seen @ [v]) vs)"

definition decide_payload_votes_v3 ::
  "payload_vote_v3 list \<Rightarrow> (bytes \<times> nat) list \<Rightarrow> pyfloat \<Rightarrow> exn + vote_decision" where
  "decide_payload_votes_v3 votes repetitions geometry_confidence =
     (let counted = tile_votes [] votes
      in if counted = [] then Inr (no_votes geometry_confidence ''payload_not_detected'')
         else sum_then (sum_map (group_support repetitions counted)
                (first_seen (map (\<lambda>v. (pv_candidate_id v, pv_issuance_id v)) counted))) (\<lambda>groups.
           let strongest = strongest_group groups;
               status = (if 1 < length (first_seen (map pv_issuance_id votes)) then ''conflicting_payload_evidence''
                 else if eligible_group strongest then ''decoded'' else ''partial_payload_evidence'')
           in group_decision strongest (if status = ''decoded'' then Some (sg_issuance strongest) else None) status))"

section \<open>Decoding a page\<close>

record 'img page_alignment =
  pa_score :: pyfloat
  pa_reason :: string
  pa_image :: "'img option"

record 'img geometry_hypothesis =
  gh_kind :: string
  gh_image :: 'img
  gh_matrix :: "pyfloat list"
  gh_score :: pyfloat

record 'img geometry_search =
  gs_hypotheses :: "'img geometry_hypothesis list"
  gs_sync_reason :: "string option"

record 'img decoder_libs =
  dl_hmac :: hmac
  dl_rs :: rs_codec
  dl_transforms :: transforms
  dl_mean :: "pyfloat list \<Rightarrow> pyfloat"
  dl_shape :: "'img \<Rightarrow> int \<times> int"
  dl_luminance :: "'img \<Rightarrow> sample_array"
  dl_align :: "'img \<Rightarrow> bytes \<Rightarrow> int \<Rightarrow> fingerprint_v2_profile \<Rightarrow> int \<times> int \<Rightarrow> exn + 'img page_alignment"
  dl_search :: "'img \<Rightarrow> bytes \<Rightarrow> int \<Rightarrow> int \<times> int \<Rightarrow> fingerprint_v3_profile \<Rightarrow> exn + 'img geometry_search"
  dl_grid_v2 :: "fingerprint_v2_profile list"
  dl_grid_v3 :: "fingerprint_v3_profile list"

definition validate_canonical_shape :: "int \<times> int \<Rightarrow> exn + (int \<times> int)" where
  "validate_canonical_shape = (\<lambda>(height, width).
     if height \<le> 0 \<or> width \<le> 0 then Inl (ValueError ''canonical_shape must contain positive (height, width) integers'')
     else if height * width > int max_page_pixels
     then Inl (ValueError ''canonical_shape exceeds the 40-megapixel processing ceiling'')
     else Inr (height, width))"

definition validate_decoded_page :: "'img decoder_libs \<Rightarrow> 'img \<Rightarrow> exn + unit" where
  "validate_decoded_page L page = (let (height, width) = dl_shape L page in
     sum_then (sum_require (\<not> (height = 0 \<or> width = 0)) (ValueError ''page must have non-empty dimensions'')) (\<lambda>_.
     sum_require (height * width \<le> int max_page_pixels) (ValueError ''page exceeds the 40-megapixel processing ceiling'')))"

text \<open>\<open>luminance[y:y+height, x:x+width]\<close>.\<close>

definition crop_tile :: "sample_array \<Rightarrow> tile \<Rightarrow> sample_array" where
  "crop_tile a t = tabulate (min (tl_height t) (sa_height a - tl_y t)) (min (tl_width t) (sa_width a - tl_x t))
     (\<lambda>y x. sample a (tl_y t + y) (tl_x t + x))"

definition validate_v2_candidate :: "fingerprint_v2_profile list \<Rightarrow> fingerprint_v2_profile \<Rightarrow> exn + bytes" where
  "validate_v2_candidate grid p =
     sum_then (sum_require (f2_schema_version p = 2) (ValueError ''profile schema_version must be 2'')) (\<lambda>_.
     sum_then (sum_require (case (double_value (f2_qim_delta p), double_value (f2_pilot_strength_rms p)) of
          (Some q, Some s) \<Rightarrow> 0 < q \<and> 0 < s | _ \<Rightarrow> False) (ValueError ''profile strengths must be finite and positive'')) (\<lambda>_.
     sum_then (sum_require (0 < f2_payload_repetitions p \<and> f2_payload_repetitions p \<le> f2_tiles_per_page p)
        (ValueError ''profile payload_repetitions must fit tiles_per_page'')) (\<lambda>_.
     sum_then (candidate_identifier_v2 p) (\<lambda>identifier.
     sum_then (sum_require (p \<in> set grid) (ValueError ''profile must be an exact profile from the frozen V2 grid'')) (\<lambda>_.
     Inr identifier)))))"

definition validate_v3_candidate :: "fingerprint_v3_profile list \<Rightarrow> fingerprint_v3_profile \<Rightarrow> exn + bytes" where
  "validate_v3_candidate grid p =
     sum_then (candidate_identifier_v3 p) (\<lambda>identifier.
     sum_then (sum_require (p \<in> set grid) (ValueError ''profile must be an exact profile from the frozen V3 grid'')) (\<lambda>_.
     Inr identifier))"

definition validate_candidates :: "nat \<Rightarrow> ('p \<Rightarrow> exn + bytes) \<Rightarrow> 'p list \<Rightarrow> exn + bytes list" where
  "validate_candidates version validate profiles =
     (if profiles = [] then Inl (ValueError (''profiles must contain at least one V'' @ decimal version @ '' candidate''))
      else if length profiles > 16
      then Inl (ValueError (''profiles must contain at most 16 V'' @ decimal version @ '' candidates''))
      else sum_then (sum_map validate profiles) (\<lambda>identifiers.
        sum_then (sum_require (distinct identifiers) (ValueError ''profiles contain a duplicate candidate identifier'')) (\<lambda>_.
        Inr identifiers)))"

text \<open>The votes of the tiles, numbered from one ordinal on.\<close>

fun tile_ballots :: "(nat \<Rightarrow> tile \<Rightarrow> exn + 'v list) \<Rightarrow> nat \<Rightarrow> tile list \<Rightarrow> exn + 'v list" where
  "tile_ballots ballot i [] = Inr []"
| "tile_ballots ballot i (t # ts) =
     sum_then (ballot i t) (\<lambda>votes. sum_then (tile_ballots ballot (Suc i) ts) (\<lambda>more. Inr (votes @ more)))"

definition ballot_v2 ::
  "'img decoder_libs \<Rightarrow> bytes \<Rightarrow> int \<Rightarrow> fingerprint_v2_profile \<Rightarrow> bytes \<Rightarrow> sample_array \<Rightarrow> nat \<Rightarrow> tile \<Rightarrow> exn + payload_vote list" where
  "ballot_v2 L key page_index p identifier luminance ordinal t =
     sum_then (extract_codeword_v2 (dl_hmac L) (dl_transforms L) (crop_tile luminance t) key page_index p) (\<lambda>e.
     sum_then (decode_payload_vote (dl_rs L) (ce_codeword e) (ce_erase_positions e) (ce_erasure_ranking e)) (\<lambda>vote.
     Inr (case vote of None \<Rightarrow> []
       | Some (u, ber) \<Rightarrow> [\<lparr>pv_candidate_id = identifier, pv_tile_ordinal = ordinal, pv_issuance_id = u, pv_bit_error_rate = Some ber\<rparr>])))"

text \<open>What a candidate contributes: whether it was aligned, whether its geometry was rejected, its score and its votes.\<close>

record 'v candidate_evidence =
  ev_aligned :: bool
  ev_rejected :: bool
  ev_scores :: "pyfloat list"
  ev_votes :: "'v list"

definition candidate_evidence_v2 ::
  "'img decoder_libs \<Rightarrow> 'img \<Rightarrow> bytes \<Rightarrow> int \<Rightarrow> int \<times> int \<Rightarrow> fingerprint_v2_profile \<times> bytes \<Rightarrow> exn + payload_vote candidate_evidence" where
  "candidate_evidence_v2 L page key page_index canvas = (\<lambda>(p, identifier).
     sum_then (dl_align L page key page_index p canvas) (\<lambda>alignment.
     let unaligned = \<lparr>ev_aligned = False, ev_rejected = pa_reason alignment = ''geometry_rejected'',
           ev_scores = [pa_score alignment], ev_votes = []\<rparr>
     in if pa_reason alignment = ''geometry_rejected'' then Inr unaligned
        else case (pa_reason alignment = ''aligned'', pa_image alignment) of
          (True, Some aligned) \<Rightarrow>
            (case derive_tiles_v2 (dl_hmac L) (dl_shape L aligned) key page_index p of
               Inl (ValueError _) \<Rightarrow> Inr (unaligned\<lparr>ev_aligned := True\<rparr>)
             | Inl e \<Rightarrow> Inl e
             | Inr tiles \<Rightarrow>
                 sum_then (tile_ballots (ballot_v2 L key page_index p identifier (dl_luminance L aligned)) 0
                   (take (nat (f2_payload_repetitions p)) tiles)) (\<lambda>votes.
                 Inr (unaligned\<lparr>ev_aligned := True, ev_votes := votes\<rparr>)))
        | _ \<Rightarrow> Inr unaligned))"

definition decode_fingerprint_v2 ::
  "'img decoder_libs \<Rightarrow> 'img \<Rightarrow> bytes \<Rightarrow> int \<Rightarrow> int \<times> int \<Rightarrow> fingerprint_v2_profile list \<Rightarrow> exn + vote_decision" where
  "decode_fingerprint_v2 L page key page_index canonical_shape profiles =
     sum_then (validate_bytes ''key'' key) (\<lambda>_.
     sum_then (validate_page_index page_index) (\<lambda>_.
     sum_then (validate_canonical_shape canonical_shape) (\<lambda>canvas.
     sum_then (validate_candidates 2 (validate_v2_candidate (dl_grid_v2 L)) profiles) (\<lambda>identifiers.
     sum_then (validate_decoded_page L page) (\<lambda>_.
     sum_then (sum_map (candidate_evidence_v2 L page key page_index canvas) (zip profiles identifiers)) (\<lambda>evidence.
     let geometry_confidence = best_geometry_confidence (concat (map ev_scores evidence))
     in if \<not> list_ex ev_aligned evidence
        then Inr (no_votes geometry_confidence
          (if list_ex ev_rejected evidence then ''geometry_rejected'' else ''insufficient_sync_evidence''))
        else decide_payload_votes_v2 (concat (map ev_votes evidence))
          (zip identifiers (map (nat \<circ> f2_payload_repetitions) profiles)) geometry_confidence))))))"

definition codec_vote ::
  "'img decoder_libs \<Rightarrow> bytes \<Rightarrow> pyfloat list \<Rightarrow> nat \<Rightarrow> vote_codec \<times> bytes \<times> nat list \<times> nat list \<Rightarrow> exn + payload_vote_v3 list" where
  "codec_vote L identifier matrix ordinal = (\<lambda>(codec, codeword, erase_positions, ranking).
     sum_then (decode_payload_vote (dl_rs L) codeword erase_positions ranking) (\<lambda>vote.
     Inr (case vote of None \<Rightarrow> []
       | Some (u, ber) \<Rightarrow> [\<lparr>pv_candidate_id = identifier, pv_tile_ordinal = ordinal, pv_issuance_id = u,
           pv_bit_error_rate = Some ber, pv_geometry_matrix = matrix, pv_codec = codec\<rparr>])))"

definition spread_ballot ::
  "'img decoder_libs \<Rightarrow> bytes \<Rightarrow> int \<Rightarrow> fingerprint_v3_profile \<Rightarrow> sample_array \<Rightarrow> vote_codec \<Rightarrow> polarity
     \<Rightarrow> exn + (vote_codec \<times> bytes \<times> nat list \<times> nat list)" where
  "spread_ballot L key page_index p region codec pol =
     sum_then (extract_spread_codeword (dl_hmac L) (dl_mean L) region key page_index p pol) (\<lambda>e.
     Inr (codec, se_codeword e, se_erase_positions e, se_erasure_ranking e))"

definition ballot_v3 ::
  "'img decoder_libs \<Rightarrow> bytes \<Rightarrow> int \<Rightarrow> fingerprint_v3_profile \<Rightarrow> bytes \<Rightarrow> pyfloat list \<Rightarrow> sample_array \<Rightarrow> nat \<Rightarrow> tile
     \<Rightarrow> exn + payload_vote_v3 list" where
  "ballot_v3 L key page_index p identifier matrix luminance ordinal t =
     (let region = crop_tile luminance t
      in sum_then (extract_codeword_v3 (dl_hmac L) (dl_transforms L) region key page_index p) (\<lambda>e.
         sum_then (spread_ballot L key page_index p region SpreadDarken Darken) (\<lambda>dark.
         sum_then (spread_ballot L key page_index p region SpreadLighten Lighten) (\<lambda>light.
         sum_then (sum_map (codec_vote L identifier matrix ordinal)
           [(DctCodec, ce_codeword e, ce_erase_positions e, ce_erasure_ranking e), dark, light]) (\<lambda>votes.
         Inr (concat votes))))))"

definition hypothesis_votes ::
  "'img decoder_libs \<Rightarrow> bytes \<Rightarrow> int \<Rightarrow> int \<times> int \<Rightarrow> fingerprint_v3_profile \<Rightarrow> bytes \<Rightarrow> 'img geometry_hypothesis
     \<Rightarrow> exn + payload_vote_v3 list" where
  "hypothesis_votes L key page_index canvas p identifier h =
     (case derive_tiles_v3 (dl_hmac L) canvas key page_index p of
        Inl (ValueError _) \<Rightarrow> Inr []
      | Inl e \<Rightarrow> Inl e
      | Inr tiles \<Rightarrow> tile_ballots (ballot_v3 L key page_index p identifier (gh_matrix h) (dl_luminance L (gh_image h))) 0
          (take (nat (f3_payload_repetitions p)) tiles))"

definition candidate_evidence_v3 ::
  "'img decoder_libs \<Rightarrow> 'img \<Rightarrow> bytes \<Rightarrow> int \<Rightarrow> int \<times> int \<Rightarrow> fingerprint_v3_profile \<times> bytes \<Rightarrow> exn + payload_vote_v3 candidate_evidence" where
  "candidate_evidence_v3 L page key page_index canvas = (\<lambda>(p, identifier).
     sum_then (dl_search L page key page_index canvas p) (\<lambda>search.
     sum_then (sum_map (hypothesis_votes L key page_index canvas p identifier) (gs_hypotheses search)) (\<lambda>votes.
     Inr \<lparr>ev_aligned = gs_hypotheses search \<noteq> [], ev_rejected = gs_sync_reason search = Some ''geometry_rejected'',
          ev_scores = map gh_score (gs_hypotheses search), ev_votes = concat votes\<rparr>)))"

definition decode_fingerprint_v3 ::
  "'img decoder_libs \<Rightarrow> 'img \<Rightarrow> bytes \<Rightarrow> int \<Rightarrow> int \<times> int \<Rightarrow> fingerprint_v3_profile list \<Rightarrow> exn + vote_decision" where
  "decode_fingerprint_v3 L page key page_index canonical_shape profiles =
     sum_then (validate_bytes ''key'' key) (\<lambda>_.
     sum_then (validate_page_index page_index) (\<lambda>_.
     sum_then (validate_canonical_shape canonical_shape) (\<lambda>canvas.
     sum_then (validate_candidates 3 (validate_v3_candidate (dl_grid_v3 L)) profiles) (\<lambda>identifiers.
     sum_then (validate_decoded_page L page) (\<lambda>_.
     sum_then (sum_map (candidate_evidence_v3 L page key page_index canvas) (zip profiles identifiers)) (\<lambda>evidence.
     let scores = concat (map ev_scores evidence); geometry_confidence = best_geometry_confidence scores
     in if scores = []
        then Inr (no_votes geometry_confidence
          (if list_ex ev_rejected evidence then ''geometry_rejected'' else ''insufficient_sync_evidence''))
        else decide_payload_votes_v3 (concat (map ev_votes evidence))
          (zip identifiers (map (nat \<circ> f3_payload_repetitions) profiles)) geometry_confidence))))))"

section \<open>The members of a decision\<close>

lemma first_max_in: "first_max lt b xs \<in> set (b # xs)"
proof (induction xs arbitrary: b)
  case (Cons x xs)
  then show ?case using Cons.IH [of "if lt b x then x else b"] by (auto split: if_splits)
qed simp

lemma strongest_group_in: "gs \<noteq> [] \<Longrightarrow> strongest_group gs \<in> set gs"
  using first_max_in [of group_less "hd gs" "tl gs"] by (simp add: strongest_group_def)

lemma set_first_seen [simp]: "set (first_seen xs) = set xs"
  by (simp add: first_seen_def)

lemma first_seen_unique: "length (first_seen xs) \<le> 1 \<Longrightarrow> x \<in> set xs \<Longrightarrow> y \<in> set xs \<Longrightarrow> x = y"
proof -
  assume a: "length (first_seen xs) \<le> 1" "x \<in> set xs" "y \<in> set xs"
  have "length (first_seen xs) = card (set xs)" by (simp add: first_seen_def length_remdups_card_conv)
  with a show "x = y" by (simp add: card_le_Suc0_iff_eq)
qed

lemma support_groups_Inr:
  assumes "sum_map (group_support repetitions votes) keys = Inr groups" "g \<in> set groups"
  obtains n where "(sg_candidate g, sg_issuance g) \<in> set keys" "map_of repetitions (sg_candidate g) = Some n"
    "sg_votes g = filter (\<lambda>v. pv_candidate_id v = sg_candidate g \<and> pv_issuance_id v = sg_issuance g) votes"
    "int_div (length (sg_votes g)) n = Inr (sg_support g)"
proof -
  have all: "list_all2 (\<lambda>k g. group_support repetitions votes k = Inr g) keys groups" by (rule sum_map_Inr [OF assms(1)])
  obtain i where "i < length groups" "g = groups ! i" using assms(2) by (auto simp: in_set_conv_nth)
  then have "keys ! i \<in> set keys" "group_support repetitions votes (keys ! i) = Inr g"
    using all by (auto simp: list_all2_conv_all_nth)
  then obtain c u where k: "(c, u) \<in> set keys" "group_support repetitions votes (c, u) = Inr g" by (metis surj_pair)
  from k(2) obtain n s where "map_of repetitions c = Some n"
    "int_div (length (filter (\<lambda>v. pv_candidate_id v = c \<and> pv_issuance_id v = u) votes)) n = Inr s"
    "g = \<lparr>sg_candidate = c, sg_issuance = u, sg_support = s,
       sg_votes = filter (\<lambda>v. pv_candidate_id v = c \<and> pv_issuance_id v = u) votes\<rparr>"
    by (auto simp: group_support_def Let_def sum_then_Inr split: option.splits)
  with k(1) show thesis by (intro that) simp_all
qed

section \<open>Counting tiles\<close>

definition vote_key :: "'a payload_vote_scheme \<Rightarrow> bytes \<times> uuid \<times> nat" where
  "vote_key v = (pv_candidate_id v, pv_issuance_id v, pv_tile_ordinal v)"

text \<open>The tiles of a candidate that name an identity.\<close>

definition tiles_for :: "'a payload_vote_scheme list \<Rightarrow> bytes \<Rightarrow> uuid \<Rightarrow> nat list" where
  "tiles_for votes c u = remdups (map pv_tile_ordinal (filter (\<lambda>v. pv_candidate_id v = c \<and> pv_issuance_id v = u) votes))"

lemma supporting_tiles:
  assumes "distinct (map vote_key counted)" "vote_key ` set counted = vote_key ` set votes"
  shows "length (filter (\<lambda>v. pv_candidate_id v = c \<and> pv_issuance_id v = u) counted) = length (tiles_for votes c u)"
proof -
  let ?P = "\<lambda>v. pv_candidate_id v = c \<and> pv_issuance_id v = u" and ?Q = "\<lambda>k. fst k = c \<and> fst (snd k) = u"
  have "distinct (map vote_key (filter ?P counted))" using assms(1) by (rule distinct_map_filter)
  then have "length (filter ?P counted) = card (vote_key ` set (filter ?P counted))"
    using distinct_card [of "map vote_key (filter ?P counted)"] by simp
  also have "vote_key ` set (filter ?P counted) = {k \<in> vote_key ` set counted. ?Q k}" by (auto simp: vote_key_def)
  also have "\<dots> = (\<lambda>i. (c, u, i)) ` pv_tile_ordinal ` set (filter ?P votes)"
    unfolding assms(2) by (auto simp: vote_key_def image_iff)
  also have "card \<dots> = card (pv_tile_ordinal ` set (filter ?P votes))" by (intro card_image inj_onI) simp
  finally show ?thesis by (simp add: tiles_for_def length_remdups_card_conv)
qed

lemma tile_votes_keys:
  "distinct (map vote_key seen) \<Longrightarrow>
     distinct (map vote_key (tile_votes seen vs)) \<and> vote_key ` set (tile_votes seen vs) = vote_key ` (set seen \<union> set vs)"
proof (induction seen vs rule: tile_votes.induct)
  case (2 seen v vs)
  have "list_ex (\<lambda>w. pv_candidate_id w = pv_candidate_id v \<and> pv_issuance_id w = pv_issuance_id v
      \<and> pv_tile_ordinal w = pv_tile_ordinal v) seen \<longleftrightarrow> vote_key v \<in> vote_key ` set seen"
    by (auto simp: list_ex_iff vote_key_def image_iff) metis
  with 2 show ?case by (auto simp: insert_absorb)
qed simp

lemma unique_votes_keys:
  assumes "unique_votes seen vs = Inr unique" "distinct (map vote_key seen)"
  shows "distinct (map vote_key unique) \<and> set unique = set seen \<union> set vs"
  using assms
proof (induction seen vs arbitrary: unique rule: unique_votes.induct)
  case (2 seen v vs)
  show ?case
  proof (cases "find (\<lambda>w. pv_candidate_id w = pv_candidate_id v \<and> pv_tile_ordinal w = pv_tile_ordinal v) seen")
    case None
    then have "vote_key v \<notin> vote_key ` set seen" by (auto simp: find_None_iff vote_key_def)
    with None 2 show ?thesis by auto
  next
    case (Some w)
    then have "w \<in> set seen" by (auto simp: find_Some_iff)
    with Some 2 show ?thesis by (auto split: if_splits)
  qed
qed simp

section \<open>A quorum\<close>

text \<open>
  Every vote names one identity, and at least two different tiles of a candidate and three fifths of those that carry
  its payload name it; the confidence of the decision is that share.
\<close>

definition quorum :: "'a payload_vote_scheme list \<Rightarrow> bytes \<Rightarrow> nat \<Rightarrow> uuid \<Rightarrow> vote_decision \<Rightarrow> bool" where
  "quorum votes c n u d \<longleftrightarrow> list_all (\<lambda>v. pv_issuance_id v = u) votes
     \<and> vd_valid_votes d = length (tiles_for votes c u) \<and> 2 \<le> vd_valid_votes d
     \<and> int_div (vd_valid_votes d) n = Inr (vd_confidence d) \<and> f_le support_threshold (vd_confidence d)"

definition decision_sound :: "'a payload_vote_scheme list \<Rightarrow> (bytes \<times> nat) list \<Rightarrow> vote_decision \<Rightarrow> bool" where
  "decision_sound votes repetitions d \<longleftrightarrow> (case vd_issuance_id d of
     None \<Rightarrow> vd_status d \<noteq> ''decoded''
   | Some u \<Rightarrow> vd_status d = ''decoded'' \<and> list_ex (\<lambda>(c, n). quorum votes c n u d) repetitions)"

lemma group_decision_Inr:
  "group_decision g u status = Inr d \<Longrightarrow> vd_issuance_id d = u \<and> vd_status d = status \<and> vd_confidence d = sg_support g
     \<and> vd_valid_votes d = length (sg_votes g)"
  by (auto simp: group_decision_def sum_then_Inr)

lemma eligible_decision_sound:
  assumes groups: "sum_map (group_support repetitions counted) keys = Inr groups" "g \<in> set groups"
    and counted: "distinct (map vote_key counted)" "vote_key ` set counted = vote_key ` set votes"
    and one: "\<And>v. v \<in> set votes \<Longrightarrow> pv_issuance_id v = sg_issuance g"
    and d: "eligible_group g" "group_decision g (Some (sg_issuance g)) ''decoded'' = Inr d"
  shows "decision_sound votes repetitions d"
proof -
  obtain n where n: "(sg_candidate g, sg_issuance g) \<in> set keys" "map_of repetitions (sg_candidate g) = Some n"
    "sg_votes g = filter (\<lambda>v. pv_candidate_id v = sg_candidate g \<and> pv_issuance_id v = sg_issuance g) counted"
    "int_div (length (sg_votes g)) n = Inr (sg_support g)"
    by (rule support_groups_Inr [OF groups])
  have v: "length (sg_votes g) = length (tiles_for votes (sg_candidate g) (sg_issuance g))"
    unfolding n(3) by (rule supporting_tiles [OF counted])
  have "quorum votes (sg_candidate g) n (sg_issuance g) d"
    using group_decision_Inr [OF d(2)] d(1) n(4) v one by (simp add: quorum_def eligible_group_def list_all_iff)
  then show ?thesis
    using group_decision_Inr [OF d(2)] map_of_SomeD [OF n(2)] by (auto simp: decision_sound_def list_ex_iff)
qed

lemma unattributed_sound: "vd_issuance_id d = None \<Longrightarrow> vd_status d \<noteq> ''decoded'' \<Longrightarrow> decision_sound votes repetitions d"
  by (simp add: decision_sound_def)

lemma decide_v2_sound:
  assumes "decide_payload_votes_v2 votes repetitions conf = Inr d"
  shows "decision_sound votes repetitions d"
proof -
  obtain unique where u: "unique_votes [] votes = Inr unique"
    using assms by (auto simp: decide_payload_votes_v2_def sum_then_Inr)
  from unique_votes_keys [OF u] have k: "distinct (map vote_key unique)" "set unique = set votes" by simp_all
  show ?thesis
  proof (cases "unique = []")
    case True
    then have "d = no_votes conf ''payload_not_detected''" using assms u by (simp add: decide_payload_votes_v2_def)
    then show ?thesis by (simp add: no_votes_def unattributed_sound)
  next
    case False
    then obtain groups where g: "sum_map (group_support repetitions unique) (group_keys unique) = Inr groups"
      using assms u by (auto simp: decide_payload_votes_v2_def sum_then_Inr)
    define observed where "observed = first_seen (map pv_issuance_id unique)"
    have run: "(if length observed \<noteq> 1 \<or> filter eligible_group groups = []
        then group_decision (strongest_group groups) None ''partial_payload_evidence''
        else group_decision (strongest_group (filter (\<lambda>g. sg_issuance g = hd observed) (filter eligible_group groups)))
               (Some (hd observed)) ''decoded'') = Inr d"
      using assms u g False by (simp add: decide_payload_votes_v2_def observed_def Let_def cong: if_cong)
    show ?thesis
    proof (cases "length observed \<noteq> 1 \<or> filter eligible_group groups = []")
      case True
      with run have "group_decision (strongest_group groups) None ''partial_payload_evidence'' = Inr d" by simp
      from group_decision_Inr [OF this] show ?thesis by (simp add: unattributed_sound)
    next
      case False': False
      let ?winning = "filter (\<lambda>g. sg_issuance g = hd observed) (filter eligible_group groups)"
      have "hd observed \<in> set observed" using False' by (cases observed) auto
      then have hd: "hd observed \<in> set (map pv_issuance_id unique)" by (simp add: observed_def)
      have obs: "x = hd observed" if "x \<in> pv_issuance_id ` set unique" for x
        using first_seen_unique [OF _ _ hd, of x] that False' by (simp add: observed_def)
      have "?winning \<noteq> []"
      proof -
        obtain h where h: "h \<in> set groups" "eligible_group h" using False' by (auto simp: filter_empty_conv)
        obtain n where n: "(sg_candidate h, sg_issuance h) \<in> set (group_keys unique)" "map_of repetitions (sg_candidate h) = Some n"
          "sg_votes h = filter (\<lambda>v. pv_candidate_id v = sg_candidate h \<and> pv_issuance_id v = sg_issuance h) unique"
          "int_div (length (sg_votes h)) n = Inr (sg_support h)"
          by (rule support_groups_Inr [OF g h(1)])
        have "sg_votes h \<noteq> []" using h(2) by (auto simp: eligible_group_def)
        then have "sg_issuance h \<in> pv_issuance_id ` set unique" unfolding n(3) by (auto simp: filter_empty_conv image_iff) metis
        with h obs show ?thesis by (auto simp: filter_empty_conv)
      qed
      then have w: "strongest_group ?winning \<in> set ?winning" by (rule strongest_group_in)
      then have i: "sg_issuance (strongest_group ?winning) = hd observed" by simp
      show ?thesis
      proof (rule eligible_decision_sound [OF g _ k(1)])
        show "strongest_group ?winning \<in> set groups" "eligible_group (strongest_group ?winning)" using w by simp_all
        show "vote_key ` set unique = vote_key ` set votes" by (simp add: k(2))
        show "pv_issuance_id v = sg_issuance (strongest_group ?winning)" if "v \<in> set votes" for v
          using obs that i k(2) by simp
        show "group_decision (strongest_group ?winning) (Some (sg_issuance (strongest_group ?winning))) ''decoded'' = Inr d"
          using run False' i by simp
      qed
    qed
  qed
qed

lemma decide_v3_sound:
  assumes "decide_payload_votes_v3 votes repetitions conf = Inr d"
  shows "decision_sound votes repetitions d"
proof -
  define counted where "counted = tile_votes [] votes"
  have k: "distinct (map vote_key counted)" "vote_key ` set counted = vote_key ` set votes"
    using tile_votes_keys [of "[]" votes] by (simp_all add: counted_def)
  show ?thesis
  proof (cases "counted = []")
    case True
    then have "d = no_votes conf ''payload_not_detected''"
      using assms by (simp add: decide_payload_votes_v3_def counted_def)
    then show ?thesis by (simp add: no_votes_def unattributed_sound)
  next
    case False
    let ?keys = "first_seen (map (\<lambda>v. (pv_candidate_id v, pv_issuance_id v)) counted)"
    obtain groups where g: "sum_map (group_support repetitions counted) ?keys = Inr groups"
      using assms False by (auto simp: decide_payload_votes_v3_def counted_def Let_def sum_then_Inr)
    let ?s = "strongest_group groups"
    define status where "status = (if 1 < length (first_seen (map pv_issuance_id votes)) then ''conflicting_payload_evidence''
      else if eligible_group ?s then ''decoded'' else ''partial_payload_evidence'')"
    have run: "group_decision ?s (if status = ''decoded'' then Some (sg_issuance ?s) else None) status = Inr d"
      using assms False g by (simp add: decide_payload_votes_v3_def counted_def status_def Let_def)
    show ?thesis
    proof (cases "status = ''decoded''")
      case False
      with group_decision_Inr [OF run] show ?thesis by (simp add: unattributed_sound)
    next
      case True
      then have e: "eligible_group ?s" and one: "length (first_seen (map pv_issuance_id votes)) \<le> 1"
        by (auto simp: status_def split: if_splits)
      have "?keys \<noteq> []" using False by (simp add: first_seen_def)
      then have "groups \<noteq> []" using sum_map_length [OF g] by auto
      then have s: "?s \<in> set groups" by (rule strongest_group_in)
      obtain n where n: "(sg_candidate ?s, sg_issuance ?s) \<in> set ?keys" "map_of repetitions (sg_candidate ?s) = Some n"
        "sg_votes ?s = filter (\<lambda>v. pv_candidate_id v = sg_candidate ?s \<and> pv_issuance_id v = sg_issuance ?s) counted"
        "int_div (length (sg_votes ?s)) n = Inr (sg_support ?s)"
        by (rule support_groups_Inr [OF g s])
      have "sg_votes ?s \<noteq> []" using e by (auto simp: eligible_group_def)
      then obtain v where v: "v \<in> set counted" "pv_issuance_id v = sg_issuance ?s" unfolding n(3) by (auto simp: filter_empty_conv)
      then have "vote_key v \<in> vote_key ` set votes" using k(2) by (metis imageI)
      then have "sg_issuance ?s \<in> set (map pv_issuance_id votes)" using v(2) by (auto simp: vote_key_def)
      then have "pv_issuance_id w = sg_issuance ?s" if "w \<in> set votes" for w
        using first_seen_unique [OF one] that by auto
      then show ?thesis using run True by (intro eligible_decision_sound [OF g s k _ e]) simp_all
    qed
  qed
qed

section \<open>The decoders\<close>

lemma canonical_shape_kept: "validate_canonical_shape s = Inr s' \<Longrightarrow> s' = s"
  by (auto simp: validate_canonical_shape_def split: if_splits prod.splits)

lemma validate_candidates_Inr: "validate_candidates n f ps = Inr ids \<Longrightarrow> sum_map f ps = Inr ids"
  by (auto simp: validate_candidates_def sum_then_Inr split: if_splits)

lemma no_votes_sound: "status \<noteq> ''decoded'' \<Longrightarrow> decision_sound votes repetitions (no_votes conf status)"
  by (simp add: no_votes_def unattributed_sound)

lemma decode_v2_evidence:
  assumes "decode_fingerprint_v2 L page key page_index shape profiles = Inr d"
  shows "\<exists>identifiers evidence.
     sum_map (validate_v2_candidate (dl_grid_v2 L)) profiles = Inr identifiers
     \<and> sum_map (candidate_evidence_v2 L page key page_index shape) (zip profiles identifiers) = Inr evidence
     \<and> decision_sound (concat (map ev_votes evidence)) (zip identifiers (map (nat \<circ> f2_payload_repetitions) profiles)) d"
proof -
  from assms obtain identifiers evidence where e: "validate_candidates 2 (validate_v2_candidate (dl_grid_v2 L)) profiles = Inr identifiers"
    "sum_map (candidate_evidence_v2 L page key page_index shape) (zip profiles identifiers) = Inr evidence"
    and d: "(if \<not> list_ex ev_aligned evidence
       then Inr (no_votes (best_geometry_confidence (concat (map ev_scores evidence)))
          (if list_ex ev_rejected evidence then ''geometry_rejected'' else ''insufficient_sync_evidence''))
       else decide_payload_votes_v2 (concat (map ev_votes evidence)) (zip identifiers (map (nat \<circ> f2_payload_repetitions) profiles))
            (best_geometry_confidence (concat (map ev_scores evidence)))) = Inr d"
    by (auto simp: decode_fingerprint_v2_def sum_then_Inr Let_def dest!: canonical_shape_kept)
  from d have "decision_sound (concat (map ev_votes evidence)) (zip identifiers (map (nat \<circ> f2_payload_repetitions) profiles)) d"
    by (auto intro: decide_v2_sound no_votes_sound split: if_splits)
  with validate_candidates_Inr [OF e(1)] e(2) show ?thesis by blast
qed

lemma decode_v3_evidence:
  assumes "decode_fingerprint_v3 L page key page_index shape profiles = Inr d"
  shows "\<exists>identifiers evidence.
     sum_map (validate_v3_candidate (dl_grid_v3 L)) profiles = Inr identifiers
     \<and> sum_map (candidate_evidence_v3 L page key page_index shape) (zip profiles identifiers) = Inr evidence
     \<and> decision_sound (concat (map ev_votes evidence)) (zip identifiers (map (nat \<circ> f3_payload_repetitions) profiles)) d"
proof -
  from assms obtain identifiers evidence where e: "validate_candidates 3 (validate_v3_candidate (dl_grid_v3 L)) profiles = Inr identifiers"
    "sum_map (candidate_evidence_v3 L page key page_index shape) (zip profiles identifiers) = Inr evidence"
    and d: "(if concat (map ev_scores evidence) = []
       then Inr (no_votes (best_geometry_confidence (concat (map ev_scores evidence)))
          (if list_ex ev_rejected evidence then ''geometry_rejected'' else ''insufficient_sync_evidence''))
       else decide_payload_votes_v3 (concat (map ev_votes evidence)) (zip identifiers (map (nat \<circ> f3_payload_repetitions) profiles))
            (best_geometry_confidence (concat (map ev_scores evidence)))) = Inr d"
    by (auto simp: decode_fingerprint_v3_def sum_then_Inr Let_def dest!: canonical_shape_kept simp del: concat_eq_Nil_conv)
  from d have "decision_sound (concat (map ev_votes evidence)) (zip identifiers (map (nat \<circ> f3_payload_repetitions) profiles)) d"
    by (auto intro: decide_v3_sound no_votes_sound split: if_splits)
  with validate_candidates_Inr [OF e(1)] e(2) show ?thesis by blast
qed

section \<open>A tile that was not damaged\<close>

lemma bit_errors_self: "w \<noteq> [] \<Longrightarrow> bit_error_rate w w = Inr (Fin 0)"
proof -
  assume "w \<noteq> []"
  then have n: "length (unpack_bits w) \<noteq> 0" by simp
  have "filter (\<lambda>(a, b). a \<noteq> b) (zip bs bs) = []" for bs :: "bool list" by (induction bs) simp_all
  then show ?thesis using n by (simp add: bit_error_rate_def int_div_def to_double_def round_double_def)
qed

lemma erasure_ladder_first: "\<exists>rest. erasure_ladder erase_positions ranking = erase_positions # rest"
proof -
  let ?xs = "map (\<lambda>n. sort (take n ranking)) (filter (\<lambda>n. n \<le> length ranking) (halving_counts erasure_budget))"
  have "erasure_ladder erase_positions ranking = rev (remdups (rev (erase_positions # ?xs)))" by (simp add: erasure_ladder_def)
  moreover have "rev (remdups (rev (x # xs))) \<noteq> []" for x :: "int list" and xs
    by (metis list.set_intros(1) rev_is_Nil_conv remdups_eq_nil_iff list.distinct(1))
  ultimately show ?thesis by (metis hd_rev_remdups list.exhaust_sel)
qed

section \<open>Properties\<close>

text \<open>
  C22. A page is attributed only by a quorum: whatever the page, its alignments and the libraries give, when a decoder of
  version 2 or 3 names an issuance its status is "decoded", every vote of every candidate names that issuance, at
  least two different tiles of one of the given candidates name it, they are at least three
  fifths of the tiles that carry its payload, and the reported confidence is their share; in every other case nothing is
  named and the status says so.
\<close>

theorem attribution_needs_quorum:
  "(case decode_fingerprint_v2 L page key page_index shape profiles of Inl _ \<Rightarrow> True
     | Inr d \<Rightarrow> \<exists>identifiers evidence.
         sum_map (validate_v2_candidate (dl_grid_v2 L)) profiles = Inr identifiers
         \<and> sum_map (candidate_evidence_v2 L page key page_index shape) (zip profiles identifiers) = Inr evidence
         \<and> decision_sound (concat (map ev_votes evidence)) (zip identifiers (map (nat \<circ> f2_payload_repetitions) profiles)) d)
   \<and> (case decode_fingerprint_v3 L page key page_index shape candidates of Inl _ \<Rightarrow> True
     | Inr d \<Rightarrow> \<exists>identifiers evidence.
         sum_map (validate_v3_candidate (dl_grid_v3 L)) candidates = Inr identifiers
         \<and> sum_map (candidate_evidence_v3 L page key page_index shape) (zip candidates identifiers) = Inr evidence
         \<and> decision_sound (concat (map ev_votes evidence)) (zip identifiers (map (nat \<circ> f3_payload_repetitions) candidates)) d)"
  using decode_v2_evidence [of L page key page_index shape profiles] decode_v3_evidence [of L page key page_index shape candidates]
  by (auto split: sum.splits)

text \<open>
  C25. An undamaged tile votes for the identity that was written into it, with every Reed-Solomon codec that appends its
  sixteen parity bytes to a message of the contracted 23 bytes and reads the intact codeword back: for a codeword
  that frames an identity, read without erasures, the first attempt of the ladder gives the identity with no bit
  errors, whatever the ranking of the less certain bytes.
\<close>

theorem framed_identity_votes:
  assumes "codec_reads_back C 16" "encode_payload u 1 = Inr m" "encode_ecc C m 16 = Inr w"
  shows "decode_payload_vote C w [] ranking = Inr (Some (u, Fin 0))"
proof -
  obtain rest where ladder: "erasure_ladder [] (map int ranking) = [] # rest" using erasure_ladder_first by blast
  have p: "pf_parity_symbols payload_profile = 16" by (simp add: payload_profile_def)
  have frame: "length w = 39" "decode_ecc_with_erasures C w [] 16 = Inr m" using ecc_roundtrip [OF assms(1,3)] by simp_all
  have m: "decode_payload m = Inr \<lparr>pd_issuance_id = u, pd_version = 1\<rparr>" using assms(2) by (simp add: payload_roundtrip)
  have "w \<noteq> []" using frame(1) by auto
  then show ?thesis
    by (simp add: decode_payload_vote_def ladder attempt_payload_def p frame(2) m assms(3) bit_errors_self)
qed

end
