(* ===== verification/Geometry.thy ===== *)
theory Geometry
  imports Votes
begin

text \<open>
  Where a page may lie on the canonical canvas (\<open>splitbind_ref/geometry_v3.py\<close>, \<open>frame_restore.py\<close>): the content inside a
  uniform border and a bounded list of hypotheses, from the shape of the page first and from the pilot only
  when there is room. The operations on images of numpy and OpenCV and the alignment of version 2 are parameters.
\<close>

section \<open>The content of a page\<close>

definition border_tolerance :: nat where "border_tolerance = 6"

definition min_content_fraction :: pyfloat where "min_content_fraction = py_float 0x3FC999999999999A"

definition grey_at :: "nat list \<Rightarrow> nat \<Rightarrow> nat \<Rightarrow> nat \<Rightarrow> nat" where
  "grey_at grey width y x = grey ! (y * width + x)"

definition corner_samples :: "nat list \<Rightarrow> nat \<times> nat \<Rightarrow> nat list" where
  "corner_samples grey = (\<lambda>(height, width).
     [grey_at grey width 0 0, grey_at grey width 0 (width - 1),
      grey_at grey width (height - 1) 0, grey_at grey width (height - 1) (width - 1)])"

text \<open>\<open>int(np.median(corners))\<close>: half the sum of the two in the middle, cut.\<close>

definition border_value :: "nat list \<Rightarrow> nat" where
  "border_value corners = (let s = sort corners in (s ! 1 + s ! 2) div 2)"

definition differs_from :: "nat \<Rightarrow> nat \<Rightarrow> bool" where
  "differs_from border sample_value \<longleftrightarrow> border_tolerance < max sample_value border - min sample_value border"

definition too_small :: "nat \<Rightarrow> nat \<Rightarrow> bool" where
  "too_small content whole \<longleftrightarrow> f_less (Fin (of_nat content)) (f_mul min_content_fraction (Fin (of_nat whole)))"

definition is_content :: "nat list \<Rightarrow> nat \<times> nat \<Rightarrow> nat \<Rightarrow> nat \<Rightarrow> bool" where
  "is_content grey shape y x = differs_from (border_value (corner_samples grey shape)) (grey_at grey (snd shape) y x)"

definition content_rows :: "(nat \<Rightarrow> nat \<Rightarrow> bool) \<Rightarrow> nat \<Rightarrow> nat \<Rightarrow> nat list" where
  "content_rows content height width = filter (\<lambda>y. list_ex (content y) [0..<width]) [0..<height]"

definition content_columns :: "(nat \<Rightarrow> nat \<Rightarrow> bool) \<Rightarrow> nat \<Rightarrow> nat \<Rightarrow> nat list" where
  "content_columns content height width = filter (\<lambda>x. list_ex (\<lambda>y. content y x) [0..<height]) [0..<width]"

text \<open>Top, left, height and width of the content, the whole page where there is no uniform border.\<close>

definition content_bounds :: "nat list \<Rightarrow> nat \<times> nat \<Rightarrow> nat \<times> nat \<times> nat \<times> nat" where
  "content_bounds grey = (\<lambda>(height, width).
     let whole = (0, 0, height, width); corners = corner_samples grey (height, width);
         rows = content_rows (is_content grey (height, width)) height width;
         columns = content_columns (is_content grey (height, width)) height width
     in if height = 0 \<or> width = 0 then whole
        else if border_tolerance < Max (set corners) - Min (set corners) then whole
        else if rows = [] \<or> columns = [] then whole
        else let top = hd rows; left = hd columns; content_height = last rows + 1 - top; content_width = last columns + 1 - left
          in if too_small content_height height \<or> too_small content_width width then whole
             else (top, left, content_height, content_width))"

section \<open>Matrices\<close>

text \<open>Nine floats, row by row; a quotient by a number that is not zero.\<close>

type_synonym matrix = "pyfloat list"

definition np_div :: "pyfloat \<Rightarrow> pyfloat \<Rightarrow> pyfloat" where
  "np_div x y = (case f_div x y of Inr q \<Rightarrow> q | Inl _ \<Rightarrow> NotANumber)"

definition scaling_matrix :: "pyfloat \<Rightarrow> pyfloat \<Rightarrow> pyfloat \<Rightarrow> pyfloat \<Rightarrow> matrix" where
  "scaling_matrix scale_x scale_y shift_x shift_y =
     [scale_x, Fin 0, shift_x, Fin 0, scale_y, shift_y, Fin 0, Fin 0, Fin 1]"

definition half_step :: "pyfloat \<Rightarrow> pyfloat" where
  "half_step scale = np_div (f_sub scale (Fin 1)) (Fin 2)"

definition smallest_divisor :: pyfloat where "smallest_divisor = py_float 0x3D719799812DEA11"

definition normalize_matrix :: "matrix \<Rightarrow> matrix option" where
  "normalize_matrix m =
     (if length m \<noteq> 9 \<or> \<not> list_all f_isfinite m \<or> f_le (f_abs (m ! 8)) smallest_divisor then None
      else Some (map (\<lambda>x. np_div x (m ! 8)) m))"

text \<open>\<open>np.round(x, decimals=8)\<close>: scaled, rounded to an even integer at ties, scaled back.\<close>

fun f_rint :: "pyfloat \<Rightarrow> pyfloat" where
  "f_rint (Fin x) = Fin (of_int (round_half_even x))"
| "f_rint x = x"

definition quantized_key :: "matrix \<Rightarrow> pyfloat list" where
  "quantized_key m = map (\<lambda>x. np_div (f_rint (f_mul x (Fin 100000000))) (Fin 100000000)) m"

text \<open>\<open>math.isclose\<close> with one number as both tolerances, which a valid profile has above zero.\<close>

definition ratios_agree :: "pyfloat \<Rightarrow> pyfloat \<Rightarrow> pyfloat \<Rightarrow> bool" where
  "ratios_agree a b tolerance \<longleftrightarrow>
     (if f_eq a b then True
      else if a = PosInf \<or> a = NegInf \<or> b = PosInf \<or> b = NegInf then False
      else let difference = f_abs (f_sub b a)
        in f_le difference (f_abs (f_mul tolerance b)) \<or> f_le difference (f_abs (f_mul tolerance a)) \<or> f_le difference tolerance)"

section \<open>The frame of a page\<close>

record 'img aligned_page = "'img page_alignment" +
  pa_homography :: "matrix option"

record 'img geometry_libs =
  gl_shape :: "'img \<Rightarrow> nat \<times> nat"
  gl_grey :: "'img \<Rightarrow> nat list"
  gl_trim :: "'img \<Rightarrow> nat \<times> nat \<times> nat \<times> nat \<Rightarrow> 'img"
  gl_resize :: "'img \<Rightarrow> nat \<times> nat \<Rightarrow> 'img"
  gl_center :: "'img \<Rightarrow> nat \<times> nat \<Rightarrow> nat \<times> nat \<Rightarrow> 'img"
  gl_align :: "'img \<Rightarrow> bytes \<Rightarrow> int \<Rightarrow> fingerprint_v2_profile \<Rightarrow> nat \<times> nat \<Rightarrow> exn + 'img aligned_page"
  gl_grid_v2 :: "fingerprint_v2_profile list"

record 'img restored_frame =
  rf_image :: 'img
  rf_matrix :: matrix
  rf_bounds :: "nat \<times> nat \<times> nat \<times> nat"
  rf_trimmed :: bool

definition restore_frame :: "'img geometry_libs \<Rightarrow> 'img \<Rightarrow> nat \<times> nat \<Rightarrow> exn + 'img restored_frame option" where
  "restore_frame L page target =
     (let (canonical_height, canonical_width) = target; (source_height, source_width) = gl_shape L page;
          bounds = content_bounds (gl_grey L page) (gl_shape L page); (top, left, height, width) = bounds;
          trimmed = bounds \<noteq> (0, 0, source_height, source_width)
      in if canonical_height = 0 \<or> canonical_width = 0 then Inr None
         else if height = 0 \<or> width = 0 then Inr None
         else if \<not> trimmed \<and> gl_shape L page = target then Inr None
         else sum_then (int_div canonical_height height) (\<lambda>scale_y.
              sum_then (int_div canonical_width width) (\<lambda>scale_x.
              Inr (Some \<lparr>rf_image = gl_resize L (gl_trim L page bounds) target,
                rf_matrix = scaling_matrix scale_x scale_y
                  (f_add (f_mul (Fin (- of_nat left)) scale_x) (half_step scale_x))
                  (f_add (f_mul (Fin (- of_nat top)) scale_y) (half_step scale_y)),
                rf_bounds = bounds, rf_trimmed = trimmed\<rparr>))))"

section \<open>Hypotheses\<close>

text \<open>The hypotheses so far with the keys of their matrices.\<close>

type_synonym 'img found = "'img geometry_hypothesis list \<times> pyfloat list list"

definition add_hypothesis :: "nat \<Rightarrow> string \<Rightarrow> 'img \<Rightarrow> matrix \<Rightarrow> pyfloat \<Rightarrow> 'img found \<Rightarrow> 'img found" where
  "add_hypothesis most kind picture m score = (\<lambda>(hypotheses, seen).
     if most \<le> length hypotheses then (hypotheses, seen)
     else (case normalize_matrix m of None \<Rightarrow> (hypotheses, seen)
       | Some normalized \<Rightarrow>
           if quantized_key normalized \<in> set seen then (hypotheses, seen)
           else (hypotheses @ [\<lparr>gh_kind = kind, gh_image = picture, gh_matrix = normalized, gh_score = score\<rparr>],
                 quantized_key normalized # seen)))"

definition identity_matrix :: matrix where
  "identity_matrix = scaling_matrix (Fin 1) (Fin 1) (Fin 0) (Fin 0)"

text \<open>The page as it is, resized as a whole, and the content of its frame.\<close>

definition identity_hypothesis :: "'img geometry_libs \<Rightarrow> nat \<Rightarrow> 'img \<Rightarrow> nat \<times> nat \<Rightarrow> 'img found" where
  "identity_hypothesis L most page target =
     (if gl_shape L page = target then add_hypothesis most ''identity'' page identity_matrix (Fin 1) ([], []) else ([], []))"

definition pure_resize :: "'img geometry_libs \<Rightarrow> nat \<Rightarrow> 'img \<Rightarrow> nat \<times> nat \<Rightarrow> bool \<Rightarrow> 'img found \<Rightarrow> exn + 'img found" where
  "pure_resize L most page target agree found =
     (if gl_shape L page \<noteq> target \<and> agree
      then sum_then (int_div (fst target) (fst (gl_shape L page))) (\<lambda>scale_y.
           sum_then (int_div (snd target) (snd (gl_shape L page))) (\<lambda>scale_x.
           Inr (add_hypothesis most ''pure_resize'' (gl_resize L page target)
             (scaling_matrix scale_x scale_y (half_step scale_x) (half_step scale_y)) (Fin 1) found)))
      else Inr found)"

definition frame_hypothesis :: "nat \<Rightarrow> 'img restored_frame option \<Rightarrow> 'img found \<Rightarrow> 'img found" where
  "frame_hypothesis most restored found = (case restored of
       Some frame \<Rightarrow> if rf_trimmed frame
         then add_hypothesis most ''frame_restore'' (rf_image frame) (rf_matrix frame) (Fin 1) found else found
     | None \<Rightarrow> found)"

definition shape_hypotheses ::
  "'img geometry_libs \<Rightarrow> nat \<Rightarrow> 'img \<Rightarrow> nat \<times> nat \<Rightarrow> bool \<Rightarrow> exn + 'img found" where
  "shape_hypotheses L most page target agree =
     sum_then (pure_resize L most page target agree (identity_hypothesis L most page target)) (\<lambda>found.
     sum_then (restore_frame L page target) (\<lambda>restored.
     Inr (frame_hypothesis most restored found)))"

text \<open>The page as the center of a larger one, for each scale that a crop may have retained.\<close>

fun crop_hypotheses ::
  "'img geometry_libs \<Rightarrow> nat \<Rightarrow> 'img \<Rightarrow> nat \<times> nat \<Rightarrow> pyfloat \<Rightarrow> pyfloat \<Rightarrow> pyfloat \<Rightarrow> pyfloat list \<Rightarrow> 'img found \<Rightarrow> 'img found" where
  "crop_hypotheses L most page target ratio_y ratio_x tolerance [] found = found"
| "crop_hypotheses L most page target ratio_y ratio_x tolerance (scale # scales) found =
     (if \<not> (ratios_agree ratio_y scale tolerance \<and> ratios_agree ratio_x scale tolerance)
      then crop_hypotheses L most page target ratio_y ratio_x tolerance scales found
      else let y0 = (fst target - fst (gl_shape L page)) div 2; x0 = (snd target - snd (gl_shape L page)) div 2;
          added = add_hypothesis most ''center_crop'' (gl_center L page target (y0, x0))
            (scaling_matrix (Fin 1) (Fin 1) (Fin (of_nat x0)) (Fin (of_nat y0))) (Fin 1) found
        in if most \<le> length (fst added) then added
           else crop_hypotheses L most page target ratio_y ratio_x tolerance scales added)"

definition crop_stage ::
  "'img geometry_libs \<Rightarrow> nat \<Rightarrow> 'img \<Rightarrow> nat \<times> nat \<Rightarrow> pyfloat \<Rightarrow> pyfloat \<Rightarrow> pyfloat \<Rightarrow> pyfloat list \<Rightarrow> 'img found \<Rightarrow> 'img found" where
  "crop_stage L most page target ratio_y ratio_x tolerance scales found =
     (if ratios_agree ratio_y ratio_x tolerance \<and> fst (gl_shape L page) \<le> fst target \<and> snd (gl_shape L page) \<le> snd target
      then crop_hypotheses L most page target ratio_y ratio_x tolerance scales found else found)"

definition sync_hypothesis :: "'img geometry_libs \<Rightarrow> nat \<Rightarrow> nat \<times> nat \<Rightarrow> 'img aligned_page \<Rightarrow> 'img found \<Rightarrow> 'img found" where
  "sync_hypothesis L most target fallback found = (case (pa_image fallback, pa_homography fallback) of
     (Some picture, Some homography) \<Rightarrow>
       if pa_reason fallback = ''aligned'' \<and> gl_shape L picture = target \<and> f_isfinite (pa_score fallback)
       then add_hypothesis most ''sync'' picture homography (pa_score fallback) found else found
   | _ \<Rightarrow> found)"

definition validate_extent :: "string \<Rightarrow> string \<Rightarrow> nat \<times> nat \<Rightarrow> exn + unit" where
  "validate_extent empty_text large_text = (\<lambda>(height, width).
     sum_then (sum_require (0 < height \<and> 0 < width) (ValueError empty_text)) (\<lambda>_.
     sum_require (height * width \<le> max_page_pixels) (ValueError large_text)))"

definition v2_pilot_profile :: "fingerprint_v2_profile list \<Rightarrow> fingerprint_v3_profile \<Rightarrow> exn + fingerprint_v2_profile" where
  "v2_pilot_profile grid p =
     sum_then (validate_v3_profile p) (\<lambda>_.
     case filter (\<lambda>c. py_float (f2_qim_delta c) = py_float (f3_qim_delta p)
         \<and> py_float (f2_pilot_strength_rms c) = py_float (f3_pilot_strength_rms p)
         \<and> f2_tile_size_px c = f3_tile_size_px p \<and> f2_payload_repetitions c = f3_payload_repetitions p) grid of
       [c] \<Rightarrow> Inr c | _ \<Rightarrow> Inl (ValueError ''V3 profile must map to exactly one frozen V2 profile''))"

definition search_geometry_v3 ::
  "'img geometry_libs \<Rightarrow> 'img \<Rightarrow> bytes \<Rightarrow> int \<Rightarrow> nat \<times> nat \<Rightarrow> fingerprint_v3_profile \<Rightarrow> exn + 'img geometry_search" where
  "search_geometry_v3 L page key page_index target p =
     sum_then (validate_extent ''page must have non-empty dimensions'' ''page exceeds the 40-megapixel processing ceiling''
        (gl_shape L page)) (\<lambda>_.
     sum_then (validate_extent ''canonical_shape dimensions must be positive integers''
        ''canonical_shape exceeds the 40-megapixel processing ceiling'' target) (\<lambda>_.
     sum_then (validate_bytes ''key'' key) (\<lambda>_.
     sum_then (validate_page_index page_index) (\<lambda>_.
     sum_then (v2_pilot_profile (gl_grid_v2 L) p) (\<lambda>pilot.
     sum_then (sum_require (f3_resize_interpolation p = ''INTER_CUBIC'')
        (ValueError ''V3 geometry supports only INTER_CUBIC resize interpolation'')) (\<lambda>_.
     let (source_height, source_width) = gl_shape L page; (canonical_height, canonical_width) = target;
         most = nat (f3_max_geometry_hypotheses p); tolerance = py_float (f3_geometry_ratio_tolerance p)
     in sum_then (int_div source_height canonical_height) (\<lambda>ratio_y.
        sum_then (int_div source_width canonical_width) (\<lambda>ratio_x.
        sum_then (shape_hypotheses L most page target (ratios_agree ratio_y ratio_x tolerance)) (\<lambda>shaped.
           if most \<le> length (fst shaped) then Inr \<lparr>gs_hypotheses = fst shaped, gs_sync_reason = None\<rparr>
           else
             let cropped = crop_stage L most page target ratio_y ratio_x tolerance (map py_float (f3_crop_retained_scales p)) shaped
             in if most \<le> length (fst cropped) then Inr \<lparr>gs_hypotheses = fst cropped, gs_sync_reason = None\<rparr>
                else sum_then (gl_align L page key page_index pilot target) (\<lambda>fallback.
                  Inr \<lparr>gs_hypotheses = fst (sync_hypothesis L most target fallback cropped),
                       gs_sync_reason = Some (pa_reason fallback)\<rparr>))))))))))"

section \<open>The bounds of the content\<close>

text \<open>A box inside the page whose four edges hold a sample of the content, and nothing of the content is outside.\<close>

definition tight_box :: "(nat \<Rightarrow> nat \<Rightarrow> bool) \<Rightarrow> nat \<Rightarrow> nat \<Rightarrow> nat \<times> nat \<times> nat \<times> nat \<Rightarrow> bool" where
  "tight_box content height width = (\<lambda>(top, left, h, w).
     0 < h \<and> 0 < w \<and> top + h \<le> height \<and> left + w \<le> width
     \<and> list_ex (content top) [0..<width] \<and> list_ex (content (top + h - 1)) [0..<width]
     \<and> list_ex (\<lambda>y. content y left) [0..<height] \<and> list_ex (\<lambda>y. content y (left + w - 1)) [0..<height]
     \<and> list_all (\<lambda>(y, x). if top \<le> y \<and> y < top + h \<and> left \<le> x \<and> x < left + w then True else \<not> content y x)
         (List.product [0..<height] [0..<width]))"

lemma sorted_ends: "sorted xs \<Longrightarrow> i \<in> set xs \<Longrightarrow> hd xs \<le> i \<and> i \<le> last (xs :: nat list)"
proof (induction xs)
  case (Cons x xs)
  then show ?case by (cases xs) auto
qed simp

lemma filter_upt_ends:
  assumes "filter P [0..<n] \<noteq> []"
  shows "hd (filter P [0..<n]) \<le> last (filter P [0..<n])" "last (filter P [0..<n]) < n"
    "P (hd (filter P [0..<n]))" "P (last (filter P [0..<n]))"
    "\<And>i. i < n \<Longrightarrow> P i \<Longrightarrow> hd (filter P [0..<n]) \<le> i \<and> i \<le> last (filter P [0..<n])"
proof -
  let ?xs = "filter P [0..<n]"
  have s: "sorted ?xs" by (simp add: sorted_wrt_filter)
  have h: "hd ?xs \<in> set ?xs" "last ?xs \<in> set ?xs" using hd_in_set [OF assms] last_in_set [OF assms] by blast+
  have all: "hd ?xs \<le> i \<and> i \<le> last ?xs" if "i \<in> set ?xs" for i
    using s that by (rule sorted_ends)
  show "hd ?xs \<le> last ?xs" using all h by blast
  have "hd ?xs < n \<and> P (hd ?xs)" "last ?xs < n \<and> P (last ?xs)"
    using h by (simp_all only: set_filter set_upt mem_Collect_eq atLeastLessThan_iff)
  then show "last ?xs < n" "P (hd ?xs)" "P (last ?xs)" by simp_all
  show "\<And>i. i < n \<Longrightarrow> P i \<Longrightarrow> hd ?xs \<le> i \<and> i \<le> last ?xs" by (rule all) simp
qed

lemma content_box:
  assumes "rows = content_rows c h w" "columns = content_columns c h w" "rows \<noteq> []" "columns \<noteq> []"
  shows "tight_box c h w (hd rows, hd columns, last rows + 1 - hd rows, last columns + 1 - hd columns)"
proof -
  note r = filter_upt_ends [of "\<lambda>y. list_ex (c y) [0..<w]" h, folded content_rows_def, folded assms(1), OF assms(3)]
  note k = filter_upt_ends [of "\<lambda>x. list_ex (\<lambda>y. c y x) [0..<h]" w, folded content_columns_def, folded assms(2), OF assms(4)]
  have out: "hd rows \<le> y \<and> y \<le> last rows \<and> hd columns \<le> x \<and> x \<le> last columns" if "y < h" "x < w" "c y x" for y x
  proof -
    have "list_ex (c y) [0..<w]" "list_ex (\<lambda>y. c y x) [0..<h]" using that by (auto simp: list_ex_iff)
    then show ?thesis using r(5) [of y] k(5) [of x] that(1,2) by simp
  qed
  have "list_all (\<lambda>(y, x). if hd rows \<le> y \<and> y < hd rows + (last rows + 1 - hd rows)
      \<and> hd columns \<le> x \<and> x < hd columns + (last columns + 1 - hd columns) then True else \<not> c y x) (List.product [0..<h] [0..<w])"
    using out by (fastforce simp: list_all_iff)
  then show ?thesis using r(1-4) k(1-4) by (simp add: tight_box_def)
qed

text \<open>
  C24. The content of a page is cut tightly: for every picture the box lies inside it, and unless it is the whole picture
  nothing outside it differs from the border by more than the tolerance, while the first and the last row and the first and
  the last column of the box all hold a sample that does; the corners then lie within the tolerance of
  each other, and both sides are at least a fifth of the picture.
\<close>

theorem content_cut_tightly:
  "let bounds = content_bounds grey (height, width); corners = corner_samples grey (height, width)
   in if bounds = (0, 0, height, width) then True
      else tight_box (is_content grey (height, width)) height width bounds
        \<and> Max (set corners) - Min (set corners) \<le> border_tolerance
        \<and> \<not> too_small (fst (snd (snd bounds))) height \<and> \<not> too_small (snd (snd (snd bounds))) width"
  using content_box [OF refl refl, of "is_content grey (height, width)" height width]
  by (simp add: content_bounds_def Let_def)

section \<open>The hypotheses of a page\<close>

definition found_ok :: "nat \<Rightarrow> 'img found \<Rightarrow> bool" where
  "found_ok most = (\<lambda>(hypotheses, seen). length hypotheses \<le> most
     \<and> set seen = set (map (\<lambda>h. quantized_key (gh_matrix h)) hypotheses)
     \<and> distinct (map (\<lambda>h. quantized_key (gh_matrix h)) hypotheses)
     \<and> list_all (\<lambda>h. length (gh_matrix h) = 9 \<and> gh_matrix h ! 8 = Fin 1) hypotheses)"

lemma normalized_scale: "normalize_matrix m = Some n \<Longrightarrow> length n = 9 \<and> n ! 8 = Fin 1"
proof -
  assume n: "normalize_matrix m = Some n"
  then have m: "length m = 9" "list_all f_isfinite m" "\<not> f_le (f_abs (m ! 8)) smallest_divisor" "n = map (\<lambda>x. np_div x (m ! 8)) m"
    by (auto simp: normalize_matrix_def split: if_splits)
  have "f_isfinite (m ! 8)" using m(1,2) by (simp add: list_all_length)
  then obtain d where d: "m ! 8 = Fin d" by (cases "m ! 8") auto
  have "d \<noteq> 0"
  proof
    assume "d = 0"
    with m(3) d show False by (simp add: smallest_divisor_def py_float_def double_value_def f_le_def Let_def)
  qed
  moreover have "to_double 1 = Fin 1" using to_double_nat [of 1] by simp
  ultimately show ?thesis using m(1,4) d by (simp add: np_div_def)
qed

lemma add_hypothesis_ok: "found_ok most f \<Longrightarrow> found_ok most (add_hypothesis most kind picture m score f)"
  by (cases f) (auto simp: found_ok_def add_hypothesis_def dest: normalized_scale split: option.splits)

lemma crop_hypotheses_ok:
  "found_ok most f \<Longrightarrow> found_ok most (crop_hypotheses L most page target ry rx tolerance scales f)"
  by (induction scales arbitrary: f) (simp_all add: Let_def add_hypothesis_ok)

lemma sync_hypothesis_ok: "found_ok most f \<Longrightarrow> found_ok most (sync_hypothesis L most target fallback f)"
  by (auto simp: sync_hypothesis_def add_hypothesis_ok split: option.splits)

lemma crop_stage_ok:
  "found_ok most f \<Longrightarrow> found_ok most (crop_stage L most page target ry rx tolerance scales f)"
  by (simp add: crop_stage_def crop_hypotheses_ok)

lemma nothing_found: "found_ok most ([], [])"
  by (simp add: found_ok_def)

lemma identity_hypothesis_ok: "found_ok most (identity_hypothesis L most page target)"
  by (simp add: identity_hypothesis_def nothing_found add_hypothesis_ok)

lemma pure_resize_ok: "pure_resize L most page target agree f = Inr g \<Longrightarrow> found_ok most f \<Longrightarrow> found_ok most g"
  by (auto simp: pure_resize_def sum_then_Inr add_hypothesis_ok split: if_splits)

lemma frame_hypothesis_ok: "found_ok most f \<Longrightarrow> found_ok most (frame_hypothesis most restored f)"
  by (simp add: frame_hypothesis_def add_hypothesis_ok split: option.split)

lemma shape_hypotheses_ok: "shape_hypotheses L most page target agree = Inr f \<Longrightarrow> found_ok most f"
  by (auto simp: shape_hypotheses_def sum_then_Inr intro: frame_hypothesis_ok pure_resize_ok identity_hypothesis_ok)

text \<open>The stages before the alignment add no hypothesis of its kind, and the alignment adds at most one, at the end.\<close>

definition shape_only :: "'img found \<Rightarrow> bool" where
  "shape_only f \<longleftrightarrow> list_all (\<lambda>h. gh_kind h \<noteq> ''sync'') (fst f)"

lemma add_shape_only: "kind \<noteq> ''sync'' \<Longrightarrow> shape_only f \<Longrightarrow> shape_only (add_hypothesis most kind picture m score f)"
  by (cases f) (auto simp: shape_only_def add_hypothesis_def split: option.splits)

lemma crop_hypotheses_shape:
  "shape_only f \<Longrightarrow> shape_only (crop_hypotheses L most page target ry rx tolerance scales f)"
  by (induction scales arbitrary: f) (simp_all add: Let_def add_shape_only)

lemma crop_stage_shape:
  "shape_only f \<Longrightarrow> shape_only (crop_stage L most page target ry rx tolerance scales f)"
  by (simp add: crop_stage_def crop_hypotheses_shape)

lemma pure_resize_shape: "pure_resize L most page target agree f = Inr g \<Longrightarrow> shape_only f \<Longrightarrow> shape_only g"
  by (auto simp: pure_resize_def sum_then_Inr add_shape_only split: if_splits)

lemma frame_shape: "shape_only f \<Longrightarrow> shape_only (frame_hypothesis most restored f)"
  by (simp add: frame_hypothesis_def add_shape_only split: option.split)

lemma identity_shape: "shape_only (identity_hypothesis L most page target)"
  unfolding identity_hypothesis_def by (auto intro!: add_shape_only simp: shape_only_def [of "([], [])"])

lemma shape_hypotheses_only: "shape_hypotheses L most page target agree = Inr f \<Longrightarrow> shape_only f"
  by (auto simp: shape_hypotheses_def sum_then_Inr intro: frame_shape pure_resize_shape identity_shape)

definition aligned_last :: "'img found \<Rightarrow> 'img found \<Rightarrow> bool" where
  "aligned_last f g \<longleftrightarrow> fst g = fst f \<or> (\<exists>h. fst g = fst f @ [h] \<and> gh_kind h = ''sync'')"

lemma sync_adds_last: "aligned_last f (sync_hypothesis L most target fallback f)"
  by (cases f) (auto simp: aligned_last_def sync_hypothesis_def add_hypothesis_def split: option.split)

definition search_ok :: "nat \<Rightarrow> 'img geometry_search \<Rightarrow> bool" where
  "search_ok most s \<longleftrightarrow> length (gs_hypotheses s) \<le> most
     \<and> distinct (map (\<lambda>h. quantized_key (gh_matrix h)) (gs_hypotheses s))
     \<and> list_all (\<lambda>h. length (gh_matrix h) = 9 \<and> gh_matrix h ! 8 = Fin 1) (gs_hypotheses s)
     \<and> list_all (\<lambda>h. gh_kind h \<noteq> ''sync'') (butlast (gs_hypotheses s))
     \<and> (gs_sync_reason s = None \<longleftrightarrow> length (filter (\<lambda>h. gh_kind h \<noteq> ''sync'') (gs_hypotheses s)) = most)"

lemma shape_filter: "shape_only f \<Longrightarrow> filter (\<lambda>h. gh_kind h \<noteq> ''sync'') (fst f) = fst f"
  by (simp add: shape_only_def filter_id_conv list_all_iff)

lemma full_search_ok:
  assumes "found_ok most f" "shape_only f" "most \<le> length (fst f)"
  shows "search_ok most \<lparr>gs_hypotheses = fst f, gs_sync_reason = None\<rparr>"
  using assms shape_filter [OF assms(2)]
  by (cases f) (auto simp: found_ok_def search_ok_def shape_only_def list_all_iff dest: in_set_butlastD)

lemma aligned_search_ok:
  assumes "found_ok most f" "shape_only f" "\<not> most \<le> length (fst f)"
  shows "search_ok most \<lparr>gs_hypotheses = fst (sync_hypothesis L most target fallback f), gs_sync_reason = Some reason\<rparr>"
proof -
  let ?g = "sync_hypothesis L most target fallback f"
  have "list_all (\<lambda>h. gh_kind h \<noteq> ''sync'') (butlast (fst ?g))" "filter (\<lambda>h. gh_kind h \<noteq> ''sync'') (fst ?g) = fst f"
    using assms(2) sync_adds_last [of f L most target fallback] shape_filter [OF assms(2)]
    by (auto simp: aligned_last_def shape_only_def list_all_iff dest: in_set_butlastD)
  moreover have "found_ok most ?g" using assms(1) by (rule sync_hypothesis_ok)
  ultimately show ?thesis using assms(3) by (cases ?g) (auto simp: found_ok_def search_ok_def)
qed

lemmas full_shapes_ok = full_search_ok [where f = "(hypotheses, seen)" for hypotheses seen, simplified]

lemma search_gives:
  "search_geometry_v3 L page key page_index target p = Inr s \<Longrightarrow> search_ok (nat (f3_max_geometry_hypotheses p)) s"
  by (auto simp: search_geometry_v3_def Let_def sum_then_Inr case_prod_beta split: if_splits
      intro: full_shapes_ok full_search_ok aligned_search_ok crop_stage_ok crop_stage_shape
      dest: shape_hypotheses_ok shape_hypotheses_only)

text \<open>
  C23. The search is bounded and never tries the same geometry twice: it gives at most as many hypotheses as the profile allows,
  no two of which have the same matrix at eight decimals, each matrix scaled so that its last entry is one; only the last
  one can come from the alignment by the pilot, and this alignment is left out (it has no reason) exactly when the
  hypotheses from the shape of the page alone fill the budget.
\<close>

theorem hypotheses_bounded:
  "case search_geometry_v3 L page key page_index target p of Inl _ \<Rightarrow> True
   | Inr s \<Rightarrow> length (gs_hypotheses s) \<le> nat (f3_max_geometry_hypotheses p)
       \<and> distinct (map (\<lambda>h. quantized_key (gh_matrix h)) (gs_hypotheses s))
       \<and> list_all (\<lambda>h. length (gh_matrix h) = 9 \<and> gh_matrix h ! 8 = Fin 1) (gs_hypotheses s)
       \<and> list_all (\<lambda>h. gh_kind h \<noteq> ''sync'') (butlast (gs_hypotheses s))
       \<and> (gs_sync_reason s = None \<longleftrightarrow>
            length (filter (\<lambda>h. gh_kind h \<noteq> ''sync'') (gs_hypotheses s)) = nat (f3_max_geometry_hypotheses p))"
  by (cases "search_geometry_v3 L page key page_index target p") (auto dest!: search_gives simp: search_ok_def)

end
