(* ===== verification/Integrity.thy ===== *)
theory Integrity
  imports TileLayout BitPacking "HOL-Library.List_Lexorder"
begin

text \<open>
  Region authentication (\<open>splitbind_ref/integrity.py\<close>): a tag of 32 bits for every region of the page, bound to its
  content, its place and the document, written into three other regions and read back by vote. OpenCV is
  a parameter: the luminance plane of a page, the cosine transform of a block and its inverse. The profile is the
  parsed one; its values are those of the contract, which the code pins by its hash.
\<close>

section \<open>The profile\<close>

record integrity_profile =
  ip_region_size :: nat
  ip_feature_positions :: "(nat \<times> nat) list"
  ip_feature_step :: pyfloat
  ip_partner_domain :: bytes
  ip_replica_shifts :: "nat list"
  ip_qim_delta :: pyfloat
  ip_coefficient_sets :: "(nat \<times> nat) list list"
  ip_minimum_replica_votes :: nat
  ip_minimum_bit_confidence :: pyfloat
  ip_minimum_regions :: nat
  ip_compression_ratio :: pyfloat
  ip_geometry_ratio :: pyfloat
  ip_high_confidence :: pyfloat
  ip_strong_compression :: string
  ip_geometry_failure :: string
  ip_insufficient_regions :: string
  ip_indeterminate :: string
  ip_max_pixels :: nat
  ip_key_min :: nat
  ip_key_max :: nat
  ip_nonce_min :: nat
  ip_nonce_max :: nat

definition coefficient_box :: "nat \<Rightarrow> nat \<Rightarrow> nat \<Rightarrow> nat \<Rightarrow> (nat \<times> nat) list" where
  "coefficient_box row column rows columns = List.product [row..<row + rows] [column..<column + columns]"

definition integrity_profile_v1 :: integrity_profile where
  "integrity_profile_v1 = \<lparr>ip_region_size = 128,
     ip_feature_positions = [(0, 0), (0, 1), (1, 0), (1, 1), (0, 2), (2, 0), (1, 2), (2, 1),
       (0, 3), (3, 0), (1, 3), (3, 1), (2, 2), (2, 3), (3, 2), (3, 3)],
     ip_feature_step = Fin 512, ip_partner_domain = ascii ''splitbind-integrity-partners-v1'',
     ip_replica_shifts = [1, 2, 3], ip_qim_delta = Fin 48,
     ip_coefficient_sets = [coefficient_box 8 8 4 8, coefficient_box 12 8 4 8, coefficient_box 16 8 4 8],
     ip_minimum_replica_votes = 2, ip_minimum_bit_confidence = py_float 0x3FC999999999999A,
     ip_minimum_regions = 4, ip_compression_ratio = py_float 0x3FB999999999999A, ip_geometry_ratio = Fin (1 / 4),
     ip_high_confidence = py_float 0x3FEB333333333333,
     ip_strong_compression = ''integrity.strong_compression'', ip_geometry_failure = ''integrity.geometry_failure'',
     ip_insufficient_regions = ''integrity.insufficient_complete_regions'', ip_indeterminate = ''integrity.indeterminate'',
     ip_max_pixels = 40000000, ip_key_min = 16, ip_key_max = 64, ip_nonce_min = 8, ip_nonce_max = 64\<rparr>"

section \<open>Regions, tags and partners\<close>

type_synonym plane = "byte list list"

text \<open>
  \<open>cv2.dct\<close> of a block as floats, the conversion of a value stored into a \<open>float32\<close> array, \<open>cv2.idct\<close> with the
  rounding and clipping to bytes, and the two conversions of a page.
\<close>

record 'img vision =
  iv_height :: "'img \<Rightarrow> nat"
  iv_width :: "'img \<Rightarrow> nat"
  iv_luminance :: "'img \<Rightarrow> plane"
  iv_replace :: "'img \<Rightarrow> plane \<Rightarrow> 'img"
  iv_dct :: "plane \<Rightarrow> pyfloat list list"
  iv_store :: "pyfloat \<Rightarrow> pyfloat"
  iv_idct :: "pyfloat list list \<Rightarrow> plane"

text \<open>The two ranges are empty when the page is smaller than a region.\<close>

definition page_regions :: "nat \<Rightarrow> nat \<Rightarrow> nat \<Rightarrow> (nat \<times> nat) list" where
  "page_regions height width edge =
     (if height < edge \<or> width < edge then [] else map (\<lambda>t. (tl_x t, tl_y t)) (tile_slots height width edge))"

text \<open>\<open>plane[y : y + edge, x : x + edge]\<close>, read and assigned.\<close>

definition crop :: "plane \<Rightarrow> nat \<Rightarrow> nat \<times> nat \<Rightarrow> plane" where
  "crop p edge = (\<lambda>(x, y). map (\<lambda>row. take edge (drop x row)) (take edge (drop y p)))"

definition paste :: "plane \<Rightarrow> nat \<Rightarrow> nat \<times> nat \<Rightarrow> plane \<Rightarrow> plane" where
  "paste p edge = (\<lambda>(x, y) block. take y p
     @ map2 (\<lambda>row new. take x row @ new @ drop (x + edge) row) (take edge (drop y p)) block @ drop (y + edge) p)"

text \<open>\<open>struct.pack(">h", value)\<close> of a value in range.\<close>

definition int16_bytes :: "int \<Rightarrow> bytes" where
  "int16_bytes v = be_bytes 2 (nat (v mod 65536))"

definition feature_value :: "pyfloat list list \<Rightarrow> pyfloat \<Rightarrow> nat \<times> nat \<Rightarrow> exn + bytes" where
  "feature_value coefficients step = (\<lambda>(row, column).
     sum_then (f_div (coefficients ! row ! column) step) (\<lambda>scaled.
     sum_then (f_round scaled) (\<lambda>v.
     if \<not> (-32768 \<le> v \<and> v \<le> 32767) then Inl (ValueError ''integrity profile feature encoding overflow'')
     else Inr (int16_bytes v))))"

definition content_feature :: "'img vision \<Rightarrow> integrity_profile \<Rightarrow> plane \<Rightarrow> exn + bytes" where
  "content_feature V P region =
     sum_then (sum_map (feature_value (iv_dct V region) (ip_feature_step P)) (ip_feature_positions P)) (\<lambda>values.
     Inr (concat values))"

definition region_tag :: "hmac \<Rightarrow> bytes \<Rightarrow> nat \<Rightarrow> bytes \<Rightarrow> bytes \<Rightarrow> bytes" where
  "region_tag hm feature region_index nonce key = take 4 (hm key (feature @ be_bytes 4 region_index @ nonce))"

definition partner_order :: "hmac \<Rightarrow> nat \<Rightarrow> bytes \<Rightarrow> bytes \<Rightarrow> integrity_profile \<Rightarrow> nat list" where
  "partner_order hm n key nonce P =
     sort_key (\<lambda>i. hm key (ip_partner_domain P @ [0] @ nonce @ be_bytes 4 i)) [0..<n]"

definition rank_of :: "nat list \<Rightarrow> nat \<Rightarrow> nat" where
  "rank_of order source = length (takeWhile (\<lambda>x. x \<noteq> source) order)"

definition partner_regions :: "hmac \<Rightarrow> nat \<Rightarrow> bytes \<Rightarrow> bytes \<Rightarrow> integrity_profile \<Rightarrow> exn + nat list list" where
  "partner_regions hm n key nonce P =
     (let order = partner_order hm n key nonce P; effective = map (\<lambda>shift. shift mod n) (ip_replica_shifts P)
      in if n = 0 then Inl (ZeroDivisionError ''integer modulo by zero'')
         else if 0 \<in> set effective \<or> \<not> distinct effective
         then Inl (ValueError ''integrity profile replica mappings must be independent'')
         else Inr (map (\<lambda>e. map (\<lambda>source. order ! ((rank_of order source + e) mod n)) [0..<n]) effective))"

section \<open>Writing and reading a tag\<close>

definition quantize_bit :: "'img vision \<Rightarrow> pyfloat \<Rightarrow> bool \<Rightarrow> pyfloat \<Rightarrow> exn + pyfloat" where
  "quantize_bit V delta b coefficient =
     sum_then (f_div coefficient delta) (\<lambda>scaled.
     sum_then (f_round scaled) (\<lambda>lattice.
     sum_then (if odd lattice = b then Inr lattice
        else sum_then (f_of_int (lattice - 1)) (\<lambda>lower. sum_then (f_of_int (lattice + 1)) (\<lambda>upper.
          Inr (if f_le (f_abs (f_sub lower scaled)) (f_abs (f_sub upper scaled)) then lattice - 1 else lattice + 1)))) (\<lambda>target.
     sum_then (f_of_int target) (\<lambda>t. Inr (iv_store V (f_mul t delta))))))"

fun quantize_bits ::
  "'img vision \<Rightarrow> pyfloat \<Rightarrow> (bool \<times> nat \<times> nat) list \<Rightarrow> pyfloat list list \<Rightarrow> exn + pyfloat list list" where
  "quantize_bits V delta [] coefficients = Inr coefficients"
| "quantize_bits V delta ((b, row, column) # rest) coefficients =
     sum_then (quantize_bit V delta b (coefficients ! row ! column)) (\<lambda>c.
     quantize_bits V delta rest (coefficients[row := (coefficients ! row)[column := c]]))"

definition embed_region_bits :: "'img vision \<Rightarrow> plane \<Rightarrow> bool list \<Rightarrow> (nat \<times> nat) list \<Rightarrow> pyfloat \<Rightarrow> exn + plane" where
  "embed_region_bits V region bits positions delta =
     (if length bits \<noteq> length positions then Inl (ValueError ''zip() arguments have different lengths'')
      else sum_then (quantize_bits V delta (zip bits positions) (iv_dct V region)) (\<lambda>coefficients. Inr (iv_idct V coefficients)))"

definition read_coefficient :: "pyfloat list list \<Rightarrow> pyfloat \<Rightarrow> nat \<times> nat \<Rightarrow> exn + (bool \<times> pyfloat)" where
  "read_coefficient coefficients delta = (\<lambda>(row, column).
     sum_then (f_div (coefficients ! row ! column) delta) (\<lambda>scaled.
     sum_then (f_round scaled) (\<lambda>lattice.
     sum_then (f_of_int lattice) (\<lambda>l.
     Inr (odd lattice, f_max (Fin 0) (f_sub (Fin 1) (f_mul (Fin 2) (f_abs (f_sub scaled l)))))))))"

definition extract_region_bits :: "'img vision \<Rightarrow> plane \<Rightarrow> (nat \<times> nat) list \<Rightarrow> pyfloat \<Rightarrow> exn + (bytes \<times> pyfloat)" where
  "extract_region_bits V region positions delta =
     sum_then (sum_map (read_coefficient (iv_dct V region) delta) positions) (\<lambda>read.
     sum_then (f_of_int (int (length read))) (\<lambda>n.
     sum_then (f_div (f_sum (map snd read)) n) (\<lambda>confidence.
     Inr (pack_bits (map fst read), confidence))))"

section \<open>Inputs\<close>

definition validate_secret :: "string \<Rightarrow> bytes \<Rightarrow> nat \<Rightarrow> nat \<Rightarrow> exn + unit" where
  "validate_secret name v minimum maximum = sum_require (minimum \<le> length v \<and> length v \<le> maximum)
     (ValueError (name @ '' length must be in ['' @ decimal minimum @ '', '' @ decimal maximum @ ''] bytes''))"

definition validate_integrity_inputs :: "'img vision \<Rightarrow> 'img \<Rightarrow> bytes \<Rightarrow> bytes \<Rightarrow> integrity_profile \<Rightarrow> exn + unit" where
  "validate_integrity_inputs V page key nonce P =
     sum_then (sum_require (iv_height V page \<noteq> 0 \<and> iv_width V page \<noteq> 0) (ValueError ''page dimensions must be non-empty'')) (\<lambda>_.
     sum_then (sum_require (iv_height V page * iv_width V page \<le> ip_max_pixels P)
        (ValueError ''page exceeds the 40 megapixels limit'')) (\<lambda>_.
     sum_then (validate_secret ''key'' key (ip_key_min P) (ip_key_max P)) (\<lambda>_.
     validate_secret ''nonce'' nonce (ip_nonce_min P) (ip_nonce_max P))))"

definition region_tags ::
  "'img vision \<Rightarrow> hmac \<Rightarrow> plane \<Rightarrow> (nat \<times> nat) list \<Rightarrow> bytes \<Rightarrow> bytes \<Rightarrow> integrity_profile \<Rightarrow> exn + bytes list" where
  "region_tags V hm luminance regions nonce key P =
     sum_then (sum_map (\<lambda>r. content_feature V P (crop luminance (ip_region_size P) r)) regions) (\<lambda>features.
     Inr (map2 (\<lambda>feature i. region_tag hm feature i nonce key) features [0..<length features]))"

section \<open>Embedding\<close>

record 'img embedded_page =
  ep_image :: 'img
  ep_embedded_regions :: nat
  ep_limitations :: "string list"

text \<open>One replica of one tag.\<close>

definition write_replica ::
  "'img vision \<Rightarrow> integrity_profile \<Rightarrow> (nat \<times> nat) list \<Rightarrow> bytes \<Rightarrow> nat list \<Rightarrow> (nat \<times> nat) list \<Rightarrow> nat \<Rightarrow> plane \<Rightarrow> exn + plane" where
  "write_replica V P regions tag destinations positions source p =
     (let r = regions ! (destinations ! source)
      in sum_then (embed_region_bits V (crop p (ip_region_size P) r) (unpack_bits tag) positions (ip_qim_delta P)) (\<lambda>block.
         Inr (paste p (ip_region_size P) r block)))"

fun write_replicas ::
  "'img vision \<Rightarrow> integrity_profile \<Rightarrow> (nat \<times> nat) list \<Rightarrow> bytes \<Rightarrow> (nat list \<times> (nat \<times> nat) list) list \<Rightarrow> nat \<Rightarrow> plane \<Rightarrow> exn + plane" where
  "write_replicas V P regions tag [] source p = Inr p"
| "write_replicas V P regions tag ((destinations, positions) # rest) source p =
     sum_then (write_replica V P regions tag destinations positions source p) (write_replicas V P regions tag rest source)"

fun write_tags ::
  "'img vision \<Rightarrow> integrity_profile \<Rightarrow> (nat \<times> nat) list \<Rightarrow> (nat list \<times> (nat \<times> nat) list) list \<Rightarrow> nat \<Rightarrow> bytes list \<Rightarrow> plane \<Rightarrow> exn + plane" where
  "write_tags V P regions partners source [] p = Inr p"
| "write_tags V P regions partners source (tag # tags) p =
     sum_then (write_replicas V P regions tag partners source p) (write_tags V P regions partners (Suc source) tags)"

definition embed_integrity ::
  "'img vision \<Rightarrow> hmac \<Rightarrow> 'img \<Rightarrow> bytes \<Rightarrow> bytes \<Rightarrow> integrity_profile \<Rightarrow> exn + 'img embedded_page" where
  "embed_integrity V hm page key nonce P =
     sum_then (validate_integrity_inputs V page key nonce P) (\<lambda>_.
     let regions = page_regions (iv_height V page) (iv_width V page) (ip_region_size P)
     in if length regions < ip_minimum_regions P
        then Inr \<lparr>ep_image = page, ep_embedded_regions = 0, ep_limitations = [ip_insufficient_regions P]\<rparr>
        else
          let luminance = iv_luminance V page
          in sum_then (region_tags V hm luminance regions nonce key P) (\<lambda>tags.
             sum_then (partner_regions hm (length regions) key nonce P) (\<lambda>partners.
             sum_then (write_tags V P regions (zip partners (ip_coefficient_sets P)) 0 tags luminance) (\<lambda>modified.
             Inr \<lparr>ep_image = iv_replace V page modified, ep_embedded_regions = length regions, ep_limitations = []\<rparr>))))"

section \<open>Verification\<close>

record normalized_rect =
  nr_x :: pyfloat
  nr_y :: pyfloat
  nr_width :: pyfloat
  nr_height :: pyfloat

definition make_rect :: "pyfloat \<Rightarrow> pyfloat \<Rightarrow> pyfloat \<Rightarrow> pyfloat \<Rightarrow> exn + normalized_rect" where
  "make_rect x y width height =
     (if \<not> list_all f_isfinite [x, y, width, height] then Inl (ValueError ''normalized rectangle values must be finite'')
      else if f_less x (Fin 0) \<or> f_less y (Fin 0) \<or> f_le width (Fin 0) \<or> f_le height (Fin 0)
      then Inl (ValueError ''normalized rectangle must be non-empty and start within [0, 1]'')
      else if f_less (Fin 1) (f_add x width) \<or> f_less (Fin 1) (f_add y height)
      then Inl (ValueError ''normalized rectangle must fit within [0, 1]'')
      else Inr \<lparr>nr_x = x, nr_y = y, nr_width = width, nr_height = height\<rparr>)"

definition region_rect :: "nat \<Rightarrow> nat \<Rightarrow> nat \<Rightarrow> nat \<times> nat \<Rightarrow> exn + normalized_rect" where
  "region_rect height width edge = (\<lambda>(x, y).
     sum_then (int_div x width) (\<lambda>nx. sum_then (int_div y height) (\<lambda>ny.
     sum_then (int_div edge width) (\<lambda>nw. sum_then (int_div edge height) (\<lambda>nh. make_rect nx ny nw nh)))))"

text \<open>What the replicas of a region say; the confidences are kept in the order they are read.\<close>

datatype verdict = Matching | Mismatching | Undecided

definition replica_reading ::
  "'img vision \<Rightarrow> integrity_profile \<Rightarrow> plane \<Rightarrow> (nat \<times> nat) list \<Rightarrow> nat \<Rightarrow> nat list \<times> (nat \<times> nat) list \<Rightarrow> exn + (bytes \<times> pyfloat)" where
  "replica_reading V P luminance regions source = (\<lambda>(destinations, positions).
     extract_region_bits V (crop luminance (ip_region_size P) (regions ! (destinations ! source))) positions (ip_qim_delta P))"

definition count_votes :: "pyfloat \<Rightarrow> bytes \<Rightarrow> (bytes \<times> pyfloat) list \<Rightarrow> nat \<times> nat" where
  "count_votes least expected readings =
     (let sure = filter (\<lambda>(_, c). f_le least c) readings
      in (length (filter (\<lambda>(actual, _). actual = expected) sure), length (filter (\<lambda>(actual, _). actual \<noteq> expected) sure)))"

definition region_verdict :: "integrity_profile \<Rightarrow> bytes \<Rightarrow> (bytes \<times> pyfloat) list \<Rightarrow> verdict" where
  "region_verdict P expected readings =
     (let (matching, mismatching) = count_votes (ip_minimum_bit_confidence P) expected readings
      in if ip_minimum_replica_votes P \<le> matching then Matching
         else if ip_minimum_replica_votes P \<le> mismatching then Mismatching else Undecided)"

definition count_verdicts :: "verdict \<Rightarrow> verdict list \<Rightarrow> nat" where
  "count_verdicts v vs = length (filter (\<lambda>w. w = v) vs)"

definition decision_limitations :: "integrity_profile \<Rightarrow> nat \<Rightarrow> verdict list \<Rightarrow> pyfloat \<Rightarrow> pyfloat \<Rightarrow> string list" where
  "decision_limitations P regions verdicts mismatch_ratio mean_confidence =
     (if regions \<le> count_verdicts Undecided verdicts * 2 then [ip_indeterminate P]
      else if f_le (ip_geometry_ratio P) mismatch_ratio \<and> f_le (ip_high_confidence P) mean_confidence
      then [ip_geometry_failure P]
      else if f_le (ip_compression_ratio P) mismatch_ratio \<and> f_less mean_confidence (ip_high_confidence P)
      then [ip_strong_compression P] else [])"

record integrity_decision =
  id_score :: pyfloat
  id_suspicious_regions :: "normalized_rect list"
  id_evaluated_regions :: nat
  id_limitations :: "string list"

definition decide :: "integrity_profile \<Rightarrow> nat \<Rightarrow> nat \<Rightarrow> (nat \<times> nat) list \<Rightarrow> verdict list \<Rightarrow> pyfloat list \<Rightarrow> exn + integrity_decision" where
  "decide P height width regions verdicts confidences =
     sum_then (if confidences = [] then Inr (Fin 0)
        else sum_then (f_of_int (int (length confidences))) (\<lambda>n. f_div (f_sum confidences) n)) (\<lambda>mean_confidence.
     sum_then (int_div (count_verdicts Mismatching verdicts) (length regions)) (\<lambda>mismatch_ratio.
     let limitations = decision_limitations P (length regions) verdicts mismatch_ratio mean_confidence;
         suspicious = (if limitations \<noteq> [] then []
           else map fst (filter (\<lambda>(_, v). v = Mismatching) (zip regions verdicts)))
     in sum_then (sum_map (region_rect height width (ip_region_size P)) suspicious) (\<lambda>rects.
        sum_then (int_div (count_verdicts Matching verdicts) (length regions)) (\<lambda>score.
        Inr \<lparr>id_score = score, id_suspicious_regions = rects, id_evaluated_regions = length regions,
             id_limitations = limitations\<rparr>))))"

definition verify_integrity ::
  "'img vision \<Rightarrow> hmac \<Rightarrow> 'img \<Rightarrow> bytes \<Rightarrow> bytes \<Rightarrow> integrity_profile \<Rightarrow> exn + integrity_decision" where
  "verify_integrity V hm page key nonce P =
     sum_then (validate_integrity_inputs V page key nonce P) (\<lambda>_.
     let height = iv_height V page; width = iv_width V page; regions = page_regions height width (ip_region_size P)
     in if length regions < ip_minimum_regions P
        then Inr \<lparr>id_score = Fin 0, id_suspicious_regions = [], id_evaluated_regions = 0,
                  id_limitations = [ip_insufficient_regions P]\<rparr>
        else
          let luminance = iv_luminance V page
          in sum_then (region_tags V hm luminance regions nonce key P) (\<lambda>expected.
             sum_then (partner_regions hm (length regions) key nonce P) (\<lambda>partners.
             sum_then (sum_map (\<lambda>source. sum_map (replica_reading V P luminance regions source)
                  (zip partners (ip_coefficient_sets P))) [0..<length expected]) (\<lambda>readings.
             decide P height width regions (map2 (region_verdict P) expected readings) (map snd (concat readings))))))"

section \<open>Partners\<close>

lemma partner_order_perm:
  "distinct (partner_order hm n key nonce P)" "set (partner_order hm n key nonce P) = {..<n}"
  "length (partner_order hm n key nonce P) = n"
  by (auto simp: partner_order_def)

lemma rank_of_Cons: "rank_of (x # order) source = (if x = source then 0 else Suc (rank_of order source))"
  by (simp add: rank_of_def)

lemma rank_of_nth: "source \<in> set order \<Longrightarrow> rank_of order source < length order \<and> order ! rank_of order source = source"
  by (induction order) (auto simp: rank_of_Cons)

lemma shifted_index: "k < n \<Longrightarrow> e < n \<Longrightarrow> (k + e) mod n = (if k + e < n then k + e else k + e - n)" for k e n :: nat
  by (auto simp: mod_if)

lemma shifted_index_inj: "i < n \<Longrightarrow> j < n \<Longrightarrow> e < n \<Longrightarrow> (i + e) mod n = (j + e) mod n \<Longrightarrow> i = j" for i j e n :: nat
  unfolding shifted_index by (simp split: if_splits)

lemma shifted_index_other: "k < n \<Longrightarrow> e < n \<Longrightarrow> e' < n \<Longrightarrow> (k + e) mod n = (k + e') mod n \<Longrightarrow> e = e'" for k e e' n :: nat
  using shifted_index_inj [of e n e' k] by (simp add: add.commute)

text \<open>The partners of a shift: a permutation of the regions that moves every region.\<close>

definition ring_partners :: "nat \<Rightarrow> nat list \<Rightarrow> nat \<Rightarrow> nat list" where
  "ring_partners n order e = map (\<lambda>source. order ! ((rank_of order source + e) mod n)) [0..<n]"

lemma partner_mapping:
  fixes n :: nat
  defines "ring \<equiv> ring_partners n"
  assumes order: "distinct order" "set order = {..<n}" "length order = n" and e: "0 < e" "e < n"
  shows "distinct (ring order e)" "set (ring order e) = {..<n}" "\<And>i. i < n \<Longrightarrow> ring order e ! i \<noteq> i"
    "\<And>i e'. i < n \<Longrightarrow> e' < n \<Longrightarrow> e' \<noteq> e \<Longrightarrow> ring order e ! i \<noteq> ring order e' ! i"
proof -
  have rank: "rank_of order i < n" "order ! rank_of order i = i" if "i < n" for i
    using rank_of_nth [of i order] order that by auto
  have inj: "order ! a = order ! b \<longleftrightarrow> a = b" if "a < n" "b < n" for a b
    using that order by (simp add: nth_eq_iff_index_eq)
  have idx: "(rank_of order i + e) mod n < n" for i e using e by simp
  show "distinct (ring order e)"
    unfolding ring_def ring_partners_def distinct_map
  proof (intro conjI inj_onI)
    fix i j assume ij: "i \<in> set [0..<n]" "j \<in> set [0..<n]"
      and eq: "order ! ((rank_of order i + e) mod n) = order ! ((rank_of order j + e) mod n)"
    from ij have lt: "i < n" "j < n" by simp_all
    from eq have "(rank_of order i + e) mod n = (rank_of order j + e) mod n" using inj [OF idx idx] by blast
    then have "rank_of order i = rank_of order j"
      by (rule shifted_index_inj [OF rank(1) [OF lt(1)] rank(1) [OF lt(2)] e(2)])
    then show "i = j" using rank(2) [OF lt(1)] rank(2) [OF lt(2)] by metis
  qed simp
  then have "card (set (ring order e)) = length (ring order e)" by (rule distinct_card)
  then have "card (set (ring order e)) = n" by (simp add: ring_def ring_partners_def)
  moreover have "set (ring order e) \<subseteq> {..<n}" using order(2,3) idx unfolding ring_def ring_partners_def by (auto dest!: nth_mem simp: subset_iff)
  ultimately show "set (ring order e) = {..<n}" by (metis card_lessThan card_subset_eq finite_lessThan)
  show "ring order e ! i \<noteq> i" if i: "i < n" for i
  proof
    assume "ring order e ! i = i"
    then have "order ! ((rank_of order i + e) mod n) = order ! rank_of order i" using i rank(2) by (simp add: ring_def ring_partners_def)
    then have "(rank_of order i + e) mod n = rank_of order i" using inj [OF idx rank(1) [OF i]] by blast
    then have "(rank_of order i + e) mod n = (rank_of order i + 0) mod n" using rank(1) [OF i] by simp
    then have "e = 0" by (rule shifted_index_other [OF rank(1) [OF i] e(2), rotated]) (use e in simp)
    with e(1) show False by simp
  qed
  show "ring order e ! i \<noteq> ring order e' ! i" if "i < n" "e' < n" "e' \<noteq> e" for i e'
  proof
    assume "ring order e ! i = ring order e' ! i"
    then have "order ! ((rank_of order i + e) mod n) = order ! ((rank_of order i + e') mod n)" using that(1) by (simp add: ring_def ring_partners_def)
    then have "(rank_of order i + e) mod n = (rank_of order i + e') mod n" using inj [OF idx idx] by blast
    then have "e = e'" by (rule shifted_index_other [OF rank(1) [OF that(1)] e(2) that(2)])
    with that(3) show False by simp
  qed
qed

lemma partner_regions_v1:
  "partner_regions hm n key nonce integrity_profile_v1 =
     (let order = partner_order hm n key nonce integrity_profile_v1;
          ring = ring_partners n order
      in if n = 0 then Inl (ZeroDivisionError ''integer modulo by zero'')
         else if n < 4 then Inl (ValueError ''integrity profile replica mappings must be independent'')
         else Inr [ring 1, ring 2, ring 3])"
proof -
  have shifts: "ip_replica_shifts integrity_profile_v1 = [1, 2, 3]" by (simp add: integrity_profile_v1_def)
  consider "n = 0" | "n = 1" | "n = 2" | "n = 3" | "4 \<le> n" by linarith
  then show ?thesis by cases (simp_all add: partner_regions_def shifts ring_partners_def Let_def)
qed

section \<open>Rectangles\<close>

lemma f_add_unit:
  assumes "0 \<le> u" "u < 1" "0 \<le> v" "v < 1" "u + v \<le> 1"
  shows "\<not> f_less (Fin 1) (f_add (Fin (round_double u)) (Fin (round_double v)))"
proof -
  have "\<bar>round_double u - u\<bar> \<le> 1 / 2 ^ 54" "\<bar>round_double v - v\<bar> \<le> 1 / 2 ^ 54"
    by (rule round_double_error_unit, use assms in simp)+
  then have "round_double u + round_double v \<le> 1 + 1 / 2 ^ 53" using assms(5) unfolding abs_le_iff by simp
  then have le: "round_double (round_double u + round_double v) \<le> 1" by (rule round_double_le_one)
  have "(1 :: rat) < 2 ^ 1024" by simp
  with le show ?thesis by (auto simp: to_double_def Let_def)
qed

text \<open>One coordinate of a region: both quotients are valid, and their rounded sum stays within the page.\<close>

lemma region_extent:
  assumes "0 < edge" "x + edge \<le> w" "w \<le> 40000000"
  obtains a b where "int_div x w = Inr (Fin a)" "int_div edge w = Inr (Fin b)" "0 \<le> a" "a \<le> 1" "0 < b" "b \<le> 1"
    "\<not> f_less (Fin 1) (f_add (Fin a) (Fin b))"
proof -
  have w: "0 < w" "x \<le> w" "edge \<le> w" using assms by simp_all
  obtain a where a: "int_div x w = Inr (Fin a)" "a = round_double (of_nat x / of_nat w)" "0 \<le> a" "a \<le> 1"
    using int_div_le_one [OF w(2,1)] .
  obtain b where b: "int_div edge w = Inr (Fin b)" "b = round_double (of_nat edge / of_nat w)" "0 \<le> b" "b \<le> 1"
    using int_div_le_one [OF w(3,1)] .
  have "0 < b" unfolding b(2)
  proof (rule round_double_pos)
    show "0 < (of_nat edge / of_nat w :: rat)" using assms(1) w by simp
    have "(2 :: rat) powi (- 1022) \<le> 2 powi (- 26)" by (simp only: two_powi_le)
    also have "\<dots> \<le> 1 / of_nat 40000000" by (simp add: power_int_def power_one_over)
    also have "\<dots> \<le> 1 / of_nat w" using assms(3) w by (intro divide_left_mono) (simp_all only: of_nat_le_iff of_nat_0_less_iff zero_le_one mult_pos_pos)
    also have "\<dots> \<le> of_nat edge / of_nat w" using assms(1) w by (simp add: divide_right_mono)
    finally show "(2 :: rat) powi (- 1022) \<le> of_nat edge / of_nat w" .
  qed
  moreover have "\<not> f_less (Fin 1) (f_add (Fin a) (Fin b))"
  proof (cases "x = 0")
    case True
    have "round_double b \<le> 1" using b(4) by (intro round_double_le_one) simp
    moreover have "a = 0" using a(2) True by (simp add: round_double_def)
    moreover have "(1 :: rat) < 2 ^ 1024" by simp
    ultimately show ?thesis by (auto simp: to_double_def Let_def)
  next
    case False
    have "of_nat x + of_nat edge \<le> (of_nat w :: rat)" using assms(2) by (metis of_nat_add of_nat_le_iff)
    then have "(of_nat x / of_nat w :: rat) + of_nat edge / of_nat w \<le> 1"
      using w(1) by (simp add: add_divide_distrib [symmetric])
    moreover have "(of_nat x / of_nat w :: rat) < 1" "(of_nat edge / of_nat w :: rat) < 1"
      using False assms(1,2) w(1) by simp_all
    ultimately show ?thesis unfolding a(2) b(2) by (intro f_add_unit) simp_all
  qed
  ultimately show thesis using that a b by blast
qed

lemma region_rect_valid:
  assumes "0 < edge" "x + edge \<le> width" "y + edge \<le> height" "width \<le> 40000000" "height \<le> 40000000"
  obtains r where "region_rect height width edge (x, y) = Inr r"
proof -
  obtain a b where ab: "int_div x width = Inr (Fin a)" "int_div edge width = Inr (Fin b)" "0 \<le> a" "0 < b"
    "\<not> f_less (Fin 1) (f_add (Fin a) (Fin b))" using region_extent [OF assms(1,2,4)] by metis
  obtain c d where cd: "int_div y height = Inr (Fin c)" "int_div edge height = Inr (Fin d)" "0 \<le> c" "0 < d"
    "\<not> f_less (Fin 1) (f_add (Fin c) (Fin d))" using region_extent [OF assms(1,3,5)] by metis
  from ab cd show thesis
    by (intro that [of "\<lparr>nr_x = Fin a, nr_y = Fin c, nr_width = Fin b, nr_height = Fin d\<rparr>"])
       (simp add: region_rect_def sum_then_def make_rect_def f_le_def)
qed

section \<open>Errors of the arithmetic\<close>

definition rect_errors :: "exn list" where
  "rect_errors = [ValueError ''normalized rectangle values must be finite'',
     ValueError ''normalized rectangle must be non-empty and start within [0, 1]'',
     ValueError ''normalized rectangle must fit within [0, 1]'']"

lemma f_div_error: "f_div x y = Inl e \<Longrightarrow> e = ZeroDivisionError ''float division by zero''"
  by (induction x y rule: f_div.induct) (auto split: if_splits)

lemma f_round_error: "f_round x = Inl e \<Longrightarrow> e \<notin> set rect_errors"
  by (cases x) (auto simp: rect_errors_def)

lemma f_of_int_error: "f_of_int n = Inl e \<Longrightarrow> e \<notin> set rect_errors"
  by (auto simp: f_of_int_def rect_errors_def split: pyfloat.splits)

lemma sum_map_error: "sum_map f xs = Inl e \<Longrightarrow> \<exists>x\<in>set xs. f x = Inl e"
  by (induction xs) (auto simp: sum_then_def split: sum.splits)

lemma f_div_no_rect: "f_div x y = Inl e \<Longrightarrow> e \<notin> set rect_errors"
  by (auto dest!: f_div_error simp: rect_errors_def)

lemmas arithmetic_errors = f_div_no_rect f_round_error f_of_int_error

lemma region_tags_error: "region_tags V hm p rs nonce key P = Inl e \<Longrightarrow> e \<notin> set rect_errors"
  by (auto simp: region_tags_def content_feature_def feature_value_def sum_then_def split: sum.splits if_splits prod.splits
      dest!: sum_map_error arithmetic_errors) (auto simp: rect_errors_def)

lemma replica_reading_error: "replica_reading V P p rs source d = Inl e \<Longrightarrow> e \<notin> set rect_errors"
  by (auto simp: replica_reading_def extract_region_bits_def read_coefficient_def sum_then_def Let_def
      split: sum.splits if_splits prod.splits dest!: sum_map_error arithmetic_errors)

lemma validate_integrity_inputs_error: "validate_integrity_inputs V page key nonce P = Inl e \<Longrightarrow> e \<notin> set rect_errors"
  by (auto simp: validate_integrity_inputs_def validate_secret_def sum_require_def sum_then_def rect_errors_def split: sum.splits if_splits)

section \<open>Decisions\<close>

lemma page_regions_in:
  "r \<in> set (page_regions height width 128) \<Longrightarrow> fst r + 128 \<le> width \<and> snd r + 128 \<le> height"
  by (auto simp: page_regions_def tile_slots_in split: if_splits)

text \<open>A page of valid size has a valid rectangle for each of its regions.\<close>

lemma region_rects_valid:
  assumes "set rs \<subseteq> set (page_regions height width 128)" "height * width \<le> 40000000"
  shows "\<exists>rects. sum_map (region_rect height width 128) rs = Inr rects"
  using assms(1)
proof (induction rs)
  case (Cons r rs)
  then have r: "fst r + 128 \<le> width" "snd r + 128 \<le> height" using page_regions_in [of r height width] by simp_all
  then have "1 * width \<le> height * width" "height * 1 \<le> height * width" by (intro mult_right_mono mult_left_mono; simp)+
  with assms(2) have "width \<le> 40000000" "height \<le> 40000000" by linarith+
  from region_rect_valid [OF _ r this] obtain rect where "region_rect height width 128 r = Inr rect" by (metis prod.collapse zero_less_numeral)
  with Cons show ?case by (auto simp: sum_then_def)
qed simp

lemma count_verdicts_le: "count_verdicts v vs \<le> length vs"
  by (simp add: count_verdicts_def)

text \<open>What a decision promises.\<close>

definition decision_sound :: "nat \<Rightarrow> integrity_decision \<Rightarrow> bool" where
  "decision_sound regions d \<longleftrightarrow>
     (case id_score d of Fin s \<Rightarrow> 0 \<le> s \<and> s \<le> 1 | _ \<Rightarrow> False)
     \<and> (id_limitations d = [] \<or> id_suspicious_regions d = [])
     \<and> length (id_suspicious_regions d) \<le> id_evaluated_regions d
     \<and> id_evaluated_regions d = (if regions < 4 then 0 else regions)"

lemma decide_sound:
  assumes "length verdicts \<le> length regions" "4 \<le> length regions" "set regions \<subseteq> set (page_regions height width 128)"
    "height * width \<le> 40000000"
  shows "case decide integrity_profile_v1 height width regions verdicts confidences of
     Inl e \<Rightarrow> e \<notin> set rect_errors | Inr d \<Rightarrow> decision_sound (length regions) d"
proof -
  let ?P = integrity_profile_v1
  define susp where "susp ls = (if ls \<noteq> ([] :: string list) then []
    else map fst (filter (\<lambda>(_, v). v = Mismatching) (zip regions verdicts)))" for ls
  have size: "ip_region_size ?P = 128" by (simp add: integrity_profile_v1_def)
  have pos: "0 < length regions" using assms(2) by linarith
  have le: "count_verdicts v verdicts \<le> length regions" for v using count_verdicts_le [of v verdicts] assms(1) by simp
  obtain r where r: "int_div (count_verdicts Mismatching verdicts) (length regions) = Inr (Fin r)"
    using int_div_le_one [OF le pos] by metis
  obtain s where s: "int_div (count_verdicts Matching verdicts) (length regions) = Inr (Fin s)" "0 \<le> s" "s \<le> 1"
    using int_div_le_one [OF le pos] by metis
  have "set (susp ls) \<subseteq> set regions" for ls by (auto simp: susp_def dest: set_zip_leftD)
  then have "\<exists>rects. sum_map (region_rect height width 128) (susp ls) = Inr rects" for ls
    using region_rects_valid [OF _ assms(4)] assms(3) by blast
  then obtain rects where rects: "\<And>ls. sum_map (region_rect height width 128) (susp ls) = Inr (rects ls)" by metis
  have len: "length (rects ls) \<le> length regions" for ls
    using sum_map_length [OF rects [of ls]] length_filter_le [of "\<lambda>(_, v). v = Mismatching" "zip regions verdicts"]
    by (simp add: susp_def split: if_splits)
  have none: "ls \<noteq> [] \<Longrightarrow> rects ls = []" for ls using rects [of ls] by (simp add: susp_def)
  show ?thesis
    using r s rects len none assms(2)
    by (auto simp: decide_def sum_then_def size susp_def [symmetric] decision_sound_def Let_def
        split: sum.splits if_splits dest: arithmetic_errors)
qed

section \<open>Properties\<close>

text \<open>
  C18. Every tag is kept in three places of its own: for four regions or more, whatever the keyed hash returns, the
  partner mappings of the contract are three permutations of the regions, so every region holds exactly one
  tag of each replica; no region holds its own tag, and the three copies of a tag lie in three different
  regions. With fewer regions the call is refused.
\<close>

theorem partners_independent:
  "case partner_regions hm n key nonce integrity_profile_v1 of Inl _ \<Rightarrow> n < 4 | Inr maps \<Rightarrow>
     4 \<le> n \<and> length maps = 3 \<and> list_all (\<lambda>m. distinct m \<and> set m = {..<n}) maps
     \<and> list_all (\<lambda>i. distinct (i # map (\<lambda>m. m ! i) maps)) [0..<n]"
proof (cases "n < 4")
  case False
  let ?order = "partner_order hm n key nonce integrity_profile_v1"
  have e: "0 < e \<Longrightarrow> e < 4 \<Longrightarrow> e < n" for e using False by linarith
  note ring = partner_mapping [OF partner_order_perm [of hm n key nonce integrity_profile_v1]]
  from False e show ?thesis
    by (simp add: partner_regions_v1 Let_def list_all_iff atLeast0LessThan ring(1,2) ring(3) [symmetric] ring(4))
qed (simp add: partner_regions_v1 Let_def)

text \<open>
  C16. A decision about a page is consistent: its score lies between zero and one, it never reports regions next to a
  limitation, it reports at most the regions it evaluated, and it evaluates all complete regions or, below
  four, none. The rectangles it reports are always valid: no page size and no rounding makes the
  constructor of the rectangle raise.
\<close>

theorem integrity_decision_sound:
  "case verify_integrity V hm page key nonce integrity_profile_v1 of
     Inl e \<Rightarrow> e \<notin> set rect_errors
   | Inr d \<Rightarrow> decision_sound (length (page_regions (iv_height V page) (iv_width V page) 128)) d"
proof -
  let ?P = integrity_profile_v1 and ?rs = "page_regions (iv_height V page) (iv_width V page) 128"
  have p: "ip_region_size ?P = 128" "ip_minimum_regions ?P = 4" "ip_max_pixels ?P = 40000000" by (simp_all add: integrity_profile_v1_def)
  show ?thesis
  proof (cases "validate_integrity_inputs V page key nonce ?P")
    case (Inl e)
    then show ?thesis using validate_integrity_inputs_error [OF Inl] by (simp add: verify_integrity_def)
  next
    case (Inr u)
    then have px: "iv_height V page * iv_width V page \<le> 40000000" by (auto simp: validate_integrity_inputs_def sum_then_Inr p)
    show ?thesis
    proof (cases "length ?rs < 4")
      case True
      then show ?thesis using Inr by (simp add: verify_integrity_def Let_def p decision_sound_def)
    next
      case False
      show ?thesis
      proof (cases "region_tags V hm (iv_luminance V page) ?rs nonce key ?P")
        case (Inl e)
        then show ?thesis using Inr False region_tags_error [OF Inl] by (simp add: verify_integrity_def Let_def p)
      next
        case tags: (Inr expected)
        obtain partners where partners: "partner_regions hm (length ?rs) key nonce ?P = Inr partners"
          using False by (cases "?rs = []") (auto simp: partner_regions_v1 Let_def)
        let ?reading = "sum_map (\<lambda>source. sum_map (replica_reading V ?P (iv_luminance V page) ?rs source)
            (zip partners (ip_coefficient_sets ?P))) [0..<length expected]"
        have exp: "length expected = length ?rs"
          using tags by (auto simp: region_tags_def sum_then_Inr dest: sum_map_length)
        show ?thesis
        proof (cases ?reading)
          case (Inl e)
          then have "e \<notin> set rect_errors" by (auto dest!: sum_map_error replica_reading_error)
          with Inl Inr False tags partners show ?thesis by (simp add: verify_integrity_def Let_def p)
        next
          case readings: (Inr readings)
          have "length (map2 (region_verdict ?P) expected readings) \<le> length ?rs" using exp by simp
          from decide_sound [OF this _ order_refl px, of "map snd (concat readings)"] False
          show ?thesis using Inr tags partners readings by (simp add: verify_integrity_def Let_def p)
        qed
      qed
    qed
  qed
qed

end
