(* ===== verification/IntegrityProfile.thy ===== *)
theory IntegrityProfile
  imports Integrity Schema
begin

text \<open>
  The parsing of the profile of the region authentication (\<open>_validate_profile\<close> and its helpers in
  \<open>splitbind_ref/integrity.py\<close>). A profile is a JSON value, so the checks of \<open>_normalize_profile_json\<close> hold of
  it; the digest of its canonical text, which must be the frozen one, is a parameter, \<open>None\<close> where there is no
  canonical text.
\<close>

definition profile_error :: "string \<Rightarrow> exn" where
  "profile_error what = ValueError (''integrity profile '' @ what)"

definition frozen_profile_sha256 :: string where
  "frozen_profile_sha256 = ''76917b030dfe508532dbc2603953dcba1491ef7fa5d538217bec93076014188d''"

section \<open>Values\<close>

text \<open>\<open>==\<close> of a value and a literal of the source, which holds no object: numbers and booleans compare by value.\<close>

fun json_number :: "json \<Rightarrow> rat option" where
  "json_number (JBool b) = Some (if b then 1 else 0)"
| "json_number (JInt n) = Some (of_int n)"
| "json_number (JFloat q) = Some q"
| "json_number _ = None"

fun equals_literal :: "json \<Rightarrow> json \<Rightarrow> bool" where
  "equals_literal (JStr s) w = (w = JStr s)"
| "equals_literal JNull w = (w = JNull)"
| "equals_literal (JObj _) w = False"
| "equals_literal (JList xs) w = (case w of JList ys \<Rightarrow> list_all2 equals_literal xs ys | _ \<Rightarrow> False)"
| "equals_literal v w = (json_number w = json_number v)"

definition object_field :: "string \<Rightarrow> (string \<times> json) list \<Rightarrow> exn + (string \<times> json) list" where
  "object_field k kvs = (case jget k kvs of JObj o' \<Rightarrow> Inr o' | _ \<Rightarrow> Inl (profile_error (''field '' @ k @ '' must be an object'')))"

definition exact_keys :: "(string \<times> json) list \<Rightarrow> string list \<Rightarrow> exn + unit" where
  "exact_keys kvs ks = sum_require (set (map fst kvs) = set ks) (profile_error ''has missing or unsupported nested fields'')"

definition position_pair :: "json \<Rightarrow> exn + (nat \<times> nat)" where
  "position_pair v = (case v of
     JList [JInt a, JInt b] \<Rightarrow> if 0 \<le> a \<and> a < 128 \<and> 0 \<le> b \<and> b < 128 then Inr (nat a, nat b)
       else Inl (profile_error ''coefficient positions are invalid'')
   | _ \<Rightarrow> Inl (profile_error ''coefficient positions are invalid''))"

definition parse_positions :: "json \<Rightarrow> nat \<Rightarrow> exn + (nat \<times> nat) list" where
  "parse_positions v n = (case v of
     JList xs \<Rightarrow> if length xs \<noteq> n then Inl (profile_error ''coefficient positions are invalid'')
       else sum_then (sum_map position_pair xs) (\<lambda>ps.
         sum_then (sum_require (distinct ps) (profile_error ''coefficient positions must be unique'')) (\<lambda>_. Inr ps))
   | _ \<Rightarrow> Inl (profile_error ''coefficient positions are invalid''))"

fun json_int :: "json \<Rightarrow> int option" where
  "json_int (JInt n) = Some n"
| "json_int _ = None"

definition box_members :: "string list" where
  "box_members = [''row_start'', ''column_start'', ''rows'', ''columns'']"

definition checked_box :: "int list \<Rightarrow> (nat \<times> nat) list option" where
  "checked_box numbers = (case numbers of
     [row, column, rows, columns] \<Rightarrow>
       if row < 0 \<or> column < 0 \<or> rows < 1 \<or> columns < 1 \<or> row + rows > 128 \<or> column + columns > 128 then None
       else Some (coefficient_box (nat row) (nat column) (nat rows) (nat columns))
   | _ \<Rightarrow> None)"

definition parse_box :: "json \<Rightarrow> exn + (nat \<times> nat) list" where
  "parse_box v = (let invalid = Inl (profile_error ''tag coefficient box is invalid'') in case v of
     JObj kvs \<Rightarrow>
       if set (map fst kvs) \<noteq> set box_members then invalid
       else (case those (map (\<lambda>k. json_int (jget k kvs)) box_members) of None \<Rightarrow> invalid
         | Some numbers \<Rightarrow> (case checked_box numbers of None \<Rightarrow> invalid | Some ps \<Rightarrow> Inr ps))
   | _ \<Rightarrow> invalid)"

definition replica_shift :: "json \<Rightarrow> exn + nat" where
  "replica_shift v = (case v of JInt n \<Rightarrow> if n < 1 then Inl (profile_error ''replica shifts are invalid'') else Inr (nat n)
   | _ \<Rightarrow> Inl (profile_error ''replica shifts are invalid''))"

definition parse_shifts :: "json \<Rightarrow> exn + nat list" where
  "parse_shifts v = (case v of
     JList xs \<Rightarrow> if xs = [] then Inl (profile_error ''replica shifts are invalid'')
       else sum_then (sum_map replica_shift xs) (\<lambda>ns.
         sum_then (sum_require (distinct ns) (profile_error ''replica shifts must be unique'')) (\<lambda>_. Inr ns))
   | _ \<Rightarrow> Inl (profile_error ''replica shifts are invalid''))"

text \<open>A number as a float; \<open>float\<close> of an integer may overflow.\<close>

definition finite_positive :: "json \<Rightarrow> exn + pyfloat" where
  "finite_positive v =
     (let positive = (\<lambda>f. if f_le f (Fin 0) then Inl (profile_error ''numeric value must be finite and positive'') else Inr f)
      in case v of JInt n \<Rightarrow> sum_then (f_of_int n) positive | JFloat q \<Rightarrow> positive (Fin q)
         | _ \<Rightarrow> Inl (profile_error ''numeric value must be finite and positive''))"

definition unit_float :: "json \<Rightarrow> exn + pyfloat" where
  "unit_float v = sum_then (finite_positive v) (\<lambda>f.
     if f_less (Fin 1) f then Inl (profile_error ''threshold must be in (0, 1]'') else Inr f)"

definition positive_integer :: "json \<Rightarrow> exn + nat" where
  "positive_integer v = (case v of JInt n \<Rightarrow> if n < 1 then Inl (profile_error ''integer value must be positive'') else Inr (nat n)
   | _ \<Rightarrow> Inl (profile_error ''integer value must be positive''))"

definition nonempty_ascii :: "json \<Rightarrow> exn + bytes" where
  "nonempty_ascii v = (case v of
     JStr s \<Rightarrow> if s = [] \<or> length s > 128 \<or> \<not> list_all (\<lambda>c. (of_char c :: nat) < 128) s
       then Inl (profile_error ''domain must be bounded ASCII'') else Inr (ascii s)
   | _ \<Rightarrow> Inl (profile_error ''domain must be bounded ASCII''))"

definition limitation_id :: "json \<Rightarrow> exn + string" where
  "limitation_id v = (case v of JStr s \<Rightarrow> if prefix ''integrity.'' s then Inr s
       else Inl (profile_error ''limitation identifiers are invalid'')
   | _ \<Rightarrow> Inl (profile_error ''limitation identifiers are invalid''))"

section \<open>The profile\<close>

definition profile_root_keys :: "string list" where
  "profile_root_keys = [''schema_version'', ''profile_id'', ''status'', ''region_size_px'', ''content_feature'',
     ''authentication'', ''partner_mapping'', ''embedding'', ''localization'', ''decision_policy'', ''input_bounds'']"

text \<open>The values of three sections that the first version fixes.\<close>

definition required_literals ::
  "(string \<times> json) list \<Rightarrow> (string \<times> json) list \<Rightarrow> (string \<times> json) list \<Rightarrow> (string \<times> json) list
     \<Rightarrow> (string \<times> json) list \<Rightarrow> (string \<times> json) list \<Rightarrow> (json \<times> json) list" where
  "required_literals content authentication partner_mapping embedding localization bounds =
     [(jget ''color_channel'' content, JStr ''luminance''), (jget ''transform'' content, JStr ''dct''),
      (jget ''coefficient_band'' content, JStr ''low-frequency-quantized''),
      (jget ''encoding'' content, JStr ''signed-int16-big-endian''),
      (jget ''algorithm'' authentication, JStr ''hmac-sha256''), (jget ''tag_bytes'' authentication, JInt 4),
      (jget ''binding_inputs'' authentication,
         JList [JStr ''content_feature'', JStr ''region_index_be32'', JStr ''document_nonce'']),
      (jget ''placement'' authentication, JStr ''key-derived-partner-region''),
      (jget ''derivation'' partner_mapping, JStr ''hmac-sha256-sorted-ring-v1''),
      (jget ''exclude_destination_coefficients_from_feature'' authentication, JBool True),
      (jget ''transform'' embedding, JStr ''dct''), (jget ''quantizer'' embedding, JStr ''parity-qim''),
      (jget ''coordinate_space'' localization, JStr ''normalized-xywh''),
      (jget ''score_range'' localization, JList [JFloat 0, JFloat 1]),
      (jget ''supported_dtype'' bounds, JStr ''uint8''),
      (jget ''supported_channels'' bounds, JList [JInt 1, JInt 3]),
      (jget ''partial_region_policy'' bounds, JStr ''ignore'')]"

text \<open>The identity of the profile and the sections with their exact members.\<close>

record profile_sections =
  sec_content :: "(string \<times> json) list"
  sec_authentication :: "(string \<times> json) list"
  sec_partner_mapping :: "(string \<times> json) list"
  sec_embedding :: "(string \<times> json) list"
  sec_localization :: "(string \<times> json) list"
  sec_decision_policy :: "(string \<times> json) list"
  sec_bounds :: "(string \<times> json) list"

definition profile_identity_ok :: "(string \<times> json) list \<Rightarrow> bool" where
  "profile_identity_ok kvs \<longleftrightarrow> equals_literal (jget ''schema_version'' kvs) (JInt 1)
     \<and> equals_literal (jget ''profile_id'' kvs) (JStr ''splitbind-integrity-candidate-v1'')
     \<and> equals_literal (jget ''status'' kvs) (JStr ''research-candidate'')
     \<and> equals_literal (jget ''region_size_px'' kvs) (JInt 128)"

definition open_sections :: "(string \<times> json) list \<Rightarrow> exn + profile_sections" where
  "open_sections kvs =
     sum_then (object_field ''content_feature'' kvs) (\<lambda>content.
     sum_then (object_field ''authentication'' kvs) (\<lambda>authentication.
     sum_then (object_field ''partner_mapping'' kvs) (\<lambda>partner_mapping.
     sum_then (object_field ''embedding'' kvs) (\<lambda>embedding.
     sum_then (object_field ''localization'' kvs) (\<lambda>localization.
     sum_then (object_field ''decision_policy'' kvs) (\<lambda>decision_policy.
     sum_then (object_field ''input_bounds'' kvs) (\<lambda>bounds.
     sum_then (exact_keys content [''color_channel'', ''transform'', ''coefficient_band'', ''coefficient_positions'',
        ''quantization_step'', ''encoding'']) (\<lambda>_.
     sum_then (exact_keys authentication [''algorithm'', ''tag_bytes'', ''binding_inputs'', ''placement'',
        ''exclude_destination_coefficients_from_feature'']) (\<lambda>_.
     sum_then (exact_keys partner_mapping [''derivation'', ''domain'', ''replica_ring_shifts'']) (\<lambda>_.
     sum_then (exact_keys embedding [''transform'', ''quantizer'', ''qim_delta'', ''tag_coefficient_sets'',
        ''minimum_replica_votes'', ''minimum_bit_confidence'']) (\<lambda>_.
     sum_then (exact_keys localization [''coordinate_space'', ''score_range'']) (\<lambda>_.
     sum_then (exact_keys decision_policy [''minimum_complete_regions'', ''strong_compression_mismatch_ratio'',
        ''geometry_failure_mismatch_ratio'', ''high_confidence_threshold'', ''limitation_ids'']) (\<lambda>_.
     sum_then (exact_keys bounds [''supported_dtype'', ''supported_channels'', ''max_pixels'', ''key_bytes'',
        ''nonce_bytes'', ''partial_region_policy'']) (\<lambda>_.
     Inr \<lparr>sec_content = content, sec_authentication = authentication, sec_partner_mapping = partner_mapping,
          sec_embedding = embedding, sec_localization = localization, sec_decision_policy = decision_policy,
          sec_bounds = bounds\<rparr>))))))))))))))"

text \<open>The coefficients of the replicas: 32 positions for each, apart from the feature and from one another.\<close>

definition parse_boxes :: "(nat \<times> nat) list \<Rightarrow> nat list \<Rightarrow> json \<Rightarrow> exn + (nat \<times> nat) list list" where
  "parse_boxes feature_positions shifts boxes = (case boxes of
     JList bs \<Rightarrow>
       if length bs \<noteq> length shifts then Inl (profile_error ''tag coefficient sets must match replicas'')
       else sum_then (sum_map parse_box bs) (\<lambda>sets.
         if list_ex (\<lambda>ps. length ps \<noteq> 32) sets
         then Inl (profile_error ''each tag coefficient set must contain 32 positions'')
         else if list_ex (\<lambda>p. p \<in> set (concat sets)) feature_positions
         then Inl (profile_error ''feature and destination coefficients must be disjoint'')
         else if sum_list (map (\<lambda>ps. length (remdups ps)) sets) \<noteq> length (remdups (concat sets))
         then Inl (profile_error ''destination coefficient sets must be pairwise disjoint'')
         else Inr sets)
   | _ \<Rightarrow> Inl (profile_error ''tag coefficient sets must match replicas''))"

definition limitation_keys :: "string list" where
  "limitation_keys = [''strong_compression'', ''geometry_failure'', ''insufficient_complete_regions'', ''indeterminate'']"

definition parse_limitations :: "(string \<times> json) list \<Rightarrow> exn + (string \<times> json) list" where
  "parse_limitations policy =
     sum_then (object_field ''limitation_ids'' policy) (\<lambda>ids.
     sum_then (exact_keys ids limitation_keys) (\<lambda>_.
     sum_then (sum_map (\<lambda>(_, v). limitation_id v) ids) (\<lambda>_. Inr ids)))"

definition limitation_text :: "string \<Rightarrow> (string \<times> json) list \<Rightarrow> string" where
  "limitation_text k ids = (case jget k ids of JStr s \<Rightarrow> s | _ \<Rightarrow> [])"

text \<open>The bounds that the parsed values must keep.\<close>

definition check_profile :: "integrity_profile \<Rightarrow> exn + integrity_profile" where
  "check_profile p =
     (let effective = map (\<lambda>shift. shift mod ip_minimum_regions p) (ip_replica_shifts p)
      in if ip_max_pixels p \<noteq> 40000000 \<or> ip_minimum_regions p \<le> length (ip_replica_shifts p)
         then Inl (profile_error ''safety bounds are invalid'')
         else if ip_minimum_replica_votes p > length (ip_replica_shifts p)
         then Inl (profile_error ''vote threshold exceeds replicas'')
         else if 0 \<in> set effective \<or> \<not> distinct effective
         then Inl (profile_error ''partner mappings must be independent'')
         else if ip_key_min p > ip_key_max p \<or> ip_nonce_min p > ip_nonce_max p
         then Inl (profile_error ''secret bounds are invalid'')
         else Inr p)"

definition parse_sections :: "profile_sections \<Rightarrow> exn + integrity_profile" where
  "parse_sections s =
     sum_then (parse_positions (jget ''coefficient_positions'' (sec_content s)) 16) (\<lambda>feature_positions.
     sum_then (finite_positive (jget ''quantization_step'' (sec_content s))) (\<lambda>feature_step.
     sum_then (parse_shifts (jget ''replica_ring_shifts'' (sec_partner_mapping s))) (\<lambda>shifts.
     sum_then (parse_boxes feature_positions shifts (jget ''tag_coefficient_sets'' (sec_embedding s))) (\<lambda>coefficient_sets.
     sum_then (parse_limitations (sec_decision_policy s)) (\<lambda>ids.
     sum_then (object_field ''key_bytes'' (sec_bounds s)) (\<lambda>key_bounds.
     sum_then (object_field ''nonce_bytes'' (sec_bounds s)) (\<lambda>nonce_bounds.
     sum_then (exact_keys key_bounds [''minimum'', ''maximum'']) (\<lambda>_.
     sum_then (exact_keys nonce_bounds [''minimum'', ''maximum'']) (\<lambda>_.
     sum_then (nonempty_ascii (jget ''domain'' (sec_partner_mapping s))) (\<lambda>domain.
     sum_then (finite_positive (jget ''qim_delta'' (sec_embedding s))) (\<lambda>qim_delta.
     sum_then (positive_integer (jget ''minimum_replica_votes'' (sec_embedding s))) (\<lambda>votes.
     sum_then (unit_float (jget ''minimum_bit_confidence'' (sec_embedding s))) (\<lambda>bit_confidence.
     sum_then (positive_integer (jget ''minimum_complete_regions'' (sec_decision_policy s))) (\<lambda>minimum_regions.
     sum_then (unit_float (jget ''strong_compression_mismatch_ratio'' (sec_decision_policy s))) (\<lambda>compression.
     sum_then (unit_float (jget ''geometry_failure_mismatch_ratio'' (sec_decision_policy s))) (\<lambda>geometry.
     sum_then (unit_float (jget ''high_confidence_threshold'' (sec_decision_policy s))) (\<lambda>high_confidence.
     sum_then (positive_integer (jget ''max_pixels'' (sec_bounds s))) (\<lambda>max_pixels.
     sum_then (positive_integer (jget ''minimum'' key_bounds)) (\<lambda>key_min.
     sum_then (positive_integer (jget ''maximum'' key_bounds)) (\<lambda>key_max.
     sum_then (positive_integer (jget ''minimum'' nonce_bounds)) (\<lambda>nonce_min.
     sum_then (positive_integer (jget ''maximum'' nonce_bounds)) (\<lambda>nonce_max.
     check_profile \<lparr>ip_region_size = 128, ip_feature_positions = feature_positions, ip_feature_step = feature_step,
       ip_partner_domain = domain, ip_replica_shifts = shifts, ip_qim_delta = qim_delta,
       ip_coefficient_sets = coefficient_sets, ip_minimum_replica_votes = votes,
       ip_minimum_bit_confidence = bit_confidence, ip_minimum_regions = minimum_regions,
       ip_compression_ratio = compression, ip_geometry_ratio = geometry, ip_high_confidence = high_confidence,
       ip_strong_compression = limitation_text ''strong_compression'' ids,
       ip_geometry_failure = limitation_text ''geometry_failure'' ids,
       ip_insufficient_regions = limitation_text ''insufficient_complete_regions'' ids,
       ip_indeterminate = limitation_text ''indeterminate'' ids,
       ip_max_pixels = max_pixels, ip_key_min = key_min, ip_key_max = key_max,
       ip_nonce_min = nonce_min, ip_nonce_max = nonce_max\<rparr>))))))))))))))))))))))"

definition validate_integrity_profile :: "(json \<Rightarrow> string option) \<Rightarrow> json \<Rightarrow> exn + integrity_profile" where
  "validate_integrity_profile canonical_sha256 profile = (case profile of
     JObj kvs \<Rightarrow> (case canonical_sha256 profile of
         None \<Rightarrow> Inl (profile_error ''is not canonical JSON'')
       | Some digest \<Rightarrow>
           if digest \<noteq> frozen_profile_sha256 then Inl (profile_error ''material choices do not match frozen v1'')
           else if set (map fst kvs) \<noteq> set profile_root_keys
           then Inl (profile_error ''has missing or unsupported fields'')
           else if \<not> profile_identity_ok kvs
           then Inl (profile_error ''identity, status, and region size must match v1'')
           else sum_then (open_sections kvs) (\<lambda>s.
             if list_ex (\<lambda>(v, wanted). \<not> equals_literal v wanted)
                  (required_literals (sec_content s) (sec_authentication s) (sec_partner_mapping s) (sec_embedding s)
                     (sec_localization s) (sec_bounds s))
             then Inl (profile_error ''contains unsupported algorithm choices'')
             else parse_sections s))
   | _ \<Rightarrow> Inl (TypeError ''integrity profile must be a JSON object''))"

section \<open>The contract\<close>

text \<open>\<open>contracts/algorithm/integrity-profile.v1.json\<close>; a decimal fraction is the double next to it.\<close>

definition box_json :: "int \<Rightarrow> json" where
  "box_json row = JObj [(''row_start'', JInt row), (''column_start'', JInt 8), (''rows'', JInt 4), (''columns'', JInt 8)]"

definition contract_sections :: profile_sections where
  "contract_sections = \<lparr>sec_content =
       [(''color_channel'', JStr ''luminance''), (''transform'', JStr ''dct''),
        (''coefficient_band'', JStr ''low-frequency-quantized''),
        (''coefficient_positions'', JList (map (\<lambda>(a, b). JList [JInt a, JInt b])
           [(0, 0), (0, 1), (1, 0), (1, 1), (0, 2), (2, 0), (1, 2), (2, 1),
            (0, 3), (3, 0), (1, 3), (3, 1), (2, 2), (2, 3), (3, 2), (3, 3)])),
        (''quantization_step'', JFloat 512), (''encoding'', JStr ''signed-int16-big-endian'')],
     sec_authentication =
       [(''algorithm'', JStr ''hmac-sha256''), (''tag_bytes'', JInt 4),
        (''binding_inputs'', JList [JStr ''content_feature'', JStr ''region_index_be32'', JStr ''document_nonce'']),
        (''placement'', JStr ''key-derived-partner-region''),
        (''exclude_destination_coefficients_from_feature'', JBool True)],
     sec_partner_mapping =
       [(''derivation'', JStr ''hmac-sha256-sorted-ring-v1''),
        (''domain'', JStr ''splitbind-integrity-partners-v1''),
        (''replica_ring_shifts'', JList [JInt 1, JInt 2, JInt 3])],
     sec_embedding =
       [(''transform'', JStr ''dct''), (''quantizer'', JStr ''parity-qim''), (''qim_delta'', JFloat 48),
        (''tag_coefficient_sets'', JList [box_json 8, box_json 12, box_json 16]),
        (''minimum_replica_votes'', JInt 2), (''minimum_bit_confidence'', JFloat (3602879701896397 / 18014398509481984))],
     sec_localization =
       [(''coordinate_space'', JStr ''normalized-xywh''),
        (''score_range'', JList [JFloat 0, JFloat 1])],
     sec_decision_policy =
       [(''minimum_complete_regions'', JInt 4),
        (''strong_compression_mismatch_ratio'', JFloat (3602879701896397 / 36028797018963968)),
        (''geometry_failure_mismatch_ratio'', JFloat (1 / 4)),
        (''high_confidence_threshold'', JFloat (7656119366529843 / 9007199254740992)),
        (''limitation_ids'', JObj [(''strong_compression'', JStr ''integrity.strong_compression''),
           (''geometry_failure'', JStr ''integrity.geometry_failure''),
           (''insufficient_complete_regions'', JStr ''integrity.insufficient_complete_regions''),
           (''indeterminate'', JStr ''integrity.indeterminate'')])],
     sec_bounds =
       [(''supported_dtype'', JStr ''uint8''), (''supported_channels'', JList [JInt 1, JInt 3]),
        (''max_pixels'', JInt 40000000),
        (''key_bytes'', JObj [(''minimum'', JInt 16), (''maximum'', JInt 64)]),
        (''nonce_bytes'', JObj [(''minimum'', JInt 8), (''maximum'', JInt 64)]),
        (''partial_region_policy'', JStr ''ignore'')]\<rparr>"

definition integrity_contract :: json where
  "integrity_contract = JObj
    [(''schema_version'', JInt 1), (''profile_id'', JStr ''splitbind-integrity-candidate-v1''),
     (''status'', JStr ''research-candidate''), (''region_size_px'', JInt 128),
     (''content_feature'', JObj (sec_content contract_sections)),
     (''authentication'', JObj (sec_authentication contract_sections)),
     (''partner_mapping'', JObj (sec_partner_mapping contract_sections)),
     (''embedding'', JObj (sec_embedding contract_sections)),
     (''localization'', JObj (sec_localization contract_sections)),
     (''decision_policy'', JObj (sec_decision_policy contract_sections)),
     (''input_bounds'', JObj (sec_bounds contract_sections))]"

section \<open>What a profile must be\<close>

definition profile_sound :: "integrity_profile \<Rightarrow> bool" where
  "profile_sound p \<longleftrightarrow>
     length (ip_feature_positions p) = 16 \<and> distinct (ip_feature_positions p)
     \<and> list_all (\<lambda>(a, b). a < 128 \<and> b < 128) (ip_feature_positions p @ concat (ip_coefficient_sets p))
     \<and> length (ip_coefficient_sets p) = length (ip_replica_shifts p)
     \<and> list_all (\<lambda>ps. length ps = 32) (ip_coefficient_sets p)
     \<and> distinct (ip_feature_positions p @ concat (ip_coefficient_sets p))
     \<and> ip_minimum_replica_votes p \<le> length (ip_replica_shifts p) \<and> length (ip_replica_shifts p) < ip_minimum_regions p
     \<and> distinct (0 # map (\<lambda>shift. shift mod ip_minimum_regions p) (ip_replica_shifts p))
     \<and> ip_max_pixels p = 40000000 \<and> ip_key_min p \<le> ip_key_max p \<and> ip_nonce_min p \<le> ip_nonce_max p"

lemma distinct_coefficient_box: "distinct (coefficient_box a b c d)"
  by (simp add: coefficient_box_def distinct_product)

lemma checked_box_Some:
  assumes "checked_box ns = Some ps"
  shows "distinct ps \<and> list_all (\<lambda>(a, b). a < 128 \<and> b < 128) ps"
proof -
  from assms obtain r c m n where p: "ps = coefficient_box (nat r) (nat c) (nat m) (nat n)"
    and le: "0 \<le> r" "0 \<le> c" "1 \<le> m" "1 \<le> n" "r + m \<le> 128" "c + n \<le> 128"
    by (auto simp: checked_box_def not_less split: list.splits if_splits)
  then have "nat r + nat m \<le> 128" "nat c + nat n \<le> 128" by linarith+
  then show ?thesis unfolding p by (auto simp: coefficient_box_def list_all_iff distinct_product)
qed

lemma parse_box_Inr:
  "parse_box v = Inr ps \<Longrightarrow> distinct ps \<and> list_all (\<lambda>(a, b). a < 128 \<and> b < 128) ps"
  by (auto simp: parse_box_def Let_def split: json.splits if_splits option.splits dest: checked_box_Some)

lemma parse_positions_Inr:
  assumes "parse_positions v n = Inr ps"
  shows "length ps = n \<and> distinct ps \<and> list_all (\<lambda>(a, b). a < 128 \<and> b < 128) ps"
proof -
  from assms obtain xs where x: "length xs = n" "sum_map position_pair xs = Inr ps" "distinct ps"
    by (auto simp: parse_positions_def sum_then_Inr sum_require_def split: json.splits if_splits)
  have one: "position_pair j = Inr q \<Longrightarrow> fst q < 128 \<and> snd q < 128" for j q
    by (auto simp: position_pair_def split: json.splits list.splits if_splits)
  have "list_all (\<lambda>(a, b). a < 128 \<and> b < 128) ps"
    using sum_map_Inr [OF x(2)] by (induction rule: list_all2_induct) (auto dest: one)
  with x sum_map_length [OF x(2)] show ?thesis by simp
qed

text \<open>Sets whose sizes add up to the size of their union are disjoint.\<close>

lemma sizes_add_up:
  "list_all distinct xss \<Longrightarrow> sum_list (map (\<lambda>xs. length (remdups xs)) xss) = length (remdups (concat xss)) \<Longrightarrow> distinct (concat xss)"
proof -
  assume d: "list_all distinct xss" and eq: "sum_list (map (\<lambda>xs. length (remdups xs)) xss) = length (remdups (concat xss))"
  have "sum_list (map (\<lambda>xs. length (remdups xs)) xss) = length (concat xss)"
    using d by (induction xss) (simp_all add: distinct_remdups_id)
  with eq have "length (remdups (concat xss)) = length (concat xss)" by simp
  then show "distinct (concat xss)" by (metis card_distinct length_remdups_card_conv)
qed

lemma parse_boxes_Inr:
  assumes "parse_boxes fs shifts v = Inr sets" "distinct fs"
  shows "length sets = length shifts \<and> list_all (\<lambda>ps. length ps = 32) sets
    \<and> distinct (fs @ concat sets) \<and> list_all (\<lambda>(a, b). a < 128 \<and> b < 128) (concat sets)"
proof -
  from assms obtain bs where b: "length bs = length shifts" "sum_map parse_box bs = Inr sets"
    and c: "\<not> list_ex (\<lambda>ps. length ps \<noteq> 32) sets" "\<not> list_ex (\<lambda>p. p \<in> set (concat sets)) fs"
      "sum_list (map (\<lambda>ps. length (remdups ps)) sets) = length (remdups (concat sets))"
    by (auto simp: parse_boxes_def sum_then_Inr split: json.splits if_splits)
  have each: "list_all (\<lambda>ps. distinct ps \<and> list_all (\<lambda>(a, b). a < 128 \<and> b < 128) ps) sets"
    using sum_map_Inr [OF b(2)] by (induction rule: list_all2_induct) (auto dest: parse_box_Inr)
  then have "distinct (concat sets)" using sizes_add_up [OF _ c(3)] by (simp add: list_all_iff)
  with c(1,2) b(1) assms(2) each sum_map_length [OF b(2)] show ?thesis
    by (auto simp: list_all_iff list_ex_iff)
qed

lemma parse_sections_sound:
  assumes "parse_sections s = Inr p"
  shows "profile_sound p"
proof -
  from assms obtain fs shifts sets q where f: "parse_positions (jget ''coefficient_positions'' (sec_content s)) 16 = Inr fs"
    and b: "parse_boxes fs shifts (jget ''tag_coefficient_sets'' (sec_embedding s)) = Inr sets"
    and q: "check_profile q = Inr p" "ip_feature_positions q = fs" "ip_replica_shifts q = shifts" "ip_coefficient_sets q = sets"
    unfolding parse_sections_def sum_then_Inr by (elim exE conjE) (rule that; (assumption | simp))
  from q(1) have p: "p = q" and c: "ip_max_pixels q = 40000000" "length shifts < ip_minimum_regions q"
    "ip_minimum_replica_votes q \<le> length shifts" "distinct (0 # map (\<lambda>shift. shift mod ip_minimum_regions q) shifts)"
    "ip_key_min q \<le> ip_key_max q" "ip_nonce_min q \<le> ip_nonce_max q"
    unfolding q(3) [symmetric] by (auto simp: check_profile_def Let_def split: if_splits)
  from parse_positions_Inr [OF f] have fs: "length fs = 16" "distinct fs" "list_all (\<lambda>(a, b). a < 128 \<and> b < 128) fs" by simp_all
  from parse_boxes_Inr [OF b fs(2)] fs c show ?thesis
    unfolding p profile_sound_def q(2,3,4) by simp
qed

lemma contract_doubles:
  "double_value 0x3FC999999999999A = Some (3602879701896397 / 18014398509481984)"
  "double_value 0x3FB999999999999A = Some (3602879701896397 / 36028797018963968)"
  "double_value 0x3FEB333333333333 = Some (7656119366529843 / 9007199254740992)"
  by (simp_all add: double_value_def Let_def)

lemma contract_json_numbers:
  "f_le (Fin q) (Fin 0) \<longleftrightarrow> q \<le> 0" "f_less (Fin 1) (Fin q) \<longleftrightarrow> 1 < q"
  by (auto simp: f_le_def)

lemma contract_boxes:
  "parse_box (box_json 8) = Inr (coefficient_box 8 8 4 8)" "parse_box (box_json 12) = Inr (coefficient_box 12 8 4 8)"
  "parse_box (box_json 16) = Inr (coefficient_box 16 8 4 8)"
  by (simp_all add: parse_box_def box_json_def box_members_def checked_box_def jget_def Let_def)

lemma contract_opens:
  "open_sections [(''schema_version'', JInt 1), (''profile_id'', JStr ''splitbind-integrity-candidate-v1''),
     (''status'', JStr ''research-candidate''), (''region_size_px'', JInt 128),
     (''content_feature'', JObj (sec_content contract_sections)),
     (''authentication'', JObj (sec_authentication contract_sections)),
     (''partner_mapping'', JObj (sec_partner_mapping contract_sections)),
     (''embedding'', JObj (sec_embedding contract_sections)),
     (''localization'', JObj (sec_localization contract_sections)),
     (''decision_policy'', JObj (sec_decision_policy contract_sections)),
     (''input_bounds'', JObj (sec_bounds contract_sections))]
   = Inr contract_sections"
proof -
  have keys: "exact_keys (sec_content contract_sections) [''color_channel'', ''transform'', ''coefficient_band'', ''coefficient_positions'',
        ''quantization_step'', ''encoding''] = Inr ()"
    "exact_keys (sec_authentication contract_sections) [''algorithm'', ''tag_bytes'', ''binding_inputs'', ''placement'',
        ''exclude_destination_coefficients_from_feature''] = Inr ()"
    "exact_keys (sec_partner_mapping contract_sections) [''derivation'', ''domain'', ''replica_ring_shifts''] = Inr ()"
    "exact_keys (sec_embedding contract_sections) [''transform'', ''quantizer'', ''qim_delta'', ''tag_coefficient_sets'',
        ''minimum_replica_votes'', ''minimum_bit_confidence''] = Inr ()"
    "exact_keys (sec_localization contract_sections) [''coordinate_space'', ''score_range''] = Inr ()"
    "exact_keys (sec_decision_policy contract_sections) [''minimum_complete_regions'', ''strong_compression_mismatch_ratio'',
        ''geometry_failure_mismatch_ratio'', ''high_confidence_threshold'', ''limitation_ids''] = Inr ()"
    "exact_keys (sec_bounds contract_sections) [''supported_dtype'', ''supported_channels'', ''max_pixels'', ''key_bytes'',
        ''nonce_bytes'', ''partial_region_policy''] = Inr ()"
    by (simp_all add: exact_keys_def contract_sections_def sum_require_def insert_commute)
  show ?thesis by (simp add: open_sections_def object_field_def jget_def sum_then_def keys)
qed

lemma contract_literals:
  "\<not> list_ex (\<lambda>(v, wanted). \<not> equals_literal v wanted)
     (required_literals (sec_content contract_sections) (sec_authentication contract_sections)
        (sec_partner_mapping contract_sections) (sec_embedding contract_sections) (sec_localization contract_sections)
        (sec_bounds contract_sections))"
  by (simp add: required_literals_def contract_sections_def jget_def)

lemma contract_positions:
  "parse_positions (jget ''coefficient_positions'' (sec_content contract_sections)) 16
   = Inr (ip_feature_positions integrity_profile_v1)"
  by (simp add: contract_sections_def jget_def parse_positions_def position_pair_def integrity_profile_v1_def sum_then_def sum_require_def)

lemma contract_sets:
  "parse_boxes (ip_feature_positions integrity_profile_v1) [1, 2, 3] (jget ''tag_coefficient_sets'' (sec_embedding contract_sections))
   = Inr (ip_coefficient_sets integrity_profile_v1)"
  by (simp add: contract_sections_def jget_def parse_boxes_def contract_boxes sum_then_def integrity_profile_v1_def
      coefficient_box_def upt_rec)

lemma contract_limitations:
  "parse_limitations (sec_decision_policy contract_sections) =
     Inr (case jget ''limitation_ids'' (sec_decision_policy contract_sections) of JObj ids \<Rightarrow> ids | _ \<Rightarrow> [])"
  by (simp add: contract_sections_def parse_limitations_def object_field_def jget_def exact_keys_def limitation_keys_def
      limitation_id_def sum_then_def sum_require_def insert_commute)

lemma contract_scalars:
  "parse_shifts (jget ''replica_ring_shifts'' (sec_partner_mapping contract_sections)) = Inr [1, 2, 3]"
  "nonempty_ascii (jget ''domain'' (sec_partner_mapping contract_sections)) = Inr (ip_partner_domain integrity_profile_v1)"
  "finite_positive (jget ''quantization_step'' (sec_content contract_sections)) = Inr (Fin 512)"
  "finite_positive (jget ''qim_delta'' (sec_embedding contract_sections)) = Inr (Fin 48)"
  "positive_integer (jget ''minimum_replica_votes'' (sec_embedding contract_sections)) = Inr 2"
  "unit_float (jget ''minimum_bit_confidence'' (sec_embedding contract_sections)) = Inr (py_float 0x3FC999999999999A)"
  "positive_integer (jget ''minimum_complete_regions'' (sec_decision_policy contract_sections)) = Inr 4"
  "unit_float (jget ''strong_compression_mismatch_ratio'' (sec_decision_policy contract_sections)) = Inr (py_float 0x3FB999999999999A)"
  "unit_float (jget ''geometry_failure_mismatch_ratio'' (sec_decision_policy contract_sections)) = Inr (Fin (1 / 4))"
  "unit_float (jget ''high_confidence_threshold'' (sec_decision_policy contract_sections)) = Inr (py_float 0x3FEB333333333333)"
  "positive_integer (jget ''max_pixels'' (sec_bounds contract_sections)) = Inr 40000000"
  by (simp_all add: contract_sections_def jget_def parse_shifts_def replica_shift_def nonempty_ascii_def finite_positive_def
      unit_float_def positive_integer_def sum_then_def sum_require_def contract_json_numbers py_float_def contract_doubles
      integrity_profile_v1_def)

lemma contract_secret_bounds:
  "object_field ''key_bytes'' (sec_bounds contract_sections) = Inr [(''minimum'', JInt 16), (''maximum'', JInt 64)]"
  "object_field ''nonce_bytes'' (sec_bounds contract_sections) = Inr [(''minimum'', JInt 8), (''maximum'', JInt 64)]"
  by (simp_all add: contract_sections_def object_field_def jget_def)

lemma contract_texts:
  defines "ids \<equiv> (case jget ''limitation_ids'' (sec_decision_policy contract_sections) of JObj ids \<Rightarrow> ids | _ \<Rightarrow> [])"
  shows "limitation_text ''strong_compression'' ids = ''integrity.strong_compression''"
    "limitation_text ''geometry_failure'' ids = ''integrity.geometry_failure''"
    "limitation_text ''insufficient_complete_regions'' ids = ''integrity.insufficient_complete_regions''"
    "limitation_text ''indeterminate'' ids = ''integrity.indeterminate''"
  by (simp_all add: ids_def contract_sections_def jget_def limitation_text_def)

lemma contract_values: "parse_sections contract_sections = Inr integrity_profile_v1"
  unfolding parse_sections_def contract_positions contract_limitations contract_scalars contract_secret_bounds sum_then_def sum.case
    contract_sets contract_texts
  by (simp add: exact_keys_def sum_require_def jget_def positive_integer_def check_profile_def integrity_profile_v1_def insert_commute)

section \<open>Properties\<close>

text \<open>
  C17. The profile of the contract is accepted, given that its digest is the frozen one, and gives the values that the region
  authentication is modelled with. Whatever profile is accepted, with whatever digests, it has 16 feature positions
  and 32 positions for each replica, all of them different and inside the region, one set for each shift, at
  most as many votes as replicas and fewer replicas than regions, shifts that send a region neither to itself nor
  twice to the same place, the fixed pixel limit and consistent bounds for the secrets.
\<close>

theorem integrity_profile_accepted:
  "validate_integrity_profile (\<lambda>_. Some frozen_profile_sha256) integrity_contract = Inr integrity_profile_v1
   \<and> (case validate_integrity_profile canonical_sha256 profile of Inl _ \<Rightarrow> True | Inr p \<Rightarrow> profile_sound p)"
proof
  show "case validate_integrity_profile canonical_sha256 profile of Inl _ \<Rightarrow> True | Inr p \<Rightarrow> profile_sound p"
    by (auto simp: validate_integrity_profile_def sum_then_Inr dest: parse_sections_sound split: sum.splits json.splits option.splits if_splits)
  show "validate_integrity_profile (\<lambda>_. Some frozen_profile_sha256) integrity_contract = Inr integrity_profile_v1"
    using contract_literals unfolding validate_integrity_profile_def integrity_contract_def
    by (simp add: profile_root_keys_def profile_identity_ok_def jget_def contract_opens contract_values sum_then_def
        insert_commute)
qed

end
