(* ===== verification/Samples.thy ===== *)
theory Samples
  imports System RefManifest Geometry IntegrityProfile
begin

text \<open>
  A concrete state of the program, on which the properties with hypotheses are applied: one
  organization with an issuer, a verifier and a recipient, a finalized upload whose object is in
  the in-memory store, and the libraries replaced by constant functions.
\<close>

definition sample_sha :: string where
  "sample_sha = replicate 64 (CHR ''a'')"

definition sample_org :: uuid where "sample_org = 1"

definition sample_issuer :: user where
  "sample_issuer = \<lparr>usr_id = 2, usr_organization_id = sample_org, usr_role = Issuer\<rparr>"

definition sample_verifier :: user where
  "sample_verifier = \<lparr>usr_id = 3, usr_organization_id = sample_org, usr_role = Verifier\<rparr>"

definition sample_recipient :: recipient where
  "sample_recipient = \<lparr>rcp_id = 4, rcp_organization_id = sample_org, rcp_external_reference = ''r-1'',
     rcp_display_name = ''Reader''\<rparr>"

definition sample_upload :: "uuid \<Rightarrow> upload_purpose \<Rightarrow> upload_request" where
  "sample_upload k purpose = \<lparr>upl_id = k, upl_organization_id = sample_org, upl_requested_by_id = (case purpose of PurposeIssuance \<Rightarrow> 2 | PurposeVerification \<Rightarrow> 3),
     upl_purpose = purpose,
     upl_object_key = orphan_upload_key (purpose_value purpose @ ''_input'') sample_org k,
     upl_source_filename = ''a.pdf'', upl_source_content_type = ''application/pdf'',
     upl_expected_sha256 = Some sample_sha, upl_size_bytes = Some 4, upl_expires_at = 900000000,
     upl_finalized_at = Some 5, upl_orphan_deleted_at = None, upl_promotion_target_key = None,
     upl_promotion_status = PromotionNone, upl_promotion_status_changed_at = 1,
     upl_safe_error_code = None, upl_promotion_target_deleted_at = None,
     upl_promotion_target_reconciled_at = None, upl_created_at = 1\<rparr>"

text \<open>An upload whose promotion failed and whose target was deleted at \<open>t\<close>.\<close>

definition sample_fenced :: "uuid \<Rightarrow> time \<Rightarrow> upload_request" where
  "sample_fenced k t = (sample_upload k PurposeIssuance)
     \<lparr>upl_promotion_status := PromotionFailed,
      upl_promotion_target_key := Some (promoted_key_text \<lparr>pg_kind = ''issuance'',
         pg_organization = uuid_str sample_org, pg_upload = uuid_str k\<rparr>),
      upl_promotion_target_deleted_at := Some t\<rparr>"

definition sample_schedule :: cleanup_schedule where
  "sample_schedule = \<lparr>sch_id = 1, sch_next_lane = LaneOrdinary, sch_cursor_at = Some 7,
     sch_cursor_id = Some 21, sch_claim_upload_id = None, sch_claim_token = None,
     sch_claim_expires_at = None, sch_has_run = True\<rparr>"

definition sample_db :: db where
  "sample_db = \<lparr>
     db_organizations = [\<lparr>org_id = sample_org, org_name = ''Org'', org_slug = ''org''\<rparr>],
     db_users = [sample_issuer, sample_verifier], db_recipients = [sample_recipient],
     db_signing_keys = [],
     db_uploads = [sample_upload 20 PurposeIssuance, sample_fenced 21 7, sample_fenced 22 6,
       sample_fenced 23 8, sample_upload 24 PurposeVerification],
     db_schedule = [sample_schedule], db_documents = [], db_issuances = [], db_manifests = [],
     db_verifications = [], db_jobs = [], db_receipts = [], db_outbox = [], db_audit = [],
     db_issuance_results = [], db_verification_results = []\<rparr>"

definition sample_object :: "uuid \<Rightarrow> string \<Rightarrow> object_metadata" where
  "sample_object k kind = \<lparr>om_key = orphan_upload_key kind sample_org k, om_size_bytes = 4,
     om_content_type = Some ''application/pdf'', om_client_sha256_metadata = Some sample_sha\<rparr>"

definition sample_store :: fake_storage where
  "sample_store = empty_fake_storage\<lparr>fs_objects :=
     [om_key (sample_object 20 ''issuance_input'') \<mapsto> sample_object 20 ''issuance_input'',
      om_key (sample_object 24 ''verification_input'') \<mapsto> sample_object 24 ''verification_input''],
     fs_object_bytes :=
     [om_key (sample_object 20 ''issuance_input'') \<mapsto> [37, 80, 68, 70],
      om_key (sample_object 24 ''verification_input'') \<mapsto> [37, 80, 68, 70]]\<rparr>"

definition sample_limits :: limits where
  "sample_limits = \<lparr>lim_max_pdf_bytes = 100000000, lim_max_pdf_pages = 50,
     lim_max_image_pixels = 40000000, lim_max_document_raster_pixels = 140000000,
     lim_job_timeout_seconds = 600, lim_worker_concurrency = 1,
     lim_reconciliation_lease_seconds = 600\<rparr>"

definition sample_world :: "fake_storage world" where
  "sample_world = \<lparr>w_db = sample_db, w_store = sample_store, w_clock = (\<lambda>n. 100 + int n), w_tick = 0,
     w_uuids = (\<lambda>n. 1000 + of_nat n), w_uuid_tick = 0, w_limits = sample_limits,
     w_locked = (\<lambda>_. False)\<rparr>"

definition sample_text_libs :: text_libs where
  "sample_text_libs = \<lparr>tl_netloc_ok = (\<lambda>_. True), tl_float_text = (\<lambda>_. ''0.0'')\<rparr>"

definition sample_libs :: libs where
  "sample_libs = \<lparr>lb_text = sample_text_libs, lb_job_schema = (\<lambda>_. True),
     lb_uuid5_url = (\<lambda>s. of_nat (length s)), lb_load_pem = (\<lambda>_. None)\<rparr>"

definition sample_ops :: "fake_storage storage_ops" where
  "sample_ops = fake_ops (\<lambda>_. sample_sha) 100000000"

lemmas sample_defs = sample_db_def sample_world_def sample_store_def sample_object_def sample_limits_def
  sample_schedule_def sample_fenced_def sample_upload_def sample_issuer_def sample_verifier_def
  sample_recipient_def sample_libs_def sample_text_libs_def sample_ops_def

text \<open>The store of the samples keeps both contracts of an object storage.\<close>

lemma sample_storage: "object_storage sample_ops fs_objects fs_object_bytes"
  unfolding sample_ops_def by (rule fake.object_storage_axioms)

lemma sample_verified_storage:
  "verified_object_storage sample_ops fs_objects fs_object_bytes (\<lambda>_. sample_sha)"
  unfolding sample_ops_def by (rule fake_verified.verified_object_storage_axioms)

section \<open>Witnesses\<close>


definition sample_candidate :: candidate where
  "sample_candidate = \<lparr>cd_category = OrphanUpload, cd_pk = 20, cd_expected_state = None\<rparr>"


theorem create_issuance_atomic_witness:
  "wp (create_issuance sample_libs sample_ops sample_issuer 4 20 77)
     (\<lambda>(x, j) w'. workflow_complete fs_objects fs_object_bytes (issuance_made sample_issuer sample_recipient) sample_issuer
        KindIssuance 20 77 sample_world x j w')
     (\<lambda>_ w'. \<exists>r. all_or_nothing fs_objects fs_object_bytes (issuance_made sample_issuer r) sample_issuer
        KindIssuance 20 77 sample_world w') sample_world"
proof -
  have r: "lookup_by rcp_id 4 (db_recipients (w_db sample_world)) = Some sample_recipient"
    by (simp add: sample_world_def sample_db_def sample_recipient_def lookup_by_def)
  show ?thesis
    by (rule wp_mono [OF create_issuance_atomic [OF sample_storage]]) (auto simp: r)
qed

theorem create_verification_atomic_witness:
  "wp (create_verification sample_libs sample_ops sample_verifier 24 78)
     (\<lambda>(x, j) w'. workflow_complete fs_objects fs_object_bytes (verification_made sample_verifier) sample_verifier
        KindVerification 24 78 sample_world x j w')
     (\<lambda>_ w'. all_or_nothing fs_objects fs_object_bytes (verification_made sample_verifier) sample_verifier
        KindVerification 24 78 sample_world w') sample_world"
  by (rule create_verification_atomic [OF sample_storage])

text \<open>A registered key, and libraries under which a manifest has one of two canonical texts.\<close>

definition sample_key :: signing_key where
  "sample_key = \<lparr>key_pk = 30, key_organization_id = sample_org, key_id = ''key-0001'',
     key_algorithm = ''Ed25519'', key_public_key = ''pem'', key_status = KeyActive, key_valid_from = 0,
     key_valid_until = None, key_revoked_at = None, key_metadata = JObj [], key_created_at = 0\<rparr>"

definition sample_internal :: "(string \<times> json) list" where
  "sample_internal = internal_manifest 1 2 3 0 sample_sha sample_sha (key_id sample_key) integrity_retention_policy_id"

definition sample_public :: "(string \<times> json) list" where
  "sample_public = map (\<lambda>k. (k, jget k sample_internal)) public_members"

definition sample_manifest_libs :: manifest_libs where
  "sample_manifest_libs = \<lparr>
     ml_load_pem = (\<lambda>s. Some \<lparr>pk_is_ed25519 = True, pk_canonical = s, pk_raw = []\<rparr>),
     ml_json_loads = (\<lambda>t. Some (JObj (if t = ''i'' then sample_internal else sample_public))),
     ml_canonical = (\<lambda>v. case v of JObj kvs \<Rightarrow>
         Some (ascii (if ''recipient_id'' \<in> set (map fst kvs) then ''i'' else ''p'')) | _ \<Rightarrow> None),
     ml_schema = (\<lambda>_ _. True), ml_verify = (\<lambda>_ signature _. Some (signature = replicate 64 0)),
     ml_sign = (\<lambda>_ _. replicate 64 0), ml_public_pem = (\<lambda>_. ''pem''), ml_load_private = (\<lambda>_ b. Some (True, b))\<rparr>"

lemma sample_texts: "utf8_decode (ascii ''i'') = Some ''i''" "utf8_decode (ascii ''p'') = Some ''p''"
  "Suc 0 \<le> max_manifest_bytes"
  by (code_simp, code_simp, simp add: max_manifest_bytes_def)

theorem signed_manifests_verify_witness:
  "\<exists>m. build_signed_issuance_manifest sample_manifest_libs 1 2 3 0 sample_sha sample_sha (key_id sample_key) []
       integrity_retention_policy_id = Inr m
     \<and> verify_stored_manifest sample_manifest_libs (sm_internal_payload m) (sm_internal_signature_envelope m)
         sample_key (Aware 5 0) (Some ''internal'') = valid_signature_result sample_key (Aware 5 0)
     \<and> verify_stored_manifest sample_manifest_libs (sm_public_payload m) (sm_public_signature_envelope m)
         sample_key (Aware 5 0) (Some ''public'') = valid_signature_result sample_key (Aware 5 0)"
proof (rule signed_manifests_verify)
  show "signing_pair sample_manifest_libs [] sample_key"
    unfolding signing_pair_def
    by (rule exI [of _ "\<lparr>pk_is_ed25519 = True, pk_canonical = ''pem'', pk_raw = []\<rparr>"])
       (simp add: sample_manifest_libs_def sample_key_def validate_ed25519_public_pem_def)
  show "signing_key_check (ml_load_pem sample_manifest_libs) sample_key = Inr ()"
    by code_simp
  show "canonical_text sample_manifest_libs ''internal''
      (internal_manifest 1 2 3 0 sample_sha sample_sha (key_id sample_key) integrity_retention_policy_id)"
    unfolding canonical_text_def sample_internal_def [symmetric]
    by (intro exI [of _ "ascii ''i''"] exI [of _ "''i''"] exI [of _ sample_internal])
       (simp add: sample_texts, simp add: sample_manifest_libs_def sample_internal_def internal_manifest_def ascii_def)
  show "canonical_text sample_manifest_libs ''public''
      (map (\<lambda>k. (k, jget k (internal_manifest 1 2 3 0 sample_sha sample_sha (key_id sample_key)
         integrity_retention_policy_id))) public_members)"
    unfolding canonical_text_def sample_internal_def [symmetric] sample_public_def [symmetric]
    by (intro exI [of _ "ascii ''p''"] exI [of _ "''p''"] exI [of _ sample_public])
       (simp add: sample_texts, simp add: sample_manifest_libs_def sample_public_def sample_internal_def
          internal_manifest_def public_members_def jget_def ascii_def)
qed

section \<open>A database with jobs\<close>

definition sample_job :: "uuid \<Rightarrow> job_status \<Rightarrow> job" where
  "sample_job k s = \<lparr>job_id = k, job_organization_id = sample_org, job_kind = KindIssuance, job_status = s,
     job_attempt = 1, job_issuance_id = Some (k + 100), job_verification_id = None, job_deadline_at = 500000000,
     job_correlation_id = 7, job_cancel_requested_at = None, job_safe_error_code = None,
     job_created_at = 10, job_updated_at = uint k\<rparr>"

definition sample_issued :: "uuid \<Rightarrow> issuance" where
  "sample_issued k = \<lparr>iss_id = k + 100, iss_organization_id = sample_org, iss_document_id = k + 200, iss_recipient_id = 4,
     iss_created_by_id = 2, iss_output_object_key = None, iss_output_sha256 = None, iss_output_deleted_at = None,
     iss_issued_at = 10\<rparr>"

definition sample_document :: "uuid \<Rightarrow> document" where
  "sample_document k = \<lparr>doc_id = k + 200, doc_organization_id = sample_org, doc_created_by_id = 2,
     doc_upload_request_id = 20, doc_source_object_key = ''source'', doc_expected_source_sha256 = sample_sha,
     doc_page_count = None, doc_created_at = 10\<rparr>"

text \<open>The evidence of a failed job whose output may still appear.\<close>

definition sample_tombstone :: "uuid \<Rightarrow> demo_issuance_result" where
  "sample_tombstone k = (new_dir sample_org k (k + 100) 1 9 (output_key_for sample_org (k + 100) ''pdf'') 11 11)
     \<lparr>dir_output_state := OutCleanupRequired, dir_safe_error_code := Some demo_stale_recovery_fence_code\<rparr>"

text \<open>
  A queued job, a retryable one, a failed one with its tombstone, and a job that a worker left
  processing after the tombstone was written.
\<close>

definition sample_jobs_world :: "fake_storage world" where
  "sample_jobs_world = sample_world\<lparr>w_db := sample_db\<lparr>
     db_jobs := [sample_job 40 Queued, sample_job 41 RetryableFailed, sample_job 42 Failed, sample_job 43 Processing],
     db_issuances := map sample_issued [40, 41, 42, 43], db_documents := map sample_document [40, 41, 42, 43],
     db_issuance_results := [sample_tombstone 42, new_dir sample_org 43 143 1 9 (output_key_for sample_org 143 ''pdf'') 11 11]\<rparr>\<rparr>"

definition sample_settings :: settings where
  "sample_settings = \<lparr>set_demo_mode = True, set_release_mode = None, set_fingerprint_enabled = False,
     set_fingerprint_key = None, set_signing_key_file = None, set_signing_passphrase_file = None\<rparr>"

lemma sample_jobs_distinct: "job_keys_distinct (w_db sample_jobs_world)"
  by (simp add: job_keys_distinct_def sample_jobs_world_def sample_job_def)

lemma sample_candidates:
  "map job_id (stale_candidates sample_jobs_world 100 25) = [42, 43]"
  "map job_id (stale_candidates sample_jobs_world 100 1) = [42]"
  "list_all (\<lambda>j. job_status j = Failed) (stale_candidates sample_jobs_world 100 1)"
  by (simp_all add: stale_candidates_def unlocked_jobs_def stale_candidate_def fenced_evidence_def sample_jobs_world_def
      sample_world_def sample_job_def sample_tombstone_def new_dir_def less_prod_def)

theorem claim_is_exclusive_witness:
  "(\<forall>E. wp (claim_next_job sample_settings demo_claim_options)
     (\<lambda>x w'. w_store w' = w_store sample_jobs_world \<and> (case x of
        None \<Rightarrow> if is_enabled sample_settings (co_enabled demo_claim_options)
          then claim_declined demo_claim_options sample_jobs_world (w_db w') else w_db w' = w_db sample_jobs_world
      | Some (k, token) \<Rightarrow> job_claimed demo_claim_options sample_jobs_world k token (w_db w')
          \<and> (\<forall>token'. token' = token \<or> refused w' (acquire_claimed E k token'))))
     (\<lambda>_ w'. w_db w' = w_db sample_jobs_world \<and> w_store w' = w_store sample_jobs_world) sample_jobs_world)
   \<and> claimable demo_claim_options sample_jobs_world (sample_job 40 Queued)"
proof
  show "claimable demo_claim_options sample_jobs_world (sample_job 40 Queued)"
    by (simp add: claimable_def claim_time_def oldest_job_def unlocked_jobs_def first_by_def sample_jobs_world_def
        sample_world_def sample_job_def past_timeout_def demo_claim_options_def)
qed (intro allI claim_is_exclusive [OF sample_jobs_distinct])

text \<open>The claim of the job that is processing, for the store of the samples.\<close>

definition sample_claim :: processing_claim where
  "sample_claim = processing_claim_of (sample_job 43 Processing) (sample_issued 43) (sample_document 43)
     (output_key_for sample_org 143 ''pdf'') 9"

theorem issuance_delivers_witness:
  "\<forall>E. wp (process_claimed_job E sample_ops sample_claim)
     (\<lambda>res w'. \<exists>d n cand sha seed key. fingerprint_key_for (pe_settings E) = Inr key \<and> signing_seed_for E = Inr seed
        \<and> db_evolves (w_db sample_jobs_world) d
        \<and> delivered fs_objects fs_object_bytes (\<lambda>_. sample_sha) E (w_limits sample_jobs_world) sample_claim key
            (w_store sample_jobs_world) (w_store w') n cand sha
        \<and> issuance_committed E sample_claim (pc_expected_source_sha256 sample_claim) sha (int n) cand
            (max 0 (pe_elapsed_ms E)) seed d (w_db w') res) (\<lambda>_ _. True) sample_jobs_world"
  by (intro allI issuance_delivers [OF sample_verified_storage])

theorem retry_is_bounded_witness:
  "wp (prepare_one_retry 200) (\<lambda>_ w'. w_store w' = w_store sample_jobs_world
        \<and> retry_outcome 200 (w_db sample_jobs_world) (w_db w'))
     (\<lambda>_ w'. w_db w' = w_db sample_jobs_world) sample_jobs_world"
  by (rule retry_is_bounded [OF sample_jobs_distinct])

theorem worker_cycles_evolve_witness:
  "\<forall>E V ops t. db_evolves (w_db sample_jobs_world) (w_db (snd (run_worker_cycle E V ops sample_jobs_world)))
     \<and> db_evolves (w_db sample_jobs_world) (w_db (snd (process_integrity_cycle E V ops t sample_jobs_world)))"
  using worker_cycles_evolve [OF sample_jobs_distinct] by blast

text \<open>With a limit of one the stale job 43 stays processing behind the tombstone of job 42.\<close>

theorem tombstones_starve_recovery_witness:
  "(\<forall>E. w_db (snd (reconcile_stale_jobs E sample_ops 1 (Some 200) (Some True) 100 sample_jobs_world)) = w_db sample_jobs_world)
   \<and> map job_id (stale_candidates sample_jobs_world 100 25) = [42, 43]"
  using tombstones_starve_recovery [of sample_jobs_world 200 100 1 _ sample_ops "Some True"] sample_jobs_distinct
    sample_candidates by simp

text \<open>An issuance is requested in a fresh service and a worker runs.\<close>

theorem history_is_permanent_witness:
  "\<forall>E V. let w1 = snd (create_issuance sample_libs sample_ops sample_issuer 4 20 77 sample_world);
       w2 = snd (run_worker_cycle E V sample_ops w1) in job_keys_distinct (w_db w2) \<and> history_kept (w_db w1) (w_db w2)"
proof (unfold Let_def, intro allI)
  fix E V
  have "system_reachable sample_ops sample_world" by (rule fresh) (simp add: sample_defs)
  then have "system_reachable sample_ops (snd (create_issuance sample_libs sample_ops sample_issuer 4 20 77 sample_world))"
    by (rule later) (rule issue)
  from history_is_permanent [OF this, of "snd (run_worker_cycle E V sample_ops (snd (create_issuance sample_libs sample_ops sample_issuer 4 20 77 sample_world)))"]
  show "job_keys_distinct (w_db (snd (run_worker_cycle E V sample_ops (snd (create_issuance sample_libs sample_ops sample_issuer 4 20 77 sample_world)))))
    \<and> history_kept (w_db (snd (create_issuance sample_libs sample_ops sample_issuer 4 20 77 sample_world)))
        (w_db (snd (run_worker_cycle E V sample_ops (snd (create_issuance sample_libs sample_ops sample_issuer 4 20 77 sample_world)))))"
    by (blast intro: demo_cycle)
qed

section \<open>Payloads and codewords\<close>

text \<open>The payload of issuance 5, with its last byte changed, is refused.\<close>

theorem payload_detects_corruption_witness:
  "case encode_payload 5 1 of Inl _ \<Rightarrow> False
   | Inr bs \<Rightarrow> (\<exists>e. decode_payload (bs[22 := bs ! 22 + 1]) = Inl e)"
proof -
  obtain bs where bs: "encode_payload 5 1 = Inr bs"
    by (simp add: encode_payload_def payload_profile_def Let_def)
  have "bs ! 22 + 1 \<noteq> bs ! 22" by simp
  from payload_detects_corruption [OF bs _ this] bs show ?thesis by simp
qed

text \<open>A codec that appends sixteen zero bytes and reads the message back.\<close>

definition sample_codec :: rs_codec where
  "sample_codec = \<lparr>rs_encode = (\<lambda>n m. m @ replicate (nat n) 0),
     rs_decode = (\<lambda>n w _. Some (take (length w - nat n) w))\<rparr>"

theorem framed_identity_votes_witness:
  "case encode_payload 5 1 of Inl _ \<Rightarrow> False | Inr m \<Rightarrow>
     (case encode_ecc sample_codec m 16 of Inl _ \<Rightarrow> False | Inr w \<Rightarrow>
        decode_payload_vote sample_codec w [] [3, 1] = Inr (Some (5, Fin 0)))"
proof -
  have c: "codec_reads_back sample_codec 16" by (simp add: codec_reads_back_def sample_codec_def)
  obtain m where m: "encode_payload 5 1 = Inr m" by (simp add: encode_payload_def payload_profile_def Let_def)
  then have "length m = 23" by (auto simp: encode_payload_def payload_profile_def crc_bytes_def Let_def)
  then obtain w where w: "encode_ecc sample_codec m 16 = Inr w"
    by (simp add: encode_ecc_def payload_profile_def validate_parity_symbols_def interleave_def)
  from framed_identity_votes [OF c m w] m w show ?thesis by simp
qed

section \<open>Quantization\<close>

text \<open>A one is written into the pair ten and three with a step of six.\<close>

theorem qim_survives_noise_witness:
  "\<exists>a' b' n c. qim_embed_pair (Fin 10) (Fin 3) 1 (Fin 6) = Inr (Fin a', Fin b')
     \<and> qim_extract_pair (Fin (a' + 1 / 4)) (Fin (b' - 1 / 4)) (Fin 6)
         = Inr \<lparr>qx_bit = 1, qx_lattice_index = n, qx_confidence = Fin c\<rparr> \<and> 74 / 100 < c"
  using qim_survives_noise [of 10 3 6 1 "1 / 4" "- (1 / 4)"] by auto

section \<open>The spread codec on a stream of zeros\<close>

text \<open>A keyed hash that returns zeros: every draw succeeds with zero after at most one more block.\<close>

definition sample_zero_hmac :: hmac where
  "sample_zero_hmac = (\<lambda>_ _. replicate 32 0)"

definition zero_stream :: "nat \<Rightarrow> byte_stream \<Rightarrow> bool" where
  "zero_stream c s \<longleftrightarrow> bs_counter s \<le> c \<and> list_all (\<lambda>b. b = 0) (bs_buffer s)"

lemma bit_length_bound: "n < 2 ^ bit_length n"
proof (induction n rule: bit_length.induct)
  case (1 n)
  show ?case
  proof (cases "n = 0")
    case False
    with 1 have "n div 2 < 2 ^ bit_length (n div 2)" by simp
    then have "n < 2 * 2 ^ bit_length (n div 2)" by (simp add: less_mult_imp_div_less div_less_iff_less_mult mult.commute)
    with False show ?thesis by (simp add: bit_length.simps [of n])
  qed simp
qed

lemma bit_length_le: "n < 2 ^ k \<Longrightarrow> bit_length n \<le> k"
proof (induction n arbitrary: k rule: bit_length.induct)
  case (1 n)
  show ?case
  proof (cases "n = 0")
    case False
    with 1(2) obtain l where "k = Suc l" by (cases k) auto
    with 1 False show ?thesis by (simp add: bit_length.simps [of n] less_mult_imp_div_less mult.commute)
  qed (simp add: bit_length.simps)
qed

lemma acceptance_limit_pos: "0 < upper \<Longrightarrow> 0 < acceptance_limit upper"
proof -
  assume "0 < upper"
  have "bit_length upper \<le> 8 * draw_bytes upper" by (simp add: draw_bytes_def)
  then have "(2 :: nat) ^ bit_length upper \<le> 2 ^ (8 * draw_bytes upper)" by (intro power_increasing) auto
  then have "upper < 256 ^ draw_bytes upper" using bit_length_bound [of upper] by (simp add: power_mult)
  moreover have "256 ^ draw_bytes upper mod upper < upper" using \<open>0 < upper\<close> by simp
  ultimately show ?thesis unfolding acceptance_limit_def Let_def by linarith
qed

lemma be_nat_zeros: "be_nat (replicate n 0) = 0"
proof -
  have "foldl (\<lambda>a b. a * 256 + unat b) 0 (replicate n (0 :: byte)) = 0" by (induction n) auto
  then show ?thesis by (simp add: be_nat_def)
qed

lemma zero_stream_draw:
  assumes "zero_stream c s" "c < 2 ^ 32" "0 < upper" "upper < 2 ^ 256"
  obtains t where "randbelow (stream_block sample_zero_hmac domain seed) upper s = Inr (0, t)" "zero_stream (Suc c) t"
proof -
  let ?block = "stream_block sample_zero_hmac domain seed" and ?n = "draw_bytes upper"
  have block: "?block k = replicate 32 0" for k by (simp add: stream_block_def sample_zero_hmac_def)
  have n: "?n \<le> 32" using bit_length_le [OF assms(4)] by (simp add: draw_bytes_def)
  obtain u where u: "stream_fill ?block ?n s = Inr u" "zero_stream (Suc c) u" "?n \<le> length (bs_buffer u)"
  proof (cases "?n \<le> length (bs_buffer s)")
    case True
    with assms(1) show ?thesis by (intro that [of s]) (simp_all add: stream_fill.simps zero_stream_def)
  next
    case False
    let ?u = "\<lparr>bs_counter = Suc (bs_counter s), bs_buffer = bs_buffer s @ ?block (bs_counter s)\<rparr>"
    have "stream_fill ?block ?n ?u = Inr ?u" using n by (subst stream_fill.simps) (simp add: block)
    then have "stream_fill ?block ?n s = Inr ?u"
      using False assms(1,2) by (subst stream_fill.simps) (simp add: zero_stream_def)
    then show ?thesis
      using assms(1) n by (intro that [of ?u]) (simp_all add: zero_stream_def block list_all_iff)
  qed
  have "take ?n (bs_buffer u) = replicate ?n 0"
    using u(2,3) by (intro replicate_eqI) (auto simp: zero_stream_def list_all_iff dest: in_set_takeD)
  then have "randbelow ?block upper s = Inr (0, u\<lparr>bs_buffer := drop ?n (bs_buffer u)\<rparr>)"
    using u(1) assms(3) acceptance_limit_pos [OF assms(3)]
    by (simp add: randbelow_def draw_below.simps [of _ upper s] stream_read_def be_nat_zeros)
  moreover have "zero_stream (Suc c) (u\<lparr>bs_buffer := drop ?n (bs_buffer u)\<rparr>)"
    using u(2) by (auto simp: zero_stream_def list_all_iff dest: in_set_dropD)
  ultimately show thesis by (rule that)
qed

lemma zero_stream_shuffle:
  "zero_stream c s \<Longrightarrow> c + i < 2 ^ 32 \<Longrightarrow>
     \<exists>ys t. shuffle_down (stream_block sample_zero_hmac domain seed) i xs s = Inr (ys, t) \<and> zero_stream (c + i) t"
proof (induction i arbitrary: c s xs)
  case (Suc i)
  have "Suc i + 1 < 2 ^ 256" using Suc(3) by (simp add: less_trans [of _ "2 ^ 32"])
  then obtain t where t: "randbelow (stream_block sample_zero_hmac domain seed) (Suc i + 1) s = Inr (0, t)" "zero_stream (Suc c) t"
    by (rule zero_stream_draw [OF Suc(2), of "Suc i + 1" domain seed, rotated 2]) (use Suc(3) in simp_all)
  from Suc(1) [OF t(2), of "swap_at xs (Suc i) 0"] Suc(3) t(1) show ?case by (simp add: sum_then_def)
qed simp

lemma zero_stream_group:
  "zero_stream c s \<Longrightarrow> c + length bs < 2 ^ 32 \<Longrightarrow>
     \<exists>g t. bit_group (stream_block sample_zero_hmac domain seed) edge bs s = Inr (g, t) \<and> zero_stream (c + length bs) t"
proof (induction bs arbitrary: c s)
  case (Cons b bs)
  then obtain t where t: "randbelow (stream_block sample_zero_hmac domain seed) 4 s = Inr (0, t)" "zero_stream (Suc c) t"
    using zero_stream_draw [of c s 4 domain seed] by auto
  from Cons(1) [OF t(2)] Cons(3) obtain g u where
    "bit_group (stream_block sample_zero_hmac domain seed) edge bs t = Inr (g, u)" "zero_stream (Suc c + length bs) u" by auto
  with t(1) show ?case by (auto simp: sum_then_def Let_def split: prod.splits)
qed simp

lemma zero_stream_groups:
  "zero_stream c s \<Longrightarrow> c + n * k < 2 ^ 32 \<Longrightarrow>
     \<exists>gs. bit_groups (stream_block sample_zero_hmac domain seed) edge k n selected s = Inr gs"
proof (induction n arbitrary: c s selected)
  case (Suc n)
  have le: "length (take k selected) \<le> k" by simp
  then have "c + length (take k selected) < 2 ^ 32" using Suc(3) by simp
  from zero_stream_group [OF Suc(2) this] obtain g t where
    g: "bit_group (stream_block sample_zero_hmac domain seed) edge (take k selected) s = Inr (g, t)"
      "zero_stream (c + length (take k selected)) t" by blast
  have "c + length (take k selected) + n * k < 2 ^ 32" using Suc(3) le by simp
  from Suc(1) [OF g(2) this] obtain gs where
    "bit_groups (stream_block sample_zero_hmac domain seed) edge k n (drop k selected) t = Inr gs" by blast
  with g(1) show ?case by (simp add: sum_then_def)
qed simp

text \<open>The frozen profile of version 3 with tiles of 384 pixels.\<close>

definition sample_v3 :: fingerprint_v3_profile where
  "sample_v3 = \<lparr>f3_schema_version = 3, f3_contract_sha256 = replicate 32 0, f3_qim_delta = 0x4040000000000000,
     f3_pilot_strength_rms = 0x4000000000000000, f3_spread_delta = 0x4010000000000000, f3_spread_chips_per_bit = 64,
     f3_saturated_fraction_min = 0x3FE8000000000000, f3_saturation_low = 16, f3_saturation_high = 239,
     f3_tile_size_px = 384, f3_tiles_per_page = 18, f3_payload_repetitions = 3, f3_bit_replication = 3,
     f3_bit_confidence_min = 0x3FE3333333333333, f3_pilot_score_min = 0x3FC999999999999A,
     f3_max_geometry_hypotheses = 8, f3_geometry_ratio_tolerance = 0x3F50624DD2F1A9FC,
     f3_crop_retained_scales = [0x3FEBB67AE8584CAA], f3_resize_interpolation = ''INTER_CUBIC''\<rparr>"

definition sample_tile :: sample_array where
  "sample_tile = \<lparr>sa_height = 384, sa_width = 384, sa_samples = replicate (384 ^ 2) (Fin 255)\<rparr>"

definition sample_mean :: "pyfloat list \<Rightarrow> pyfloat" where
  "sample_mean xs = (case f_of_int (int (length xs)) of Inl _ \<Rightarrow> NotANumber
     | Inr n \<Rightarrow> (case f_div (f_sum xs) n of Inl _ \<Rightarrow> NotANumber | Inr m \<Rightarrow> m))"

lemma sample_v3_doubles:
  "double_value 0x4040000000000000 = Some 32"
  "double_value 0x4000000000000000 = Some 2"
  "double_value 0x4010000000000000 = Some 4"
  "double_value 0x3FE8000000000000 = Some (3 / 4)"
  "double_value 0x3FE3333333333333 = Some (5404319552844595 / 9007199254740992)"
  "double_value 0x3FC999999999999A = Some (3602879701896397 / 18014398509481984)"
  "double_value 0x3F50624DD2F1A9FC = Some (1152921504606847 / 1152921504606846976)"
  "double_value 0x3FEBB67AE8584CAA = Some (3900231685776981 / 4503599627370496)"
  by (simp_all add: double_value_def Let_def)

lemma sample_v3_valid: "\<exists>w. candidate_identifier_v3 sample_v3 = Inr w"
  by (simp add: candidate_identifier_v3_def validate_v3_profile_def sample_v3_def sum_then_def sum_require_def
      require_positive_def require_count_def require_fraction_def require_real_def validate_crop_retained_scales_def
      sample_v3_doubles v3_fields_def struct_pack_def Let_def)

text \<open>The mean of equal samples that are small whole numbers is exact.\<close>

lemma f_sum_equal:
  assumes "n * k < 2 ^ 53"
  shows "f_sum (replicate n (Fin (of_nat k))) = Fin (of_nat (n * k))"
proof -
  have "foldl f_add (Fin (of_nat a)) (replicate n (Fin (of_nat k))) = Fin (of_nat (a + n * k))" if "a + n * k < 2 ^ 53" for a
    using that
  proof (induction n arbitrary: a)
    case (Suc n)
    have "f_add (Fin (of_nat a)) (Fin (of_nat k)) = Fin (of_nat (a + k))"
      using to_double_nat [of "a + k"] Suc(2) by simp
    with Suc(1) [of "a + k"] Suc(2) show ?case by (simp add: algebra_simps)
  qed simp
  from this [of 0] assms show ?thesis by (simp add: f_sum_def)
qed

lemma sample_mean_of_equals: "mean_of_equals sample_mean"
  unfolding mean_of_equals_def
proof (intro allI impI)
  fix n k :: nat
  assume a: "0 < n \<and> n \<le> 2 ^ 45 \<and> k \<le> 255"
  then have "n * k \<le> 2 ^ 45 * 255" by (intro mult_mono) auto
  then have nk: "n * k < 2 ^ 53" by simp
  have "f_of_int (int n) = Inr (Fin (of_nat n))" using f_of_int_small [of "int n"] a by simp
  moreover have "to_double (of_nat k) = Fin (of_nat k)" using to_double_nat [of k] a by simp
  ultimately show "sample_mean (replicate n (Fin (of_nat k))) = Fin (of_nat k)"
    using a by (simp add: sample_mean_def f_sum_equal [OF nk])
qed

lemma sample_groups: "\<exists>groups. chip_groups sample_zero_hmac [1] 0 sample_v3 = Inr groups"
proof -
  obtain w where w: "candidate_identifier_v3 sample_v3 = Inr w" using sample_v3_valid by blast
  let ?block = "stream_block sample_zero_hmac chip_stream_domain (sample_zero_hmac [1] (chip_seed_domain @ be_bytes 4 0 @ w))"
  have "zero_stream 0 empty_stream" by (simp add: zero_stream_def empty_stream_def)
  then have "\<exists>ys t. shuffle_down ?block 2303 [0..<2304] empty_stream = Inr (ys, t) \<and> zero_stream (0 + 2303) t"
    by (rule zero_stream_shuffle) simp
  then obtain order t where o: "shuffle_from ?block [0..<2304] empty_stream = Inr (order, t)" "zero_stream 2303 t"
    unfolding shuffle_from_def by auto
  have "\<exists>gs. bit_groups ?block 384 4 312 (take 1248 order) t = Inr gs"
    by (rule zero_stream_groups [OF o(2)]) simp
  then obtain groups where "bit_groups ?block 384 4 312 (take 1248 order) t = Inr groups" by blast
  with o(1) w show ?thesis
    by (simp add: chip_groups_def validate_spread_binding_def validate_bytes_def validate_page_index_def sum_then_def
        sum_require_def Let_def sample_v3_def chips_per_block_def spread_bits_def)
qed

text \<open>A codeword of 39 bytes in a white tile of the frozen profile.\<close>

theorem spread_roundtrip_witness:
  "case embed_spread_codeword sample_zero_hmac sample_mean sample_tile (replicate 39 5) [1] 0 sample_v3 of Inl _ \<Rightarrow> False
   | Inr marked \<Rightarrow>
       (case extract_spread_codeword sample_zero_hmac sample_mean marked [1] 0 sample_v3
          (embedding_polarity sample_mean sample_tile) of Inl _ \<Rightarrow> False | Inr e \<Rightarrow> se_codeword e = replicate 39 5)"
proof -
  have edge: "nat (f3_tile_size_px sample_v3) = 384" by (simp add: sample_v3_def)
  have delta: "py_float (f3_spread_delta sample_v3) = Fin (of_nat 4)"
    by (simp add: sample_v3_def py_float_def sample_v3_doubles)
  have "validate_spread_tile sample_tile sample_v3 = Inr ()"
    using sample_v3_valid edge
    by (auto simp: validate_spread_tile_def sample_tile_def sum_then_def sum_require_def list_all_iff list_ex_iff Let_def)
  then obtain marked where m: "embed_spread_codeword sample_zero_hmac sample_mean sample_tile (replicate 39 5) [1] 0 sample_v3 = Inr marked"
    using sample_groups by (auto simp: embed_spread_codeword_def validate_codeword_def sum_then_def sum_require_def Let_def)
  have "sa_samples sample_tile = replicate (nat (f3_tile_size_px sample_v3) ^ 2) (Fin (of_nat 255))"
    by (simp add: sample_tile_def edge)
  from spread_roundtrip [OF sample_mean_of_equals this delta _ _ m] edge m show ?thesis by simp
qed

theorem haar_restores_witness:
  "let a = \<lparr>sa_height = 3, sa_width = 1, sa_samples = [Fin 0, Fin 128, Fin 255]\<rparr>
   in case sum_then (haar_dwt2 a) haar_idwt2 of
     Inl _ \<Rightarrow> False
   | Inr r \<Rightarrow> same_shape r a
       \<and> list_all (\<lambda>(y, x). close_to (1 / 10000000000) (sample r y x) (sample a y x))
           (List.product [0..<sa_height a] [0..<sa_width a])"
  unfolding Let_def by (rule haar_restores) (simp_all add: bounded_by_def)

end
