(* ===== verification/Spec2Isabelle.thy ===== *)
theory Spec2Isabelle
  imports Samples
begin

text \<open>
  SplitBind: a Django control plane with a processing worker, and the research library that defines its
  formats. An organization's issuer uploads a document, which is issued to a recipient as a signed,
  watermarked copy; a verifier uploads a suspect file, which is matched against what was issued.

  \<^bold>\<open>The program and its parts.\<close> Paths are below \<open>services/api/splitbind\<close> unless they start otherwise.

  \<^item> An upload (\<open>uploads\<close>) is an intent with a signed link; the client writes the object, \<open>complete_upload\<close>
    compares it with what the object store (\<open>integrations/storage\<close>) reports.
  \<^item> \<open>jobs/services.py\<close> turns a finished upload into an issuance or a verification. It reserves a new key in one
    transaction, copies the object outside any, and writes document, domain row, job, outbox event and audit
    event in a second one.
  \<^item> The worker (\<open>demo/worker.py\<close>, \<open>release/worker.py\<close>) stages created jobs, claims one and runs it:
    \<open>demo/issuance.py\<close> builds the file, writes it under a key owned by a claim token and commits the evidence with the
    signed manifests (\<open>release/manifest.py\<close>); \<open>demo/verification.py\<close> reads a suspect file, resolves its
    source and commits the answer. A crashed worker is recovered by a later cycle, which takes the token over.
  \<^item> \<open>retention\<close> deletes what has expired and keeps deleting what it has fenced; \<open>audit\<close> and \<open>outbox\<close> only grow.
  \<^item> \<open>research/python/src/splitbind_ref\<close> holds the payload and its error correction, the keyed
    placement of tiles and bits, the codecs, the authentication of page regions and the reference manifests.

  \<^bold>\<open>How the model is built.\<close> A handler is a program over \<open>'st world\<close> (theory Schema): the database as one list of rows
  per table, the state of the object store, the clock, the source of fresh UUIDs, the settings.
  It ends in a value or in a Python exception (\<open>exn\<close> in Prelude); \<open>atomic\<close> restores the database when it ends in an
  exception, as \<open>transaction.atomic\<close> does, and \<open>on_store\<close> runs an operation of the object store, whose effect
  no rollback undoes. Transactions are serial: a row lock is held by whoever runs. Pure code is \<open>fun\<close> and
  \<open>definition\<close> with \<open>exn + 'a\<close> for what may raise. Python text is \<open>string\<close> (code points below 256), bytes are
  \<open>8 word list\<close>, aware datetimes are microseconds.

  \<^bold>\<open>Theories.\<close>

  \<^item> Prelude, PyLib, Utf8, Floats, Doubles: programs with their weakest preconditions (\<open>wp_simps\<close>, \<open>wp_intros\<close>), tables of
    rows, the parts of Python used, doubles as 64-bit words and as rounded rationals (\<open>f_add\<close>, \<open>f_mul\<close>,
    \<open>f_div\<close>, rounding to the nearest with ties to even).
  \<^item> StorageBase, ObjectStore: object keys, checks and the interface of a store (\<open>base.py\<close>), the in-memory store
    (\<open>fake.py\<close>).
  \<^item> Schema, Tables: the rows of all models; inserting and updating rows with the organization checks of
    \<open>access/models.py\<close>.
  \<^item> Access, AuditLog, JobState, Uploads, UploadServices, Outbox, Documents, DemoModels, Retention, JobServices:
    the application of the same name, each with its invariants.
  \<^item> Manifests, Artifact, Runtime: \<open>documents/manifests.py\<close> and \<open>release/manifest.py\<close>; the building of the issued file
    down to the bytes of the PDF; \<open>config/limits.py\<close>, \<open>release/mode.py\<close>, the marker's text.
  \<^item> Issuance (with IssuanceFacts, IssuanceCommit, IssuanceReplay), Verification (with VerificationFacts,
    VerificationCommit, VerificationReplay), Suspect, Worker (with WorkerFacts, WorkerRecovery): every transaction of
    the three modules, then what each does to the rows, then the properties.
  \<^item> Evolution, Rows, System: the relation every handler keeps, the facts on one written row, and the whole
    service as one step relation.
  \<^item> Payload, Ecc, Profiles, TileLayout, PayloadPositions, BitPacking, Spread, Qim, Haar, Codec, Votes, Geometry,
    Integrity, IntegrityProfile, RefManifest: the files of \<open>splitbind_ref\<close> named at the head of each theory.
  \<^item> Samples: a concrete organization with a finished upload, on which the properties with hypotheses are applied.

  \<^bold>\<open>Interfaces.\<close> \<open>object_storage\<close> and \<open>verified_object_storage\<close> are what callers rely on of a store; \<open>fake\<close> and
  \<open>fake_verified\<close> interpret them on the repository's own store. \<open>keyed_table\<close> is interpreted on each of
  the 16 tables. \<open>workflow_domain\<close> is what the second transaction of \<open>jobs/services.py\<close> needs of the domain rows, interpreted
  for issuances and for verifications, and \<open>copying_workflow\<close> adds the store to it. \<open>state_preorder\<close> and
  \<open>db_preorder\<close> make a relation on states compose over programs; \<open>evolution\<close> and \<open>world_evolution\<close> interpret them.

  \<^bold>\<open>What the lemmas show.\<close>

  \<^item> Every handler only lets the database evolve (\<open>db_evolves\<close>): no row is lost, every row moves along the graph of
    its table, evidence tables grow at their end, ids stay distinct. \<open>history_is_permanent\<close> carries this over
    all runs of \<open>system_step\<close>, where single transactions of workers are steps of their own, so that workers may crash,
    run at once or hold a claim too long.
  \<^item> Creating a job, committing an issuance and committing a verification are all or nothing; a claim
    belongs to one worker; a claim whose output was taken over changes nothing any more; a committed job
    is answered from its evidence; a recovery settles its job.
  \<^item> Cleanup never deletes an object that a row still needs; its reconciliation lane reaches every target in turn.
  \<^item> Signed manifests verify exactly when the key, the window and the canonical bytes agree.
  \<^item> Payloads, error correction, chips and quantized pairs can be read back, the Haar transform inverts within a
    bound, replicas outvote a damaged one, a page is attributed only by a quorum of its tiles, its content is cut tightly and
    the search for its geometry is bounded; placements are permutations without overlap; regions are judged by a vote
    of others.

  \<^bold>\<open>Bounds and termination.\<close> The stream of keyed bytes has a 32-bit block counter, so the draw by rejection and the
  shuffles end, at worst with the \<open>OverflowError\<close> of the counter (measure: counters left). The scan of a
  JPEG header takes one turn for at least one byte and has as many turns as the file has bytes. The chunked
  readers consume at least one byte a turn. No other loop needs a bound: they run over lists.

  \<^bold>\<open>Not modelled.\<close>

  \<^item> Third-party code is a parameter: boto3, pdfium, pypdf, OpenCV, numpy's transforms and means, zlib, reedsolo,
    Ed25519 and PEM, SHA-256 and HMAC, rfc8785, the JSON parser and schemas.
    \<open>s3.py\<close> only forwards to boto3.
  \<^item> Django and REST framework glue: views, serializers, settings, URL routes, management commands. The bulk
    methods of query sets that only refuse are left out.
  \<^item> The version 1 fingerprint (\<open>fingerprint.py\<close>), the embedding of pages and the synchronization by a pilot,
    which are numerical image processing over numpy and OpenCV arrays; benchmarks, attacks and reports, which are offline experiments.
\<close>

end
